(* ===== verification/Prelude_Z.thy ===== *)
theory Prelude_Z
  imports Complex_Main
begin

text \<open>
  Shared vocabulary of the development.

  \<^item> Python exceptions as the datatype \<open>exn\<close> and fallible code as \<open>exn + 'a\<close>; the answer of a
    request handler as \<open>reply\<close> (an accepted request, a request the handler rejects with an error
    status, or an exception no handler catches, which the framework answers with status 500).
  \<^item> The names a Python module binds (\<open>binding\<close>): some modules use a name that their imports do
    not bind, or bind to something else, and using it raises.
  \<^item> A database table as a \<open>tbl\<close>: its rows in primary key order and the last value of its key
    sequence.  A query reads the rows, \<open>create\<close> appends a row under the next key, \<open>save\<close> rewrites
    the row of that key (or inserts it when it is gone), \<open>delete\<close> drops rows.  A block
    \<open>with transaction.atomic()\<close> is a function that returns the new state only when it does not
    raise, so raising leaves the caller with the state it had.
  \<^item> Column ranges (\<open>IntegerField\<close>, \<open>PositiveIntegerField\<close>, \<open>DecimalField\<close>) as checks that raise
    \<open>DataError\<close> or \<open>IntegrityError\<close>.  A \<open>DecimalField\<close> with two decimal places is the \<open>int\<close> number
    of its hundredths; Python \<open>Decimal\<close> values that need more places are rationals.
  \<^item> Two interfaces (locales): a \<open>ledger\<close> whose level moves by given amounts (stock), and a
    \<open>guarded_system\<close> whose requests keep an invariant.
\<close>

section \<open>Exceptions, results and replies\<close>

named_theorems query_simps \<open>how the query functions evaluate\<close>
named_theorems table_simps \<open>how the table operations act on rows and keys\<close>

datatype exn =
    NameError string
  | AttributeError string
  | TypeError string
  | ValueError string
  | KeyError string
  | FieldError string
  | ImportError string
  | NotImplementedError
  | DoesNotExist string
  | MultipleObjectsReturned string
  | IntegrityError string
  | DataError string
  | ValidationError string
  | PermissionDenied
  | External string

type_synonym 'a res = "exn + 'a"

text \<open>\<open>res_is P r\<close>: the call returned, with a result that satisfies P.\<close>

definition res_is :: "('a \<Rightarrow> bool) \<Rightarrow> 'a res \<Rightarrow> bool" where
  "res_is P r = (case r of Inl e \<Rightarrow> False | Inr x \<Rightarrow> P x)"

lemma res_isE:
  assumes "res_is P r"
  obtains x where "r = Inr x" "P x"
  using assms by (auto simp: res_is_def split: sum.splits)

datatype 'a reply =
    OK nat 'a
  | Reject nat exn
  | Crash exn

primrec accepted :: "'a reply \<Rightarrow> bool" where
  "accepted (OK n x) = True"
| "accepted (Reject n e) = False"
| "accepted (Crash e) = False"

lemma accepted_iff: "accepted r \<longleftrightarrow> (\<exists>n x. r = OK n x)"
  by (cases r) auto

text \<open>\<open>reply_is n P r\<close>: a handler accepted with status n, and its answer and new state satisfy P.\<close>

definition reply_is :: "nat \<Rightarrow> ('a \<Rightarrow> 's \<Rightarrow> bool) \<Rightarrow> 'a reply \<times> 's \<Rightarrow> bool" where
  "reply_is n P r = (case r of (OK m x, s) \<Rightarrow> m = n \<and> P x s | (Reject m e, s) \<Rightarrow> False | (Crash e, s) \<Rightarrow> False)"

lemma reply_isE:
  assumes "reply_is n P r"
  obtains x s where "r = (OK n x, s)" "P x s"
  using assms by (auto simp: reply_is_def split: prod.splits reply.splits)

section \<open>Names bound by a Python module\<close>

text \<open>
  \<open>Bound\<close>: the name is the module or class the code means.  \<open>BoundElsewhere\<close>: the module binds
  the name to another object that lacks the attribute the code uses.  \<open>Unbound\<close>: no import
  binds it.
\<close>

datatype binding = Bound | BoundElsewhere | Unbound

primrec use_name :: "binding \<Rightarrow> string \<Rightarrow> unit res" where
  "use_name Bound n = Inr ()"
| "use_name BoundElsewhere n = Inl (AttributeError n)"
| "use_name Unbound n = Inl (NameError n)"

record module_env =
  env_time :: binding
  env_timezone :: binding
  env_Decimal :: binding

definition full_env :: module_env where
  "full_env = \<lparr>env_time = Bound, env_timezone = Bound, env_Decimal = Bound\<rparr>"

lemma use_name_Inr: "use_name b n = Inr u \<longleftrightarrow> b = Bound"
  by (cases b) auto

section \<open>Column ranges\<close>

definition int4_ok :: "int \<Rightarrow> bool" where
  "int4_ok x \<longleftrightarrow> - 2147483648 \<le> x \<and> x \<le> 2147483647"

definition numeric_ok :: "nat \<Rightarrow> int \<Rightarrow> bool" where
  "numeric_ok digits c \<longleftrightarrow> \<bar>c\<bar> < 10 ^ digits"

definition check_int4 :: "string \<Rightarrow> int \<Rightarrow> unit res" where
  "check_int4 col x = (if int4_ok x then Inr () else Inl (DataError col))"

definition check_posint :: "string \<Rightarrow> int \<Rightarrow> unit res" where
  "check_posint col x =
     (if \<not> int4_ok x then Inl (DataError col)
      else if x < 0 then Inl (IntegrityError col) else Inr ())"

definition check_numeric :: "string \<Rightarrow> nat \<Rightarrow> int \<Rightarrow> unit res" where
  "check_numeric col digits c = (if numeric_ok digits c then Inr () else Inl (DataError col))"

lemma check_int4_Inr: "check_int4 col x = Inr u \<longleftrightarrow> int4_ok x"
  by (simp add: check_int4_def)

lemma check_posint_Inr: "check_posint col x = Inr u \<longleftrightarrow> int4_ok x \<and> 0 \<le> x"
  by (auto simp: check_posint_def)

lemma check_numeric_Inr: "check_numeric col d c = Inr u \<longleftrightarrow> numeric_ok d c"
  by (simp add: check_numeric_def)

text \<open>Storing a Decimal in a two-place column: the database rounds half away from zero.\<close>

definition to_cents :: "rat \<Rightarrow> int" where
  "to_cents x = (if 0 \<le> x then \<lfloor>x * 100 + 1/2\<rfloor> else - \<lfloor>- x * 100 + 1/2\<rfloor>)"

definition of_cents :: "int \<Rightarrow> rat" where
  "of_cents c = of_int c / 100"

lemma to_cents_of_cents [simp]: "to_cents (of_cents c) = c"
proof (cases "0 \<le> c")
  case True
  then show ?thesis by (simp add: to_cents_def of_cents_def floor_unique)
next
  case False
  then have "\<lfloor>- of_int c + (1/2 :: rat)\<rfloor> = - c"
    by (intro floor_unique) auto
  with False show ?thesis by (simp add: to_cents_def of_cents_def)
qed

lemma of_cents_le_iff [simp]: "of_cents a \<le> of_cents b \<longleftrightarrow> a \<le> b"
  by (simp add: of_cents_def divide_le_cancel)

lemma of_cents_less_iff [simp]: "of_cents a < of_cents b \<longleftrightarrow> a < b"
  by (simp add: of_cents_def divide_less_cancel)

lemma of_cents_0 [simp]: "of_cents 0 = 0"
  by (simp add: of_cents_def)

lemma of_cents_add: "of_cents (a + b) = of_cents a + of_cents b"
  by (simp add: of_cents_def add_divide_distrib)

lemma of_cents_nonneg [simp]: "0 \<le> of_cents a \<longleftrightarrow> 0 \<le> a"
  by (simp add: of_cents_def zero_le_divide_iff)

section \<open>Tables\<close>

record 'r tbl =
  rows :: "'r list"
  seq :: int

definition empty_tbl :: "'r tbl" where
  "empty_tbl = \<lparr>rows = [], seq = 0\<rparr>"

definition t_add :: "(int \<Rightarrow> 'r) \<Rightarrow> 'r tbl \<Rightarrow> 'r \<times> 'r tbl" where
  "t_add f t = (f (seq t + 1), \<lparr>rows = rows t @ [f (seq t + 1)], seq = seq t + 1\<rparr>)"

definition t_find :: "('r \<Rightarrow> int) \<Rightarrow> int \<Rightarrow> 'r tbl \<Rightarrow> 'r option" where
  "t_find pk i t = find (\<lambda>r. pk r = i) (rows t)"

definition t_upd :: "('r \<Rightarrow> bool) \<Rightarrow> ('r \<Rightarrow> 'r) \<Rightarrow> 'r tbl \<Rightarrow> 'r tbl" where
  "t_upd P f t = t\<lparr>rows := map (\<lambda>r. if P r then f r else r) (rows t)\<rparr>"

definition t_save :: "('r \<Rightarrow> int) \<Rightarrow> 'r \<Rightarrow> 'r tbl \<Rightarrow> 'r tbl" where
  "t_save pk r t =
     (if t_find pk (pk r) t = None then t\<lparr>rows := rows t @ [r]\<rparr>
      else t_upd (\<lambda>x. pk x = pk r) (\<lambda>_. r) t)"

definition t_del :: "('r \<Rightarrow> bool) \<Rightarrow> 'r tbl \<Rightarrow> 'r tbl" where
  "t_del P t = t\<lparr>rows := filter (\<lambda>r. \<not> P r) (rows t)\<rparr>"

definition t_wf :: "('r \<Rightarrow> int) \<Rightarrow> 'r tbl \<Rightarrow> bool" where
  "t_wf pk t \<longleftrightarrow> distinct (map pk (rows t)) \<and> (\<forall>r \<in> set (rows t). 0 < pk r \<and> pk r \<le> seq t) \<and> 0 \<le> seq t"

text \<open>\<open>Model.objects.filter(...)\<close>, \<open>.get(...)\<close>, \<open>.filter(...).first()\<close>, \<open>.count()\<close>, \<open>.exists()\<close>.\<close>

definition qs_filter :: "('r \<Rightarrow> bool) \<Rightarrow> 'r tbl \<Rightarrow> 'r list" where
  "qs_filter P t = filter P (rows t)"

definition qs_get :: "string \<Rightarrow> ('r \<Rightarrow> bool) \<Rightarrow> 'r tbl \<Rightarrow> 'r res" where
  "qs_get model P t =
     (case qs_filter P t of
        [] \<Rightarrow> Inl (DoesNotExist model)
      | [r] \<Rightarrow> Inr r
      | _ \<Rightarrow> Inl (MultipleObjectsReturned model))"

definition qs_first :: "('r \<Rightarrow> bool) \<Rightarrow> 'r tbl \<Rightarrow> 'r option" where
  "qs_first P t = find P (rows t)"

definition qs_count :: "('r \<Rightarrow> bool) \<Rightarrow> 'r tbl \<Rightarrow> nat" where
  "qs_count P t = length (qs_filter P t)"

definition qs_exists :: "('r \<Rightarrow> bool) \<Rightarrow> 'r tbl \<Rightarrow> bool" where
  "qs_exists P t \<longleftrightarrow> list_ex P (rows t)"

lemma rows_empty_tbl [table_simps]: "rows empty_tbl = []"
  by (simp add: empty_tbl_def)

lemma rows_t_upd [table_simps]: "rows (t_upd P f t) = map (\<lambda>r. if P r then f r else r) (rows t)"
  by (simp add: t_upd_def)

lemma rows_t_del [table_simps]: "rows (t_del P t) = filter (\<lambda>r. \<not> P r) (rows t)"
  by (simp add: t_del_def)

lemma seq_t_upd [table_simps]: "seq (t_upd P f t) = seq t"
  by (simp add: t_upd_def)

lemma seq_t_del [table_simps]: "seq (t_del P t) = seq t"
  by (simp add: t_del_def)

lemma seq_t_save [table_simps]: "seq (t_save pk r t) = seq t"
  by (simp add: t_save_def t_upd_def)

lemma t_find_pk: "t_find pk i t = Some r \<Longrightarrow> pk r = i"
  by (auto simp: t_find_def find_Some_iff)

lemma t_find_mem: "t_find pk i t = Some r \<Longrightarrow> r \<in> set (rows t)"
  by (auto simp: t_find_def find_Some_iff)

lemma t_find_None: "t_find pk i t = None \<longleftrightarrow> (\<forall>r \<in> set (rows t). pk r \<noteq> i)"
  by (auto simp: t_find_def find_None_iff)

lemma find_append_option:
  "find P (xs @ ys) = (case find P xs of None \<Rightarrow> find P ys | Some x \<Rightarrow> Some x)"
  by (induction xs) auto

lemma find_map_same:
  assumes "\<And>x. p (f x) = p x"
  shows "find p (map f xs) = map_option f (find p xs)"
  using assms by (induction xs) auto

lemma find_map_upd:
  assumes "\<And>x. pk x = k \<Longrightarrow> pk (f x) = k"
  shows "find (\<lambda>x. pk x = i) (map (\<lambda>x. if pk x = k then f x else x) xs)
       = (if i = k then map_option f (find (\<lambda>x. pk x = i) xs) else find (\<lambda>x. pk x = i) xs)"
  using assms by (induction xs) auto

lemma t_find_t_save:
  "t_find pk i (t_save pk r t) = (if i = pk r then Some r else t_find pk i t)"
proof (cases "t_find pk (pk r) t")
  case None
  then have "t_save pk r t = t\<lparr>rows := rows t @ [r]\<rparr>" by (simp add: t_save_def)
  then have "t_find pk i (t_save pk r t)
      = (case t_find pk i t of None \<Rightarrow> (if pk r = i then Some r else None) | Some x \<Rightarrow> Some x)"
    by (simp add: t_find_def find_append_option split: option.splits)
  with None show ?thesis by (cases "i = pk r") (auto split: option.splits)
next
  case (Some r')
  then show ?thesis
    by (auto simp: t_save_def t_find_def t_upd_def find_map_upd)
qed

lemma t_find_t_add:
  assumes "t_wf pk t" and "\<And>i. pk (f i) = i"
  shows "t_find pk i (snd (t_add f t)) = (if i = seq t + 1 then Some (f i) else t_find pk i t)"
proof -
  have "t_find pk (seq t + 1) t = None"
    using assms(1) by (auto simp: t_find_None t_wf_def)
  with assms(2) show ?thesis
    by (auto simp: t_add_def t_find_def find_append_option split: option.splits)
qed

lemma t_wf_t_add:
  assumes "t_wf pk t" and "\<And>i. pk (f i) = i"
  shows "t_wf pk (snd (t_add f t))"
  using assms by (auto simp: t_wf_def t_add_def)

lemma t_wf_t_del: "t_wf pk t \<Longrightarrow> t_wf pk (t_del P t)"
  by (auto simp: t_wf_def t_del_def distinct_map_filter)

lemma t_wf_find_None_0: "t_wf pk t \<Longrightarrow> t_find pk 0 t = None"
  by (auto simp: t_wf_def t_find_None)

lemma map_pk_t_upd:
  assumes "\<And>x. P x \<Longrightarrow> pk (f x) = pk x"
  shows "map pk (rows (t_upd P f t)) = map pk (rows t)"
  using assms by (auto simp: t_upd_def)

lemma t_wf_t_upd:
  assumes "t_wf pk t" and "\<And>x. P x \<Longrightarrow> pk (f x) = pk x"
  shows "t_wf pk (t_upd P f t)"
proof -
  have "map pk (rows (t_upd P f t)) = map pk (rows t)"
    by (rule map_pk_t_upd) (rule assms(2))
  moreover have "\<forall>r \<in> set (rows (t_upd P f t)). 0 < pk r \<and> pk r \<le> seq (t_upd P f t)"
  proof
    fix r assume "r \<in> set (rows (t_upd P f t))"
    then have "pk r \<in> set (map pk (rows t))"
      using calculation by (metis image_eqI set_map)
    with assms(1) show "0 < pk r \<and> pk r \<le> seq (t_upd P f t)"
      by (auto simp: t_wf_def seq_t_upd)
  qed
  ultimately show ?thesis using assms(1) by (simp add: t_wf_def seq_t_upd)
qed

lemma t_find_t_upd:
  assumes "\<And>x. pk x = k \<Longrightarrow> pk (f x) = k"
  shows "t_find pk i (t_upd (\<lambda>x. pk x = k) f t)
       = (if i = k then map_option f (t_find pk i t) else t_find pk i t)"
  unfolding t_find_def t_upd_def using find_map_upd [where pk = pk and k = k and f = f] assms by simp

lemma t_wf_t_save:
  assumes "t_wf pk t" and "t_find pk (pk r) t \<noteq> None"
  shows "t_wf pk (t_save pk r t)"
  using assms by (auto simp: t_save_def intro!: t_wf_t_upd)

lemma t_wf_find_unique:
  assumes "t_wf pk t" and "r \<in> set (rows t)"
  shows "t_find pk (pk r) t = Some r"
proof -
  have "distinct (map pk xs) \<Longrightarrow> r \<in> set xs \<Longrightarrow> find (\<lambda>x. pk x = pk r) xs = Some r" for xs
    by (induction xs) (auto simp: image_iff)
  with assms show ?thesis by (simp add: t_wf_def t_find_def)
qed

lemma find_iff_mem:
  assumes "t_wf pk t"
  shows "t_find pk i t = Some r \<longleftrightarrow> r \<in> set (rows t) \<and> pk r = i"
  using assms t_wf_find_unique t_find_mem t_find_pk by metis

subsection \<open>Queries\<close>

lemma qs_get_Inr: "qs_get m P t = Inr r \<longleftrightarrow> filter P (rows t) = [r]"
  by (auto simp: qs_get_def qs_filter_def split: list.splits)

lemma qs_get_InrD: "qs_get m P t = Inr r \<Longrightarrow> r \<in> set (rows t) \<and> P r"
proof -
  assume "qs_get m P t = Inr r"
  then have "r \<in> set (filter P (rows t))" by (simp add: qs_get_Inr)
  then show ?thesis by simp
qed

lemma qs_get_DoesNotExist:
  "qs_get m P t = Inl (DoesNotExist m) \<longleftrightarrow> (\<forall>r \<in> set (rows t). \<not> P r)"
proof -
  have "qs_get m P t = Inl (DoesNotExist m) \<longleftrightarrow> filter P (rows t) = []"
    by (auto simp: qs_get_def qs_filter_def split: list.splits)
  then show ?thesis by (simp add: filter_empty_conv)
qed

lemma qs_get_exn:
  "qs_get m P t = Inl e \<Longrightarrow> e = DoesNotExist m \<or> e = MultipleObjectsReturned m"
  by (auto simp: qs_get_def split: list.splits)

lemma qs_exists_iff [query_simps]: "qs_exists P t \<longleftrightarrow> (\<exists>r \<in> set (rows t). P r)"
  by (simp add: qs_exists_def list_ex_iff)

lemma qs_first_None: "qs_first P t = None \<longleftrightarrow> (\<forall>r \<in> set (rows t). \<not> P r)"
  by (auto simp: qs_first_def find_None_iff)

lemma qs_first_SomeD: "qs_first P t = Some r \<Longrightarrow> r \<in> set (rows t) \<and> P r"
  by (auto simp: qs_first_def find_Some_iff)

text \<open>Where at most one row can match (a unique constraint), \<open>get\<close> is found-or-not.\<close>

definition unique_on :: "('r \<Rightarrow> 'k) \<Rightarrow> 'r tbl \<Rightarrow> bool" where
  "unique_on key t \<longleftrightarrow> distinct (map key (rows t))"

lemma filter_key_unique:
  assumes "distinct (map key xs)" and "r \<in> set xs" and "P r" and "\<And>x. P x \<Longrightarrow> key x = key r"
  shows "filter P xs = [r]"
  using assms
proof (induction xs)
  case Nil
  then show ?case by simp
next
  case (Cons x xs)
  show ?case
  proof (cases "x = r")
    case True
    have "\<not> P y" if "y \<in> set xs" for y
    proof
      assume "P y"
      then have "key y = key x" using Cons.prems(4) True by simp
      with that Cons.prems(1) show False by (metis distinct.simps(2) image_eqI list.simps(9) set_map)
    qed
    then have "filter P xs = []" by (simp add: filter_empty_conv)
    with True Cons.prems(3) show ?thesis by simp
  next
    case False
    then have r: "r \<in> set xs" using Cons.prems(2) by simp
    then have "key r \<in> key ` set xs" by (rule imageI)
    with Cons.prems(1) have "key x \<noteq> key r" by auto
    then have "\<not> P x" using Cons.prems(4) by blast
    moreover have "distinct (map key xs)" using Cons.prems(1) by simp
    then have "filter P xs = [r]" by (rule Cons.IH [OF _ r Cons.prems(3,4)])
    ultimately show ?thesis by simp
  qed
qed

lemma qs_get_unique:
  assumes "unique_on key t" and "r \<in> set (rows t)" and "P r" and "\<And>x. P x \<Longrightarrow> key x = key r"
  shows "qs_get m P t = Inr r"
proof -
  have "filter P (rows t) = [r]"
    using assms(1) unfolding unique_on_def
    by (rule filter_key_unique) (use assms in blast)+
  then show ?thesis by (simp add: qs_get_Inr)
qed

lemma qs_get_pk:
  assumes "t_wf pk t" and "r \<in> set (rows t)" and "P r" and "\<And>x. P x \<Longrightarrow> pk x = pk r"
  shows "qs_get m P t = Inr r"
proof (rule qs_get_unique [of pk])
  show "unique_on pk t" using assms(1) by (simp add: t_wf_def unique_on_def)
qed (use assms in blast)+

lemma distinct_map_replace:
  assumes "distinct (map pk xs)" and "distinct (map key xs)"
    and "\<And>x. x \<in> set xs \<Longrightarrow> pk x \<noteq> pk r \<Longrightarrow> key x \<noteq> key r"
  shows "distinct (map key (map (\<lambda>x. if pk x = pk r then r else x) xs))"
  using assms
proof (induction xs)
  case Nil
  then show ?case by simp
next
  case (Cons x xs)
  show ?case
  proof (cases "pk x = pk r")
    case True
    then have no: "\<forall>y \<in> set xs. pk y \<noteq> pk r"
      using Cons.prems(1) by (metis distinct.simps(2) image_eqI list.simps(9) set_map)
    then have "map (\<lambda>x. if pk x = pk r then r else x) xs = xs" by (simp add: map_idI)
    moreover have "key r \<notin> key ` set xs" using Cons.prems(3) no by force
    ultimately show ?thesis using Cons.prems(2) True by (simp del: map_map)
  next
    case False
    then have "key x \<noteq> key r" using Cons.prems(3) by simp
    with False Cons show ?thesis by (auto split: if_splits)
  qed
qed

lemma unique_on_t_save:
  assumes "t_wf pk t" and "unique_on key t" and "t_find pk (pk r) t \<noteq> None"
    and "\<And>x. x \<in> set (rows t) \<Longrightarrow> pk x \<noteq> pk r \<Longrightarrow> key x \<noteq> key r"
  shows "unique_on key (t_save pk r t)"
proof -
  have "t_save pk r t = t_upd (\<lambda>x. pk x = pk r) (\<lambda>_. r) t" using assms(3) by (auto simp: t_save_def)
  moreover have "distinct (map key (map (\<lambda>x. if pk x = pk r then r else x) (rows t)))"
    using assms by (intro distinct_map_replace) (simp_all add: t_wf_def unique_on_def)
  ultimately show ?thesis by (simp add: unique_on_def rows_t_upd)
qed

section \<open>Request bodies\<close>

text \<open>The number of characters of a UTF-8 string: the bytes that do not continue a character.\<close>

definition chars :: "string \<Rightarrow> nat" where
  "chars s = length (filter (\<lambda>c. \<not> (128 \<le> (of_char c :: nat) \<and> (of_char c :: nat) < 192)) s)"

text \<open>A member of the body that may be missing only when the update is partial.\<close>

definition needed :: "bool \<Rightarrow> 'a option \<Rightarrow> ('a \<Rightarrow> bool) \<Rightarrow> bool" where
  "needed partial x ok \<longleftrightarrow> (case x of None \<Rightarrow> partial | Some v \<Rightarrow> ok v)"

definition optional :: "'a option \<Rightarrow> ('a \<Rightarrow> bool) \<Rightarrow> bool" where
  "optional x ok = needed True x ok"

definition text_ok :: "nat \<Rightarrow> string \<Rightarrow> bool" where
  "text_ok n s \<longleftrightarrow> s \<noteq> [] \<and> chars s \<le> n"

text \<open>A member that is absent leaves the column as it is.\<close>

definition or_default :: "'a option \<Rightarrow> 'a \<Rightarrow> 'a" where
  "or_default x d = (case x of None \<Rightarrow> d | Some v \<Rightarrow> v)"

section \<open>A ledger: levels that move by given amounts\<close>

fun move_all :: "('k \<Rightarrow> int \<Rightarrow> 's \<Rightarrow> 'e + 's) \<Rightarrow> ('k \<times> int) list \<Rightarrow> 's \<Rightarrow> 'e + 's" where
  "move_all mv [] s = Inr s"
| "move_all mv ((k, d) # ms) s = (case mv k d s of Inl e \<Rightarrow> Inl e | Inr s' \<Rightarrow> move_all mv ms s')"

definition total_of :: "'k \<Rightarrow> ('k \<times> int) list \<Rightarrow> int" where
  "total_of k ms = sum_list (map snd (filter (\<lambda>m. fst m = k) ms))"

lemma total_of_Nil [simp]: "total_of k [] = 0"
  by (simp add: total_of_def)

lemma total_of_Cons [simp]: "total_of k ((j, d) # ms) = (if j = k then d else 0) + total_of k ms"
  by (simp add: total_of_def)

lemma total_of_append [simp]: "total_of k (ms @ ns) = total_of k ms + total_of k ns"
  by (simp add: total_of_def)

lemma total_of_neg: "total_of k (map (\<lambda>(j, d). (j, - d)) ms) = - total_of k ms"
  by (induction ms) auto

lemma move_all_append:
  "move_all mv (ms @ ns) s = (case move_all mv ms s of Inl e \<Rightarrow> Inl e | Inr s' \<Rightarrow> move_all mv ns s')"
  by (induction mv ms s rule: move_all.induct) (auto split: sum.splits)

locale ledger =
  fixes move :: "'k \<Rightarrow> int \<Rightarrow> 's \<Rightarrow> 'e + 's"
    and level :: "'s \<Rightarrow> 'k \<Rightarrow> int option"
    and valid :: "'s \<Rightarrow> bool"
  assumes move_level:
    "valid s \<Longrightarrow> move k d s = Inr s' \<Longrightarrow>
       level s k \<noteq> None \<and> level s' = (level s)(k := map_option (\<lambda>v. v + d) (level s k))"
    and move_valid: "valid s \<Longrightarrow> move k d s = Inr s' \<Longrightarrow> valid s'"
begin

lemma move_all_valid: "valid s \<Longrightarrow> move_all move ms s = Inr s' \<Longrightarrow> valid s'"
proof (induction ms arbitrary: s)
  case Nil
  then show ?case by simp
next
  case (Cons m ms)
  obtain j d where m: "m = (j, d)" by (cases m)
  with Cons.prems obtain s1 where "move j d s = Inr s1" "move_all move ms s1 = Inr s'"
    by (auto split: sum.splits)
  then show ?case using Cons.IH move_valid [OF Cons.prems(1)] by blast
qed

lemma move_all_level:
  "valid s \<Longrightarrow> move_all move ms s = Inr s' \<Longrightarrow>
     level s' k = map_option (\<lambda>v. v + total_of k ms) (level s k)"
proof (induction ms arbitrary: s)
  case Nil
  then show ?case by (cases "level s k") auto
next
  case (Cons m ms)
  obtain j d where m: "m = (j, d)" by (cases m)
  with Cons.prems obtain s1 where s1: "move j d s = Inr s1" "move_all move ms s1 = Inr s'"
    by (auto split: sum.splits)
  have "level s1 = (level s)(j := map_option (\<lambda>v. v + d) (level s j))"
    using move_level [OF Cons.prems(1) s1(1)] by simp
  with Cons.IH [OF move_valid [OF Cons.prems(1) s1(1)] s1(2)] m show ?case
    by (cases "level s k") (auto simp: algebra_simps)
qed

lemma move_all_dom:
  "valid s \<Longrightarrow> move_all move ms s = Inr s' \<Longrightarrow> dom (level s') = dom (level s)"
  by (auto simp: dom_def move_all_level)

lemma move_all_inverse:
  assumes "valid s" and "move_all move ms s = Inr s1" and "move_all move ns s1 = Inr s2"
    and "\<And>k. total_of k ns = - total_of k ms"
  shows "level s2 = level s"
proof
  fix k
  show "level s2 k = level s k"
    using move_all_level [OF assms(1,2), of k]
      move_all_level [OF move_all_valid [OF assms(1,2)] assms(3), of k] assms(4) [of k]
    by (cases "level s k") auto
qed

end

section \<open>Requests that keep an invariant\<close>

definition run_requests :: "('op \<Rightarrow> 's \<Rightarrow> 'r \<times> 's) \<Rightarrow> 'op list \<Rightarrow> 's \<Rightarrow> 's" where
  "run_requests h ops s = fold (\<lambda>op st. snd (h op st)) ops s"

lemma run_requests_simps [simp]:
  "run_requests h [] s = s"
  "run_requests h (op # ops) s = run_requests h ops (snd (h op s))"
  by (simp_all add: run_requests_def)

locale guarded_system =
  fixes handle :: "'op \<Rightarrow> 's \<Rightarrow> 'r \<times> 's"
    and inv :: "'s \<Rightarrow> bool"
  assumes handle_inv: "inv s \<Longrightarrow> inv (snd (handle op s))"
begin

lemma run_inv: "inv s \<Longrightarrow> inv (run_requests handle ops s)"
  by (induction ops arbitrary: s) (auto intro: handle_inv)

end

section \<open>Lists\<close>

lemma sum_list_map_filter_split:
  "sum_list (map f xs) = sum_list (map f (filter P xs)) + (sum_list (map f (filter (\<lambda>x. \<not> P x) xs)) :: int)"
  by (induction xs) auto

lemma sum_list_nonneg_int: "(\<And>x. x \<in> set xs \<Longrightarrow> 0 \<le> f x) \<Longrightarrow> 0 \<le> sum_list (map f xs :: int list)"
  by (induction xs) (auto intro: add_nonneg_nonneg)

section \<open>Decimal numerals and Python truth values\<close>

definition digit :: "nat \<Rightarrow> char" where
  "digit d = char_of (48 + d)"

fun dec_of :: "nat \<Rightarrow> string" where
  "dec_of n = (if n < 10 then [digit n] else dec_of (n div 10) @ [digit (n mod 10)])"

declare dec_of.simps [simp del]

definition undec :: "string \<Rightarrow> nat" where
  "undec s = foldl (\<lambda>a c. 10 * a + (of_char c - 48)) 0 s"

definition dec_int :: "int \<Rightarrow> string" where
  "dec_int i = (if i < 0 then CHR ''-'' # dec_of (nat (- i)) else dec_of (nat i))"

text \<open>\<open>f"{n:0wd}"\<close>: left-padded with zeros to width w.\<close>

definition pad_dec :: "nat \<Rightarrow> nat \<Rightarrow> string" where
  "pad_dec w n = replicate (w - length (dec_of n)) CHR ''0'' @ dec_of n"

lemma of_char_digit: "d < 10 \<Longrightarrow> of_char (digit d) = (48 + d :: nat)"
  by (simp add: digit_def)

lemma undec_append: "undec (s @ [c]) = 10 * undec s + (of_char c - 48)"
  by (simp add: undec_def)

lemma undec_dec_of: "undec (dec_of n) = n"
proof (induction n rule: dec_of.induct)
  case (1 n)
  show ?case
  proof (cases "n < 10")
    case True
    then show ?thesis by (simp add: dec_of.simps [of n] undec_def of_char_digit)
  next
    case False
    with 1 have "undec (dec_of n) = 10 * (n div 10) + (of_char (digit (n mod 10)) - 48)"
      by (simp add: dec_of.simps [of n] undec_append)
    then show ?thesis by (simp add: of_char_digit)
  qed
qed

lemma undec_zeros: "undec (replicate k CHR ''0'' @ s) = undec s"
  by (induction k) (simp_all add: undec_def)

lemma undec_pad_dec: "undec (pad_dec w n) = n"
  by (simp add: pad_dec_def undec_zeros undec_dec_of)

lemma length_dec_of_le: "n < 10 ^ k \<Longrightarrow> 0 < k \<Longrightarrow> length (dec_of n) \<le> k"
proof (induction n arbitrary: k rule: dec_of.induct)
  case (1 n)
  show ?case
  proof (cases "n < 10")
    case True
    with 1 show ?thesis by (simp add: dec_of.simps [of n])
  next
    case False
    have k: "1 < k"
    proof (rule ccontr)
      assume "\<not> 1 < k"
      then have "k = 1" using "1.prems" by simp
      with False "1.prems" show False by simp
    qed
    then obtain j where j: "k = Suc j" "0 < j" by (cases k) auto
    have "n div 10 < 10 ^ j" using "1.prems"(1) j by (simp add: less_mult_imp_div_less mult.commute)
    then have "length (dec_of (n div 10)) \<le> j" using "1.IH" False j(2) by simp
    then show ?thesis using j False by (simp add: dec_of.simps [of n])
  qed
qed

lemma length_dec_of_exact: "10 ^ k \<le> n \<Longrightarrow> n < 10 ^ Suc k \<Longrightarrow> length (dec_of n) = Suc k"
proof (induction k arbitrary: n)
  case 0
  then show ?case by (simp add: dec_of.simps [of n])
next
  case (Suc k)
  have "10 ^ k \<le> n div 10" using Suc.prems(1) by (simp add: less_eq_div_iff_mult_less_eq mult.commute)
  moreover have "n div 10 < 10 ^ Suc k" using Suc.prems(2) by (simp add: less_mult_imp_div_less mult.commute)
  ultimately have "length (dec_of (n div 10)) = Suc k" by (rule Suc.IH)
  moreover have "(10::nat) \<le> 10 ^ Suc k" by simp
  then have "\<not> n < 10" using Suc.prems(1) by linarith
  ultimately show ?case by (simp add: dec_of.simps [of n])
qed

lemma length_dec_of_4: "1000 \<le> n \<Longrightarrow> n \<le> 9999 \<Longrightarrow> length (dec_of n) = 4"
proof -
  assume n: "1000 \<le> n" "n \<le> 9999"
  then have "n div 10 \<ge> 10" "n div 10 div 10 \<ge> 10" "n div 10 div 10 div 10 < 10" "\<not> n < 10"
    by auto
  then show ?thesis
    by (simp add: dec_of.simps [of n] dec_of.simps [of "n div 10"]
        dec_of.simps [of "n div 10 div 10"] dec_of.simps [of "n div 10 div 10 div 10"]
        del: div_mult2_eq)
qed

lemma length_pad_dec: "length (pad_dec w n) = max w (length (dec_of n))"
  by (simp add: pad_dec_def)

text \<open>\<open>not x\<close> for a nullable string: \<open>None\<close> and the empty string are false.\<close>

definition falsy :: "string option \<Rightarrow> bool" where
  "falsy x \<longleftrightarrow> (case x of None \<Rightarrow> True | Some s \<Rightarrow> s = [])"

text \<open>A nullable id or count used as a condition: \<open>None\<close> and 0 are false.\<close>

definition truthy_int :: "int option \<Rightarrow> bool" where
  "truthy_int x \<longleftrightarrow> (case x of None \<Rightarrow> False | Some i \<Rightarrow> i \<noteq> 0)"

lemma truthy_int_simps [simp]:
  "\<not> truthy_int None" "truthy_int (Some i) \<longleftrightarrow> i \<noteq> 0"
  by (simp_all add: truthy_int_def)

section \<open>Decimal arithmetic and time\<close>

text \<open>
  Python's default decimal context rounds a product to 28 significant digits, half to even.
  \<open>dec_mult\<close> does so for products of at most 28 integer digits; for a product below 1 it keeps 28
  places, where Python keeps at least as many, which \<open>int\<close> (\<open>py_int\<close>) cannot tell apart.
\<close>

definition round_half_even :: "rat \<Rightarrow> int" where
  "round_half_even x =
     (let f = \<lfloor>x\<rfloor>; d = x - of_int f
      in if d < 1/2 then f else if 1/2 < d then f + 1 else if even f then f else f + 1)"

fun int_digits :: "nat \<Rightarrow> nat" where
  "int_digits n = (if n = 0 then 0 else Suc (int_digits (n div 10)))"

declare int_digits.simps [simp del]

definition dec_mult :: "rat \<Rightarrow> rat \<Rightarrow> rat" where
  "dec_mult x y =
     (let p = x * y; s = 10 ^ (28 - int_digits (nat \<lfloor>\<bar>p\<bar>\<rfloor>))
      in of_int (round_half_even (p * s)) / s)"

definition py_int :: "rat \<Rightarrow> int" where
  "py_int x = (if 0 \<le> x then \<lfloor>x\<rfloor> else - \<lfloor>- x\<rfloor>)"

lemma round_half_even_of_int [simp]: "round_half_even (of_int n) = n"
  by (simp add: round_half_even_def)

lemma dec_mult_exact:
  assumes "x * y * 10 ^ (28 - int_digits (nat \<lfloor>\<bar>x * y\<bar>\<rfloor>)) = of_int n"
  shows "dec_mult x y = x * y"
proof -
  have "dec_mult x y = of_int n / 10 ^ (28 - int_digits (nat \<lfloor>\<bar>x * y\<bar>\<rfloor>))"
    by (simp add: dec_mult_def Let_def assms)
  also have "\<dots> = x * y"
    by (simp add: assms [symmetric])
  finally show ?thesis .
qed

lemma int_digits_le: "n < 10 ^ k \<Longrightarrow> int_digits n \<le> k"
proof (induction n arbitrary: k rule: int_digits.induct)
  case (1 n)
  show ?case
  proof (cases "n = 0")
    case True
    then show ?thesis by (simp add: int_digits.simps)
  next
    case False
    with 1 obtain j where j: "k = Suc j" by (cases k) auto
    have "n div 10 < 10 ^ j" using "1.prems" j by (simp add: less_mult_imp_div_less mult.commute)
    with 1 False j show ?thesis by (simp add: int_digits.simps [of n])
  qed
qed

text \<open>A non-negative product with d places and at most 28 digits is exact.\<close>

lemma dec_mult_places:
  fixes n :: nat
  assumes p: "x * y = of_nat n / of_nat (10 ^ d)" and "n < 10 ^ 28" and "d \<le> 28"
  shows "dec_mult x y = of_nat n / of_nat (10 ^ d)"
proof -
  have pos: "0 \<le> of_nat n / (of_nat (10 ^ d) :: rat)" by simp
  have fl: "nat \<lfloor>of_nat n / (of_nat (10 ^ d) :: rat)\<rfloor> = n div 10 ^ d"
    using floor_divide_of_nat_eq [of n "10 ^ d", where 'a = rat] by (simp del: of_nat_power)
  have "(10 :: nat) ^ 28 = 10 ^ (28 - d) * 10 ^ d" using assms(3) by (simp flip: power_add)
  then have "n div 10 ^ d < 10 ^ (28 - d)" using assms(2) by (intro less_mult_imp_div_less) simp
  then have "int_digits (n div 10 ^ d) \<le> 28 - d" by (rule int_digits_le)
  then have "\<exists>e. 28 - int_digits (n div 10 ^ d) = d + e"
    using assms(3) by (intro exI [of _ "28 - d - int_digits (n div 10 ^ d)"]) simp
  then obtain e where e: "28 - int_digits (n div 10 ^ d) = d + e" by blast
  have "dec_mult x y = x * y"
  proof (rule dec_mult_exact [of _ _ "int n * 10 ^ e"])
    show "x * y * 10 ^ (28 - int_digits (nat \<lfloor>\<bar>x * y\<bar>\<rfloor>)) = of_int (int n * 10 ^ e)"
      unfolding p abs_of_nonneg [OF pos] fl e by (simp add: power_add)
  qed
  then show ?thesis by (simp only: p)
qed

text \<open>The product of two amounts of hundredths, and of an amount and a percentage of hundredths.\<close>

lemma dec_mult_cents:
  assumes "0 \<le> c" "0 \<le> k" "c * k < 10 ^ 28"
  shows "dec_mult (of_cents c) (of_cents k) = of_int (c * k) / of_int 10000"
    and "dec_mult (of_cents c) (of_cents k / 100) = of_int (c * k) / of_int 1000000"
proof -
  obtain n where n: "c * k = int n" using assms(1,2) by (metis mult_nonneg_nonneg nonneg_int_cases)
  have r: "of_int c * of_int k = (of_nat n :: rat)" using arg_cong [OF n, of "of_int :: int \<Rightarrow> rat"] by simp
  have l: "n < 10 ^ 28" using assms(3) unfolding n by (simp add: nat_less_iff)
  have "dec_mult (of_cents c) (of_cents k) = of_nat n / of_nat (10 ^ 4)"
    by (rule dec_mult_places) (use r l in \<open>simp_all add: of_cents_def\<close>)
  then show "dec_mult (of_cents c) (of_cents k) = of_int (c * k) / of_int 10000" by (simp add: n)
  have "dec_mult (of_cents c) (of_cents k / 100) = of_nat n / of_nat (10 ^ 6)"
    by (rule dec_mult_places) (use r l in \<open>simp_all add: of_cents_def\<close>)
  then show "dec_mult (of_cents c) (of_cents k / 100) = of_int (c * k) / of_int 1000000" by (simp add: n)
qed

text \<open>
  Datetimes are \<open>int\<close> microseconds since the epoch, in UTC.  The active time zone is
  \<open>Asia/Shanghai\<close>, eight hours ahead of UTC without daylight saving.
\<close>

definition day_us :: int where
  "day_us = 86400000000"

definition shanghai_us :: int where
  "shanghai_us = 28800000000"

definition utc_date :: "int \<Rightarrow> int" where
  "utc_date t = t div day_us"

definition local_date :: "int \<Rightarrow> int" where
  "local_date t = (t + shanghai_us) div day_us"

text \<open>\<open>make_aware(datetime.combine(d, min.time()))\<close> and \<open>... max.time()\<close>.\<close>

definition local_midnight :: "int \<Rightarrow> int" where
  "local_midnight d = d * day_us - shanghai_us"

definition local_day_end :: "int \<Rightarrow> int" where
  "local_day_end d = d * day_us - shanghai_us + day_us - 1"

lemma div_eq_iff_bounds:
  fixes a b q :: int
  assumes "0 < b"
  shows "a div b = q \<longleftrightarrow> q * b \<le> a \<and> a < (q + 1) * b"
proof
  assume "a div b = q"
  then have "a = q * b + a mod b" by (metis div_mult_mod_eq)
  moreover have "0 \<le> a mod b" "a mod b < b" using assms by simp_all
  ultimately show "q * b \<le> a \<and> a < (q + 1) * b" by (simp add: distrib_right)
next
  assume "q * b \<le> a \<and> a < (q + 1) * b"
  then show "a div b = q"
    by (intro int_div_pos_eq [of a b q "a - q * b"]) (auto simp: algebra_simps)
qed

lemma local_day_iff: "local_midnight d \<le> t \<and> t \<le> local_day_end d \<longleftrightarrow> local_date t = d"
proof -
  have "0 < day_us" by (simp add: day_us_def)
  then show ?thesis
    by (auto simp: local_date_def div_eq_iff_bounds local_midnight_def local_day_end_def distrib_right)
qed

lemma add_div_same_iff:
  fixes t d s :: int
  assumes "0 < s" and "s < d"
  shows "(t + s) div d = t div d \<longleftrightarrow> s \<le> (t + s) mod d"
proof -
  have d: "0 < d" using assms by simp
  have t: "t = (t div d) * d + t mod d" by (metis div_mult_mod_eq)
  have r: "0 \<le> t mod d" "t mod d < d" using d by simp_all
  show ?thesis
  proof (cases "t mod d + s < d")
    case True
    then have "(t + s) div d = t div d"
      using t r assms by (intro int_div_pos_eq [of _ d _ "t mod d + s"]) (auto simp: algebra_simps)
    moreover have "(t + s) mod d = t mod d + s"
      using t r assms True by (intro int_mod_pos_eq [of _ d "t div d"]) (auto simp: algebra_simps)
    ultimately show ?thesis using r by simp
  next
    case False
    have lt: "s + t mod d < d * 2" using r assms by linarith
    have "(t + s) div d = t div d + 1"
      using t lt False by (intro int_div_pos_eq [of _ d _ "t mod d + s - d"]) (auto simp: algebra_simps)
    moreover have "(t + s) mod d = t mod d + s - d"
      using t lt False by (intro int_mod_pos_eq [of _ d "t div d + 1"]) (auto simp: algebra_simps)
    ultimately show ?thesis using r by simp
  qed
qed

text \<open>The UTC date is the local date exactly from 08:00 local time on.\<close>

lemma utc_date_local_date:
  "local_date t = utc_date t \<longleftrightarrow> shanghai_us \<le> (t + shanghai_us) mod day_us"
  unfolding local_date_def utc_date_def
  by (rule add_div_same_iff) (simp_all add: day_us_def shanghai_us_def)

end
