(* ===== verification/Pages.thy ===== *)
theory Pages
  imports Prelude_Z
begin

text \<open>
  The pagination of the generic list views: \<open>PageNumberPagination\<close> with the page size of
  \<open>zdrink_core/settings.py\<close>.  A list view selects its rows, cuts the page and serializes what is on it;
  \<open>page\<close> is the number the request asks for, 1 when it asks for none.
\<close>

section \<open>Cutting a page\<close>

text \<open>As the REST framework documents it: pages are numbered from 1, and only the first may be empty.\<close>

definition PAGE_SIZE :: nat where
  "PAGE_SIZE = 20"

definition page_of :: "nat \<Rightarrow> 'a list \<Rightarrow> 'a list" where
  "page_of n xs = take PAGE_SIZE (drop ((n - 1) * PAGE_SIZE) xs)"

definition paginated :: "nat \<Rightarrow> 'a list \<Rightarrow> 'a list reply" where
  "paginated n xs =
     (if n = 0 \<or> 1 < n \<and> length xs \<le> (n - 1) * PAGE_SIZE then Reject 404 (DoesNotExist ''page'') else OK 200 (page_of n xs))"

section \<open>Serializing a page\<close>

fun collect_res :: "('a \<Rightarrow> 'b res) \<Rightarrow> 'a list \<Rightarrow> 'b list res" where
  "collect_res f [] = Inr []"
| "collect_res f (x # xs) =
     (case f x of Inl e \<Rightarrow> Inl e
      | Inr y \<Rightarrow> (case collect_res f xs of Inl e \<Rightarrow> Inl e | Inr ys \<Rightarrow> Inr (y # ys)))"

definition serialized :: "('a list \<Rightarrow> 'b list res) \<Rightarrow> 'a list reply \<Rightarrow> 'b list reply" where
  "serialized f r = (case r of OK n xs \<Rightarrow> (case f xs of Inl e \<Rightarrow> Crash e | Inr ys \<Rightarrow> OK n ys)
     | Reject n e \<Rightarrow> Reject n e | Crash e \<Rightarrow> Crash e)"

text \<open>The representations of a page, one row at a time.\<close>

abbreviation shown :: "('a \<Rightarrow> 'b) \<Rightarrow> 'a list reply \<Rightarrow> 'b list reply" where
  "shown f \<equiv> serialized (\<lambda>xs. Inr (map f xs))"

definition listed :: "'a list reply \<Rightarrow> 'a list" where
  "listed r = (case r of OK n xs \<Rightarrow> xs | _ \<Rightarrow> [])"

section \<open>Lemmas\<close>

lemma serialized_simps [simp]:
  "serialized f (OK n xs) = (case f xs of Inl e \<Rightarrow> Crash e | Inr ys \<Rightarrow> OK n ys)"
  "serialized f (Reject n e) = Reject n e"
  "serialized f (Crash e) = Crash e"
  by (simp_all add: serialized_def)

lemma page_of_Nil [simp]: "page_of n [] = []"
  by (simp add: page_of_def)

lemma page_of_map: "page_of n (map f xs) = map f (page_of n xs)"
  by (simp add: page_of_def drop_map take_map)

lemma set_page_of: "set (page_of n xs) \<subseteq> set xs"
  unfolding page_of_def by (meson set_drop_subset set_take_subset subset_trans)

lemma length_page_of: "length (page_of n xs) \<le> PAGE_SIZE"
  by (simp add: page_of_def)

lemma listed_paginated [simp]: "listed (paginated n xs) = (if n = 0 then [] else page_of n xs)"
  by (auto simp: listed_def paginated_def page_of_def)

lemma listed_shown [simp]: "listed (shown f r) = map f (listed r)"
  by (cases r) (simp_all add: listed_def)

lemma accepted_shown [simp]: "accepted (shown f r) = accepted r"
  by (cases r) simp_all

lemma accepted_paginated [simp]: "accepted (paginated (Suc 0) xs)"
  by (simp add: paginated_def)

lemma paginated_first_Nil [simp]: "paginated (Suc 0) [] = OK 200 []"
  by (simp add: paginated_def)

text \<open>The pages one after the other are the list.\<close>

lemma pages_concat: "concat (map (\<lambda>n. page_of n xs) [1..<Suc k]) = take (k * PAGE_SIZE) xs"
proof (induction k)
  case (Suc k)
  have "concat (map (\<lambda>n. page_of n xs) [1..<Suc (Suc k)]) = take (k * PAGE_SIZE) xs @ page_of (Suc k) xs"
    using Suc by simp
  also have "\<dots> = take (Suc k * PAGE_SIZE) xs" by (simp add: page_of_def take_add [symmetric] add.commute)
  finally show ?case .
qed simp

lemma listed_pages_concat:
  assumes "length xs \<le> k * PAGE_SIZE"
  shows "concat (map (\<lambda>n. listed (shown f (paginated n xs))) [1..<Suc k]) = map f xs"
proof -
  have "concat (map (\<lambda>n. listed (shown f (paginated n xs))) [1..<Suc k])
      = concat (map (\<lambda>n. map f (page_of n xs)) [1..<Suc k])"
    by (intro arg_cong [where f = concat] map_cong) auto
  also have "\<dots> = map f (concat (map (\<lambda>n. page_of n xs) [1..<Suc k]))" by (simp add: map_concat comp_def)
  finally show ?thesis using assms by (simp only: pages_concat) simp
qed

end
