(* ===== verification/Identity.thy ===== *)
theory Identity
  imports Pages
begin

text \<open>
  Users, shops, staff and who may do what: \<open>apps/users/models.py\<close> (\<open>User\<close>), the staff part of
  \<open>apps/shops/models.py\<close>, \<open>apps/core/permissions.py\<close>, \<open>apps/core/roles.py\<close>,
  \<open>apps/core/admin_utils.py\<close> and the user row with its \<open>save\<close> of \<open>apps/users\<close>.

  The four permission classes share a contract, the locale \<open>permission_class\<close>; it is
  interpreted on each of them.  The password column is kept apart from the row (theory \<open>Accounts\<close>);
  the validators of passwords, names and addresses belong to Django and are parameters.
\<close>

section \<open>Rows\<close>

datatype user_type = SuperAdmin | ShopOwnerType | ShopStaffType | Customer

datatype level = Regular | Silver | Gold | Platinum | Diamond

record user_row =
  u_id :: int
  u_username :: string
  u_email :: string
  u_phone :: "string option"
  u_type :: user_type
  u_active :: bool
  u_superuser :: bool
  u_is_staff :: bool
  u_points :: int
  u_level :: level
  u_number :: "string option"
  u_expiry :: "int option"
  u_total_points :: int
  u_available_points :: int
  u_used_points :: int
  u_consumption :: int
  u_consumption_count :: int
  u_referrer :: "int option"
  u_referral :: "string option"

datatype staff_role = Owner | Manager | Staff | Cashier

primrec role_name :: "staff_role \<Rightarrow> string" where
  "role_name Owner = ''owner''"
| "role_name Manager = ''manager''"
| "role_name Staff = ''staff''"
| "role_name Cashier = ''cashier''"

record staff_row =
  st_id :: int
  st_user :: int
  st_shop :: int
  st_role :: staff_role
  st_active :: bool
  st_perms :: "(string \<times> bool) list"

text \<open>\<open>unique_together = ('user', 'shop')\<close>\<close>

definition staff_unique :: "staff_row tbl \<Rightarrow> bool" where
  "staff_unique t \<longleftrightarrow> unique_on (\<lambda>st. (st_user st, st_shop st)) t"

section \<open>Role permissions (\<open>roles.py\<close>)\<close>

definition ROLE_PERMISSIONS :: "(string \<times> string list) list" where
  "ROLE_PERMISSIONS =
    [(''owner'', [''shop_manage'', ''staff_manage'', ''product_manage'', ''category_manage'',
        ''order_manage'', ''order_process'', ''inventory_manage'', ''payment_manage'',
        ''customer_manage'', ''report_view'', ''setting_manage'']),
     (''manager'', [''product_manage'', ''category_manage'', ''order_manage'', ''order_process'',
        ''inventory_manage'', ''customer_manage'', ''report_view'']),
     (''staff'', [''order_process'', ''inventory_manage'']),
     (''cashier'', [''order_process''])]"

definition get_role_permissions :: "string \<Rightarrow> string list" where
  "get_role_permissions role = (case map_of ROLE_PERMISSIONS role of None \<Rightarrow> [] | Some ps \<Rightarrow> ps)"

definition create_staff_permissions :: "string \<Rightarrow> (string \<times> bool) list" where
  "create_staff_permissions role = map (\<lambda>p. (p, True)) (get_role_permissions role)"

text \<open>\<open>staff.permissions.get(p, False)\<close>\<close>

definition perm_get :: "(string \<times> bool) list \<Rightarrow> string \<Rightarrow> bool" where
  "perm_get perms p = (case map_of perms p of None \<Rightarrow> False | Some b \<Rightarrow> b)"

lemma perm_get_all_true: "perm_get (map (\<lambda>p. (p, True)) ps) q \<longleftrightarrow> q \<in> set ps"
  by (induction ps) (auto simp: perm_get_def)

lemma perm_get_created: "perm_get (create_staff_permissions role) p \<longleftrightarrow> p \<in> set (get_role_permissions role)"
  by (simp add: create_staff_permissions_def perm_get_all_true)

section \<open>Permission classes (\<open>permissions.py\<close>)\<close>

record request =
  rq_user :: "user_row option"
  rq_tenant :: "int option"

definition staff_get :: "(staff_row \<Rightarrow> bool) \<Rightarrow> int \<Rightarrow> int \<Rightarrow> staff_row tbl \<Rightarrow> staff_row res" where
  "staff_get Q uid tn t =
     qs_get ''ShopStaff'' (\<lambda>st. st_user st = uid \<and> st_shop st = tn \<and> st_active st \<and> Q st) t"

definition is_shop_owner_or_staff :: "staff_row tbl \<Rightarrow> request \<Rightarrow> bool res" where
  "is_shop_owner_or_staff t rq =
     (case rq_user rq of
        None \<Rightarrow> Inr False
      | Some u \<Rightarrow>
          if u_type u = SuperAdmin then Inr True
          else (case rq_tenant rq of
                  None \<Rightarrow> Inr False
                | Some tn \<Rightarrow>
                    (case staff_get (\<lambda>_. True) (u_id u) tn t of
                       Inr st \<Rightarrow> Inr True
                     | Inl (DoesNotExist m) \<Rightarrow> Inr False
                     | Inl e \<Rightarrow> Inl e)))"

text \<open>A view or viewset whose permission class is \<open>IsShopOwnerOrStaff\<close>: a refusal is answered with
  status 403, and an exception of the permission is not caught.\<close>

definition staff_only ::
  "staff_row tbl \<Rightarrow> request \<Rightarrow> ('s \<Rightarrow> 'a reply \<times> 's) \<Rightarrow> 's \<Rightarrow> 'a reply \<times> 's" where
  "staff_only t rq body s =
     (case is_shop_owner_or_staff t rq of
        Inl e \<Rightarrow> (Crash e, s)
      | Inr False \<Rightarrow> (Reject 403 PermissionDenied, s)
      | Inr True \<Rightarrow> body s)"

lemma staff_only_inv:
  assumes "staff_only t rq body s = (r, s')" and "Q s" and "\<And>r s'. body s = (r, s') \<Longrightarrow> Q s'"
  shows "Q s'"
  using assms by (auto simp: staff_only_def split: sum.splits bool.splits)

definition is_shop_owner :: "staff_row tbl \<Rightarrow> request \<Rightarrow> bool res" where
  "is_shop_owner t rq =
     (case rq_user rq of
        None \<Rightarrow> Inr False
      | Some u \<Rightarrow>
          if u_type u = SuperAdmin then Inr True
          else (case rq_tenant rq of
                  None \<Rightarrow> Inr False
                | Some tn \<Rightarrow>
                    (case staff_get (\<lambda>st. st_role st = Owner) (u_id u) tn t of
                       Inr st \<Rightarrow> Inr True
                     | Inl (DoesNotExist m) \<Rightarrow> Inr False
                     | Inl e \<Rightarrow> Inl e)))"

definition is_shop_manager :: "staff_row tbl \<Rightarrow> request \<Rightarrow> bool res" where
  "is_shop_manager t rq =
     (case rq_user rq of
        None \<Rightarrow> Inr False
      | Some u \<Rightarrow>
          if u_type u = SuperAdmin then Inr True
          else (case rq_tenant rq of
                  None \<Rightarrow> Inr False
                | Some tn \<Rightarrow>
                    (case staff_get (\<lambda>st. st_role st = Owner \<or> st_role st = Manager) (u_id u) tn t of
                       Inr st \<Rightarrow> Inr True
                     | Inl (DoesNotExist m) \<Rightarrow> Inr False
                     | Inl e \<Rightarrow> Inl e)))"

definition staff_permits :: "string \<Rightarrow> staff_row \<Rightarrow> bool" where
  "staff_permits p st =
     (if st_role st = Owner then True
      else if perm_get (st_perms st) p then True
      else if st_role st = Manager \<and> p \<in> set [''product_manage'', ''order_manage''] then True
      else False)"

definition has_shop_permission :: "string \<Rightarrow> staff_row tbl \<Rightarrow> request \<Rightarrow> bool res" where
  "has_shop_permission p t rq =
     (case rq_user rq of
        None \<Rightarrow> Inr False
      | Some u \<Rightarrow>
          if u_type u = SuperAdmin then Inr True
          else (case rq_tenant rq of
                  None \<Rightarrow> Inr False
                | Some tn \<Rightarrow>
                    (case staff_get (\<lambda>_. True) (u_id u) tn t of
                       Inr st \<Rightarrow> Inr (staff_permits p st)
                     | Inl (DoesNotExist m) \<Rightarrow> Inr False
                     | Inl e \<Rightarrow> Inl e)))"

text \<open>The decorator: the wrapped view runs only when the permission is granted.\<close>

definition shop_permission_required ::
  "string \<Rightarrow> staff_row tbl \<Rightarrow> request \<Rightarrow> (request \<Rightarrow> 'a res) \<Rightarrow> 'a res" where
  "shop_permission_required p t rq func =
     (case has_shop_permission p t rq of
        Inl e \<Rightarrow> Inl e
      | Inr b \<Rightarrow> if b then func rq else Inl PermissionDenied)"

subsection \<open>The contract of a permission class\<close>

definition works_for :: "staff_row tbl \<Rightarrow> user_row \<Rightarrow> int \<Rightarrow> staff_row \<Rightarrow> bool" where
  "works_for t u tn st \<longleftrightarrow>
     st \<in> set (rows t) \<and> st_user st = u_id u \<and> st_shop st = tn \<and> st_active st"

lemma works_for_unique:
  "staff_unique t \<Longrightarrow> works_for t u tn st \<Longrightarrow> works_for t u tn st' \<Longrightarrow> st' = st"
  unfolding staff_unique_def unique_on_def works_for_def distinct_map
  by (metis (no_types, lifting) inj_onD)

lemma staff_get_unique:
  assumes "staff_unique t"
  shows "staff_get Q (u_id u) tn t =
           (if \<exists>st. works_for t u tn st \<and> Q st
            then Inr (THE st. works_for t u tn st) else Inl (DoesNotExist ''ShopStaff''))"
proof (cases "\<exists>st. works_for t u tn st \<and> Q st")
  case True
  then obtain st where st: "works_for t u tn st" "Q st" by blast
  have the: "(THE st. works_for t u tn st) = st"
    using works_for_unique [OF assms st(1)] st(1) by (blast intro: the_equality)
  have "staff_get Q (u_id u) tn t = Inr st"
    unfolding staff_get_def
    by (rule qs_get_unique [of "\<lambda>st. (st_user st, st_shop st)"])
      (use assms st in \<open>auto simp: staff_unique_def works_for_def\<close>)
  with True the show ?thesis by simp
next
  case False
  then show ?thesis
    unfolding staff_get_def qs_get_DoesNotExist by (auto simp: qs_get_DoesNotExist works_for_def)
qed

lemma works_for_the:
  "staff_unique t \<Longrightarrow> works_for t u tn st \<Longrightarrow> (THE st. works_for t u tn st) = st"
  using works_for_unique by (blast intro: the_equality)

locale permission_class =
  fixes grants :: "staff_row tbl \<Rightarrow> request \<Rightarrow> bool res"
    and qualifies :: "staff_row \<Rightarrow> bool"
  assumes anonymous: "rq_user rq = None \<Longrightarrow> grants t rq = Inr False"
    and super_admin: "rq_user rq = Some u \<Longrightarrow> u_type u = SuperAdmin \<Longrightarrow> grants t rq = Inr True"
    and no_tenant: "rq_user rq = Some u \<Longrightarrow> u_type u \<noteq> SuperAdmin \<Longrightarrow> rq_tenant rq = None \<Longrightarrow>
      grants t rq = Inr False"
    and tenant_staff: "rq_user rq = Some u \<Longrightarrow> u_type u \<noteq> SuperAdmin \<Longrightarrow> rq_tenant rq = Some tn \<Longrightarrow>
      staff_unique t \<Longrightarrow> grants t rq = Inr (\<exists>st. works_for t u tn st \<and> qualifies st)"
begin

lemma grants_total: "staff_unique t \<Longrightarrow> \<exists>b. grants t rq = Inr b"
  by (cases "rq_user rq"; cases "rq_tenant rq")
    (auto simp: anonymous, metis no_tenant super_admin, metis super_admin tenant_staff)

lemma grants_staff:
  assumes "staff_unique t" and "grants t rq = Inr True"
    and "rq_user rq = Some u" and "u_type u \<noteq> SuperAdmin"
  obtains tn st where "rq_tenant rq = Some tn" "works_for t u tn st" "qualifies st"
proof (cases "rq_tenant rq")
  case None
  with assms no_tenant show ?thesis by simp
next
  case (Some tn)
  with assms tenant_staff that show ?thesis by auto
qed

end

locale permission_refines =
  strong: permission_class grants qualifies + weak: permission_class grants' qualifies'
  for grants qualifies grants' qualifies' +
  assumes weaker: "qualifies st \<Longrightarrow> qualifies' st"
begin

lemma grants_mono:
  assumes t: "staff_unique t" and g: "grants t rq = Inr True"
  shows "grants' t rq = Inr True"
proof (cases "rq_user rq")
  case None
  with g strong.anonymous show ?thesis by simp
next
  case (Some u)
  show ?thesis
  proof (cases "u_type u = SuperAdmin")
    case True
    with Some show ?thesis by (rule weak.super_admin)
  next
    case False
    obtain tn st where st: "rq_tenant rq = Some tn" "works_for t u tn st" "qualifies st"
      using strong.grants_staff [OF t g Some False] .
    then have "\<exists>st. works_for t u tn st \<and> qualifies' st" using weaker by blast
    then show ?thesis using weak.tenant_staff [OF Some False st(1) t] by simp
  qed
qed

end

lemmas permission_defs = is_shop_owner_or_staff_def is_shop_owner_def is_shop_manager_def
  has_shop_permission_def staff_get_unique works_for_the

interpretation any_staff: permission_class is_shop_owner_or_staff "\<lambda>_. True"
  by unfold_locales (auto simp: permission_defs)

interpretation shop_owner: permission_class is_shop_owner "\<lambda>st. st_role st = Owner"
  by unfold_locales (auto simp: permission_defs)

interpretation shop_manager:
  permission_class is_shop_manager "\<lambda>st. st_role st = Owner \<or> st_role st = Manager"
  by unfold_locales (auto simp: permission_defs)

interpretation shop_perm: permission_class "has_shop_permission p" "staff_permits p" for p
proof unfold_locales
  fix rq :: request and t u tn
  assume rq: "rq_user rq = Some u" "u_type u \<noteq> SuperAdmin" "rq_tenant rq = Some tn"
    and t: "staff_unique t"
  show "has_shop_permission p t rq = Inr (\<exists>st. works_for t u tn st \<and> staff_permits p st)"
  proof (cases "\<exists>st. works_for t u tn st")
    case True
    then obtain st where st: "works_for t u tn st" by blast
    then have "(\<exists>st'. works_for t u tn st' \<and> staff_permits p st') \<longleftrightarrow> staff_permits p st"
      using works_for_unique [OF t st] by blast
    with rq t st show ?thesis
      by (auto simp: has_shop_permission_def staff_get_unique works_for_the)
  next
    case False
    with rq t show ?thesis by (auto simp: has_shop_permission_def staff_get_unique)
  qed
qed (auto simp: has_shop_permission_def)

interpretation owner_manager: permission_refines
  is_shop_owner "\<lambda>st. st_role st = Owner"
  is_shop_manager "\<lambda>st. st_role st = Owner \<or> st_role st = Manager"
  by unfold_locales auto

interpretation manager_staff: permission_refines
  is_shop_manager "\<lambda>st. st_role st = Owner \<or> st_role st = Manager"
  is_shop_owner_or_staff "\<lambda>_. True"
  by unfold_locales auto

interpretation perm_staff: permission_refines
  "has_shop_permission p" "staff_permits p" is_shop_owner_or_staff "\<lambda>_. True" for p
  by unfold_locales auto

section \<open>Admin access (\<open>admin_utils.py\<close>)\<close>

definition get_user_tenant :: "user_row \<Rightarrow> staff_row tbl \<Rightarrow> int option" where
  "get_user_tenant u t =
     (if u_superuser u then None
      else (case qs_first (\<lambda>st. st_user st = u_id u \<and> st_active st) t of
              Some st \<Rightarrow> Some (st_shop st)
            | None \<Rightarrow> None))"

definition admin_staff_exists :: "user_row \<Rightarrow> int option \<Rightarrow> staff_row tbl \<Rightarrow> bool" where
  "admin_staff_exists u tenant t =
     (let tenant' = (case tenant of None \<Rightarrow> get_user_tenant u t | Some tn \<Rightarrow> Some tn)
      in case tenant' of
           Some tn \<Rightarrow>
             qs_exists (\<lambda>st. st_user st = u_id u \<and> st_shop st = tn \<and> st_active st \<and>
                             (st_role st = Owner \<or> st_role st = Manager)) t
         | None \<Rightarrow> False)"

definition has_view_permission :: "user_row \<Rightarrow> int option \<Rightarrow> staff_row tbl \<Rightarrow> bool" where
  "has_view_permission u tenant t = (if u_superuser u then True else admin_staff_exists u tenant t)"

definition has_change_permission :: "user_row \<Rightarrow> int option \<Rightarrow> staff_row tbl \<Rightarrow> bool" where
  "has_change_permission u tenant t = (if u_superuser u then True else admin_staff_exists u tenant t)"

definition has_delete_permission :: "user_row \<Rightarrow> bool" where
  "has_delete_permission u = u_superuser u"

definition has_add_permission :: "user_row \<Rightarrow> int option \<Rightarrow> staff_row tbl \<Rightarrow> bool" where
  "has_add_permission u tenant t = (if u_superuser u then True else admin_staff_exists u tenant t)"

definition get_user_shop_role :: "user_row \<Rightarrow> int \<Rightarrow> staff_row tbl \<Rightarrow> staff_role option res" where
  "get_user_shop_role u tn t =
     (case staff_get (\<lambda>_. True) (u_id u) tn t of
        Inr st \<Rightarrow> Inr (Some (st_role st))
      | Inl (DoesNotExist m) \<Rightarrow> Inr None
      | Inl e \<Rightarrow> Inl e)"

definition is_shop_owner_or_manager :: "user_row \<Rightarrow> int \<Rightarrow> staff_row tbl \<Rightarrow> bool res" where
  "is_shop_owner_or_manager u tn t =
     (case get_user_shop_role u tn t of
        Inl e \<Rightarrow> Inl e
      | Inr role \<Rightarrow>
          Inr (case role of None \<Rightarrow> False | Some r \<Rightarrow> r = Owner \<or> r = Manager))"

section \<open>Saving a user\<close>

text \<open>
  What Django's authentication code and Python's \<open>random\<close> contribute: the password, user name and
  e-mail validators, the normalisation of names and addresses, and the code \<open>random.choices\<close> gives after
  \<open>random.seed(id)\<close>.
\<close>

record auth_lib =
  lib_pw_ok :: "string \<Rightarrow> bool"
  lib_username_ok :: "string \<Rightarrow> bool"
  lib_email_ok :: "string \<Rightarrow> bool"
  lib_norm_username :: "string \<Rightarrow> string"
  lib_norm_email :: "string \<Rightarrow> string"
  lib_seeded_code :: "int \<Rightarrow> string"

text \<open>The unsaved instance has id 0 (\<open>pk\<close> is \<open>None\<close>).\<close>

definition user_conflict :: "user_row \<Rightarrow> user_row tbl \<Rightarrow> bool" where
  "user_conflict u t = list_ex (\<lambda>r. u_id r \<noteq> u_id u \<and>
     (u_username r = u_username u
      \<or> (u_number u \<noteq> None \<and> u_number r = u_number u)
      \<or> (u_referral u \<noteq> None \<and> u_referral r = u_referral u))) (rows t)"

definition store_user :: "user_row \<Rightarrow> user_row tbl \<Rightarrow> (user_row \<times> user_row tbl) res" where
  "store_user u t =
     (if \<not> (int4_ok (u_points u) \<and> int4_ok (u_total_points u) \<and> int4_ok (u_available_points u)
            \<and> int4_ok (u_used_points u)) then Inl (DataError ''users'')
      else if user_conflict u t then Inl (IntegrityError ''users'')
      else if u_id u = 0 then Inr (t_add (\<lambda>i. u\<lparr>u_id := i\<rparr>) t)
      else Inr (u, t_save u_id u t))"

text \<open>\<open>save(update_fields=['membership_number', 'referral_code'])\<close>\<close>

definition store_numbers :: "user_row \<Rightarrow> user_row tbl \<Rightarrow> user_row tbl res" where
  "store_numbers u t =
     (if user_conflict u t then Inl (IntegrityError ''users'')
      else Inr (t_upd (\<lambda>r. u_id r = u_id u)
                  (\<lambda>r. r\<lparr>u_number := u_number u, u_referral := u_referral u\<rparr>) t))"

definition generate_membership_number :: "int \<Rightarrow> nat \<Rightarrow> string" where
  "generate_membership_number i rnd = ''M'' @ pad_dec 8 (nat i) @ dec_of rnd"

definition generate_referral_code :: "auth_lib \<Rightarrow> int \<Rightarrow> string" where
  "generate_referral_code lib i = lib_seeded_code lib i"

definition user_save :: "auth_lib \<Rightarrow> nat \<Rightarrow> user_row \<Rightarrow> user_row tbl \<Rightarrow> user_row res \<times> user_row tbl" where
  "user_save lib rnd u t =
     (case store_user u t of
        Inl e \<Rightarrow> (Inl e, t)
      | Inr (u1, t1) \<Rightarrow>
          let no_number = falsy (u_number u1);
              u2 = (if no_number
                    then u1\<lparr>u_number := Some (generate_membership_number (u_id u1) rnd)\<rparr> else u1);
              no_code = falsy (u_referral u2);
              u3 = (if no_code
                    then u2\<lparr>u_referral := Some (generate_referral_code lib (u_id u2))\<rparr> else u2)
          in if no_number \<or> no_code
             then (case store_numbers u3 t1 of
                     Inl e \<Rightarrow> (Inl e, t1)
                   | Inr t2 \<Rightarrow> (Inr u3, t2))
             else (Inr u3, t1))"

section \<open>Creating a user\<close>

record reg_request =
  rg_username :: string
  rg_password :: string
  rg_password2 :: string
  rg_email :: string
  rg_phone :: "string option"
  rg_user_type :: "user_type option"

text \<open>\<open>create_user(**validated_data)\<close> with the column defaults of the model.\<close>

definition new_user :: "auth_lib \<Rightarrow> reg_request \<Rightarrow> user_row" where
  "new_user lib r =
     \<lparr>u_id = 0, u_username = lib_norm_username lib (rg_username r),
      u_email = lib_norm_email lib (rg_email r), u_phone = rg_phone r,
      u_type = (case rg_user_type r of None \<Rightarrow> Customer | Some ty \<Rightarrow> ty),
      u_active = True, u_superuser = False, u_is_staff = False, u_points = 0, u_level = Regular,
      u_number = None, u_expiry = None, u_total_points = 0, u_available_points = 0,
      u_used_points = 0, u_consumption = 0, u_consumption_count = 0, u_referrer = None,
      u_referral = None\<rparr>"

section \<open>Lemmas\<close>

lemmas admin_defs = has_view_permission_def has_change_permission_def has_delete_permission_def
  has_add_permission_def admin_staff_exists_def get_user_tenant_def

lemma undec_membership:
  assumes "1000 \<le> rnd" "rnd \<le> 9999"
  shows "generate_membership_number i rnd = ''M'' @ pad_dec 8 (nat i) @ dec_of rnd"
    and "length (dec_of rnd) = 4"
  using assms by (simp_all add: generate_membership_number_def length_dec_of_4)

lemma user_save_InrD:
  assumes "user_save lib rnd u t = (Inr u', t')"
  shows "u_type u' = u_type u" and "u_superuser u' = u_superuser u"
    and "\<not> falsy (u_number u) \<Longrightarrow> u_number u' = u_number u"
    and "\<not> falsy (u_referral u) \<Longrightarrow> u_referral u' = u_referral u"
    and "falsy (u_number u) \<Longrightarrow> u_number u' = Some (generate_membership_number (u_id u') rnd)"
    and "falsy (u_referral u) \<Longrightarrow> u_referral u' = Some (lib_seeded_code lib (u_id u'))"
    and "u_id u \<noteq> 0 \<Longrightarrow> u_id u' = u_id u"
    and "u_id u = 0 \<Longrightarrow> u_id u' = seq t + 1"
    and "u_is_staff u' = u_is_staff u"
  using assms
  by (auto simp: user_save_def store_user_def store_numbers_def t_add_def Let_def
      generate_referral_code_def split: sum.splits if_splits prod.splits)

section \<open>Properties\<close>

definition demo_user :: user_row where
  "demo_user = \<lparr>u_id = 7, u_username = ''amy'', u_email = ''amy@example.com'', u_phone = None,
     u_type = Customer, u_active = True, u_superuser = False, u_is_staff = False, u_points = 0, u_level = Regular,
     u_number = Some ''M000000071234'', u_expiry = None, u_total_points = 0, u_available_points = 0,
     u_used_points = 0, u_consumption = 0, u_consumption_count = 0, u_referrer = None,
     u_referral = Some ''AB12CD34''\<rparr>"

definition demo_staff :: "staff_row tbl" where
  "demo_staff = \<lparr>rows =
     [\<lparr>st_id = 1, st_user = 7, st_shop = 3, st_role = Owner, st_active = True, st_perms = []\<rparr>,
      \<lparr>st_id = 2, st_user = 8, st_shop = 3, st_role = Cashier, st_active = True,
       st_perms = create_staff_permissions ''cashier''\<rparr>], seq = 2\<rparr>"

definition demo_lib :: auth_lib where
  "demo_lib = \<lparr>lib_pw_ok = (\<lambda>p. 8 \<le> length p), lib_username_ok = (\<lambda>s. True),
     lib_email_ok = (\<lambda>s. CHR 0x40 \<in> set s), lib_norm_username = (\<lambda>s. s),
     lib_norm_email = (\<lambda>s. s), lib_seeded_code = (\<lambda>i. dec_of (nat i))\<rparr>"

lemma demo_staff_unique: "staff_unique demo_staff"
  by (simp add: staff_unique_def unique_on_def demo_staff_def)

text \<open>The permission classes form a hierarchy: whoever passes \<open>IsShopOwner\<close> also passes
  \<open>IsShopManager\<close>, \<open>IsShopOwnerOrStaff\<close> and \<open>HasShopPermission\<close> for every permission.\<close>

theorem permission_hierarchy:
  assumes "staff_unique t" and "is_shop_owner t rq = Inr True"
  shows "is_shop_manager t rq = Inr True \<and> is_shop_owner_or_staff t rq = Inr True
       \<and> has_shop_permission p t rq = Inr True"
proof -
  have m: "is_shop_manager t rq = Inr True"
    using assms by (rule owner_manager.grants_mono)
  have s: "is_shop_owner_or_staff t rq = Inr True"
    using assms(1) m by (rule manager_staff.grants_mono)
  have "permission_refines is_shop_owner (\<lambda>st. st_role st = Owner)
          (has_shop_permission p) (staff_permits p)"
    by unfold_locales (simp add: staff_permits_def)
  then have "has_shop_permission p t rq = Inr True"
    using assms by (rule permission_refines.grants_mono)
  with m s show ?thesis by simp
qed

theorem permission_hierarchy_witness:
  "has_shop_permission ''report_view'' demo_staff \<lparr>rq_user = Some demo_user, rq_tenant = Some 3\<rparr> = Inr True"
proof -
  have "is_shop_owner demo_staff \<lparr>rq_user = Some demo_user, rq_tenant = Some 3\<rparr> = Inr True"
    by (simp add: is_shop_owner_def staff_get_def qs_get_def qs_filter_def demo_staff_def demo_user_def)
  from permission_hierarchy [OF demo_staff_unique this] show ?thesis by blast
qed

text \<open>C8: Tenant isolation: a user who is not a super administrator and passes the staff check or
  any \<open>HasShopPermission\<close> check of a request has an active staff row of exactly the tenant the
  request addresses.\<close>

theorem tenant_isolation:
  assumes "staff_unique t" and "rq_user rq = Some u" and "u_type u \<noteq> SuperAdmin"
    and "Inr True \<in> {is_shop_owner_or_staff t rq, has_shop_permission p t rq}"
  shows "\<exists>st \<in> set (rows t). st_user st = u_id u \<and> rq_tenant rq = Some (st_shop st) \<and> st_active st"
proof -
  have "is_shop_owner_or_staff t rq = Inr True"
    using assms(4) perm_staff.grants_mono [OF assms(1)] by auto
  then obtain tn st where "rq_tenant rq = Some tn" "works_for t u tn st"
    using any_staff.grants_staff [OF assms(1) _ assms(2,3)] by blast
  then show ?thesis by (auto simp: works_for_def)
qed

theorem tenant_isolation_witness:
  "\<exists>st \<in> set (rows demo_staff). st_user st = 7 \<and> Some 3 = Some (st_shop st) \<and> st_active st"
proof -
  let ?rq = "\<lparr>rq_user = Some demo_user, rq_tenant = Some 3\<rparr>"
  have "is_shop_owner_or_staff demo_staff ?rq = Inr True"
    by (simp add: is_shop_owner_or_staff_def staff_get_def qs_get_def qs_filter_def demo_staff_def demo_user_def)
  then have "\<exists>st \<in> set (rows demo_staff). st_user st = u_id demo_user
      \<and> rq_tenant ?rq = Some (st_shop st) \<and> st_active st"
    by (intro tenant_isolation [where p = "''x''", OF demo_staff_unique])
      (auto simp: demo_user_def)
  then show ?thesis by (simp add: demo_user_def)
qed

text \<open>Role configuration and permission check agree: a staff member whose stored permissions
  were created by \<open>create_staff_permissions\<close> for the row's role passes \<open>HasShopPermission(p)\<close>
  exactly when \<open>p\<close> is in \<open>ROLE_PERMISSIONS\<close> of that role, or the role is owner.\<close>

theorem role_permissions_roundtrip:
  assumes t: "staff_unique t" and rq: "rq_user rq = Some u" "u_type u \<noteq> SuperAdmin" "rq_tenant rq = Some tn"
    and st: "works_for t u tn st" "st_perms st = create_staff_permissions (role_name (st_role st))"
  shows "has_shop_permission p t rq =
           Inr (st_role st = Owner \<or> p \<in> set (get_role_permissions (role_name (st_role st))))"
proof -
  have "has_shop_permission p t rq = Inr (\<exists>st'. works_for t u tn st' \<and> staff_permits p st')"
    using rq t by (rule shop_perm.tenant_staff)
  also have "(\<exists>st'. works_for t u tn st' \<and> staff_permits p st') = staff_permits p st"
    using works_for_unique [OF t st(1)] st(1) by blast
  also have "staff_permits p st \<longleftrightarrow>
      st_role st = Owner \<or> p \<in> set (get_role_permissions (role_name (st_role st)))"
    using st(2) by (auto simp: staff_permits_def perm_get_created get_role_permissions_def
        ROLE_PERMISSIONS_def)
  finally show ?thesis .
qed

theorem role_permissions_roundtrip_witness:
  "has_shop_permission ''report_view'' demo_staff
     \<lparr>rq_user = Some (demo_user\<lparr>u_id := 8\<rparr>), rq_tenant = Some 3\<rparr> = Inr False"
proof -
  let ?u = "demo_user\<lparr>u_id := 8\<rparr>"
  let ?st = "\<lparr>st_id = 2, st_user = 8, st_shop = 3, st_role = Cashier, st_active = True,
       st_perms = create_staff_permissions ''cashier''\<rparr>"
  have "works_for demo_staff ?u 3 ?st" by (simp add: works_for_def demo_staff_def)
  then have "has_shop_permission ''report_view'' demo_staff
     \<lparr>rq_user = Some ?u, rq_tenant = Some 3\<rparr> =
       Inr (st_role ?st = Owner \<or> ''report_view'' \<in> set (get_role_permissions (role_name (st_role ?st))))"
    by (intro role_permissions_roundtrip [OF demo_staff_unique]) (simp_all add: demo_user_def)
  then show ?thesis by (simp add: get_role_permissions_def ROLE_PERMISSIONS_def)
qed

text \<open>C23: The admin site and the API agree on who manages a shop: for a non-superuser who is not of
  type super administrator, viewing, changing and adding in the admin of a tenant are allowed exactly
  when \<open>IsShopManager\<close> grants the request, and when \<open>is_shop_owner_or_manager\<close> holds; deleting is
  never allowed.\<close>

theorem admin_agrees_with_api:
  assumes "staff_unique t" and "\<not> u_superuser u" and "u_type u \<noteq> SuperAdmin"
  shows "is_shop_manager t \<lparr>rq_user = Some u, rq_tenant = Some tn\<rparr> = Inr (has_view_permission u (Some tn) t)
       \<and> has_change_permission u (Some tn) t = has_view_permission u (Some tn) t
       \<and> has_add_permission u (Some tn) t = has_view_permission u (Some tn) t
       \<and> is_shop_owner_or_manager u tn t = Inr (has_view_permission u (Some tn) t)
       \<and> \<not> has_delete_permission u"
proof -
  let ?mgr = "\<lambda>st. st_role st = Owner \<or> st_role st = Manager"
  have view: "has_view_permission u (Some tn) t \<longleftrightarrow> (\<exists>st. works_for t u tn st \<and> ?mgr st)"
    using assms(2) by (auto simp: admin_defs query_simps works_for_def)
  have role: "is_shop_owner_or_manager u tn t = Inr (\<exists>st. works_for t u tn st \<and> ?mgr st)"
  proof (cases "\<exists>st. works_for t u tn st")
    case True
    then obtain st where st: "works_for t u tn st" by blast
    then have "(\<exists>st'. works_for t u tn st' \<and> ?mgr st') \<longleftrightarrow> ?mgr st"
      using works_for_unique [OF assms(1) st] by blast
    with assms(1) st show ?thesis
      by (auto simp: is_shop_owner_or_manager_def get_user_shop_role_def staff_get_unique works_for_the)
  next
    case False
    with assms(1) show ?thesis
      by (auto simp: is_shop_owner_or_manager_def get_user_shop_role_def staff_get_unique)
  qed
  have "is_shop_manager t \<lparr>rq_user = Some u, rq_tenant = Some tn\<rparr>
      = Inr (\<exists>st. works_for t u tn st \<and> ?mgr st)"
    by (rule shop_manager.tenant_staff) (use assms in simp_all)
  then show ?thesis
    using view role assms(2)
    by (simp add: has_view_permission_def has_change_permission_def has_add_permission_def
        has_delete_permission_def)
qed

theorem admin_agrees_with_api_witness:
  "is_shop_manager demo_staff \<lparr>rq_user = Some demo_user, rq_tenant = Some 3\<rparr> = Inr True"
  using admin_agrees_with_api [OF demo_staff_unique, of demo_user 3]
  by (simp add: admin_defs query_simps demo_user_def demo_staff_def)

text \<open>Membership numbers never collide: for four-digit random suffixes, two users with different
  ids get different numbers whatever was drawn, although the id part is not of fixed width.\<close>

theorem membership_numbers_distinct:
  assumes "1000 \<le> r" "r \<le> 9999" "1000 \<le> s" "s \<le> 9999" "0 \<le> i" "0 \<le> j"
    and "generate_membership_number i r = generate_membership_number j s"
  shows "i = j \<and> r = s"
proof -
  have "pad_dec 8 (nat i) @ dec_of r = pad_dec 8 (nat j) @ dec_of s"
    using assms(7) by (simp add: generate_membership_number_def)
  moreover have "length (dec_of r) = length (dec_of s)"
    using assms by (simp add: length_dec_of_4)
  ultimately have "pad_dec 8 (nat i) = pad_dec 8 (nat j)" and "dec_of r = dec_of s"
    by (simp_all add: append_eq_append_conv)
  then have "nat i = nat j" and "r = s"
    by (metis undec_pad_dec, metis undec_dec_of)
  with assms(5,6) show ?thesis by simp
qed

theorem membership_numbers_distinct_witness:
  "(123456789 :: int) = 123456789 \<and> (1000 :: nat) = 1000"
  using membership_numbers_distinct [of 1000 1000 123456789 123456789] by simp

text \<open>Saving a user fills in a missing membership number and referral code from the id the row was
  stored under, and never replaces one that is present; type and superuser flag are kept.\<close>

theorem user_save_numbers:
  assumes "user_save lib rnd u t = (Inr u', t')"
  shows "u_number u' = (if falsy (u_number u) then Some (generate_membership_number (u_id u') rnd) else u_number u)
       \<and> u_referral u' = (if falsy (u_referral u) then Some (lib_seeded_code lib (u_id u')) else u_referral u)
       \<and> u_type u' = u_type u \<and> u_superuser u' = u_superuser u
       \<and> u_id u' = (if u_id u = 0 then seq t + 1 else u_id u)"
  using user_save_InrD [OF assms] by simp

theorem user_save_numbers_witness:
  "\<exists>u' t'. user_save demo_lib 4321 (demo_user\<lparr>u_id := 0, u_number := None\<rparr>) empty_tbl = (Inr u', t')
     \<and> u_number u' = Some ''M000000014321'' \<and> u_referral u' = Some ''AB12CD34''"
proof -
  obtain u' t' where sv: "user_save demo_lib 4321 (demo_user\<lparr>u_id := 0, u_number := None\<rparr>) empty_tbl = (Inr u', t')"
    by (simp add: user_save_def store_user_def store_numbers_def user_conflict_def int4_ok_def
        t_add_def t_upd_def falsy_def Let_def empty_tbl_def demo_user_def)
  have "generate_membership_number 1 4321 = ''M000000014321''"
    by code_simp
  then show ?thesis
    using user_save_numbers [OF sv] sv by (auto simp: falsy_def demo_user_def empty_tbl_def)
qed

end
