(* ===== verification/Membership.thy ===== *)
theory Membership
  imports Identity
begin

text \<open>
  Points and membership: \<open>MembershipLevelConfig\<close>, \<open>PointsLog\<close>, \<open>PointsRule\<close>, \<open>MemberRecharge\<close>
  of \<open>apps/users/models.py\<close>, the services of \<open>apps/users/services.py\<close> and the points and recharge
  views of \<open>apps/users/api.py\<close>.

  The service works on \<open>self.user\<close>, an instance loaded before the call; it is the argument \<open>u\<close>, and
  saving writes all its columns.  A service method is atomic and returns the new instance and state, or
  the exception.
\<close>

section \<open>Rows and state\<close>

record level_row =
  ml_id :: int
  ml_level :: level
  ml_name :: string
  ml_min_points :: int
  ml_rate :: int
  ml_earn_rate :: int
  ml_shop :: int
  ml_active :: bool

datatype points_type = EarnOrder | EarnSignin | EarnShare | EarnReferral
  | ConsumeOrder | ConsumeGift | ExpirePoints | AdjustPoints

record points_log =
  pl_id :: int
  pl_user :: int
  pl_type :: points_type
  pl_points :: int
  pl_current :: int
  pl_notes :: string
  pl_ref :: string
  pl_shop :: int
  pl_at :: int

datatype rule_type = OrderEarn | SigninEarn | ShareEarn | ReferralEarn | PointsExpire

text \<open>\<open>config\<close> is a JSON object; its numbers are kept as the exact value Python gives them.\<close>

record points_rule =
  pr_id :: int
  pr_type :: rule_type
  pr_name :: string
  pr_config :: "(string \<times> rat) list"
  pr_shop :: int
  pr_active :: bool

record recharge_row =
  rc_id :: int
  rc_user :: int
  rc_amount :: int
  rc_gift_amount :: int
  rc_gift_points :: int
  rc_method :: string
  rc_paid :: bool
  rc_paid_at :: "int option"
  rc_shop :: int
  rc_at :: int

record accounts_db =
  db_users :: "user_row tbl"
  db_levels :: "level_row tbl"
  db_points_logs :: "points_log tbl"
  db_points_rules :: "points_rule tbl"
  db_recharges :: "recharge_row tbl"

section \<open>Services\<close>

definition save_user :: "auth_lib \<Rightarrow> nat \<Rightarrow> user_row \<Rightarrow> accounts_db \<Rightarrow> (user_row \<times> accounts_db) res" where
  "save_user lib rnd u db =
     (case user_save lib rnd u (db_users db) of
        (Inl e, _) \<Rightarrow> Inl e
      | (Inr u', t') \<Rightarrow> Inr (u', db\<lparr>db_users := t'\<rparr>))"

definition add_points_log ::
  "int \<Rightarrow> user_row \<Rightarrow> int \<Rightarrow> points_type \<Rightarrow> int \<Rightarrow> string \<Rightarrow> string \<Rightarrow> accounts_db \<Rightarrow> accounts_db res" where
  "add_points_log now u shop ptype points ref notes db =
     (if \<not> int4_ok points \<or> \<not> int4_ok (u_available_points u) then Inl (DataError ''points_logs'')
      else Inr (db\<lparr>db_points_logs := snd (t_add (\<lambda>i.
             \<lparr>pl_id = i, pl_user = u_id u, pl_type = ptype, pl_points = points,
              pl_current = u_available_points u, pl_notes = notes, pl_ref = ref,
              pl_shop = shop, pl_at = now\<rparr>) (db_points_logs db))\<rparr>))"

fun scan_levels :: "int \<Rightarrow> level_row list \<Rightarrow> level \<Rightarrow> level" where
  "scan_levels points [] new_level = new_level"
| "scan_levels points (l # ls) new_level =
     (if ml_min_points l \<le> points then scan_levels points ls (ml_level l) else new_level)"

definition shop_levels :: "int \<Rightarrow> accounts_db \<Rightarrow> level_row list" where
  "shop_levels shop db =
     sort_key ml_min_points (qs_filter (\<lambda>l. ml_shop l = shop \<and> ml_active l) (db_levels db))"

definition check_membership_upgrade ::
  "auth_lib \<Rightarrow> nat \<Rightarrow> user_row \<Rightarrow> int \<Rightarrow> accounts_db \<Rightarrow> (user_row \<times> accounts_db) res" where
  "check_membership_upgrade lib rnd u shop db =
     (let current_level = u_level u;
          new_level = scan_levels (u_total_points u) (shop_levels shop db) current_level
      in if new_level \<noteq> current_level then save_user lib rnd (u\<lparr>u_level := new_level\<rparr>) db
         else Inr (u, db))"

definition earn_points ::
  "auth_lib \<Rightarrow> nat \<Rightarrow> int \<Rightarrow> user_row \<Rightarrow> int \<Rightarrow> int \<Rightarrow> points_type \<Rightarrow> string \<Rightarrow> string \<Rightarrow>
   accounts_db \<Rightarrow> (user_row \<times> accounts_db) res" where
  "earn_points lib rnd now u shop points ptype ref notes db =
     (case save_user lib rnd (u\<lparr>u_available_points := u_available_points u + points,
                               u_total_points := u_total_points u + points\<rparr>) db of
        Inl e \<Rightarrow> Inl e
      | Inr (u1, db1) \<Rightarrow>
          (case add_points_log now u1 shop ptype points ref notes db1 of
             Inl e \<Rightarrow> Inl e
           | Inr db2 \<Rightarrow> check_membership_upgrade lib rnd u1 shop db2))"

definition consume_points ::
  "auth_lib \<Rightarrow> nat \<Rightarrow> int \<Rightarrow> user_row \<Rightarrow> int \<Rightarrow> int \<Rightarrow> points_type \<Rightarrow> string \<Rightarrow> string \<Rightarrow>
   accounts_db \<Rightarrow> (user_row \<times> accounts_db) res" where
  "consume_points lib rnd now u shop points ptype ref notes db =
     (if u_available_points u < points then Inl (ValueError ''points'')
      else (case save_user lib rnd (u\<lparr>u_available_points := u_available_points u - points,
                                     u_used_points := u_used_points u + points\<rparr>) db of
              Inl e \<Rightarrow> Inl e
            | Inr (u1, db1) \<Rightarrow>
                (case add_points_log now u1 shop ptype (- points) ref notes db1 of
                   Inl e \<Rightarrow> Inl e
                 | Inr db2 \<Rightarrow> Inr (u1, db2))))"

text \<open>The double nearest to 0.1, the default of \<open>config.get('points_rate', 0.1)\<close>.\<close>

definition float_0_1 :: rat where
  "float_0_1 = 3602879701896397 / 36028797018963968"

definition order_points :: "int \<Rightarrow> rat \<Rightarrow> int" where
  "order_points total_amount rate = py_int (dec_mult (of_cents total_amount) rate)"

definition process_order_points ::
  "auth_lib \<Rightarrow> nat \<Rightarrow> int \<Rightarrow> user_row \<Rightarrow> int \<Rightarrow> string \<Rightarrow> int \<Rightarrow> accounts_db \<Rightarrow>
   (user_row \<times> accounts_db) res" where
  "process_order_points lib rnd now u shop order_number total_amount db =
     (case qs_get ''PointsRule'' (\<lambda>r. pr_shop r = shop \<and> pr_type r = OrderEarn \<and> pr_active r)
             (db_points_rules db) of
        Inr rule \<Rightarrow>
          let points_rate = (case map_of (pr_config rule) ''points_rate'' of
                               None \<Rightarrow> float_0_1 | Some x \<Rightarrow> x);
              points = order_points total_amount points_rate
          in if 0 < points
             then earn_points lib rnd now u shop points EarnOrder order_number ''order'' db
             else Inr (u, db)
      | Inl (DoesNotExist m) \<Rightarrow> Inr (u, db)
      | Inl e \<Rightarrow> Inl e)"

definition get_membership_discount :: "user_row \<Rightarrow> int \<Rightarrow> int \<Rightarrow> accounts_db \<Rightarrow> rat res" where
  "get_membership_discount u shop order_amount db =
     (case qs_get ''MembershipLevelConfig''
             (\<lambda>l. ml_shop l = shop \<and> ml_level l = u_level u \<and> ml_active l) (db_levels db) of
        Inr cfg \<Rightarrow> Inr (of_cents order_amount * (1 - of_cents (ml_rate cfg)))
      | Inl (DoesNotExist m) \<Rightarrow> Inr 0
      | Inl e \<Rightarrow> Inl e)"

text \<open>\<open>Decimal * float\<close> is not defined in Python: it raises \<open>TypeError\<close>.\<close>

definition decimal_times_float :: "rat \<Rightarrow> rat \<Rightarrow> rat res" where
  "decimal_times_float d f = Inl (TypeError ''Decimal * float'')"

definition recharge ::
  "auth_lib \<Rightarrow> nat \<Rightarrow> int \<Rightarrow> user_row \<Rightarrow> int \<Rightarrow> int \<Rightarrow> string \<Rightarrow> accounts_db \<Rightarrow>
   (recharge_row \<times> accounts_db) res" where
  "recharge lib rnd now u shop amount payment_method db =
     (case (if 10000 \<le> amount
            then (case decimal_times_float (of_cents amount) (3/2) of
                    Inl e \<Rightarrow> Inl e
                  | Inr g \<Rightarrow> Inr (to_cents (dec_mult (of_cents amount) (1/10)), py_int g))
            else Inr (0, 0)) of
        Inl e \<Rightarrow> Inl e
      | Inr (gift_amount, gift_points) \<Rightarrow>
          if \<not> numeric_ok 10 amount \<or> \<not> numeric_ok 10 gift_amount then Inl (DataError ''member_recharges'')
          else
            let (row, t) = t_add (\<lambda>i. \<lparr>rc_id = i, rc_user = u_id u, rc_amount = amount,
                    rc_gift_amount = gift_amount, rc_gift_points = gift_points,
                    rc_method = payment_method, rc_paid = False, rc_paid_at = None,
                    rc_shop = shop, rc_at = now\<rparr>) (db_recharges db)
            in if payment_method = ''balance'' then
                 let row' = row\<lparr>rc_paid := True, rc_paid_at := Some now\<rparr>;
                     db' = db\<lparr>db_recharges := t_save rc_id row' t\<rparr>
                 in if 0 < gift_points
                    then (case earn_points lib rnd now u shop gift_points EarnOrder
                                 (dec_int (rc_id row')) ''recharge'' db' of
                            Inl e \<Rightarrow> Inl e
                          | Inr (_, db'') \<Rightarrow> Inr (row', db''))
                    else Inr (row', db')
               else Inr (row, db\<lparr>db_recharges := t\<rparr>))"

section \<open>Views\<close>

definition recharge_view ::
  "auth_lib \<Rightarrow> nat \<Rightarrow> int \<Rightarrow> user_row \<Rightarrow> int \<Rightarrow> int option \<Rightarrow> string option \<Rightarrow> accounts_db \<Rightarrow>
   recharge_row reply \<times> accounts_db" where
  "recharge_view lib rnd now u shop amount method db =
     (case (amount, method) of
        (Some a, Some m) \<Rightarrow>
          if a < 1 \<or> \<not> numeric_ok 10 a \<or> m = [] then (Reject 400 (ValidationError ''recharge''), db)
          else (case recharge lib rnd now u shop a m db of
                  Inl e \<Rightarrow> (Crash e, db)
                | Inr (row, db') \<Rightarrow> (OK 200 row, db'))
      | _ \<Rightarrow> (Reject 400 (ValidationError ''recharge''), db))"

text \<open>\<open>PointsConsumeSerializer\<close>: \<open>points\<close> is required and at least 1.  The reply carries
  \<open>request.user.available_points\<close>.\<close>

definition consume_points_view ::
  "auth_lib \<Rightarrow> nat \<Rightarrow> int \<Rightarrow> user_row \<Rightarrow> int \<Rightarrow> int option \<Rightarrow> int option \<Rightarrow> accounts_db \<Rightarrow>
   int reply \<times> accounts_db" where
  "consume_points_view lib rnd now u shop points order_id db =
     (case points of
        None \<Rightarrow> (Reject 400 (ValidationError ''points''), db)
      | Some p \<Rightarrow>
          if p < 1 then (Reject 400 (ValidationError ''points''), db)
          else (case consume_points lib rnd now u shop p ConsumeOrder
                       (if truthy_int order_id then dec_int (the order_id) else '''') ''consume'' db of
                  Inr (u', db') \<Rightarrow> (OK 200 (u_available_points u'), db')
                | Inl (ValueError m) \<Rightarrow> (Reject 400 (ValueError m), db)
                | Inl e \<Rightarrow> (Crash e, db)))"

text \<open>
  \<open>users/api.py\<close> imports \<open>timezone\<close> from \<open>datetime\<close>, which has no \<open>now\<close>.  The
  lookup \<open>created_at__date=today\<close> converts to the active time zone; \<open>today\<close> is the UTC date.
  The rule's \<open>points\<close> is a whole number.
\<close>

definition users_api_env :: module_env where
  "users_api_env = \<lparr>env_time = Unbound, env_timezone = BoundElsewhere, env_Decimal = Unbound\<rparr>"

definition signin_earn_points ::
  "module_env \<Rightarrow> auth_lib \<Rightarrow> nat \<Rightarrow> int \<Rightarrow> user_row \<Rightarrow> int \<Rightarrow> accounts_db \<Rightarrow> int reply \<times> accounts_db" where
  "signin_earn_points E lib rnd now u shop db =
     (case use_name (env_timezone E) ''now'' of
        Inl e \<Rightarrow> (Crash e, db)
      | Inr _ \<Rightarrow>
          let today = utc_date now in
          if qs_exists (\<lambda>l. pl_user l = u_id u \<and> pl_shop l = shop \<and> pl_type l = EarnSignin
                            \<and> local_date (pl_at l) = today) (db_points_logs db)
          then (Reject 400 (ValueError ''signed in''), db)
          else (case qs_get ''PointsRule''
                       (\<lambda>r. pr_shop r = shop \<and> pr_type r = SigninEarn \<and> pr_active r)
                       (db_points_rules db) of
                  Inr rule \<Rightarrow>
                    let points = (case map_of (pr_config rule) ''points'' of None \<Rightarrow> 10 | Some x \<Rightarrow> py_int x)
                    in (case earn_points lib rnd now u shop points EarnSignin '''' ''signin'' db of
                          Inl e \<Rightarrow> (Crash e, db)
                        | Inr (u', db') \<Rightarrow> (OK 200 points, db'))
                | Inl (DoesNotExist m) \<Rightarrow> (Reject 400 (DoesNotExist m), db)
                | Inl e \<Rightarrow> (Crash e, db)))"

section \<open>Lemmas\<close>

lemma generate_not_falsy: "\<not> falsy (Some (generate_membership_number i rnd))"
  by (simp add: falsy_def generate_membership_number_def)

lemma user_save_find:
  assumes "user_save lib rnd u t = (Inr u', t')" and "u_id u \<noteq> 0" and "t_find u_id (u_id u) t \<noteq> None"
  shows "t_find u_id i t' = (if i = u_id u then Some u' else t_find u_id i t)"
  using assms
  by (auto simp: user_save_def store_user_def store_numbers_def Let_def t_find_t_upd t_find_t_save
      split: sum.splits if_splits prod.splits)

text \<open>The instance and the points columns a successful save leaves behind.\<close>

definition same_points :: "user_row \<Rightarrow> user_row \<Rightarrow> bool" where
  "same_points u v \<longleftrightarrow> u_id u = u_id v \<and> u_total_points u = u_total_points v
     \<and> u_available_points u = u_available_points v \<and> u_used_points u = u_used_points v"

lemma user_save_same_points:
  assumes "user_save lib rnd u t = (Inr u', t')" and "u_id u \<noteq> 0"
  shows "same_points u' u"
  using assms
  by (auto simp: user_save_def store_user_def store_numbers_def Let_def same_points_def
      split: sum.splits if_splits prod.splits)

lemma user_save_level:
  assumes "user_save lib rnd u t = (Inr u', t')"
  shows "u_level u' = u_level u"
  using assms
  by (auto simp: user_save_def store_user_def store_numbers_def Let_def t_add_def
      split: sum.splits if_splits prod.splits)

lemma user_save_wf:
  assumes "user_save lib rnd u t = (Inr u', t')" and "t_wf u_id t" and "t_find u_id (u_id u) t \<noteq> None"
  shows "t_wf u_id t'"
proof -
  have "u_id u \<noteq> 0" using assms(2,3) t_wf_find_None_0 by metis
  then show ?thesis
    using assms
    by (auto simp: user_save_def store_user_def store_numbers_def Let_def
        intro!: t_wf_t_upd t_wf_t_save split: sum.splits if_splits prod.splits)
qed

definition user_at :: "accounts_db \<Rightarrow> int \<Rightarrow> user_row option" where
  "user_at db i = t_find u_id i (db_users db)"

definition accounts_wf :: "accounts_db \<Rightarrow> bool" where
  "accounts_wf db \<longleftrightarrow> t_wf u_id (db_users db)"

lemma save_user_InrD:
  assumes "save_user lib rnd u db = Inr (u', db')" and "accounts_wf db" and "user_at db (u_id u) \<noteq> None"
  shows "same_points u' u" and "u_level u' = u_level u" and "accounts_wf db'"
    and "user_at db' = (user_at db)(u_id u := Some u')"
    and "db_points_logs db' = db_points_logs db" and "db_levels db' = db_levels db"
    and "db_points_rules db' = db_points_rules db" and "db_recharges db' = db_recharges db"
proof -
  obtain t' where sv: "user_save lib rnd u (db_users db) = (Inr u', t')" and db': "db' = db\<lparr>db_users := t'\<rparr>"
    using assms(1) by (auto simp: save_user_def split: prod.splits sum.splits)
  have id: "u_id u \<noteq> 0"
    using assms(2,3) t_wf_find_None_0 by (metis accounts_wf_def user_at_def)
  show "same_points u' u" by (rule user_save_same_points [OF sv id])
  show "u_level u' = u_level u" by (rule user_save_level [OF sv])
  show "accounts_wf db'"
    using user_save_wf [OF sv] assms(2,3) db' by (simp add: accounts_wf_def user_at_def)
  show "user_at db' = (user_at db)(u_id u := Some u')"
    using user_save_find [OF sv id] assms(3) db' by (auto simp: user_at_def)
qed (use assms(1) in \<open>auto simp: save_user_def split: prod.splits sum.splits\<close>)

lemma add_points_log_InrD:
  assumes "add_points_log now u shop ptype p ref notes db = Inr db'"
  shows "user_at db' = user_at db" and "db_users db' = db_users db" and "db_levels db' = db_levels db"
    and "db_recharges db' = db_recharges db" and "db_points_rules db' = db_points_rules db"
    and "\<exists>l. rows (db_points_logs db') = rows (db_points_logs db) @ [l] \<and> pl_user l = u_id u
       \<and> pl_points l = p \<and> pl_current l = u_available_points u \<and> pl_type l = ptype
       \<and> pl_shop l = shop \<and> pl_at l = now \<and> pl_ref l = ref"
  using assms by (auto simp: add_points_log_def t_add_def user_at_def split: if_splits)

lemma check_upgrade_InrD:
  assumes "check_membership_upgrade lib rnd u shop db = Inr (u', db')" and "accounts_wf db"
    and "user_at db (u_id u) = Some u"
  shows "same_points u' u" and "accounts_wf db'" and "user_at db' = (user_at db)(u_id u := Some u')"
    and "db_points_logs db' = db_points_logs db"
    and "u_level u' = scan_levels (u_total_points u) (shop_levels shop db) (u_level u)"
proof -
  let ?new = "scan_levels (u_total_points u) (shop_levels shop db) (u_level u)"
  have all: "same_points u' u \<and> accounts_wf db' \<and> user_at db' = (user_at db)(u_id u := Some u')
      \<and> db_points_logs db' = db_points_logs db \<and> u_level u' = ?new"
  proof (cases "?new = u_level u")
    case True
    with assms show ?thesis by (auto simp: check_membership_upgrade_def Let_def same_points_def)
  next
    case False
    with assms(1) have "save_user lib rnd (u\<lparr>u_level := ?new\<rparr>) db = Inr (u', db')"
      by (simp add: check_membership_upgrade_def Let_def)
    from save_user_InrD [OF this assms(2)] assms(3) show ?thesis
      by (simp add: same_points_def)
  qed
  then show "same_points u' u" and "accounts_wf db'" and "user_at db' = (user_at db)(u_id u := Some u')"
    and "db_points_logs db' = db_points_logs db" and "u_level u' = ?new" by blast+
qed

text \<open>What a successful \<open>earn_points\<close> or \<open>consume_points\<close> did, for a caller whose instance is the
  stored row.\<close>

definition moved_points :: "user_row \<Rightarrow> int \<Rightarrow> int \<Rightarrow> user_row \<Rightarrow> bool" where
  "moved_points u earned used u' \<longleftrightarrow> u_id u' = u_id u
     \<and> u_available_points u' = u_available_points u + earned - used
     \<and> u_total_points u' = u_total_points u + earned
     \<and> u_used_points u' = u_used_points u + used"

definition logged :: "accounts_db \<Rightarrow> accounts_db \<Rightarrow> int \<Rightarrow> int \<Rightarrow> int \<Rightarrow> bool" where
  "logged db db' uid p current \<longleftrightarrow> (\<exists>l. rows (db_points_logs db') = rows (db_points_logs db) @ [l]
     \<and> pl_user l = uid \<and> pl_points l = p \<and> pl_current l = current)"

lemma earn_points_InrD:
  assumes "earn_points lib rnd now u shop p ptype ref notes db = Inr (u', db')"
    and "accounts_wf db" and "user_at db (u_id u) \<noteq> None"
  shows "moved_points u p 0 u'" and "accounts_wf db'" and "user_at db' = (user_at db)(u_id u := Some u')"
    and "logged db db' (u_id u) p (u_available_points u')"
    and "u_level u' = scan_levels (u_total_points u + p) (shop_levels shop db) (u_level u)"
proof -
  let ?u = "u\<lparr>u_available_points := u_available_points u + p, u_total_points := u_total_points u + p\<rparr>"
  obtain u1 db1 db2 where
    s: "save_user lib rnd ?u db = Inr (u1, db1)"
    and l: "add_points_log now u1 shop ptype p ref notes db1 = Inr db2"
    and c: "check_membership_upgrade lib rnd u1 shop db2 = Inr (u', db')"
    using assms(1) by (auto simp: earn_points_def split: sum.splits prod.splits)
  have at: "user_at db (u_id ?u) \<noteq> None" using assms(3) by simp
  note S = save_user_InrD [OF s assms(2) at]
  note L = add_points_log_InrD [OF l]
  have id: "u_id u1 = u_id u" using S(1) by (simp add: same_points_def)
  have wf2: "accounts_wf db2" using S(3) L(2) by (simp add: accounts_wf_def)
  have at2: "user_at db2 (u_id u1) = Some u1" using S(4) L(1) id by simp
  note C = check_upgrade_InrD [OF c wf2 at2]
  have lv: "shop_levels shop db2 = shop_levels shop db"
    using S(6) L(3) by (simp add: shop_levels_def)
  show "moved_points u p 0 u'"
    using S(1) C(1) by (simp add: moved_points_def same_points_def)
  show "accounts_wf db'" by (rule C(2))
  show "user_at db' = (user_at db)(u_id u := Some u')"
    using C(3) L(1) S(4) id by simp
  show "logged db db' (u_id u) p (u_available_points u')"
    using C(1,4) L(6) S(5) id by (auto simp: logged_def same_points_def)
  show "u_level u' = scan_levels (u_total_points u + p) (shop_levels shop db) (u_level u)"
    using C(5) lv S(1,2) by (simp add: same_points_def)
qed

lemma consume_points_InrD:
  assumes "consume_points lib rnd now u shop p ptype ref notes db = Inr (u', db')"
    and "accounts_wf db" and "user_at db (u_id u) \<noteq> None"
  shows "moved_points u 0 p u'" and "accounts_wf db'" and "user_at db' = (user_at db)(u_id u := Some u')"
    and "logged db db' (u_id u) (- p) (u_available_points u')" and "p \<le> u_available_points u"
proof -
  let ?u = "u\<lparr>u_available_points := u_available_points u - p, u_used_points := u_used_points u + p\<rparr>"
  obtain db1 where
    s: "save_user lib rnd ?u db = Inr (u', db1)"
    and l: "add_points_log now u' shop ptype (- p) ref notes db1 = Inr db'"
    and le: "p \<le> u_available_points u"
    using assms(1) by (auto simp: consume_points_def split: sum.splits prod.splits if_splits)
  have at: "user_at db (u_id ?u) \<noteq> None" using assms(3) by simp
  note S = save_user_InrD [OF s assms(2) at]
  note L = add_points_log_InrD [OF l]
  show "moved_points u 0 p u'" using S(1) by (simp add: moved_points_def same_points_def)
  show "accounts_wf db'" using S(3) L(2) by (simp add: accounts_wf_def)
  show "user_at db' = (user_at db)(u_id u := Some u')" using S(4) L(1) by simp
  show "logged db db' (u_id u) (- p) (u_available_points u')"
    using L(6) S(1,5) by (auto simp: logged_def same_points_def)
  show "p \<le> u_available_points u" by (rule le)
qed

section \<open>Runs of points requests\<close>

datatype points_request = EarnReq int nat | ConsumeReq int int

fun handle_points ::
  "auth_lib \<Rightarrow> nat \<Rightarrow> int \<Rightarrow> int \<Rightarrow> points_request \<Rightarrow> accounts_db \<Rightarrow> int reply \<times> accounts_db" where
  "handle_points lib rnd now shop (EarnReq uid n) db =
     (case user_at db uid of
        None \<Rightarrow> (Reject 404 (DoesNotExist ''User''), db)
      | Some u \<Rightarrow>
          (case earn_points lib rnd now u shop (int n) EarnOrder [] [] db of
             Inl e \<Rightarrow> (Crash e, db)
           | Inr (u', db') \<Rightarrow> (OK 200 (u_available_points u'), db')))"
| "handle_points lib rnd now shop (ConsumeReq uid p) db =
     (case user_at db uid of
        None \<Rightarrow> (Reject 404 (DoesNotExist ''User''), db)
      | Some u \<Rightarrow> consume_points_view lib rnd now u shop (Some p) None db)"

definition points_ok :: "user_row \<Rightarrow> bool" where
  "points_ok u \<longleftrightarrow> 0 \<le> u_available_points u \<and> u_total_points u = u_available_points u + u_used_points u"

definition log_sum :: "int \<Rightarrow> accounts_db \<Rightarrow> int" where
  "log_sum uid db = sum_list (map pl_points (filter (\<lambda>l. pl_user l = uid) (rows (db_points_logs db))))"

definition points_inv :: "accounts_db \<Rightarrow> bool" where
  "points_inv db \<longleftrightarrow> accounts_wf db \<and> list_all points_ok (rows (db_users db))"

text \<open>Every user's available points are a starting amount plus the sum of the log.\<close>

definition audited :: "(int \<Rightarrow> int) \<Rightarrow> accounts_db \<Rightarrow> bool" where
  "audited base db \<longleftrightarrow> accounts_wf db \<and>
     list_all (\<lambda>u. u_available_points u = base (u_id u) + log_sum (u_id u) db) (rows (db_users db))"

lemma user_at_iff: "accounts_wf db \<Longrightarrow> user_at db i = Some u \<longleftrightarrow> u \<in> set (rows (db_users db)) \<and> u_id u = i"
  by (simp add: accounts_wf_def user_at_def find_iff_mem)

lemma list_all_users:
  "accounts_wf db \<Longrightarrow> list_all P (rows (db_users db)) \<longleftrightarrow> (\<forall>i u. user_at db i = Some u \<longrightarrow> P u)"
  by (auto simp: user_at_iff list_all_iff)

lemma log_sum_logged: "logged db db' uid p c \<Longrightarrow> log_sum i db' = log_sum i db + (if i = uid then p else 0)"
  by (auto simp: logged_def log_sum_def)

text \<open>One request either leaves the state alone, or is one successful earning or consumption.\<close>

lemma handle_points_cases:
  assumes "accounts_wf db" and "snd (handle_points lib rnd now shop op db) = db'"
  obtains "db' = db"
  | uid u u' p where "user_at db uid = Some u" "u_id u = uid" "0 \<le> p" "moved_points u p 0 u'"
      "accounts_wf db'" "user_at db' = (user_at db)(uid := Some u')" "logged db db' uid p (u_available_points u')"
  | uid u u' p where "user_at db uid = Some u" "u_id u = uid" "1 \<le> p" "p \<le> u_available_points u"
      "moved_points u 0 p u'" "accounts_wf db'" "user_at db' = (user_at db)(uid := Some u')"
      "logged db db' uid (- p) (u_available_points u')"
proof (cases op)
  case (EarnReq uid n)
  show thesis
  proof (cases "user_at db uid")
    case None
    with assms(2) EarnReq that(1) show thesis by simp
  next
    case (Some u)
    then have id: "u_id u = uid" using user_at_iff [OF assms(1)] by blast
    show thesis
    proof (cases "earn_points lib rnd now u shop (int n) EarnOrder [] [] db")
      case (Inl e)
      with assms(2) EarnReq Some that(1) show thesis by simp
    next
      case (Inr r)
      obtain u' d where r: "r = (u', d)" by (cases r)
      have at: "user_at db (u_id u) \<noteq> None" using Some id by simp
      note E = earn_points_InrD [OF Inr [unfolded r] assms(1) at]
      from assms(2) EarnReq Some Inr r have "db' = d" by simp
      with E Some id show thesis by (intro that(2) [of uid u "int n" u']) simp_all
    qed
  qed
next
  case (ConsumeReq uid p)
  show thesis
  proof (cases "user_at db uid")
    case None
    with assms(2) ConsumeReq that(1) show thesis by simp
  next
    case (Some u)
    then have id: "u_id u = uid" using user_at_iff [OF assms(1)] by blast
    show thesis
    proof (cases "1 \<le> p \<and> (\<exists>r. consume_points lib rnd now u shop p ConsumeOrder [] ''consume'' db = Inr r)")
      case False
      then have "snd (consume_points_view lib rnd now u shop (Some p) None db) = db"
        by (auto simp: consume_points_view_def split: sum.splits exn.splits prod.splits)
      with assms(2) ConsumeReq Some that(1) show thesis by simp
    next
      case True
      then obtain u' d where r: "consume_points lib rnd now u shop p ConsumeOrder [] ''consume'' db = Inr (u', d)"
        by auto
      have at: "user_at db (u_id u) \<noteq> None" using Some id by simp
      note C = consume_points_InrD [OF r assms(1) at]
      from assms(2) ConsumeReq Some True r have "db' = d" by (simp add: consume_points_view_def)
      with C Some id True show thesis by (intro that(3) [of uid u p u']) simp_all
    qed
  qed
qed

interpretation points_system: guarded_system "handle_points lib rnd now shop" points_inv
  for lib rnd now shop
proof unfold_locales
  fix db op
  assume inv: "points_inv db"
  then have wf: "accounts_wf db" by (simp add: points_inv_def)
  show "points_inv (snd (handle_points lib rnd now shop op db))"
  proof (rule handle_points_cases [OF wf refl, of lib rnd now shop op], goal_cases)
    case 1
    with inv show ?case by simp
  next
    case (2 uid u u' p)
    with inv show ?case by (auto simp: points_inv_def list_all_users wf moved_points_def points_ok_def)
  next
    case (3 uid u u' p)
    with inv show ?case by (auto simp: points_inv_def list_all_users wf moved_points_def points_ok_def)
  qed
qed

interpretation points_audit: guarded_system "handle_points lib rnd now shop" "audited base"
  for lib rnd now shop base
proof unfold_locales
  fix db op
  assume inv: "audited base db"
  then have wf: "accounts_wf db" by (simp add: audited_def)
  have id: "u_id u = i" if "user_at db i = Some u" for i u using that user_at_iff [OF wf] by blast
  show "audited base (snd (handle_points lib rnd now shop op db))"
  proof (rule handle_points_cases [OF wf refl, of lib rnd now shop op], goal_cases)
    case 1
    with inv show ?case by simp
  next
    case (2 uid u u' p)
    with inv id show ?case
      by (auto simp: audited_def list_all_users wf moved_points_def log_sum_logged [OF 2(7)])
  next
    case (3 uid u u' p)
    with inv id show ?case
      by (auto simp: audited_def list_all_users wf moved_points_def log_sum_logged [OF 3(8)])
  qed
qed

text \<open>The points services as a ledger of available points.\<close>

definition points_move ::
  "auth_lib \<Rightarrow> nat \<Rightarrow> int \<Rightarrow> int \<Rightarrow> int \<Rightarrow> int \<Rightarrow> accounts_db \<Rightarrow> accounts_db res" where
  "points_move lib rnd now shop uid d db =
     (case user_at db uid of
        None \<Rightarrow> Inl (DoesNotExist ''User'')
      | Some u \<Rightarrow>
          (case (if 0 \<le> d then earn_points lib rnd now u shop d EarnOrder [] [] db
                 else consume_points lib rnd now u shop (- d) ConsumeOrder [] [] db) of
             Inl e \<Rightarrow> Inl e
           | Inr (u', db') \<Rightarrow> Inr db'))"

definition available_at :: "accounts_db \<Rightarrow> int \<Rightarrow> int option" where
  "available_at db i = map_option u_available_points (user_at db i)"

lemma points_move_step:
  assumes wf: "accounts_wf db" and mv: "points_move lib rnd now shop uid d db = Inr db'"
  shows "available_at db uid \<noteq> None \<and> accounts_wf db'
      \<and> available_at db' = (available_at db)(uid := map_option (\<lambda>v. v + d) (available_at db uid))"
proof -
  obtain u where at: "user_at db uid = Some u" using mv by (auto simp: points_move_def split: option.splits)
  then have id: "u_id u = uid" using user_at_iff [OF wf] by blast
  then have ne: "user_at db (u_id u) \<noteq> None" using at by simp
  have "\<exists>u'. u_available_points u' = u_available_points u + d \<and> accounts_wf db'
      \<and> user_at db' = (user_at db)(uid := Some u')"
  proof (cases "0 \<le> d")
    case True
    with mv at obtain u' where r: "earn_points lib rnd now u shop d EarnOrder [] [] db = Inr (u', db')"
      by (auto simp: points_move_def split: sum.splits)
    note E = earn_points_InrD [OF r wf ne]
    show ?thesis using E at id by (auto simp: moved_points_def)
  next
    case False
    with mv at obtain u' where r: "consume_points lib rnd now u shop (- d) ConsumeOrder [] [] db = Inr (u', db')"
      by (auto simp: points_move_def split: sum.splits)
    note C = consume_points_InrD [OF r wf ne]
    show ?thesis using C at id by (auto simp: moved_points_def)
  qed
  with at show ?thesis by (auto simp: available_at_def)
qed

interpretation points_ledger: ledger "points_move lib rnd now shop" available_at accounts_wf
  for lib rnd now shop
  by unfold_locales (use points_move_step in blast)+

lemma scan_levels_filter:
  assumes "sorted (map ml_min_points ls)"
  shows "scan_levels p ls d =
    (let qs = filter (\<lambda>l. ml_min_points l \<le> p) ls in if qs = [] then d else ml_level (last qs))"
  using assms
proof (induction p ls d rule: scan_levels.induct)
  case (1 p d)
  then show ?case by simp
next
  case (2 p l ls d)
  show ?case
  proof (cases "ml_min_points l \<le> p")
    case True
    with 2 show ?thesis by (simp add: Let_def)
  next
    case False
    then have "filter (\<lambda>l. ml_min_points l \<le> p) ls = []"
      using "2.prems" by (force simp: filter_empty_conv)
    with False show ?thesis by simp
  qed
qed

lemma last_sorted_max:
  assumes "sorted (map f xs)" and "x \<in> set xs"
  shows "f x \<le> f (last xs)"
  using assms by (induction xs) (auto split: if_splits)

lemma points_exact:
  assumes "0 \<le> c" "c < 10000000000" "0 \<le> k" "k < 100000"
  shows "order_points c (of_cents k) = c * k div 10000"
proof -
  let ?n = "c * k"
  have le: "?n \<le> 10000000000 * 100000" using assms by (intro mult_mono) auto
  have nn: "0 \<le> ?n" using assms by simp
  have "?n < 10 ^ 28" using le by simp
  then have d: "dec_mult (of_cents c) (of_cents k) = of_int ?n / of_int 10000" using assms by (intro dec_mult_cents(1)) auto
  have pos: "0 \<le> of_int ?n / (of_int 10000 :: rat)"
    using nn by (metis of_int_0_le_iff zero_le_divide_iff zero_le_numeral of_int_numeral)
  have fl: "\<lfloor>of_int ?n / (of_int 10000 :: rat)\<rfloor> = ?n div 10000" by (rule floor_divide_of_int_eq)
  show ?thesis
    unfolding order_points_def py_int_def d by (simp only: pos if_True fl)
qed

section \<open>Properties\<close>

definition demo_accounts :: accounts_db where
  "demo_accounts = \<lparr>db_users = \<lparr>rows = [demo_user], seq = 7\<rparr>,
     db_levels = \<lparr>rows =
       [\<lparr>ml_id = 1, ml_level = Gold, ml_name = ''gold'', ml_min_points = 100, ml_rate = 90,
         ml_earn_rate = 10, ml_shop = 3, ml_active = True\<rparr>,
        \<lparr>ml_id = 2, ml_level = Silver, ml_name = ''silver'', ml_min_points = 50, ml_rate = 95,
         ml_earn_rate = 10, ml_shop = 3, ml_active = True\<rparr>], seq = 2\<rparr>,
     db_points_logs = empty_tbl,
     db_points_rules = \<lparr>rows =
       [\<lparr>pr_id = 1, pr_type = OrderEarn, pr_name = ''order'', pr_config = [(''points_rate'', 1/10)],
         pr_shop = 3, pr_active = True\<rparr>,
        \<lparr>pr_id = 2, pr_type = SigninEarn, pr_name = ''signin'', pr_config = [(''points'', 5)],
         pr_shop = 3, pr_active = True\<rparr>], seq = 2\<rparr>,
     db_recharges = empty_tbl\<rparr>"

lemma demo_accounts_wf: "accounts_wf demo_accounts"
  by (simp add: accounts_wf_def t_wf_def demo_accounts_def demo_user_def)

lemma demo_accounts_at: "user_at demo_accounts 7 = Some demo_user" "u_id demo_user = 7"
  by (simp_all add: user_at_def t_find_def demo_accounts_def demo_user_def)

lemma demo_accounts_inv: "points_inv demo_accounts"
  using demo_accounts_wf by (simp add: points_inv_def points_ok_def demo_accounts_def demo_user_def)



text \<open>C18: The points log explains every balance: over any sequence of requests, the change of a user's
  available points is the sum of the log rows written for the user.\<close>

theorem points_log_explains_balance:
  assumes "accounts_wf db" and "user_at db i = Some u"
    and "user_at (run_requests (handle_points lib rnd now shop) ops db) i = Some u'"
  shows "u_available_points u' - u_available_points u
       = log_sum i (run_requests (handle_points lib rnd now shop) ops db) - log_sum i db"
proof -
  let ?s = "run_requests (handle_points lib rnd now shop) ops db"
  define base where
    "base = (\<lambda>j. (case user_at db j of None \<Rightarrow> 0 | Some v \<Rightarrow> u_available_points v) - log_sum j db)"
  have id: "u_id v = j" if "user_at db j = Some v" for j v
    using that user_at_iff [OF assms(1)] by blast
  have "audited base db"
    unfolding audited_def list_all_users [OF assms(1)] using assms(1) by (simp add: base_def id)
  then have "audited base ?s" by (rule points_audit.run_inv)
  then have "u_available_points u' = base i + log_sum i ?s"
    using assms(3) by (auto simp: audited_def list_all_users user_at_iff)
  then show ?thesis using assms(2) by (simp add: base_def)
qed

theorem points_log_explains_balance_witness:
  "log_sum 7 (run_requests (handle_points demo_lib 1234 5 3) [EarnReq 7 60, ConsumeReq 7 20] demo_accounts) = 40"
proof -
  let ?s = "run_requests (handle_points demo_lib 1234 5 3) [EarnReq 7 60, ConsumeReq 7 20] demo_accounts"
  have "map_option u_available_points (user_at ?s 7) = Some 40" by code_simp
  then obtain u' where u': "user_at ?s 7 = Some u'" "u_available_points u' = 40" by blast
  have "log_sum 7 demo_accounts = 0" by (simp add: log_sum_def demo_accounts_def empty_tbl_def)
  with points_log_explains_balance [OF demo_accounts_wf demo_accounts_at(1) u'(1)] u'(2)
  show ?thesis by (simp add: demo_user_def)
qed

text \<open>Any mix of earnings and consumptions that goes through moves each user's available points by
  exactly the amounts addressed to that user, whatever the order and whoever else is served.\<close>

theorem points_moves_add_up:
  assumes "accounts_wf db" and "move_all (points_move lib rnd now shop) ms db = Inr db'"
  shows "available_at db' i = map_option (\<lambda>v. v + total_of i ms) (available_at db i)"
  using assms by (rule points_ledger.move_all_level)

theorem points_moves_add_up_witness:
  "\<exists>db'. move_all (points_move demo_lib 1234 5 3) [(7, 30), (7, - 10)] demo_accounts = Inr db'
     \<and> available_at db' 7 = Some 20"
proof -
  have "res_is (\<lambda>_. True) (move_all (points_move demo_lib 1234 5 3) [(7, 30), (7, - 10)] demo_accounts)"
    by code_simp
  then obtain db' where mv: "move_all (points_move demo_lib 1234 5 3) [(7, 30), (7, - 10)] demo_accounts = Inr db'"
    by (rule res_isE)
  have "available_at demo_accounts 7 = Some 0"
    by (simp add: available_at_def demo_accounts_at) (simp add: demo_user_def)
  then show ?thesis using points_moves_add_up [OF demo_accounts_wf mv, of 7] mv by simp
qed

text \<open>After earning points the membership level is that of the active configuration of the shop
  with the highest threshold the total reaches, in whatever order the configurations are stored; when no
  threshold is reached the level stays.\<close>

theorem upgrade_picks_highest:
  assumes "earn_points lib rnd now u shop p ptype ref notes db = Inr (u', db')"
    and "accounts_wf db" and "user_at db (u_id u) = Some u"
    and qual: "qual = {c \<in> set (rows (db_levels db)). ml_shop c = shop \<and> ml_active c
                      \<and> ml_min_points c \<le> u_total_points u'}"
  shows "if qual = {} then u_level u' = u_level u
         else (\<exists>c \<in> qual. u_level u' = ml_level c \<and> qual \<subseteq> {c'. ml_min_points c' \<le> ml_min_points c})"
proof -
  have ne: "user_at db (u_id u) \<noteq> None" using assms(3) by simp
  note E = earn_points_InrD [OF assms(1,2) ne]
  let ?p = "u_total_points u + p"
  let ?qs = "filter (\<lambda>l. ml_min_points l \<le> ?p) (shop_levels shop db)"
  have srt: "sorted (map ml_min_points (shop_levels shop db))" by (simp add: shop_levels_def)
  then have srt': "sorted (map ml_min_points ?qs)" by (rule sorted_filter)
  have set: "set ?qs = qual"
    using E(1) by (auto simp: qual shop_levels_def qs_filter_def moved_points_def)
  show ?thesis
  proof (cases "?qs = []")
    case True
    with set E(5) scan_levels_filter [OF srt, of ?p "u_level u"] show ?thesis by simp
  next
    case False
    then have last: "last ?qs \<in> qual" using set last_in_set by blast
    moreover have "u_level u' = ml_level (last ?qs)"
      using E(5) scan_levels_filter [OF srt, of ?p "u_level u"] False by (simp add: Let_def)
    moreover have "qual \<subseteq> {c'. ml_min_points c' \<le> ml_min_points (last ?qs)}"
      using last_sorted_max [OF srt'] set by auto
    ultimately show ?thesis by auto
  qed
qed

theorem upgrade_picks_highest_witness:
  "res_is (\<lambda>(u', db'). u_level u' = Gold)
     (earn_points demo_lib 1234 5 demo_user 3 120 EarnOrder [] [] demo_accounts)"
proof -
  have "res_is (\<lambda>(u', db'). u_total_points u' = 120)
      (earn_points demo_lib 1234 5 demo_user 3 120 EarnOrder [] [] demo_accounts)" by code_simp
  then obtain u' db' where e: "earn_points demo_lib 1234 5 demo_user 3 120 EarnOrder [] [] demo_accounts = Inr (u', db')"
    and tot: "u_total_points u' = 120" by (auto elim: res_isE)
  have at: "user_at demo_accounts (u_id demo_user) = Some demo_user" by (simp add: demo_accounts_at)
  have q: "{c \<in> set (rows (db_levels demo_accounts)). ml_shop c = 3 \<and> ml_active c
      \<and> ml_min_points c \<le> u_total_points u'} = set (rows (db_levels demo_accounts))"
    by (auto simp: tot demo_accounts_def)
  show ?thesis
    using upgrade_picks_highest [OF e demo_accounts_wf at refl] e
    unfolding q by (auto simp: demo_accounts_def res_is_def)
qed

text \<open>Points for an order under an exactly decimal rate: a rate of k hundredths gives the whole part
  of amount times rate, in integer arithmetic on cents; nothing is lost to decimal rounding.\<close>

theorem order_points_exact:
  assumes "process_order_points lib rnd now u shop num c db = Inr (u', db')"
    and "accounts_wf db" and "user_at db (u_id u) = Some u"
    and "qs_get ''PointsRule'' (\<lambda>r. pr_shop r = shop \<and> pr_type r = OrderEarn \<and> pr_active r)
           (db_points_rules db) = Inr rule"
    and "map_of (pr_config rule) ''points_rate'' = Some (of_cents k)"
    and "0 \<le> c" "c < 10000000000" "0 \<le> k" "k < 100000"
  shows "u_available_points u' = u_available_points u + c * k div 10000
       \<and> u_total_points u' = u_total_points u + c * k div 10000"
proof -
  have pts: "order_points c (of_cents k) = c * k div 10000" by (rule points_exact) (use assms in auto)
  have nn: "0 \<le> c * k div 10000" using assms(6,8) by (simp add: pos_imp_zdiv_nonneg_iff)
  have ne: "user_at db (u_id u) \<noteq> None" using assms(3) by simp
  show ?thesis
  proof (cases "0 < c * k div 10000")
    case True
    with assms(1,4,5) pts
    have "earn_points lib rnd now u shop (c * k div 10000) EarnOrder num ''order'' db = Inr (u', db')"
      by (simp add: process_order_points_def)
    from earn_points_InrD(1) [OF this assms(2) ne] show ?thesis by (simp add: moved_points_def)
  next
    case False
    with nn have "c * k div 10000 = 0" by simp
    with assms(1,4,5) pts show ?thesis by (simp add: process_order_points_def)
  qed
qed

theorem order_points_exact_witness:
  "res_is (\<lambda>(u', db'). u_available_points u' = 12)
     (process_order_points demo_lib 1234 5 demo_user 3 ''ORD1'' 12990 demo_accounts)"
proof -
  let ?rule = "\<lparr>pr_id = 1, pr_type = OrderEarn, pr_name = ''order'', pr_config = [(''points_rate'', 1/10)],
         pr_shop = 3, pr_active = True\<rparr>"
  have at: "user_at demo_accounts (u_id demo_user) = Some demo_user" by (simp add: demo_accounts_at)
  have rl: "qs_get ''PointsRule'' (\<lambda>r. pr_shop r = 3 \<and> pr_type r = OrderEarn \<and> pr_active r)
      (db_points_rules demo_accounts) = Inr ?rule"
    by (simp add: qs_get_def qs_filter_def demo_accounts_def)
  have tenth: "map_of (pr_config ?rule) ''points_rate'' = Some (of_cents 10)" by (simp add: of_cents_def)
  have "res_is (\<lambda>_. True) (earn_points demo_lib 1234 5 demo_user 3 12 EarnOrder ''ORD1'' ''order'' demo_accounts)"
    by code_simp
  then obtain u' db' where e: "earn_points demo_lib 1234 5 demo_user 3 12 EarnOrder ''ORD1'' ''order'' demo_accounts = Inr (u', db')"
    by (auto elim: res_isE)
  have "order_points 12990 (of_cents 10) = 12" by (subst points_exact) simp_all
  then have p: "process_order_points demo_lib 1234 5 demo_user 3 ''ORD1'' 12990 demo_accounts = Inr (u', db')"
    by (simp add: process_order_points_def rl of_cents_def e)
  have "u_available_points u' = u_available_points demo_user + 12990 * 10 div 10000"
    using order_points_exact [OF p demo_accounts_wf at rl tenth] by simp
  then have "u_available_points u' = 12" by (simp add: demo_user_def)
  then show ?thesis by (simp add: p res_is_def)
qed

text \<open>A rate configured as the JSON number 0.3 loses points: the double nearest to 0.3 is below
  0.3, so an order of 10.00 earns 2 points, where the decimal rate 0.30 earns 3.\<close>

theorem order_points_float_loss:
  "order_points 1000 (5404319552844595 / 18014398509481984) = 2 \<and> order_points 1000 (of_cents 30) = 3"
proof
  show "order_points 1000 (of_cents 30) = 3" by (subst points_exact) simp_all
  show "order_points 1000 (5404319552844595 / 18014398509481984) = 2" by code_simp
qed

text \<open>The membership discount is exact and bounded: under the one active configuration of the
  user's level, with rate k hundredths (0 to 100), an order of c cents is discounted by c * (100 - k)
  hundredths of a cent, between zero and the order amount; it never depends on other shops or levels.\<close>

theorem membership_discount_exact:
  assumes "qs_filter (\<lambda>l. ml_shop l = shop \<and> ml_level l = u_level u \<and> ml_active l) (db_levels db) = [cfg]"
    and "0 \<le> ml_rate cfg" "ml_rate cfg \<le> 100" "0 \<le> c"
  shows "\<exists>d. get_membership_discount u shop c db = Inr d \<and> d * 10000 = of_int (c * (100 - ml_rate cfg))
       \<and> 0 \<le> d \<and> d \<le> of_cents c"
proof -
  let ?d = "of_cents c * (1 - of_cents (ml_rate cfg))"
  have "get_membership_discount u shop c db = Inr ?d"
    using assms(1) by (simp add: get_membership_discount_def qs_get_def)
  moreover have "?d * 10000 = of_int (c * (100 - ml_rate cfg))"
    by (simp add: of_cents_def field_simps)
  moreover have "0 \<le> 1 - of_cents (ml_rate cfg)" "1 - of_cents (ml_rate cfg) \<le> 1"
    using assms(2,3) by (simp_all add: of_cents_def)
  then have "0 \<le> ?d \<and> ?d \<le> of_cents c"
    using assms(4) by (simp add: mult_left_le)
  ultimately show ?thesis by blast
qed

theorem membership_discount_exact_witness:
  "get_membership_discount (demo_user\<lparr>u_level := Gold\<rparr>) 3 12990 demo_accounts = Inr (of_int 12990 / 1000)"
proof -
  let ?u = "demo_user\<lparr>u_level := Gold\<rparr>"
  let ?cfg = "\<lparr>ml_id = 1, ml_level = Gold, ml_name = ''gold'', ml_min_points = 100, ml_rate = 90,
         ml_earn_rate = 10, ml_shop = 3, ml_active = True\<rparr>"
  have q: "qs_filter (\<lambda>l. ml_shop l = 3 \<and> ml_level l = u_level ?u \<and> ml_active l) (db_levels demo_accounts) = [?cfg]"
    by (simp add: qs_filter_def demo_accounts_def)
  from membership_discount_exact [OF q, of 12990] obtain d where
    "get_membership_discount ?u 3 12990 demo_accounts = Inr d" "d * 10000 = of_int (12990 * 10)" by auto
  then show ?thesis by simp
qed

text \<open>Recharging: every amount of 100.00 or more fails with a \<open>TypeError\<close> and leaves no trace, so no
  gift is ever credited; a smaller valid amount is recorded once without gift, paid at once exactly when the
  method is the balance, and no user row or points log changes.\<close>

theorem recharge_outcome:
  assumes "1 \<le> a" and "a < 10000000000" and "m \<noteq> []"
  shows "recharge_view lib rnd now u shop (Some a) (Some m) db =
    (if 10000 \<le> a then (Crash (TypeError ''Decimal * float''), db)
     else let r = \<lparr>rc_id = seq (db_recharges db) + 1, rc_user = u_id u, rc_amount = a, rc_gift_amount = 0,
                   rc_gift_points = 0, rc_method = m, rc_paid = (m = ''balance''),
                   rc_paid_at = (if m = ''balance'' then Some now else None), rc_shop = shop, rc_at = now\<rparr>
          in (OK 200 r, db\<lparr>db_recharges := (if m = ''balance''
                then t_save rc_id r (snd (t_add (\<lambda>i. r\<lparr>rc_id := i, rc_paid := False, rc_paid_at := None\<rparr>) (db_recharges db)))
                else snd (t_add (\<lambda>i. r\<lparr>rc_id := i\<rparr>) (db_recharges db)))\<rparr>))"
  using assms
  by (simp add: recharge_view_def recharge_def decimal_times_float_def numeric_ok_def Let_def t_add_def)

theorem recharge_outcome_witness:
  "recharge_view demo_lib 1234 5 demo_user 3 (Some 10000) (Some ''balance'') demo_accounts
     = (Crash (TypeError ''Decimal * float''), demo_accounts)"
  by (subst recharge_outcome) simp_all

lemma signin_deployed: "signin_earn_points users_api_env lib rnd now u shop db = (Crash (AttributeError ''now''), db)"
  by (simp add: signin_earn_points_def users_api_env_def)

lemma earn_points_logs:
  assumes "earn_points lib rnd now u shop p ptype ref notes db = Inr (u', db')"
    and "accounts_wf db" and "user_at db (u_id u) \<noteq> None"
  shows "\<exists>l \<in> set (rows (db_points_logs db')). pl_user l = u_id u \<and> pl_shop l = shop \<and> pl_type l = ptype
    \<and> pl_at l = now"
proof -
  let ?u = "u\<lparr>u_available_points := u_available_points u + p, u_total_points := u_total_points u + p\<rparr>"
  obtain u1 db1 db2 where
    s: "save_user lib rnd ?u db = Inr (u1, db1)"
    and l: "add_points_log now u1 shop ptype p ref notes db1 = Inr db2"
    and c: "check_membership_upgrade lib rnd u1 shop db2 = Inr (u', db')"
    using assms(1) by (auto simp: earn_points_def split: sum.splits prod.splits)
  have at: "user_at db (u_id ?u) \<noteq> None" using assms(3) by simp
  note S = save_user_InrD [OF s assms(2) at]
  note L = add_points_log_InrD [OF l]
  have id: "u_id u1 = u_id u" using S(1) by (simp add: same_points_def)
  have wf2: "accounts_wf db2" using S(3) L(2) by (simp add: accounts_wf_def)
  have at2: "user_at db2 (u_id u1) = Some u1" using S(4) L(1) id by simp
  from check_upgrade_InrD(4) [OF c wf2 at2] L(6) id show ?thesis by auto
qed

text \<open>A sign-in is recorded under its local (Shanghai) date but guarded by the UTC date: after an accepted
  sign-in, another one is refused whenever its UTC date is the local date of the first, in particular on the
  same day once it is 08:00.\<close>

theorem signin_once:
  assumes "env_timezone E = Bound" and "accounts_wf db" and "user_at db (u_id u) \<noteq> None"
    and "signin_earn_points E lib rnd now u shop db = (OK 200 p, db')"
    and "utc_date now2 = local_date now"
  shows "signin_earn_points E lib rnd2 now2 u2 shop db' =
    (if u_id u2 = u_id u then (Reject 400 (ValueError ''signed in''), db')
     else signin_earn_points E lib rnd2 now2 u2 shop db')"
proof -
  obtain q u' rf nts where "earn_points lib rnd now u shop q EarnSignin rf nts db = Inr (u', db')"
    using assms(1,4) by (auto simp: signin_earn_points_def Let_def split: sum.splits if_splits exn.splits)
  from earn_points_logs [OF this assms(2,3)] assms(1,5) show ?thesis
    by (auto simp: signin_earn_points_def Let_def qs_exists_iff)
qed

theorem signin_once_witness:
  "let now = 36000000000; (r, db1) = signin_earn_points full_env demo_lib 1234 now demo_user 3 demo_accounts
   in signin_earn_points full_env demo_lib 1 (now + 1) demo_user 3 db1 = (Reject 400 (ValueError ''signed in''), db1)"
proof -
  let ?now = "36000000000 :: int"
  let ?s = "signin_earn_points full_env demo_lib 1234 ?now demo_user 3 demo_accounts"
  have env: "env_timezone full_env = Bound" by (simp add: full_env_def)
  have at: "user_at demo_accounts (u_id demo_user) \<noteq> None" by (simp add: demo_accounts_at)
  have "fst ?s = OK 200 5" by code_simp
  then have s: "?s = (OK 200 5, snd ?s)" by (simp add: prod_eq_iff)
  have d: "utc_date (?now + 1) = local_date ?now"
    by (simp add: utc_date_def local_date_def day_us_def shanghai_us_def)
  from signin_once [OF env demo_accounts_wf at s d, of 1 demo_user]
  have "signin_earn_points full_env demo_lib 1 (?now + 1) demo_user 3 (snd ?s)
      = (Reject 400 (ValueError ''signed in''), snd ?s)" by simp
  then show ?thesis by (simp add: Let_def case_prod_beta)
qed

text \<open>Before 08:00 local time the sign-in guard looks at the wrong day: the same customer signs in twice at
  07:00 and 07:30 and is credited twice.\<close>

theorem signin_twice_before_eight:
  "let (r1, db1) = signin_earn_points full_env demo_lib 1234 82800000000 demo_user 3 demo_accounts;
       u1 = the (user_at db1 7);
       (r2, db2) = signin_earn_points full_env demo_lib 1234 84600000000 u1 3 db1
   in local_date 82800000000 = local_date 84600000000 \<and> r1 = OK 200 5 \<and> r2 = OK 200 5 \<and> available_at db2 7 = Some 10"
  by code_simp

end
