(* ===== verification/Keyed.thy ===== *)
theory Keyed
  imports Prelude_Z
begin

text \<open>
  Tables with a unique key beside the id (\<open>unique_together\<close>, \<open>unique=True\<close>): the write that the
  constraint can refuse, and the view of the table as a map from its key.  The locale \<open>keyed_table\<close> is
  the interface; the components interpret it on their tables.
\<close>

section \<open>Writes under a unique constraint\<close>

text \<open>A write that a unique constraint of the table refuses raises \<open>IntegrityError\<close>.\<close>

definition store_unique :: "('r \<Rightarrow> 'k) \<Rightarrow> string \<Rightarrow> ('r tbl \<Rightarrow> 's \<Rightarrow> 's) \<Rightarrow> 'r tbl \<Rightarrow> 's \<Rightarrow> 's res" where
  "store_unique key relation put t s =
     (if unique_on key t then Inr (put t s) else Inl (IntegrityError relation))"

section \<open>Rows and keys\<close>

text \<open>Where ids are unique, a key is unique exactly when rows that share it share their id.\<close>

lemma unique_on_iff:
  assumes "t_wf pk t"
  shows "unique_on key t \<longleftrightarrow> (\<forall>x \<in> set (rows t). \<forall>y \<in> set (rows t). key x = key y \<longrightarrow> pk x = pk y)"
proof -
  have d: "distinct (rows t)" and inj: "inj_on pk (set (rows t))"
    using assms by (auto simp: t_wf_def distinct_map)
  then have "unique_on key t \<longleftrightarrow> inj_on key (set (rows t))" by (simp add: unique_on_def distinct_map)
  also have "\<dots> \<longleftrightarrow> (\<forall>x \<in> set (rows t). \<forall>y \<in> set (rows t). key x = key y \<longrightarrow> pk x = pk y)"
    using inj by (auto simp: inj_on_def)
  finally show ?thesis .
qed

lemma set_rows_find:
  assumes "t_wf pk t" and "t_wf pk t'"
    and "\<And>i. t_find pk i t' = (if i = pk r then Some r else t_find pk i t)"
  shows "set (rows t') = insert r {x \<in> set (rows t). pk x \<noteq> pk r}"
proof (rule set_eqI)
  fix x
  have "x \<in> set (rows t') \<longleftrightarrow> t_find pk (pk x) t' = Some x" using find_iff_mem [OF assms(2)] by auto
  then show "x \<in> set (rows t') \<longleftrightarrow> x \<in> insert r {x \<in> set (rows t). pk x \<noteq> pk r}"
    using find_iff_mem [OF assms(1), of "pk x" x] by (auto simp: assms(3))
qed

lemma set_rows_t_save:
  assumes "t_wf pk t" and "t_find pk (pk r) t \<noteq> None"
  shows "set (rows (t_save pk r t)) = insert r {x \<in> set (rows t). pk x \<noteq> pk r}"
  by (rule set_rows_find [OF assms(1) t_wf_t_save [OF assms]]) (rule t_find_t_save)

lemma unique_on_rewrite:
  assumes "t_wf pk t" and "unique_on key t" and "t_wf pk t'"
    and "set (rows t') = insert r {x \<in> set (rows t). pk x \<noteq> pk r}"
    and "\<And>x. x \<in> set (rows t) \<Longrightarrow> pk x \<noteq> pk r \<Longrightarrow> key x \<noteq> key r"
  shows "unique_on key t'"
  unfolding unique_on_iff [OF assms(3)]
proof (intro ballI impI)
  fix x y assume xy: "x \<in> set (rows t')" "y \<in> set (rows t')" "key x = key y"
  then have "x = r \<or> x \<in> set (rows t) \<and> pk x \<noteq> pk r" "y = r \<or> y \<in> set (rows t) \<and> pk y \<noteq> pk r"
    by (simp_all add: assms(4))
  then show "pk x = pk y"
    using assms(5) xy(3) assms(2) [unfolded unique_on_iff [OF assms(1)]] by metis
qed

lemma set_rows_t_add: "set (rows (snd (t_add f t))) = insert (f (seq t + 1)) (set (rows t))"
  by (simp add: t_add_def)

section \<open>The ids in use\<close>

definition ids_of :: "('r \<Rightarrow> int) \<Rightarrow> 'r tbl \<Rightarrow> int set" where
  "ids_of pk t = pk ` set (rows t)"

definition opt_in :: "int option \<Rightarrow> int set \<Rightarrow> bool" where
  "opt_in x S = (case x of None \<Rightarrow> True | Some i \<Rightarrow> i \<in> S)"

lemma opt_in_simps [simp]: "opt_in None S" "opt_in (Some i) S \<longleftrightarrow> i \<in> S"
  by (simp_all add: opt_in_def)

lemma opt_in_mono: "opt_in x S \<Longrightarrow> S \<subseteq> T \<Longrightarrow> opt_in x T"
  by (cases x) auto

lemma ids_of_t_add: "(\<And>i. pk (f i) = i) \<Longrightarrow> ids_of pk (snd (t_add f t)) = insert (seq t + 1) (ids_of pk t)"
  by (simp add: ids_of_def set_rows_t_add)

lemma ids_of_t_del: "ids_of pk (t_del P t) = pk ` {r \<in> set (rows t). \<not> P r}"
  by (simp add: ids_of_def rows_t_del)

lemma ids_of_t_upd: "(\<And>r. pk (f r) = pk r) \<Longrightarrow> ids_of pk (t_upd P f t) = ids_of pk t"
  unfolding ids_of_def set_map [symmetric] by (simp add: map_pk_t_upd)

lemma ids_of_find: "t_find pk i t \<noteq> None \<longleftrightarrow> i \<in> ids_of pk t"
  by (auto simp: ids_of_def t_find_None image_iff)

lemma t_save_mem:
  assumes "t_wf pk t" and "pk r \<in> ids_of pk t"
  shows "set (rows (t_save pk r t)) = insert r {x \<in> set (rows t). pk x \<noteq> pk r}"
    and "ids_of pk (t_save pk r t) = ids_of pk t" and "t_wf pk (t_save pk r t)"
proof -
  have f: "t_find pk (pk r) t \<noteq> None" using assms(2) ids_of_find by metis
  show rows: "set (rows (t_save pk r t)) = insert r {x \<in> set (rows t). pk x \<noteq> pk r}" by (rule set_rows_t_save [OF assms(1) f])
  show "ids_of pk (t_save pk r t) = ids_of pk t" using assms(2) by (auto simp: ids_of_def rows)
  show "t_wf pk (t_save pk r t)" by (rule t_wf_t_save [OF assms(1) f])
qed

section \<open>A table as a map from its unique key\<close>

definition row_map :: "('r \<Rightarrow> 'k) \<Rightarrow> 'r tbl \<Rightarrow> 'k \<Rightarrow> 'r option" where
  "row_map key t k = find (\<lambda>r. key r = k) (rows t)"

lemma row_map_SomeD: "row_map key t k = Some r \<Longrightarrow> r \<in> set (rows t) \<and> key r = k"
  by (auto simp: row_map_def find_Some_iff)

lemma row_map_None: "row_map key t k = None \<longleftrightarrow> (\<forall>r \<in> set (rows t). key r \<noteq> k)"
  by (auto simp: row_map_def find_None_iff)

lemma row_map_iff:
  assumes "t_wf pk t" and "unique_on key t"
  shows "row_map key t k = Some r \<longleftrightarrow> r \<in> set (rows t) \<and> key r = k"
proof
  show "row_map key t k = Some r \<Longrightarrow> r \<in> set (rows t) \<and> key r = k" by (rule row_map_SomeD)
  assume r: "r \<in> set (rows t) \<and> key r = k"
  then obtain r' where r': "row_map key t k = Some r'" by (metis not_Some_eq row_map_None)
  with r have "pk r' = pk r"
    using row_map_SomeD [OF r'] assms(2) unfolding unique_on_iff [OF assms(1)] by blast
  then have "r' = r" using find_iff_mem [OF assms(1)] row_map_SomeD [OF r'] r by (metis option.inject)
  with r' show "row_map key t k = Some r" by simp
qed

lemma map_eqI: "(\<And>k r. m k = Some r \<longleftrightarrow> m' k = Some r) \<Longrightarrow> m = m'"
  by (rule ext) (metis not_Some_eq)

text \<open>
  A table of rows with a unique key beside the id, stored through a write that the unique constraint can
  refuse: seen through the key it is a map, to which inserting, rewriting and deleting a row are the
  updates of the map.
\<close>

locale keyed_table =
  fixes tab :: "'s \<Rightarrow> 'r tbl"
    and pk :: "'r \<Rightarrow> int"
    and key :: "'r \<Rightarrow> 'k"
    and store :: "'r tbl \<Rightarrow> 's \<Rightarrow> 's res"
  assumes store_ok: "unique_on key t \<Longrightarrow> \<exists>s'. store t s = Inr s' \<and> tab s' = t"
    and store_refused: "\<not> unique_on key t \<Longrightarrow> \<exists>e. store t s = Inl (IntegrityError e)"
begin

lemma store_Inr: "store t s = Inr s' \<Longrightarrow> unique_on key t \<and> tab s' = t"
  using store_ok [of t s] store_refused [of t s] by force

lemma insert_taken:
  assumes "row_map key (tab s) (key (f (seq (tab s) + 1))) \<noteq> None"
  shows "\<exists>e. store (snd (t_add f (tab s))) s = Inl (IntegrityError e)"
proof (rule store_refused)
  obtain x where "row_map key (tab s) (key (f (seq (tab s) + 1))) = Some x" using assms by auto
  then have "key (f (seq (tab s) + 1)) \<in> key ` set (rows (tab s))" using row_map_SomeD by (metis imageI)
  then show "\<not> unique_on key (snd (t_add f (tab s)))" by (auto simp: unique_on_def t_add_def)
qed

lemma insert_free:
  assumes "t_wf pk (tab s)" and "unique_on key (tab s)" and pk: "\<And>i. pk (f i) = i"
    and "row_map key (tab s) (key (f (seq (tab s) + 1))) = None"
  shows "\<exists>s'. store (snd (t_add f (tab s))) s = Inr s' \<and> t_wf pk (tab s')
     \<and> row_map key (tab s') = (row_map key (tab s))(key (f (seq (tab s) + 1)) \<mapsto> f (seq (tab s) + 1))"
proof -
  let ?t = "snd (t_add f (tab s))" let ?r = "f (seq (tab s) + 1)"
  have u: "unique_on key ?t"
    using assms(2,4) by (auto simp: unique_on_def t_add_def row_map_None)
  then obtain s' where s': "store ?t s = Inr s'" "tab s' = ?t" using store_ok by blast
  have wf: "t_wf pk ?t" by (rule t_wf_t_add [where pk = pk]) (use assms(1) pk in auto)
  have "row_map key ?t = (row_map key (tab s))(key ?r \<mapsto> ?r)"
    using assms(4) row_map_iff [OF wf u] row_map_iff [OF assms(1,2)]
    by (intro map_eqI) (auto simp: set_rows_t_add row_map_None)
  with s' wf show ?thesis by auto
qed

lemma rewrite_taken:
  assumes "t_wf pk (tab s)" and "old \<in> set (rows (tab s))" and "pk r = pk old"
    and "key r \<noteq> key old" and "row_map key (tab s) (key r) \<noteq> None"
  shows "\<exists>e. store (t_save pk r (tab s)) s = Inl (IntegrityError e)"
proof (rule store_refused)
  have f: "t_find pk (pk r) (tab s) \<noteq> None" using t_wf_find_unique [OF assms(1,2)] assms(3) by simp
  obtain x where x: "x \<in> set (rows (tab s))" "key x = key r" using assms(5) row_map_SomeD by fastforce
  have "pk x \<noteq> pk r"
    using x assms(2,3,4) find_iff_mem [OF assms(1)] by (metis option.inject)
  then show "\<not> unique_on key (t_save pk r (tab s))"
    unfolding unique_on_iff [OF t_wf_t_save [OF assms(1) f]]
    using x by (auto simp: set_rows_t_save [OF assms(1) f])
qed

lemma rewrite_free:
  assumes "t_wf pk (tab s)" and "unique_on key (tab s)" and "old \<in> set (rows (tab s))" and "pk r = pk old"
    and "key r = key old \<or> row_map key (tab s) (key r) = None"
  shows "\<exists>s'. store (t_save pk r (tab s)) s = Inr s' \<and> t_wf pk (tab s')
     \<and> row_map key (tab s') = (row_map key (tab s))(key old := None, key r \<mapsto> r)"
proof -
  let ?t = "t_save pk r (tab s)"
  have f: "t_find pk (pk r) (tab s) \<noteq> None" using t_wf_find_unique [OF assms(1,3)] assms(4) by simp
  have wf: "t_wf pk ?t" by (rule t_wf_t_save [OF assms(1) f])
  have rows: "set (rows ?t) = insert r {x \<in> set (rows (tab s)). pk x \<noteq> pk r}" by (rule set_rows_t_save [OF assms(1) f])
  have other: "key x \<noteq> key r \<and> key x \<noteq> key old" if "x \<in> set (rows (tab s))" "pk x \<noteq> pk r" for x
    using that assms(2,3,4,5) unfolding unique_on_iff [OF assms(1)] row_map_None by metis
  have old: "x = old" if "x \<in> set (rows (tab s))" "pk x = pk r" for x
    using that assms(3,4) find_iff_mem [OF assms(1)] by (metis option.inject)
  have u: "unique_on key ?t" by (rule unique_on_rewrite [OF assms(1,2) wf rows]) (use other in blast)
  then obtain s' where s': "store ?t s = Inr s'" "tab s' = ?t" using store_ok by blast
  have "row_map key ?t = (row_map key (tab s))(key old := None, key r \<mapsto> r)"
  proof (rule map_eqI)
    fix k x
    have L: "row_map key ?t k = Some x \<longleftrightarrow> (x = r \<or> x \<in> set (rows (tab s)) \<and> pk x \<noteq> pk r) \<and> key x = k"
      unfolding row_map_iff [OF wf u] rows by simp
    show "row_map key ?t k = Some x \<longleftrightarrow> ((row_map key (tab s))(key old := None, key r \<mapsto> r)) k = Some x"
    proof (cases "k = key r \<or> k = key old")
      case True
      then show ?thesis using L other [of x] by auto
    next
      case False
      then have "x \<in> set (rows (tab s)) \<and> pk x \<noteq> pk r \<longleftrightarrow> x \<in> set (rows (tab s))" if "key x = k"
        using old [of x] that by auto
      with False show ?thesis using L row_map_iff [OF assms(1,2), of k x] by auto
    qed
  qed
  with s' wf show ?thesis by auto
qed

lemma delete_row:
  assumes "t_wf pk (tab s)" and "unique_on key (tab s)" and "old \<in> set (rows (tab s))"
  shows "unique_on key (t_del (\<lambda>r. pk r = pk old) (tab s))"
    and "row_map key (t_del (\<lambda>r. pk r = pk old) (tab s)) = (row_map key (tab s))(key old := None)"
proof -
  let ?t = "t_del (\<lambda>r. pk r = pk old) (tab s)"
  have wf: "t_wf pk ?t" by (rule t_wf_t_del [OF assms(1)])
  show u: "unique_on key ?t" using assms(2) by (simp add: unique_on_def rows_t_del distinct_map_filter)
  show "row_map key ?t = (row_map key (tab s))(key old := None)"
  proof (rule map_eqI)
    fix k x
    have "x = old" if "x \<in> set (rows (tab s))" "pk x = pk old"
      using that assms(3) find_iff_mem [OF assms(1)] by (metis option.inject)
    moreover have "pk x = pk old" if "x \<in> set (rows (tab s))" "key x = key old"
      using that assms(2,3) unfolding unique_on_iff [OF assms(1)] by blast
    ultimately show "row_map key ?t k = Some x \<longleftrightarrow> ((row_map key (tab s))(key old := None)) k = Some x"
      using row_map_iff [OF wf u, of k x] row_map_iff [OF assms(1,2), of k x] by (auto simp: rows_t_del)
  qed
qed

end

end
