(* ===== verification/Accounts.thy ===== *)
theory Accounts
  imports Membership Keyed
begin

text \<open>
  Accounts and the configuration of the membership programme: the views of \<open>apps/users/api.py\<close> that
  \<open>Membership\<close> does not hold (registration, login, the two profile views, changing the password, the
  current user, level configurations, points rules, the points log and the recharge rows), with their
  serializers.

  The password column is kept apart from the user row, as a map from the user's id to the encoded
  password.  Encoding and checking belong to Django (\<open>pw_lib\<close>), and so does \<open>authenticate\<close>; what the
  code relies on is stated as \<open>hash_contract\<close> and \<open>backend_contract\<close>.  The tokens a registration or
  login answers with, the session and the time of the last login are not modelled.
\<close>

section \<open>Passwords and accounts\<close>

record pw_lib =
  lib_pw_make :: "string \<Rightarrow> string \<Rightarrow> string"
  lib_pw_check :: "string \<Rightarrow> string \<Rightarrow> bool"

record auth_db =
  au_users :: "user_row tbl"
  au_hash :: "int \<Rightarrow> string option"

text \<open>\<open>check_password(raw)\<close> is true exactly for the password that was encoded.\<close>

definition hash_contract :: "pw_lib \<Rightarrow> bool" where
  "hash_contract P \<longleftrightarrow> (\<forall>salt p q. lib_pw_check P q (lib_pw_make P salt p) \<longleftrightarrow> q = p)"

definition has_password :: "pw_lib \<Rightarrow> auth_db \<Rightarrow> user_row \<Rightarrow> string \<Rightarrow> bool" where
  "has_password P db u raw = (case au_hash db (u_id u) of None \<Rightarrow> False | Some h \<Rightarrow> lib_pw_check P raw h)"

text \<open>\<open>ModelBackend\<close>: the active user of that name, if the password is hers.\<close>

definition backend_contract :: "pw_lib \<Rightarrow> (auth_db \<Rightarrow> string \<Rightarrow> string \<Rightarrow> user_row option) \<Rightarrow> bool" where
  "backend_contract P authenticate \<longleftrightarrow>
     (\<forall>db n p u. unique_on u_username (au_users db) \<longrightarrow>
        (authenticate db n p = Some u \<longleftrightarrow>
           u \<in> set (rows (au_users db)) \<and> u_username u = n \<and> u_active u \<and> has_password P db u p))"

text \<open>\<open>save()\<close> of an instance whose password column was set: the first of the two writes stores it.\<close>

definition save_with_password ::
  "auth_lib \<Rightarrow> nat \<Rightarrow> user_row \<Rightarrow> string \<Rightarrow> auth_db \<Rightarrow> user_row res \<times> auth_db" where
  "save_with_password lib rnd u encoded db =
     (case user_save lib rnd u (au_users db) of
        (r, t) \<Rightarrow> (r, \<lparr>au_users = t,
                    au_hash = (case store_user u (au_users db) of
                                 Inl e \<Rightarrow> au_hash db
                               | Inr (u1, t1) \<Rightarrow> (au_hash db)(u_id u1 \<mapsto> encoded))\<rparr>))"

text \<open>The fields of \<open>UserRegistrationSerializer\<close> with their validators, and \<open>validate\<close>.\<close>

definition email_ok :: "auth_lib \<Rightarrow> string \<Rightarrow> bool" where
  "email_ok lib e \<longleftrightarrow> e = [] \<or> lib_email_ok lib e \<and> chars e \<le> 254"

definition username_ok :: "auth_lib \<Rightarrow> string \<Rightarrow> bool" where
  "username_ok lib n \<longleftrightarrow> text_ok 150 n \<and> lib_username_ok lib n"

definition phone_ok :: "string option \<Rightarrow> bool" where
  "phone_ok p \<longleftrightarrow> (case p of None \<Rightarrow> True | Some s \<Rightarrow> chars s \<le> 15)"

definition register_validate :: "auth_lib \<Rightarrow> reg_request \<Rightarrow> user_row tbl \<Rightarrow> unit res" where
  "register_validate lib r t =
     (if rg_password r = [] \<or> rg_password2 r = [] \<or> \<not> lib_pw_ok lib (rg_password r)
      then Inl (ValidationError ''password'')
      else if \<not> username_ok lib (rg_username r) \<or> qs_exists (\<lambda>u. u_username u = rg_username r) t
      then Inl (ValidationError ''username'')
      else if \<not> email_ok lib (rg_email r) \<or> \<not> phone_ok (rg_phone r) then Inl (ValidationError ''fields'')
      else if rg_password r \<noteq> rg_password2 r then Inl (ValidationError ''password'')
      else Inr ())"

definition register_view ::
  "auth_lib \<Rightarrow> pw_lib \<Rightarrow> nat \<Rightarrow> string \<Rightarrow> reg_request \<Rightarrow> auth_db \<Rightarrow> user_row reply \<times> auth_db" where
  "register_view lib P rnd salt r db =
     (case register_validate lib r (au_users db) of
        Inl e \<Rightarrow> (Reject 400 e, db)
      | Inr _ \<Rightarrow>
          (case save_with_password lib rnd (new_user lib r) (lib_pw_make P salt (rg_password r)) db of
             (Inl e, db') \<Rightarrow> (Crash e, db')
           | (Inr u, db') \<Rightarrow> (OK 201 u, db')))"

text \<open>\<open>UserLoginSerializer.validate\<close> and the login view.\<close>

definition login_validate :: "(string \<Rightarrow> string \<Rightarrow> user_row option) \<Rightarrow> string \<Rightarrow> string \<Rightarrow> user_row res" where
  "login_validate authenticate username password =
     (if username \<noteq> [] \<and> password \<noteq> [] then
        (case authenticate username password of
           Some u \<Rightarrow> if \<not> u_active u then Inl (ValidationError ''disabled'') else Inr u
         | None \<Rightarrow> Inl (ValidationError ''credentials''))
      else Inl (ValidationError ''missing''))"

definition login_view ::
  "(auth_db \<Rightarrow> string \<Rightarrow> string \<Rightarrow> user_row option) \<Rightarrow> string \<Rightarrow> string \<Rightarrow> auth_db \<Rightarrow> user_row reply" where
  "login_view authenticate username password db =
     (case login_validate (authenticate db) username password of
        Inl e \<Rightarrow> Reject 400 e
      | Inr u \<Rightarrow> OK 200 u)"

subsection \<open>Changing the password\<close>

record pw_change =
  pc_old :: "string option"
  pc_new :: "string option"
  pc_new2 :: "string option"

definition change_validate :: "auth_lib \<Rightarrow> pw_change \<Rightarrow> (string \<times> string) res" where
  "change_validate lib b =
     (case (pc_old b, pc_new b, pc_new2 b) of
        (Some old, Some new, Some new2) \<Rightarrow>
          if old = [] \<or> new = [] \<or> new2 = [] \<or> \<not> lib_pw_ok lib new then Inl (ValidationError ''password'')
          else if new \<noteq> new2 then Inl (ValidationError ''new_password'')
          else Inr (old, new)
      | _ \<Rightarrow> Inl (ValidationError ''required''))"

definition change_password ::
  "auth_lib \<Rightarrow> pw_lib \<Rightarrow> nat \<Rightarrow> string \<Rightarrow> request \<Rightarrow> pw_change \<Rightarrow> auth_db \<Rightarrow> unit reply \<times> auth_db" where
  "change_password lib P rnd salt rq b db =
     (case rq_user rq of
        None \<Rightarrow> (Reject 401 PermissionDenied, db)
      | Some u \<Rightarrow>
          (case change_validate lib b of
             Inl e \<Rightarrow> (Reject 400 e, db)
           | Inr (old, new) \<Rightarrow>
               if \<not> has_password P db u old then (Reject 400 (ValidationError ''old_password''), db)
               else (case save_with_password lib rnd u (lib_pw_make P salt new) db of
                       (Inl e, db') \<Rightarrow> (Crash e, db')
                     | (Inr u', db') \<Rightarrow> (OK 200 (), db'))))"

subsection \<open>Profiles\<close>

text \<open>The writable fields of \<open>UserSerializer\<close> that the row has.\<close>

record profile_patch =
  pp_username :: "string option"
  pp_email :: "string option"
  pp_phone :: "string option option"
  pp_type :: "user_type option"
  pp_active :: "bool option"

definition profile_valid :: "auth_lib \<Rightarrow> bool \<Rightarrow> user_row \<Rightarrow> profile_patch \<Rightarrow> user_row tbl \<Rightarrow> bool" where
  "profile_valid lib partial u p t \<longleftrightarrow>
     needed partial (pp_username p)
       (\<lambda>n. username_ok lib n \<and> \<not> qs_exists (\<lambda>r. u_username r = n \<and> u_id r \<noteq> u_id u) t)
     \<and> optional (pp_email p) (email_ok lib) \<and> optional (pp_phone p) phone_ok"

definition apply_profile :: "profile_patch \<Rightarrow> user_row \<Rightarrow> user_row" where
  "apply_profile p u =
     u\<lparr>u_username := or_default (pp_username p) (u_username u),
       u_email := or_default (pp_email p) (u_email u),
       u_phone := or_default (pp_phone p) (u_phone u),
       u_type := or_default (pp_type p) (u_type u),
       u_active := or_default (pp_active p) (u_active u)\<rparr>"

definition profile_update ::
  "auth_lib \<Rightarrow> nat \<Rightarrow> bool \<Rightarrow> request \<Rightarrow> profile_patch \<Rightarrow> user_row tbl \<Rightarrow> user_row reply \<times> user_row tbl" where
  "profile_update lib rnd partial rq p t =
     (case rq_user rq of
        None \<Rightarrow> (Reject 401 PermissionDenied, t)
      | Some u \<Rightarrow>
          if \<not> profile_valid lib partial u p t then (Reject 400 (ValidationError ''profile''), t)
          else (case user_save lib rnd (apply_profile p u) t of
                  (Inl e, t') \<Rightarrow> (Crash e, t')
                | (Inr u', t') \<Rightarrow> (OK 200 u', t')))"

text \<open>\<open>UserProfileUpdateSerializer\<close> has the e-mail address and the phone of these, and the names and
  avatar, which the row leaves out.\<close>

record contact_patch =
  ct_email :: "string option"
  ct_phone :: "string option option"

definition contact_update ::
  "auth_lib \<Rightarrow> nat \<Rightarrow> request \<Rightarrow> contact_patch \<Rightarrow> user_row tbl \<Rightarrow> user_row reply \<times> user_row tbl" where
  "contact_update lib rnd rq p t =
     (case rq_user rq of
        None \<Rightarrow> (Reject 401 PermissionDenied, t)
      | Some u \<Rightarrow>
          if \<not> (optional (ct_email p) (email_ok lib) \<and> optional (ct_phone p) phone_ok)
          then (Reject 400 (ValidationError ''profile''), t)
          else (case user_save lib rnd (u\<lparr>u_email := or_default (ct_email p) (u_email u),
                                          u_phone := or_default (ct_phone p) (u_phone u)\<rparr>) t of
                  (Inl e, t') \<Rightarrow> (Crash e, t')
                | (Inr u', t') \<Rightarrow> (OK 200 u', t')))"

text \<open>\<open>UserSerializer(user).data\<close>, without the columns the row leaves out.\<close>

record user_data =
  ud_id :: int
  ud_username :: string
  ud_email :: string
  ud_phone :: "string option"
  ud_type :: user_type
  ud_points :: int
  ud_active :: bool

definition user_data_of :: "user_row \<Rightarrow> user_data" where
  "user_data_of u = \<lparr>ud_id = u_id u, ud_username = u_username u, ud_email = u_email u, ud_phone = u_phone u,
     ud_type = u_type u, ud_points = u_points u, ud_active = u_active u\<rparr>"

definition get_current_user :: "request \<Rightarrow> user_data reply" where
  "get_current_user rq =
     (case rq_user rq of None \<Rightarrow> Reject 401 PermissionDenied | Some u \<Rightarrow> OK 200 (user_data_of u))"

text \<open>\<open>UserMembershipSerializer(user).data\<close>, without the name shown for the level.\<close>

record membership_data =
  md_id :: int
  md_username :: string
  md_level :: level
  md_number :: "string option"
  md_expiry :: "int option"
  md_total :: int
  md_available :: int
  md_used :: int
  md_consumption :: int
  md_count :: int
  md_referral :: "string option"

definition membership_data_of :: "user_row \<Rightarrow> membership_data" where
  "membership_data_of u = \<lparr>md_id = u_id u, md_username = u_username u, md_level = u_level u, md_number = u_number u, md_expiry = u_expiry u,
     md_total = u_total_points u, md_available = u_available_points u, md_used = u_used_points u,
     md_consumption = u_consumption u, md_count = u_consumption_count u, md_referral = u_referral u\<rparr>"

definition user_membership_info :: "request \<Rightarrow> membership_data reply" where
  "user_membership_info rq =
     (case rq_user rq of None \<Rightarrow> Reject 401 PermissionDenied | Some u \<Rightarrow> OK 200 (membership_data_of u))"

section \<open>Level configurations\<close>

text \<open>\<open>unique_together = ['shop', 'level']\<close>.  The serializer makes \<open>shop\<close> read-only, so no validator of
  the request checks the pair.\<close>

definition level_key :: "level_row \<Rightarrow> int \<times> level" where
  "level_key l = (ml_shop l, ml_level l)"

definition store_levels :: "level_row tbl \<Rightarrow> accounts_db \<Rightarrow> accounts_db res" where
  "store_levels = store_unique level_key ''membership_level_configs'' (\<lambda>t db. db\<lparr>db_levels := t\<rparr>)"

record level_body =
  lb_level :: "level option"
  lb_name :: "string option"
  lb_min_points :: "int option"
  lb_rate :: "int option"
  lb_earn_rate :: "int option"
  lb_active :: "bool option"

definition level_body_valid :: "bool \<Rightarrow> level_body \<Rightarrow> bool" where
  "level_body_valid partial b \<longleftrightarrow>
     needed partial (lb_level b) (\<lambda>_. True) \<and> needed partial (lb_name b) (text_ok 50)
     \<and> optional (lb_min_points b) int4_ok \<and> optional (lb_rate b) (\<lambda>c. 0 \<le> c \<and> c \<le> 100)
     \<and> optional (lb_earn_rate b) (numeric_ok 5)"

definition level_apply :: "level_body \<Rightarrow> level_row \<Rightarrow> level_row" where
  "level_apply b l = l\<lparr>ml_level := or_default (lb_level b) (ml_level l),
     ml_name := or_default (lb_name b) (ml_name l), ml_min_points := or_default (lb_min_points b) (ml_min_points l),
     ml_rate := or_default (lb_rate b) (ml_rate l), ml_earn_rate := or_default (lb_earn_rate b) (ml_earn_rate l),
     ml_active := or_default (lb_active b) (ml_active l)\<rparr>"

text \<open>The column defaults; the level of a new row comes with the request.\<close>

definition blank_level :: "int \<Rightarrow> level_row" where
  "blank_level shop = \<lparr>ml_id = 0, ml_level = Regular, ml_name = [], ml_min_points = 0, ml_rate = 100,
     ml_earn_rate = 10, ml_shop = shop, ml_active = True\<rparr>"

definition level_object :: "request \<Rightarrow> int \<Rightarrow> accounts_db \<Rightarrow> level_row option" where
  "level_object rq pk db = qs_first (\<lambda>l. ml_id l = pk \<and> Some (ml_shop l) = rq_tenant rq) (db_levels db)"

definition level_list :: "nat \<Rightarrow> staff_row tbl \<Rightarrow> request \<Rightarrow> accounts_db \<Rightarrow> level_row list reply \<times> accounts_db" where
  "level_list page st rq = staff_only st rq
     (\<lambda>db. (paginated page (qs_filter (\<lambda>l. Some (ml_shop l) = rq_tenant rq) (db_levels db)), db))"

definition level_create ::
  "staff_row tbl \<Rightarrow> request \<Rightarrow> level_body \<Rightarrow> accounts_db \<Rightarrow> level_row reply \<times> accounts_db" where
  "level_create st rq b = staff_only st rq (\<lambda>db.
     if \<not> level_body_valid False b then (Reject 400 (ValidationError ''level''), db)
     else (case rq_tenant rq of
             None \<Rightarrow> (Crash (IntegrityError ''shop''), db)
           | Some tn \<Rightarrow>
               let (l, t) = t_add (\<lambda>i. (level_apply b (blank_level tn))\<lparr>ml_id := i\<rparr>) (db_levels db)
               in (case store_levels t db of
                     Inl e \<Rightarrow> (Crash e, db)
                   | Inr db1 \<Rightarrow> (OK 201 l, db1))))"

definition level_update ::
  "staff_row tbl \<Rightarrow> bool \<Rightarrow> request \<Rightarrow> int \<Rightarrow> level_body \<Rightarrow> accounts_db \<Rightarrow> level_row reply \<times> accounts_db" where
  "level_update st partial rq pk b = staff_only st rq (\<lambda>db.
     (case level_object rq pk db of
        None \<Rightarrow> (Reject 404 (DoesNotExist ''MembershipLevelConfig''), db)
      | Some l \<Rightarrow>
          if \<not> level_body_valid partial b then (Reject 400 (ValidationError ''level''), db)
          else (case store_levels (t_save ml_id (level_apply b l) (db_levels db)) db of
                  Inl e \<Rightarrow> (Crash e, db)
                | Inr db1 \<Rightarrow> (OK 200 (level_apply b l), db1))))"

definition level_destroy ::
  "staff_row tbl \<Rightarrow> request \<Rightarrow> int \<Rightarrow> accounts_db \<Rightarrow> unit reply \<times> accounts_db" where
  "level_destroy st rq pk = staff_only st rq (\<lambda>db.
     (case level_object rq pk db of
        None \<Rightarrow> (Reject 404 (DoesNotExist ''MembershipLevelConfig''), db)
      | Some l \<Rightarrow> (OK 204 (), db\<lparr>db_levels := t_del (\<lambda>r. ml_id r = ml_id l) (db_levels db)\<rparr>)))"

section \<open>Points rules\<close>

definition rule_key :: "points_rule \<Rightarrow> int \<times> rule_type" where
  "rule_key r = (pr_shop r, pr_type r)"

definition store_rules :: "points_rule tbl \<Rightarrow> accounts_db \<Rightarrow> accounts_db res" where
  "store_rules = store_unique rule_key ''points_rules'' (\<lambda>t db. db\<lparr>db_points_rules := t\<rparr>)"

record rule_body =
  ub_type :: "rule_type option"
  ub_name :: "string option"
  ub_config :: "(string \<times> rat) list option"
  ub_active :: "bool option"

definition rule_body_valid :: "bool \<Rightarrow> rule_body \<Rightarrow> bool" where
  "rule_body_valid partial b \<longleftrightarrow> needed partial (ub_type b) (\<lambda>_. True) \<and> needed partial (ub_name b) (text_ok 100)"

definition rule_apply :: "rule_body \<Rightarrow> points_rule \<Rightarrow> points_rule" where
  "rule_apply b r = r\<lparr>pr_type := or_default (ub_type b) (pr_type r), pr_name := or_default (ub_name b) (pr_name r),
     pr_config := or_default (ub_config b) (pr_config r), pr_active := or_default (ub_active b) (pr_active r)\<rparr>"

definition blank_rule :: "int \<Rightarrow> points_rule" where
  "blank_rule shop = \<lparr>pr_id = 0, pr_type = OrderEarn, pr_name = [], pr_config = [], pr_shop = shop, pr_active = True\<rparr>"

definition rule_object :: "request \<Rightarrow> int \<Rightarrow> accounts_db \<Rightarrow> points_rule option" where
  "rule_object rq pk db = qs_first (\<lambda>r. pr_id r = pk \<and> Some (pr_shop r) = rq_tenant rq) (db_points_rules db)"

definition rule_list :: "nat \<Rightarrow> staff_row tbl \<Rightarrow> request \<Rightarrow> accounts_db \<Rightarrow> points_rule list reply \<times> accounts_db" where
  "rule_list page st rq = staff_only st rq
     (\<lambda>db. (paginated page (qs_filter (\<lambda>r. Some (pr_shop r) = rq_tenant rq) (db_points_rules db)), db))"

definition rule_create ::
  "staff_row tbl \<Rightarrow> request \<Rightarrow> rule_body \<Rightarrow> accounts_db \<Rightarrow> points_rule reply \<times> accounts_db" where
  "rule_create st rq b = staff_only st rq (\<lambda>db.
     if \<not> rule_body_valid False b then (Reject 400 (ValidationError ''rule''), db)
     else (case rq_tenant rq of
             None \<Rightarrow> (Crash (IntegrityError ''shop''), db)
           | Some tn \<Rightarrow>
               let (r, t) = t_add (\<lambda>i. (rule_apply b (blank_rule tn))\<lparr>pr_id := i\<rparr>) (db_points_rules db)
               in (case store_rules t db of
                     Inl e \<Rightarrow> (Crash e, db)
                   | Inr db1 \<Rightarrow> (OK 201 r, db1))))"

definition rule_update ::
  "staff_row tbl \<Rightarrow> bool \<Rightarrow> request \<Rightarrow> int \<Rightarrow> rule_body \<Rightarrow> accounts_db \<Rightarrow> points_rule reply \<times> accounts_db" where
  "rule_update st partial rq pk b = staff_only st rq (\<lambda>db.
     (case rule_object rq pk db of
        None \<Rightarrow> (Reject 404 (DoesNotExist ''PointsRule''), db)
      | Some r \<Rightarrow>
          if \<not> rule_body_valid partial b then (Reject 400 (ValidationError ''rule''), db)
          else (case store_rules (t_save pr_id (rule_apply b r) (db_points_rules db)) db of
                  Inl e \<Rightarrow> (Crash e, db)
                | Inr db1 \<Rightarrow> (OK 200 (rule_apply b r), db1))))"

definition rule_destroy ::
  "staff_row tbl \<Rightarrow> request \<Rightarrow> int \<Rightarrow> accounts_db \<Rightarrow> unit reply \<times> accounts_db" where
  "rule_destroy st rq pk = staff_only st rq (\<lambda>db.
     (case rule_object rq pk db of
        None \<Rightarrow> (Reject 404 (DoesNotExist ''PointsRule''), db)
      | Some r \<Rightarrow> (OK 204 (), db\<lparr>db_points_rules := t_del (\<lambda>x. pr_id x = pr_id r) (db_points_rules db)\<rparr>)))"

section \<open>Points log and recharge rows\<close>

text \<open>\<open>order_by('-created_at')\<close>: latest first; of rows of the same moment the database may give any
  order, the model gives the later row first.\<close>

definition points_log_list :: "nat \<Rightarrow> request \<Rightarrow> accounts_db \<Rightarrow> points_log list reply" where
  "points_log_list page rq db =
     (case rq_user rq of
        None \<Rightarrow> Reject 401 PermissionDenied
      | Some u \<Rightarrow>
          paginated page (rev (sort_key pl_at
                    (qs_filter (\<lambda>l. pl_user l = u_id u \<and> Some (pl_shop l) = rq_tenant rq) (db_points_logs db)))))"

definition own_recharge :: "user_row \<Rightarrow> request \<Rightarrow> recharge_row \<Rightarrow> bool" where
  "own_recharge u rq r \<longleftrightarrow> rc_user r = u_id u \<and> Some (rc_shop r) = rq_tenant rq"

definition recharge_list :: "nat \<Rightarrow> request \<Rightarrow> accounts_db \<Rightarrow> recharge_row list reply" where
  "recharge_list page rq db =
     (case rq_user rq of
        None \<Rightarrow> Reject 401 PermissionDenied
      | Some u \<Rightarrow> paginated page (rev (sort_key rc_at (qs_filter (own_recharge u rq) (db_recharges db)))))"

text \<open>\<open>MemberRechargeSerializer\<close>: every column but \<open>shop\<close> and the times of writing is writable.\<close>

record recharge_body =
  hb_user :: "int option"
  hb_amount :: "int option"
  hb_gift_amount :: "int option"
  hb_gift_points :: "int option"
  hb_method :: "string option"
  hb_paid :: "bool option"
  hb_paid_at :: "int option option"

definition recharge_body_valid :: "bool \<Rightarrow> recharge_body \<Rightarrow> accounts_db \<Rightarrow> bool" where
  "recharge_body_valid partial b db \<longleftrightarrow>
     needed partial (hb_user b) (\<lambda>i. qs_exists (\<lambda>u. u_id u = i) (db_users db))
     \<and> needed partial (hb_amount b) (numeric_ok 10) \<and> optional (hb_gift_amount b) (numeric_ok 10)
     \<and> optional (hb_gift_points b) int4_ok \<and> needed partial (hb_method b) (text_ok 50)"

definition recharge_apply :: "recharge_body \<Rightarrow> recharge_row \<Rightarrow> recharge_row" where
  "recharge_apply b r = r\<lparr>rc_user := or_default (hb_user b) (rc_user r),
     rc_amount := or_default (hb_amount b) (rc_amount r),
     rc_gift_amount := or_default (hb_gift_amount b) (rc_gift_amount r),
     rc_gift_points := or_default (hb_gift_points b) (rc_gift_points r),
     rc_method := or_default (hb_method b) (rc_method r), rc_paid := or_default (hb_paid b) (rc_paid r),
     rc_paid_at := or_default (hb_paid_at b) (rc_paid_at r)\<rparr>"

text \<open>The viewset has no \<open>perform_create\<close>: the row is inserted without its shop.\<close>

definition recharge_create :: "request \<Rightarrow> recharge_body \<Rightarrow> accounts_db \<Rightarrow> recharge_row reply \<times> accounts_db" where
  "recharge_create rq b db =
     (case rq_user rq of
        None \<Rightarrow> (Reject 401 PermissionDenied, db)
      | Some u \<Rightarrow>
          if \<not> recharge_body_valid False b db then (Reject 400 (ValidationError ''recharge''), db)
          else (Crash (IntegrityError ''shop''), db))"

definition recharge_object :: "user_row \<Rightarrow> request \<Rightarrow> int \<Rightarrow> accounts_db \<Rightarrow> recharge_row option" where
  "recharge_object u rq pk db = qs_first (\<lambda>r. rc_id r = pk \<and> own_recharge u rq r) (db_recharges db)"

definition recharge_update ::
  "bool \<Rightarrow> request \<Rightarrow> int \<Rightarrow> recharge_body \<Rightarrow> accounts_db \<Rightarrow> recharge_row reply \<times> accounts_db" where
  "recharge_update partial rq pk b db =
     (case rq_user rq of
        None \<Rightarrow> (Reject 401 PermissionDenied, db)
      | Some u \<Rightarrow>
          (case recharge_object u rq pk db of
             None \<Rightarrow> (Reject 404 (DoesNotExist ''MemberRecharge''), db)
           | Some r \<Rightarrow>
               if \<not> recharge_body_valid partial b db then (Reject 400 (ValidationError ''recharge''), db)
               else (OK 200 (recharge_apply b r),
                     db\<lparr>db_recharges := t_save rc_id (recharge_apply b r) (db_recharges db)\<rparr>)))"

definition recharge_destroy :: "request \<Rightarrow> int \<Rightarrow> accounts_db \<Rightarrow> unit reply \<times> accounts_db" where
  "recharge_destroy rq pk db =
     (case rq_user rq of
        None \<Rightarrow> (Reject 401 PermissionDenied, db)
      | Some u \<Rightarrow>
          (case recharge_object u rq pk db of
             None \<Rightarrow> (Reject 404 (DoesNotExist ''MemberRecharge''), db)
           | Some r \<Rightarrow> (OK 204 (), db\<lparr>db_recharges := t_del (\<lambda>x. rc_id x = rc_id r) (db_recharges db)\<rparr>)))"

section \<open>Lemmas: saving users\<close>

text \<open>A successful save of a user: a new row under the next key, or the row of that key rewritten.\<close>

definition savable :: "user_row \<Rightarrow> user_row tbl \<Rightarrow> bool" where
  "savable u t \<longleftrightarrow> u_id u = 0 \<or> t_find u_id (u_id u) t \<noteq> None"

lemma user_saveE:
  assumes "user_save lib rnd u t = (Inr u', t')"
  obtains u1 t1 n c where "store_user u t = Inr (u1, t1)" and "u' = u1\<lparr>u_number := n, u_referral := c\<rparr>"
    and "t' = t1 \<and> u' = u1 \<or> t' = t_upd (\<lambda>r. u_id r = u_id u1) (\<lambda>r. r\<lparr>u_number := n, u_referral := c\<rparr>) t1"
proof -
  obtain u1 t1 where st: "store_user u t = Inr (u1, t1)"
    using assms by (auto simp: user_save_def split: sum.splits)
  define u2 where "u2 = (if falsy (u_number u1)
    then u1\<lparr>u_number := Some (generate_membership_number (u_id u1) rnd)\<rparr> else u1)"
  define u3 where "u3 = (if falsy (u_referral u2)
    then u2\<lparr>u_referral := Some (generate_referral_code lib (u_id u2))\<rparr> else u2)"
  have u3: "u3 = u1\<lparr>u_number := u_number u3, u_referral := u_referral u3\<rparr>" by (simp add: u3_def u2_def)
  have eq: "user_save lib rnd u t = (if falsy (u_number u1) \<or> falsy (u_referral u2)
      then (case store_numbers u3 t1 of Inl e \<Rightarrow> (Inl e, t1) | Inr t2 \<Rightarrow> (Inr u3, t2)) else (Inr u3, t1))"
    unfolding user_save_def st u3_def u2_def Let_def by simp
  have same: "u3 = u1" if "\<not> (falsy (u_number u1) \<or> falsy (u_referral u2))"
    using that by (auto simp: u3_def u2_def)
  have "u' = u3" and "t' = t1 \<and> u3 = u1 \<or> store_numbers u3 t1 = Inr t'"
    using assms same unfolding eq by (auto split: if_splits sum.splits)
  moreover have "t' = t_upd (\<lambda>r. u_id r = u_id u1) (\<lambda>r. r\<lparr>u_number := u_number u3, u_referral := u_referral u3\<rparr>) t1"
    if "store_numbers u3 t1 = Inr t'"
  proof -
    have "u_id u3 = u_id u1" by (simp add: u3_def u2_def)
    with that show ?thesis by (auto simp: store_numbers_def split: if_splits)
  qed
  ultimately show thesis using u3 st that by metis
qed

lemma user_save_created:
  assumes "user_save lib rnd u t = (Inr u', t')" and "u_id u = 0" and "t_wf u_id t"
  shows "t_find u_id i t' = (if i = seq t + 1 then Some u' else t_find u_id i t)" and "t_wf u_id t'"
proof -
  let ?f = "\<lambda>i. u\<lparr>u_id := i\<rparr>"
  obtain u1 t1 n c where st: "store_user u t = Inr (u1, t1)" and u': "u' = u1\<lparr>u_number := n, u_referral := c\<rparr>"
    and t': "t' = t1 \<and> u' = u1 \<or> t' = t_upd (\<lambda>r. u_id r = u_id u1) (\<lambda>r. r\<lparr>u_number := n, u_referral := c\<rparr>) t1"
    by (rule user_saveE [OF assms(1)])
  have u1: "u1 = u\<lparr>u_id := seq t + 1\<rparr>" and t1: "t1 = snd (t_add ?f t)"
    using st assms(2) by (auto simp: store_user_def t_add_def split: if_splits)
  have f1: "t_find u_id i t1 = (if i = seq t + 1 then Some u1 else t_find u_id i t)" for i
    using t_find_t_add [OF assms(3), of ?f] by (simp add: t1 u1)
  have w1: "t_wf u_id t1" using t_wf_t_add [OF assms(3), of ?f] by (simp add: t1)
  have id: "u_id u1 = seq t + 1" by (simp add: u1)
  show "t_find u_id i t' = (if i = seq t + 1 then Some u' else t_find u_id i t)"
    using t' by (rule disjE) (simp_all add: f1 u' id t_find_t_upd)
  show "t_wf u_id t'"
    using t' by (rule disjE) (simp_all add: w1 t_wf_t_upd)
qed

lemma user_save_stored:
  assumes "user_save lib rnd u t = (Inr u', t')" and "t_wf u_id t" and "savable u t"
  shows "t_wf u_id t'" and "set (rows t') = insert u' {x \<in> set (rows t). u_id x \<noteq> u_id u'}"
    and "u_id u' = (if u_id u = 0 then seq t + 1 else u_id u)"
proof -
  show id: "u_id u' = (if u_id u = 0 then seq t + 1 else u_id u)" using user_save_InrD(7,8) [OF assms(1)] by simp
  show wf: "t_wf u_id t'"
    using user_save_created(2) [OF assms(1) _ assms(2)] user_save_wf [OF assms(1,2)] assms(3)
    by (auto simp: savable_def)
  show "set (rows t') = insert u' {x \<in> set (rows t). u_id x \<noteq> u_id u'}"
    using user_save_created(1) [OF assms(1) _ assms(2)] user_save_find [OF assms(1)] assms(3) id
    by (intro set_rows_find [OF assms(2) wf]) (auto simp: savable_def)
qed

text \<open>The columns a save keeps, and the uniqueness of the names it checks.\<close>

lemma user_save_columns:
  assumes "user_save lib rnd u t = (Inr u', t')"
  shows "u_username u' = u_username u" and "u_active u' = u_active u"
  using assms
  by (auto simp: user_save_def store_user_def store_numbers_def Let_def t_add_def
      split: sum.splits if_splits prod.splits)

lemma user_save_no_conflict:
  assumes "user_save lib rnd u t = (Inr u', t')" and "x \<in> set (rows t)" and "u_id x \<noteq> u_id u"
  shows "u_username x \<noteq> u_username u"
  using assms
  by (auto simp: user_save_def store_user_def user_conflict_def list_ex_iff split: sum.splits if_splits prod.splits)

lemma user_save_names:
  assumes "user_save lib rnd u t = (Inr u', t')" and "t_wf u_id t" and "savable u t"
    and "unique_on u_username t"
  shows "unique_on u_username t'"
proof -
  note st = user_save_stored [OF assms(1,2,3)]
  have other: "u_username x \<noteq> u_username u'" if x: "x \<in> set (rows t)" "u_id x \<noteq> u_id u'" for x
  proof -
    have "0 < u_id x" using assms(2) x(1) by (simp add: t_wf_def)
    with x(2) st(3) have "u_id x \<noteq> u_id u" by (simp split: if_splits)
    then show ?thesis
      using user_save_no_conflict [OF assms(1) x(1)] user_save_columns(1) [OF assms(1)] by simp
  qed
  show ?thesis by (rule unique_on_rewrite [OF assms(2,4) st(1,2)]) (use other in blast)
qed

section \<open>Lemmas: accounts\<close>

definition auth_wf :: "auth_db \<Rightarrow> bool" where
  "auth_wf db \<longleftrightarrow> t_wf u_id (au_users db) \<and> unique_on u_username (au_users db)"

text \<open>Who a name and a password belong to.\<close>

definition account_of :: "pw_lib \<Rightarrow> auth_db \<Rightarrow> string \<Rightarrow> string \<Rightarrow> user_row \<Rightarrow> bool" where
  "account_of P db n p u \<longleftrightarrow> n \<noteq> [] \<and> p \<noteq> [] \<and> u \<in> set (rows (au_users db)) \<and> u_username u = n
     \<and> u_active u \<and> has_password P db u p"

lemma login_view_OK:
  assumes "backend_contract P authenticate" and "auth_wf db"
  shows "login_view authenticate n p db = OK k u \<longleftrightarrow> k = 200 \<and> account_of P db n p u"
proof -
  have A: "authenticate db n p = Some v \<longleftrightarrow>
      v \<in> set (rows (au_users db)) \<and> u_username v = n \<and> u_active v \<and> has_password P db v p" for v
    using assms by (auto simp: backend_contract_def auth_wf_def)
  show ?thesis
  proof (cases "authenticate db n p")
    case None
    then have "\<not> account_of P db n p u" using A [of u] by (auto simp: account_of_def)
    with None show ?thesis by (auto simp: login_view_def login_validate_def)
  next
    case (Some v)
    then have "account_of P db n p u \<longleftrightarrow> n \<noteq> [] \<and> p \<noteq> [] \<and> u = v"
      using A [of u] A [of v] by (auto simp: account_of_def)
    moreover have "u_active v" using A [of v] Some by simp
    ultimately show ?thesis using Some by (auto simp: login_view_def login_validate_def)
  qed
qed

lemma save_with_passwordE:
  assumes "save_with_password lib rnd u h db = (Inr u', db')" and "auth_wf db" and "savable u (au_users db)"
  shows "auth_wf db'"
    and "set (rows (au_users db')) = insert u' {x \<in> set (rows (au_users db)). u_id x \<noteq> u_id u'}"
    and "au_hash db' = (au_hash db)(u_id u' \<mapsto> h)"
    and "u_id u' = (if u_id u = 0 then seq (au_users db) + 1 else u_id u)"
    and "u_username u' = u_username u" and "u_active u' = u_active u"
proof -
  have sv: "user_save lib rnd u (au_users db) = (Inr u', au_users db')"
    and h: "au_hash db' = (case store_user u (au_users db) of Inl e \<Rightarrow> au_hash db
                           | Inr (u1, t1) \<Rightarrow> (au_hash db)(u_id u1 \<mapsto> h))"
    using assms(1) by (auto simp: save_with_password_def split: prod.splits)
  have wf: "t_wf u_id (au_users db)" "unique_on u_username (au_users db)" using assms(2) by (simp_all add: auth_wf_def)
  note st = user_save_stored [OF sv wf(1) assms(3)]
  show "auth_wf db'" using st(1) user_save_names [OF sv wf(1) assms(3) wf(2)] by (simp add: auth_wf_def)
  show "set (rows (au_users db')) = insert u' {x \<in> set (rows (au_users db)). u_id x \<noteq> u_id u'}" by (rule st(2))
  show "u_id u' = (if u_id u = 0 then seq (au_users db) + 1 else u_id u)" by (rule st(3))
  show "u_username u' = u_username u" "u_active u' = u_active u" using user_save_columns [OF sv] by simp_all
  obtain u1 t1 n c where "store_user u (au_users db) = Inr (u1, t1)" "u' = u1\<lparr>u_number := n, u_referral := c\<rparr>"
    by (rule user_saveE [OF sv])
  then show "au_hash db' = (au_hash db)(u_id u' \<mapsto> h)" using h by simp
qed

text \<open>After such a save the account answers to its new password, and every other account as before.\<close>

lemma account_of_saved:
  assumes "save_with_password lib rnd u (lib_pw_make P salt pw) db = (Inr u', db')" and "auth_wf db"
    and "u_id u = 0 \<or> u \<in> set (rows (au_users db))" and "hash_contract P" and "u_username u \<noteq> []" and "pw \<noteq> []"
  shows "account_of P db' n p v \<longleftrightarrow>
     (if n = u_username u then v = u' \<and> u_active u \<and> p = pw else account_of P db n p v)"
proof -
  have wf: "t_wf u_id (au_users db)" using assms(2) by (simp add: auth_wf_def)
  have "savable u (au_users db)" using assms(3) t_wf_find_unique [OF wf] by (auto simp: savable_def)
  note sv = save_with_passwordE [OF assms(1,2) this]
  have wf': "t_wf u_id (au_users db')" "unique_on u_username (au_users db')" using sv(1) by (simp_all add: auth_wf_def)
  show ?thesis
  proof (cases "v = u'")
    case True
    then show ?thesis using sv(2,3,5,6) assms(4,5,6)
      by (auto simp: account_of_def has_password_def hash_contract_def)
  next
    case False
    then have id: "u_id v \<noteq> u_id u'" if "v \<in> set (rows (au_users db'))"
      using that sv(2) by auto
    have "u_username v \<noteq> u_username u'" if "v \<in> set (rows (au_users db'))"
      using wf'(2) id [OF that] that sv(2) unfolding unique_on_iff [OF wf'(1)] by auto
    then have no: "n \<noteq> u_username u" if "account_of P db' n p v"
      using that sv(5) by (auto simp: account_of_def)
    have "account_of P db' n p v \<longleftrightarrow> account_of P db n p v" if "n \<noteq> u_username u"
    proof -
      have "v \<in> set (rows (au_users db')) \<longleftrightarrow> v \<in> set (rows (au_users db)) \<and> u_id v \<noteq> u_id u'"
        using False sv(2) by auto
      moreover have "u_id v \<noteq> u_id u'" if v: "v \<in> set (rows (au_users db))" "u_username v = n"
      proof (cases "u_id u = 0")
        case True
        then show ?thesis using v(1) wf sv(4) by (auto simp: t_wf_def)
      next
        case False
        then have "u \<in> set (rows (au_users db))" using assms(3) by simp
        then have "u_id v \<noteq> u_id u"
          using find_iff_mem [OF wf] v \<open>n \<noteq> u_username u\<close> by (metis option.inject)
        with False show ?thesis using sv(4) by simp
      qed
      ultimately show ?thesis using sv(3) by (auto simp: account_of_def has_password_def)
    qed
    with no False show ?thesis by auto
  qed
qed

section \<open>Properties: accounts\<close>

definition demo_pw :: pw_lib where
  "demo_pw = \<lparr>lib_pw_make = (\<lambda>salt p. p), lib_pw_check = (\<lambda>p h. p = h)\<rparr>"

definition demo_auth :: auth_db where
  "demo_auth = \<lparr>au_users = \<lparr>rows = [demo_user], seq = 7\<rparr>, au_hash = [7 \<mapsto> ''s3cretpw'']\<rparr>"

definition demo_backend :: "auth_db \<Rightarrow> string \<Rightarrow> string \<Rightarrow> user_row option" where
  "demo_backend db n p =
     find (\<lambda>u. u_username u = n \<and> u_active u \<and> has_password demo_pw db u p) (rows (au_users db))"

lemma demo_contracts: "hash_contract demo_pw" "backend_contract demo_pw demo_backend" "auth_wf demo_auth"
proof -
  show "hash_contract demo_pw" by (simp add: hash_contract_def demo_pw_def)
  have one: "x = y" if "distinct (map u_username xs)" "x \<in> set xs" "y \<in> set xs" "u_username x = u_username y"
    for x y xs
    using that by (simp add: distinct_map inj_on_def)
  show "backend_contract demo_pw demo_backend"
    unfolding backend_contract_def demo_backend_def unique_on_def
  proof (intro allI impI)
    fix db :: auth_db and n p u
    assume d: "distinct (map u_username (rows (au_users db)))"
    let ?Q = "\<lambda>u. u_username u = n \<and> u_active u \<and> has_password demo_pw db u p"
    show "find ?Q (rows (au_users db)) = Some u \<longleftrightarrow>
      u \<in> set (rows (au_users db)) \<and> u_username u = n \<and> u_active u \<and> has_password demo_pw db u p"
    proof (cases "find ?Q (rows (au_users db))")
      case None
      then have "\<forall>x \<in> set (rows (au_users db)). \<not> ?Q x" by (auto simp: find_None_iff)
      with None show ?thesis by auto
    next
      case (Some v)
      then have "v \<in> set (rows (au_users db))" "?Q v" by (auto simp: find_Some_iff)
      with Some show ?thesis using one [OF d] by auto
    qed
  qed
  show "auth_wf demo_auth" by (simp add: auth_wf_def demo_auth_def t_wf_def unique_on_def demo_user_def)
qed

text \<open>C28: Changing the password works: after an accepted change the user logs in with the new password and
  no other, with the same name as before, and for every other name exactly the same passwords are accepted,
  for the same accounts, as before the change.\<close>

theorem password_change_logs_in:
  assumes "hash_contract P" and "backend_contract P authenticate" and "auth_wf db"
    and "u \<in> set (rows (au_users db))" and "u_active u" and "u_username u \<noteq> []"
    and "rq_user rq = Some u" and "change_password lib P rnd salt rq b db = (OK k x, db')"
  shows "accepted (login_view authenticate n p db') \<longleftrightarrow>
      (if n = u_username u then Some p = pc_new b else accepted (login_view authenticate n p db))
     \<and> (n \<noteq> u_username u \<longrightarrow> login_view authenticate n p db' = OK m v \<longleftrightarrow> login_view authenticate n p db = OK m v)"
proof -
  obtain old new u' where ch: "change_validate lib b = Inr (old, new)"
    and sv: "save_with_password lib rnd u (lib_pw_make P salt new) db = (Inr u', db')"
    using assms(7,8) by (auto simp: change_password_def split: sum.splits prod.splits if_splits)
  from ch have new: "pc_new b = Some new" "new \<noteq> []"
    by (auto simp: change_validate_def split: option.splits if_splits)
  have idu: "u_id u = 0 \<or> u \<in> set (rows (au_users db))" using assms(4) by simp
  note acc = account_of_saved [OF sv assms(3) idu assms(1,6) new(2)]
  have "u_id u > 0" using assms(3,4) by (auto simp: auth_wf_def t_wf_def)
  have wf': "auth_wf db'"
    using save_with_passwordE(1) [OF sv assms(3)] idu t_wf_find_unique [of u_id "au_users db" u] assms(3,4)
    by (auto simp: savable_def auth_wf_def)
  note L = login_view_OK [OF assms(2)]
  show ?thesis
    using L [OF wf'] L [OF assms(3)] acc assms(5) new(1) by (auto simp: accepted_iff)
qed

theorem password_change_logs_in_witness:
  "\<exists>db'. change_password demo_lib demo_pw 1234 [] \<lparr>rq_user = Some demo_user, rq_tenant = None\<rparr>
       \<lparr>pc_old = Some ''s3cretpw'', pc_new = Some ''changed8'', pc_new2 = Some ''changed8''\<rparr> demo_auth = (OK 200 (), db')
     \<and> accepted (login_view demo_backend ''amy'' ''changed8'' db')
     \<and> \<not> accepted (login_view demo_backend ''amy'' ''s3cretpw'' db')"
proof -
  let ?rq = "\<lparr>rq_user = Some demo_user, rq_tenant = None\<rparr>"
  let ?b = "\<lparr>pc_old = Some ''s3cretpw'', pc_new = Some ''changed8'', pc_new2 = Some ''changed8''\<rparr>"
  have "reply_is 200 (\<lambda>x s. x = ()) (change_password demo_lib demo_pw 1234 [] ?rq ?b demo_auth)" by code_simp
  then obtain db' where ch: "change_password demo_lib demo_pw 1234 [] ?rq ?b demo_auth = (OK 200 (), db')"
    by (rule reply_isE) simp
  have u: "demo_user \<in> set (rows (au_users demo_auth))" "u_active demo_user" "u_username demo_user \<noteq> []"
    "rq_user ?rq = Some demo_user" by (simp_all add: demo_auth_def demo_user_def)
  show ?thesis
    using password_change_logs_in [OF demo_contracts u ch, of "''amy''" "''changed8''"]
      password_change_logs_in [OF demo_contracts u ch, of "''amy''" "''s3cretpw''"] ch
    by (auto simp: demo_user_def)
qed

text \<open>A registration can be used: when the name needs no normalisation, an accepted registration makes an
  account that logs in with the given name and password and no other, and every other name logs in exactly as
  before.\<close>

theorem registration_logs_in:
  assumes "hash_contract P" and "backend_contract P authenticate" and "auth_wf db"
    and "lib_norm_username lib (rg_username r) = rg_username r"
    and "register_view lib P rnd salt r db = (OK k u, db')"
  shows "login_view authenticate n p db' = OK m v \<longleftrightarrow>
      (if n = rg_username r then m = 200 \<and> v = u \<and> p = rg_password r else login_view authenticate n p db = OK m v)"
proof -
  have val: "register_validate lib r (au_users db) = Inr ()"
    and sv: "save_with_password lib rnd (new_user lib r) (lib_pw_make P salt (rg_password r)) db = (Inr u, db')"
    using assms(5) by (auto simp: register_view_def split: sum.splits prod.splits)
  from val have ne: "rg_username r \<noteq> []" "rg_password r \<noteq> []"
    by (auto simp: register_validate_def username_ok_def text_ok_def split: if_splits)
  have new: "u_id (new_user lib r) = 0" "u_username (new_user lib r) = rg_username r" "u_active (new_user lib r)"
    using assms(4) by (simp_all add: new_user_def)
  have acc: "account_of P db' n p v \<longleftrightarrow>
      (if n = rg_username r then v = u \<and> p = rg_password r else account_of P db n p v)" for v
    using account_of_saved [OF sv assms(3) _ assms(1) _ ne(2)] new ne(1) by simp
  have wf': "auth_wf db'" using save_with_passwordE(1) [OF sv assms(3)] new(1) by (simp add: savable_def)
  show ?thesis
    using login_view_OK [OF assms(2) wf'] login_view_OK [OF assms(2,3)] acc by simp
qed

theorem registration_logs_in_witness:
  "\<exists>u db'. register_view demo_lib demo_pw 1234 []
      \<lparr>rg_username = ''eve'', rg_password = ''longpass'', rg_password2 = ''longpass'', rg_email = ''e@x.org'',
       rg_phone = None, rg_user_type = None\<rparr> demo_auth = (OK 201 u, db')
    \<and> login_view demo_backend ''eve'' ''longpass'' db' = OK 200 u"
proof -
  let ?r = "\<lparr>rg_username = ''eve'', rg_password = ''longpass'', rg_password2 = ''longpass'', rg_email = ''e@x.org'',
       rg_phone = None, rg_user_type = None\<rparr>"
  have "reply_is 201 (\<lambda>_ _. True) (register_view demo_lib demo_pw 1234 [] ?r demo_auth)" by code_simp
  then obtain u db' where reg: "register_view demo_lib demo_pw 1234 [] ?r demo_auth = (OK 201 u, db')"
    by (rule reply_isE)
  have "lib_norm_username demo_lib (rg_username ?r) = rg_username ?r" by (simp add: demo_lib_def)
  then show ?thesis
    using registration_logs_in [OF demo_contracts _ reg, of "''eve''" "''longpass''" 200 u] reg by simp
qed

text \<open>Nobody is told that an account is disabled: the backend only returns active users, so the check of
  \<open>is_active\<close> never fails, and a disabled user gets the answer of a wrong password.\<close>

theorem disabled_never_told:
  assumes "backend_contract P authenticate" and "auth_wf db"
    and "u \<in> set (rows (au_users db))" and "\<not> u_active u" and "u_username u \<noteq> []" and "p \<noteq> []"
  shows "login_view authenticate (u_username u) p db = Reject 400 (ValidationError ''credentials'')
       \<and> login_view authenticate n q db \<noteq> Reject 400 (ValidationError ''disabled'')"
proof -
  have wf: "t_wf u_id (au_users db)" "unique_on u_username (au_users db)" using assms(2) by (simp_all add: auth_wf_def)
  have A: "authenticate db n p = Some v \<longleftrightarrow>
      v \<in> set (rows (au_users db)) \<and> u_username v = n \<and> u_active v \<and> has_password P db v p" for n p v
    using assms(1) wf(2) by (auto simp: backend_contract_def)
  have "authenticate db (u_username u) p = None"
  proof (rule ccontr)
    assume "authenticate db (u_username u) p \<noteq> None"
    then obtain v where v: "v \<in> set (rows (au_users db))" "u_username v = u_username u" "u_active v"
      using A by auto
    then have "u_id v = u_id u" using wf(2) assms(3) unfolding unique_on_iff [OF wf(1)] by blast
    then have "v = u" using find_iff_mem [OF wf(1)] v(1) assms(3) by (metis option.inject)
    with v(3) assms(4) show False by simp
  qed
  then show ?thesis using A assms(5,6)
    by (auto simp: login_view_def login_validate_def split: option.splits)
qed

theorem disabled_never_told_witness:
  "login_view demo_backend ''amy'' ''s3cretpw'' (demo_auth\<lparr>au_users := \<lparr>rows = [demo_user\<lparr>u_active := False\<rparr>], seq = 7\<rparr>\<rparr>)
     = Reject 400 (ValidationError ''credentials'')"
proof -
  let ?db = "demo_auth\<lparr>au_users := \<lparr>rows = [demo_user\<lparr>u_active := False\<rparr>], seq = 7\<rparr>\<rparr>"
  have "auth_wf ?db" by (simp add: auth_wf_def t_wf_def unique_on_def demo_user_def)
  then show ?thesis
    using disabled_never_told [OF demo_contracts(2), of ?db "demo_user\<lparr>u_active := False\<rparr>" "''s3cretpw''" "[]" "[]"]
    by (simp add: demo_user_def)
qed

text \<open>The contact update is the partial profile update of these two fields.\<close>

lemma contact_update_profile:
  "contact_update lib rnd rq c t = profile_update lib rnd True rq
     \<lparr>pp_username = None, pp_email = ct_email c, pp_phone = ct_phone c, pp_type = None, pp_active = None\<rparr> t"
  by (simp add: contact_update_def profile_update_def profile_valid_def apply_profile_def needed_def optional_def
      or_default_def split: option.splits)

lemma profile_update_OK:
  assumes "t_wf u_id t" and "u \<in> set (rows t)" and "rq_user rq = Some u"
    and "profile_update lib rnd partial rq p t = (OK n u', t')"
  shows "t_find u_id i t' = (if i = u_id u then Some u' else t_find u_id i t)"
    and "u_type u' = or_default (pp_type p) (u_type u)" and "u_active u' = or_default (pp_active p) (u_active u)"
    and "u_username u' = or_default (pp_username p) (u_username u)" and "u_superuser u' = u_superuser u"
proof -
  have id: "u_id u \<noteq> 0" and found: "t_find u_id (u_id u) t \<noteq> None"
    using assms(1,2) t_wf_find_unique [OF assms(1,2)] by (auto simp: t_wf_def)
  have sv: "user_save lib rnd (apply_profile p u) t = (Inr u', t')"
    using assms(3,4) by (auto simp: profile_update_def split: if_splits sum.splits prod.splits)
  show "t_find u_id i t' = (if i = u_id u then Some u' else t_find u_id i t)"
    using user_save_find [OF sv, of i] id found by (simp add: apply_profile_def)
  show "u_type u' = or_default (pp_type p) (u_type u)" "u_superuser u' = u_superuser u"
    using user_save_InrD(1,2) [OF sv] by (simp_all add: apply_profile_def)
  show "u_active u' = or_default (pp_active p) (u_active u)" "u_username u' = or_default (pp_username p) (u_username u)"
    using user_save_columns [OF sv] by (simp_all add: apply_profile_def)
qed

text \<open>C31: Any signed-in user can make herself super administrator: \<open>user_type\<close> is a writable field of the
  profile, so an accepted profile update that asks for \<open>super_admin\<close> leaves a stored account that passes the
  staff, owner, manager and every named permission check in every shop.\<close>

theorem profile_escalation:
  assumes "t_wf u_id t" and "u \<in> set (rows t)" and "rq_user rq = Some u" and "pp_type p = Some SuperAdmin"
    and "profile_update lib rnd partial rq p t = (OK n u', t')"
  shows "t_find u_id (u_id u) t' = Some u'
       \<and> is_shop_owner_or_staff st \<lparr>rq_user = Some u', rq_tenant = tn\<rparr> = Inr True
       \<and> is_shop_owner st \<lparr>rq_user = Some u', rq_tenant = tn\<rparr> = Inr True
       \<and> is_shop_manager st \<lparr>rq_user = Some u', rq_tenant = tn\<rparr> = Inr True
       \<and> has_shop_permission q st \<lparr>rq_user = Some u', rq_tenant = tn\<rparr> = Inr True"
proof -
  note up = profile_update_OK [OF assms(1,2,3,5)]
  have "u_type u' = SuperAdmin" using up(2) assms(4) by (simp add: or_default_def)
  then show ?thesis
    using up(1) any_staff.super_admin shop_owner.super_admin shop_manager.super_admin shop_perm.super_admin
    by simp
qed

theorem profile_escalation_witness:
  "\<exists>u' t'. profile_update demo_lib 1234 True \<lparr>rq_user = Some demo_user, rq_tenant = None\<rparr>
      \<lparr>pp_username = None, pp_email = None, pp_phone = None, pp_type = Some SuperAdmin, pp_active = None\<rparr>
      (au_users demo_auth) = (OK 200 u', t')
    \<and> is_shop_owner demo_staff \<lparr>rq_user = Some u', rq_tenant = Some 3\<rparr> = Inr True"
proof -
  let ?rq = "\<lparr>rq_user = Some demo_user, rq_tenant = None\<rparr>"
  let ?p = "\<lparr>pp_username = None, pp_email = None, pp_phone = None, pp_type = Some SuperAdmin, pp_active = None\<rparr>"
  have "reply_is 200 (\<lambda>_ _. True) (profile_update demo_lib 1234 True ?rq ?p (au_users demo_auth))" by code_simp
  then obtain u' t' where up: "profile_update demo_lib 1234 True ?rq ?p (au_users demo_auth) = (OK 200 u', t')"
    by (rule reply_isE)
  have "t_wf u_id (au_users demo_auth)" "demo_user \<in> set (rows (au_users demo_auth))"
    using demo_contracts(3) by (simp_all add: auth_wf_def demo_auth_def)
  then show ?thesis
    using profile_escalation [OF _ _ _ _ up, of demo_user demo_staff "Some 3" "[]"] up by auto
qed

text \<open>The contact update, in contrast, keeps the name, the type and the state of the account, and no profile
  update touches another account.\<close>

theorem contact_update_harmless:
  assumes "t_wf u_id t" and "u \<in> set (rows t)" and "rq_user rq = Some u"
    and "contact_update lib rnd rq c t = (OK n u', t')"
  shows "t_find u_id i t' = (if i = u_id u then Some u' else t_find u_id i t)
       \<and> u_type u' = u_type u \<and> u_active u' = u_active u \<and> u_username u' = u_username u
       \<and> u_superuser u' = u_superuser u"
  using profile_update_OK [OF assms(1,2,3) assms(4) [unfolded contact_update_profile]]
  by (simp add: or_default_def)

text \<open>Anyone can register as super administrator: \<open>user_type\<close> is a writable field of the
  registration form, so a registration that asks for \<open>super_admin\<close> and is accepted yields an account
  that passes the staff, owner, manager and every named permission check in every shop, without a
  staff row.\<close>

theorem register_escalation:
  assumes "register_view lib P rnd salt r db = (OK n u, db')" and "rg_user_type r = Some SuperAdmin"
  shows "is_shop_owner_or_staff st \<lparr>rq_user = Some u, rq_tenant = tn\<rparr> = Inr True
       \<and> is_shop_owner st \<lparr>rq_user = Some u, rq_tenant = tn\<rparr> = Inr True
       \<and> is_shop_manager st \<lparr>rq_user = Some u, rq_tenant = tn\<rparr> = Inr True
       \<and> has_shop_permission p st \<lparr>rq_user = Some u, rq_tenant = tn\<rparr> = Inr True"
proof -
  from assms(1) obtain t' where "user_save lib rnd (new_user lib r) (au_users db) = (Inr u, t')"
    by (auto simp: register_view_def save_with_password_def split: sum.splits prod.splits)
  then have ty: "u_type u = SuperAdmin"
    using user_save_InrD(1) assms(2) by (fastforce simp: new_user_def)
  show ?thesis
    using any_staff.super_admin shop_owner.super_admin shop_manager.super_admin shop_perm.super_admin ty
    by simp
qed

theorem register_escalation_witness:
  "\<exists>u db'. register_view demo_lib demo_pw 1234 []
      \<lparr>rg_username = ''eve'', rg_password = ''s3cretpw'', rg_password2 = ''s3cretpw'',
       rg_email = ''e@x.org'', rg_phone = None, rg_user_type = Some SuperAdmin\<rparr> demo_auth = (OK 201 u, db')
    \<and> is_shop_owner demo_staff \<lparr>rq_user = Some u, rq_tenant = Some 3\<rparr> = Inr True"
proof -
  let ?r = "\<lparr>rg_username = ''eve'', rg_password = ''s3cretpw'', rg_password2 = ''s3cretpw'',
       rg_email = ''e@x.org'', rg_phone = None, rg_user_type = Some SuperAdmin\<rparr>"
  have "reply_is 201 (\<lambda>_ _. True) (register_view demo_lib demo_pw 1234 [] ?r demo_auth)" by code_simp
  then obtain u db' where reg: "register_view demo_lib demo_pw 1234 [] ?r demo_auth = (OK 201 u, db')"
    by (rule reply_isE)
  then show ?thesis using register_escalation [OF reg, of demo_staff "Some 3"] by auto
qed

section \<open>Configurations as maps\<close>

interpretation level_table: keyed_table db_levels ml_id level_key store_levels
  by unfold_locales (auto simp: store_levels_def store_unique_def)

interpretation rule_table: keyed_table db_points_rules pr_id rule_key store_rules
  by unfold_locales (auto simp: store_rules_def store_unique_def)

definition level_map :: "accounts_db \<Rightarrow> int \<times> level \<Rightarrow> level_row option" where
  "level_map db = row_map level_key (db_levels db)"

text \<open>What the requests keep of the configuration.\<close>

definition levels_ok :: "accounts_db \<Rightarrow> bool" where
  "levels_ok db \<longleftrightarrow> t_wf ml_id (db_levels db) \<and> unique_on level_key (db_levels db)
     \<and> (\<forall>l \<in> set (rows (db_levels db)). 0 \<le> ml_rate l \<and> ml_rate l \<le> 100)"

definition rules_ok :: "accounts_db \<Rightarrow> bool" where
  "rules_ok db \<longleftrightarrow> t_wf pr_id (db_points_rules db) \<and> unique_on rule_key (db_points_rules db)"

definition config_ok :: "accounts_db \<Rightarrow> bool" where
  "config_ok db \<longleftrightarrow> levels_ok db \<and> rules_ok db"

lemma level_objectD:
  assumes "level_object rq pk db = Some l"
  shows "l \<in> set (rows (db_levels db))" and "ml_id l = pk" and "Some (ml_shop l) = rq_tenant rq"
  using qs_first_SomeD [OF assms [unfolded level_object_def]] by simp_all

lemma rule_objectD:
  assumes "rule_object rq pk db = Some r"
  shows "r \<in> set (rows (db_points_rules db))" and "pr_id r = pk"
  using qs_first_SomeD [OF assms [unfolded rule_object_def]] by simp_all

lemma store_levels_InrD: "store_levels t db = Inr db' \<Longrightarrow> db' = db\<lparr>db_levels := t\<rparr> \<and> unique_on level_key t"
  by (auto simp: store_levels_def store_unique_def split: if_splits)

lemma store_rules_InrD: "store_rules t db = Inr db' \<Longrightarrow> db' = db\<lparr>db_points_rules := t\<rparr> \<and> unique_on rule_key t"
  by (auto simp: store_rules_def store_unique_def split: if_splits)

lemma level_apply_rate:
  assumes "level_body_valid partial b" and "0 \<le> ml_rate l \<and> ml_rate l \<le> 100"
  shows "0 \<le> ml_rate (level_apply b l) \<and> ml_rate (level_apply b l) \<le> 100"
  using assms by (auto simp: level_body_valid_def level_apply_def optional_def needed_def or_default_def
      split: option.splits)

lemma levels_ok_insert:
  assumes "levels_ok db" and "\<And>i. ml_id (f i) = i" and "\<And>i. 0 \<le> ml_rate (f i) \<and> ml_rate (f i) \<le> 100"
    and "store_levels (snd (t_add f (db_levels db))) db = Inr db'"
  shows "levels_ok db'"
proof -
  note st = store_levels_InrD [OF assms(4)]
  have "t_wf ml_id (snd (t_add f (db_levels db)))"
    by (rule t_wf_t_add) (use assms(1,2) in \<open>auto simp: levels_ok_def\<close>)
  with st assms(1,3) show ?thesis by (auto simp: levels_ok_def set_rows_t_add)
qed

lemma levels_ok_rewrite:
  assumes "levels_ok db" and "old \<in> set (rows (db_levels db))" and "ml_id l = ml_id old"
    and "0 \<le> ml_rate l \<and> ml_rate l \<le> 100" and "store_levels (t_save ml_id l (db_levels db)) db = Inr db'"
  shows "levels_ok db'"
proof -
  note st = store_levels_InrD [OF assms(5)]
  have wf: "t_wf ml_id (db_levels db)" using assms(1) by (simp add: levels_ok_def)
  have f: "t_find ml_id (ml_id l) (db_levels db) \<noteq> None" using t_wf_find_unique [OF wf assms(2)] assms(3) by simp
  show ?thesis
    using st assms(1,4) t_wf_t_save [OF wf f] by (auto simp: levels_ok_def set_rows_t_save [OF wf f])
qed

datatype config_op =
    CreateLevel request level_body
  | UpdateLevel bool request int level_body
  | DestroyLevel request int
  | CreateRule request rule_body
  | UpdateRule bool request int rule_body
  | DestroyRule request int

primrec handle_config :: "staff_row tbl \<Rightarrow> config_op \<Rightarrow> accounts_db \<Rightarrow> bool \<times> accounts_db" where
  "handle_config st (CreateLevel rq b) db = (case level_create st rq b db of (r, db') \<Rightarrow> (accepted r, db'))"
| "handle_config st (UpdateLevel partial rq pk b) db = (case level_update st partial rq pk b db of (r, db') \<Rightarrow> (accepted r, db'))"
| "handle_config st (DestroyLevel rq pk) db = (case level_destroy st rq pk db of (r, db') \<Rightarrow> (accepted r, db'))"
| "handle_config st (CreateRule rq b) db = (case rule_create st rq b db of (r, db') \<Rightarrow> (accepted r, db'))"
| "handle_config st (UpdateRule partial rq pk b) db = (case rule_update st partial rq pk b db of (r, db') \<Rightarrow> (accepted r, db'))"
| "handle_config st (DestroyRule rq pk) db = (case rule_destroy st rq pk db of (r, db') \<Rightarrow> (accepted r, db'))"

text \<open>A request that changes the levels or the rules stored an insertion, a rewriting or a deletion.\<close>

lemma level_create_cases:
  assumes "level_create st rq b db = (r, db')"
  shows "db' = db \<or> level_body_valid False b \<and> (\<exists>tn. store_levels
     (snd (t_add (\<lambda>i. (level_apply b (blank_level tn))\<lparr>ml_id := i\<rparr>) (db_levels db))) db = Inr db')"
  using assms
  by (auto simp: level_create_def staff_only_def Let_def case_prod_beta
      split: if_splits option.splits sum.splits bool.splits)

lemma level_update_cases:
  assumes "level_update st partial rq pk b db = (r, db')"
  shows "db' = db \<or> level_body_valid partial b \<and> (\<exists>l. level_object rq pk db = Some l
     \<and> store_levels (t_save ml_id (level_apply b l) (db_levels db)) db = Inr db')"
  using assms
  by (auto simp: level_update_def staff_only_def split: if_splits option.splits sum.splits bool.splits)

lemma level_destroy_cases:
  assumes "level_destroy st rq pk db = (r, db')"
  shows "db' = db \<or> (\<exists>l. level_object rq pk db = Some l
     \<and> db' = db\<lparr>db_levels := t_del (\<lambda>r. ml_id r = ml_id l) (db_levels db)\<rparr>)"
  using assms
  by (auto simp: level_destroy_def staff_only_def split: option.splits sum.splits bool.splits)

lemma rule_create_cases:
  assumes "rule_create st rq b db = (r, db')"
  shows "db' = db \<or> (\<exists>tn. store_rules
     (snd (t_add (\<lambda>i. (rule_apply b (blank_rule tn))\<lparr>pr_id := i\<rparr>) (db_points_rules db))) db = Inr db')"
  using assms
  by (auto simp: rule_create_def staff_only_def Let_def case_prod_beta
      split: if_splits option.splits sum.splits bool.splits)

lemma rule_update_cases:
  assumes "rule_update st partial rq pk b db = (r, db')"
  shows "db' = db \<or> (\<exists>l. rule_object rq pk db = Some l
     \<and> store_rules (t_save pr_id (rule_apply b l) (db_points_rules db)) db = Inr db')"
  using assms
  by (auto simp: rule_update_def staff_only_def split: if_splits option.splits sum.splits bool.splits)

lemma rule_destroy_cases:
  assumes "rule_destroy st rq pk db = (r, db')"
  shows "db' = db \<or> (\<exists>l. rule_object rq pk db = Some l
     \<and> db' = db\<lparr>db_points_rules := t_del (\<lambda>r. pr_id r = pr_id l) (db_points_rules db)\<rparr>)"
  using assms
  by (auto simp: rule_destroy_def staff_only_def split: option.splits sum.splits bool.splits)

lemmas config_cases = level_create_cases level_update_cases level_destroy_cases
  rule_create_cases rule_update_cases rule_destroy_cases

lemma rules_ok_insert:
  assumes "rules_ok db" and "\<And>i. pr_id (f i) = i" and "store_rules (snd (t_add f (db_points_rules db))) db = Inr db'"
  shows "rules_ok db'"
proof -
  have "t_wf pr_id (snd (t_add f (db_points_rules db)))"
    by (rule t_wf_t_add) (use assms(1,2) in \<open>auto simp: rules_ok_def\<close>)
  with store_rules_InrD [OF assms(3)] show ?thesis by (simp add: rules_ok_def)
qed

lemma rules_ok_rewrite:
  assumes "rules_ok db" and "old \<in> set (rows (db_points_rules db))" and "pr_id l = pr_id old"
    and "store_rules (t_save pr_id l (db_points_rules db)) db = Inr db'"
  shows "rules_ok db'"
proof -
  have wf: "t_wf pr_id (db_points_rules db)" using assms(1) by (simp add: rules_ok_def)
  have f: "t_find pr_id (pr_id l) (db_points_rules db) \<noteq> None" using t_wf_find_unique [OF wf assms(2)] assms(3) by simp
  show ?thesis using store_rules_InrD [OF assms(4)] t_wf_t_save [OF wf f] by (simp add: rules_ok_def)
qed

lemma levels_ok_other: "store_rules t db = Inr db' \<Longrightarrow> levels_ok db' = levels_ok db"
  by (auto dest: store_rules_InrD simp: levels_ok_def)

lemma rules_ok_other: "store_levels t db = Inr db' \<Longrightarrow> rules_ok db' = rules_ok db"
  by (auto dest: store_levels_InrD simp: rules_ok_def)

lemma handle_config_ok:
  assumes "config_ok db"
  shows "config_ok (snd (handle_config st op db))"
proof (rule ccontr)
  assume bad: "\<not> config_ok (snd (handle_config st op db))"
  have ok: "levels_ok db" "rules_ok db" using assms by (simp_all add: config_ok_def)
  show False
  proof (cases op)
    case (CreateLevel rq b)
    obtain r db' where run: "level_create st rq b db = (r, db')" by (cases "level_create st rq b db")
    then have no: "\<not> config_ok db'" using bad CreateLevel by simp
    then obtain tn where v: "level_body_valid False b" and s: "store_levels
        (snd (t_add (\<lambda>i. (level_apply b (blank_level tn))\<lparr>ml_id := i\<rparr>) (db_levels db))) db = Inr db'"
      using level_create_cases [OF run] assms by auto
    have "levels_ok db'"
      by (rule levels_ok_insert [OF ok(1) _ _ s]) (use level_apply_rate [OF v, of "blank_level tn"] in \<open>auto simp: blank_level_def\<close>)
    then show False using no rules_ok_other [OF s] ok(2) by (simp add: config_ok_def)
  next
    case (UpdateLevel partial rq pk b)
    obtain r db' where run: "level_update st partial rq pk b db = (r, db')" by (cases "level_update st partial rq pk b db")
    then have no: "\<not> config_ok db'" using bad UpdateLevel by simp
    then obtain l where v: "level_body_valid partial b" and l: "level_object rq pk db = Some l"
      and s: "store_levels (t_save ml_id (level_apply b l) (db_levels db)) db = Inr db'"
      using level_update_cases [OF run] assms by auto
    have "levels_ok db'"
      by (rule levels_ok_rewrite [OF ok(1) level_objectD(1) [OF l] _ _ s])
        (use level_apply_rate [OF v, of l] level_objectD(1) [OF l] ok(1) in \<open>auto simp: levels_ok_def level_apply_def\<close>)
    then show False using no rules_ok_other [OF s] ok(2) by (simp add: config_ok_def)
  next
    case (DestroyLevel rq pk)
    obtain r db' where run: "level_destroy st rq pk db = (r, db')" by (cases "level_destroy st rq pk db")
    then have no: "\<not> config_ok db'" using bad DestroyLevel by simp
    then obtain l where "level_object rq pk db = Some l" and s: "db' = db\<lparr>db_levels := t_del (\<lambda>r. ml_id r = ml_id l) (db_levels db)\<rparr>"
      using level_destroy_cases [OF run] assms by auto
    then show False using no ok
      by (auto simp: config_ok_def levels_ok_def rules_ok_def t_wf_t_del unique_on_def rows_t_del distinct_map_filter)
  next
    case (CreateRule rq b)
    obtain r db' where run: "rule_create st rq b db = (r, db')" by (cases "rule_create st rq b db")
    then have no: "\<not> config_ok db'" using bad CreateRule by simp
    then obtain tn where s: "store_rules
        (snd (t_add (\<lambda>i. (rule_apply b (blank_rule tn))\<lparr>pr_id := i\<rparr>) (db_points_rules db))) db = Inr db'"
      using rule_create_cases [OF run] assms by auto
    have "rules_ok db'" by (rule rules_ok_insert [OF ok(2) _ s]) simp
    then show False using no levels_ok_other [OF s] ok(1) by (simp add: config_ok_def)
  next
    case (UpdateRule partial rq pk b)
    obtain r db' where run: "rule_update st partial rq pk b db = (r, db')" by (cases "rule_update st partial rq pk b db")
    then have no: "\<not> config_ok db'" using bad UpdateRule by simp
    then obtain l where l: "rule_object rq pk db = Some l"
      and s: "store_rules (t_save pr_id (rule_apply b l) (db_points_rules db)) db = Inr db'"
      using rule_update_cases [OF run] assms by auto
    have "rules_ok db'" by (rule rules_ok_rewrite [OF ok(2) rule_objectD(1) [OF l] _ s]) (simp add: rule_apply_def)
    then show False using no levels_ok_other [OF s] ok(1) by (simp add: config_ok_def)
  next
    case (DestroyRule rq pk)
    obtain r db' where run: "rule_destroy st rq pk db = (r, db')" by (cases "rule_destroy st rq pk db")
    then have no: "\<not> config_ok db'" using bad DestroyRule by simp
    then obtain l where "rule_object rq pk db = Some l"
      and s: "db' = db\<lparr>db_points_rules := t_del (\<lambda>r. pr_id r = pr_id l) (db_points_rules db)\<rparr>"
      using rule_destroy_cases [OF run] assms by auto
    then show False using no ok
      by (auto simp: config_ok_def levels_ok_def rules_ok_def t_wf_t_del unique_on_def rows_t_del distinct_map_filter)
  qed
qed

interpretation config_system: guarded_system "handle_config st" config_ok for st
  by unfold_locales (rule handle_config_ok)

section \<open>Properties: configuration and recharge rows\<close>

lemma config_levels: "config_ok db \<Longrightarrow> t_wf ml_id (db_levels db) \<and> unique_on level_key (db_levels db)"
  by (simp add: config_ok_def levels_ok_def)

lemma level_create_refines:
  assumes "config_ok db" and "is_shop_owner_or_staff st rq = Inr True" and "rq_tenant rq = Some tn"
    and "level_body_valid False b" and "lb_level b = Some lv"
  shows "if level_map db (tn, lv) = None
    then \<exists>l db'. level_create st rq b db = (OK 201 l, db') \<and> level_map db' = (level_map db)((tn, lv) \<mapsto> l)
    else \<exists>e. level_create st rq b db = (Crash (IntegrityError e), db)"
proof -
  let ?f = "\<lambda>i. (level_apply b (blank_level tn))\<lparr>ml_id := i\<rparr>"
  have wf: "t_wf ml_id (db_levels db)" "unique_on level_key (db_levels db)" using config_levels assms(1) by blast+
  have key: "level_key (?f i) = (tn, lv)" for i
    using assms(5) by (simp add: level_key_def level_apply_def blank_level_def or_default_def)
  have run: "level_create st rq b db = (case store_levels (snd (t_add ?f (db_levels db))) db of
      Inl e \<Rightarrow> (Crash e, db) | Inr db1 \<Rightarrow> (OK 201 (?f (seq (db_levels db) + 1)), db1))"
    using assms by (simp add: level_create_def staff_only_def t_add_def)
  show ?thesis
  proof (cases "level_map db (tn, lv) = None")
    case True
    then show ?thesis
      using level_table.insert_free [OF wf, of ?f] run key by (auto simp: level_map_def)
  next
    case False
    then show ?thesis
      using level_table.insert_taken [of db ?f] run key by (auto simp: level_map_def)
  qed
qed

lemma level_update_refines:
  assumes "config_ok db" and "is_shop_owner_or_staff st rq = Inr True"
    and "level_body_valid partial b" and "level_object rq pk db = Some l"
  shows "if level_key (level_apply b l) = level_key l \<or> level_map db (level_key (level_apply b l)) = None
    then \<exists>db'. level_update st partial rq pk b db = (OK 200 (level_apply b l), db')
       \<and> level_map db' = (level_map db)(level_key l := None, level_key (level_apply b l) \<mapsto> level_apply b l)
    else \<exists>e. level_update st partial rq pk b db = (Crash (IntegrityError e), db)"
proof -
  let ?l = "level_apply b l"
  have wf: "t_wf ml_id (db_levels db)" "unique_on level_key (db_levels db)" using config_levels assms(1) by blast+
  have run: "level_update st partial rq pk b db = (case store_levels (t_save ml_id ?l (db_levels db)) db of
      Inl e \<Rightarrow> (Crash e, db) | Inr db1 \<Rightarrow> (OK 200 ?l, db1))"
    using assms by (simp add: level_update_def staff_only_def)
  have l: "l \<in> set (rows (db_levels db))" by (rule level_objectD(1) [OF assms(4)])
  have id: "ml_id ?l = ml_id l" by (simp add: level_apply_def)
  show ?thesis
  proof (cases "level_key ?l = level_key l \<or> level_map db (level_key ?l) = None")
    case True
    then obtain db1 where "store_levels (t_save ml_id ?l (db_levels db)) db = Inr db1"
      and "level_map db1 = (level_map db)(level_key l := None, level_key ?l \<mapsto> ?l)"
      using level_table.rewrite_free [OF wf l id] unfolding level_map_def by blast
    with True run show ?thesis by simp
  next
    case False
    then obtain e where "store_levels (t_save ml_id ?l (db_levels db)) db = Inl (IntegrityError e)"
      using level_table.rewrite_taken [OF wf(1) l id] unfolding level_map_def by blast
    with False run show ?thesis by simp
  qed
qed

text \<open>C27: The level configurations implement a map from shop and level to a row.  For a request of the shop's staff
  with a valid body, creating fails with an \<open>IntegrityError\<close> exactly when the key is taken and adds the answered
  row under it otherwise; updating fails exactly when it moves the row to a taken key and otherwise replaces the
  old entry by the new one; deleting removes the entry; and a failure changes nothing.\<close>

theorem level_config_refines:
  assumes "config_ok db" and "is_shop_owner_or_staff st rq = Inr True" and "rq_tenant rq = Some tn"
  shows "(level_body_valid False b \<and> lb_level b = Some lv \<longrightarrow>
            (if level_map db (tn, lv) = None
             then \<exists>l db'. level_create st rq b db = (OK 201 l, db') \<and> level_map db' = (level_map db)((tn, lv) \<mapsto> l)
             else \<exists>e. level_create st rq b db = (Crash (IntegrityError e), db)))
       \<and> (level_body_valid partial b \<and> level_object rq pk db = Some l \<longrightarrow>
            (if level_key (level_apply b l) = level_key l \<or> level_map db (level_key (level_apply b l)) = None
             then \<exists>db'. level_update st partial rq pk b db = (OK 200 (level_apply b l), db')
                \<and> level_map db' = (level_map db)(level_key l := None, level_key (level_apply b l) \<mapsto> level_apply b l)
             else \<exists>e. level_update st partial rq pk b db = (Crash (IntegrityError e), db)))
       \<and> (level_object rq pk db = Some l \<longrightarrow>
            (\<exists>db'. level_destroy st rq pk db = (OK 204 (), db') \<and> level_map db' = (level_map db)(level_key l := None)))"
proof (intro conjI impI)
  assume "level_body_valid False b \<and> lb_level b = Some lv"
  then show "if level_map db (tn, lv) = None
    then \<exists>l db'. level_create st rq b db = (OK 201 l, db') \<and> level_map db' = (level_map db)((tn, lv) \<mapsto> l)
    else \<exists>e. level_create st rq b db = (Crash (IntegrityError e), db)"
    using level_create_refines [OF assms] by blast
next
  assume "level_body_valid partial b \<and> level_object rq pk db = Some l"
  then show "if level_key (level_apply b l) = level_key l \<or> level_map db (level_key (level_apply b l)) = None
    then \<exists>db'. level_update st partial rq pk b db = (OK 200 (level_apply b l), db')
       \<and> level_map db' = (level_map db)(level_key l := None, level_key (level_apply b l) \<mapsto> level_apply b l)
    else \<exists>e. level_update st partial rq pk b db = (Crash (IntegrityError e), db)"
    using level_update_refines [OF assms(1,2)] by blast
next
  assume l: "level_object rq pk db = Some l"
  then show "\<exists>db'. level_destroy st rq pk db = (OK 204 (), db') \<and> level_map db' = (level_map db)(level_key l := None)"
    using level_table.delete_row(2) [of db l] config_levels [OF assms(1)] level_objectD(1) [OF l] assms(2)
    by (simp add: level_destroy_def staff_only_def level_map_def)
qed

definition demo_level_body :: level_body where
  "demo_level_body = \<lparr>lb_level = Some Diamond, lb_name = Some ''diamond'', lb_min_points = Some 500, lb_rate = Some 80,
     lb_earn_rate = None, lb_active = None\<rparr>"

lemma demo_config_ok: "config_ok demo_accounts"
  by (simp add: config_ok_def levels_ok_def rules_ok_def t_wf_def unique_on_def demo_accounts_def level_key_def rule_key_def)

lemma demo_manager: "is_shop_owner_or_staff demo_staff \<lparr>rq_user = Some demo_user, rq_tenant = Some 3\<rparr> = Inr True"
  by code_simp

theorem level_config_refines_witness:
  "\<exists>l db'. level_create demo_staff \<lparr>rq_user = Some demo_user, rq_tenant = Some 3\<rparr> demo_level_body demo_accounts = (OK 201 l, db')
     \<and> level_map db' (3, Diamond) = Some l"
proof -
  have v: "level_body_valid False demo_level_body \<and> lb_level demo_level_body = Some Diamond" by code_simp
  have "level_map demo_accounts (3, Diamond) = None"
    by (simp add: level_map_def row_map_def level_key_def demo_accounts_def)
  with v conjunct1 [OF level_config_refines [OF demo_config_ok demo_manager, of 3 demo_level_body Diamond]]
  obtain l db' where "level_create demo_staff \<lparr>rq_user = Some demo_user, rq_tenant = Some 3\<rparr> demo_level_body demo_accounts = (OK 201 l, db')"
    and "level_map db' = (level_map demo_accounts)((3, Diamond) \<mapsto> l)" by (auto split: if_splits)
  then show ?thesis by simp
qed



lemma recharge_object_found:
  assumes "t_wf rc_id (db_recharges db)" and "r \<in> set (rows (db_recharges db))" and "own_recharge u rq r"
  shows "recharge_object u rq (rc_id r) db = Some r"
proof (cases "recharge_object u rq (rc_id r) db")
  case None
  then show ?thesis using assms by (auto simp: recharge_object_def qs_first_None)
next
  case (Some x)
  then have "x \<in> set (rows (db_recharges db))" "rc_id x = rc_id r"
    using qs_first_SomeD [OF Some [unfolded recharge_object_def]] by simp_all
  then have "x = r" using find_iff_mem [OF assms(1)] assms(2) by (metis option.inject)
  with Some show ?thesis by simp
qed

lemma recharge_object_other:
  assumes "t_wf rc_id (db_recharges db)" and "r \<in> set (rows (db_recharges db))" and "\<not> own_recharge u rq r"
    and "recharge_object u rq pk db = Some x"
  shows "rc_id r \<noteq> rc_id x" and "x \<in> set (rows (db_recharges db))"
proof -
  have x: "x \<in> set (rows (db_recharges db))" "own_recharge u rq x"
    using qs_first_SomeD [OF assms(4) [unfolded recharge_object_def]] by simp_all
  then show "rc_id r \<noteq> rc_id x" using assms(2,3) find_iff_mem [OF assms(1)] by (metis option.inject)
  show "x \<in> set (rows (db_recharges db))" by (rule x(1))
qed

text \<open>The recharge endpoint trusts the customer with the books: no row can be created through it, since the
  insertion lacks its shop, but the owner of a recharge row can mark it as paid and set its amounts without any
  payment, and a row of another user or shop is out of reach of updates and deletions.\<close>

theorem recharge_rows_writable:
  assumes "t_wf rc_id (db_recharges db)" and "rq_user rq = Some u"
  shows "\<not> accepted (fst (recharge_create rq b db)) \<and> snd (recharge_create rq b db) = db
       \<and> (r \<in> set (rows (db_recharges db)) \<and> own_recharge u rq r \<and> recharge_body_valid partial b db \<longrightarrow>
            (\<exists>db'. recharge_update partial rq (rc_id r) b db = (OK 200 (recharge_apply b r), db')
               \<and> recharge_apply b r \<in> set (rows (db_recharges db'))))
       \<and> (r \<in> set (rows (db_recharges db)) \<and> \<not> own_recharge u rq r \<longrightarrow>
            r \<in> set (rows (db_recharges (snd (recharge_update partial rq pk b db))))
          \<and> r \<in> set (rows (db_recharges (snd (recharge_destroy rq pk db)))))"
proof (intro conjI impI)
  show "\<not> accepted (fst (recharge_create rq b db))" "snd (recharge_create rq b db) = db"
    using assms(2) by (simp_all add: recharge_create_def)
next
  assume r: "r \<in> set (rows (db_recharges db)) \<and> own_recharge u rq r \<and> recharge_body_valid partial b db"
  then have obj: "recharge_object u rq (rc_id r) db = Some r" using recharge_object_found [OF assms(1)] by blast
  have f: "t_find rc_id (rc_id r) (db_recharges db) = Some r" using t_wf_find_unique [OF assms(1)] r by blast
  have "t_find rc_id (rc_id (recharge_apply b r)) (db_recharges db) \<noteq> None" using f by (simp add: recharge_apply_def)
  note set_rows_t_save [OF assms(1) this]
  then show "\<exists>db'. recharge_update partial rq (rc_id r) b db = (OK 200 (recharge_apply b r), db')
     \<and> recharge_apply b r \<in> set (rows (db_recharges db'))"
    using r obj assms(2) by (simp add: recharge_update_def)
next
  assume r: "r \<in> set (rows (db_recharges db)) \<and> \<not> own_recharge u rq r"
  then have other: "rc_id r \<noteq> rc_id x \<and> x \<in> set (rows (db_recharges db))" if "recharge_object u rq pk db = Some x" for x
    using recharge_object_other [OF assms(1) _ _ that] by blast
  show "r \<in> set (rows (db_recharges (snd (recharge_update partial rq pk b db))))"
  proof (cases "recharge_object u rq pk db")
    case (Some x)
    have "t_find rc_id (rc_id (recharge_apply b x)) (db_recharges db) \<noteq> None"
      using t_wf_find_unique [OF assms(1)] other [OF Some] by (simp add: recharge_apply_def)
    note rw = set_rows_t_save [OF assms(1) this]
    have "rc_id (recharge_apply b x) = rc_id x" by (simp add: recharge_apply_def)
    with Some r other [OF Some] assms(2) show ?thesis by (simp add: recharge_update_def rw)
  qed (use r assms(2) in \<open>simp add: recharge_update_def\<close>)
  show "r \<in> set (rows (db_recharges (snd (recharge_destroy rq pk db))))"
    using r other assms(2) by (cases "recharge_object u rq pk db") (auto simp: recharge_destroy_def rows_t_del)
qed

theorem recharge_rows_writable_witness:
  "\<exists>db'. recharge_update True \<lparr>rq_user = Some demo_user, rq_tenant = Some 3\<rparr> 1
      \<lparr>hb_user = None, hb_amount = None, hb_gift_amount = None, hb_gift_points = None, hb_method = None,
       hb_paid = Some True, hb_paid_at = None\<rparr>
      (demo_accounts\<lparr>db_recharges := \<lparr>rows = [\<lparr>rc_id = 1, rc_user = 7, rc_amount = 5000, rc_gift_amount = 0,
         rc_gift_points = 0, rc_method = ''wechat'', rc_paid = False, rc_paid_at = None, rc_shop = 3, rc_at = 4\<rparr>],
         seq = 1\<rparr>\<rparr>)
    = (OK 200 \<lparr>rc_id = 1, rc_user = 7, rc_amount = 5000, rc_gift_amount = 0, rc_gift_points = 0,
         rc_method = ''wechat'', rc_paid = True, rc_paid_at = None, rc_shop = 3, rc_at = 4\<rparr>, db')"
proof -
  let ?r = "\<lparr>rc_id = 1, rc_user = 7, rc_amount = 5000, rc_gift_amount = 0,
         rc_gift_points = 0, rc_method = ''wechat'', rc_paid = False, rc_paid_at = None, rc_shop = 3, rc_at = 4\<rparr>"
  let ?db = "demo_accounts\<lparr>db_recharges := \<lparr>rows = [?r], seq = 1\<rparr>\<rparr>"
  let ?b = "\<lparr>hb_user = None, hb_amount = None, hb_gift_amount = None, hb_gift_points = None, hb_method = None,
       hb_paid = Some True, hb_paid_at = None\<rparr>"
  let ?rq = "\<lparr>rq_user = Some demo_user, rq_tenant = Some 3\<rparr>"
  have wf: "t_wf rc_id (db_recharges ?db)" by (simp add: t_wf_def)
  have "?r \<in> set (rows (db_recharges ?db)) \<and> own_recharge demo_user ?rq ?r \<and> recharge_body_valid True ?b ?db"
    by (simp add: own_recharge_def recharge_body_valid_def needed_def optional_def demo_user_def)
  then show ?thesis
    using recharge_rows_writable [OF wf, of ?rq demo_user ?b ?r True] by (auto simp: recharge_apply_def or_default_def)
qed

end
