(* ===== verification/Catalog.thy ===== *)
theory Catalog
  imports Identity "HOL-Library.Char_ord" "HOL-Library.List_Lexorder" "HOL-Library.Product_Lexorder"
begin

text \<open>
  The catalogue and its stock: \<open>apps/products/models.py\<close>, \<open>serializers.py\<close> and \<open>api.py\<close>.
  A view is a function of the request, its decoded body and the catalogue; it gives the reply and
  the catalogue left behind.  Image files are their names, the strings are UTF-8 bytes,
  \<open>updated_at\<close> columns are left out, and names are ordered by their bytes.  Stock is also moved by the orders of theory \<open>Orders\<close>; the
  interface between the two is the locale \<open>ledger\<close>, interpreted here on \<open>move_stock\<close>.
\<close>

section \<open>Rows and state\<close>

record category_row =
  ca_id :: int
  ca_name :: string
  ca_description :: string
  ca_parent :: "int option"
  ca_sort :: int
  ca_active :: bool
  ca_shop :: int

datatype product_status = Draft | ActiveP | InactiveP | OutOfStock

record product_row =
  p_id :: int
  p_name :: string
  p_description :: string
  p_category :: "int option"
  p_base_price :: int
  p_cost_price :: "int option"
  p_main_image :: string
  p_images :: "string list"
  p_status :: product_status
  p_featured :: bool
  p_sort :: int
  p_custom :: bool
  p_prep_time :: int
  p_shop :: int
  p_created_by :: "int option"

record spec_row =
  sp_id :: int
  sp_name :: string
  sp_display :: string
  sp_sort :: int
  sp_shop :: int

record spec_value_row =
  sv_id :: int
  sv_spec :: int
  sv_value :: string
  sv_display :: string
  sv_sort :: int

record sku_row =
  k_id :: int
  k_product :: int
  k_code :: string
  k_price :: int
  k_cost :: "int option"
  k_stock :: int
  k_threshold :: int
  k_specs :: "int list"
  k_active :: bool

datatype attribute_type = TextAttr | NumberAttr | SelectAttr | CheckboxAttr

record attribute_row =
  at_id :: int
  at_product :: int
  at_name :: string
  at_type :: attribute_type
  at_required :: bool
  at_sort :: int

record option_row =
  op_id :: int
  op_attribute :: int
  op_value :: string
  op_additional_price :: int
  op_sort :: int

datatype stock_action = Purchase | Sale | Adjustment | ReturnIn | Waste

record inventory_log =
  il_id :: int
  il_sku :: int
  il_action :: stock_action
  il_change :: int
  il_current :: int
  il_ref :: string
  il_notes :: string
  il_by :: "int option"

record catalog_db =
  db_categories :: "category_row tbl"
  db_products :: "product_row tbl"
  db_specs :: "spec_row tbl"
  db_spec_values :: "spec_value_row tbl"
  db_skus :: "sku_row tbl"
  db_attributes :: "attribute_row tbl"
  db_options :: "option_row tbl"
  db_inventory :: "inventory_log tbl"

definition is_in_stock :: "sku_row \<Rightarrow> bool" where
  "is_in_stock k \<longleftrightarrow> k_stock k > 0"

definition is_low_stock :: "sku_row \<Rightarrow> bool" where
  "is_low_stock k \<longleftrightarrow> 0 < k_stock k \<and> k_stock k \<le> k_threshold k"

section \<open>Storing rows\<close>

definition sku_conflict :: "sku_row \<Rightarrow> sku_row tbl \<Rightarrow> bool" where
  "sku_conflict k t = list_ex (\<lambda>r. k_id r \<noteq> k_id k \<and> k_code r = k_code k) (rows t)"

definition sku_columns_ok :: "sku_row \<Rightarrow> bool" where
  "sku_columns_ok k \<longleftrightarrow> int4_ok (k_stock k) \<and> int4_ok (k_threshold k) \<and> numeric_ok 10 (k_price k)
     \<and> (case k_cost k of None \<Rightarrow> True | Some c \<Rightarrow> numeric_ok 10 c)"

text \<open>\<open>sku.save()\<close>; the unsaved instance has id 0.\<close>

definition sku_save :: "sku_row \<Rightarrow> catalog_db \<Rightarrow> (sku_row \<times> catalog_db) res" where
  "sku_save k db =
     (if \<not> sku_columns_ok k then Inl (DataError ''product_skus'')
      else if sku_conflict k (db_skus db) then Inl (IntegrityError ''sku_code'')
      else if k_id k = 0 then
        (let (k', t) = t_add (\<lambda>i. k\<lparr>k_id := i\<rparr>) (db_skus db) in Inr (k', db\<lparr>db_skus := t\<rparr>))
      else Inr (k, db\<lparr>db_skus := t_save k_id k (db_skus db)\<rparr>))"

definition log_stock ::
  "int \<Rightarrow> stock_action \<Rightarrow> int \<Rightarrow> int \<Rightarrow> string \<Rightarrow> int option \<Rightarrow> catalog_db \<Rightarrow> catalog_db res" where
  "log_stock sku act change current notes by db =
     (if \<not> int4_ok change \<or> \<not> int4_ok current then Inl (DataError ''inventory_logs'')
      else Inr (db\<lparr>db_inventory := snd (t_add (\<lambda>i.
             \<lparr>il_id = i, il_sku = sku, il_action = act, il_change = change, il_current = current,
              il_ref = [], il_notes = notes, il_by = by\<rparr>) (db_inventory db))\<rparr>))"

section \<open>Querysets of the views\<close>

definition product_in :: "catalog_db \<Rightarrow> int option \<Rightarrow> int \<Rightarrow> bool" where
  "product_in db tenant pid = qs_exists (\<lambda>p. p_id p = pid \<and> Some (p_shop p) = tenant) (db_products db)"

text \<open>\<open>ProductSKU.objects.filter(product__shop=request.tenant)\<close>\<close>

definition sku_in :: "catalog_db \<Rightarrow> int option \<Rightarrow> sku_row \<Rightarrow> bool" where
  "sku_in db tenant k = product_in db tenant (k_product k)"

definition sku_object :: "request \<Rightarrow> int \<Rightarrow> catalog_db \<Rightarrow> sku_row option" where
  "sku_object rq pk db = qs_first (\<lambda>k. k_id k = pk \<and> sku_in db (rq_tenant rq) k) (db_skus db)"

definition product_object :: "request \<Rightarrow> int \<Rightarrow> catalog_db \<Rightarrow> product_row option" where
  "product_object rq pk db =
     qs_first (\<lambda>p. p_id p = pk \<and> Some (p_shop p) = rq_tenant rq) (db_products db)"

section \<open>Stock views\<close>

datatype adjustment = Increase | Decrease

record adjust_body =
  ab_sku_id :: "int option"
  ab_type :: "adjustment option"
  ab_quantity :: "int option"
  ab_notes :: "string option"

text \<open>\<open>StockAdjustmentSerializer\<close>\<close>

definition adjust_valid :: "adjust_body \<Rightarrow> (adjustment \<times> int \<times> string) res" where
  "adjust_valid b =
     (case (ab_sku_id b, ab_type b, ab_quantity b) of
        (Some _, Some ty, Some q) \<Rightarrow>
          if q < 1 then Inl (ValidationError ''quantity'')
          else Inr (ty, q, case ab_notes b of None \<Rightarrow> [] | Some n \<Rightarrow> n)
      | _ \<Rightarrow> Inl (ValidationError ''required''))"

definition adjust_apply :: "int option \<Rightarrow> sku_row \<Rightarrow> adjustment \<Rightarrow> int \<Rightarrow> string \<Rightarrow> catalog_db \<Rightarrow>
    (int \<times> catalog_db) res" where
  "adjust_apply by sku ty q notes db =
     (let stock = (case ty of Increase \<Rightarrow> k_stock sku + q | Decrease \<Rightarrow> max 0 (k_stock sku - q));
          change = (case ty of Increase \<Rightarrow> q | Decrease \<Rightarrow> - q)
      in case sku_save (sku\<lparr>k_stock := stock\<rparr>) db of
           Inl e \<Rightarrow> Inl e
         | Inr (sku', db1) \<Rightarrow>
             (case log_stock (k_id sku') Adjustment change (k_stock sku') notes by db1 of
                Inl e \<Rightarrow> Inl e
              | Inr db2 \<Rightarrow> Inr (k_stock sku', db2)))"

definition adjust_stock :: "request \<Rightarrow> int \<Rightarrow> adjust_body \<Rightarrow> catalog_db \<Rightarrow> int reply \<times> catalog_db" where
  "adjust_stock rq pk body db =
     (case rq_user rq of
        None \<Rightarrow> (Reject 401 PermissionDenied, db)
      | Some u \<Rightarrow>
          (case sku_object rq pk db of
             None \<Rightarrow> (Reject 404 (DoesNotExist ''ProductSKU''), db)
           | Some sku \<Rightarrow>
               (case adjust_valid body of
                  Inl e \<Rightarrow> (Reject 400 e, db)
                | Inr (ty, q, notes) \<Rightarrow>
                    (case adjust_apply (Some (u_id u)) sku ty q notes db of
                       Inl e \<Rightarrow> (Crash e, db)
                     | Inr (stock, db') \<Rightarrow> (OK 200 stock, db')))))"

text \<open>An element of \<open>updates\<close>: a JSON object, whose members may be missing.\<close>

record bulk_item =
  bu_sku :: "int option"
  bu_stock :: "int option"
  bu_notes :: "string option"

datatype bulk_result = BulkDone int int | BulkFailed int

definition bulk_notes :: string where
  "bulk_notes = map char_of [0xE6 :: nat, 0x89, 0xB9, 0xE9, 0x87, 0x8F, 0xE6, 0x9B, 0xB4, 0xE6, 0x96, 0xB0]"

definition bulk_one :: "request \<Rightarrow> int option \<Rightarrow> bulk_item \<Rightarrow> catalog_db \<Rightarrow> (bulk_result \<times> catalog_db) res" where
  "bulk_one rq by u db =
     (case bu_sku u of
        None \<Rightarrow> Inl (KeyError ''sku_id'')
      | Some sid \<Rightarrow>
          (case qs_get ''ProductSKU'' (\<lambda>k. k_id k = sid \<and> sku_in db (rq_tenant rq) k) (db_skus db) of
             Inl (DoesNotExist m) \<Rightarrow> Inr (BulkFailed sid, db)
           | Inl e \<Rightarrow> Inl e
           | Inr sku \<Rightarrow>
               (case bu_stock u of
                  None \<Rightarrow> Inl (KeyError ''stock_quantity'')
                | Some q \<Rightarrow>
                    (case sku_save (sku\<lparr>k_stock := q\<rparr>) db of
                       Inl e \<Rightarrow> Inl e
                     | Inr (sku', db1) \<Rightarrow>
                         (case (if k_stock sku \<noteq> q
                                then log_stock sid Adjustment (q - k_stock sku) q
                                       (case bu_notes u of None \<Rightarrow> bulk_notes | Some n \<Rightarrow> n) by db1
                                else Inr db1) of
                            Inl e \<Rightarrow> Inl e
                          | Inr db2 \<Rightarrow> Inr (BulkDone sid q, db2))))))"

fun bulk_loop :: "request \<Rightarrow> int option \<Rightarrow> bulk_item list \<Rightarrow> catalog_db \<Rightarrow> (bulk_result list \<times> catalog_db) res" where
  "bulk_loop rq by [] db = Inr ([], db)"
| "bulk_loop rq by (u # us) db =
     (case bulk_one rq by u db of
        Inl e \<Rightarrow> Inl e
      | Inr (r, db1) \<Rightarrow>
          (case bulk_loop rq by us db1 of
             Inl e \<Rightarrow> Inl e
           | Inr (rs, db2) \<Rightarrow> Inr (r # rs, db2)))"

definition bulk_stock_update ::
  "request \<Rightarrow> bulk_item list \<Rightarrow> catalog_db \<Rightarrow> bulk_result list reply \<times> catalog_db" where
  "bulk_stock_update rq updates db =
     (case rq_user rq of
        None \<Rightarrow> (Reject 401 PermissionDenied, db)
      | Some u \<Rightarrow>
          if updates = [] then (Reject 400 (ValidationError ''updates''), db)
          else (case bulk_loop rq (Some (u_id u)) updates db of
                  Inl e \<Rightarrow> (Crash e, db)
                | Inr (results, db') \<Rightarrow> (OK 200 results, db')))"

definition low_stock_alert :: "request \<Rightarrow> catalog_db \<Rightarrow> sku_row list reply" where
  "low_stock_alert rq db =
     (case rq_user rq of
        None \<Rightarrow> Reject 401 PermissionDenied
      | Some _ \<Rightarrow> OK 200 (qs_filter (\<lambda>k. sku_in db (rq_tenant rq) k \<and> k_stock k \<le> k_threshold k
                                     \<and> 0 < k_stock k) (db_skus db)))"

section \<open>SKU views (\<open>ProductSKUViewSet\<close>)\<close>

record sku_body =
  kb_product :: "int option"
  kb_code :: "string option"
  kb_price :: "int option"
  kb_cost :: "int option option"
  kb_stock :: "int option"
  kb_threshold :: "int option"
  kb_active :: "bool option"
  kb_specs :: "int list option"

definition price_ok :: "int \<Rightarrow> bool" where
  "price_ok c \<longleftrightarrow> 0 \<le> c \<and> numeric_ok 10 c"

text \<open>The fields of \<open>ProductSKUSerializer\<close> with the model's validators; \<open>self_id\<close> is the instance
  being updated, 0 for a new one.\<close>

definition sku_body_valid :: "bool \<Rightarrow> int \<Rightarrow> sku_body \<Rightarrow> catalog_db \<Rightarrow> bool" where
  "sku_body_valid partial self_id b db \<longleftrightarrow>
     needed partial (kb_product b) (\<lambda>p. qs_exists (\<lambda>r. p_id r = p) (db_products db))
     \<and> needed partial (kb_code b) (\<lambda>c. c \<noteq> [] \<and> chars c \<le> 100 \<and>
         \<not> qs_exists (\<lambda>r. k_id r \<noteq> self_id \<and> k_code r = c) (db_skus db))
     \<and> needed partial (kb_price b) price_ok
     \<and> needed True (kb_cost b) (\<lambda>c. case c of None \<Rightarrow> True | Some v \<Rightarrow> price_ok v)
     \<and> needed True (kb_stock b) int4_ok \<and> needed True (kb_threshold b) int4_ok"

definition sku_apply :: "sku_body \<Rightarrow> sku_row \<Rightarrow> sku_row" where
  "sku_apply b k = k\<lparr>k_product := or_default (kb_product b) (k_product k),
     k_code := or_default (kb_code b) (k_code k), k_price := or_default (kb_price b) (k_price k),
     k_cost := or_default (kb_cost b) (k_cost k), k_stock := or_default (kb_stock b) (k_stock k),
     k_threshold := or_default (kb_threshold b) (k_threshold k),
     k_active := or_default (kb_active b) (k_active k)\<rparr>"

definition blank_sku :: sku_row where
  "blank_sku = \<lparr>k_id = 0, k_product = 0, k_code = [], k_price = 0, k_cost = None, k_stock = 0,
     k_threshold = 5, k_specs = [], k_active = True\<rparr>"

text \<open>\<open>sku.specifications.set(ids)\<close>, a transaction of its own.\<close>

definition set_specs :: "sku_row \<Rightarrow> int list \<Rightarrow> catalog_db \<Rightarrow> (sku_row \<times> catalog_db) res" where
  "set_specs k ids db =
     (if \<exists>i \<in> set ids. \<not> qs_exists (\<lambda>v. sv_id v = i) (db_spec_values db)
      then Inl (IntegrityError ''specifications'')
      else let k' = k\<lparr>k_specs := remdups ids\<rparr>
           in Inr (k', db\<lparr>db_skus := t_upd (\<lambda>r. k_id r = k_id k) (\<lambda>r. r\<lparr>k_specs := remdups ids\<rparr>) (db_skus db)\<rparr>))"

definition sku_create :: "request \<Rightarrow> sku_body \<Rightarrow> catalog_db \<Rightarrow> sku_row reply \<times> catalog_db" where
  "sku_create rq b db =
     (case rq_user rq of
        None \<Rightarrow> (Reject 401 PermissionDenied, db)
      | Some u \<Rightarrow>
          if \<not> sku_body_valid False 0 b db then (Reject 400 (ValidationError ''sku''), db)
          else (case sku_save (sku_apply b blank_sku) db of
                  Inl e \<Rightarrow> (Crash e, db)
                | Inr (k, db1) \<Rightarrow>
                    (let ids = or_default (kb_specs b) [] in
                     if ids = [] then (OK 201 k, db1)
                     else (case set_specs k ids db1 of
                             Inl e \<Rightarrow> (Crash e, db1)
                           | Inr (k', db2) \<Rightarrow> (OK 201 k', db2)))))"

definition sku_update :: "bool \<Rightarrow> request \<Rightarrow> int \<Rightarrow> sku_body \<Rightarrow> catalog_db \<Rightarrow> sku_row reply \<times> catalog_db" where
  "sku_update partial rq pk b db =
     (case rq_user rq of
        None \<Rightarrow> (Reject 401 PermissionDenied, db)
      | Some u \<Rightarrow>
          (case sku_object rq pk db of
             None \<Rightarrow> (Reject 404 (DoesNotExist ''ProductSKU''), db)
           | Some k \<Rightarrow>
               if \<not> sku_body_valid partial (k_id k) b db then (Reject 400 (ValidationError ''sku''), db)
               else (case sku_save (sku_apply b k) db of
                       Inl e \<Rightarrow> (Crash e, db)
                     | Inr (k1, db1) \<Rightarrow>
                         (case kb_specs b of
                            None \<Rightarrow> (OK 200 k1, db1)
                          | Some ids \<Rightarrow>
                              (case set_specs k1 ids db1 of
                                 Inl e \<Rightarrow> (Crash e, db1)
                               | Inr (k2, db2) \<Rightarrow> (OK 200 k2, db2))))))"

section \<open>Categories and specifications\<close>

text \<open>\<open>shop\<close> is read-only in the serializers, so the unique constraint with the shop is not
  validated, only enforced by the database.\<close>

definition category_create ::
  "request \<Rightarrow> string \<Rightarrow> string \<Rightarrow> int option \<Rightarrow> int \<Rightarrow> bool \<Rightarrow> catalog_db \<Rightarrow> category_row reply \<times> catalog_db" where
  "category_create rq name descr parent srt active db =
     (case rq_user rq of
        None \<Rightarrow> (Reject 401 PermissionDenied, db)
      | Some u \<Rightarrow>
          if name = [] \<or> 100 < chars name \<or> \<not> int4_ok srt
             \<or> (case parent of None \<Rightarrow> False | Some q \<Rightarrow> \<not> qs_exists (\<lambda>c. ca_id c = q) (db_categories db))
          then (Reject 400 (ValidationError ''category''), db)
          else (case rq_tenant rq of
                  None \<Rightarrow> (Crash (IntegrityError ''shop''), db)
                | Some tn \<Rightarrow>
                    if qs_exists (\<lambda>c. ca_shop c = tn \<and> ca_name c = name) (db_categories db)
                    then (Crash (IntegrityError ''product_categories''), db)
                    else let (c, t) = t_add (\<lambda>i. \<lparr>ca_id = i, ca_name = name, ca_description = descr,
                             ca_parent = parent, ca_sort = srt, ca_active = active, ca_shop = tn\<rparr>) (db_categories db)
                         in (OK 201 c, db\<lparr>db_categories := t\<rparr>)))"

definition category_children_count :: "category_row \<Rightarrow> catalog_db \<Rightarrow> nat" where
  "category_children_count c db = qs_count (\<lambda>d. ca_parent d = Some (ca_id c)) (db_categories db)"

definition category_products_count :: "category_row \<Rightarrow> catalog_db \<Rightarrow> nat" where
  "category_products_count c db = qs_count (\<lambda>p. p_category p = Some (ca_id c)) (db_products db)"

definition category_list :: "nat \<Rightarrow> request \<Rightarrow> catalog_db \<Rightarrow> category_row list reply" where
  "category_list page rq db =
     (case rq_user rq of
        None \<Rightarrow> Reject 401 PermissionDenied
      | Some _ \<Rightarrow> paginated page (sort_key (\<lambda>c. (ca_sort c, ca_name c))
          (qs_filter (\<lambda>c. Some (ca_shop c) = rq_tenant rq) (db_categories db))))"

definition specification_create ::
  "request \<Rightarrow> string \<Rightarrow> string \<Rightarrow> int \<Rightarrow> catalog_db \<Rightarrow> spec_row reply \<times> catalog_db" where
  "specification_create rq name display srt db =
     (case rq_user rq of
        None \<Rightarrow> (Reject 401 PermissionDenied, db)
      | Some u \<Rightarrow>
          if name = [] \<or> 50 < chars name \<or> display = [] \<or> 50 < chars display \<or> \<not> int4_ok srt
          then (Reject 400 (ValidationError ''specification''), db)
          else (case rq_tenant rq of
                  None \<Rightarrow> (Crash (IntegrityError ''shop''), db)
                | Some tn \<Rightarrow>
                    if qs_exists (\<lambda>s. sp_shop s = tn \<and> sp_name s = name) (db_specs db)
                    then (Crash (IntegrityError ''specifications''), db)
                    else let (s, t) = t_add (\<lambda>i. \<lparr>sp_id = i, sp_name = name, sp_display = display,
                             sp_sort = srt, sp_shop = tn\<rparr>) (db_specs db)
                         in (OK 201 s, db\<lparr>db_specs := t\<rparr>)))"

section \<open>Product views\<close>

definition copy_suffix :: string where
  "copy_suffix = '' ('' @ map char_of [0xE5 :: nat, 0x89, 0xAF, 0xE6, 0x9C, 0xAC] @ '')''"

fun copy_skus :: "int \<Rightarrow> sku_row list \<Rightarrow> catalog_db \<Rightarrow> unit res \<times> catalog_db" where
  "copy_skus pid [] db = (Inr (), db)"
| "copy_skus pid (k # ks) db =
     (case sku_save (k\<lparr>k_id := 0, k_product := pid, k_specs := []\<rparr>) db of
        Inl e \<Rightarrow> (Inl e, db)
      | Inr (_, db') \<Rightarrow> copy_skus pid ks db')"

fun copy_attributes :: "int \<Rightarrow> attribute_row list \<Rightarrow> catalog_db \<Rightarrow> catalog_db" where
  "copy_attributes pid [] db = db"
| "copy_attributes pid (a # as) db =
     copy_attributes pid as
       (db\<lparr>db_attributes := snd (t_add (\<lambda>i. a\<lparr>at_id := i, at_product := pid\<rparr>) (db_attributes db))\<rparr>)"

text \<open>\<open>get_object\<close> prefetches the SKUs and attributes, so the loops run over those of the original.
  There is no transaction around the steps.\<close>

definition duplicate :: "request \<Rightarrow> int \<Rightarrow> catalog_db \<Rightarrow> product_row reply \<times> catalog_db" where
  "duplicate rq pk db =
     (case rq_user rq of
        None \<Rightarrow> (Reject 401 PermissionDenied, db)
      | Some u \<Rightarrow>
          (case product_object rq pk db of
             None \<Rightarrow> (Reject 404 (DoesNotExist ''Product''), db)
           | Some p \<Rightarrow>
               let skus = qs_filter (\<lambda>k. k_product k = p_id p) (db_skus db);
                   attrs = qs_filter (\<lambda>a. at_product a = p_id p) (db_attributes db);
                   name = p_name p @ copy_suffix
               in if 200 < chars name then (Crash (DataError ''products''), db)
                  else
                    let (p', t) = t_add (\<lambda>i. p\<lparr>p_id := i, p_name := name, p_status := Draft\<rparr>) (db_products db);
                        db1 = db\<lparr>db_products := t\<rparr>
                    in (case copy_skus (p_id p') skus db1 of
                          (Inl e, db2) \<Rightarrow> (Crash e, db2)
                        | (Inr _, db2) \<Rightarrow> (OK 201 p', copy_attributes (p_id p') attrs db2))))"

text \<open>\<open>export\<close>: the serializer drops \<open>category_name\<close> for a product without category, and the
  writer then asks for the missing key.\<close>

record export_row =
  ex_id :: int
  ex_name :: string
  ex_category :: string
  ex_base_price :: int
  ex_status :: product_status
  ex_sku_count :: nat
  ex_total_stock :: int

definition export_one :: "catalog_db \<Rightarrow> product_row \<Rightarrow> export_row res" where
  "export_one db p =
     (let skus = qs_filter (\<lambda>k. k_product k = p_id p) (db_skus db) in
      case (case p_category p of None \<Rightarrow> None | Some c \<Rightarrow> t_find ca_id c (db_categories db)) of
        None \<Rightarrow> Inl (KeyError ''category_name'')
      | Some c \<Rightarrow> Inr \<lparr>ex_id = p_id p, ex_name = p_name p, ex_category = ca_name c,
                       ex_base_price = p_base_price p, ex_status = p_status p,
                       ex_sku_count = length skus, ex_total_stock = sum_list (map k_stock skus)\<rparr>)"

definition product_export :: "request \<Rightarrow> catalog_db \<Rightarrow> export_row list reply" where
  "product_export rq db =
     (case rq_user rq of
        None \<Rightarrow> Reject 401 PermissionDenied
      | Some _ \<Rightarrow>
          (case collect_res (export_one db)
                  (sort_key (\<lambda>p. (p_sort p, p_name p)) (qs_filter (\<lambda>p. Some (p_shop p) = rq_tenant rq) (db_products db))) of
             Inl e \<Rightarrow> Crash e
           | Inr rs \<Rightarrow> OK 200 rs))"

definition public_products ::
  "(string \<Rightarrow> string \<Rightarrow> bool) \<Rightarrow> request \<Rightarrow> int option \<Rightarrow> string option \<Rightarrow> catalog_db \<Rightarrow> product_row list" where
  "public_products icontains rq category_id search db =
     (let products = sort_key (\<lambda>p. (p_sort p, p_name p))
            (qs_filter (\<lambda>p. Some (p_shop p) = rq_tenant rq \<and> p_status p = ActiveP) (db_products db));
          products1 = (case category_id of
             None \<Rightarrow> products | Some c \<Rightarrow> filter (\<lambda>p. p_category p = Some c) products)
      in if falsy search then products1 else filter (\<lambda>p. icontains (p_name p) (the search)) products1)"

section \<open>Moving stock\<close>

text \<open>\<open>sku.stock_quantity += d; sku.save()\<close> on the stored row, as creating an order (negative d)
  and cancelling it do.\<close>

definition move_stock :: "int \<Rightarrow> int \<Rightarrow> catalog_db \<Rightarrow> catalog_db res" where
  "move_stock sid d db =
     (case t_find k_id sid (db_skus db) of
        None \<Rightarrow> Inl (DoesNotExist ''ProductSKU'')
      | Some k \<Rightarrow>
          (case sku_save (k\<lparr>k_stock := k_stock k + d\<rparr>) db of
             Inl e \<Rightarrow> Inl e
           | Inr (_, db') \<Rightarrow> Inr db'))"

definition stock_at :: "catalog_db \<Rightarrow> int \<Rightarrow> int option" where
  "stock_at db sid = map_option k_stock (t_find k_id sid (db_skus db))"

definition catalog_wf :: "catalog_db \<Rightarrow> bool" where
  "catalog_wf db \<longleftrightarrow> t_wf k_id (db_skus db) \<and> t_wf p_id (db_products db) \<and> unique_on k_code (db_skus db)"

section \<open>Lemmas\<close>

text \<open>Saving a stored SKU replaces its row and keeps the table well formed.\<close>

lemma sku_save_InrD:
  assumes "sku_save k db = Inr (k', db')" and "catalog_wf db" and "t_find k_id (k_id k) (db_skus db) \<noteq> None"
  shows "k' = k" and "db' = db\<lparr>db_skus := t_save k_id k (db_skus db)\<rparr>" and "catalog_wf db'"
    and "t_find k_id i (db_skus db') = (if i = k_id k then Some k else t_find k_id i (db_skus db))"
proof -
  have "k_id k \<noteq> 0" using assms(2,3) t_wf_find_None_0 by (metis catalog_wf_def)
  with assms(1) show k': "k' = k" and db': "db' = db\<lparr>db_skus := t_save k_id k (db_skus db)\<rparr>"
    by (auto simp: sku_save_def split: if_splits)
  have "\<not> sku_conflict k (db_skus db)" using assms(1) by (auto simp: sku_save_def split: if_splits)
  then have "unique_on k_code (t_save k_id k (db_skus db))"
    using assms(2,3) by (intro unique_on_t_save) (auto simp: catalog_wf_def sku_conflict_def list_ex_iff)
  then show "catalog_wf db'" using assms(2,3) by (simp add: db' catalog_wf_def t_wf_t_save)
  show "t_find k_id i (db_skus db') = (if i = k_id k then Some k else t_find k_id i (db_skus db))"
    by (simp add: db' t_find_t_save)
qed

lemma find_code_conflict:
  assumes "unique_on k_code t" and "t_find k_id (k_id k) t = Some r" and "k_code k = k_code r"
  shows "\<not> sku_conflict k t"
proof
  assume "sku_conflict k t"
  then obtain x where x: "x \<in> set (rows t)" "k_id x \<noteq> k_id k" "k_code x = k_code k"
    by (auto simp: sku_conflict_def list_ex_iff)
  have r: "r \<in> set (rows t)" "k_id r = k_id k" using assms(2) t_find_mem t_find_pk by metis+
  have "inj_on k_code (set (rows t))" using assms(1) by (simp add: unique_on_def distinct_map)
  then have "x = r" using x r assms(3) by (metis inj_onD)
  with x(2) r(2) show False by simp
qed

text \<open>A new amount of stock is stored exactly when the column can hold it.\<close>

lemma sku_save_stock:
  assumes "catalog_wf db" and "t_find k_id (k_id k) (db_skus db) = Some k" and "sku_columns_ok k" and "int4_ok q"
  shows "sku_save (k\<lparr>k_stock := q\<rparr>) db
       = Inr (k\<lparr>k_stock := q\<rparr>, db\<lparr>db_skus := t_save k_id (k\<lparr>k_stock := q\<rparr>) (db_skus db)\<rparr>)"
proof -
  have "k_id k \<noteq> 0" using assms(1,2) t_wf_find_None_0 by (metis catalog_wf_def option.distinct(1))
  moreover have "\<not> sku_conflict (k\<lparr>k_stock := q\<rparr>) (db_skus db)"
    using assms(1,2) by (intro find_code_conflict [where r = k]) (auto simp: catalog_wf_def)
  moreover have "sku_columns_ok (k\<lparr>k_stock := q\<rparr>)"
    using assms(3,4) by (simp add: sku_columns_ok_def)
  ultimately show ?thesis by (simp add: sku_save_def)
qed

lemma log_stock_InrD:
  assumes "log_stock sid act ch cur notes by db = Inr db'"
  shows "db_skus db' = db_skus db" and "db_products db' = db_products db"
    and "\<exists>l. rows (db_inventory db') = rows (db_inventory db) @ [l] \<and> il_sku l = sid \<and> il_change l = ch
             \<and> il_current l = cur \<and> il_action l = act"
  using assms by (auto simp: log_stock_def t_add_def split: if_splits)

lemma sku_object_SomeD:
  assumes "sku_object rq pk db = Some k"
  shows "k \<in> set (rows (db_skus db))" and "k_id k = pk" and "sku_in db (rq_tenant rq) k"
  using qs_first_SomeD [OF assms [unfolded sku_object_def]] by auto

lemma sku_object_found:
  assumes "catalog_wf db" and "sku_object rq pk db = Some k"
  shows "t_find k_id pk (db_skus db) = Some k" and "k_id k = pk"
  using sku_object_SomeD [OF assms(2)] assms(1) by (auto simp: catalog_wf_def find_iff_mem)

text \<open>The stock changes logged for a SKU, and the stock level its last log row shows.\<close>

definition logs_of :: "catalog_db \<Rightarrow> int \<Rightarrow> inventory_log list" where
  "logs_of db sid = filter (\<lambda>l. il_sku l = sid) (rows (db_inventory db))"

definition change_sum :: "catalog_db \<Rightarrow> int \<Rightarrow> int" where
  "change_sum db sid = sum_list (map il_change (logs_of db sid))"

definition log_current :: "catalog_db \<Rightarrow> bool" where
  "log_current db \<longleftrightarrow> catalog_wf db \<and>
     (\<forall>sid q. stock_at db sid = Some q \<longrightarrow> logs_of db sid = [] \<or> il_current (last (logs_of db sid)) = q)"

text \<open>One write of a stock level with its log row, the step both stock views are made of.\<close>

definition stock_write :: "catalog_db \<Rightarrow> catalog_db \<Rightarrow> int \<Rightarrow> int \<Rightarrow> int \<Rightarrow> bool" where
  "stock_write db db' sid q ch \<longleftrightarrow> stock_at db sid \<noteq> None \<and> catalog_wf db'
     \<and> stock_at db' = (stock_at db)(sid := Some q) \<and> db_products db' = db_products db
     \<and> (\<forall>j. sid \<noteq> j \<longrightarrow> logs_of db' j = logs_of db j)
     \<and> (\<forall>j. map_option k_product (t_find k_id j (db_skus db')) = map_option k_product (t_find k_id j (db_skus db)))
     \<and> ((stock_at db sid = Some q \<and> ch = 0 \<and> logs_of db' sid = logs_of db sid)
        \<or> (\<exists>l. logs_of db' sid = logs_of db sid @ [l] \<and> il_change l = ch \<and> il_current l = q))"

lemma stock_writeI:
  assumes wf: "catalog_wf db" and at: "t_find k_id sid (db_skus db) = Some k"
    and sv: "sku_save (k\<lparr>k_stock := q\<rparr>) db = Inr (k', db1)"
    and lg: "(db' = db1 \<and> k_stock k = q \<and> ch = 0) \<or> log_stock sid act ch q notes by db1 = Inr db'"
  shows "stock_write db db' sid q ch"
proof -
  have id: "k_id k = sid" using at by (rule t_find_pk)
  then have "t_find k_id (k_id (k\<lparr>k_stock := q\<rparr>)) (db_skus db) \<noteq> None" using at by simp
  note S = sku_save_InrD [OF sv wf this]
  have sk: "db_skus db' = db_skus db1" "db_products db' = db_products db1"
    using lg log_stock_InrD(1,2) by auto
  have find: "t_find k_id j (db_skus db') = (if j = sid then Some (k\<lparr>k_stock := q\<rparr>) else t_find k_id j (db_skus db))" for j
    using S(4) [of j] sk id by simp
  have "catalog_wf db'" using S(3) sk by (simp add: catalog_wf_def)
  moreover have "stock_at db' = (stock_at db)(sid := Some q)" using find by (auto simp: stock_at_def)
  moreover have "db_products db' = db_products db" using S(2) sk by simp
  moreover have "\<forall>j. map_option k_product (t_find k_id j (db_skus db'))
      = map_option k_product (t_find k_id j (db_skus db))" using find at by simp
  moreover have "(\<forall>j. sid \<noteq> j \<longrightarrow> logs_of db' j = logs_of db j)
     \<and> ((stock_at db sid = Some q \<and> ch = 0 \<and> logs_of db' sid = logs_of db sid)
        \<or> (\<exists>l. logs_of db' sid = logs_of db sid @ [l] \<and> il_change l = ch \<and> il_current l = q))"
    using lg
  proof
    assume "db' = db1 \<and> k_stock k = q \<and> ch = 0"
    then show ?thesis using S(2) at by (simp add: logs_of_def stock_at_def)
  next
    assume "log_stock sid act ch q notes by db1 = Inr db'"
    from log_stock_InrD(3) [OF this] S(2) show ?thesis by (auto simp: logs_of_def)
  qed
  ultimately show ?thesis using at by (simp add: stock_write_def stock_at_def)
qed

lemma stock_write_log_current:
  assumes "log_current db" and "stock_write db db' sid q ch"
  shows "log_current db'"
  unfolding log_current_def
proof (intro conjI allI impI)
  show "catalog_wf db'" using assms(2) by (simp add: stock_write_def)
  fix j v assume v: "stock_at db' j = Some v"
  show "logs_of db' j = [] \<or> il_current (last (logs_of db' j)) = v"
  proof (cases "j = sid")
    case True
    with v assms(2) have q: "v = q" by (simp add: stock_write_def)
    from assms(2) consider "stock_at db sid = Some q" "logs_of db' sid = logs_of db sid"
      | l where "logs_of db' sid = logs_of db sid @ [l]" "il_current l = q"
      by (auto simp: stock_write_def)
    then show ?thesis
    proof cases
      case 1
      with assms(1) True q show ?thesis unfolding log_current_def by metis
    qed (use True q in simp)
  qed (use assms v in \<open>auto simp: stock_write_def log_current_def\<close>)
qed

lemma stock_write_change:
  assumes "stock_write db db' sid q ch" and "stock_at db sid = Some v" and "ch = q - v"
  shows "stock_at db' j = map_option (\<lambda>x. x + (change_sum db' j - change_sum db j)) (stock_at db j)"
  using assms by (cases "j = sid"; cases "stock_at db j") (auto simp: stock_write_def change_sum_def)

lemma adjust_apply_write:
  assumes "catalog_wf db" and "t_find k_id sid (db_skus db) = Some k"
    and "adjust_apply by k ty q notes db = Inr (v, db')"
  shows "stock_write db db' sid v (case ty of Increase \<Rightarrow> q | Decrease \<Rightarrow> - q)
       \<and> v = (case ty of Increase \<Rightarrow> k_stock k + q | Decrease \<Rightarrow> max 0 (k_stock k - q))"
proof -
  define st where "st = (case ty of Increase \<Rightarrow> k_stock k + q | Decrease \<Rightarrow> max 0 (k_stock k - q))"
  obtain k' db1 where sv: "sku_save (k\<lparr>k_stock := st\<rparr>) db = Inr (k', db1)"
    and lg: "log_stock (k_id k') Adjustment (case ty of Increase \<Rightarrow> q | Decrease \<Rightarrow> - q) (k_stock k') notes by db1 = Inr db'"
    and v: "v = k_stock k'"
    using assms(3) by (auto simp: adjust_apply_def st_def Let_def split: sum.splits prod.splits)
  have id: "k_id k = sid" using assms(2) by (rule t_find_pk)
  have "t_find k_id (k_id (k\<lparr>k_stock := st\<rparr>)) (db_skus db) \<noteq> None" using assms(2) id by simp
  from sku_save_InrD(1) [OF sv assms(1) this] have k': "k' = k\<lparr>k_stock := st\<rparr>" .
  with lg id have "log_stock sid Adjustment (case ty of Increase \<Rightarrow> q | Decrease \<Rightarrow> - q) st notes by db1 = Inr db'"
    by simp
  then have "stock_write db db' sid st (case ty of Increase \<Rightarrow> q | Decrease \<Rightarrow> - q)"
    using stock_writeI [OF assms(1,2) sv] by blast
  with v k' show ?thesis by (simp add: st_def)
qed

subsection \<open>Bulk updates\<close>

definition in_tenant :: "catalog_db \<Rightarrow> int option \<Rightarrow> int \<Rightarrow> bool" where
  "in_tenant db tn sid \<longleftrightarrow> (case t_find k_id sid (db_skus db) of None \<Rightarrow> False | Some k \<Rightarrow> sku_in db tn k)"

fun requested_stock :: "int \<Rightarrow> bulk_item list \<Rightarrow> int option \<Rightarrow> int option" where
  "requested_stock sid [] q = q"
| "requested_stock sid (u # us) q = requested_stock sid us (if bu_sku u = Some sid then bu_stock u else q)"

definition bulk_outcome :: "catalog_db \<Rightarrow> int option \<Rightarrow> bulk_item \<Rightarrow> bulk_result" where
  "bulk_outcome db tn u =
     (if in_tenant db tn (the (bu_sku u)) then BulkDone (the (bu_sku u)) (the (bu_stock u))
      else BulkFailed (the (bu_sku u)))"

lemma stock_write_in_tenant:
  assumes "stock_write db db' sid q ch"
  shows "in_tenant db' tn j = in_tenant db tn j"
proof -
  have "map_option k_product (t_find k_id j (db_skus db')) = map_option k_product (t_find k_id j (db_skus db))"
    and "db_products db' = db_products db" using assms by (auto simp: stock_write_def)
  then show ?thesis
    by (auto simp: in_tenant_def sku_in_def product_in_def split: option.splits)
qed

lemma get_in_tenant:
  assumes "catalog_wf db"
  shows "qs_get m (\<lambda>k. k_id k = sid \<and> sku_in db tn k) (db_skus db)
    = (if in_tenant db tn sid then Inr (the (t_find k_id sid (db_skus db))) else Inl (DoesNotExist m))"
proof (cases "in_tenant db tn sid")
  case True
  then obtain k where k: "t_find k_id sid (db_skus db) = Some k" "sku_in db tn k"
    by (auto simp: in_tenant_def split: option.splits)
  have m: "k \<in> set (rows (db_skus db))" "k_id k = sid" using k(1) t_find_mem t_find_pk by metis+
  have "qs_get m (\<lambda>k. k_id k = sid \<and> sku_in db tn k) (db_skus db) = Inr k"
    by (rule qs_get_pk [of k_id]) (use assms m k in \<open>auto simp: catalog_wf_def\<close>)
  with True k show ?thesis by simp
next
  case False
  have no: "\<not> (k_id k = sid \<and> sku_in db tn k)" if "k \<in> set (rows (db_skus db))" for k
  proof
    assume k: "k_id k = sid \<and> sku_in db tn k"
    have "t_find k_id (k_id k) (db_skus db) = Some k"
      by (rule t_wf_find_unique) (use assms that in \<open>simp_all add: catalog_wf_def\<close>)
    with k False show False by (simp add: in_tenant_def)
  qed
  then have "qs_get m (\<lambda>k. k_id k = sid \<and> sku_in db tn k) (db_skus db) = Inl (DoesNotExist m)"
    unfolding qs_get_DoesNotExist by blast
  with False show ?thesis by simp
qed

lemma bulk_one_InrD:
  assumes "bulk_one rq by u db = Inr (r, db')" and wf: "catalog_wf db"
  obtains sid where "bu_sku u = Some sid" "\<not> in_tenant db (rq_tenant rq) sid" "r = BulkFailed sid" "db' = db"
  | sid k q where "bu_sku u = Some sid" "in_tenant db (rq_tenant rq) sid" "bu_stock u = Some q"
      "t_find k_id sid (db_skus db) = Some k" "r = BulkDone sid q" "stock_write db db' sid q (q - k_stock k)"
proof -
  obtain sid where sid: "bu_sku u = Some sid" using assms(1) by (auto simp: bulk_one_def split: option.splits)
  show thesis
  proof (cases "in_tenant db (rq_tenant rq) sid")
    case False
    with assms(1) sid have "r = BulkFailed sid" "db' = db" by (auto simp: bulk_one_def get_in_tenant [OF wf])
    then show thesis by (rule that(1) [OF sid False])
  next
    case True
    then obtain k where k: "t_find k_id sid (db_skus db) = Some k"
      by (auto simp: in_tenant_def split: option.splits)
    define nts where "nts = (case bu_notes u of None \<Rightarrow> bulk_notes | Some n \<Rightarrow> n)"
    obtain q k' db1 where q: "bu_stock u = Some q" and sv: "sku_save (k\<lparr>k_stock := q\<rparr>) db = Inr (k', db1)"
      and lg: "(if k_stock k \<noteq> q then log_stock sid Adjustment (q - k_stock k) q nts by db1 else Inr db1) = Inr db'"
      and r: "r = BulkDone sid q"
      using assms(1) sid k True unfolding bulk_one_def nts_def [symmetric]
      by (auto simp: get_in_tenant [OF wf] simp del: if_split split: option.splits sum.splits prod.splits)
    have "stock_write db db' sid q (q - k_stock k)"
    proof (rule stock_writeI [OF wf k sv])
      show "db' = db1 \<and> k_stock k = q \<and> q - k_stock k = 0
        \<or> log_stock sid Adjustment (q - k_stock k) q nts by db1 = Inr db'"
        using lg by (auto split: if_splits)
    qed
    then show thesis by (rule that(2) [OF sid True q k r])
  qed
qed

lemma bulk_loop_outcome:
  "bulk_loop rq by us db = Inr (rs, db') \<Longrightarrow> catalog_wf db \<Longrightarrow>
     catalog_wf db' \<and> rs = map (bulk_outcome db (rq_tenant rq)) us
     \<and> (\<forall>j. in_tenant db' (rq_tenant rq) j = in_tenant db (rq_tenant rq) j)
     \<and> (\<forall>j. stock_at db' j = (if in_tenant db (rq_tenant rq) j then requested_stock j us (stock_at db j)
                            else stock_at db j))
     \<and> (\<forall>j. stock_at db' j = map_option (\<lambda>v. v + (change_sum db' j - change_sum db j)) (stock_at db j))
     \<and> (log_current db \<longrightarrow> log_current db')"
proof (induction us arbitrary: db rs)
  case Nil
  then show ?case by (auto simp: option.map_ident)
next
  case (Cons u us)
  obtain r db1 rs1 where u: "bulk_one rq by u db = Inr (r, db1)"
    and us: "bulk_loop rq by us db1 = Inr (rs1, db')" and rs: "rs = r # rs1"
    using Cons.prems(1) by (auto split: sum.splits prod.splits)
  from u Cons.prems(2) show ?case
  proof (cases rule: bulk_one_InrD)
    case (1 sid)
    with Cons.IH [OF us] Cons.prems(2) rs show ?thesis by (auto simp: bulk_outcome_def)
  next
    case (2 sid k q)
    note W = 2(6)
    have wf1: "catalog_wf db1" using W by (simp add: stock_write_def)
    have st: "stock_at db sid = Some (k_stock k)" using 2(4) by (simp add: stock_at_def)
    note IH = Cons.IH [OF us wf1]
    have tn: "in_tenant db1 tn j = in_tenant db tn j" for tn j by (rule stock_write_in_tenant [OF W])
    have st1: "stock_at db1 = (stock_at db)(sid := Some q)" using W by (simp add: stock_write_def)
    have ch: "stock_at db1 j = map_option (\<lambda>x. x + (change_sum db1 j - change_sum db j)) (stock_at db j)" for j
      by (rule stock_write_change [OF W st refl])
    have "bulk_outcome db1 (rq_tenant rq) = bulk_outcome db (rq_tenant rq)"
      by (rule ext) (simp add: bulk_outcome_def tn)
    then have "rs = map (bulk_outcome db (rq_tenant rq)) (u # us)"
      using IH rs 2(1,2,3,5) by (simp add: bulk_outcome_def)
    moreover have "stock_at db' j = (if in_tenant db (rq_tenant rq) j
        then requested_stock j (u # us) (stock_at db j) else stock_at db j)" for j
      using IH tn st1 2(1,2,3) by auto
    moreover have "stock_at db' j = map_option (\<lambda>v. v + (change_sum db' j - change_sum db j)) (stock_at db j)" for j
    proof -
      have "stock_at db' j = map_option (\<lambda>v. v + (change_sum db' j - change_sum db1 j)) (stock_at db1 j)"
        using IH by blast
      with ch [of j] show ?thesis by (cases "stock_at db j") auto
    qed
    moreover have "log_current db \<longrightarrow> log_current db'"
      using IH stock_write_log_current [OF _ W] by blast
    ultimately show ?thesis using IH tn by blast
  qed
qed

subsection \<open>Requests that change stock\<close>

datatype stock_request = AdjustReq request int adjust_body | BulkReq request "bulk_item list"

fun handle_stock :: "stock_request \<Rightarrow> catalog_db \<Rightarrow> (int reply + bulk_result list reply) \<times> catalog_db" where
  "handle_stock (AdjustReq rq pk b) db = (let (r, db') = adjust_stock rq pk b db in (Inl r, db'))"
| "handle_stock (BulkReq rq us) db = (let (r, db') = bulk_stock_update rq us db in (Inr r, db'))"

lemma adjust_stock_cases:
  assumes "catalog_wf db" and "snd (adjust_stock rq pk b db) = db'"
  obtains "db' = db"
  | k ty q ns where "t_find k_id pk (db_skus db) = Some k" "adjust_valid b = Inr (ty, q, ns)"
      "stock_write db db' pk (case ty of Increase \<Rightarrow> k_stock k + q | Decrease \<Rightarrow> max 0 (k_stock k - q))
         (case ty of Increase \<Rightarrow> q | Decrease \<Rightarrow> - q)"
proof (cases "db' = db")
  case False
  then obtain w k ty q ns v where k: "sku_object rq pk db = Some k"
    and v: "adjust_valid b = Inr (ty, q, ns)" and ap: "adjust_apply w k ty q ns db = Inr (v, db')"
    using assms(2) by (auto simp: adjust_stock_def split: option.splits sum.splits prod.splits)
  note F = sku_object_found [OF assms(1) k]
  from adjust_apply_write [OF assms(1) F(1) ap] F(1) v show thesis by (intro that(2)) auto
qed (rule that(1))

interpretation stock_log: guarded_system handle_stock log_current
proof unfold_locales
  fix db op
  assume inv: "log_current db"
  then have wf: "catalog_wf db" by (simp add: log_current_def)
  show "log_current (snd (handle_stock op db))"
  proof (cases op)
    case (AdjustReq rq pk b)
    have "log_current (snd (adjust_stock rq pk b db))"
      by (rule adjust_stock_cases [OF wf refl, of rq pk b]) (use inv stock_write_log_current in auto)
    then show ?thesis using AdjustReq by (simp add: case_prod_beta)
  next
    case (BulkReq rq us)
    have "log_current (snd (bulk_stock_update rq us db))"
      using inv bulk_loop_outcome [OF _ wf]
      by (auto simp: bulk_stock_update_def split: option.splits sum.splits)
    then show ?thesis using BulkReq by (simp add: case_prod_beta)
  qed
qed

text \<open>Stock as a starting level plus the logged changes, kept by bulk updates.\<close>

definition stock_audited :: "(int \<Rightarrow> int) \<Rightarrow> catalog_db \<Rightarrow> bool" where
  "stock_audited base db \<longleftrightarrow> catalog_wf db \<and>
     (\<forall>j q. stock_at db j = Some q \<longrightarrow> q = base j + change_sum db j)"

interpretation bulk_audit: guarded_system "\<lambda>(rq, us) db. bulk_stock_update rq us db" "stock_audited base" for base
proof unfold_locales
  fix db and op :: "request \<times> bulk_item list"
  assume inv: "stock_audited base db"
  then have wf: "catalog_wf db" by (simp add: stock_audited_def)
  obtain rq us where op: "op = (rq, us)" by (cases op)
  have "stock_audited base db'" if l: "bulk_loop rq w us db = Inr (rs, db')" for w rs db'
  proof -
    note B = bulk_loop_outcome [OF l wf]
    have "q = base j + change_sum db' j" if q: "stock_at db' j = Some q" for j q
    proof -
      have "stock_at db' j = map_option (\<lambda>v. v + (change_sum db' j - change_sum db j)) (stock_at db j)"
        using B by blast
      with q obtain v where v: "stock_at db j = Some v" "q = v + (change_sum db' j - change_sum db j)"
        by (cases "stock_at db j") auto
      then have "v = base j + change_sum db j" using inv by (simp add: stock_audited_def)
      with v show ?thesis by simp
    qed
    then show ?thesis using B by (simp add: stock_audited_def)
  qed
  with inv op show "stock_audited base (snd ((\<lambda>(rq, us) db. bulk_stock_update rq us db) op db))"
    by (auto simp: bulk_stock_update_def split: option.splits sum.splits)
qed

subsection \<open>The stock ledger\<close>

lemma move_stock_write:
  assumes "catalog_wf db" and "move_stock sid d db = Inr db'"
  shows "\<exists>k. t_find k_id sid (db_skus db) = Some k \<and> catalog_wf db'
     \<and> db' = db\<lparr>db_skus := t_save k_id (k\<lparr>k_stock := k_stock k + d\<rparr>) (db_skus db)\<rparr>
     \<and> stock_at db' = (stock_at db)(sid := Some (k_stock k + d))"
proof -
  obtain k k' where k: "t_find k_id sid (db_skus db) = Some k"
    and sv: "sku_save (k\<lparr>k_stock := k_stock k + d\<rparr>) db = Inr (k', db')"
    using assms(2) by (auto simp: move_stock_def split: option.splits sum.splits prod.splits)
  have id: "k_id k = sid" using k by (rule t_find_pk)
  then have "t_find k_id (k_id (k\<lparr>k_stock := k_stock k + d\<rparr>)) (db_skus db) \<noteq> None" using k by simp
  note S = sku_save_InrD [OF sv assms(1) this]
  have "stock_at db' = (stock_at db)(sid := Some (k_stock k + d))"
  proof
    fix j show "stock_at db' j = ((stock_at db)(sid := Some (k_stock k + d))) j"
      using S(4) [of j] id by (simp add: stock_at_def)
  qed
  with k S show ?thesis by blast
qed

interpretation stock_ledger: ledger move_stock stock_at catalog_wf
proof unfold_locales
  fix s s' k d
  assume s: "catalog_wf s" "move_stock k d s = Inr s'"
  from move_stock_write [OF s] show "stock_at s k \<noteq> None
      \<and> stock_at s' = (stock_at s)(k := map_option (\<lambda>v. v + d) (stock_at s k))"
    by (auto simp: stock_at_def)
  from move_stock_write [OF s] show "catalog_wf s'" by blast
qed

lemma sku_create_any_tenant: "sku_create rq b db = sku_create (rq\<lparr>rq_tenant := tn\<rparr>) b db"
  by (simp add: sku_create_def)

lemma collect_res_Inl: "(\<exists>e. collect_res f xs = Inl e) \<longleftrightarrow> (\<exists>x \<in> set xs. \<exists>e. f x = Inl e)"
proof (induction xs)
  case (Cons x xs)
  then show ?case by (cases "f x"; cases "collect_res f xs") auto
qed simp

lemma collect_res_map:
  assumes "collect_res f xs = Inr ys" and "\<And>x y. f x = Inr y \<Longrightarrow> g y = h x"
  shows "map g ys = map h xs"
  using assms(1)
proof (induction xs arbitrary: ys)
  case (Cons x xs)
  then show ?case by (auto split: sum.splits simp: assms(2))
qed simp

lemma copy_skus_conflict:
  assumes "\<exists>r \<in> set (rows (db_skus db)). k_id r \<noteq> 0 \<and> k_code r = k_code k" and "sku_columns_ok k"
  shows "copy_skus pid (k # ks) db = (Inl (IntegrityError ''sku_code''), db)"
proof -
  have "sku_columns_ok (k\<lparr>k_id := 0, k_product := pid, k_specs := []\<rparr>)"
    using assms(2) by (simp add: sku_columns_ok_def)
  moreover have "sku_conflict (k\<lparr>k_id := 0, k_product := pid, k_specs := []\<rparr>) (db_skus db)"
    using assms(1) by (auto simp: sku_conflict_def list_ex_iff)
  ultimately show ?thesis by (simp add: sku_save_def)
qed

section \<open>Properties\<close>

definition demo_catalog :: catalog_db where
  "demo_catalog = \<lparr>db_categories = \<lparr>rows = [\<lparr>ca_id = 1, ca_name = ''tea'', ca_description = [],
       ca_parent = None, ca_sort = 0, ca_active = True, ca_shop = 3\<rparr>], seq = 1\<rparr>,
     db_products = \<lparr>rows =
       [\<lparr>p_id = 1, p_name = ''milk tea'', p_description = [], p_category = Some 1, p_base_price = 1500,
         p_cost_price = None, p_main_image = ''a.png'', p_images = [], p_status = ActiveP,
         p_featured = False, p_sort = 0, p_custom = False, p_prep_time = 10, p_shop = 3, p_created_by = Some 7\<rparr>,
        \<lparr>p_id = 2, p_name = ''latte'', p_description = [], p_category = None, p_base_price = 2000,
         p_cost_price = None, p_main_image = ''b.png'', p_images = [], p_status = ActiveP,
         p_featured = False, p_sort = 0, p_custom = False, p_prep_time = 10, p_shop = 4, p_created_by = None\<rparr>],
       seq = 2\<rparr>,
     db_specs = empty_tbl, db_spec_values = empty_tbl,
     db_skus = \<lparr>rows =
       [\<lparr>k_id = 1, k_product = 1, k_code = ''MT-L'', k_price = 1800, k_cost = None, k_stock = 5,
         k_threshold = 5, k_specs = [], k_active = True\<rparr>,
        \<lparr>k_id = 2, k_product = 1, k_code = ''MT-S'', k_price = 1200, k_cost = None, k_stock = 8,
         k_threshold = 5, k_specs = [], k_active = True\<rparr>,
        \<lparr>k_id = 3, k_product = 2, k_code = ''LT'', k_price = 2000, k_cost = None, k_stock = 9,
         k_threshold = 5, k_specs = [], k_active = True\<rparr>], seq = 3\<rparr>,
     db_attributes = empty_tbl, db_options = empty_tbl, db_inventory = empty_tbl\<rparr>"

definition demo_request :: request where
  "demo_request = \<lparr>rq_user = Some demo_user, rq_tenant = Some 3\<rparr>"

lemma demo_catalog_wf: "catalog_wf demo_catalog"
  by (simp add: catalog_wf_def t_wf_def unique_on_def demo_catalog_def)

lemma demo_log_current: "log_current demo_catalog"
  using demo_catalog_wf by (simp add: log_current_def logs_of_def) (simp add: demo_catalog_def empty_tbl_def)



text \<open>C20: The inventory log never lags behind the stock views: over any sequence of adjustments and bulk
  updates, accepted or refused, the last log row of a SKU shows the stock the SKU has.\<close>

theorem stock_log_shows_stock:
  assumes "log_current db" and "stock_at (run_requests handle_stock ops db) j = Some q"
    and "logs_of (run_requests handle_stock ops db) j \<noteq> []"
  shows "il_current (last (logs_of (run_requests handle_stock ops db) j)) = q"
  using stock_log.run_inv [OF assms(1), of ops] assms(2,3) by (auto simp: log_current_def)

theorem stock_log_shows_stock_witness:
  "il_current (last (logs_of (run_requests handle_stock
     [AdjustReq demo_request 1 \<lparr>ab_sku_id = Some 1, ab_type = Some Decrease, ab_quantity = Some 9, ab_notes = None\<rparr>,
      BulkReq demo_request [\<lparr>bu_sku = Some 1, bu_stock = Some 4, bu_notes = None\<rparr>]] demo_catalog) 1)) = 4"
  by (rule stock_log_shows_stock [OF demo_log_current]) code_simp+

text \<open>Over any sequence of bulk updates, the change of a SKU's stock is the sum of the changes logged for
  it.\<close>

theorem bulk_log_explains_stock:
  assumes "catalog_wf db" and "stock_at db j = Some q"
    and "db' = run_requests (\<lambda>(rq, us) db. bulk_stock_update rq us db) ops db" and "stock_at db' j = Some q'"
  shows "q' - q = change_sum db' j - change_sum db j"
proof -
  define base where "base = (\<lambda>i. the (stock_at db i) - change_sum db i)"
  have "stock_audited base db" using assms(1) by (simp add: stock_audited_def base_def)
  then have "stock_audited base db'" unfolding assms(3) by (rule bulk_audit.run_inv)
  then have "q' = base j + change_sum db' j" using assms(4) by (simp add: stock_audited_def)
  then show ?thesis using assms(2) by (simp add: base_def)
qed

theorem bulk_log_explains_stock_witness:
  "change_sum (run_requests (\<lambda>(rq, us) db. bulk_stock_update rq us db)
     [(demo_request, [\<lparr>bu_sku = Some 1, bu_stock = Some 4, bu_notes = None\<rparr>,
                      \<lparr>bu_sku = Some 1, bu_stock = Some 12, bu_notes = None\<rparr>])] demo_catalog) 1 = 7"
proof -
  let ?s = "run_requests (\<lambda>(rq, us) db. bulk_stock_update rq us db)
     [(demo_request, [\<lparr>bu_sku = Some 1, bu_stock = Some 4, bu_notes = None\<rparr>,
                      \<lparr>bu_sku = Some 1, bu_stock = Some 12, bu_notes = None\<rparr>])] demo_catalog"
  have a: "stock_at demo_catalog 1 = Some 5" and b: "stock_at ?s 1 = Some 12" and c: "change_sum demo_catalog 1 = 0"
    by code_simp+
  have "12 - 5 = change_sum ?s 1 - change_sum demo_catalog 1"
    by (rule bulk_log_explains_stock [OF demo_catalog_wf a refl b])
  with c show ?thesis by (simp del: run_requests_simps)
qed

text \<open>Decreasing stock stops at zero but logs the requested amount: the log accounts for the change exactly
  when the stock covered it; otherwise it claims more was taken than there was.\<close>

theorem adjust_decrease_log:
  assumes "catalog_wf db" and "t_find k_id pk (db_skus db) = Some k" and "0 \<le> k_stock k"
    and "adjust_valid body = Inr (Decrease, q, notes)"
    and "adjust_stock rq pk body db = (OK n v, db')"
  shows "stock_at db' pk = Some (max 0 (k_stock k - q)) \<and> v = max 0 (k_stock k - q)
    \<and> change_sum db' pk - change_sum db pk = - q
    \<and> (v - k_stock k = change_sum db' pk - change_sum db pk \<longleftrightarrow> q \<le> k_stock k)"
proof -
  have q: "1 \<le> q" using assms(4) by (auto simp: adjust_valid_def split: option.splits prod.splits if_splits)
  obtain w k' where k': "sku_object rq pk db = Some k'" and ap: "adjust_apply w k' Decrease q notes db = Inr (v, db')"
    using assms(4,5) by (auto simp: adjust_stock_def split: option.splits sum.splits prod.splits)
  have k: "k' = k" using sku_object_found [OF assms(1) k'] assms(2) by simp
  note W = adjust_apply_write [OF assms(1,2) ap [unfolded k]]
  from W assms(2,3) q have "change_sum db' pk - change_sum db pk = - q"
    by (auto simp: stock_write_def change_sum_def)
  with W q show ?thesis by (auto simp: stock_write_def max_def)
qed

theorem adjust_decrease_log_witness:
  "let body = \<lparr>ab_sku_id = Some 1, ab_type = Some Decrease, ab_quantity = Some 9, ab_notes = None\<rparr>;
       db' = snd (adjust_stock demo_request 1 body demo_catalog)
   in stock_at db' 1 = Some 0 \<and> change_sum db' 1 = - 9"
proof -
  let ?b = "\<lparr>ab_sku_id = Some 1, ab_type = Some Decrease, ab_quantity = Some 9, ab_notes = None\<rparr>"
  let ?r = "adjust_stock demo_request 1 ?b demo_catalog"
  obtain k where k: "t_find k_id 1 (db_skus demo_catalog) = Some k" "k_stock k = 5"
    by (simp add: t_find_def demo_catalog_def)
  have v: "adjust_valid ?b = Inr (Decrease, 9, [])" by (simp add: adjust_valid_def)
  have nn: "0 \<le> k_stock k" using k by simp
  have "fst ?r = OK 200 0" by code_simp
  then have r: "?r = (OK 200 0, snd ?r)" by (simp add: prod_eq_iff)
  have "change_sum demo_catalog 1 = 0" by code_simp
  with adjust_decrease_log [OF demo_catalog_wf k(1) nn v r] k(2) show ?thesis by (simp add: Let_def)
qed

text \<open>Duplicating a product that has a SKU always fails, because the copies keep the unique SKU codes, and
  leaves the new draft product behind without SKUs; a product without SKUs is copied with its attributes.\<close>

theorem duplicate_outcome:
  assumes "catalog_wf db" and "list_all sku_columns_ok (rows (db_skus db))"
    and "rq_user rq = Some u" and "product_object rq pk db = Some p" and "chars (p_name p @ copy_suffix) \<le> 200"
  shows "let (p', t) = t_add (\<lambda>i. p\<lparr>p_id := i, p_name := p_name p @ copy_suffix, p_status := Draft\<rparr>) (db_products db);
             db1 = db\<lparr>db_products := t\<rparr>
         in duplicate rq pk db =
           (if qs_exists (\<lambda>k. k_product k = p_id p) (db_skus db) then (Crash (IntegrityError ''sku_code''), db1)
            else (OK 201 p', copy_attributes (p_id p') (qs_filter (\<lambda>a. at_product a = p_id p) (db_attributes db)) db1))"
proof -
  let ?t = "t_add (\<lambda>i. p\<lparr>p_id := i, p_name := p_name p @ copy_suffix, p_status := Draft\<rparr>) (db_products db)"
  let ?db1 = "db\<lparr>db_products := snd ?t\<rparr>"
  let ?ks = "qs_filter (\<lambda>k. k_product k = p_id p) (db_skus db)"
  have D: "duplicate rq pk db = (case copy_skus (p_id (fst ?t)) ?ks ?db1 of
        (Inl e, db2) \<Rightarrow> (Crash e, db2)
      | (Inr _, db2) \<Rightarrow> (OK 201 (fst ?t), copy_attributes (p_id (fst ?t)) (qs_filter (\<lambda>a. at_product a = p_id p) (db_attributes db)) db2))"
    using assms(3,4,5) by (simp add: duplicate_def Let_def case_prod_beta)
  have "duplicate rq pk db =
           (if qs_exists (\<lambda>k. k_product k = p_id p) (db_skus db) then (Crash (IntegrityError ''sku_code''), ?db1)
            else (OK 201 (fst ?t), copy_attributes (p_id (fst ?t)) (qs_filter (\<lambda>a. at_product a = p_id p) (db_attributes db)) ?db1))"
  proof (cases ?ks)
    case Nil
    then have "\<not> qs_exists (\<lambda>k. k_product k = p_id p) (db_skus db)"
      by (auto simp: qs_filter_def qs_exists_iff filter_empty_conv)
    with D Nil show ?thesis by simp
  next
    case (Cons k ks)
    then have "k \<in> set ?ks" by simp
    then have k: "k \<in> set (rows (db_skus db))" "k_product k = p_id p" by (simp_all add: qs_filter_def)
    then have "k_id k \<noteq> 0" "sku_columns_ok k"
      using assms(1,2) by (auto simp: catalog_wf_def t_wf_def list_all_iff)
    then have "copy_skus (p_id (fst ?t)) (k # ks) ?db1 = (Inl (IntegrityError ''sku_code''), ?db1)"
      by (intro copy_skus_conflict) (use k in auto)
    moreover have "qs_exists (\<lambda>k. k_product k = p_id p) (db_skus db)" using k by (auto simp: qs_exists_iff)
    ultimately show ?thesis using D Cons by simp
  qed
  then show ?thesis by (simp add: Let_def case_prod_beta)
qed

theorem duplicate_outcome_witness:
  "fst (duplicate demo_request 1 demo_catalog) = Crash (IntegrityError ''sku_code'')
   \<and> length (rows (db_products (snd (duplicate demo_request 1 demo_catalog)))) = 3"
proof -
  obtain p where p: "product_object demo_request 1 demo_catalog = Some p" "p_name p = ''milk tea''" "p_id p = 1"
    by (simp add: product_object_def qs_first_def demo_catalog_def demo_request_def)
  have cols: "list_all sku_columns_ok (rows (db_skus demo_catalog))" by code_simp
  have us: "rq_user demo_request = Some demo_user" by (simp add: demo_request_def)
  have ln: "chars (p_name p @ copy_suffix) \<le> 200" unfolding p(2) by code_simp
  have ex: "qs_exists (\<lambda>k. k_product k = p_id p) (db_skus demo_catalog)" unfolding p(3) by code_simp
  have len: "length (rows (db_products demo_catalog)) = 2" by (simp add: demo_catalog_def)
  from duplicate_outcome [OF demo_catalog_wf cols us p(1) ln] ex len show ?thesis
    by (simp add: Let_def case_prod_beta t_add_def)
qed

text \<open>The product export fails exactly when some product of the tenant has no category; otherwise it has one
  row per product, with the number of its SKUs and their total stock.\<close>

theorem export_outcome:
  assumes "rq_user rq = Some u"
    and "list_all (\<lambda>p. p_category p = None \<or> (\<exists>c \<in> set (rows (db_categories db)). p_category p = Some (ca_id c)))
           (rows (db_products db))"
  shows "case product_export rq db of
      OK n rs \<Rightarrow> \<not> qs_exists (\<lambda>p. Some (p_shop p) = rq_tenant rq \<and> p_category p = None) (db_products db)
        \<and> map (\<lambda>r. (ex_id r, ex_sku_count r, ex_total_stock r)) rs
          = map (\<lambda>p. (p_id p, qs_count (\<lambda>k. k_product k = p_id p) (db_skus db),
                      sum_list (map k_stock (qs_filter (\<lambda>k. k_product k = p_id p) (db_skus db)))))
              (sort_key (\<lambda>p. (p_sort p, p_name p)) (qs_filter (\<lambda>p. Some (p_shop p) = rq_tenant rq) (db_products db)))
    | Reject n e \<Rightarrow> False
    | Crash e \<Rightarrow> qs_exists (\<lambda>p. Some (p_shop p) = rq_tenant rq \<and> p_category p = None) (db_products db)"
proof -
  let ?ps = "sort_key (\<lambda>p. (p_sort p, p_name p)) (qs_filter (\<lambda>p. Some (p_shop p) = rq_tenant rq) (db_products db))"
  have fails: "(\<exists>e. export_one db p = Inl e) \<longleftrightarrow> p_category p = None" if "p \<in> set ?ps" for p
  proof -
    have "p \<in> set (rows (db_products db))" using that by (simp add: qs_filter_def)
    then have "p_category p = None \<or> (\<exists>c \<in> set (rows (db_categories db)). p_category p = Some (ca_id c))"
      using assms(2) by (simp add: list_all_iff)
    then show ?thesis
      by (auto simp: export_one_def Let_def t_find_None split: option.splits)
  qed
  show ?thesis
  proof (cases "collect_res (export_one db) ?ps")
    case (Inl e)
    then have "\<exists>e. collect_res (export_one db) ?ps = Inl e" by blast
    then obtain p where p: "p \<in> set ?ps" "\<exists>e. export_one db p = Inl e" unfolding collect_res_Inl ..
    then have "p_category p = None" using fails by simp
    with p(1) have "qs_exists (\<lambda>p. Some (p_shop p) = rq_tenant rq \<and> p_category p = None) (db_products db)"
      by (auto simp: qs_exists_iff qs_filter_def)
    with Inl assms(1) show ?thesis by (simp add: product_export_def)
  next
    case (Inr rs)
    have ok: "p_category p \<noteq> None" if p: "p \<in> set ?ps" for p
    proof
      assume "p_category p = None"
      then have "\<exists>e. export_one db p = Inl e" using fails [OF p] by blast
      then have "\<exists>e. collect_res (export_one db) ?ps = Inl e"
        unfolding collect_res_Inl using p by (rule bexI)
      then show False unfolding Inr by simp
    qed
    then have "\<not> qs_exists (\<lambda>p. Some (p_shop p) = rq_tenant rq \<and> p_category p = None) (db_products db)"
      unfolding qs_exists_iff qs_filter_def set_sort set_filter by blast
    moreover have key: "(ex_id r, ex_sku_count r, ex_total_stock r)
        = (p_id p, qs_count (\<lambda>k. k_product k = p_id p) (db_skus db),
           sum_list (map k_stock (qs_filter (\<lambda>k. k_product k = p_id p) (db_skus db))))"
      if "export_one db p = Inr r" for p r
      using that by (auto simp: export_one_def Let_def qs_count_def split: option.splits)
    have "map (\<lambda>r. (ex_id r, ex_sku_count r, ex_total_stock r)) rs
        = map (\<lambda>p. (p_id p, qs_count (\<lambda>k. k_product k = p_id p) (db_skus db),
                    sum_list (map k_stock (qs_filter (\<lambda>k. k_product k = p_id p) (db_skus db))))) ?ps"
      using Inr key by (rule collect_res_map)
    ultimately show ?thesis using Inr assms(1) by (simp add: product_export_def)
  qed
qed

theorem export_outcome_witness:
  "\<exists>e. product_export (demo_request\<lparr>rq_tenant := Some 4\<rparr>) demo_catalog = Crash e"
proof -
  let ?rq = "demo_request\<lparr>rq_tenant := Some 4\<rparr>"
  have us: "rq_user ?rq = Some demo_user" by (simp add: demo_request_def)
  have fk: "list_all (\<lambda>p. p_category p = None \<or> (\<exists>c \<in> set (rows (db_categories demo_catalog)). p_category p = Some (ca_id c)))
           (rows (db_products demo_catalog))"
    by (simp add: demo_catalog_def)
  have "qs_exists (\<lambda>p. Some (p_shop p) = rq_tenant ?rq \<and> p_category p = None) (db_products demo_catalog)" by code_simp
  with export_outcome [OF us fk] show ?thesis by (cases "product_export ?rq demo_catalog") auto
qed

end
