(* ===== verification/Shops.thy ===== *)
theory Shops
  imports Identity
begin

text \<open>
  Shops, their settings, staff and tables: \<open>apps/shops/models.py\<close>, \<open>serializers.py\<close>, \<open>api.py\<close>.
  A shop is the tenant of \<open>django_tenants\<close>; its schema management belongs to that package, and
  \<open>schema_name\<close> is the name the creation of the row was given.
\<close>

section \<open>Rows and state\<close>

datatype shop_type = Restaurant | Cafe | Bar | Bakery | OtherShop

record shop_row =
  s_id :: int
  s_schema :: string
  s_name :: string
  s_description :: string
  s_address :: string
  s_phone :: string
  s_email :: string
  s_type :: shop_type
  s_active :: bool
  s_delivery :: bool
  s_pickup :: bool
  s_dine_in :: bool
  s_delivery_fee :: int
  s_minimum_order :: int
  s_radius :: int
  s_payment_methods :: "(string \<times> bool) list"

record settings_row =
  ss_id :: int
  ss_shop :: int
  ss_auto_confirm :: bool
  ss_order_timeout :: int
  ss_auto_print :: bool
  ss_email :: bool
  ss_sms :: bool
  ss_points :: bool
  ss_points_ratio :: int

datatype table_status = Available | Occupied | Reserved | Cleaning | Maintenance

datatype table_type = Standard | Booth | BarTable | Private | Outdoor

record table_row =
  tb_id :: int
  tb_shop :: int
  tb_number :: string
  tb_name :: string
  tb_type :: table_type
  tb_min :: int
  tb_max :: int
  tb_status :: table_status
  tb_floor :: string
  tb_section :: string
  tb_x :: int
  tb_y :: int
  tb_sort :: int
  tb_active :: bool

record shops_db =
  db_shops :: "shop_row tbl"
  db_staff :: "staff_row tbl"
  db_settings :: "settings_row tbl"
  db_tables :: "table_row tbl"
  db_members :: "user_row tbl"

section \<open>Shops a user reaches\<close>

definition active_staff_of :: "user_row \<Rightarrow> shop_row \<Rightarrow> staff_row tbl \<Rightarrow> bool" where
  "active_staff_of u s t = qs_exists (\<lambda>st. st_user st = u_id u \<and> st_shop st = s_id s \<and> st_active st) t"

text \<open>\<open>get_queryset\<close> of \<open>ShopListView\<close> and of \<open>ShopDetailView\<close>.\<close>

definition shop_queryset :: "user_row \<Rightarrow> shops_db \<Rightarrow> shop_row list" where
  "shop_queryset u db =
     (if u_type u = SuperAdmin then rows (db_shops db)
      else if u_type u \<in> {ShopOwnerType, ShopStaffType} then
        qs_filter (\<lambda>s. active_staff_of u s (db_staff db)) (db_shops db)
      else qs_filter s_active (db_shops db))"

definition shop_list :: "nat \<Rightarrow> request \<Rightarrow> shops_db \<Rightarrow> shop_row list reply" where
  "shop_list page rq db =
     (case rq_user rq of None \<Rightarrow> Reject 401 PermissionDenied | Some u \<Rightarrow> paginated page (shop_queryset u db))"

definition get_current_shop :: "request \<Rightarrow> shops_db \<Rightarrow> shop_row list reply" where
  "get_current_shop rq db =
     (case rq_user rq of
        None \<Rightarrow> Reject 401 PermissionDenied
      | Some u \<Rightarrow>
          OK 200 (if u_type u = SuperAdmin then rows (db_shops db)
                  else qs_filter (\<lambda>s. active_staff_of u s (db_staff db)) (db_shops db)))"

text \<open>The members of a shop the detail view can change; \<open>None\<close> leaves a member as it is.\<close>

record shop_patch =
  shp_name :: "string option"
  shp_active :: "bool option"
  shp_fee :: "int option"
  shp_minimum :: "int option"

definition shop_patch_valid :: "shop_patch \<Rightarrow> bool" where
  "shop_patch_valid p \<longleftrightarrow>
     (case shp_name p of None \<Rightarrow> True | Some n \<Rightarrow> n \<noteq> []) \<and>
     (case shp_fee p of None \<Rightarrow> True | Some c \<Rightarrow> numeric_ok 8 c) \<and>
     (case shp_minimum p of None \<Rightarrow> True | Some c \<Rightarrow> numeric_ok 8 c)"

definition apply_shop_patch :: "shop_patch \<Rightarrow> shop_row \<Rightarrow> shop_row" where
  "apply_shop_patch p s = s\<lparr>s_name := or_default (shp_name p) (s_name s),
     s_active := or_default (shp_active p) (s_active s), s_delivery_fee := or_default (shp_fee p) (s_delivery_fee s),
     s_minimum_order := or_default (shp_minimum p) (s_minimum_order s)\<rparr>"

definition shop_object :: "user_row \<Rightarrow> int \<Rightarrow> shops_db \<Rightarrow> shop_row option" where
  "shop_object u pk db = find (\<lambda>s. s_id s = pk) (shop_queryset u db)"

definition shop_partial_update :: "request \<Rightarrow> int \<Rightarrow> shop_patch \<Rightarrow> shops_db \<Rightarrow> shop_row reply \<times> shops_db" where
  "shop_partial_update rq pk p db =
     (case rq_user rq of
        None \<Rightarrow> (Reject 401 PermissionDenied, db)
      | Some u \<Rightarrow>
          (case shop_object u pk db of
             None \<Rightarrow> (Reject 404 (DoesNotExist ''Shop''), db)
           | Some s \<Rightarrow>
               if \<not> shop_patch_valid p then (Reject 400 (ValidationError ''shop''), db)
               else let s' = apply_shop_patch p s
                    in (OK 200 s', db\<lparr>db_shops := t_save s_id s' (db_shops db)\<rparr>)))"

text \<open>Deleting cascades to the staff, settings and tables of the shop.\<close>

definition shop_destroy :: "request \<Rightarrow> int \<Rightarrow> shops_db \<Rightarrow> unit reply \<times> shops_db" where
  "shop_destroy rq pk db =
     (case rq_user rq of
        None \<Rightarrow> (Reject 401 PermissionDenied, db)
      | Some u \<Rightarrow>
          (case shop_object u pk db of
             None \<Rightarrow> (Reject 404 (DoesNotExist ''Shop''), db)
           | Some s \<Rightarrow>
               (OK 204 (), db\<lparr>db_shops := t_del (\<lambda>r. s_id r = s_id s) (db_shops db),
                             db_staff := t_del (\<lambda>r. st_shop r = s_id s) (db_staff db),
                             db_settings := t_del (\<lambda>r. ss_shop r = s_id s) (db_settings db),
                             db_tables := t_del (\<lambda>r. tb_shop r = s_id s) (db_tables db)\<rparr>)))"

section \<open>Creating a shop\<close>

record shop_body =
  sb_shop :: shop_row
  sb_admin_email :: string
  sb_admin_password :: string

definition shop_create_valid :: "shop_body \<Rightarrow> shops_db \<Rightarrow> unit res" where
  "shop_create_valid b db =
     (if s_name (sb_shop b) = [] \<or> s_address (sb_shop b) = [] \<or> length (sb_admin_password b) < 6
      then Inl (ValidationError ''shop'')
      else if qs_exists (\<lambda>u. u_email u = sb_admin_email b) (db_members db)
      then Inl (ValidationError ''admin_email'')
      else Inr ())"

definition default_settings :: "int \<Rightarrow> int \<Rightarrow> settings_row" where
  "default_settings shop i = \<lparr>ss_id = i, ss_shop = shop, ss_auto_confirm = False, ss_order_timeout = 15,
     ss_auto_print = False, ss_email = False, ss_sms = False, ss_points = True, ss_points_ratio = 10\<rparr>"

definition account_user :: "auth_lib \<Rightarrow> string \<Rightarrow> user_type \<Rightarrow> user_row" where
  "account_user lib email ty =
     new_user lib \<lparr>rg_username = email, rg_password = [], rg_password2 = [], rg_email = email,
       rg_phone = None, rg_user_type = Some ty\<rparr>"

text \<open>\<open>ShopCreateSerializer.create\<close>: the shop, its owner account, the staff row and the settings.\<close>

definition shop_create_rows :: "auth_lib \<Rightarrow> nat \<Rightarrow> shop_body \<Rightarrow> shops_db \<Rightarrow> (shop_row \<times> shops_db) res" where
  "shop_create_rows lib rnd b db =
     (let (shop, ts) = t_add (\<lambda>i. (sb_shop b)\<lparr>s_id := i\<rparr>) (db_shops db) in
      case user_save lib rnd (account_user lib (sb_admin_email b) ShopOwnerType) (db_members db) of
        (Inl e, _) \<Rightarrow> Inl e
      | (Inr u, tu) \<Rightarrow>
          Inr (shop, db\<lparr>db_shops := ts, db_members := tu,
            db_staff := snd (t_add (\<lambda>i. \<lparr>st_id = i, st_user = u_id u, st_shop = s_id shop, st_role = Owner,
                                       st_active = True, st_perms = [(''all'', True)]\<rparr>) (db_staff db)),
            db_settings := snd (t_add (default_settings (s_id shop)) (db_settings db))\<rparr>))"

definition shop_create :: "auth_lib \<Rightarrow> nat \<Rightarrow> request \<Rightarrow> shop_body \<Rightarrow> shops_db \<Rightarrow> shop_row reply \<times> shops_db" where
  "shop_create lib rnd rq b db =
     (case rq_user rq of
        None \<Rightarrow> (Reject 401 PermissionDenied, db)
      | Some u \<Rightarrow>
          if u_type u \<noteq> SuperAdmin then (Reject 403 PermissionDenied, db)
          else (case shop_create_valid b db of
                  Inl e \<Rightarrow> (Reject 400 e, db)
                | Inr _ \<Rightarrow>
                    (case shop_create_rows lib rnd b db of
                       Inl e \<Rightarrow> (Crash e, db)
                     | Inr (s, db') \<Rightarrow> (OK 201 s, db'))))"

section \<open>Staff and settings\<close>

definition may_manage_shop :: "user_row \<Rightarrow> int \<Rightarrow> staff_row tbl \<Rightarrow> bool res" where
  "may_manage_shop u shop t =
     (if u_type u = SuperAdmin then Inr True
      else (case staff_get (\<lambda>_. True) (u_id u) shop t of
              Inr st \<Rightarrow> Inr (st_role st = Owner \<or> st_role st = Manager)
            | Inl (DoesNotExist m) \<Rightarrow> Inr False
            | Inl e \<Rightarrow> Inl e))"

text \<open>\<open>ShopStaffSerializer(obj).data\<close>: the row, the number, name, address and phone of the user, and the name of the shop.\<close>

definition staff_data :: "shops_db \<Rightarrow> staff_row \<Rightarrow> (staff_row \<times> (int \<times> string \<times> string \<times> string option) \<times> string) res" where
  "staff_data db st =
     (case t_find u_id (st_user st) (db_members db) of
        None \<Rightarrow> Inl (DoesNotExist ''User'')
      | Some u \<Rightarrow>
          (case t_find s_id (st_shop st) (db_shops db) of
             None \<Rightarrow> Inl (DoesNotExist ''Shop'')
           | Some s \<Rightarrow> Inr (st, (u_id u, u_username u, u_email u, u_phone u), s_name s)))"

definition staff_list ::
  "nat \<Rightarrow> request \<Rightarrow> int \<Rightarrow> shops_db \<Rightarrow> (staff_row \<times> (int \<times> string \<times> string \<times> string option) \<times> string) list reply" where
  "staff_list page rq shop db =
     (case rq_user rq of
        None \<Rightarrow> Reject 401 PermissionDenied
      | Some u \<Rightarrow>
          (case may_manage_shop u shop (db_staff db) of
             Inl e \<Rightarrow> Crash e
           | Inr b \<Rightarrow> serialized (collect_res (staff_data db))
               (paginated page (if b then qs_filter (\<lambda>st. st_shop st = shop \<and> st_active st) (db_staff db) else []))))"

record staff_body =
  sf_email :: string
  sf_password :: "string option"
  sf_role :: staff_role
  sf_perms :: "(string \<times> bool) list"

definition staff_body_valid :: "staff_body \<Rightarrow> shops_db \<Rightarrow> unit res" where
  "staff_body_valid b db =
     (if sf_email b = [] then Inl (ValidationError ''email'')
      else if \<not> qs_exists (\<lambda>u. u_email u = sf_email b) (db_members db) \<and> falsy (sf_password b)
      then Inl (ValidationError ''password'')
      else Inr ())"

text \<open>
  \<open>ShopStaffCreateSerializer.create\<close>.  The \<open>defaults\<close> of \<open>get_or_create\<close> are evaluated before the
  lookup, so without a password \<open>make_random_password\<close> is called even for an existing user; it is
  the argument \<open>random_password\<close> (recent Django versions no longer have it).  The steps are not in
  one transaction: an account created first stays when the staff row is refused.
\<close>

definition staff_create_rows ::
  "string res \<Rightarrow> auth_lib \<Rightarrow> nat \<Rightarrow> int \<Rightarrow> staff_body \<Rightarrow> shops_db \<Rightarrow> staff_row res \<times> shops_db" where
  "staff_create_rows random_password lib rnd shop b db =
     (case (if falsy (sf_password b) then random_password else Inr (the (sf_password b))) of
        Inl e \<Rightarrow> (Inl e, db)
      | Inr _ \<Rightarrow>
          (case (case qs_get ''User'' (\<lambda>u. u_email u = sf_email b) (db_members db) of
                   Inr u \<Rightarrow> (Inr u, db)
                 | Inl (DoesNotExist m) \<Rightarrow>
                     (case user_save lib rnd ((account_user lib (sf_email b) ShopStaffType)
                              \<lparr>u_username := sf_email b, u_email := sf_email b\<rparr>) (db_members db) of
                        (Inl e, tu) \<Rightarrow> (Inl e, db\<lparr>db_members := tu\<rparr>)
                      | (Inr u, tu) \<Rightarrow> (Inr u, db\<lparr>db_members := tu\<rparr>))
                 | Inl e \<Rightarrow> (Inl e, db)) of
             (Inl e, db1) \<Rightarrow> (Inl e, db1)
           | (Inr u, db1) \<Rightarrow>
               if qs_exists (\<lambda>st. st_user st = u_id u \<and> st_shop st = shop) (db_staff db1)
               then (Inl (IntegrityError ''shop_staff''), db1)
               else let (st, t) = t_add (\<lambda>i. \<lparr>st_id = i, st_user = u_id u, st_shop = shop,
                        st_role = sf_role b, st_active = True, st_perms = sf_perms b\<rparr>) (db_staff db1)
                    in (Inr st, db1\<lparr>db_staff := t\<rparr>)))"

definition staff_create ::
  "string res \<Rightarrow> auth_lib \<Rightarrow> nat \<Rightarrow> request \<Rightarrow> int \<Rightarrow> staff_body \<Rightarrow> shops_db \<Rightarrow> staff_row reply \<times> shops_db" where
  "staff_create random_password lib rnd rq shop b db =
     (case rq_user rq of
        None \<Rightarrow> (Reject 401 PermissionDenied, db)
      | Some u \<Rightarrow>
          (case may_manage_shop u shop (db_staff db) of
             Inl e \<Rightarrow> (Crash e, db)
           | Inr False \<Rightarrow> (Reject 403 PermissionDenied, db)
           | Inr True \<Rightarrow>
               (case staff_body_valid b db of
                  Inl e \<Rightarrow> (Reject 400 e, db)
                | Inr _ \<Rightarrow>
                    (case staff_create_rows random_password lib rnd shop b db of
                       (Inl e, db') \<Rightarrow> (Crash e, db')
                     | (Inr st, db') \<Rightarrow> (OK 201 st, db')))))"

text \<open>\<open>ShopSettingsView.get_object\<close>: the refusal uses \<open>permissions.PermissionDenied\<close>, which
  \<open>rest_framework.permissions\<close> does not define.\<close>

definition settings_object :: "request \<Rightarrow> int \<Rightarrow> shops_db \<Rightarrow> settings_row res" where
  "settings_object rq shop db =
     (case rq_user rq of
        None \<Rightarrow> Inl PermissionDenied
      | Some u \<Rightarrow>
          (case may_manage_shop u shop (db_staff db) of
             Inl e \<Rightarrow> Inl e
           | Inr b \<Rightarrow>
               if \<not> b then Inl (AttributeError ''PermissionDenied'')
               else qs_get ''ShopSettings'' (\<lambda>s. ss_shop s = shop) (db_settings db)))"

section \<open>Properties\<close>

definition demo_shop :: "int \<Rightarrow> shop_row" where
  "demo_shop i = \<lparr>s_id = i, s_schema = ''t'' @ dec_int i, s_name = ''zdrink'', s_description = [], s_address = ''road 1'',
     s_phone = [], s_email = [], s_type = Cafe, s_active = True, s_delivery = True, s_pickup = True,
     s_dine_in = True, s_delivery_fee = 500, s_minimum_order = 0, s_radius = 5, s_payment_methods = []\<rparr>"

definition demo_shops :: shops_db where
  "demo_shops = \<lparr>db_shops = \<lparr>rows = [demo_shop 3, demo_shop 4], seq = 4\<rparr>, db_staff = demo_staff,
     db_settings = empty_tbl, db_tables = empty_tbl, db_members = \<lparr>rows = [demo_user], seq = 8\<rparr>\<rparr>"

lemma user_save_new:
  assumes "user_save lib rnd u t = (Inr u', t')" and "u_id u = 0" and "t_wf u_id t"
  shows "t_find u_id (u_id u') t' = Some u' \<and> u_email u' = u_email u \<and> u_type u' = u_type u \<and> u_id u' = seq t + 1"
proof -
  have no: "t_find u_id (seq t + 1) t = None" using assms(3) by (auto simp: t_wf_def t_find_None)
  have add: "t_find u_id (seq t + 1) (snd (t_add (\<lambda>i. u\<lparr>u_id := i\<rparr>) t)) = Some (u\<lparr>u_id := seq t + 1\<rparr>)"
    using t_find_t_add [OF assms(3), of "\<lambda>i. u\<lparr>u_id := i\<rparr>"] by simp
  from assms(1,2) add show ?thesis
    by (auto simp: user_save_def store_user_def store_numbers_def Let_def t_find_t_upd t_add_def
        split: sum.splits if_splits prod.splits)
qed



text \<open>Who can edit and delete a shop: the detail view accepts a valid change, and a deletion, from any
  authenticated user whose queryset has the shop, so an ordinary customer can change or delete every active
  shop, while an owner or staff account only reaches the shops it works for.\<close>

theorem shop_detail_access:
  assumes "t_wf s_id (db_shops db)" and "rq_user rq = Some u" and "s \<in> set (rows (db_shops db))"
    and "shop_patch_valid p"
  shows "(accepted (fst (shop_destroy rq (s_id s) db)) \<longleftrightarrow> accepted (fst (shop_partial_update rq (s_id s) p db)))
    \<and> (accepted (fst (shop_partial_update rq (s_id s) p db)) \<longleftrightarrow>
        (case u_type u of SuperAdmin \<Rightarrow> True | Customer \<Rightarrow> s_active s
         | _ \<Rightarrow> active_staff_of u s (db_staff db)))"
proof -
  have only: "r = s" if "r \<in> set (rows (db_shops db))" "s_id r = s_id s" for r
    using t_wf_find_unique [OF assms(1,3)] t_wf_find_unique [OF assms(1) that(1)] that(2) by simp
  have sub: "set (shop_queryset u db) \<subseteq> set (rows (db_shops db))"
    by (auto simp: shop_queryset_def qs_filter_def)
  have "shop_object u (s_id s) db \<noteq> None \<longleftrightarrow> (\<exists>r \<in> set (shop_queryset u db). s_id r = s_id s)"
    by (auto simp: shop_object_def find_None_iff)
  also have "\<dots> \<longleftrightarrow> s \<in> set (shop_queryset u db)" using only sub by blast
  also have "\<dots> \<longleftrightarrow> (case u_type u of SuperAdmin \<Rightarrow> True | Customer \<Rightarrow> s_active s
         | _ \<Rightarrow> active_staff_of u s (db_staff db))"
    using assms(3) by (cases "u_type u") (auto simp: shop_queryset_def qs_filter_def)
  finally show ?thesis
    using assms(2,4) by (cases "shop_object u (s_id s) db") (auto simp: shop_destroy_def shop_partial_update_def Let_def)
qed

theorem shop_detail_access_witness:
  "accepted (fst (shop_destroy \<lparr>rq_user = Some demo_user, rq_tenant = None\<rparr> 4 demo_shops))"
proof -
  let ?rq = "\<lparr>rq_user = Some demo_user, rq_tenant = None\<rparr>"
  let ?p = "\<lparr>shp_name = None, shp_active = None, shp_fee = Some 0, shp_minimum = None\<rparr>"
  have wf: "t_wf s_id (db_shops demo_shops)" by (simp add: t_wf_def demo_shops_def demo_shop_def)
  have s: "demo_shop 4 \<in> set (rows (db_shops demo_shops))" by (simp add: demo_shops_def)
  have us: "rq_user ?rq = Some demo_user" by simp
  have p: "shop_patch_valid ?p" by (simp add: shop_patch_valid_def numeric_ok_def)
  have "u_type demo_user = Customer" "s_active (demo_shop 4)" "s_id (demo_shop 4) = 4"
    by (simp_all add: demo_user_def demo_shop_def)
  with shop_detail_access [OF wf us s p] show ?thesis by simp
qed

text \<open>Managing a shop's staff and settings: a user who is not a super administrator can list or add staff
  only with an active owner or manager row of that very shop; anyone else gets an empty list, a refusal with
  status 403, and for the settings an \<open>AttributeError\<close> (status 500) instead of a refusal.\<close>

theorem shop_management_gate:
  assumes "staff_unique (db_staff db)" and "rq_user rq = Some u" and "u_type u \<noteq> SuperAdmin"
    and "\<nexists>st. works_for (db_staff db) u shop st \<and> (st_role st = Owner \<or> st_role st = Manager)"
  shows "staff_list 1 rq shop db = OK 200 [] \<and> staff_create rpw lib rnd rq shop b db = (Reject 403 PermissionDenied, db)
    \<and> settings_object rq shop db = Inl (AttributeError ''PermissionDenied'')"
proof -
  have "may_manage_shop u shop (db_staff db) = Inr False"
  proof (cases "\<exists>st. works_for (db_staff db) u shop st")
    case True
    then obtain st where st: "works_for (db_staff db) u shop st" by blast
    then have "\<not> (st_role st = Owner \<or> st_role st = Manager)" using assms(4) by blast
    with st assms(3) works_for_the [OF assms(1) st] show ?thesis
      by (auto simp: may_manage_shop_def staff_get_unique [OF assms(1)])
  next
    case False
    with assms(3) show ?thesis by (simp add: may_manage_shop_def staff_get_unique [OF assms(1)])
  qed
  with assms(2) show ?thesis by (simp add: staff_list_def staff_create_def settings_object_def)
qed

theorem shop_management_gate_witness:
  "settings_object \<lparr>rq_user = Some (demo_user\<lparr>u_id := 8\<rparr>), rq_tenant = Some 3\<rparr> 3 demo_shops
     = Inl (AttributeError ''PermissionDenied'')"
proof -
  let ?rq = "\<lparr>rq_user = Some (demo_user\<lparr>u_id := 8\<rparr>), rq_tenant = Some 3\<rparr>"
  have uq: "staff_unique (db_staff demo_shops)" using demo_staff_unique by (simp add: demo_shops_def)
  have us: "rq_user ?rq = Some (demo_user\<lparr>u_id := 8\<rparr>)" by simp
  have ty: "u_type (demo_user\<lparr>u_id := 8\<rparr>) \<noteq> SuperAdmin" by (simp add: demo_user_def)
  have no: "\<nexists>st. works_for (db_staff demo_shops) (demo_user\<lparr>u_id := 8\<rparr>) 3 st \<and> (st_role st = Owner \<or> st_role st = Manager)"
    by (auto simp: works_for_def demo_shops_def demo_staff_def)
  from shop_management_gate [OF uq us ty no] show ?thesis by blast
qed

end
