(* ===== verification/Orders.thy ===== *)
theory Orders
  imports Catalog Shops "HOL-Library.AList"
begin

text \<open>
  Carts and orders: \<open>apps/orders/models.py\<close>, \<open>serializers.py\<close>, \<open>api.py\<close>.

  The state \<open>orders_db\<close> holds the catalogue, the shops and the carts, cart items, orders, order
  items and status logs.  An order is created in one transaction from a cart or from given lines; it
  takes its stock through \<open>move_stock\<close> of theory \<open>Catalog\<close>, and cancelling gives it back.
  The clock is the argument \<open>now\<close>, the random part of an order number the argument \<open>hex\<close>.
  The \<open>print\<close> lines are left out.
\<close>

section \<open>Rows and state\<close>

record cart_row =
  c_id :: int
  c_user :: int
  c_session :: "string option"

record cart_item_row =
  ci_id :: int
  ci_cart :: int
  ci_product :: int
  ci_sku :: "int option"
  ci_quantity :: int
  ci_options :: "int list"
  ci_customization :: string
  ci_unit_price :: int

datatype order_status = Pending | Paid | Confirmed | Preparing | Ready | Completed | Cancelled | Refunded

datatype order_type = DineIn | Takeaway | Delivery

record order_row =
  o_id :: int
  o_number :: string
  o_user :: "int option"
  o_status :: order_status
  o_type :: order_type
  o_subtotal :: int
  o_delivery_fee :: int
  o_discount :: int
  o_total :: int
  o_method :: string
  o_paid :: bool
  o_paid_at :: "int option"
  o_name :: string
  o_phone :: string
  o_notes :: string
  o_address :: string
  o_delivery_time :: "int option"
  o_pickup_time :: "int option"
  o_table :: string
  o_shop :: int
  o_at :: int
  o_completed_at :: "int option"

record item_row =
  oi_id :: int
  oi_order :: int
  oi_product :: int
  oi_sku :: "int option"
  oi_name :: string
  oi_image :: string
  oi_specs :: "(string \<times> string) list"
  oi_unit_price :: int
  oi_quantity :: int
  oi_total :: int
  oi_attrs :: "(string \<times> string) list"
  oi_customization :: string

record status_log =
  sl_id :: int
  sl_order :: int
  sl_old :: order_status
  sl_new :: order_status
  sl_notes :: string
  sl_by :: "int option"
  sl_at :: int

record orders_db =
  db_cat :: catalog_db
  db_org :: shops_db
  db_carts :: "cart_row tbl"
  db_cart_items :: "cart_item_row tbl"
  db_orders :: "order_row tbl"
  db_order_items :: "item_row tbl"
  db_status_logs :: "status_log tbl"

section \<open>Model methods\<close>

definition items_of_cart :: "int \<Rightarrow> orders_db \<Rightarrow> cart_item_row list" where
  "items_of_cart c db = qs_filter (\<lambda>ci. ci_cart ci = c) (db_cart_items db)"

definition options_of :: "int list \<Rightarrow> orders_db \<Rightarrow> option_row list" where
  "options_of ids db = qs_filter (\<lambda>a. op_id a \<in> set ids) (db_options (db_cat db))"

definition cart_item_total :: "orders_db \<Rightarrow> cart_item_row \<Rightarrow> int" where
  "cart_item_total db ci =
     (let additional_price = sum_list (map op_additional_price (options_of (ci_options ci) db))
      in (ci_unit_price ci + additional_price) * ci_quantity ci)"

definition cart_total_price :: "int \<Rightarrow> orders_db \<Rightarrow> int" where
  "cart_total_price c db = sum_list (map (cart_item_total db) (items_of_cart c db))"

definition cart_total_quantity :: "int \<Rightarrow> orders_db \<Rightarrow> int" where
  "cart_total_quantity c db = sum_list (map ci_quantity (items_of_cart c db))"

definition items_of_order :: "int \<Rightarrow> orders_db \<Rightarrow> item_row list" where
  "items_of_order i db = qs_filter (\<lambda>it. oi_order it = i) (db_order_items db)"

definition estimated_preparation_time :: "int \<Rightarrow> orders_db \<Rightarrow> int" where
  "estimated_preparation_time i db =
     (let ts = List.map_filter (\<lambda>it. map_option p_prep_time (t_find p_id (oi_product it) (db_products (db_cat db))))
                 (items_of_order i db)
      in if ts = [] then 0 else Max (set ts))"

definition generate_order_number :: "int \<Rightarrow> string \<Rightarrow> string" where
  "generate_order_number now hex = ''ORD'' @ dec_int (now div 1000000) @ hex"

definition order_columns_ok :: "order_row \<Rightarrow> bool" where
  "order_columns_ok o1 \<longleftrightarrow> numeric_ok 10 (o_subtotal o1) \<and> numeric_ok 8 (o_delivery_fee o1)
     \<and> numeric_ok 8 (o_discount o1) \<and> numeric_ok 10 (o_total o1) \<and> chars (o_number o1) \<le> 20
     \<and> chars (o_name o1) \<le> 100 \<and> chars (o_phone o1) \<le> 20 \<and> chars (o_table o1) \<le> 20
     \<and> chars (o_method o1) \<le> 50"

text \<open>\<open>Order.save\<close>; the unsaved instance has id 0.\<close>

definition order_save :: "int \<Rightarrow> string \<Rightarrow> order_row \<Rightarrow> orders_db \<Rightarrow> (order_row \<times> orders_db) res" where
  "order_save now hex order db =
     (let o1 = (if o_number order = [] then order\<lparr>o_number := generate_order_number now hex\<rparr> else order) in
      if \<not> order_columns_ok o1 then Inl (DataError ''orders'')
      else if qs_exists (\<lambda>r. o_id r \<noteq> o_id o1 \<and> o_number r = o_number o1) (db_orders db)
      then Inl (IntegrityError ''order_number'')
      else if o_id o1 = 0 then
        (let (o2, t) = t_add (\<lambda>i. o1\<lparr>o_id := i, o_at := now\<rparr>) (db_orders db) in Inr (o2, db\<lparr>db_orders := t\<rparr>))
      else Inr (o1, db\<lparr>db_orders := t_save o_id o1 (db_orders db)\<rparr>))"

definition log_status ::
  "int \<Rightarrow> int \<Rightarrow> order_status \<Rightarrow> order_status \<Rightarrow> string \<Rightarrow> int option \<Rightarrow> orders_db \<Rightarrow> orders_db" where
  "log_status now oid old new notes by db =
     db\<lparr>db_status_logs := snd (t_add (\<lambda>i. \<lparr>sl_id = i, sl_order = oid, sl_old = old, sl_new = new,
          sl_notes = notes, sl_by = by, sl_at = now\<rparr>) (db_status_logs db))\<rparr>"

section \<open>Cart views\<close>

definition get_cart :: "int \<Rightarrow> orders_db \<Rightarrow> (cart_row \<times> orders_db) res" where
  "get_cart uid db =
     (case qs_get ''Cart'' (\<lambda>c. c_user c = uid) (db_carts db) of
        Inr c \<Rightarrow> Inr (c, db)
      | Inl (DoesNotExist m) \<Rightarrow>
          (let (c, t) = t_add (\<lambda>i. \<lparr>c_id = i, c_user = uid, c_session = None\<rparr>) (db_carts db)
           in Inr (c, db\<lparr>db_carts := t\<rparr>))
      | Inl e \<Rightarrow> Inl e)"

definition get_unit_price :: "int \<Rightarrow> int option \<Rightarrow> catalog_db \<Rightarrow> int res" where
  "get_unit_price pid sku db =
     (case qs_get ''Product'' (\<lambda>p. p_id p = pid) (db_products db) of
        Inl e \<Rightarrow> Inl e
      | Inr p \<Rightarrow>
          if truthy_int sku then
            (case qs_get ''ProductSKU'' (\<lambda>k. k_id k = the sku) (db_skus db) of
               Inl e \<Rightarrow> Inl e
             | Inr k \<Rightarrow> Inr (k_price k))
          else Inr (p_base_price p))"

record add_body =
  ad_product :: "int option"
  ad_sku :: "int option"
  ad_quantity :: int
  ad_options :: "int list"
  ad_custom :: string

text \<open>The answer serializes the item: it needs the image file of the product, and a total price of
  at most ten digits.\<close>

definition serialize_cart_item :: "cart_item_row \<Rightarrow> orders_db \<Rightarrow> unit res" where
  "serialize_cart_item ci db =
     (case t_find p_id (ci_product ci) (db_products (db_cat db)) of
        None \<Rightarrow> Inl (DoesNotExist ''Product'')
      | Some p \<Rightarrow>
          if p_main_image p = [] then Inl (ValueError ''main_image'')
          else if (case ci_sku ci of None \<Rightarrow> False | Some s \<Rightarrow> t_find k_id s (db_skus (db_cat db)) = None)
          then Inl (DoesNotExist ''ProductSKU'')
          else if \<not> numeric_ok 10 (cart_item_total db ci) then Inl (DataError ''total_price'')
          else Inr ())"

definition cart_item_ok :: "cart_item_row \<Rightarrow> bool" where
  "cart_item_ok ci \<longleftrightarrow> 0 \<le> ci_quantity ci \<and> int4_ok (ci_quantity ci) \<and> numeric_ok 10 (ci_unit_price ci)"

text \<open>The block \<open>with transaction.atomic()\<close> of \<open>add_item\<close>.\<close>

definition add_to_cart :: "cart_row \<Rightarrow> int \<Rightarrow> add_body \<Rightarrow> orders_db \<Rightarrow> (cart_item_row \<times> orders_db) res" where
  "add_to_cart cart pid b db =
     (case get_unit_price pid (ad_sku b) (db_cat db) of
        Inl e \<Rightarrow> Inl e
      | Inr price \<Rightarrow>
          (case (case qs_get ''CartItem'' (\<lambda>ci. ci_cart ci = c_id cart \<and> ci_product ci = pid \<and> ci_sku ci = ad_sku b)
                        (db_cart_items db) of
                   Inr ci \<Rightarrow>
                     let ci' = ci\<lparr>ci_quantity := ci_quantity ci + ad_quantity b\<rparr>
                     in if cart_item_ok ci' then Inr (ci', t_save ci_id ci' (db_cart_items db))
                        else Inl (DataError ''cart_items'')
                 | Inl (DoesNotExist m) \<Rightarrow>
                     let (ci, t) = t_add (\<lambda>i. \<lparr>ci_id = i, ci_cart = c_id cart, ci_product = pid,
                            ci_sku = ad_sku b, ci_quantity = ad_quantity b, ci_options = [],
                            ci_customization = ad_custom b, ci_unit_price = price\<rparr>) (db_cart_items db)
                     in if cart_item_ok ci then Inr (ci, t) else Inl (DataError ''cart_items'')
                 | Inl e \<Rightarrow> Inl e) of
             Inl e \<Rightarrow> Inl e
           | Inr (ci, t) \<Rightarrow>
               (if \<exists>i \<in> set (ad_options b). \<not> qs_exists (\<lambda>a. op_id a = i) (db_options (db_cat db))
                then Inl (IntegrityError ''attribute_options'')
                else
                  let ci2 = (if ad_options b = [] then ci else ci\<lparr>ci_options := remdups (ad_options b)\<rparr>);
                      db2 = db\<lparr>db_cart_items := t_save ci_id ci2 t\<rparr>
                  in (case serialize_cart_item ci2 db2 of Inl e \<Rightarrow> Inl e | Inr _ \<Rightarrow> Inr (ci2, db2)))))"

definition add_item :: "request \<Rightarrow> add_body \<Rightarrow> orders_db \<Rightarrow> cart_item_row reply \<times> orders_db" where
  "add_item rq b db =
     (case rq_user rq of
        None \<Rightarrow> (Reject 401 PermissionDenied, db)
      | Some u \<Rightarrow>
          (case ad_product b of
             None \<Rightarrow> (Reject 400 (ValidationError ''product_id''), db)
           | Some pid \<Rightarrow>
               if ad_quantity b < 1 then (Reject 400 (ValidationError ''quantity''), db)
               else (case get_cart (u_id u) db of
                       Inl e \<Rightarrow> (Crash e, db)
                     | Inr (cart, db1) \<Rightarrow>
                         (case add_to_cart cart pid b db1 of
                            Inl e \<Rightarrow> (Reject 400 e, db1)
                          | Inr (ci, db2) \<Rightarrow> (OK 201 ci, db2)))))"

definition clear_cart :: "request \<Rightarrow> orders_db \<Rightarrow> unit reply \<times> orders_db" where
  "clear_cart rq db =
     (case rq_user rq of
        None \<Rightarrow> (Reject 401 PermissionDenied, db)
      | Some u \<Rightarrow>
          (case get_cart (u_id u) db of
             Inl e \<Rightarrow> (Crash e, db)
           | Inr (cart, db1) \<Rightarrow>
               (OK 200 (), db1\<lparr>db_cart_items := t_del (\<lambda>ci. ci_cart ci = c_id cart) (db_cart_items db1)\<rparr>)))"

definition my_cart :: "request \<Rightarrow> orders_db \<Rightarrow> (cart_item_row list \<times> int \<times> int) reply \<times> orders_db" where
  "my_cart rq db =
     (case rq_user rq of
        None \<Rightarrow> (Reject 401 PermissionDenied, db)
      | Some u \<Rightarrow>
          (case get_cart (u_id u) db of
             Inl e \<Rightarrow> (Crash e, db)
           | Inr (cart, db1) \<Rightarrow>
               (case collect_res (\<lambda>ci. serialize_cart_item ci db1) (items_of_cart (c_id cart) db1) of
                  Inl e \<Rightarrow> (Crash e, db1)
                | Inr _ \<Rightarrow>
                    if \<not> numeric_ok 10 (cart_total_price (c_id cart) db1) then (Crash (DataError ''total_price''), db1)
                    else (OK 200 (items_of_cart (c_id cart) db1, cart_total_price (c_id cart) db1,
                                  cart_total_quantity (c_id cart) db1), db1))))"

subsection \<open>Editing a cart item\<close>

record ci_body =
  cb_cart :: "int option"
  cb_product :: "int option"
  cb_sku :: "int option option"
  cb_quantity :: "int option"
  cb_options :: "int list option"
  cb_custom :: "string option"
  cb_price :: "int option"

definition ci_apply :: "ci_body \<Rightarrow> cart_item_row \<Rightarrow> cart_item_row" where
  "ci_apply b ci = ci\<lparr>ci_cart := or_default (cb_cart b) (ci_cart ci),
     ci_product := or_default (cb_product b) (ci_product ci), ci_sku := or_default (cb_sku b) (ci_sku ci),
     ci_quantity := or_default (cb_quantity b) (ci_quantity ci),
     ci_options := or_default (cb_options b) (ci_options ci),
     ci_customization := or_default (cb_custom b) (ci_customization ci),
     ci_unit_price := or_default (cb_price b) (ci_unit_price ci)\<rparr>"

text \<open>The field validators of \<open>CartItemSerializer\<close> (\<open>fields = '__all__'\<close>).\<close>

definition ci_fields_valid :: "bool \<Rightarrow> cart_item_row \<Rightarrow> ci_body \<Rightarrow> orders_db \<Rightarrow> bool" where
  "ci_fields_valid partial ci b db \<longleftrightarrow>
     needed partial (cb_cart b) (\<lambda>c. qs_exists (\<lambda>r. c_id r = c) (db_carts db))
     \<and> needed partial (cb_product b) (\<lambda>p. qs_exists (\<lambda>r. p_id r = p) (db_products (db_cat db)))
     \<and> needed True (cb_sku b) (\<lambda>s. case s of None \<Rightarrow> True | Some k \<Rightarrow> qs_exists (\<lambda>r. k_id r = k) (db_skus (db_cat db)))
     \<and> needed True (cb_quantity b) (\<lambda>q. 1 \<le> q \<and> int4_ok q)
     \<and> needed True (cb_options b) (\<lambda>os. \<forall>i \<in> set os. qs_exists (\<lambda>a. op_id a = i) (db_options (db_cat db)))
     \<and> needed partial (cb_price b) (numeric_ok 10)
     \<and> (let ci' = ci_apply b ci in
         ci_sku ci' = None \<or> \<not> qs_exists (\<lambda>r. ci_id r \<noteq> ci_id ci \<and> ci_cart r = ci_cart ci'
             \<and> ci_product r = ci_product ci' \<and> ci_sku r = ci_sku ci') (db_cart_items db))"

text \<open>\<open>CartItemSerializer.validate\<close>: a partial update only looks at the quantity; a full one checks the
  SKU and the stock and takes the price from the catalogue.\<close>

definition ci_validate :: "bool \<Rightarrow> ci_body \<Rightarrow> orders_db \<Rightarrow> ci_body res" where
  "ci_validate partial b db =
     (if partial then
        (case cb_quantity b of
           None \<Rightarrow> Inr b
         | Some q \<Rightarrow> if q < 1 then Inl (ValidationError ''quantity'') else Inr b)
      else
        (let quantity = or_default (cb_quantity b) 1 in
         case (case cb_sku b of None \<Rightarrow> None | Some s \<Rightarrow> s) of
           Some s \<Rightarrow>
             (case t_find k_id s (db_skus (db_cat db)) of
                None \<Rightarrow> Inl (ValidationError ''sku'')
              | Some k \<Rightarrow>
                  if Some (k_product k) \<noteq> cb_product b then Inl (ValidationError ''sku'')
                  else if k_stock k < quantity then Inl (ValidationError ''stock'')
                  else Inr (b\<lparr>cb_price := Some (k_price k)\<rparr>))
         | None \<Rightarrow>
             (case (case cb_product b of None \<Rightarrow> None | Some p \<Rightarrow> t_find p_id p (db_products (db_cat db))) of
                None \<Rightarrow> Inl (ValidationError ''product'')
              | Some p \<Rightarrow> Inr (b\<lparr>cb_price := Some (p_base_price p)\<rparr>))))"

definition cart_item_object :: "user_row \<Rightarrow> int \<Rightarrow> orders_db \<Rightarrow> cart_item_row option" where
  "cart_item_object u pk db =
     qs_first (\<lambda>ci. ci_id ci = pk \<and> qs_exists (\<lambda>c. c_id c = ci_cart ci \<and> c_user c = u_id u) (db_carts db))
       (db_cart_items db)"

definition cart_item_update ::
  "bool \<Rightarrow> request \<Rightarrow> int \<Rightarrow> ci_body \<Rightarrow> orders_db \<Rightarrow> cart_item_row reply \<times> orders_db" where
  "cart_item_update partial rq pk b db =
     (case rq_user rq of
        None \<Rightarrow> (Reject 401 PermissionDenied, db)
      | Some u \<Rightarrow>
          (case cart_item_object u pk db of
             None \<Rightarrow> (Reject 404 (DoesNotExist ''CartItem''), db)
           | Some ci \<Rightarrow>
               if \<not> ci_fields_valid partial ci b db then (Reject 400 (ValidationError ''cart_item''), db)
               else (case ci_validate partial b db of
                       Inl e \<Rightarrow> (Reject 400 e, db)
                     | Inr b' \<Rightarrow>
                         let ci' = ci_apply b' ci;
                             db' = db\<lparr>db_cart_items := t_save ci_id ci' (db_cart_items db)\<rparr>
                         in (case serialize_cart_item ci' db' of
                               Inl e \<Rightarrow> (Crash e, db')
                             | Inr _ \<Rightarrow> (OK 200 ci', db')))))"

definition cart_item_destroy :: "request \<Rightarrow> int \<Rightarrow> orders_db \<Rightarrow> unit reply \<times> orders_db" where
  "cart_item_destroy rq pk db =
     (case rq_user rq of
        None \<Rightarrow> (Reject 401 PermissionDenied, db)
      | Some u \<Rightarrow>
          (case cart_item_object u pk db of
             None \<Rightarrow> (Reject 404 (DoesNotExist ''CartItem''), db)
           | Some ci \<Rightarrow> (OK 204 (), db\<lparr>db_cart_items := t_del (\<lambda>r. ci_id r = ci_id ci) (db_cart_items db)\<rparr>)))"

section \<open>Creating an order\<close>

record line_body =
  lb_product :: "int option"
  lb_sku :: "int option"
  lb_quantity :: "int option"
  lb_attrs :: "(string \<times> string) list"
  lb_custom :: string

record order_body =
  ob_type :: "order_type option"
  ob_name :: string
  ob_phone :: string
  ob_notes :: string
  ob_address :: string
  ob_delivery_time :: "int option"
  ob_pickup_time :: "int option"
  ob_table :: string
  ob_cart :: "int option"
  ob_items :: "line_body list"

definition order_fields_valid :: "order_body \<Rightarrow> bool" where
  "order_fields_valid b \<longleftrightarrow> ob_name b \<noteq> [] \<and> chars (ob_name b) \<le> 100 \<and> ob_phone b \<noteq> []
     \<and> chars (ob_phone b) \<le> 20 \<and> chars (ob_table b) \<le> 20"

definition order_validate :: "order_body \<Rightarrow> unit res" where
  "order_validate b =
     (if \<not> order_fields_valid b then Inl (ValidationError ''order'')
      else if ob_type b = Some Delivery \<and> ob_address b = [] then Inl (ValidationError ''delivery_address'')
      else if ob_type b = Some Takeaway \<and> ob_pickup_time b = None then Inl (ValidationError ''pickup_time'')
      else Inr ())"

text \<open>\<open>Order(shop=..., user=..., **validated_data)\<close> with zero amounts, not saved yet.\<close>

definition new_order :: "int \<Rightarrow> user_row \<Rightarrow> order_body \<Rightarrow> order_row" where
  "new_order shop u b = \<lparr>o_id = 0, o_number = [], o_user = Some (u_id u), o_status = Pending,
     o_type = or_default (ob_type b) DineIn, o_subtotal = 0, o_delivery_fee = 0, o_discount = 0, o_total = 0,
     o_method = [], o_paid = False, o_paid_at = None, o_name = ob_name b, o_phone = ob_phone b,
     o_notes = ob_notes b, o_address = ob_address b, o_delivery_time = ob_delivery_time b,
     o_pickup_time = ob_pickup_time b, o_table = ob_table b, o_shop = shop, o_at = 0, o_completed_at = None\<rparr>"

text \<open>A Python dict comprehension: a later entry replaces the value of an equal key.\<close>

definition dict_of :: "(string \<times> string) list \<Rightarrow> (string \<times> string) list" where
  "dict_of xs = fold (\<lambda>(k, v) d. AList.update k v d) xs []"

definition get_specifications_data :: "sku_row option \<Rightarrow> catalog_db \<Rightarrow> (string \<times> string) list" where
  "get_specifications_data sku db =
     (case sku of
        None \<Rightarrow> []
      | Some k \<Rightarrow> dict_of (List.map_filter (\<lambda>v.
          map_option (\<lambda>s. (sp_display s, sv_display v)) (t_find sp_id (sv_spec v) (db_specs db)))
          (qs_filter (\<lambda>v. sv_id v \<in> set (k_specs k)) (db_spec_values db))))"

definition get_attribute_selections_data :: "option_row list \<Rightarrow> catalog_db \<Rightarrow> (string \<times> string) list" where
  "get_attribute_selections_data opts db =
     dict_of (List.map_filter (\<lambda>a.
       map_option (\<lambda>t. (at_name t, op_value a)) (t_find at_id (op_attribute a) (db_attributes db))) opts)"

definition image_url :: "product_row \<Rightarrow> string" where
  "image_url p = (if p_main_image p = [] then [] else ''/media/'' @ p_main_image p)"

definition item_columns_ok :: "item_row \<Rightarrow> bool" where
  "item_columns_ok it \<longleftrightarrow> int4_ok (oi_quantity it) \<and> numeric_ok 10 (oi_unit_price it)
     \<and> numeric_ok 10 (oi_total it) \<and> chars (oi_image it) \<le> 500"

text \<open>\<open>OrderItem.objects.create\<close>; the quantity column is positive or zero.\<close>

definition create_order_item :: "item_row \<Rightarrow> orders_db \<Rightarrow> orders_db res" where
  "create_order_item it db =
     (if \<not> item_columns_ok it then Inl (DataError ''order_items'')
      else if oi_quantity it < 0 then Inl (IntegrityError ''quantity'')
      else Inr (db\<lparr>db_order_items := snd (t_add (\<lambda>i. it\<lparr>oi_id := i\<rparr>) (db_order_items db))\<rparr>))"

definition take_stock :: "int option \<Rightarrow> int \<Rightarrow> orders_db \<Rightarrow> orders_db res" where
  "take_stock sku d db =
     (case sku of
        None \<Rightarrow> Inr db
      | Some s \<Rightarrow> (case move_stock s d (db_cat db) of Inl e \<Rightarrow> Inl e | Inr cat \<Rightarrow> Inr (db\<lparr>db_cat := cat\<rparr>)))"

definition find_sku :: "int option \<Rightarrow> orders_db \<Rightarrow> sku_row option res" where
  "find_sku sku db =
     (case sku of
        None \<Rightarrow> Inr None
      | Some s \<Rightarrow> (case t_find k_id s (db_skus (db_cat db)) of
                     None \<Rightarrow> Inl (DoesNotExist ''ProductSKU'') | Some k \<Rightarrow> Inr (Some k)))"

definition item_from_cart :: "order_row \<Rightarrow> cart_item_row \<Rightarrow> product_row \<Rightarrow> sku_row option \<Rightarrow> orders_db \<Rightarrow> item_row" where
  "item_from_cart order ci p k db =
     \<lparr>oi_id = 0, oi_order = o_id order, oi_product = p_id p, oi_sku = ci_sku ci, oi_name = p_name p,
      oi_image = image_url p, oi_specs = get_specifications_data k (db_cat db),
      oi_unit_price = ci_unit_price ci, oi_quantity = ci_quantity ci, oi_total = cart_item_total db ci,
      oi_attrs = get_attribute_selections_data (options_of (ci_options ci) db) (db_cat db),
      oi_customization = ci_customization ci\<rparr>"

definition place_cart_item :: "order_row \<Rightarrow> cart_item_row \<Rightarrow> orders_db \<Rightarrow> orders_db res" where
  "place_cart_item order ci db =
     (case t_find p_id (ci_product ci) (db_products (db_cat db)) of
        None \<Rightarrow> Inl (DoesNotExist ''Product'')
      | Some p \<Rightarrow>
          (case find_sku (ci_sku ci) db of
             Inl e \<Rightarrow> Inl e
           | Inr k \<Rightarrow>
               (case create_order_item (item_from_cart order ci p k db) db of
                  Inl e \<Rightarrow> Inl e
                | Inr db1 \<Rightarrow> take_stock (ci_sku ci) (- ci_quantity ci) db1)))"

fun place_all :: "('i \<Rightarrow> orders_db \<Rightarrow> orders_db res) \<Rightarrow> 'i list \<Rightarrow> orders_db \<Rightarrow> orders_db res" where
  "place_all place [] db = Inr db"
| "place_all place (x # xs) db = (case place x db of Inl e \<Rightarrow> Inl e | Inr db' \<Rightarrow> place_all place xs db')"

definition create_order_items_from_cart :: "order_row \<Rightarrow> cart_row \<Rightarrow> orders_db \<Rightarrow> orders_db res" where
  "create_order_items_from_cart order cart db =
     (case place_all (place_cart_item order) (items_of_cart (c_id cart) db) db of
        Inl e \<Rightarrow> Inl e
      | Inr db' \<Rightarrow> Inr (db'\<lparr>db_cart_items := t_del (\<lambda>ci. ci_cart ci = c_id cart) (db_cart_items db')\<rparr>))"

definition place_line :: "order_row \<Rightarrow> line_body \<Rightarrow> orders_db \<Rightarrow> orders_db res" where
  "place_line order b db =
     (case lb_product b of
        None \<Rightarrow> Inl (KeyError ''product_id'')
      | Some pid \<Rightarrow>
          (case t_find p_id pid (db_products (db_cat db)) of
             None \<Rightarrow> Inl (DoesNotExist ''Product'')
           | Some p \<Rightarrow>
               let sku = (if truthy_int (lb_sku b) then lb_sku b else None) in
               (case find_sku sku db of
                  Inl e \<Rightarrow> Inl e
                | Inr k \<Rightarrow>
                    (case lb_quantity b of
                       None \<Rightarrow> Inl (KeyError ''quantity'')
                     | Some q \<Rightarrow>
                         let unit_price = (case k of Some r \<Rightarrow> k_price r | None \<Rightarrow> p_base_price p);
                             it = \<lparr>oi_id = 0, oi_order = o_id order, oi_product = p_id p, oi_sku = sku,
                               oi_name = p_name p, oi_image = image_url p,
                               oi_specs = get_specifications_data k (db_cat db), oi_unit_price = unit_price,
                               oi_quantity = q, oi_total = unit_price * q, oi_attrs = lb_attrs b,
                               oi_customization = lb_custom b\<rparr>
                         in (case create_order_item it db of
                               Inl e \<Rightarrow> Inl e
                             | Inr db1 \<Rightarrow> take_stock sku (- q) db1)))))"

definition calculate_order_totals ::
  "int \<Rightarrow> string \<Rightarrow> order_row \<Rightarrow> orders_db \<Rightarrow> (order_row \<times> orders_db) res" where
  "calculate_order_totals now hex order db =
     (let subtotal = sum_list (map oi_total (items_of_order (o_id order) db));
          fee = (if o_type order = Delivery
                 then (case t_find s_id (o_shop order) (db_shops (db_org db)) of
                         None \<Rightarrow> Inl (DoesNotExist ''Shop'') | Some s \<Rightarrow> Inr (s_delivery_fee s))
                 else Inr 0)
      in case fee of
           Inl e \<Rightarrow> Inl e
         | Inr f \<Rightarrow> order_save now hex (order\<lparr>o_subtotal := subtotal, o_delivery_fee := f,
                      o_total := subtotal + f - o_discount order\<rparr>) db)"

definition created_notes :: string where
  "created_notes = map char_of [0xE8 :: nat, 0xAE, 0xA2, 0xE5, 0x8D, 0x95, 0xE5, 0x88, 0x9B, 0xE5, 0xBB, 0xBA]"

text \<open>The cart part: \<open>Inr (Inl ...)\<close> when there is no such cart, where \<open>create\<close> returns at once.\<close>

definition order_cart_step ::
  "int \<Rightarrow> string \<Rightarrow> user_row \<Rightarrow> int \<Rightarrow> order_row \<Rightarrow> orders_db \<Rightarrow>
   ((order_row \<times> orders_db) + (order_row \<times> orders_db)) res" where
  "order_cart_step now hex u cid order db =
     (case qs_get ''Cart'' (\<lambda>c. c_id c = cid \<and> c_user c = u_id u) (db_carts db) of
        Inr cart \<Rightarrow>
          (case order_save now hex order db of
             Inl e \<Rightarrow> Inl e
           | Inr (o1, db1) \<Rightarrow>
               (case create_order_items_from_cart o1 cart db1 of
                  Inl e \<Rightarrow> Inl e
                | Inr db2 \<Rightarrow>
                    (case calculate_order_totals now hex o1 db2 of
                       Inl e \<Rightarrow> Inl e
                     | Inr r \<Rightarrow> Inr (Inr r))))
      | Inl (DoesNotExist m) \<Rightarrow>
          (case order_save now hex order db of Inl e \<Rightarrow> Inl e | Inr r \<Rightarrow> Inr (Inl r))
      | Inl e \<Rightarrow> Inl e)"

definition ensure_saved :: "int \<Rightarrow> string \<Rightarrow> order_row \<Rightarrow> orders_db \<Rightarrow> (order_row \<times> orders_db) res" where
  "ensure_saved now hex order db = (if o_id order = 0 then order_save now hex order db else Inr (order, db))"

text \<open>From the direct lines on: the lines, then the first log row.\<close>

definition order_finish ::
  "int \<Rightarrow> string \<Rightarrow> user_row \<Rightarrow> line_body list \<Rightarrow> order_row \<Rightarrow> orders_db \<Rightarrow> (order_row \<times> orders_db) res" where
  "order_finish now hex u items order db =
     (case (if items = [] then ensure_saved now hex order db
            else (case ensure_saved now hex order db of
                    Inl e \<Rightarrow> Inl e
                  | Inr (o1, db1) \<Rightarrow>
                      (case place_all (place_line o1) items db1 of
                         Inl e \<Rightarrow> Inl e
                       | Inr db2 \<Rightarrow> calculate_order_totals now hex o1 db2))) of
        Inl e \<Rightarrow> Inl e
      | Inr (o2, db3) \<Rightarrow> Inr (o2, log_status now (o_id o2) Pending Pending created_notes (Some (u_id u)) db3))"

definition create_order ::
  "int \<Rightarrow> string \<Rightarrow> int option \<Rightarrow> user_row \<Rightarrow> order_body \<Rightarrow> orders_db \<Rightarrow> (order_row \<times> orders_db) res" where
  "create_order now hex tenant u b db =
     (case tenant of
        None \<Rightarrow> Inl (IntegrityError ''shop'')
      | Some shop \<Rightarrow>
          let order = new_order shop u b in
          if truthy_int (ob_cart b) then
            (case order_cart_step now hex u (the (ob_cart b)) order db of
               Inl e \<Rightarrow> Inl e
             | Inr (Inl r) \<Rightarrow> Inr r
             | Inr (Inr (o1, db1)) \<Rightarrow> order_finish now hex u (ob_items b) o1 db1)
          else order_finish now hex u (ob_items b) order db)"

definition create_order_view ::
  "int \<Rightarrow> string \<Rightarrow> request \<Rightarrow> order_body \<Rightarrow> orders_db \<Rightarrow> order_row reply \<times> orders_db" where
  "create_order_view now hex rq b db =
     (case rq_user rq of
        None \<Rightarrow> (Reject 401 PermissionDenied, db)
      | Some u \<Rightarrow>
          (case order_validate b of
             Inl e \<Rightarrow> (Reject 400 e, db)
           | Inr _ \<Rightarrow>
               (case create_order now hex (rq_tenant rq) u b db of
                  Inl e \<Rightarrow> (Crash e, db)
                | Inr (order, db') \<Rightarrow> (OK 201 order, db'))))"

section \<open>Order views\<close>

text \<open>
  \<open>OrderViewSet.get_queryset\<close>.  It prefetches \<open>payments\<close>; the reverse names an order has are those of
  the foreign keys that point to it (\<open>related_name\<close> in \<open>orders/models.py\<close> and
  \<open>payments/models.py\<close>), and prefetching another name raises when there is a row to prefetch for.  The
  argument \<open>related\<close> is the set of reverse names.
\<close>

definition order_related_names :: "string list" where
  "order_related_names = [''items'', ''status_logs'', ''order_payments'', ''payment_transactions'', ''usercoupon_set'']"

definition order_prefetch :: "string list" where
  "order_prefetch = [''items'', ''status_logs'', ''payments'']"

definition order_queryset :: "request \<Rightarrow> orders_db \<Rightarrow> order_row list" where
  "order_queryset rq db =
     (let orders = (case rq_tenant rq of
            Some tn \<Rightarrow> qs_filter (\<lambda>r. o_shop r = tn) (db_orders db)
          | None \<Rightarrow> rows (db_orders db))
      in case rq_user rq of
           Some u \<Rightarrow> if u_type u = Customer then filter (\<lambda>r. o_user r = Some (u_id u)) orders else orders
         | None \<Rightarrow> orders)"

definition prefetch_rows :: "string list \<Rightarrow> order_row list \<Rightarrow> order_row list res" where
  "prefetch_rows related os =
     (if os = [] then Inr []
      else case find (\<lambda>n. n \<notin> set related) order_prefetch of
             None \<Rightarrow> Inr os
           | Some n \<Rightarrow> Inl (AttributeError n))"

definition order_object :: "string list \<Rightarrow> request \<Rightarrow> int \<Rightarrow> orders_db \<Rightarrow> order_row res" where
  "order_object related rq pk db =
     (case prefetch_rows related (filter (\<lambda>r. o_id r = pk) (order_queryset rq db)) of
        Inl e \<Rightarrow> Inl e
      | Inr [] \<Rightarrow> Inl (DoesNotExist ''Order'')
      | Inr (r # _) \<Rightarrow> Inr r)"

text \<open>What a view with \<open>IsShopOwnerOrStaff\<close> and \<open>get_object\<close> does before its body.\<close>

definition with_order ::
  "string list \<Rightarrow> request \<Rightarrow> int \<Rightarrow> (order_row \<Rightarrow> orders_db \<Rightarrow> 'a reply \<times> orders_db) \<Rightarrow> orders_db \<Rightarrow>
   'a reply \<times> orders_db" where
  "with_order related rq pk body db =
     (case is_shop_owner_or_staff (db_staff (db_org db)) rq of
        Inl e \<Rightarrow> (Crash e, db)
      | Inr False \<Rightarrow> (Reject 403 PermissionDenied, db)
      | Inr True \<Rightarrow>
          (case order_object related rq pk db of
             Inl (DoesNotExist m) \<Rightarrow> (Reject 404 (DoesNotExist m), db)
           | Inl e \<Rightarrow> (Crash e, db)
           | Inr r \<Rightarrow> body r db))"

definition update_status_body ::
  "int \<Rightarrow> string \<Rightarrow> user_row \<Rightarrow> order_status option \<Rightarrow> string \<Rightarrow> order_row \<Rightarrow> orders_db \<Rightarrow>
   order_row reply \<times> orders_db" where
  "update_status_body now hex u new_status notes order db =
     (case new_status of
        None \<Rightarrow> (Reject 400 (ValidationError ''status''), db)
      | Some st \<Rightarrow>
          let old_status = o_status order;
              o1 = order\<lparr>o_status := st\<rparr>;
              o2 = (if st = Completed then o1\<lparr>o_completed_at := Some now\<rparr> else o1)
          in (case order_save now hex o2 db of
                Inl e \<Rightarrow> (Crash e, db)
              | Inr (o3, db1) \<Rightarrow>
                  (OK 200 o3, log_status now (o_id o3) old_status st notes (Some (u_id u)) db1)))"

definition update_status ::
  "string list \<Rightarrow> int \<Rightarrow> string \<Rightarrow> request \<Rightarrow> int \<Rightarrow> order_status option \<Rightarrow> string \<Rightarrow> orders_db \<Rightarrow>
   order_row reply \<times> orders_db" where
  "update_status related now hex rq pk new_status notes db =
     with_order related rq pk (update_status_body now hex (the (rq_user rq)) new_status notes) db"

fun restore_stock :: "item_row list \<Rightarrow> orders_db \<Rightarrow> orders_db res" where
  "restore_stock [] db = Inr db"
| "restore_stock (it # its) db =
     (case take_stock (oi_sku it) (oi_quantity it) db of
        Inl e \<Rightarrow> Inl e
      | Inr db' \<Rightarrow> restore_stock its db')"

definition cancel_rows ::
  "int \<Rightarrow> string \<Rightarrow> user_row \<Rightarrow> string \<Rightarrow> order_row \<Rightarrow> orders_db \<Rightarrow> (order_row \<times> orders_db) res" where
  "cancel_rows now hex u notes order db =
     (case order_save now hex (order\<lparr>o_status := Cancelled\<rparr>) db of
        Inl e \<Rightarrow> Inl e
      | Inr (o1, db1) \<Rightarrow>
          (case restore_stock (items_of_order (o_id o1) db1) db1 of
             Inl e \<Rightarrow> Inl e
           | Inr db2 \<Rightarrow> Inr (o1, log_status now (o_id o1) (o_status order) Cancelled notes (Some (u_id u)) db2)))"

definition cancel_body ::
  "int \<Rightarrow> string \<Rightarrow> user_row \<Rightarrow> string \<Rightarrow> order_row \<Rightarrow> orders_db \<Rightarrow> order_row reply \<times> orders_db" where
  "cancel_body now hex u notes order db =
     (if o_status order \<notin> {Pending, Paid, Confirmed} then (Reject 400 (ValueError ''status''), db)
      else (case cancel_rows now hex u notes order db of
              Inl e \<Rightarrow> (Crash e, db)
            | Inr (o1, db') \<Rightarrow> (OK 200 o1, db')))"

definition cancel_order ::
  "string list \<Rightarrow> int \<Rightarrow> string \<Rightarrow> request \<Rightarrow> int \<Rightarrow> string \<Rightarrow> orders_db \<Rightarrow> order_row reply \<times> orders_db" where
  "cancel_order related now hex rq pk notes db =
     with_order related rq pk (cancel_body now hex (the (rq_user rq)) notes) db"

text \<open>\<open>my_orders\<close>: one page of 20 of the caller's orders, newest first.\<close>

definition my_orders :: "string list \<Rightarrow> request \<Rightarrow> order_status option \<Rightarrow> orders_db \<Rightarrow> order_row list reply" where
  "my_orders related rq status db =
     (case rq_user rq of
        None \<Rightarrow> Reject 401 PermissionDenied
      | Some u \<Rightarrow>
          let orders = order_queryset rq db;
              mine = (if u_type u = Customer then filter (\<lambda>r. o_user r = Some (u_id u)) orders else orders);
              sel = (case status of None \<Rightarrow> mine | Some st \<Rightarrow> filter (\<lambda>r. o_status r = st) mine)
          in (case prefetch_rows related (take 20 (sort_key (\<lambda>r. - o_at r) sel)) of
                Inl e \<Rightarrow> Crash e
              | Inr page \<Rightarrow> OK 200 page))"

section \<open>Statistics\<close>

text \<open>The window is built from the UTC date and the local midnight.\<close>

definition today_orders :: "int \<Rightarrow> int option \<Rightarrow> orders_db \<Rightarrow> order_row list" where
  "today_orders now tenant db =
     (let today = utc_date now in
      qs_filter (\<lambda>r. Some (o_shop r) = tenant \<and> local_midnight today \<le> o_at r \<and> o_at r \<le> local_day_end today)
        (db_orders db))"

record order_stats =
  st_total :: nat
  st_revenue :: int
  st_pending :: nat
  st_preparing :: nat

definition today_stats :: "int \<Rightarrow> int option \<Rightarrow> orders_db \<Rightarrow> order_stats" where
  "today_stats now tenant db =
     (let os = today_orders now tenant db in
      \<lparr>st_total = length os, st_revenue = sum_list (map o_total os),
       st_pending = length (filter (\<lambda>r. o_status r = Pending) os),
       st_preparing = length (filter (\<lambda>r. o_status r = Preparing) os)\<rparr>)"

definition weekly_stats :: "int \<Rightarrow> int option \<Rightarrow> orders_db \<Rightarrow> (int \<times> nat \<times> int) list" where
  "weekly_stats now tenant db =
     (let os = qs_filter (\<lambda>r. Some (o_shop r) = tenant \<and> local_midnight (utc_date now - 7) \<le> o_at r) (db_orders db)
      in map (\<lambda>d. let ds = filter (\<lambda>r. utc_date (o_at r) = d) os in (d, length ds, sum_list (map o_total ds)))
           (sort (remdups (map (\<lambda>r. utc_date (o_at r)) os))))"

definition order_statistics ::
  "int \<Rightarrow> request \<Rightarrow> orders_db \<Rightarrow> (order_stats \<times> (int \<times> nat \<times> int) list) reply" where
  "order_statistics now rq db =
     (case is_shop_owner_or_staff (db_staff (db_org db)) rq of
        Inl e \<Rightarrow> Crash e
      | Inr b \<Rightarrow> if b then OK 200 (today_stats now (rq_tenant rq) db, weekly_stats now (rq_tenant rq) db)
                 else Reject 403 PermissionDenied)"

text \<open>\<open>permission_classes=[HasShopPermission('report_view')]\<close> lists an instance where the framework calls a
  class, so the permission check of \<open>sales_report\<close> raises before anything is read.\<close>

definition sales_report :: "request \<Rightarrow> orders_db \<Rightarrow> unit reply" where
  "sales_report rq db = Crash (TypeError ''HasShopPermission'')"

definition order_dashboard ::
  "int \<Rightarrow> request \<Rightarrow> orders_db \<Rightarrow> (nat \<times> int \<times> (order_status \<times> nat) list \<times> (string \<times> int) list) reply" where
  "order_dashboard now rq db =
     (case rq_user rq of
        None \<Rightarrow> Reject 401 PermissionDenied
      | Some _ \<Rightarrow>
          let os = today_orders now (rq_tenant rq) db;
              status = map (\<lambda>st. (st, length (filter (\<lambda>r. o_status r = st) os))) (remdups (map o_status os));
              its = qs_filter (\<lambda>it. \<exists>r \<in> set os. o_id r = oi_order it) (db_order_items db);
              popular = take 10 (sort_key (\<lambda>p. - snd p)
                (map (\<lambda>n. (n, sum_list (map oi_quantity (filter (\<lambda>it. oi_name it = n) its))))
                   (remdups (map oi_name its))))
          in OK 200 (length os, sum_list (map o_total os), status, popular))"

section \<open>Lemmas\<close>

definition orders_wf :: "orders_db \<Rightarrow> bool" where
  "orders_wf db \<longleftrightarrow> catalog_wf (db_cat db) \<and> t_wf o_id (db_orders db)
     \<and> (\<forall>it \<in> set (rows (db_order_items db)). oi_order it \<le> seq (db_orders db))
     \<and> (\<forall>l \<in> set (rows (db_status_logs db)). sl_order l \<le> seq (db_orders db))"

lemma generate_order_number_not_Nil: "generate_order_number now hex \<noteq> []"
  by (simp add: generate_order_number_def)

lemma order_number_length:
  assumes "1000000000 \<le> now div 1000000" and "now div 1000000 < 10000000000"
  shows "length (generate_order_number now hex) = 13 + length hex"
    and "take 10 (drop 3 (generate_order_number now hex)) = dec_of (nat (now div 1000000))"
proof -
  let ?n = "nat (now div 1000000)"
  have "?n < 10 ^ Suc 9" "10 ^ 9 \<le> ?n" using assms by (simp_all add: nat_less_iff)
  then have len: "length (dec_of ?n) = 10" using length_dec_of_exact [of 9 ?n] by simp
  have d: "dec_int (now div 1000000) = dec_of ?n" using assms(1) by (simp add: dec_int_def)
  show "length (generate_order_number now hex) = 13 + length hex"
    by (simp add: generate_order_number_def d len)
  show "take 10 (drop 3 (generate_order_number now hex)) = dec_of ?n"
    by (simp add: generate_order_number_def d len)
qed

lemma chars_le: "chars s \<le> length s"
  by (simp add: chars_def)

lemma order_save_newD:
  assumes "order_save now hex order db = Inr (o1, db1)" and "o_id order = 0" and "o_number order = []"
  shows "o1 = order\<lparr>o_number := generate_order_number now hex, o_id := seq (db_orders db) + 1, o_at := now\<rparr>"
    and "db1 = db\<lparr>db_orders := \<lparr>rows = rows (db_orders db) @ [o1], seq = seq (db_orders db) + 1\<rparr>\<rparr>"
    and "\<forall>r \<in> set (rows (db_orders db)). o_id r \<noteq> 0 \<longrightarrow> o_number r \<noteq> o_number o1"
    and "order_columns_ok o1"
  using assms
  by (auto simp: order_save_def Let_def t_add_def qs_exists_iff order_columns_ok_def split: if_splits)

lemma order_save_oldD:
  assumes "order_save now hex order db = Inr (o1, db1)" and "o_id order \<noteq> 0" and "o_number order \<noteq> []"
  shows "o1 = order" and "db1 = db\<lparr>db_orders := t_save o_id order (db_orders db)\<rparr>"
  using assms by (auto simp: order_save_def Let_def split: if_splits)

definition cart_moves :: "cart_item_row list \<Rightarrow> (int \<times> int) list" where
  "cart_moves cits = List.map_filter (\<lambda>ci. map_option (\<lambda>s. (s, - ci_quantity ci)) (ci_sku ci)) cits"

definition line_moves :: "item_row list \<Rightarrow> (int \<times> int) list" where
  "line_moves its = List.map_filter (\<lambda>it. map_option (\<lambda>s. (s, oi_quantity it)) (oi_sku it)) its"

lemma cart_moves_simps [simp]:
  "cart_moves [] = []"
  "cart_moves (ci # cits) = (case ci_sku ci of None \<Rightarrow> cart_moves cits
     | Some s \<Rightarrow> (s, - ci_quantity ci) # cart_moves cits)"
  by (auto simp: cart_moves_def map_filter_simps split: option.splits)

lemma line_moves_simps [simp]:
  "line_moves [] = []"
  "line_moves (it # its) = (case oi_sku it of None \<Rightarrow> line_moves its
     | Some s \<Rightarrow> (s, oi_quantity it) # line_moves its)"
  by (auto simp: line_moves_def map_filter_simps split: option.splits)

lemma move_stock_fields:
  assumes "move_stock s d cat = Inr cat'"
  shows "db_options cat' = db_options cat" and "db_products cat' = db_products cat"
    and "db_inventory cat' = db_inventory cat"
  using assms by (auto simp: move_stock_def sku_save_def t_add_def Let_def split: option.splits sum.splits if_splits)

lemma take_stock_InrD:
  assumes "take_stock sku d db = Inr db'"
  shows "db' = db\<lparr>db_cat := db_cat db'\<rparr>" and "db_options (db_cat db') = db_options (db_cat db)"
    and "db_inventory (db_cat db') = db_inventory (db_cat db)"
    and "move_all move_stock (case sku of None \<Rightarrow> ms | Some s \<Rightarrow> (s, d) # ms) (db_cat db)
       = move_all move_stock ms (db_cat db')"
  using assms move_stock_fields by (auto simp: take_stock_def split: option.splits sum.splits)

lemma create_order_item_InrD:
  assumes "create_order_item it db = Inr db'"
  shows "\<exists>i. db' = db\<lparr>db_order_items := db_order_items db'\<rparr>
     \<and> rows (db_order_items db') = rows (db_order_items db) @ [it\<lparr>oi_id := i\<rparr>]" and "0 \<le> oi_quantity it"
  using assms by (auto simp: create_order_item_def t_add_def split: if_splits)

text \<open>The order items made from a list of cart items, up to ids and descriptive columns.\<close>

definition mirrors :: "orders_db \<Rightarrow> int \<Rightarrow> cart_item_row list \<Rightarrow> item_row list \<Rightarrow> bool" where
  "mirrors db oid cits its \<longleftrightarrow>
     map (\<lambda>it. (oi_order it, oi_product it, oi_sku it, oi_unit_price it, oi_quantity it, oi_total it, oi_customization it)) its
   = map (\<lambda>ci. (oid, ci_product ci, ci_sku ci, ci_unit_price ci, ci_quantity ci, cart_item_total db ci, ci_customization ci)) cits"

lemma cart_item_total_cong:
  "db_options (db_cat db') = db_options (db_cat db) \<Longrightarrow> cart_item_total db' = cart_item_total db"
  by (rule ext) (simp add: cart_item_total_def options_of_def)

lemma place_cart_item_InrD:
  assumes "place_cart_item order ci db = Inr db'"
  shows "\<exists>it. rows (db_order_items db') = rows (db_order_items db) @ [it] \<and> mirrors db (o_id order) [ci] [it]"
    and "db' = db\<lparr>db_cat := db_cat db', db_order_items := db_order_items db'\<rparr>"
    and "db_options (db_cat db') = db_options (db_cat db)"
    and "db_inventory (db_cat db') = db_inventory (db_cat db)"
    and "move_all move_stock (cart_moves (ci # cits)) (db_cat db) = move_all move_stock (cart_moves cits) (db_cat db')"
proof -
  obtain p k db1 where p: "t_find p_id (ci_product ci) (db_products (db_cat db)) = Some p"
    and c: "create_order_item (item_from_cart order ci p k db) db = Inr db1"
    and t: "take_stock (ci_sku ci) (- ci_quantity ci) db1 = Inr db'"
    using assms by (auto simp: place_cart_item_def split: option.splits sum.splits)
  have pid: "p_id p = ci_product ci" using p by (rule t_find_pk)
  note T = take_stock_InrD [OF t]
  obtain i where i: "db1 = db\<lparr>db_order_items := db_order_items db1\<rparr>"
    "rows (db_order_items db1) = rows (db_order_items db) @ [(item_from_cart order ci p k db)\<lparr>oi_id := i\<rparr>]"
    using create_order_item_InrD [OF c] by blast
  have cat1: "db_cat db1 = db_cat db" using i(1) by (metis orders_db.select_convs(1) orders_db.surjective orders_db.update_convs(6))
  have items: "db_order_items db' = db_order_items db1" using T(1) by (metis orders_db.select_convs(6) orders_db.surjective orders_db.update_convs(1))
  show "\<exists>it. rows (db_order_items db') = rows (db_order_items db) @ [it] \<and> mirrors db (o_id order) [ci] [it]"
    using i(2) pid items by (auto simp: mirrors_def item_from_cart_def)
  show "db' = db\<lparr>db_cat := db_cat db', db_order_items := db_order_items db'\<rparr>"
    using T(1) i(1) items by (cases db; cases db1; cases db') simp
  show "db_options (db_cat db') = db_options (db_cat db)" using T(2) cat1 by simp
  show "db_inventory (db_cat db') = db_inventory (db_cat db)" using T(3) cat1 by simp
  show "move_all move_stock (cart_moves (ci # cits)) (db_cat db) = move_all move_stock (cart_moves cits) (db_cat db')"
    using T(4) [of "cart_moves cits"] cat1 by simp
qed

lemma place_cart_all:
  "place_all (place_cart_item order) cits db = Inr db' \<Longrightarrow>
     (\<exists>its. rows (db_order_items db') = rows (db_order_items db) @ its \<and> mirrors db (o_id order) cits its)
     \<and> db' = db\<lparr>db_cat := db_cat db', db_order_items := db_order_items db'\<rparr>
     \<and> db_inventory (db_cat db') = db_inventory (db_cat db)
     \<and> move_all move_stock (cart_moves cits) (db_cat db) = Inr (db_cat db')"
proof (induction cits arbitrary: db)
  case Nil
  then show ?case by (simp add: mirrors_def)
next
  case (Cons ci cits)
  then obtain db1 where p: "place_cart_item order ci db = Inr db1"
    and r: "place_all (place_cart_item order) cits db1 = Inr db'"
    by (auto split: sum.splits)
  note P = place_cart_item_InrD [OF p]
  note IH = Cons.IH [OF r]
  obtain it its where it: "rows (db_order_items db1) = rows (db_order_items db) @ [it]" "mirrors db (o_id order) [ci] [it]"
    and its: "rows (db_order_items db') = rows (db_order_items db1) @ its" "mirrors db1 (o_id order) cits its"
    using P(1) IH by blast
  have "mirrors db (o_id order) (ci # cits) (it # its)"
    using it(2) its(2) cart_item_total_cong [OF P(3)] by (simp add: mirrors_def)
  moreover have "rows (db_order_items db') = rows (db_order_items db) @ (it # its)" using it(1) its(1) by simp
  moreover have "db' = db\<lparr>db_cat := db_cat db', db_order_items := db_order_items db'\<rparr>"
    using P(2) IH by (cases db; cases db1; cases db') simp
  ultimately show ?case using P(4) P(5) [of cits] IH by metis
qed

lemma mirrors_totals:
  assumes "mirrors db oid cits its"
  shows "map oi_total its = map (cart_item_total db) cits" and "\<forall>it \<in> set its. oi_order it = oid"
    and "line_moves its = map (\<lambda>(j, d). (j, - d)) (cart_moves cits)"
proof -
  have len: "length its = length cits" using assms unfolding mirrors_def by (rule map_eq_imp_length_eq)
  from len assms show "map oi_total its = map (cart_item_total db) cits"
    unfolding mirrors_def by (induction rule: list_induct2) auto
  from len assms show "\<forall>it \<in> set its. oi_order it = oid"
    unfolding mirrors_def by (induction rule: list_induct2) auto
  from len assms show "line_moves its = map (\<lambda>(j, d). (j, - d)) (cart_moves cits)"
    unfolding mirrors_def by (induction rule: list_induct2) (auto split: option.splits)
qed

lemma restore_stock_moves:
  "restore_stock its db = Inr db' \<Longrightarrow>
     db' = db\<lparr>db_cat := db_cat db'\<rparr> \<and> move_all move_stock (line_moves its) (db_cat db) = Inr (db_cat db')
     \<and> db_inventory (db_cat db') = db_inventory (db_cat db)"
proof (induction its arbitrary: db)
  case Nil
  then show ?case by simp
next
  case (Cons it its)
  then obtain db1 where t: "take_stock (oi_sku it) (oi_quantity it) db = Inr db1" and r: "restore_stock its db1 = Inr db'"
    by (auto split: sum.splits)
  note T = take_stock_InrD [OF t]
  note IH = Cons.IH [OF r]
  have "db' = db\<lparr>db_cat := db_cat db'\<rparr>" using T(1) IH by (cases db; cases db1; cases db') simp
  with T(3) T(4) [of "line_moves its"] IH show ?case by simp
qed

text \<open>What one successful cancellation does to the stock.\<close>

lemma cancel_rows_InrD:
  assumes "cancel_rows now hex u notes order db = Inr (o1, db')" and "catalog_wf (db_cat db)"
    and "o_id order \<noteq> 0" and "o_number order \<noteq> []"
  shows "o1 = order\<lparr>o_status := Cancelled\<rparr>" and "catalog_wf (db_cat db')"
    and "stock_at (db_cat db') k = map_option (\<lambda>v. v + total_of k (line_moves (items_of_order (o_id order) db)))
           (stock_at (db_cat db) k)"
    and "db_order_items db' = db_order_items db"
    and "db_orders db' = t_save o_id o1 (db_orders db)"
    and "move_all move_stock (line_moves (items_of_order (o_id order) db)) (db_cat db) = Inr (db_cat db')"
proof -
  let ?c = "order\<lparr>o_status := Cancelled\<rparr>"
  obtain ox db1 db2 where s: "order_save now hex ?c db = Inr (ox, db1)"
    and r: "restore_stock (items_of_order (o_id ox) db1) db1 = Inr db2"
    and e: "o1 = ox" "db' = log_status now (o_id ox) (o_status order) Cancelled notes (Some (u_id u)) db2"
    using assms(1) by (auto simp: cancel_rows_def split: sum.splits prod.splits)
  have ox: "ox = ?c" and db1: "db1 = db\<lparr>db_orders := t_save o_id ?c (db_orders db)\<rparr>"
    using order_save_oldD [OF s] assms(3,4) by simp_all
  have it: "items_of_order (o_id ox) db1 = items_of_order (o_id order) db" by (simp add: ox db1 items_of_order_def)
  note R = restore_stock_moves [OF r]
  have cat: "db_cat db' = db_cat db2" by (simp add: e log_status_def)
  have mv: "move_all move_stock (line_moves (items_of_order (o_id order) db)) (db_cat db) = Inr (db_cat db')"
    using R it cat by (simp add: db1)
  then show "move_all move_stock (line_moves (items_of_order (o_id order) db)) (db_cat db) = Inr (db_cat db')" .
  show "o1 = order\<lparr>o_status := Cancelled\<rparr>" using e ox by simp
  show "catalog_wf (db_cat db')" by (rule stock_ledger.move_all_valid [OF assms(2) mv])
  show "stock_at (db_cat db') k = map_option (\<lambda>v. v + total_of k (line_moves (items_of_order (o_id order) db)))
           (stock_at (db_cat db) k)"
    by (rule stock_ledger.move_all_level [OF assms(2) mv])
  have "db2 = db1\<lparr>db_cat := db_cat db2\<rparr>" using R by blast
  then have "db_order_items db2 = db_order_items db1" "db_orders db2 = db_orders db1"
    by (cases db1; cases db2; simp)+
  then show "db_order_items db' = db_order_items db" "db_orders db' = t_save o_id o1 (db_orders db)"
    by (simp_all add: e log_status_def db1 ox)
qed

lemma t_save_last:
  assumes "t_wf pk t" and "pk r = seq t + 1" and "pk r' = seq t + 1"
  shows "t_save pk r' \<lparr>rows = rows t @ [r], seq = n\<rparr> = \<lparr>rows = rows t @ [r'], seq = n\<rparr>"
proof -
  have "pk x \<noteq> seq t + 1" if "x \<in> set (rows t)" for x using assms(1) that by (auto simp: t_wf_def)
  then have m: "map (\<lambda>x. if pk x = pk r' then r' else x) (rows t) = rows t"
    using assms(3) by (intro map_idI) auto
  have "t_find pk (pk r') \<lparr>rows = rows t @ [r], seq = n\<rparr> \<noteq> None"
    using assms(2,3) by (simp add: t_find_None)
  then show ?thesis using m assms(2,3) by (auto simp: t_save_def t_upd_def)
qed

definition delivery_fee_of :: "order_type \<Rightarrow> int \<Rightarrow> orders_db \<Rightarrow> int" where
  "delivery_fee_of ty shop db =
     (if ty = Delivery then (case t_find s_id shop (db_shops (db_org db)) of None \<Rightarrow> 0 | Some s \<Rightarrow> s_delivery_fee s) else 0)"

lemma calculate_totals_InrD:
  assumes "calculate_order_totals now hex order db = Inr (o1, db')" and "o_id order \<noteq> 0" and "o_number order \<noteq> []"
  shows "o1 = order\<lparr>o_subtotal := sum_list (map oi_total (items_of_order (o_id order) db)),
      o_delivery_fee := delivery_fee_of (o_type order) (o_shop order) db,
      o_total := sum_list (map oi_total (items_of_order (o_id order) db))
        + delivery_fee_of (o_type order) (o_shop order) db - o_discount order\<rparr>"
    and "db' = db\<lparr>db_orders := t_save o_id o1 (db_orders db)\<rparr>"
proof -
  let ?o = "order\<lparr>o_subtotal := sum_list (map oi_total (items_of_order (o_id order) db)),
      o_delivery_fee := delivery_fee_of (o_type order) (o_shop order) db,
      o_total := sum_list (map oi_total (items_of_order (o_id order) db))
        + delivery_fee_of (o_type order) (o_shop order) db - o_discount order\<rparr>"
  have s: "order_save now hex ?o db = Inr (o1, db')"
    using assms(1) by (auto simp: calculate_order_totals_def delivery_fee_of_def Let_def split: option.splits sum.splits if_splits)
  have "o_id ?o \<noteq> 0" "o_number ?o \<noteq> []" using assms(2,3) by simp_all
  from order_save_oldD [OF s this] show "o1 = ?o" and "db' = db\<lparr>db_orders := t_save o_id o1 (db_orders db)\<rparr>"
    by simp_all
qed

lemma create_from_cart_InrD:
  assumes c: "create_order now hex (Some shop) u b db = Inr (o1, db')" and nil: "ob_items b = []"
    and t: "truthy_int (ob_cart b)"
    and g: "qs_get ''Cart'' (\<lambda>c. c_id c = the (ob_cart b) \<and> c_user c = u_id u) (db_carts db) = Inr cart"
    and wf: "orders_wf db"
  obtains its where "mirrors db (seq (db_orders db) + 1) (items_of_cart (c_id cart) db) its"
    "items_of_order (seq (db_orders db) + 1) db' = its"
    "o1 = (new_order shop u b)\<lparr>o_number := generate_order_number now hex, o_id := seq (db_orders db) + 1, o_at := now,
       o_subtotal := sum_list (map oi_total its), o_delivery_fee := delivery_fee_of (or_default (ob_type b) DineIn) shop db,
       o_total := sum_list (map oi_total its) + delivery_fee_of (or_default (ob_type b) DineIn) shop db\<rparr>"
    "rows (db_orders db') = rows (db_orders db) @ [o1]"
    "db_cart_items db' = t_del (\<lambda>ci. ci_cart ci = c_id cart) (db_cart_items db)"
    "move_all move_stock (cart_moves (items_of_cart (c_id cart) db)) (db_cat db) = Inr (db_cat db')"
    "\<exists>l. rows (db_status_logs db') = rows (db_status_logs db) @ [l] \<and> sl_order l = o_id o1 \<and> sl_old l = Pending \<and> sl_new l = Pending"
    "db_inventory (db_cat db') = db_inventory (db_cat db)"
proof -
  let ?n = "seq (db_orders db) + 1" and ?cits = "items_of_cart (c_id cart) db"
  have wfo: "t_wf o_id (db_orders db)" using wf by (simp add: orders_wf_def)
  then have n0: "?n \<noteq> 0" by (simp add: t_wf_def)
  obtain o0 db1 db2 db3 where s: "order_save now hex (new_order shop u b) db = Inr (o0, db1)"
    and p: "place_all (place_cart_item o0) (items_of_cart (c_id cart) db1) db1 = Inr db2"
    and k: "calculate_order_totals now hex o0 (db2\<lparr>db_cart_items := t_del (\<lambda>ci. ci_cart ci = c_id cart) (db_cart_items db2)\<rparr>) = Inr (o1, db3)"
    and f: "order_finish now hex u [] o1 db3 = Inr (o1, db')"
  proof -
    obtain r db3 where "order_cart_step now hex u (the (ob_cart b)) (new_order shop u b) db = Inr (Inr (r, db3))"
      and f: "order_finish now hex u [] r db3 = Inr (o1, db')"
      using c t nil g by (auto simp: create_order_def order_cart_step_def split: sum.splits)
    then obtain o0 db1 db2 where s: "order_save now hex (new_order shop u b) db = Inr (o0, db1)"
      and p: "place_all (place_cart_item o0) (items_of_cart (c_id cart) db1) db1 = Inr db2"
      and k: "calculate_order_totals now hex o0 (db2\<lparr>db_cart_items := t_del (\<lambda>ci. ci_cart ci = c_id cart) (db_cart_items db2)\<rparr>) = Inr (r, db3)"
      using g by (auto simp: order_cart_step_def create_order_items_from_cart_def split: sum.splits)
    have "o0 = (new_order shop u b)\<lparr>o_number := generate_order_number now hex, o_id := ?n, o_at := now\<rparr>"
      using order_save_newD [OF s] by (simp add: new_order_def)
    then have "o_id o0 \<noteq> 0" "o_number o0 \<noteq> []" using n0 generate_order_number_not_Nil by simp_all
    from calculate_totals_InrD(1) [OF k this] \<open>o_id o0 \<noteq> 0\<close> have "o_id r \<noteq> 0" by simp
    then have "r = o1" using f by (simp add: order_finish_def ensure_saved_def)
    with s p k f show thesis using that by simp
  qed
  have o0: "o0 = (new_order shop u b)\<lparr>o_number := generate_order_number now hex, o_id := ?n, o_at := now\<rparr>"
    and db1: "db1 = db\<lparr>db_orders := \<lparr>rows = rows (db_orders db) @ [o0], seq = ?n\<rparr>\<rparr>"
    using order_save_newD [OF s] by (simp_all add: new_order_def)
  have id0: "o_id o0 = ?n" "o_number o0 \<noteq> []" using o0 generate_order_number_not_Nil by simp_all
  have ct: "items_of_cart (c_id cart) db1 = ?cits" by (simp add: db1 items_of_cart_def)
  note P = place_cart_all [OF p, unfolded ct]
  obtain its where its: "rows (db_order_items db2) = rows (db_order_items db1) @ its" and mr1: "mirrors db1 (o_id o0) ?cits its"
    using P by blast
  have mr: "mirrors db ?n ?cits its"
    using mr1 id0 cart_item_total_cong [of db1 db] by (simp add: db1 mirrors_def)
  have old: "filter (\<lambda>it. oi_order it = ?n) (rows (db_order_items db)) = []"
    using wf by (auto simp: orders_wf_def filter_empty_conv)
  have new: "filter (\<lambda>it. oi_order it = ?n) its = its"
    using mirrors_totals(2) [OF mr] by simp
  have items: "filter (\<lambda>it. oi_order it = ?n) (rows (db_order_items db2)) = its"
    using its old new by (simp add: db1)
  let ?db2 = "db2\<lparr>db_cart_items := t_del (\<lambda>ci. ci_cart ci = c_id cart) (db_cart_items db2)\<rparr>"
  have id0': "o_id o0 \<noteq> 0" using id0 n0 by simp
  note K = calculate_totals_InrD [OF k id0' id0(2)]
  have db2: "db2 = db1\<lparr>db_cat := db_cat db2, db_order_items := db_order_items db2\<rparr>" using P by blast
  have eqs: "db_orders db2 = db_orders db1" "db_org db2 = db_org db" "db_cart_items db2 = db_cart_items db"
    "db_status_logs db2 = db_status_logs db"
    using db2 db1 by (cases db; cases db1; cases db2; simp)+
  have fee: "delivery_fee_of (o_type o0) (o_shop o0) ?db2 = delivery_fee_of (or_default (ob_type b) DineIn) shop db"
    by (simp add: delivery_fee_of_def eqs o0 new_order_def)
  have sub: "items_of_order (o_id o0) ?db2 = its" using items id0 by (simp add: items_of_order_def qs_filter_def)
  have o1: "o1 = o0\<lparr>o_subtotal := sum_list (map oi_total its), o_delivery_fee := delivery_fee_of (or_default (ob_type b) DineIn) shop db,
       o_total := sum_list (map oi_total its) + delivery_fee_of (or_default (ob_type b) DineIn) shop db\<rparr>"
    using K(1) unfolding sub fee by (simp add: o0 new_order_def)
  have id1: "o_id o1 = ?n" using o1 id0 by simp
  have db3: "db3 = ?db2\<lparr>db_orders := \<lparr>rows = rows (db_orders db) @ [o1], seq = ?n\<rparr>\<rparr>"
    using K(2) t_save_last [OF wfo id0(1) id1] by (simp add: eqs db1)
  have db': "db' = log_status now (o_id o1) Pending Pending created_notes (Some (u_id u)) db3"
    using f id1 n0 by (simp add: order_finish_def ensure_saved_def)
  show thesis
  proof (rule that [OF mr])
    show "items_of_order ?n db' = its"
      using items by (simp add: db' log_status_def db3 items_of_order_def qs_filter_def)
    show "move_all move_stock (cart_moves ?cits) (db_cat db) = Inr (db_cat db')"
      using P by (simp add: db1 db' log_status_def db3)
    show "db_inventory (db_cat db') = db_inventory (db_cat db)"
      using P by (simp add: db1 db' log_status_def db3)
    show "\<exists>l. rows (db_status_logs db') = rows (db_status_logs db) @ [l] \<and> sl_order l = o_id o1 \<and> sl_old l = Pending \<and> sl_new l = Pending"
      by (simp add: db' log_status_def db3 t_add_def eqs)
    show "db_cart_items db' = t_del (\<lambda>ci. ci_cart ci = c_id cart) (db_cart_items db)"
      by (simp add: db' log_status_def db3 eqs)
    show "rows (db_orders db') = rows (db_orders db) @ [o1]" by (simp add: db' log_status_def db3)
    show "o1 = (new_order shop u b)\<lparr>o_number := generate_order_number now hex, o_id := ?n, o_at := now,
       o_subtotal := sum_list (map oi_total its), o_delivery_fee := delivery_fee_of (or_default (ob_type b) DineIn) shop db,
       o_total := sum_list (map oi_total its) + delivery_fee_of (or_default (ob_type b) DineIn) shop db\<rparr>"
      using o1 o0 by simp
  qed
qed

subsection \<open>Carts\<close>

lemma qs_get_DoesNotExistD:
  assumes "qs_get m P t = Inl (DoesNotExist m')"
  shows "\<forall>r \<in> set (rows t). \<not> P r"
proof -
  have "m' = m" using qs_get_exn [OF assms] by simp
  with assms show ?thesis by (simp only: qs_get_DoesNotExist)
qed

lemma unique_on_t_save_same:
  assumes "t_wf pk t" and "unique_on key t" and "t_find pk (pk r) t = Some r0" and "key r0 = key r"
  shows "unique_on key (t_save pk r t)"
proof (rule unique_on_t_save [OF assms(1,2)])
  show "t_find pk (pk r) t \<noteq> None" using assms(3) by simp
  fix x assume x: "x \<in> set (rows t)" "pk x \<noteq> pk r"
  have r0: "r0 \<in> set (rows t)" "pk r0 = pk r" using assms(3) t_find_mem t_find_pk by metis+
  show "key x \<noteq> key r"
  proof
    assume "key x = key r"
    then have "x = r0" using assms(2,4) x(1) r0(1) by (metis distinct_map inj_onD unique_on_def)
    with x(2) r0(2) show False by simp
  qed
qed

lemma unique_on_t_add:
  "unique_on key t \<Longrightarrow> \<forall>x \<in> set (rows t). key x \<noteq> key (f (seq t + 1)) \<Longrightarrow> unique_on key (snd (t_add f t))"
  by (auto simp: unique_on_def t_add_def)

definition line_key :: "cart_item_row \<Rightarrow> int \<times> int \<times> int option" where
  "line_key ci = (ci_cart ci, ci_product ci, ci_sku ci)"

definition cart_inv :: "orders_db \<Rightarrow> bool" where
  "cart_inv db \<longleftrightarrow> t_wf c_id (db_carts db) \<and> unique_on c_user (db_carts db)
     \<and> t_wf ci_id (db_cart_items db) \<and> unique_on line_key (db_cart_items db)
     \<and> (\<forall>ci \<in> set (rows (db_cart_items db)). 1 \<le> ci_quantity ci)"

lemma get_cart_InrD:
  assumes "get_cart uid db = Inr (c, db')" and "cart_inv db"
  shows "cart_inv db'" and "c_user c = uid" and "c \<in> set (rows (db_carts db'))"
    and "db_cart_items db' = db_cart_items db" and "db_cat db' = db_cat db"
proof -
  have all: "cart_inv db' \<and> c_user c = uid \<and> c \<in> set (rows (db_carts db')) \<and> db_cart_items db' = db_cart_items db
    \<and> db_cat db' = db_cat db"
  proof (cases "qs_get ''Cart'' (\<lambda>c. c_user c = uid) (db_carts db)")
    case (Inl e)
    with assms(1) obtain m where m: "qs_get ''Cart'' (\<lambda>c. c_user c = uid) (db_carts db) = Inl (DoesNotExist m)"
      by (cases e) (simp_all add: get_cart_def)
    have no: "\<forall>r \<in> set (rows (db_carts db)). c_user r \<noteq> uid" by (rule qs_get_DoesNotExistD [OF m])
    let ?f = "\<lambda>i. \<lparr>c_id = i, c_user = uid, c_session = None\<rparr>"
    have "unique_on c_user (snd (t_add ?f (db_carts db)))"
      using assms(2) no by (intro unique_on_t_add) (simp_all add: cart_inv_def)
    moreover have "t_wf c_id (snd (t_add ?f (db_carts db)))"
      using assms(2) by (intro t_wf_t_add) (simp_all add: cart_inv_def)
    moreover have "c = ?f (seq (db_carts db) + 1)" "db' = db\<lparr>db_carts := snd (t_add ?f (db_carts db))\<rparr>"
      using assms(1) m by (auto simp: get_cart_def t_add_def)
    ultimately show ?thesis using assms(2) by (simp add: cart_inv_def t_add_def)
  next
    case (Inr r)
    with assms show ?thesis by (auto simp: get_cart_def dest: qs_get_InrD)
  qed
  then show "cart_inv db'" and "c_user c = uid" and "c \<in> set (rows (db_carts db'))"
    and "db_cart_items db' = db_cart_items db" and "db_cat db' = db_cat db" by blast+
qed

definition line_at :: "orders_db \<Rightarrow> int \<times> int \<times> int option \<Rightarrow> cart_item_row option" where
  "line_at db key = find (\<lambda>ci. line_key ci = key) (rows (db_cart_items db))"

lemma find_unique_key:
  assumes "distinct (map key xs)" and "x \<in> set xs"
  shows "find (\<lambda>y. key y = key x) xs = Some x"
  using assms by (induction xs) (auto simp: image_iff)

lemma line_at_iff:
  assumes "cart_inv db"
  shows "line_at db key = Some ci \<longleftrightarrow> ci \<in> set (rows (db_cart_items db)) \<and> line_key ci = key"
proof -
  have d: "distinct (map line_key (rows (db_cart_items db)))" using assms by (simp add: cart_inv_def unique_on_def)
  show ?thesis using find_unique_key [OF d] by (auto simp: line_at_def find_Some_iff)
qed

lemma line_at_None: "line_at db key = None \<longleftrightarrow> (\<forall>ci \<in> set (rows (db_cart_items db)). line_key ci \<noteq> key)"
  by (auto simp: line_at_def find_None_iff)

text \<open>What a successful addition does: the one line of the product and SKU takes the quantity.\<close>

lemma add_to_cart_InrD:
  assumes a: "add_to_cart cart pid b db = Inr (ci, db')" and inv: "cart_inv db" and q: "1 \<le> ad_quantity b"
  shows "cart_inv db'"
    and "line_at db' = (line_at db)((c_id cart, pid, ad_sku b) := Some ci)"
    and "case line_at db (c_id cart, pid, ad_sku b) of
        None \<Rightarrow> ci_quantity ci = ad_quantity b \<and> get_unit_price pid (ad_sku b) (db_cat db) = Inr (ci_unit_price ci)
      | Some c0 \<Rightarrow> ci_quantity ci = ci_quantity c0 + ad_quantity b \<and> ci_unit_price ci = ci_unit_price c0"
proof -
  let ?key = "(c_id cart, pid, ad_sku b)"
  let ?P = "\<lambda>x. ci_cart x = c_id cart \<and> ci_product x = pid \<and> ci_sku x = ad_sku b"
  have P: "?P x \<longleftrightarrow> line_key x = ?key" for x by (simp add: line_key_def)
  have wf: "t_wf ci_id (db_cart_items db)" and un: "unique_on line_key (db_cart_items db)"
    using inv by (simp_all add: cart_inv_def)
  obtain price c1 t where price: "get_unit_price pid (ad_sku b) (db_cat db) = Inr price"
    and step: "(case qs_get ''CartItem'' ?P (db_cart_items db) of
                   Inr ci \<Rightarrow>
                     let ci' = ci\<lparr>ci_quantity := ci_quantity ci + ad_quantity b\<rparr>
                     in if cart_item_ok ci' then Inr (ci', t_save ci_id ci' (db_cart_items db))
                        else Inl (DataError ''cart_items'')
                 | Inl (DoesNotExist m) \<Rightarrow>
                     let (ci, t) = t_add (\<lambda>i. \<lparr>ci_id = i, ci_cart = c_id cart, ci_product = pid,
                            ci_sku = ad_sku b, ci_quantity = ad_quantity b, ci_options = [],
                            ci_customization = ad_custom b, ci_unit_price = price\<rparr>) (db_cart_items db)
                     in if cart_item_ok ci then Inr (ci, t) else Inl (DataError ''cart_items'')
                 | Inl e \<Rightarrow> Inl e) = Inr (c1, t)"
    and ci: "ci = (if ad_options b = [] then c1 else c1\<lparr>ci_options := remdups (ad_options b)\<rparr>)"
    and db': "db' = db\<lparr>db_cart_items := t_save ci_id ci t\<rparr>"
    using a unfolding add_to_cart_def by (auto simp: Let_def split: sum.splits if_splits prod.splits)
  have same: "ci_id ci = ci_id c1 \<and> line_key ci = line_key c1 \<and> ci_quantity ci = ci_quantity c1 \<and> ci_unit_price ci = ci_unit_price c1"
    using ci by (simp add: line_key_def)
  have main: "t_wf ci_id t \<and> unique_on line_key t \<and> t_find ci_id (ci_id c1) t = Some c1 \<and> line_key c1 = ?key
     \<and> 1 \<le> ci_quantity c1 \<and> (\<forall>x \<in> set (rows t). 1 \<le> ci_quantity x)
     \<and> (\<forall>x. line_key x \<noteq> ?key \<longrightarrow> (x \<in> set (rows t) \<longleftrightarrow> x \<in> set (rows (db_cart_items db))))
     \<and> (case line_at db ?key of
        None \<Rightarrow> ci_quantity c1 = ad_quantity b \<and> ci_unit_price c1 = price
      | Some c0 \<Rightarrow> ci_quantity c1 = ci_quantity c0 + ad_quantity b \<and> ci_unit_price c1 = ci_unit_price c0)"
  proof (cases "qs_get ''CartItem'' ?P (db_cart_items db)")
    case (Inr c0)
    then have c0: "c0 \<in> set (rows (db_cart_items db))" "line_key c0 = ?key" using P by (auto dest: qs_get_InrD)
    then have la: "line_at db ?key = Some c0" using line_at_iff [OF inv] by blast
    have c1: "c1 = c0\<lparr>ci_quantity := ci_quantity c0 + ad_quantity b\<rparr>" and t: "t = t_save ci_id c1 (db_cart_items db)"
      using step Inr by (auto simp: Let_def split: if_splits)
    have f0: "t_find ci_id (ci_id c1) (db_cart_items db) = Some c0"
      using t_wf_find_unique [OF wf c0(1)] by (simp add: c1)
    have k1: "line_key c0 = line_key c1" by (simp add: c1 line_key_def)
    have q0: "1 \<le> ci_quantity c0" using inv c0(1) by (simp add: cart_inv_def)
    have mem: "x \<in> set (rows t) \<longleftrightarrow> x = c1 \<or> x \<in> set (rows (db_cart_items db)) \<and> ci_id x \<noteq> ci_id c1" for x
      using f0 t_find_mem [OF f0] by (auto simp: t t_save_def t_upd_def c1)
    have "ci_id x \<noteq> ci_id c1" if "line_key x \<noteq> ?key" "x \<in> set (rows (db_cart_items db))" for x
      using t_wf_find_unique [OF wf that(2)] that(1) f0 c0(2) by auto
    then have "\<forall>x. line_key x \<noteq> ?key \<longrightarrow> (x \<in> set (rows t) \<longleftrightarrow> x \<in> set (rows (db_cart_items db)))"
      using mem k1 c0(2) by auto
    moreover have "t_wf ci_id t" using wf f0 by (simp add: t t_wf_t_save)
    moreover have "unique_on line_key t" unfolding t by (rule unique_on_t_save_same [where r = c1, OF wf un f0 k1])
    moreover have "\<forall>x \<in> set (rows t). 1 \<le> ci_quantity x" using mem q0 q inv by (auto simp: c1 cart_inv_def)
    ultimately show ?thesis using la k1 c0(2) q0 q by (simp add: t_find_t_save t) (simp add: c1)
  next
    case (Inl e)
    with step obtain m where m: "qs_get ''CartItem'' ?P (db_cart_items db) = Inl (DoesNotExist m)"
      by (cases e) auto
    have no: "\<forall>x \<in> set (rows (db_cart_items db)). line_key x \<noteq> ?key"
      using qs_get_DoesNotExistD [OF m] unfolding P .
    then have la: "line_at db ?key = None" by (simp add: line_at_None)
    let ?f = "\<lambda>i. \<lparr>ci_id = i, ci_cart = c_id cart, ci_product = pid, ci_sku = ad_sku b, ci_quantity = ad_quantity b,
                ci_options = [], ci_customization = ad_custom b, ci_unit_price = price\<rparr>"
    have c1: "c1 = ?f (seq (db_cart_items db) + 1)" and t: "t = snd (t_add ?f (db_cart_items db))"
      using step m by (auto simp: Let_def t_add_def split: if_splits)
    have k1: "line_key c1 = ?key" by (simp add: c1 line_key_def)
    have mem: "x \<in> set (rows t) \<longleftrightarrow> x = c1 \<or> x \<in> set (rows (db_cart_items db))" for x
      by (auto simp: t t_add_def c1)
    have "t_find ci_id (ci_id c1) t = Some c1"
      using t_find_t_add [OF wf, of ?f] by (simp add: t c1)
    moreover have "t_wf ci_id t" unfolding t using wf by (rule t_wf_t_add) simp
    moreover have "unique_on line_key t"
      unfolding t using un no k1 by (intro unique_on_t_add) (simp_all add: c1)
    moreover have "\<forall>x. line_key x \<noteq> ?key \<longrightarrow> (x \<in> set (rows t) \<longleftrightarrow> x \<in> set (rows (db_cart_items db)))"
      using mem k1 by auto
    moreover have "\<forall>x \<in> set (rows t). 1 \<le> ci_quantity x" using mem q inv by (auto simp: c1 cart_inv_def)
    ultimately show ?thesis using la k1 q by (simp add: c1)
  qed
  then have t: "t_wf ci_id t" "unique_on line_key t" "t_find ci_id (ci_id ci) t = Some c1" "line_key c1 = line_key ci"
    using same by simp_all
  have mem: "x \<in> set (rows (t_save ci_id ci t)) \<longleftrightarrow> x = ci \<or> x \<in> set (rows t) \<and> ci_id x \<noteq> ci_id ci" for x
    using t(3) t_find_mem [OF t(3)] t_find_pk [OF t(3)] by (auto simp: t_save_def t_upd_def)
  have "unique_on line_key (t_save ci_id ci t)" by (rule unique_on_t_save_same [where r = ci, OF t])
  moreover have "t_wf ci_id (t_save ci_id ci t)" using t by (simp add: t_wf_t_save)
  ultimately show inv': "cart_inv db'" using inv main mem same by (auto simp: cart_inv_def db')
  show "line_at db' = (line_at db)(?key := Some ci)"
  proof
    fix key show "line_at db' key = ((line_at db)(?key := Some ci)) key"
    proof (cases "key = ?key")
      case True
      then show ?thesis using line_at_iff [OF inv', of key ci] mem main same by (simp add: db')
    next
      case False
      have "ci_id x \<noteq> ci_id ci" if "x \<in> set (rows t)" "line_key x = key" for x
        using t_wf_find_unique [OF t(1) that(1)] t(3) that(2) False main by auto
      then have "line_at db' key = Some x \<longleftrightarrow> line_at db key = Some x" for x
        using line_at_iff [OF inv'] line_at_iff [OF inv] mem main False same by (auto simp: db')
      then show ?thesis using False by (metis fun_upd_apply not_Some_eq)
    qed
  qed
  show "case line_at db ?key of
        None \<Rightarrow> ci_quantity ci = ad_quantity b \<and> get_unit_price pid (ad_sku b) (db_cat db) = Inr (ci_unit_price ci)
      | Some c0 \<Rightarrow> ci_quantity ci = ci_quantity c0 + ad_quantity b \<and> ci_unit_price ci = ci_unit_price c0"
    using main same price by (auto split: option.splits)
qed

datatype cart_request = AddReq request add_body | ClearReq request

fun handle_cart :: "cart_request \<Rightarrow> orders_db \<Rightarrow> unit reply \<times> orders_db" where
  "handle_cart (AddReq rq b) db =
     (case add_item rq b db of
        (OK n ci, db') \<Rightarrow> (OK n (), db') | (Reject n e, db') \<Rightarrow> (Reject n e, db') | (Crash e, db') \<Rightarrow> (Crash e, db'))"
| "handle_cart (ClearReq rq) db = clear_cart rq db"

lemma add_item_inv: "cart_inv db \<Longrightarrow> cart_inv (snd (add_item rq b db))"
  using get_cart_InrD(1) add_to_cart_InrD(1)
  by (fastforce simp: add_item_def split: option.splits sum.splits)

lemma clear_cart_inv:
  assumes "cart_inv db"
  shows "cart_inv (snd (clear_cart rq db))"
proof -
  have "cart_inv (db1\<lparr>db_cart_items := t_del P (db_cart_items db1)\<rparr>)" if "cart_inv db1" for db1 P
    using that by (auto simp: cart_inv_def t_wf_t_del unique_on_def rows_t_del distinct_map_filter)
  then show ?thesis
    using assms get_cart_InrD(1) by (auto simp: clear_cart_def split: option.splits sum.splits)
qed

interpretation cart_system: guarded_system handle_cart cart_inv
proof unfold_locales
  fix db op
  assume "cart_inv db"
  then show "cart_inv (snd (handle_cart op db))"
    using add_item_inv clear_cart_inv
    by (cases op) (simp_all split: prod.splits reply.splits, metis snd_conv)
qed

end
