(* ===== verification/Promotions.thy ===== *)
theory Promotions
  imports Orders
begin

text \<open>
  Coupons and promotions: \<open>apps/promotions/models.py\<close>, \<open>services.py\<close>, \<open>serializers.py\<close>, \<open>api.py\<close>.

  The state \<open>promo_db\<close> holds the orders and the coupons, the coupons users hold, the granting rules
  and the promotions.  Amounts are hundredths; a computed discount is a rational, since a percentage
  has more places.  The clock is the argument \<open>now\<close>.
\<close>

section \<open>Rows and state\<close>

datatype coupon_type = FixedCoupon | PercentageCoupon | ShippingCoupon

datatype apply_to = ApplyAll | ApplyCategory | ApplyProduct

record coupon_row =
  cp_id :: int
  cp_name :: string
  cp_code :: string
  cp_type :: coupon_type
  cp_value :: int
  cp_max :: "int option"
  cp_min :: int
  cp_apply :: apply_to
  cp_apply_ids :: "int list"
  cp_total :: int
  cp_used :: int
  cp_from :: int
  cp_until :: int
  cp_limit :: int
  cp_active :: bool
  cp_shop :: int

datatype holding_status = HoldingAvailable | HoldingUsed | HoldingExpired

record holding_row =
  uc_id :: int
  uc_user :: int
  uc_coupon :: int
  uc_status :: holding_status
  uc_used_at :: "int option"
  uc_order :: "int option"

datatype grant_type = AutoRegister | FirstOrder | Birthday | ManualGrant

record grant_row =
  cr_id :: int
  cr_name :: string
  cr_type :: grant_type
  cr_coupon :: int
  cr_shop :: int
  cr_active :: bool

datatype promotion_type = DiscountPromo | GiftPromo | ComboPromo | FlashSale

record promotion_row =
  pn_id :: int
  pn_name :: string
  pn_type :: promotion_type
  pn_amount :: "int option"
  pn_quantity :: "int option"
  pn_rate :: "int option"
  pn_discount :: "int option"
  pn_gift :: "int option"
  pn_gift_quantity :: int
  pn_products :: "int list"
  pn_categories :: "int list"
  pn_from :: int
  pn_until :: int
  pn_active :: bool
  pn_shop :: int

record promo_db =
  db_pord :: orders_db
  db_coupons :: "coupon_row tbl"
  db_holdings :: "holding_row tbl"
  db_grants :: "grant_row tbl"
  db_promos :: "promotion_row tbl"

definition is_available :: "int \<Rightarrow> coupon_row \<Rightarrow> bool" where
  "is_available now c \<longleftrightarrow> cp_active c \<and> cp_used c < cp_total c \<and> cp_from c \<le> now \<and> now \<le> cp_until c"

definition is_valid_promo :: "int \<Rightarrow> promotion_row \<Rightarrow> bool" where
  "is_valid_promo now p \<longleftrightarrow> pn_active p \<and> pn_from p \<le> now \<and> now \<le> pn_until p"

section \<open>Claiming coupons\<close>

text \<open>\<open>UserCoupon.objects.create\<close> with its \<open>unique_together\<close>.\<close>

definition holding_create :: "int \<Rightarrow> int \<Rightarrow> holding_status \<Rightarrow> promo_db \<Rightarrow> (holding_row \<times> promo_db) res" where
  "holding_create uid cid st db =
     (if qs_exists (\<lambda>h. uc_user h = uid \<and> uc_coupon h = cid) (db_holdings db)
      then Inl (IntegrityError ''user_coupons'')
      else let (h, t) = t_add (\<lambda>i. \<lparr>uc_id = i, uc_user = uid, uc_coupon = cid, uc_status = st,
                               uc_used_at = None, uc_order = None\<rparr>) (db_holdings db)
           in Inr (h, db\<lparr>db_holdings := t\<rparr>))"

definition coupon_save :: "coupon_row \<Rightarrow> promo_db \<Rightarrow> promo_db res" where
  "coupon_save c db =
     (if int4_ok (cp_used c) then Inr (db\<lparr>db_coupons := t_save cp_id c (db_coupons db)\<rparr>)
      else Inl (DataError ''used_quantity''))"

text \<open>\<open>CouponService.claim_coupon\<close>.\<close>

definition claim_coupon :: "int \<Rightarrow> int \<Rightarrow> int option \<Rightarrow> string \<Rightarrow> promo_db \<Rightarrow> (holding_row \<times> promo_db) res" where
  "claim_coupon now uid shop code db =
     (case qs_get ''Coupon'' (\<lambda>c. cp_code c = code \<and> Some (cp_shop c) = shop \<and> cp_active c) (db_coupons db) of
        Inl (DoesNotExist m) \<Rightarrow> Inl (ValueError ''coupon does not exist'')
      | Inl e \<Rightarrow> Inl e
      | Inr c \<Rightarrow>
          if \<not> is_available now c then Inl (ValueError ''coupon not available'')
          else if cp_limit c \<le> int (qs_count (\<lambda>h. uc_user h = uid \<and> uc_coupon h = cp_id c) (db_holdings db))
          then Inl (ValueError ''claim limit'')
          else (case holding_create uid (cp_id c) HoldingAvailable db of
                  Inl e \<Rightarrow> Inl e
                | Inr (h, db1) \<Rightarrow>
                    (case coupon_save (c\<lparr>cp_used := cp_used c + 1\<rparr>) db1 of
                       Inl e \<Rightarrow> Inl e
                     | Inr db2 \<Rightarrow> Inr (h, db2))))"

definition claim_view :: "int \<Rightarrow> request \<Rightarrow> string \<Rightarrow> promo_db \<Rightarrow> holding_row reply \<times> promo_db" where
  "claim_view now rq code db =
     (case rq_user rq of
        None \<Rightarrow> (Reject 401 PermissionDenied, db)
      | Some u \<Rightarrow>
          if code = [] \<or> 50 < chars code then (Reject 400 (ValidationError ''coupon_code''), db)
          else (case claim_coupon now (u_id u) (rq_tenant rq) code db of
                  Inl (ValueError m) \<Rightarrow> (Reject 400 (ValueError m), db)
                | Inl e \<Rightarrow> (Crash e, db)
                | Inr (h, db') \<Rightarrow> (OK 200 h, db')))"

text \<open>\<open>CouponService.apply_auto_coupons\<close>: the claims made before one that raises stay.  A user has no
  attribute \<open>birthday\<close>.\<close>

definition check_rule_condition :: "int \<Rightarrow> int option \<Rightarrow> grant_row \<Rightarrow> promo_db \<Rightarrow> bool res" where
  "check_rule_condition uid shop r db =
     (case cr_type r of
        AutoRegister \<Rightarrow> Inr (qs_count (\<lambda>x. u_id x = uid) (db_members (db_org (db_pord db))) = 1)
      | FirstOrder \<Rightarrow> Inr (qs_count (\<lambda>x. o_user x = Some uid \<and> Some (o_shop x) = shop \<and> o_status x = Completed)
                            (db_orders (db_pord db)) = 1)
      | Birthday \<Rightarrow> Inl (AttributeError ''birthday'')
      | ManualGrant \<Rightarrow> Inr False)"

fun grant_loop :: "int \<Rightarrow> int \<Rightarrow> int option \<Rightarrow> grant_row list \<Rightarrow> promo_db \<Rightarrow> unit res \<times> promo_db" where
  "grant_loop now uid shop [] db = (Inr (), db)"
| "grant_loop now uid shop (r # rs) db =
     (case check_rule_condition uid shop r db of
        Inl e \<Rightarrow> (Inl e, db)
      | Inr False \<Rightarrow> grant_loop now uid shop rs db
      | Inr True \<Rightarrow>
          (case t_find cp_id (cr_coupon r) (db_coupons db) of
             None \<Rightarrow> (Inl (DoesNotExist ''Coupon''), db)
           | Some c \<Rightarrow>
               (case claim_coupon now uid shop (cp_code c) db of
                  Inl e \<Rightarrow> (Inl e, db)
                | Inr (h, db') \<Rightarrow> grant_loop now uid shop rs db')))"

definition apply_auto_coupons :: "int \<Rightarrow> int \<Rightarrow> int option \<Rightarrow> promo_db \<Rightarrow> unit res \<times> promo_db" where
  "apply_auto_coupons now uid shop db =
     grant_loop now uid shop (qs_filter (\<lambda>r. Some (cr_shop r) = shop \<and> cr_active r) (db_grants db)) db"

section \<open>Coupon discounts\<close>

text \<open>What the services read of a line of an order or a cart: the product, its category, the line total
  and the quantity.\<close>

record scope_line =
  si_product :: int
  si_category :: "int option"
  si_total :: int
  si_quantity :: int

definition category_of :: "int \<Rightarrow> orders_db \<Rightarrow> int option" where
  "category_of pid db = (case t_find p_id pid (db_products (db_cat db)) of None \<Rightarrow> None | Some p \<Rightarrow> p_category p)"

definition order_lines :: "int \<Rightarrow> orders_db \<Rightarrow> scope_line list" where
  "order_lines oid db = map (\<lambda>it. \<lparr>si_product = oi_product it, si_category = category_of (oi_product it) db,
     si_total = oi_total it, si_quantity = oi_quantity it\<rparr>) (items_of_order oid db)"

definition cart_lines :: "int \<Rightarrow> orders_db \<Rightarrow> scope_line list" where
  "cart_lines cid db = map (\<lambda>ci. \<lparr>si_product = ci_product ci, si_category = category_of (ci_product ci) db,
     si_total = cart_item_total db ci, si_quantity = ci_quantity ci\<rparr>) (items_of_cart cid db)"

definition check_apply_scope :: "coupon_row \<Rightarrow> scope_line list \<Rightarrow> bool" where
  "check_apply_scope c ls =
     (case cp_apply c of
        ApplyAll \<Rightarrow> True
      | ApplyCategory \<Rightarrow> list_ex (\<lambda>l. case si_category l of None \<Rightarrow> False | Some k \<Rightarrow> k \<in> set (cp_apply_ids c)) ls
      | ApplyProduct \<Rightarrow> list_ex (\<lambda>l. si_product l \<in> set (cp_apply_ids c)) ls)"

text \<open>\<open>CouponService.calculate_discount\<close>; a maximal discount of zero counts as none.\<close>

definition calculate_discount :: "int \<Rightarrow> coupon_row \<Rightarrow> int \<Rightarrow> scope_line list \<Rightarrow> rat" where
  "calculate_discount now c amount ls =
     (if \<not> is_available now c then 0
      else if amount < cp_min c then 0
      else if \<not> check_apply_scope c ls then 0
      else let d = (case cp_type c of
                      FixedCoupon \<Rightarrow> of_cents (cp_value c)
                    | PercentageCoupon \<Rightarrow>
                        (let p = dec_mult (of_cents amount) (of_cents (cp_value c)) / 100
                         in if truthy_int (cp_max c) \<and> of_cents (the (cp_max c)) < p then of_cents (the (cp_max c)) else p)
                    | ShippingCoupon \<Rightarrow> 0)
           in min d (of_cents amount))"

record coupon_reply =
  ar_coupon :: int
  ar_code :: string
  ar_discount :: rat
  ar_holding :: int

text \<open>The amount and the lines \<open>apply_coupon\<close> looks at.\<close>

definition coupon_base :: "user_row \<Rightarrow> int option \<Rightarrow> int option \<Rightarrow> orders_db \<Rightarrow> (int \<times> scope_line list) res" where
  "coupon_base u order_id cart_id db =
     (if truthy_int order_id then
        (case qs_get ''Order'' (\<lambda>r. o_id r = the order_id \<and> o_user r = Some (u_id u)) (db_orders db) of
           Inl e \<Rightarrow> Inl e
         | Inr r \<Rightarrow> Inr (o_subtotal r, order_lines (o_id r) db))
      else if truthy_int cart_id then
        (case qs_get ''Cart'' (\<lambda>c. c_id c = the cart_id \<and> c_user c = u_id u) (db_carts db) of
           Inl e \<Rightarrow> Inl e
         | Inr c \<Rightarrow> Inr (cart_total_price (c_id c) db, cart_lines (c_id c) db))
      else Inr (0, []))"

definition apply_coupon ::
  "module_env \<Rightarrow> int \<Rightarrow> request \<Rightarrow> string \<Rightarrow> int option \<Rightarrow> int option \<Rightarrow> promo_db \<Rightarrow> coupon_reply reply" where
  "apply_coupon E now rq code order_id cart_id db =
     (case rq_user rq of
        None \<Rightarrow> Reject 401 PermissionDenied
      | Some u \<Rightarrow>
          if code = [] \<or> 50 < chars code then Reject 400 (ValidationError ''coupon_code'')
          else (case qs_get ''Coupon'' (\<lambda>c. cp_code c = code \<and> Some (cp_shop c) = rq_tenant rq \<and> cp_active c)
                      (db_coupons db) of
                  Inl (DoesNotExist m) \<Rightarrow> Reject 400 (DoesNotExist m)
                | Inl e \<Rightarrow> Crash e
                | Inr c \<Rightarrow>
                    (case qs_first (\<lambda>h. uc_user h = u_id u \<and> uc_coupon h = cp_id c \<and> uc_status h = HoldingAvailable)
                            (db_holdings db) of
                       None \<Rightarrow> Reject 400 (ValueError ''no such coupon held'')
                     | Some h \<Rightarrow>
                         (case use_name (env_Decimal E) ''Decimal'' of
                            Inl e \<Rightarrow> Crash e
                          | Inr _ \<Rightarrow>
                              (case coupon_base u order_id cart_id (db_pord db) of
                                 Inl (DoesNotExist m) \<Rightarrow> Reject 400 (DoesNotExist m)
                               | Inl e \<Rightarrow> Crash e
                               | Inr (amount, ls) \<Rightarrow>
                                   OK 200 \<lparr>ar_coupon = cp_id c, ar_code = cp_code c,
                                     ar_discount = calculate_discount now c amount ls, ar_holding = uc_id h\<rparr>)))))"

text \<open>\<open>promotions/api.py\<close> imports no \<open>Decimal\<close>.\<close>

definition promotions_api_env :: module_env where
  "promotions_api_env = \<lparr>env_time = Unbound, env_timezone = Unbound, env_Decimal = Unbound\<rparr>"

section \<open>Coupon views\<close>

text \<open>
  \<open>available_coupons\<close> excludes the coupons the caller holds by the lookup \<open>usercoupon__user\<close>.  The
  reverse names of a coupon are given by \<open>related_name\<close>; a name that is none of them is a \<open>FieldError\<close>
  when the query is built.  For an anonymous caller the lookup compares with NULL; the coupons that
  matches are the argument \<open>unheld\<close>.
\<close>

definition coupon_reverse_names :: "string list" where
  "coupon_reverse_names = [''user_coupons'', ''rules'']"

definition available_coupons ::
  "string list \<Rightarrow> (coupon_row \<Rightarrow> bool) \<Rightarrow> int \<Rightarrow> request \<Rightarrow> promo_db \<Rightarrow> coupon_row list reply" where
  "available_coupons names unheld now rq db =
     (if ''usercoupon'' \<notin> set names then Crash (FieldError ''usercoupon'')
      else OK 200 (qs_filter (\<lambda>c. Some (cp_shop c) = rq_tenant rq \<and> cp_active c \<and> cp_from c \<le> now \<and> now \<le> cp_until c
             \<and> \<not> (case rq_user rq of
                    None \<Rightarrow> unheld c
                  | Some u \<Rightarrow> qs_exists (\<lambda>h. uc_user h = u_id u \<and> uc_coupon h = cp_id c) (db_holdings db)))
             (db_coupons db)))"

definition my_holdings :: "user_row \<Rightarrow> request \<Rightarrow> promo_db \<Rightarrow> holding_row list" where
  "my_holdings u rq db = qs_filter (\<lambda>h. uc_user h = u_id u
     \<and> qs_exists (\<lambda>c. cp_id c = uc_coupon h \<and> Some (cp_shop c) = rq_tenant rq) (db_coupons db)) (db_holdings db)"

definition available_holdings :: "int \<Rightarrow> request \<Rightarrow> promo_db \<Rightarrow> holding_row list reply" where
  "available_holdings now rq db =
     (case rq_user rq of
        None \<Rightarrow> Reject 401 PermissionDenied
      | Some u \<Rightarrow> OK 200 (filter (\<lambda>h. uc_status h = HoldingAvailable
          \<and> qs_exists (\<lambda>c. cp_id c = uc_coupon h \<and> now \<le> cp_until c) (db_coupons db)) (my_holdings u rq db)))"

text \<open>\<open>UserCouponSerializer(obj).data\<close>: the row and the coupon's, with \<open>is_available\<close>.\<close>

definition holding_data :: "int \<Rightarrow> promo_db \<Rightarrow> holding_row \<Rightarrow> (holding_row \<times> coupon_row \<times> bool) res" where
  "holding_data now db h =
     (case t_find cp_id (uc_coupon h) (db_coupons db) of
        None \<Rightarrow> Inl (DoesNotExist ''Coupon'')
      | Some c \<Rightarrow> Inr (h, c, is_available now c))"

definition user_coupon_list ::
  "nat \<Rightarrow> int \<Rightarrow> request \<Rightarrow> promo_db \<Rightarrow> (holding_row \<times> coupon_row \<times> bool) list reply" where
  "user_coupon_list page now rq db =
     (case rq_user rq of
        None \<Rightarrow> Reject 401 PermissionDenied
      | Some u \<Rightarrow> serialized (collect_res (holding_data now db)) (paginated page (my_holdings u rq db)))"

text \<open>\<open>UserCouponViewSet\<close> is a full \<open>ModelViewSet\<close> and \<open>UserCouponSerializer\<close> has every field writable:
  creating names any user and any coupon.\<close>

record holding_body =
  hb_user :: "int option"
  hb_coupon :: "int option"
  hb_status :: "holding_status option"
  hb_used_at :: "int option option"
  hb_order :: "int option option"

definition holding_apply :: "holding_body \<Rightarrow> holding_row \<Rightarrow> holding_row" where
  "holding_apply b h = h\<lparr>uc_user := or_default (hb_user b) (uc_user h), uc_coupon := or_default (hb_coupon b) (uc_coupon h),
     uc_status := or_default (hb_status b) (uc_status h), uc_used_at := or_default (hb_used_at b) (uc_used_at h),
     uc_order := or_default (hb_order b) (uc_order h)\<rparr>"

definition holding_body_valid :: "bool \<Rightarrow> holding_row \<Rightarrow> holding_body \<Rightarrow> promo_db \<Rightarrow> bool" where
  "holding_body_valid partial h b db \<longleftrightarrow>
     needed partial (hb_user b) (\<lambda>i. qs_exists (\<lambda>x. u_id x = i) (db_members (db_org (db_pord db))))
     \<and> needed partial (hb_coupon b) (\<lambda>i. qs_exists (\<lambda>c. cp_id c = i) (db_coupons db))
     \<and> needed True (hb_order b) (\<lambda>x. case x of None \<Rightarrow> True | Some i \<Rightarrow> qs_exists (\<lambda>r. o_id r = i) (db_orders (db_pord db)))
     \<and> (let h' = holding_apply b h in
         \<not> qs_exists (\<lambda>r. uc_id r \<noteq> uc_id h \<and> uc_user r = uc_user h' \<and> uc_coupon r = uc_coupon h') (db_holdings db))"

definition blank_holding :: holding_row where
  "blank_holding = \<lparr>uc_id = 0, uc_user = 0, uc_coupon = 0, uc_status = HoldingAvailable, uc_used_at = None, uc_order = None\<rparr>"

definition user_coupon_create :: "request \<Rightarrow> holding_body \<Rightarrow> promo_db \<Rightarrow> holding_row reply \<times> promo_db" where
  "user_coupon_create rq b db =
     (case rq_user rq of
        None \<Rightarrow> (Reject 401 PermissionDenied, db)
      | Some u \<Rightarrow>
          if \<not> holding_body_valid False blank_holding b db then (Reject 400 (ValidationError ''user_coupon''), db)
          else let (h, t) = t_add (\<lambda>i. (holding_apply b blank_holding)\<lparr>uc_id := i\<rparr>) (db_holdings db)
               in (OK 201 h, db\<lparr>db_holdings := t\<rparr>))"

definition user_coupon_update ::
  "bool \<Rightarrow> request \<Rightarrow> int \<Rightarrow> holding_body \<Rightarrow> promo_db \<Rightarrow> holding_row reply \<times> promo_db" where
  "user_coupon_update partial rq pk b db =
     (case rq_user rq of
        None \<Rightarrow> (Reject 401 PermissionDenied, db)
      | Some u \<Rightarrow>
          (case find (\<lambda>h. uc_id h = pk) (my_holdings u rq db) of
             None \<Rightarrow> (Reject 404 (DoesNotExist ''UserCoupon''), db)
           | Some h \<Rightarrow>
               if \<not> holding_body_valid partial h b db then (Reject 400 (ValidationError ''user_coupon''), db)
               else (OK 200 (holding_apply b h), db\<lparr>db_holdings := t_save uc_id (holding_apply b h) (db_holdings db)\<rparr>)))"

definition user_coupon_destroy :: "request \<Rightarrow> int \<Rightarrow> promo_db \<Rightarrow> unit reply \<times> promo_db" where
  "user_coupon_destroy rq pk db =
     (case rq_user rq of
        None \<Rightarrow> (Reject 401 PermissionDenied, db)
      | Some u \<Rightarrow>
          (case find (\<lambda>h. uc_id h = pk) (my_holdings u rq db) of
             None \<Rightarrow> (Reject 404 (DoesNotExist ''UserCoupon''), db)
           | Some h \<Rightarrow> (OK 204 (), db\<lparr>db_holdings := t_del (\<lambda>r. uc_id r = uc_id h) (db_holdings db)\<rparr>)))"

text \<open>\<open>CouponViewSet\<close>: staff of the tenant manage its coupons; \<open>shop\<close> and \<open>used_quantity\<close> are read-only.\<close>

record coupon_body =
  pb_name :: "string option"
  pb_code :: "string option"
  pb_type :: "coupon_type option"
  pb_value :: "int option"
  pb_max :: "int option option"
  pb_min :: "int option"
  pb_apply :: "apply_to option"
  pb_apply_ids :: "int list option"
  pb_total :: "int option"
  pb_from :: "int option"
  pb_until :: "int option"
  pb_limit :: "int option"
  pb_active :: "bool option"

definition coupon_apply :: "coupon_body \<Rightarrow> coupon_row \<Rightarrow> coupon_row" where
  "coupon_apply b c = c\<lparr>cp_name := or_default (pb_name b) (cp_name c), cp_code := or_default (pb_code b) (cp_code c),
     cp_type := or_default (pb_type b) (cp_type c), cp_value := or_default (pb_value b) (cp_value c),
     cp_max := or_default (pb_max b) (cp_max c), cp_min := or_default (pb_min b) (cp_min c),
     cp_apply := or_default (pb_apply b) (cp_apply c), cp_apply_ids := or_default (pb_apply_ids b) (cp_apply_ids c),
     cp_total := or_default (pb_total b) (cp_total c), cp_from := or_default (pb_from b) (cp_from c),
     cp_until := or_default (pb_until b) (cp_until c), cp_limit := or_default (pb_limit b) (cp_limit c),
     cp_active := or_default (pb_active b) (cp_active c)\<rparr>"

definition coupon_body_valid :: "bool \<Rightarrow> int \<Rightarrow> coupon_body \<Rightarrow> promo_db \<Rightarrow> bool" where
  "coupon_body_valid partial self_id b db \<longleftrightarrow>
     needed partial (pb_name b) (\<lambda>s. s \<noteq> [] \<and> chars s \<le> 100)
     \<and> needed partial (pb_code b) (\<lambda>s. s \<noteq> [] \<and> chars s \<le> 50
         \<and> \<not> qs_exists (\<lambda>c. cp_id c \<noteq> self_id \<and> cp_code c = s) (db_coupons db))
     \<and> needed partial (pb_value b) price_ok
     \<and> needed True (pb_max b) (\<lambda>x. case x of None \<Rightarrow> True | Some m \<Rightarrow> numeric_ok 10 m)
     \<and> needed True (pb_min b) price_ok
     \<and> needed partial (pb_total b) int4_ok \<and> needed partial (pb_from b) (\<lambda>_. True)
     \<and> needed partial (pb_until b) (\<lambda>_. True) \<and> needed True (pb_limit b) int4_ok"

definition blank_coupon :: "int \<Rightarrow> coupon_row" where
  "blank_coupon shop = \<lparr>cp_id = 0, cp_name = [], cp_code = [], cp_type = FixedCoupon, cp_value = 0, cp_max = None,
     cp_min = 0, cp_apply = ApplyAll, cp_apply_ids = [], cp_total = 0, cp_used = 0, cp_from = 0, cp_until = 0,
     cp_limit = 1, cp_active = True, cp_shop = shop\<rparr>"

definition with_staff :: "request \<Rightarrow> (promo_db \<Rightarrow> 'a reply \<times> promo_db) \<Rightarrow> promo_db \<Rightarrow> 'a reply \<times> promo_db" where
  "with_staff rq body db = staff_only (db_staff (db_org (db_pord db))) rq body db"

definition coupon_list :: "nat \<Rightarrow> int \<Rightarrow> request \<Rightarrow> promo_db \<Rightarrow> (coupon_row \<times> bool) list reply \<times> promo_db" where
  "coupon_list page now rq = with_staff rq (\<lambda>db.
     (shown (\<lambda>c. (c, is_available now c)) (paginated page
        (qs_filter (\<lambda>c. Some (cp_shop c) = rq_tenant rq) (db_coupons db))), db))"

definition coupon_create :: "request \<Rightarrow> coupon_body \<Rightarrow> promo_db \<Rightarrow> coupon_row reply \<times> promo_db" where
  "coupon_create rq b = with_staff rq (\<lambda>db.
     if \<not> coupon_body_valid False 0 b db then (Reject 400 (ValidationError ''coupon''), db)
     else (case rq_tenant rq of
             None \<Rightarrow> (Crash (IntegrityError ''shop''), db)
           | Some tn \<Rightarrow> let (c, t) = t_add (\<lambda>i. (coupon_apply b (blank_coupon tn))\<lparr>cp_id := i\<rparr>) (db_coupons db)
                        in (OK 201 c, db\<lparr>db_coupons := t\<rparr>)))"

definition coupon_object :: "request \<Rightarrow> int \<Rightarrow> promo_db \<Rightarrow> coupon_row option" where
  "coupon_object rq pk db = qs_first (\<lambda>c. cp_id c = pk \<and> Some (cp_shop c) = rq_tenant rq) (db_coupons db)"

definition coupon_update :: "bool \<Rightarrow> request \<Rightarrow> int \<Rightarrow> coupon_body \<Rightarrow> promo_db \<Rightarrow> coupon_row reply \<times> promo_db" where
  "coupon_update partial rq pk b = with_staff rq (\<lambda>db.
     (case coupon_object rq pk db of
        None \<Rightarrow> (Reject 404 (DoesNotExist ''Coupon''), db)
      | Some c \<Rightarrow>
          if \<not> coupon_body_valid partial (cp_id c) b db then (Reject 400 (ValidationError ''coupon''), db)
          else (OK 200 (coupon_apply b c), db\<lparr>db_coupons := t_save cp_id (coupon_apply b c) (db_coupons db)\<rparr>)))"

text \<open>Deleting a coupon takes the coupons users hold and the rules with it.\<close>

definition coupon_destroy :: "request \<Rightarrow> int \<Rightarrow> promo_db \<Rightarrow> unit reply \<times> promo_db" where
  "coupon_destroy rq pk = with_staff rq (\<lambda>db.
     (case coupon_object rq pk db of
        None \<Rightarrow> (Reject 404 (DoesNotExist ''Coupon''), db)
      | Some c \<Rightarrow> (OK 204 (), db\<lparr>db_coupons := t_del (\<lambda>r. cp_id r = cp_id c) (db_coupons db),
                      db_holdings := t_del (\<lambda>h. uc_coupon h = cp_id c) (db_holdings db),
                      db_grants := t_del (\<lambda>r. cr_coupon r = cp_id c) (db_grants db)\<rparr>)))"

section \<open>Promotions\<close>

definition in_promo_scope :: "promotion_row \<Rightarrow> scope_line \<Rightarrow> bool" where
  "in_promo_scope p l \<longleftrightarrow> si_product l \<in> set (pn_products p)
     \<or> (case si_category l of None \<Rightarrow> False | Some k \<Rightarrow> k \<noteq> 0 \<and> k \<in> set (pn_categories p))"

definition promo_scoped :: "promotion_row \<Rightarrow> bool" where
  "promo_scoped p \<longleftrightarrow> pn_products p \<noteq> [] \<or> pn_categories p \<noteq> []"

definition check_promotion_condition :: "promotion_row \<Rightarrow> scope_line list \<Rightarrow> bool" where
  "check_promotion_condition p ls =
     (if truthy_int (pn_amount p) \<and> sum_list (map si_total ls) < the (pn_amount p) then False
      else if truthy_int (pn_quantity p) \<and> sum_list (map si_quantity ls) < the (pn_quantity p) then False
      else if promo_scoped p \<and> \<not> list_ex (in_promo_scope p) ls then False
      else True)"

definition get_applicable_promotions :: "int \<Rightarrow> int option \<Rightarrow> scope_line list \<Rightarrow> promo_db \<Rightarrow> promotion_row list" where
  "get_applicable_promotions now shop ls db =
     filter (\<lambda>p. check_promotion_condition p ls)
       (qs_filter (\<lambda>p. Some (pn_shop p) = shop \<and> pn_active p \<and> pn_from p \<le> now \<and> now \<le> pn_until p) (db_promos db))"

definition get_applicable_amount :: "promotion_row \<Rightarrow> scope_line list \<Rightarrow> int" where
  "get_applicable_amount p ls =
     (if \<not> promo_scoped p then sum_list (map si_total ls)
      else sum_list (map si_total (filter (in_promo_scope p) ls)))"

definition calculate_promotion_discount :: "promotion_row \<Rightarrow> scope_line list \<Rightarrow> rat" where
  "calculate_promotion_discount p ls =
     (if pn_type p = DiscountPromo
      then (if truthy_int (pn_rate p) then dec_mult (of_cents (get_applicable_amount p ls)) (of_cents (the (pn_rate p)))
            else if truthy_int (pn_discount p) then of_cents (the (pn_discount p)) else 0)
      else 0)"

definition current_promotions :: "int \<Rightarrow> request \<Rightarrow> promo_db \<Rightarrow> promotion_row list reply" where
  "current_promotions now rq db = OK 200 (get_applicable_promotions now (rq_tenant rq) [] db)"

section \<open>Lemmas\<close>

definition promo_wf :: "promo_db \<Rightarrow> bool" where
  "promo_wf db \<longleftrightarrow> t_wf cp_id (db_coupons db) \<and> t_wf uc_id (db_holdings db)
     \<and> unique_on (\<lambda>h. (uc_user h, uc_coupon h)) (db_holdings db)"

definition holders :: "int \<Rightarrow> promo_db \<Rightarrow> nat" where
  "holders i db = qs_count (\<lambda>h. uc_coupon h = i) (db_holdings db)"

lemma claim_couponD:
  assumes "claim_coupon now uid shop code db = Inr (h, db')"
  obtains c where "c \<in> set (rows (db_coupons db))" "cp_code c = code" "Some (cp_shop c) = shop" "is_available now c"
    "\<forall>r \<in> set (rows (db_holdings db)). \<not> (uc_user r = uid \<and> uc_coupon r = cp_id c)"
    "h = \<lparr>uc_id = seq (db_holdings db) + 1, uc_user = uid, uc_coupon = cp_id c, uc_status = HoldingAvailable,
          uc_used_at = None, uc_order = None\<rparr>"
    "db' = db\<lparr>db_holdings := \<lparr>rows = rows (db_holdings db) @ [h], seq = seq (db_holdings db) + 1\<rparr>,
             db_coupons := t_save cp_id (c\<lparr>cp_used := cp_used c + 1\<rparr>) (db_coupons db)\<rparr>"
proof -
  obtain c where g: "qs_get ''Coupon'' (\<lambda>c. cp_code c = code \<and> Some (cp_shop c) = shop \<and> cp_active c) (db_coupons db) = Inr c"
    and av: "is_available now c"
    and s: "(case holding_create uid (cp_id c) HoldingAvailable db of
               Inl e \<Rightarrow> Inl e
             | Inr (h, db1) \<Rightarrow> (case coupon_save (c\<lparr>cp_used := cp_used c + 1\<rparr>) db1 of Inl e \<Rightarrow> Inl e | Inr db2 \<Rightarrow> Inr (h, db2)))
            = Inr (h, db')"
    using assms by (auto simp: claim_coupon_def split: sum.splits exn.splits if_splits)
  from qs_get_InrD [OF g] have c: "c \<in> set (rows (db_coupons db))" "cp_code c = code" "Some (cp_shop c) = shop" by auto
  from s obtain db1 where h1: "holding_create uid (cp_id c) HoldingAvailable db = Inr (h, db1)"
    and db': "coupon_save (c\<lparr>cp_used := cp_used c + 1\<rparr>) db1 = Inr db'"
    by (auto split: sum.splits)
  have n: "\<forall>r \<in> set (rows (db_holdings db)). \<not> (uc_user r = uid \<and> uc_coupon r = cp_id c)"
    using h1 by (auto simp: holding_create_def qs_exists_iff split: if_splits)
  have h: "h = \<lparr>uc_id = seq (db_holdings db) + 1, uc_user = uid, uc_coupon = cp_id c, uc_status = HoldingAvailable,
          uc_used_at = None, uc_order = None\<rparr>"
    and db1: "db1 = db\<lparr>db_holdings := \<lparr>rows = rows (db_holdings db) @ [h], seq = seq (db_holdings db) + 1\<rparr>\<rparr>"
    using h1 by (auto simp: holding_create_def t_add_def Let_def split: if_splits)
  have "db' = db\<lparr>db_holdings := \<lparr>rows = rows (db_holdings db) @ [h], seq = seq (db_holdings db) + 1\<rparr>,
             db_coupons := t_save cp_id (c\<lparr>cp_used := cp_used c + 1\<rparr>) (db_coupons db)\<rparr>"
    using db' unfolding db1 by (simp add: coupon_save_def split: if_splits)
  then show thesis by (rule that [OF c av n h])
qed

lemma claim_viewD:
  assumes "claim_view now rq code db = (r, db')"
  shows "(\<not> accepted r \<and> db' = db)
     \<or> (\<exists>u h. rq_user rq = Some u \<and> r = OK 200 h \<and> claim_coupon now (u_id u) (rq_tenant rq) code db = Inr (h, db'))"
  using assms by (auto simp: claim_view_def split: option.splits if_splits sum.splits exn.splits prod.splits)

lemma claim_step:
  assumes "promo_wf db" and "claim_coupon now uid shop code db = Inr (h, db')"
  shows "promo_wf db'"
    and "\<exists>c. t_find cp_id (uc_coupon h) (db_coupons db) = Some c \<and> is_available now c
       \<and> t_find cp_id (uc_coupon h) (db_coupons db') = Some (c\<lparr>cp_used := cp_used c + 1\<rparr>)
       \<and> (\<forall>i. i \<noteq> uc_coupon h \<longrightarrow> t_find cp_id i (db_coupons db') = t_find cp_id i (db_coupons db))"
    and "holders i db' = holders i db + (if i = uc_coupon h then 1 else 0)"
proof -
  obtain c where c: "c \<in> set (rows (db_coupons db))" "is_available now c"
    and new: "\<forall>r \<in> set (rows (db_holdings db)). \<not> (uc_user r = uid \<and> uc_coupon r = cp_id c)"
    and h: "h = \<lparr>uc_id = seq (db_holdings db) + 1, uc_user = uid, uc_coupon = cp_id c, uc_status = HoldingAvailable,
          uc_used_at = None, uc_order = None\<rparr>"
    and db': "db' = db\<lparr>db_holdings := \<lparr>rows = rows (db_holdings db) @ [h], seq = seq (db_holdings db) + 1\<rparr>,
             db_coupons := t_save cp_id (c\<lparr>cp_used := cp_used c + 1\<rparr>) (db_coupons db)\<rparr>"
    using assms(2) by (rule claim_couponD)
  have wf: "t_wf cp_id (db_coupons db)" "t_wf uc_id (db_holdings db)"
    "unique_on (\<lambda>h. (uc_user h, uc_coupon h)) (db_holdings db)" using assms(1) by (simp_all add: promo_wf_def)
  have f: "t_find cp_id (cp_id c) (db_coupons db) = Some c" using t_wf_find_unique [OF wf(1) c(1)] .
  show "\<exists>c. t_find cp_id (uc_coupon h) (db_coupons db) = Some c \<and> is_available now c
       \<and> t_find cp_id (uc_coupon h) (db_coupons db') = Some (c\<lparr>cp_used := cp_used c + 1\<rparr>)
       \<and> (\<forall>i. i \<noteq> uc_coupon h \<longrightarrow> t_find cp_id i (db_coupons db') = t_find cp_id i (db_coupons db))"
    using f c(2) by (auto simp: h db' t_find_t_save)
  show "holders i db' = holders i db + (if i = uc_coupon h then 1 else 0)"
    by (simp add: holders_def qs_count_def qs_filter_def db' h)
  have "t_wf cp_id (db_coupons db')" using f by (simp add: db' t_wf_t_save [OF wf(1)])
  moreover have "t_wf uc_id (db_holdings db')" using wf(2) by (auto simp: db' h t_wf_def)
  moreover have "unique_on (\<lambda>h. (uc_user h, uc_coupon h)) (db_holdings db')"
    using wf(3) new by (auto simp: db' h unique_on_def)
  ultimately show "promo_wf db'" by (simp add: promo_wf_def)
qed

text \<open>What holds of a database reached from \<open>base\<close> by claims.\<close>

definition claim_audited :: "promo_db \<Rightarrow> promo_db \<Rightarrow> bool" where
  "claim_audited base db \<longleftrightarrow> promo_wf db \<and> (\<forall>i c0. t_find cp_id i (db_coupons base) = Some c0 \<longrightarrow>
     (\<exists>c. t_find cp_id i (db_coupons db) = Some c \<and> c = c0\<lparr>cp_used := cp_used c\<rparr>
        \<and> cp_used c - cp_used c0 = int (holders i db) - int (holders i base)
        \<and> cp_used c0 \<le> cp_used c \<and> cp_used c \<le> max (cp_used c0) (cp_total c0)))"

definition handle_claim :: "int \<times> request \<times> string \<Rightarrow> promo_db \<Rightarrow> holding_row reply \<times> promo_db" where
  "handle_claim op db = (case op of (now, rq, code) \<Rightarrow> claim_view now rq code db)"

lemma claim_audited_refl: "promo_wf db \<Longrightarrow> claim_audited db db"
  by (simp add: claim_audited_def)

lemma claim_audited_step:
  assumes a: "claim_audited base db" and cl: "claim_coupon now uid shop code db = Inr (h, db')"
  shows "claim_audited base db'"
proof -
  have wf: "promo_wf db" using a by (simp add: claim_audited_def)
  note st = claim_step [OF wf cl]
  obtain c where c: "t_find cp_id (uc_coupon h) (db_coupons db) = Some c" "is_available now c"
    "t_find cp_id (uc_coupon h) (db_coupons db') = Some (c\<lparr>cp_used := cp_used c + 1\<rparr>)"
    "\<And>i. i \<noteq> uc_coupon h \<Longrightarrow> t_find cp_id i (db_coupons db') = t_find cp_id i (db_coupons db)"
    using st(2) by blast
  have "\<exists>c'. t_find cp_id i (db_coupons db') = Some c' \<and> c' = c0\<lparr>cp_used := cp_used c'\<rparr>
        \<and> cp_used c' - cp_used c0 = int (holders i db') - int (holders i base)
        \<and> cp_used c0 \<le> cp_used c' \<and> cp_used c' \<le> max (cp_used c0) (cp_total c0)"
    if c0: "t_find cp_id i (db_coupons base) = Some c0" for i c0
  proof -
    obtain d where d: "t_find cp_id i (db_coupons db) = Some d" "d = c0\<lparr>cp_used := cp_used d\<rparr>"
      "cp_used d - cp_used c0 = int (holders i db) - int (holders i base)"
      "cp_used c0 \<le> cp_used d" "cp_used d \<le> max (cp_used c0) (cp_total c0)"
      using a c0 unfolding claim_audited_def by blast
    show ?thesis
    proof (cases "i = uc_coupon h")
      case True
      with c d have dc: "d = c" by simp
      have eq: "f d = f (c0\<lparr>cp_used := cp_used d\<rparr>)" for f :: "coupon_row \<Rightarrow> int" by (rule arg_cong [OF d(2)])
      have "cp_used d < cp_total c0" using c(2) dc eq [of cp_total] by (simp add: is_available_def)
      moreover have "d\<lparr>cp_used := cp_used d + 1\<rparr> = c0\<lparr>cp_used := cp_used d + 1\<rparr>"
        by (rule trans [OF arg_cong [OF d(2), of "\<lambda>x. x\<lparr>cp_used := cp_used d + 1\<rparr>"]]) simp
      moreover have "t_find cp_id i (db_coupons db') = Some (d\<lparr>cp_used := cp_used d + 1\<rparr>)" using c(3) True dc by simp
      moreover have "int (holders i db') = int (holders i db) + 1" using st(3) [of i] True by simp
      ultimately show ?thesis using d(3,4) by (intro exI [of _ "d\<lparr>cp_used := cp_used d + 1\<rparr>"]) (simp (no_asm_simp))
    next
      case False
      with d c(4) st(3) [of i] show ?thesis by simp
    qed
  qed
  with st(1) show ?thesis by (simp add: claim_audited_def)
qed

interpretation claim_system: guarded_system handle_claim "claim_audited base" for base
proof unfold_locales
  fix db and op :: "int \<times> request \<times> string"
  assume a: "claim_audited base db"
  obtain now rq code where op: "op = (now, rq, code)" by (cases op)
  obtain r db' where r: "claim_view now rq code db = (r, db')" by fastforce
  show "claim_audited base (snd (handle_claim op db))"
    using claim_viewD [OF r] a claim_audited_step by (auto simp: handle_claim_def op r)
qed

lemma calculate_discount_cases:
  obtains "calculate_discount now c amount ls = 0" "\<not> (is_available now c \<and> cp_min c \<le> amount \<and> check_apply_scope c ls)"
    | "is_available now c" "cp_min c \<le> amount" "check_apply_scope c ls"
proof (cases "is_available now c \<and> cp_min c \<le> amount \<and> check_apply_scope c ls")
  case True
  then show thesis by (intro that(2)) auto
next
  case False
  then have "calculate_discount now c amount ls = 0" by (auto simp: calculate_discount_def)
  then show thesis using False by (rule that(1))
qed

lemma percentage_amount:
  assumes "0 \<le> amount" "amount < 10000000000" "0 \<le> value" "value < 10000000000"
  shows "dec_mult (of_cents amount) (of_cents value) / 100 = of_int (amount * value) / 1000000"
proof -
  have "amount * value \<le> 10000000000 * 10000000000" using assms by (intro mult_mono) auto
  then have "amount * value < 10 ^ 28" by simp
  then show ?thesis by (subst dec_mult_cents(1)) (use assms in simp_all)
qed

section \<open>Properties\<close>

definition demo_coupon :: coupon_row where
  "demo_coupon = \<lparr>cp_id = 1, cp_name = ''ten'', cp_code = ''TEN'', cp_type = PercentageCoupon, cp_value = 1250,
     cp_max = Some 500, cp_min = 1000, cp_apply = ApplyCategory, cp_apply_ids = [1], cp_total = 1, cp_used = 0,
     cp_from = 0, cp_until = 9000000, cp_limit = 2, cp_active = True, cp_shop = 3\<rparr>"

definition demo_promos :: promo_db where
  "demo_promos = \<lparr>db_pord = \<lparr>db_cat = demo_catalog, db_org = demo_shops,
       db_carts = \<lparr>rows = [\<lparr>c_id = 1, c_user = 7, c_session = None\<rparr>], seq = 1\<rparr>,
       db_cart_items = empty_tbl, db_orders = empty_tbl, db_order_items = empty_tbl, db_status_logs = empty_tbl\<rparr>,
     db_coupons = \<lparr>rows = [demo_coupon, demo_coupon\<lparr>cp_id := 2, cp_code := ''OLD'', cp_used := 1, cp_shop := 4\<rparr>], seq = 2\<rparr>,
     db_holdings = empty_tbl, db_grants = empty_tbl, db_promos = empty_tbl\<rparr>"

lemma demo_promos_wf: "promo_wf demo_promos"
  by (simp add: promo_wf_def demo_promos_def demo_coupon_def t_wf_def unique_on_def empty_tbl_def)

text \<open>C10: Claims are counted: over any sequence of claims by any users in any shops, accepted or refused, the used
  quantity of every coupon grows by exactly the number of users who newly hold it, never passes the issued
  total, nothing else of the coupon changes, and no user holds a coupon twice.\<close>

theorem claims_counted:
  assumes "promo_wf db" and "t_find cp_id i (db_coupons db) = Some c0"
  shows "let db' = run_requests handle_claim ops db in
     (\<exists>c. t_find cp_id i (db_coupons db') = Some c \<and> c = c0\<lparr>cp_used := cp_used c\<rparr>
        \<and> cp_used c - cp_used c0 = int (holders i db') - int (holders i db)
        \<and> cp_used c0 \<le> cp_used c \<and> cp_used c \<le> max (cp_used c0) (cp_total c0))
     \<and> distinct (map (\<lambda>h. (uc_user h, uc_coupon h)) (rows (db_holdings db')))"
proof -
  have a: "claim_audited db (run_requests handle_claim ops db)"
    using claim_audited_refl [OF assms(1)] by (rule claim_system.run_inv)
  then have "\<exists>c. t_find cp_id i (db_coupons (run_requests handle_claim ops db)) = Some c \<and> c = c0\<lparr>cp_used := cp_used c\<rparr>
        \<and> cp_used c - cp_used c0 = int (holders i (run_requests handle_claim ops db)) - int (holders i db)
        \<and> cp_used c0 \<le> cp_used c \<and> cp_used c \<le> max (cp_used c0) (cp_total c0)"
    using assms(2) unfolding claim_audited_def by blast
  with a show ?thesis unfolding Let_def by (simp add: claim_audited_def promo_wf_def unique_on_def)
qed

theorem claims_counted_witness:
  "let db' = run_requests handle_claim [(5, demo_request, ''TEN''), (6, demo_request, ''TEN''), (7, demo_request, ''OLD'')] demo_promos
   in \<exists>c. t_find cp_id 1 (db_coupons db') = Some c \<and> cp_used c = int (holders 1 db') \<and> cp_used c \<le> 1"
proof -
  have f: "t_find cp_id 1 (db_coupons demo_promos) = Some demo_coupon"
    by (simp add: t_find_def demo_promos_def demo_coupon_def)
  have h: "holders 1 demo_promos = 0" by (simp add: holders_def qs_count_def qs_filter_def demo_promos_def empty_tbl_def)
  show ?thesis
    using claims_counted [OF demo_promos_wf f, of "[(5, demo_request, ''TEN''), (6, demo_request, ''TEN''), (7, demo_request, ''OLD'')]"]
    unfolding Let_def by (auto simp: h demo_coupon_def simp del: run_requests_simps)
qed

text \<open>C17: A discount stays within the order: whatever the coupon, its value, its maximum (unless negative), the
  time and the lines, the discount is between zero and the amount, at most a positive maximum of a percentage
  coupon, and zero below the minimal amount; a percentage without maximum is exact.\<close>

theorem discount_bounds:
  assumes "0 \<le> amount" "amount < 10000000000" "0 \<le> cp_value c" "cp_value c < 10000000000"
    and "\<forall>m. cp_max c = Some m \<longrightarrow> 0 \<le> m"
  shows "0 \<le> calculate_discount now c amount ls \<and> calculate_discount now c amount ls \<le> of_cents amount
     \<and> (\<forall>m. cp_type c = PercentageCoupon \<and> cp_max c = Some m \<and> m \<noteq> 0 \<longrightarrow> calculate_discount now c amount ls \<le> of_cents m)
     \<and> (amount < cp_min c \<longrightarrow> calculate_discount now c amount ls = 0)
     \<and> (is_available now c \<and> cp_min c \<le> amount \<and> check_apply_scope c ls \<and> cp_type c = PercentageCoupon
         \<and> cp_max c = None \<and> cp_value c \<le> 10000
         \<longrightarrow> calculate_discount now c amount ls = of_int (amount * cp_value c) / 1000000)"
proof (cases rule: calculate_discount_cases [of now c amount ls])
  case 1
  then show ?thesis using assms(1,5) by auto
next
  case 2
  let ?p = "of_int (amount * cp_value c) / 1000000 :: rat"
  have p: "dec_mult (of_cents amount) (of_cents (cp_value c)) / 100 = ?p" by (rule percentage_amount) (use assms in auto)
  have p0: "0 \<le> ?p" using assms(1,3) by simp
  have le: "?p \<le> of_cents amount" if "cp_value c \<le> 10000"
  proof -
    have "amount * cp_value c \<le> amount * 10000" using that assms(1) by (intro mult_left_mono) auto
    then have "(of_int (amount * cp_value c) :: rat) \<le> of_int (amount * 10000)" by (simp only: of_int_le_iff)
    then show ?thesis by (simp add: of_cents_def)
  qed
  have d: "calculate_discount now c amount ls = min (case cp_type c of FixedCoupon \<Rightarrow> of_cents (cp_value c)
      | PercentageCoupon \<Rightarrow> (if truthy_int (cp_max c) \<and> of_cents (the (cp_max c)) < ?p then of_cents (the (cp_max c)) else ?p)
      | ShippingCoupon \<Rightarrow> 0) (of_cents amount)"
  proof -
    from 2 have "\<not> \<not> is_available now c" "\<not> amount < cp_min c" "\<not> \<not> check_apply_scope c ls" by auto
    then show ?thesis unfolding calculate_discount_def Let_def p by (simp only: if_False)
  qed
  obtain P where P: "P = ?p" by blast
  have mid: "amount \<le> a" if "\<not> P \<le> of_cents amount" "\<not> of_cents a < P" for a
    using that of_cents_le_iff [of amount a] by linarith
  show ?thesis
    using assms(1,3,5) p0 le 2 mid unfolding d P [symmetric]
    by (cases "cp_type c"; cases "cp_max c") (auto simp: min_def split: if_splits)
qed

theorem discount_bounds_witness:
  "0 \<le> calculate_discount 5 demo_coupon 10000 [\<lparr>si_product = 1, si_category = Some 1, si_total = 10000, si_quantity = 1\<rparr>]
   \<and> calculate_discount 5 demo_coupon 10000 [\<lparr>si_product = 1, si_category = Some 1, si_total = 10000, si_quantity = 1\<rparr>] \<le> 5"
  using discount_bounds [of 10000 demo_coupon 5 "[\<lparr>si_product = 1, si_category = Some 1, si_total = 10000, si_quantity = 1\<rparr>]"]
  by (auto simp: demo_coupon_def of_cents_def)

text \<open>A coupon whose issue is exhausted is worthless to everyone who claimed it: the quantity counts claims, not
  uses, so once the last copy is claimed no holder gets any discount for any order.\<close>

theorem exhausted_coupon_worthless:
  assumes "promo_wf db" and "claim_coupon now uid shop code db = Inr (h, db')"
    and "t_find cp_id (uc_coupon h) (db_coupons db) = Some c" and "cp_used c + 1 = cp_total c"
  shows "\<exists>c'. t_find cp_id (uc_coupon h) (db_coupons db') = Some c' \<and> uc_user h = uid \<and> uc_status h = HoldingAvailable
     \<and> (\<forall>later amount ls. calculate_discount later c' amount ls = 0)
     \<and> (\<forall>later uid'. \<exists>m. claim_coupon later uid' shop code db' = Inl (ValueError m) \<or>
           claim_coupon later uid' shop code db' = Inl (MultipleObjectsReturned m))"
proof -
  have f: "t_find cp_id (uc_coupon h) (db_coupons db') = Some (c\<lparr>cp_used := cp_used c + 1\<rparr>)"
    and wf': "promo_wf db'" using claim_step [OF assms(1,2)] assms(3) by auto
  obtain d where d: "d \<in> set (rows (db_coupons db))" "cp_code d = code" "Some (cp_shop d) = shop" "is_available now d"
    and h: "h = \<lparr>uc_id = seq (db_holdings db) + 1, uc_user = uid, uc_coupon = cp_id d, uc_status = HoldingAvailable,
          uc_used_at = None, uc_order = None\<rparr>"
    using assms(2) by (rule claim_couponD)
  have dc: "d = c" using t_wf_find_unique [OF _ d(1), of cp_id] assms(1,3) h by (simp add: promo_wf_def)
  let ?c = "c\<lparr>cp_used := cp_used c + 1\<rparr>"
  have no: "\<not> is_available later ?c" for later using assms(4) by (simp add: is_available_def)
  have mem: "?c \<in> set (rows (db_coupons db'))" "cp_code ?c = code" "Some (cp_shop ?c) = shop" "cp_active ?c"
    using t_find_mem [OF f] d dc by (simp_all add: is_available_def)
  have "\<exists>m. claim_coupon later uid' shop code db' = Inl (ValueError m) \<or>
       claim_coupon later uid' shop code db' = Inl (MultipleObjectsReturned m)" for later uid'
  proof (cases "qs_get ''Coupon'' (\<lambda>c. cp_code c = code \<and> Some (cp_shop c) = shop \<and> cp_active c) (db_coupons db')")
    case (Inl e)
    with qs_get_exn [OF Inl] show ?thesis by (auto simp: claim_coupon_def)
  next
    case (Inr x)
    then have "filter (\<lambda>c. cp_code c = code \<and> Some (cp_shop c) = shop \<and> cp_active c) (rows (db_coupons db')) = [x]"
      by (simp only: qs_get_Inr)
    moreover have "?c \<in> set (filter (\<lambda>c. cp_code c = code \<and> Some (cp_shop c) = shop \<and> cp_active c) (rows (db_coupons db')))"
      using mem by simp
    ultimately have "?c \<in> set [x]" by (simp only:)
    then show ?thesis using Inr no by (simp add: claim_coupon_def)
  qed
  moreover have "calculate_discount later ?c amount ls = 0" for later amount ls using no by (simp add: calculate_discount_def)
  ultimately show ?thesis using f h by (intro exI [of _ ?c]) simp
qed

theorem exhausted_coupon_worthless_witness:
  "res_is (\<lambda>(h, db'). \<exists>c'. t_find cp_id 1 (db_coupons db') = Some c' \<and> uc_user h = 7
      \<and> (\<forall>amount ls. calculate_discount 6 c' amount ls = 0)) (claim_coupon 5 7 (Some 3) ''TEN'' demo_promos)"
proof -
  have "res_is (\<lambda>(h, db'). uc_coupon h = 1) (claim_coupon 5 7 (Some 3) ''TEN'' demo_promos)" by code_simp
  then obtain h db' where cl: "claim_coupon 5 7 (Some 3) ''TEN'' demo_promos = Inr (h, db')" and h: "uc_coupon h = 1"
    by (auto elim: res_isE)
  have f: "t_find cp_id (uc_coupon h) (db_coupons demo_promos) = Some demo_coupon"
    by (simp add: h t_find_def demo_promos_def demo_coupon_def)
  from exhausted_coupon_worthless [OF demo_promos_wf cl f] show ?thesis
    by (auto simp: cl h res_is_def demo_coupon_def)
qed

text \<open>Anyone can mint coupons: the user-coupon endpoint is writable, so a logged-in user creates a holding of any
  coupon of any shop for himself, expired or exhausted ones included, as long as he has none; the claim rules are
  not consulted and the coupon's count does not move.\<close>

theorem coupon_minting:
  assumes "rq_user rq = Some u" and "qs_exists (\<lambda>x. u_id x = u_id u) (db_members (db_org (db_pord db)))"
    and "t_find cp_id cid (db_coupons db) = Some c"
    and "\<not> qs_exists (\<lambda>h. uc_user h = u_id u \<and> uc_coupon h = cid) (db_holdings db)"
    and "promo_wf db"
  shows "\<exists>h db'. user_coupon_create rq \<lparr>hb_user = Some (u_id u), hb_coupon = Some cid, hb_status = None,
            hb_used_at = None, hb_order = None\<rparr> db = (OK 201 h, db')
     \<and> uc_user h = u_id u \<and> uc_coupon h = cid \<and> uc_status h = HoldingAvailable
     \<and> h \<in> set (rows (db_holdings db')) \<and> db_coupons db' = db_coupons db \<and> holders cid db' = holders cid db + 1"
proof -
  let ?b = "\<lparr>hb_user = Some (u_id u), hb_coupon = Some cid, hb_status = None, hb_used_at = None, hb_order = None\<rparr>"
  have "qs_exists (\<lambda>c. cp_id c = cid) (db_coupons db)"
    using t_find_mem [OF assms(3)] t_find_pk [OF assms(3)] by (auto simp: qs_exists_iff)
  then have "holding_body_valid False blank_holding ?b db"
    using assms(2,4) by (auto simp: holding_body_valid_def needed_def holding_apply_def or_default_def blank_holding_def qs_exists_iff)
  then show ?thesis using assms(1)
    by (simp add: user_coupon_create_def t_add_def holding_apply_def or_default_def blank_holding_def holders_def
        qs_count_def qs_filter_def)
qed

theorem coupon_minting_witness:
  "\<exists>h db'. user_coupon_create demo_request \<lparr>hb_user = Some 7, hb_coupon = Some 2, hb_status = None,
            hb_used_at = None, hb_order = None\<rparr> demo_promos = (OK 201 h, db') \<and> uc_coupon h = 2"
proof -
  have u: "rq_user demo_request = Some demo_user" by (simp add: demo_request_def)
  have m: "qs_exists (\<lambda>x. u_id x = u_id demo_user) (db_members (db_org (db_pord demo_promos)))"
    by (simp add: qs_exists_iff demo_promos_def demo_shops_def)
  have f: "t_find cp_id 2 (db_coupons demo_promos) = Some (demo_coupon\<lparr>cp_id := 2, cp_code := ''OLD'', cp_used := 1, cp_shop := 4\<rparr>)"
    by (simp add: t_find_def demo_promos_def demo_coupon_def)
  have n: "\<not> qs_exists (\<lambda>h. uc_user h = u_id demo_user \<and> uc_coupon h = 2) (db_holdings demo_promos)"
    by (simp add: qs_exists_iff demo_promos_def empty_tbl_def)
  have i: "u_id demo_user = 7" by (simp add: demo_user_def)
  show ?thesis using coupon_minting [OF u m f n demo_promos_wf] unfolding i by blast
qed

text \<open>As deployed neither coupon view works: \<open>apply_coupon\<close> uses \<open>Decimal\<close>, which its module does not import, so it
  never answers with a discount, and \<open>available_coupons\<close> looks up a reverse name coupons do not have and fails for
  every caller.\<close>

theorem promotions_deployed:
  "\<not> accepted (apply_coupon promotions_api_env now rq code order_id cart_id db)
   \<and> available_coupons coupon_reverse_names unheld now rq db = Crash (FieldError ''usercoupon'')"
  by (auto simp: apply_coupon_def promotions_api_env_def available_coupons_def coupon_reverse_names_def
      split: option.splits sum.splits exn.splits)

text \<open>The public list of promotions shows only the unconditional ones: although it asks for all current promotions, the
  empty line list it passes fails every minimal amount or quantity above zero and every product or category scope.\<close>

theorem current_promotions_unconditional:
  "current_promotions now rq db = OK 200 (filter (\<lambda>p. is_valid_promo now p \<and> Some (pn_shop p) = rq_tenant rq
     \<and> (case pn_amount p of None \<Rightarrow> True | Some a \<Rightarrow> a \<le> 0) \<and> (case pn_quantity p of None \<Rightarrow> True | Some q \<Rightarrow> q \<le> 0)
     \<and> pn_products p = [] \<and> pn_categories p = []) (rows (db_promos db)))"
  unfolding current_promotions_def get_applicable_promotions_def qs_filter_def filter_filter
  by (rule arg_cong [where f = "OK 200"], rule filter_cong [OF refl])
     (auto simp: is_valid_promo_def check_promotion_condition_def promo_scoped_def split: option.splits)

end
