(* ===== verification/Tenant_Views.thy ===== *)
theory Tenant_Views
  imports Identity Keyed
begin

text \<open>
  The actions of a \<open>ModelViewSet\<close> over the rows of one shop, as the viewsets of \<open>payments/api.py\<close> and
  \<open>promotions/api.py\<close> use them: \<open>get_queryset\<close> is the lookup, the serializer the check of the body,
  \<open>perform_create\<close> and the model's \<open>save\<close> the write.  The locale \<open>tenant_table\<close> holds what follows for
  the rows of a shop from what each request does to the table; the components interpret it.
\<close>

section \<open>Actions\<close>

definition creating ::
  "('s \<Rightarrow> bool) \<Rightarrow> ('s \<Rightarrow> ('r \<times> 's) res) \<Rightarrow> 's \<Rightarrow> 'r reply \<times> 's" where
  "creating valid save s =
     (if \<not> valid s then (Reject 400 (ValidationError ''body''), s)
      else (case save s of
              Inl e \<Rightarrow> (Crash e, s)
            | Inr (r, s') \<Rightarrow> (OK 201 r, s')))"

definition updating ::
  "('s \<Rightarrow> 'r option) \<Rightarrow> ('r \<Rightarrow> 's \<Rightarrow> bool) \<Rightarrow> ('r \<Rightarrow> 's \<Rightarrow> ('r \<times> 's) res) \<Rightarrow> 's \<Rightarrow> 'r reply \<times> 's" where
  "updating object valid write s =
     (case object s of
        None \<Rightarrow> (Reject 404 (DoesNotExist ''object''), s)
      | Some r \<Rightarrow>
          if \<not> valid r s then (Reject 400 (ValidationError ''body''), s)
          else (case write r s of
                  Inl e \<Rightarrow> (Crash e, s)
                | Inr (r', s') \<Rightarrow> (OK 200 r', s')))"

definition destroying ::
  "('s \<Rightarrow> 'r option) \<Rightarrow> ('r \<Rightarrow> 's \<Rightarrow> 's res) \<Rightarrow> 's \<Rightarrow> unit reply \<times> 's" where
  "destroying object delete s =
     (case object s of
        None \<Rightarrow> (Reject 404 (DoesNotExist ''object''), s)
      | Some r \<Rightarrow>
          (case delete r s of
             Inl e \<Rightarrow> (Crash e, s)
           | Inr s' \<Rightarrow> (OK 204 (), s')))"

definition retrieving :: "('s \<Rightarrow> 'r option) \<Rightarrow> 's \<Rightarrow> 'r reply \<times> 's" where
  "retrieving object s =
     (case object s of
        None \<Rightarrow> (Reject 404 (DoesNotExist ''object''), s)
      | Some r \<Rightarrow> (OK 200 r, s))"

text \<open>\<open>serializer.save(shop=request.tenant)\<close>: a shop is required, so there is no row without a tenant.\<close>

definition for_tenant :: "request \<Rightarrow> (int \<Rightarrow> 'a res) \<Rightarrow> 'a res" where
  "for_tenant rq f = (case rq_tenant rq of None \<Rightarrow> Inl (IntegrityError ''shop'') | Some tn \<Rightarrow> f tn)"

lemma for_tenant_Inr: "for_tenant rq f = Inr x \<longleftrightarrow> (\<exists>tn. rq_tenant rq = Some tn \<and> f tn = Inr x)"
  by (simp add: for_tenant_def split: option.splits)

text \<open>A view whose permission class is \<open>IsAuthenticated\<close>.\<close>

definition signed_in :: "request \<Rightarrow> (user_row \<Rightarrow> 's \<Rightarrow> 'a reply \<times> 's) \<Rightarrow> 's \<Rightarrow> 'a reply \<times> 's" where
  "signed_in rq body s = (case rq_user rq of None \<Rightarrow> (Reject 401 PermissionDenied, s) | Some u \<Rightarrow> body u s)"

text \<open>Whether the request was accepted, and the state it left.\<close>

definition status_of :: "'a reply \<times> 's \<Rightarrow> bool \<times> 's" where
  "status_of p = (accepted (fst p), snd p)"

text \<open>A reply that changed the state was a write that succeeded on a row of the queryset.\<close>

lemma creating_cases:
  assumes "creating valid save s = (r, s')"
  shows "s' = s \<or> valid s \<and> (\<exists>x. save s = Inr (x, s'))"
  using assms by (auto simp: creating_def split: if_splits sum.splits)

lemma updating_cases:
  assumes "updating object valid write s = (r, s')"
  shows "s' = s \<or> (\<exists>x y. object s = Some x \<and> valid x s \<and> write x s = Inr (y, s'))"
  using assms by (auto simp: updating_def split: if_splits sum.splits option.splits)

lemma destroying_cases:
  assumes "destroying object delete s = (r, s')"
  shows "s' = s \<or> (\<exists>x. object s = Some x \<and> delete x s = Inr s')"
  using assms by (auto simp: destroying_def split: sum.splits option.splits)

lemma retrieving_same: "retrieving object s = (r, s') \<Longrightarrow> s' = s"
  by (auto simp: retrieving_def split: option.splits)

lemma signed_in_cases:
  assumes "signed_in rq body s = (r, s')"
  shows "s' = s \<or> (\<exists>u. rq_user rq = Some u \<and> body u s = (r, s'))"
  using assms by (auto simp: signed_in_def split: option.splits)

lemma staff_only_cases:
  assumes "staff_only t rq body s = (r, s')"
  shows "s' = s \<or> is_shop_owner_or_staff t rq = Inr True \<and> body s = (r, s')"
  using assms by (auto simp: staff_only_def split: sum.splits bool.splits)

lemmas action_cases = creating_cases updating_cases destroying_cases

section \<open>The rows of a shop\<close>

definition rows_of :: "('r \<Rightarrow> int) \<Rightarrow> int \<Rightarrow> 'r tbl \<Rightarrow> 'r list" where
  "rows_of own b t = filter (\<lambda>r. own r = b) (rows t)"

text \<open>The three writes leave the rows of the other shops as they are.\<close>

lemma rows_of_t_add: "own (f (seq t + 1)) \<noteq> b \<Longrightarrow> rows_of own b (snd (t_add f t)) = rows_of own b t"
  by (simp add: rows_of_def t_add_def)

lemma rows_of_t_save:
  assumes "t_wf pk t" and "r0 \<in> set (rows t)" and "pk r = pk r0" and "own r0 \<noteq> b" and "own r \<noteq> b"
  shows "rows_of own b (t_save pk r t) = rows_of own b t"
proof -
  have f: "t_find pk (pk r) t = Some r0" using t_wf_find_unique [OF assms(1,2)] assms(3) by simp
  have only: "own x \<noteq> b" if "x \<in> set (rows t)" "pk x = pk r" for x
    using that find_iff_mem [OF assms(1), of "pk r" x] f assms(4) by auto
  have "filter (\<lambda>x. own x = b) (map (\<lambda>x. if pk x = pk r then r else x) xs) = filter (\<lambda>x. own x = b) xs"
    if "set xs \<subseteq> set (rows t)" for xs
    using that by (induction xs) (use only assms(5) in auto)
  from this [OF order_refl] show ?thesis using f by (simp add: rows_of_def t_save_def rows_t_upd)
qed

lemma rows_of_t_del:
  assumes "t_wf pk t" and "r0 \<in> set (rows t)" and "own r0 \<noteq> b"
  shows "rows_of own b (t_del (\<lambda>r. pk r = pk r0) t) = rows_of own b t"
proof -
  have "x = r0" if "x \<in> set (rows t)" "pk x = pk r0" for x
    using that assms(2) find_iff_mem [OF assms(1)] by (metis option.inject)
  then show ?thesis using assms(3) by (auto simp: rows_of_def rows_t_del intro!: filter_cong)
qed

text \<open>
  A table whose requests carry a tenant: a request the staff check refuses changes nothing, and one it grants
  keeps the invariant, the staff, and the rows of every other shop.  Then only requests by staff of a shop change the
  shop's rows, however the requests of the shops are interleaved.
\<close>

locale tenant_table =
  fixes tab :: "'s \<Rightarrow> 'r tbl"
    and own :: "'r \<Rightarrow> int"
    and staff :: "'s \<Rightarrow> staff_row tbl"
    and inv :: "'s \<Rightarrow> bool"
    and req :: "'op \<Rightarrow> request"
    and handle :: "'op \<Rightarrow> 's \<Rightarrow> bool \<times> 's"
  assumes refused: "is_shop_owner_or_staff (staff s) (req op) \<noteq> Inr True \<Longrightarrow> snd (handle op s) = s"
    and keeps: "inv s \<Longrightarrow> inv (snd (handle op s)) \<and> staff (snd (handle op s)) = staff s"
    and others: "inv s \<Longrightarrow> rq_tenant (req op) \<noteq> Some b \<Longrightarrow> rows_of own b (tab (snd (handle op s))) = rows_of own b (tab s)"
begin

lemma run_isolated:
  assumes "inv s" and "\<And>op. op \<in> set ops \<Longrightarrow> rq_tenant (req op) = Some b \<Longrightarrow> is_shop_owner_or_staff (staff s) (req op) \<noteq> Inr True"
  shows "rows_of own b (tab (run_requests handle ops s)) = rows_of own b (tab s)"
  using assms
proof (induction ops arbitrary: s)
  case (Cons op ops)
  let ?s = "snd (handle op s)"
  have same: "rows_of own b (tab ?s) = rows_of own b (tab s)"
  proof (cases "rq_tenant (req op) = Some b")
    case True
    then have "?s = s" using refused Cons.prems(2) [of op] by simp
    then show ?thesis by simp
  qed (use others Cons.prems(1) in blast)
  have "rows_of own b (tab (run_requests handle ops ?s)) = rows_of own b (tab ?s)"
    by (rule Cons.IH) (use keeps [OF Cons.prems(1)] Cons.prems(2) in auto)
  with same show ?case by simp
qed simp

sublocale system: guarded_system handle inv
  by unfold_locales (use keeps in blast)

end

end
