(* ===== verification/Texts.thy ===== *)
theory Texts
  imports Prelude_Z
begin

text \<open>
  What the printing code uses of Python's strings and dates: \<open>str.join\<close>, \<open>str.split\<close>, \<open>str.replace\<close>,
  \<open>in\<close>, \<open>str\<close> of a \<open>Decimal\<close> with two places, and \<open>strftime\<close> of a datetime read from the database, which is in UTC.
  A string is its UTF-8 encoding; \<open>u8\<close> gives the bytes of one that is not ASCII.
\<close>

definition u8 :: "nat list \<Rightarrow> string" where
  "u8 bs = map char_of bs"

section \<open>The words printed\<close>

text \<open>
  In this order: order number, time, customer, phone, table number, order lines, yuan, subtotal, delivery fee,
  discount, total, payment method, time of payment, thanks, come again, kitchen slip, request, please make it
  soon, the job has been sent, printing failed, the query failed, network error, colon, blank, online, normal,
  offline, out of paper, cover open, overheated.
\<close>

definition zh_order_no :: string where "zh_order_no = u8 [0xE8, 0xAE, 0xA2, 0xE5, 0x8D, 0x95, 0xE5, 0x8F, 0xB7]"

definition zh_time :: string where "zh_time = u8 [0xE6, 0x97, 0xB6, 0xE9, 0x97, 0xB4]"

definition zh_customer :: string where "zh_customer = u8 [0xE5, 0xAE, 0xA2, 0xE6, 0x88, 0xB7]"

definition zh_phone :: string where "zh_phone = u8 [0xE7, 0x94, 0xB5, 0xE8, 0xAF, 0x9D]"

definition zh_table :: string where "zh_table = u8 [0xE6, 0xA1, 0x8C, 0xE5, 0x8F, 0xB7]"

definition zh_lines :: string where
  "zh_lines = u8 [0xE5, 0x95, 0x86, 0xE5, 0x93, 0x81, 0xE6, 0x98, 0x8E, 0xE7, 0xBB, 0x86]"

definition zh_yuan :: string where "zh_yuan = u8 [0xE5, 0x85, 0x83]"

definition zh_subtotal :: string where "zh_subtotal = u8 [0xE5, 0xB0, 0x8F, 0xE8, 0xAE, 0xA1]"

definition zh_delivery :: string where "zh_delivery = u8 [0xE9, 0x85, 0x8D, 0xE9, 0x80, 0x81, 0xE8, 0xB4, 0xB9]"

definition zh_discount :: string where "zh_discount = u8 [0xE4, 0xBC, 0x98, 0xE6, 0x83, 0xA0]"

definition zh_total :: string where "zh_total = u8 [0xE6, 0x80, 0xBB, 0xE8, 0xAE, 0xA1]"

definition zh_method :: string where
  "zh_method = u8 [0xE6, 0x94, 0xAF, 0xE4, 0xBB, 0x98, 0xE6, 0x96, 0xB9, 0xE5, 0xBC, 0x8F]"

definition zh_paid_at :: string where
  "zh_paid_at = u8 [0xE6, 0x94, 0xAF, 0xE4, 0xBB, 0x98, 0xE6, 0x97, 0xB6, 0xE9, 0x97, 0xB4]"

definition zh_thanks :: string where
  "zh_thanks = u8 [0xE8, 0xB0, 0xA2, 0xE8, 0xB0, 0xA2, 0xE6, 0x83, 0xA0, 0xE9, 0xA1, 0xBE, 0xEF, 0xBC, 0x8C, 0xE6,
     0xAC, 0xA2, 0xE8, 0xBF, 0x8E, 0xE5, 0x86, 0x8D, 0xE6, 0xAC, 0xA1, 0xE5, 0x85, 0x89, 0xE4, 0xB8,
     0xB4, 0xEF, 0xBC, 0x81]"

definition zh_kitchen :: string where "zh_kitchen = u8 [0xE5, 0x8E, 0xA8, 0xE6, 0x88, 0xBF, 0xE5, 0x8D, 0x95]"

definition zh_wish :: string where "zh_wish = u8 [0xE8, 0xA6, 0x81, 0xE6, 0xB1, 0x82]"

definition zh_hurry :: string where
  "zh_hurry = u8 [0xE8, 0xAF, 0xB7, 0xE5, 0xB0, 0xBD, 0xE5, 0xBF, 0xAB, 0xE5, 0x88, 0xB6, 0xE4, 0xBD, 0x9C]"

definition zh_sent :: string where
  "zh_sent = u8 [0xE6, 0x89, 0x93, 0xE5, 0x8D, 0xB0, 0xE4, 0xBB, 0xBB, 0xE5, 0x8A, 0xA1, 0xE5, 0xB7, 0xB2, 0xE5,
     0x8F, 0x91, 0xE9, 0x80, 0x81]"

definition zh_failed :: string where
  "zh_failed = u8 [0xE6, 0x89, 0x93, 0xE5, 0x8D, 0xB0, 0xE5, 0xA4, 0xB1, 0xE8, 0xB4, 0xA5]"

definition zh_query_failed :: string where
  "zh_query_failed = u8 [0xE6, 0x9F, 0xA5, 0xE8, 0xAF, 0xA2, 0xE5, 0xA4, 0xB1, 0xE8, 0xB4, 0xA5]"

definition zh_net_error :: string where
  "zh_net_error = u8 [0xE7, 0xBD, 0x91, 0xE7, 0xBB, 0x9C, 0xE9, 0x94, 0x99, 0xE8, 0xAF, 0xAF, 0x3A, 0x20]"

definition zh_online :: string where "zh_online = u8 [0xE5, 0x9C, 0xA8, 0xE7, 0xBA, 0xBF]"

definition zh_normal :: string where "zh_normal = u8 [0xE6, 0xAD, 0xA3, 0xE5, 0xB8, 0xB8]"

definition zh_offline :: string where "zh_offline = u8 [0xE7, 0xA6, 0xBB, 0xE7, 0xBA, 0xBF]"

definition zh_paper_out :: string where "zh_paper_out = u8 [0xE7, 0xBC, 0xBA, 0xE7, 0xBA, 0xB8]"

definition zh_cover_open :: string where "zh_cover_open = u8 [0xE5, 0xBC, 0x80, 0xE7, 0x9B, 0x96]"

definition zh_overheat :: string where "zh_overheat = u8 [0xE8, 0xBF, 0x87, 0xE7, 0x83, 0xAD]"

section \<open>Joining and splitting\<close>

fun join :: "string \<Rightarrow> string list \<Rightarrow> string" where
  "join sep [] = []"
| "join sep [x] = x"
| "join sep (x # y # xs) = x @ sep @ join sep (y # xs)"

fun split_on :: "char \<Rightarrow> string \<Rightarrow> string list" where
  "split_on c [] = [[]]"
| "split_on c (d # s) = (if d = c then [] # split_on c s
     else (case split_on c s of [] \<Rightarrow> [[d]] | w # ws \<Rightarrow> (d # w) # ws))"

lemma split_on_append: "c \<notin> set x \<Longrightarrow> split_on c (x @ c # s) = x # split_on c s"
  by (induction x) auto

lemma split_on_plain: "c \<notin> set x \<Longrightarrow> split_on c x = [x]"
  by (induction x) auto

lemma split_on_join: "xs \<noteq> [] \<Longrightarrow> \<forall>x \<in> set xs. c \<notin> set x \<Longrightarrow> split_on c (join [c] xs) = xs"
  by (induction "[c]" xs rule: join.induct) (auto simp: split_on_plain split_on_append)

section \<open>Searching and replacing\<close>

fun has_part :: "string \<Rightarrow> string \<Rightarrow> bool" where
  "has_part sub [] = (sub = [])"
| "has_part sub (c # s) = (take (length sub) (c # s) = sub \<or> has_part sub s)"

lemma contains_iff: "has_part sub s \<longleftrightarrow> (\<exists>a b. s = a @ sub @ b)"
proof (induction s)
  case (Cons c s)
  have "take (length sub) (c # s) = sub \<longleftrightarrow> (\<exists>b. c # s = sub @ b)"
    by (metis append_eq_conv_conj append_take_drop_id)
  moreover have "(\<exists>a b. c # s = a @ sub @ b) \<longleftrightarrow> (\<exists>b. c # s = sub @ b) \<or> (\<exists>a b. s = a @ sub @ b)"
    by (metis append.left_neutral append_Cons append_eq_Cons_conv)
  ultimately show ?case using Cons.IH by simp
qed simp

text \<open>\<open>s.replace(old, new)\<close> for an \<open>old\<close> that is not empty: from the left, what has been put in is not read again.\<close>

function replace_all :: "string \<Rightarrow> string \<Rightarrow> string \<Rightarrow> string" where
  "replace_all old new s = (case s of [] \<Rightarrow> [] | c # cs \<Rightarrow>
     if old \<noteq> [] \<and> take (length old) s = old then new @ replace_all old new (drop (length old) s)
     else c # replace_all old new cs)"
  by pat_completeness auto
termination
  by (relation "measure (\<lambda>(old, new, s). length s)") (auto simp: neq_Nil_conv)

declare replace_all.simps [simp del]

lemma replace_all_Nil [simp]: "replace_all old new [] = []"
  by (simp add: replace_all.simps)

lemma replace_all_skip:
  "take (length old) (c # s) \<noteq> old \<Longrightarrow> replace_all old new (c # s) = c # replace_all old new s"
  by (subst replace_all.simps) simp

lemma replace_all_hit: "old \<noteq> [] \<Longrightarrow> replace_all old new (old @ s) = new @ replace_all old new s"
  by (cases old) (subst replace_all.simps, simp)+

lemma replace_all_free:
  "d \<notin> set x \<Longrightarrow> replace_all (d # old) new (x @ s) = x @ replace_all (d # old) new s"
  by (induction x) (auto simp: replace_all_skip)

section \<open>Amounts and dates\<close>

text \<open>\<open>str\<close> of a \<open>Decimal\<close> with two places, given in hundredths.\<close>

definition dec_cents :: "int \<Rightarrow> string" where
  "dec_cents c = (if c < 0 then ''-'' else []) @ dec_of (nat (\<bar>c\<bar> div 100)) @ ''.'' @ pad_dec 2 (nat (\<bar>c\<bar> mod 100))"

definition leap :: "nat \<Rightarrow> bool" where
  "leap y \<longleftrightarrow> y mod 4 = 0 \<and> (y mod 100 \<noteq> 0 \<or> y mod 400 = 0)"

definition month_lengths :: "nat \<Rightarrow> nat list" where
  "month_lengths y = [31, if leap y then 29 else 28, 31, 30, 31, 30, 31, 31, 30, 31, 30, 31]"

definition year_length :: "nat \<Rightarrow> nat" where
  "year_length y = sum_list (month_lengths y)"

lemma year_length_pos [simp]: "0 < year_length y"
  by (simp add: year_length_def month_lengths_def)

text \<open>The year, and the day in it counted from 0, that lies d days after the first of January of year y; and the
  month, counted from m, and the day in it of a day of a year with these month lengths.\<close>

function in_year :: "nat \<Rightarrow> nat \<Rightarrow> nat \<times> nat" where
  "in_year y d = (if d < year_length y then (y, d) else in_year (y + 1) (d - year_length y))"
  by pat_completeness auto
termination
proof (relation "measure snd")
  fix y d
  assume "\<not> d < year_length y"
  then show "((y + 1, d - year_length y), y, d) \<in> measure snd" using year_length_pos [of y]
    unfolding in_measure snd_conv by linarith
qed simp

declare in_year.simps [simp del]

fun in_month :: "nat list \<Rightarrow> nat \<Rightarrow> nat \<Rightarrow> nat \<times> nat" where
  "in_month [] m d = (m, d)"
| "in_month (l # ls) m d = (if d < l then (m, d) else in_month ls (m + 1) (d - l))"

lemma in_year_correct:
  "in_year y d = (y', d') \<Longrightarrow> y \<le> y' \<and> d' < year_length y' \<and> sum_list (map year_length [y..<y']) + d' = d"
proof (induction y d rule: in_year.induct)
  case (1 y d)
  show ?case
  proof (cases "d < year_length y")
    case True
    with "1.prems" show ?thesis by (simp add: in_year.simps)
  next
    case False
    with "1.prems" have "in_year (y + 1) (d - year_length y) = (y', d')" by (simp add: in_year.simps [of y d])
    with "1.IH" False have IH: "y + 1 \<le> y'" "d' < year_length y'"
      "sum_list (map year_length [y + 1..<y']) + d' = d - year_length y" by auto
    then have "[y..<y'] = y # [y + 1..<y']" by (simp add: upt_conv_Cons)
    with IH False show ?thesis by simp
  qed
qed

lemma in_month_correct:
  "in_month ls m d = (m', d') \<Longrightarrow> d < sum_list ls \<Longrightarrow>
     m \<le> m' \<and> m' < m + length ls \<and> d' < ls ! (m' - m) \<and> sum_list (take (m' - m) ls) + d' = d"
proof (induction ls m d rule: in_month.induct)
  case (2 l ls m d)
  show ?case
  proof (cases "d < l")
    case False
    with "2.prems" have "m + 1 \<le> m' \<and> m' < m + 1 + length ls \<and> d' < ls ! (m' - (m + 1))
        \<and> sum_list (take (m' - (m + 1)) ls) + d' = d - l" using "2.IH" [OF False] by simp
    moreover from this have "m' - m = Suc (m' - (m + 1))" by linarith
    ultimately show ?thesis using False by auto
  qed (use "2.prems" in auto)
qed simp

text \<open>The civil date of a day since the epoch, and its number again.\<close>

definition civil :: "nat \<Rightarrow> nat \<times> nat \<times> nat" where
  "civil n = (let (y, d) = in_year 1970 n; (m, e) = in_month (month_lengths y) 1 d in (y, m, e + 1))"

definition day_number :: "nat \<times> nat \<times> nat \<Rightarrow> nat" where
  "day_number = (\<lambda>(y, m, d). sum_list (map year_length [1970..<y]) + sum_list (take (m - 1) (month_lengths y)) + (d - 1))"

lemma civil_correct:
  assumes "civil n = (y, m, d)"
  shows "day_number (y, m, d) = n" and "1 \<le> m \<and> m \<le> 12 \<and> 1 \<le> d \<and> d \<le> month_lengths y ! (m - 1)"
proof -
  obtain k where k: "in_year 1970 n = (y, k)" and e: "in_month (month_lengths y) 1 k = (m, d - 1)" and "1 \<le> d"
    using assms by (auto simp: civil_def split: prod.splits)
  note Y = in_year_correct [OF k]
  have "k < sum_list (month_lengths y)" using Y by (simp add: year_length_def)
  note M = in_month_correct [OF e this]
  have "length (month_lengths y) = 12" by (simp add: month_lengths_def)
  with Y M \<open>1 \<le> d\<close> show "day_number (y, m, d) = n" "1 \<le> m \<and> m \<le> 12 \<and> 1 \<le> d \<and> d \<le> month_lengths y ! (m - 1)"
    by (cases d; auto simp: day_number_def)+
qed

definition clock_text :: "int \<Rightarrow> string" where
  "clock_text t = (let minute = nat (t mod day_us) div 60000000
     in pad_dec 2 (minute div 60) @ '':'' @ pad_dec 2 (minute mod 60))"

definition stamp_text :: "int \<Rightarrow> string" where
  "stamp_text t = (case civil (nat (utc_date t)) of (y, m, d) \<Rightarrow>
     dec_of y @ ''-'' @ pad_dec 2 m @ ''-'' @ pad_dec 2 d @ '' '' @ clock_text t)"

section \<open>Characters of a decimal number\<close>

lemma not_in_dec_of:
  assumes "\<And>d. d < 10 \<Longrightarrow> c \<noteq> digit d"
  shows "c \<notin> set (dec_of n)"
proof (induction n rule: dec_of.induct)
  case (1 n)
  then show ?case using assms by (subst dec_of.simps) auto
qed

lemma digit_not:
  assumes "(of_char c :: nat) < 48" and "d < 10"
  shows "c \<noteq> digit d"
proof
  assume "c = digit d"
  with of_char_digit [OF assms(2)] have "(of_char c :: nat) = 48 + d" by simp
  with assms(1) show False by simp
qed

end
