(* ===== verification/Catalog_Admin.thy ===== *)
theory Catalog_Admin
  imports Promotions Tenant_Views Texts
begin

text \<open>
  The rest of the endpoints of \<open>apps/products/api.py\<close> and their serializers: categories, products,
  specifications and SKUs are listed, shown, updated and deleted, and the inventory log is listed.  Every one
  asks only for a signed-in user.

  Deleting follows the foreign keys as the models declare them: \<open>CASCADE\<close> deletes the rows that refer to the
  deleted one, \<open>SET_NULL\<close> clears their column, \<open>PROTECT\<close> (the lines of an order) refuses with
  \<open>ProtectedError\<close>, a subclass of \<open>IntegrityError\<close>, and the links of a many-to-many relation go with either
  end.  These reach the carts, the orders and the promotions, so the state is \<open>promo_db\<close>.  No endpoint writes
  rows of \<open>ProductImage\<close>, and they are left out.
\<close>

definition cat_of :: "promo_db \<Rightarrow> catalog_db" where
  "cat_of db = db_cat (db_pord db)"

definition set_cat :: "catalog_db \<Rightarrow> promo_db \<Rightarrow> promo_db" where
  "set_cat c db = db\<lparr>db_pord := (db_pord db)\<lparr>db_cat := c\<rparr>\<rparr>"

section \<open>Categories\<close>

record category_body =
  cgb_name :: "string option"
  cgb_description :: "string option"
  cgb_parent :: "int option option"
  cgb_sort :: "int option"
  cgb_active :: "bool option"

definition category_body_valid :: "bool \<Rightarrow> category_body \<Rightarrow> catalog_db \<Rightarrow> bool" where
  "category_body_valid partial b db \<longleftrightarrow> needed partial (cgb_name b) (text_ok 100)
     \<and> optional (cgb_parent b) (\<lambda>p. case p of None \<Rightarrow> True | Some q \<Rightarrow> qs_exists (\<lambda>c. ca_id c = q) (db_categories db))
     \<and> optional (cgb_sort b) int4_ok"

definition category_apply :: "category_body \<Rightarrow> category_row \<Rightarrow> category_row" where
  "category_apply b c = c\<lparr>ca_name := or_default (cgb_name b) (ca_name c),
     ca_description := or_default (cgb_description b) (ca_description c),
     ca_parent := or_default (cgb_parent b) (ca_parent c), ca_sort := or_default (cgb_sort b) (ca_sort c),
     ca_active := or_default (cgb_active b) (ca_active c)\<rparr>"

definition category_key :: "category_row \<Rightarrow> int \<times> string" where
  "category_key c = (ca_shop c, ca_name c)"

definition store_categories :: "category_row tbl \<Rightarrow> catalog_db \<Rightarrow> catalog_db res" where
  "store_categories = store_unique category_key ''product_categories'' (\<lambda>t db. db\<lparr>db_categories := t\<rparr>)"

definition category_object :: "request \<Rightarrow> int \<Rightarrow> catalog_db \<Rightarrow> category_row option" where
  "category_object rq pk db = qs_first (\<lambda>c. ca_id c = pk \<and> Some (ca_shop c) = rq_tenant rq) (db_categories db)"

text \<open>\<open>CategorySerializer(obj).data\<close>: the row and its two counts.\<close>

definition category_data :: "catalog_db \<Rightarrow> category_row \<Rightarrow> category_row \<times> nat \<times> nat" where
  "category_data db c = (c, category_children_count c db, category_products_count c db)"

definition category_retrieve :: "request \<Rightarrow> int \<Rightarrow> catalog_db \<Rightarrow> (category_row \<times> nat \<times> nat) reply \<times> catalog_db" where
  "category_retrieve rq pk = signed_in rq (\<lambda>u db.
     (case category_object rq pk db of
        None \<Rightarrow> (Reject 404 (DoesNotExist ''Category''), db)
      | Some c \<Rightarrow> (OK 200 (category_data db c), db)))"

definition category_update ::
  "bool \<Rightarrow> request \<Rightarrow> int \<Rightarrow> category_body \<Rightarrow> catalog_db \<Rightarrow> category_row reply \<times> catalog_db" where
  "category_update partial rq pk b = signed_in rq (\<lambda>u db.
     (case category_object rq pk db of
        None \<Rightarrow> (Reject 404 (DoesNotExist ''Category''), db)
      | Some c \<Rightarrow>
          if \<not> category_body_valid partial b db then (Reject 400 (ValidationError ''category''), db)
          else (case store_categories (t_save ca_id (category_apply b c) (db_categories db)) db of
                  Inl e \<Rightarrow> (Crash e, db)
                | Inr db1 \<Rightarrow> (OK 200 (category_apply b c), db1))))"

text \<open>
  The categories a deletion collects: the cascade of \<open>parent\<close> runs in rounds, each over the categories that
  were not collected before and whose parent the last round collected, until a round finds nothing new.  So it
  ends also when the parents form a cycle.
\<close>

definition children_of :: "category_row tbl \<Rightarrow> int list \<Rightarrow> int list" where
  "children_of t ps = map ca_id (qs_filter (\<lambda>c. case ca_parent c of None \<Rightarrow> False | Some p \<Rightarrow> p \<in> set ps) t)"

function collect_categories :: "category_row tbl \<Rightarrow> int list \<Rightarrow> int list \<Rightarrow> int list" where
  "collect_categories t seen objs =
     (let new = filter (\<lambda>i. i \<notin> set seen) (remdups objs)
      in if new = [] then seen else collect_categories t (seen @ new) (children_of t new))"
  by pat_completeness auto

lemma children_of_ids: "set (children_of t ps) \<subseteq> ca_id ` set (rows t)"
  by (auto simp: children_of_def qs_filter_def)

lemma collect_categories_decreases:
  assumes "new = filter (\<lambda>i. i \<notin> set seen) (remdups objs)" and "new \<noteq> []"
  shows "card ((ca_id ` set (rows t) \<union> set (children_of t new)) - set (seen @ new))
    < card ((ca_id ` set (rows t) \<union> set objs) - set seen)"
proof (rule psubset_card_mono)
  have new: "set new \<subseteq> set objs" "set new \<inter> set seen = {}" using assms(1) by auto
  obtain x where x: "x \<in> set new" using assms(2) by (cases new) auto
  have "(ca_id ` set (rows t) \<union> set (children_of t new)) - set (seen @ new)
      \<subseteq> (ca_id ` set (rows t) \<union> set objs) - set seen"
    using children_of_ids [of t new] by auto
  moreover have "x \<in> (ca_id ` set (rows t) \<union> set objs) - set seen" using x new by auto
  moreover have "x \<notin> (ca_id ` set (rows t) \<union> set (children_of t new)) - set (seen @ new)" using x by simp
  ultimately show "(ca_id ` set (rows t) \<union> set (children_of t new)) - set (seen @ new)
      \<subset> (ca_id ` set (rows t) \<union> set objs) - set seen" by blast
qed simp

termination collect_categories
  by (relation "measure (\<lambda>(t, seen, objs). card ((ca_id ` set (rows t) \<union> set objs) - set seen))")
    (simp_all only: wf_measure in_measure prod.case, rule collect_categories_decreases, simp_all)

declare collect_categories.simps [simp del]

definition delete_categories :: "int list \<Rightarrow> promo_db \<Rightarrow> promo_db" where
  "delete_categories gone db =
     (let c = cat_of db;
          c' = c\<lparr>db_categories := t_del (\<lambda>r. ca_id r \<in> set gone) (db_categories c),
                 db_products := t_upd (\<lambda>p. case p_category p of None \<Rightarrow> False | Some i \<Rightarrow> i \<in> set gone)
                                   (\<lambda>p. p\<lparr>p_category := None\<rparr>) (db_products c)\<rparr>
      in (set_cat c' db)\<lparr>db_promos := t_upd (\<lambda>_. True)
            (\<lambda>q. q\<lparr>pn_categories := filter (\<lambda>i. i \<notin> set gone) (pn_categories q)\<rparr>) (db_promos db)\<rparr>)"

definition category_destroy :: "request \<Rightarrow> int \<Rightarrow> promo_db \<Rightarrow> unit reply \<times> promo_db" where
  "category_destroy rq pk = signed_in rq (\<lambda>u db.
     (case category_object rq pk (cat_of db) of
        None \<Rightarrow> (Reject 404 (DoesNotExist ''Category''), db)
      | Some c \<Rightarrow> (OK 204 (), delete_categories (collect_categories (db_categories (cat_of db)) [] [ca_id c]) db)))"

section \<open>SKUs\<close>

text \<open>\<open>ProductSKU.__str__\<close> and \<open>SpecificationValue.__str__\<close>.\<close>

definition value_label :: "catalog_db \<Rightarrow> spec_value_row \<Rightarrow> string res" where
  "value_label db v =
     (case t_find sp_id (sv_spec v) (db_specs db) of
        None \<Rightarrow> Inl (DoesNotExist ''Specification'')
      | Some s \<Rightarrow> Inr (sp_display s @ '': '' @ sv_display v))"

definition sku_label :: "catalog_db \<Rightarrow> sku_row \<Rightarrow> string res" where
  "sku_label db k =
     (case collect_res (value_label db) (qs_filter (\<lambda>v. sv_id v \<in> set (k_specs k)) (db_spec_values db)) of
        Inl e \<Rightarrow> Inl e
      | Inr vs \<Rightarrow>
          (case t_find p_id (k_product k) (db_products db) of
             None \<Rightarrow> Inl (DoesNotExist ''Product'')
           | Some p \<Rightarrow> Inr (p_name p @ '' - '' @ join '' | '' vs)))"

text \<open>\<open>ProductSKUSerializer(obj).data\<close>: the row, its specification values and the two flags.\<close>

definition sku_data :: "catalog_db \<Rightarrow> sku_row \<Rightarrow> sku_row \<times> spec_value_row list \<times> bool \<times> bool" where
  "sku_data db k = (k, qs_filter (\<lambda>v. sv_id v \<in> set (k_specs k)) (db_spec_values db), is_in_stock k, is_low_stock k)"

definition sku_list :: "nat \<Rightarrow> request \<Rightarrow> catalog_db \<Rightarrow>
    (sku_row \<times> spec_value_row list \<times> bool \<times> bool) list reply \<times> catalog_db" where
  "sku_list page rq = signed_in rq (\<lambda>u db.
     (shown (sku_data db) (paginated page (qs_filter (sku_in db (rq_tenant rq)) (db_skus db))), db))"

definition sku_retrieve :: "request \<Rightarrow> int \<Rightarrow> catalog_db \<Rightarrow>
    (sku_row \<times> spec_value_row list \<times> bool \<times> bool) reply \<times> catalog_db" where
  "sku_retrieve rq pk = signed_in rq (\<lambda>u db.
     (case sku_object rq pk db of
        None \<Rightarrow> (Reject 404 (DoesNotExist ''ProductSKU''), db)
      | Some k \<Rightarrow> (OK 200 (sku_data db k), db)))"

text \<open>Deleting SKUs takes their stock log and the cart lines that name them; an order line forbids it.\<close>

definition skus_ordered :: "int list \<Rightarrow> promo_db \<Rightarrow> bool" where
  "skus_ordered ks db =
     qs_exists (\<lambda>it. case oi_sku it of None \<Rightarrow> False | Some k \<Rightarrow> k \<in> set ks) (db_order_items (db_pord db))"

definition delete_skus :: "int list \<Rightarrow> promo_db \<Rightarrow> promo_db" where
  "delete_skus ks db =
     (let c = cat_of db;
          c' = c\<lparr>db_skus := t_del (\<lambda>k. k_id k \<in> set ks) (db_skus c),
                 db_inventory := t_del (\<lambda>l. il_sku l \<in> set ks) (db_inventory c)\<rparr>;
          od = db_pord db
      in db\<lparr>db_pord := od\<lparr>db_cat := c',
            db_cart_items := t_del (\<lambda>ci. case ci_sku ci of None \<Rightarrow> False | Some k \<Rightarrow> k \<in> set ks) (db_cart_items od)\<rparr>\<rparr>)"

definition sku_destroy :: "request \<Rightarrow> int \<Rightarrow> promo_db \<Rightarrow> unit reply \<times> promo_db" where
  "sku_destroy rq pk = signed_in rq (\<lambda>u db.
     (case sku_object rq pk (cat_of db) of
        None \<Rightarrow> (Reject 404 (DoesNotExist ''ProductSKU''), db)
      | Some k \<Rightarrow>
          if skus_ordered [k_id k] db then (Crash (IntegrityError ''protected''), db)
          else (OK 204 (), delete_skus [k_id k] db)))"

section \<open>Specifications\<close>

record spec_body =
  fb_name :: "string option"
  fb_display :: "string option"
  fb_sort :: "int option"

definition spec_body_valid :: "bool \<Rightarrow> spec_body \<Rightarrow> bool" where
  "spec_body_valid partial b \<longleftrightarrow> needed partial (fb_name b) (text_ok 50)
     \<and> needed partial (fb_display b) (text_ok 50) \<and> optional (fb_sort b) int4_ok"

definition spec_apply :: "spec_body \<Rightarrow> spec_row \<Rightarrow> spec_row" where
  "spec_apply b s = s\<lparr>sp_name := or_default (fb_name b) (sp_name s),
     sp_display := or_default (fb_display b) (sp_display s), sp_sort := or_default (fb_sort b) (sp_sort s)\<rparr>"

definition spec_key :: "spec_row \<Rightarrow> int \<times> string" where
  "spec_key s = (sp_shop s, sp_name s)"

definition store_specs :: "spec_row tbl \<Rightarrow> catalog_db \<Rightarrow> catalog_db res" where
  "store_specs = store_unique spec_key ''specifications'' (\<lambda>t db. db\<lparr>db_specs := t\<rparr>)"

definition spec_object :: "request \<Rightarrow> int \<Rightarrow> catalog_db \<Rightarrow> spec_row option" where
  "spec_object rq pk db = qs_first (\<lambda>s. sp_id s = pk \<and> Some (sp_shop s) = rq_tenant rq) (db_specs db)"

text \<open>\<open>SpecificationSerializer(obj).data\<close>: the row and its values.\<close>

definition spec_data :: "catalog_db \<Rightarrow> spec_row \<Rightarrow> spec_row \<times> spec_value_row list" where
  "spec_data db s = (s, qs_filter (\<lambda>v. sv_spec v = sp_id s) (db_spec_values db))"

definition specification_list :: "nat \<Rightarrow> request \<Rightarrow> catalog_db \<Rightarrow> (spec_row \<times> spec_value_row list) list reply \<times> catalog_db" where
  "specification_list page rq = signed_in rq (\<lambda>u db.
     (shown (spec_data db) (paginated page (qs_filter (\<lambda>s. Some (sp_shop s) = rq_tenant rq) (db_specs db))), db))"

definition specification_update ::
  "bool \<Rightarrow> request \<Rightarrow> int \<Rightarrow> spec_body \<Rightarrow> catalog_db \<Rightarrow> spec_row reply \<times> catalog_db" where
  "specification_update partial rq pk b = signed_in rq (\<lambda>u db.
     (case spec_object rq pk db of
        None \<Rightarrow> (Reject 404 (DoesNotExist ''Specification''), db)
      | Some s \<Rightarrow>
          if \<not> spec_body_valid partial b then (Reject 400 (ValidationError ''specification''), db)
          else (case store_specs (t_save sp_id (spec_apply b s) (db_specs db)) db of
                  Inl e \<Rightarrow> (Crash e, db)
                | Inr db1 \<Rightarrow> (OK 200 (spec_apply b s), db1))))"

text \<open>Deleting a specification takes its values, and these leave the SKUs they describe.\<close>

definition specification_destroy :: "request \<Rightarrow> int \<Rightarrow> promo_db \<Rightarrow> unit reply \<times> promo_db" where
  "specification_destroy rq pk = signed_in rq (\<lambda>u db.
     (case spec_object rq pk (cat_of db) of
        None \<Rightarrow> (Reject 404 (DoesNotExist ''Specification''), db)
      | Some s \<Rightarrow>
          let c = cat_of db;
              gone = map sv_id (qs_filter (\<lambda>v. sv_spec v = sp_id s) (db_spec_values c));
              c' = c\<lparr>db_specs := t_del (\<lambda>r. sp_id r = sp_id s) (db_specs c),
                     db_spec_values := t_del (\<lambda>v. sv_spec v = sp_id s) (db_spec_values c),
                     db_skus := t_upd (\<lambda>_. True) (\<lambda>k. k\<lparr>k_specs := filter (\<lambda>i. i \<notin> set gone) (k_specs k)\<rparr>) (db_skus c)\<rparr>
          in (OK 204 (), set_cat c' db)))"

section \<open>Products\<close>

record product_body =
  prb_name :: "string option"
  prb_description :: "string option"
  prb_category :: "int option option"
  prb_base_price :: "int option"
  prb_cost_price :: "int option option"
  prb_main_image :: "string option"
  prb_images :: "string list option"
  prb_status :: "product_status option"
  prb_featured :: "bool option"
  prb_sort :: "int option"
  prb_custom :: "bool option"
  prb_prep_time :: "int option"

text \<open>The fields of \<open>ProductCreateSerializer\<close>; the category may be one of any shop, and an image is the name
  under which an accepted upload is stored.\<close>

definition product_body_valid :: "bool \<Rightarrow> product_body \<Rightarrow> catalog_db \<Rightarrow> bool" where
  "product_body_valid partial b db \<longleftrightarrow> needed partial (prb_name b) (text_ok 200)
     \<and> optional (prb_category b) (\<lambda>p. case p of None \<Rightarrow> True | Some q \<Rightarrow> qs_exists (\<lambda>c. ca_id c = q) (db_categories db))
     \<and> needed partial (prb_base_price b) price_ok
     \<and> optional (prb_cost_price b) (\<lambda>c. case c of None \<Rightarrow> True | Some v \<Rightarrow> price_ok v)
     \<and> needed partial (prb_main_image b) (\<lambda>n. n \<noteq> [])
     \<and> optional (prb_sort b) int4_ok \<and> optional (prb_prep_time b) int4_ok"

definition product_apply :: "product_body \<Rightarrow> product_row \<Rightarrow> product_row" where
  "product_apply b p = p\<lparr>p_name := or_default (prb_name b) (p_name p),
     p_description := or_default (prb_description b) (p_description p),
     p_category := or_default (prb_category b) (p_category p),
     p_base_price := or_default (prb_base_price b) (p_base_price p),
     p_cost_price := or_default (prb_cost_price b) (p_cost_price p),
     p_main_image := or_default (prb_main_image b) (p_main_image p),
     p_images := or_default (prb_images b) (p_images p), p_status := or_default (prb_status b) (p_status p),
     p_featured := or_default (prb_featured b) (p_featured p), p_sort := or_default (prb_sort b) (p_sort p),
     p_custom := or_default (prb_custom b) (p_custom p), p_prep_time := or_default (prb_prep_time b) (p_prep_time p)\<rparr>"

definition blank_product :: "int \<Rightarrow> int \<Rightarrow> product_row" where
  "blank_product shop by = \<lparr>p_id = 0, p_name = [], p_description = [], p_category = None, p_base_price = 0,
     p_cost_price = None, p_main_image = [], p_images = [], p_status = Draft, p_featured = False, p_sort = 0,
     p_custom = False, p_prep_time = 10, p_shop = shop, p_created_by = Some by\<rparr>"

definition product_create :: "request \<Rightarrow> product_body \<Rightarrow> catalog_db \<Rightarrow> product_row reply \<times> catalog_db" where
  "product_create rq b = signed_in rq (\<lambda>u db.
     if \<not> product_body_valid False b db then (Reject 400 (ValidationError ''product''), db)
     else (case rq_tenant rq of
             None \<Rightarrow> (Crash (IntegrityError ''shop''), db)
           | Some tn \<Rightarrow>
               let (p, t) = t_add (\<lambda>i. (product_apply b (blank_product tn (u_id u)))\<lparr>p_id := i\<rparr>) (db_products db)
               in (OK 201 p, db\<lparr>db_products := t\<rparr>)))"

definition product_update ::
  "bool \<Rightarrow> request \<Rightarrow> int \<Rightarrow> product_body \<Rightarrow> catalog_db \<Rightarrow> product_row reply \<times> catalog_db" where
  "product_update partial rq pk b = signed_in rq (\<lambda>u db.
     (case product_object rq pk db of
        None \<Rightarrow> (Reject 404 (DoesNotExist ''Product''), db)
      | Some p \<Rightarrow>
          if \<not> product_body_valid partial b db then (Reject 400 (ValidationError ''product''), db)
          else (OK 200 (product_apply b p), db\<lparr>db_products := t_save p_id (product_apply b p) (db_products db)\<rparr>)))"

text \<open>
  \<open>ProductDetailSerializer(obj).data\<close>.  Its member \<open>images\<close> serializes the elements of the JSON column
  \<open>images\<close> as if they were rows of \<open>ProductImage\<close>: the first file name in it raises \<open>AttributeError\<close> for the
  required \<open>image\<close>.  A product has no attribute \<open>specifications\<close>; the member is read-only and is left out.
\<close>

record product_detail =
  dt_row :: product_row
  dt_category :: "(category_row \<times> nat \<times> nat) option"
  dt_skus :: "(sku_row \<times> spec_value_row list \<times> bool \<times> bool) list"
  dt_attributes :: "(attribute_row \<times> option_row list) list"

definition attribute_data :: "catalog_db \<Rightarrow> attribute_row \<Rightarrow> attribute_row \<times> option_row list" where
  "attribute_data db a = (a, qs_filter (\<lambda>x. op_attribute x = at_id a) (db_options db))"

definition product_detail_data :: "catalog_db \<Rightarrow> product_row \<Rightarrow> product_detail res" where
  "product_detail_data db p =
     (if p_images p \<noteq> [] then Inl (AttributeError ''image'')
      else Inr \<lparr>dt_row = p,
        dt_category = (case p_category p of None \<Rightarrow> None
                       | Some i \<Rightarrow> map_option (category_data db) (t_find ca_id i (db_categories db))),
        dt_skus = map (sku_data db) (qs_filter (\<lambda>k. k_product k = p_id p) (db_skus db)),
        dt_attributes = map (attribute_data db) (qs_filter (\<lambda>a. at_product a = p_id p) (db_attributes db))\<rparr>)"

definition product_retrieve :: "request \<Rightarrow> int \<Rightarrow> catalog_db \<Rightarrow> product_detail reply \<times> catalog_db" where
  "product_retrieve rq pk = signed_in rq (\<lambda>u db.
     (case product_object rq pk db of
        None \<Rightarrow> (Reject 404 (DoesNotExist ''Product''), db)
      | Some p \<Rightarrow> (case product_detail_data db p of
                     Inl e \<Rightarrow> (Crash e, db)
                   | Inr d \<Rightarrow> (OK 200 d, db))))"

text \<open>
  The list queryset joins \<open>select_related('category', 'created_by')\<close> and defers every column that \<open>only\<close> does
  not name.  A query that both defers a relation and traverses it raises \<open>FieldError\<close> when it is run; counting the
  rows for the pages does not join anything.
\<close>

definition product_relations :: "string list" where
  "product_relations = [''category'', ''created_by'']"

definition product_list_columns :: "string list" where
  "product_list_columns = [''id'', ''name'', ''category'', ''base_price'', ''main_image'', ''status'',
     ''is_featured'', ''sort_order'', ''created_at'']"

definition deferred_relation :: "string list \<Rightarrow> string list \<Rightarrow> string option" where
  "deferred_relation relations columns = find (\<lambda>r. r \<notin> set columns) relations"

text \<open>\<open>ProductListSerializer(obj).data\<close>: \<open>category_name\<close> is left out without a category, and \<open>min_price\<close>,
  \<open>max_price\<close> and \<open>has_variants\<close> always are, since a product has no such attributes.\<close>

record product_line =
  ln_id :: int
  ln_name :: string
  ln_category :: "int option"
  ln_category_name :: "string option"
  ln_base_price :: int
  ln_main_image :: string
  ln_status :: product_status
  ln_featured :: bool
  ln_sort :: int

definition product_line_data :: "catalog_db \<Rightarrow> product_row \<Rightarrow> product_line" where
  "product_line_data db p = \<lparr>ln_id = p_id p, ln_name = p_name p, ln_category = p_category p,
     ln_category_name = (case p_category p of None \<Rightarrow> None | Some i \<Rightarrow> map_option ca_name (t_find ca_id i (db_categories db))),
     ln_base_price = p_base_price p, ln_main_image = p_main_image p, ln_status = p_status p,
     ln_featured = p_featured p, ln_sort = p_sort p\<rparr>"

definition product_list :: "nat \<Rightarrow> string list \<Rightarrow> request \<Rightarrow> catalog_db \<Rightarrow> product_line list reply \<times> catalog_db" where
  "product_list page columns rq = signed_in rq (\<lambda>u db.
     (serialized (\<lambda>ps. case deferred_relation product_relations columns of
          Some r \<Rightarrow> Inl (FieldError r) | None \<Rightarrow> Inr (map (product_line_data db) ps))
        (paginated page (sort_key (\<lambda>p. (p_sort p, p_name p))
           (qs_filter (\<lambda>p. Some (p_shop p) = rq_tenant rq) (db_products db)))), db))"

text \<open>Deleting a product takes its SKUs, attributes with their options, and the cart lines that name it; a line
  of an order that names it or one of its SKUs forbids it.\<close>

definition product_ordered :: "int \<Rightarrow> promo_db \<Rightarrow> bool" where
  "product_ordered pid db = qs_exists (\<lambda>it. oi_product it = pid) (db_order_items (db_pord db))"

definition delete_product :: "int \<Rightarrow> promo_db \<Rightarrow> promo_db" where
  "delete_product pid db =
     (let db1 = delete_skus (map k_id (qs_filter (\<lambda>k. k_product k = pid) (db_skus (cat_of db)))) db;
          c = cat_of db1;
          attrs = map at_id (qs_filter (\<lambda>a. at_product a = pid) (db_attributes c));
          opts = map op_id (qs_filter (\<lambda>x. op_attribute x \<in> set attrs) (db_options c));
          c' = c\<lparr>db_products := t_del (\<lambda>p. p_id p = pid) (db_products c),
                 db_attributes := t_del (\<lambda>a. at_product a = pid) (db_attributes c),
                 db_options := t_del (\<lambda>x. op_attribute x \<in> set attrs) (db_options c)\<rparr>;
          od = db_pord db1;
          lines = t_upd (\<lambda>_. True) (\<lambda>ci. ci\<lparr>ci_options := filter (\<lambda>i. i \<notin> set opts) (ci_options ci)\<rparr>)
                    (t_del (\<lambda>ci. ci_product ci = pid) (db_cart_items od))
      in db1\<lparr>db_pord := od\<lparr>db_cat := c', db_cart_items := lines\<rparr>,
             db_promos := t_upd (\<lambda>_. True)
               (\<lambda>q. q\<lparr>pn_products := filter (\<lambda>i. i \<noteq> pid) (pn_products q),
                       pn_gift := (if pn_gift q = Some pid then None else pn_gift q)\<rparr>) (db_promos db1)\<rparr>)"

definition product_destroy :: "request \<Rightarrow> int \<Rightarrow> promo_db \<Rightarrow> unit reply \<times> promo_db" where
  "product_destroy rq pk = signed_in rq (\<lambda>u db.
     (case product_object rq pk (cat_of db) of
        None \<Rightarrow> (Reject 404 (DoesNotExist ''Product''), db)
      | Some p \<Rightarrow>
          if product_ordered (p_id p) db
             \<or> skus_ordered (map k_id (qs_filter (\<lambda>k. k_product k = p_id p) (db_skus (cat_of db)))) db
          then (Crash (IntegrityError ''protected''), db)
          else (OK 204 (), delete_product (p_id p) db)))"

section \<open>Inventory log\<close>

text \<open>\<open>InventoryLogSerializer(obj).data\<close>: the row, the label of the SKU and the name of the user, if any.
  \<open>ordering = ['-created_at']\<close> gives the latest first, the reverse of the insertion.\<close>

definition inventory_data ::
  "user_row tbl \<Rightarrow> catalog_db \<Rightarrow> inventory_log \<Rightarrow> (inventory_log \<times> string \<times> string option) res" where
  "inventory_data us db l =
     (case t_find k_id (il_sku l) (db_skus db) of
        None \<Rightarrow> Inl (DoesNotExist ''ProductSKU'')
      | Some k \<Rightarrow>
          (case sku_label db k of
             Inl e \<Rightarrow> Inl e
           | Inr name \<Rightarrow> Inr (l, name, case il_by l of None \<Rightarrow> None | Some i \<Rightarrow> map_option u_username (t_find u_id i us))))"

definition inventory_list ::
  "nat \<Rightarrow> user_row tbl \<Rightarrow> request \<Rightarrow> catalog_db \<Rightarrow> (inventory_log \<times> string \<times> string option) list reply \<times> catalog_db" where
  "inventory_list page us rq = signed_in rq (\<lambda>u db.
     (serialized (collect_res (inventory_data us db)) (paginated page
        (rev (qs_filter (\<lambda>l. list_ex (\<lambda>k. k_id k = il_sku l \<and> sku_in db (rq_tenant rq) k) (rows (db_skus db))) (db_inventory db)))), db))"

section \<open>Lemmas: the cascade over categories\<close>

definition child_rel :: "category_row tbl \<Rightarrow> (int \<times> int) set" where
  "child_rel t = {(p, ca_id c) | p c. c \<in> set (rows t) \<and> ca_parent c = Some p}"

lemma set_children_of: "set (children_of t ps) = child_rel t `` set ps"
  by (auto simp: children_of_def qs_filter_def child_rel_def image_iff split: option.splits)

lemma rtrancl_closed:
  assumes "R `` S \<subseteq> S" and "A \<subseteq> S"
  shows "R\<^sup>* `` A \<subseteq> S"
proof
  fix y assume "y \<in> R\<^sup>* `` A"
  then obtain x where "x \<in> A" "(x, y) \<in> R\<^sup>*" by blast
  from this(2,1) show "y \<in> S"
    by (induction rule: rtrancl_induct) (use assms in auto)
qed

lemma collect_categories_reach:
  assumes "child_rel t `` set seen \<subseteq> set seen \<union> set objs"
  shows "set (collect_categories t seen objs) = set seen \<union> (child_rel t)\<^sup>* `` set objs"
  using assms
proof (induction t seen objs rule: collect_categories.induct)
  case (1 t seen objs)
  let ?R = "child_rel t"
  let ?new = "filter (\<lambda>i. i \<notin> set seen) (remdups objs)"
  have split: "set seen \<union> set ?new = set seen \<union> set objs" by auto
  show ?case
  proof (cases "?new = []")
    case True
    then have sub: "set objs \<subseteq> set seen" by (auto simp: filter_empty_conv)
    with 1(2) have "?R `` set seen \<subseteq> set seen" by blast
    then have "?R\<^sup>* `` set objs \<subseteq> set seen" using sub by (rule rtrancl_closed)
    with True show ?thesis by (auto simp: collect_categories.simps [of t seen objs])
  next
    case False
    have pre: "?R `` set (seen @ ?new) \<subseteq> set (seen @ ?new) \<union> set (children_of t ?new)"
      using 1(2) by (auto simp: set_children_of)
    have IH: "set (collect_categories t (seen @ ?new) (children_of t ?new))
        = set (seen @ ?new) \<union> ?R\<^sup>* `` set (children_of t ?new)"
      by (rule 1(1) [OF refl False pre])
    have reach: "set ?new \<union> ?R\<^sup>* `` (?R `` set ?new) = ?R\<^sup>* `` set ?new"
      by (auto intro: converse_rtrancl_into_rtrancl elim: converse_rtranclE)
    have "?R `` (set seen \<union> ?R\<^sup>* `` set ?new) \<subseteq> set seen \<union> ?R\<^sup>* `` set ?new"
      using 1(2) split by (auto intro: rtrancl_into_rtrancl)
    then have "?R\<^sup>* `` set objs \<subseteq> set seen \<union> ?R\<^sup>* `` set ?new"
      by (rule rtrancl_closed) (use split in auto)
    moreover have "?R\<^sup>* `` set ?new \<subseteq> ?R\<^sup>* `` set objs" by auto
    ultimately have "set seen \<union> ?R\<^sup>* `` set objs = set seen \<union> ?R\<^sup>* `` set ?new" by blast
    then show ?thesis
      using IH False reach by (simp add: collect_categories.simps [of t seen objs] Let_def set_children_of Un_assoc)
  qed
qed

lemma collect_categories_distinct: "distinct seen \<Longrightarrow> distinct (collect_categories t seen objs)"
proof (induction t seen objs rule: collect_categories.induct)
  case (1 t seen objs)
  let ?new = "filter (\<lambda>i. i \<notin> set seen) (remdups objs)"
  show ?case
  proof (cases "?new = []")
    case True
    with 1(2) show ?thesis by (simp add: collect_categories.simps [of t seen objs])
  next
    case False
    have "distinct (seen @ ?new)" using 1(2) by auto
    with 1(1) [OF refl False] False show ?thesis by (simp add: collect_categories.simps [of t seen objs] Let_def)
  qed
qed

lemma child_rel_ids: "child_rel t `` A \<subseteq> ca_id ` set (rows t)"
  by (auto simp: child_rel_def)

lemma collected_of_category:
  assumes "c \<in> set (rows t)"
  shows "set (collect_categories t [] [ca_id c]) = (child_rel t)\<^sup>* `` {ca_id c}"
    and "length (collect_categories t [] [ca_id c]) \<le> length (rows t)"
proof -
  show reach: "set (collect_categories t [] [ca_id c]) = (child_rel t)\<^sup>* `` {ca_id c}"
    using collect_categories_reach [of t "[]" "[ca_id c]"] by simp
  have "(child_rel t)\<^sup>* `` {ca_id c} \<subseteq> ca_id ` set (rows t)"
    by (rule rtrancl_closed [OF child_rel_ids]) (use assms in auto)
  then have "card (set (collect_categories t [] [ca_id c])) \<le> card (ca_id ` set (rows t))"
    unfolding reach by (rule card_mono [rotated]) simp
  also have "\<dots> \<le> length (rows t)" using card_image_le [of "set (rows t)" ca_id] card_length [of "rows t"] by simp
  finally show "length (collect_categories t [] [ca_id c]) \<le> length (rows t)"
    using distinct_card [OF collect_categories_distinct [of "[]" t "[ca_id c]"]] by simp
qed

section \<open>Properties: categories\<close>


definition demo_loop :: "category_row tbl" where
  "demo_loop = \<lparr>rows =
     [\<lparr>ca_id = 1, ca_name = ''tea'', ca_description = [], ca_parent = Some 2, ca_sort = 0, ca_active = True, ca_shop = 3\<rparr>,
      \<lparr>ca_id = 2, ca_name = ''drinks'', ca_description = [], ca_parent = Some 1, ca_sort = 0, ca_active = True, ca_shop = 4\<rparr>,
      \<lparr>ca_id = 3, ca_name = ''cake'', ca_description = [], ca_parent = None, ca_sort = 0, ca_active = True, ca_shop = 3\<rparr>],
     seq = 3\<rparr>"


end
