(* ===== verification/Catalog_Refs.thy ===== *)
theory Catalog_Refs
  imports Catalog_Admin
begin

text \<open>
  Referential integrity of the catalogue and of what refers to it: every request of the \<open>products\<close> app, the
  deletions with their cascades included, leaves every foreign key and every link pointing at a row that exists.
\<close>

section \<open>References\<close>

definition catalog_refs :: "catalog_db \<Rightarrow> bool" where
  "catalog_refs c \<longleftrightarrow> t_wf ca_id (db_categories c) \<and> t_wf p_id (db_products c) \<and> t_wf sp_id (db_specs c) \<and> t_wf k_id (db_skus c)
     \<and> (\<forall>r \<in> set (rows (db_categories c)). opt_in (ca_parent r) (ids_of ca_id (db_categories c)))
     \<and> (\<forall>p \<in> set (rows (db_products c)). opt_in (p_category p) (ids_of ca_id (db_categories c)))
     \<and> (\<forall>v \<in> set (rows (db_spec_values c)). sv_spec v \<in> ids_of sp_id (db_specs c))
     \<and> (\<forall>k \<in> set (rows (db_skus c)). k_product k \<in> ids_of p_id (db_products c)
            \<and> set (k_specs k) \<subseteq> ids_of sv_id (db_spec_values c))
     \<and> (\<forall>a \<in> set (rows (db_attributes c)). at_product a \<in> ids_of p_id (db_products c))
     \<and> (\<forall>x \<in> set (rows (db_options c)). op_attribute x \<in> ids_of at_id (db_attributes c))
     \<and> (\<forall>l \<in> set (rows (db_inventory c)). il_sku l \<in> ids_of k_id (db_skus c))"

definition shop_refs :: "promo_db \<Rightarrow> bool" where
  "shop_refs db \<longleftrightarrow> catalog_refs (cat_of db)
     \<and> (\<forall>ci \<in> set (rows (db_cart_items (db_pord db))). ci_product ci \<in> ids_of p_id (db_products (cat_of db))
            \<and> opt_in (ci_sku ci) (ids_of k_id (db_skus (cat_of db)))
            \<and> set (ci_options ci) \<subseteq> ids_of op_id (db_options (cat_of db)))
     \<and> (\<forall>it \<in> set (rows (db_order_items (db_pord db))). oi_product it \<in> ids_of p_id (db_products (cat_of db))
            \<and> opt_in (oi_sku it) (ids_of k_id (db_skus (cat_of db))))
     \<and> (\<forall>q \<in> set (rows (db_promos db)). set (pn_products q) \<subseteq> ids_of p_id (db_products (cat_of db))
            \<and> set (pn_categories q) \<subseteq> ids_of ca_id (db_categories (cat_of db))
            \<and> opt_in (pn_gift q) (ids_of p_id (db_products (cat_of db))))"

text \<open>A change of the catalogue that deletes nothing.\<close>

definition grown :: "catalog_db \<Rightarrow> catalog_db \<Rightarrow> bool" where
  "grown c c' \<longleftrightarrow> catalog_refs c' \<and> ids_of ca_id (db_categories c) \<subseteq> ids_of ca_id (db_categories c')
     \<and> ids_of p_id (db_products c) \<subseteq> ids_of p_id (db_products c')
     \<and> ids_of k_id (db_skus c) \<subseteq> ids_of k_id (db_skus c')
     \<and> ids_of op_id (db_options c) \<subseteq> ids_of op_id (db_options c')"

lemma grown_refl: "catalog_refs c \<Longrightarrow> grown c c"
  by (simp add: grown_def)

lemma grown_refs: "grown c c' \<Longrightarrow> catalog_refs c'"
  by (simp add: grown_def)

lemma grown_trans: "grown c c1 \<Longrightarrow> grown c1 c2 \<Longrightarrow> grown c c2"
  by (auto simp: grown_def)

lemma cat_of_set_cat [simp]: "cat_of (set_cat c db) = c"
  by (simp add: cat_of_def set_cat_def)

lemma shop_refs_grown:
  assumes "shop_refs db" and "grown (cat_of db) c"
  shows "shop_refs (set_cat c db)"
  using assms
  by (fastforce simp: shop_refs_def grown_def set_cat_def cat_of_def intro: opt_in_mono)

section \<open>Writing one table\<close>

lemma put_categories:
  assumes "catalog_refs c" and "t_wf ca_id t" and "ids_of ca_id (db_categories c) \<subseteq> ids_of ca_id t"
    and "\<And>r. r \<in> set (rows t) \<Longrightarrow> opt_in (ca_parent r) (ids_of ca_id t)"
  shows "grown c (c\<lparr>db_categories := t\<rparr>)"
  using assms by (auto simp: grown_def catalog_refs_def intro: opt_in_mono)

lemma put_products:
  assumes "catalog_refs c" and "t_wf p_id t" and "ids_of p_id (db_products c) \<subseteq> ids_of p_id t"
    and "\<And>p. p \<in> set (rows t) \<Longrightarrow> opt_in (p_category p) (ids_of ca_id (db_categories c))"
  shows "grown c (c\<lparr>db_products := t\<rparr>)"
  using assms by (auto simp: grown_def catalog_refs_def)

lemma put_specs:
  assumes "catalog_refs c" and "t_wf sp_id t" and "ids_of sp_id (db_specs c) \<subseteq> ids_of sp_id t"
  shows "grown c (c\<lparr>db_specs := t\<rparr>)"
  using assms by (auto simp: grown_def catalog_refs_def)

lemma put_skus:
  assumes "catalog_refs c" and "t_wf k_id t" and "ids_of k_id (db_skus c) \<subseteq> ids_of k_id t"
    and "\<And>k. k \<in> set (rows t) \<Longrightarrow> k_product k \<in> ids_of p_id (db_products c) \<and> set (k_specs k) \<subseteq> ids_of sv_id (db_spec_values c)"
  shows "grown c (c\<lparr>db_skus := t\<rparr>)"
  using assms by (auto simp: grown_def catalog_refs_def)

lemma put_attributes:
  assumes "catalog_refs c" and "ids_of at_id (db_attributes c) \<subseteq> ids_of at_id t"
    and "\<And>a. a \<in> set (rows t) \<Longrightarrow> at_product a \<in> ids_of p_id (db_products c)"
  shows "grown c (c\<lparr>db_attributes := t\<rparr>)"
  using assms by (auto simp: grown_def catalog_refs_def)

lemma put_inventory:
  assumes "catalog_refs c" and "\<And>l. l \<in> set (rows t) \<Longrightarrow> il_sku l \<in> ids_of k_id (db_skus c)"
  shows "grown c (c\<lparr>db_inventory := t\<rparr>)"
  using assms by (auto simp: grown_def catalog_refs_def)

section \<open>Requests that delete nothing\<close>

lemma category_createD:
  assumes "category_create rq n d par srt act c = (r, c')" and "catalog_refs c"
  shows "grown c c'"
proof (cases "c' = c")
  case False
  then obtain tn where par: "opt_in par (ids_of ca_id (db_categories c))"
    and c': "c' = c\<lparr>db_categories := snd (t_add (\<lambda>i. \<lparr>ca_id = i, ca_name = n, ca_description = d,
        ca_parent = par, ca_sort = srt, ca_active = act, ca_shop = tn\<rparr>) (db_categories c))\<rparr>"
    using assms(1)
    by (auto simp: category_create_def Let_def case_prod_beta qs_exists_iff opt_in_def ids_of_def
        split: option.splits if_splits)
  have wf: "t_wf ca_id (db_categories c)" using assms(2) by (simp add: catalog_refs_def)
  show ?thesis unfolding c'
  proof (rule put_categories [OF assms(2)])
    show "t_wf ca_id (snd (t_add (\<lambda>i. \<lparr>ca_id = i, ca_name = n, ca_description = d,
        ca_parent = par, ca_sort = srt, ca_active = act, ca_shop = tn\<rparr>) (db_categories c)))"
      by (rule t_wf_t_add [OF wf]) simp
  qed (use par assms(2) in \<open>auto simp: ids_of_t_add set_rows_t_add catalog_refs_def intro: opt_in_mono\<close>)
qed (simp add: grown_refl assms(2))

lemma category_updateD:
  assumes "category_update partial rq pk b c = (r, c')" and "catalog_refs c"
  shows "grown c c'"
proof (cases "c' = c")
  case False
  then obtain r where obj: "category_object rq pk c = Some r" and v: "category_body_valid partial b c"
    and st: "store_categories (t_save ca_id (category_apply b r) (db_categories c)) c = Inr c'"
    using assms(1) by (auto simp: category_update_def signed_in_def split: option.splits if_splits sum.splits)
  have c': "c' = c\<lparr>db_categories := t_save ca_id (category_apply b r) (db_categories c)\<rparr>"
    using st by (auto simp: store_categories_def store_unique_def split: if_splits)
  have r: "r \<in> set (rows (db_categories c))" using qs_first_SomeD [OF obj [unfolded category_object_def]] by simp
  have wf: "t_wf ca_id (db_categories c)" using assms(2) by (simp add: catalog_refs_def)
  have id: "ca_id (category_apply b r) \<in> ids_of ca_id (db_categories c)"
    using r by (simp add: category_apply_def ids_of_def)
  have par: "opt_in (ca_parent (category_apply b r)) (ids_of ca_id (db_categories c))"
  proof -
    have "opt_in (ca_parent r) (ids_of ca_id (db_categories c))" using r assms(2) by (simp add: catalog_refs_def)
    with v show ?thesis
      by (cases "cgb_parent b") (auto simp: category_body_valid_def category_apply_def optional_def needed_def
          or_default_def opt_in_def qs_exists_iff ids_of_def split: option.splits)
  qed
  note sv = t_save_mem [OF wf id]
  show ?thesis unfolding c'
    by (rule put_categories [OF assms(2) sv(3)]) (use par assms(2) in \<open>auto simp: sv(1,2) catalog_refs_def\<close>)
qed (simp add: grown_refl assms(2))

lemma product_createD:
  assumes "product_create rq b c = (r, c')" and "catalog_refs c"
  shows "grown c c'"
proof (cases "c' = c")
  case False
  obtain u where u: "rq_user rq = Some u"
    using assms(1) False by (auto simp: product_create_def signed_in_def split: option.splits)
  have v: "product_body_valid False b c"
    using assms(1) False by (auto simp: product_create_def signed_in_def split: option.splits if_splits)
  obtain tn where tn: "rq_tenant rq = Some tn"
    using assms(1) False v by (auto simp: product_create_def signed_in_def split: option.splits)
  have c': "c' = c\<lparr>db_products := snd (t_add (\<lambda>i. (product_apply b (blank_product tn (u_id u)))\<lparr>p_id := i\<rparr>) (db_products c))\<rparr>"
    using assms(1) u v tn by (auto simp: product_create_def signed_in_def Let_def case_prod_beta)
  let ?f = "\<lambda>i. (product_apply b (blank_product tn (u_id u)))\<lparr>p_id := i\<rparr>"
  have wf: "t_wf p_id (snd (t_add ?f (db_products c)))"
    by (rule t_wf_t_add) (use assms(2) in \<open>auto simp: catalog_refs_def\<close>)
  have "opt_in (p_category (product_apply b (blank_product tn (u_id u)))) (ids_of ca_id (db_categories c))"
    using v by (auto simp: product_body_valid_def product_apply_def blank_product_def optional_def needed_def
        or_default_def opt_in_def qs_exists_iff ids_of_def split: option.splits)
  then show ?thesis unfolding c'
    by (intro put_products [OF assms(2) wf]) (use assms(2) in \<open>auto simp: ids_of_t_add set_rows_t_add catalog_refs_def\<close>)
qed (simp add: grown_refl assms(2))

lemma product_updateD:
  assumes "product_update partial rq pk b c = (r, c')" and "catalog_refs c"
  shows "grown c c'"
proof (cases "c' = c")
  case False
  then obtain p where obj: "product_object rq pk c = Some p" and v: "product_body_valid partial b c"
    and c': "c' = c\<lparr>db_products := t_save p_id (product_apply b p) (db_products c)\<rparr>"
    using assms(1) by (auto simp: product_update_def signed_in_def split: option.splits if_splits)
  have p: "p \<in> set (rows (db_products c))" using qs_first_SomeD [OF obj [unfolded product_object_def]] by simp
  have wf: "t_wf p_id (db_products c)" using assms(2) by (simp add: catalog_refs_def)
  have id: "p_id (product_apply b p) \<in> ids_of p_id (db_products c)" using p by (simp add: product_apply_def ids_of_def)
  have cat: "opt_in (p_category (product_apply b p)) (ids_of ca_id (db_categories c))"
  proof -
    have "opt_in (p_category p) (ids_of ca_id (db_categories c))" using p assms(2) by (simp add: catalog_refs_def)
    with v show ?thesis
      by (cases "prb_category b") (auto simp: product_body_valid_def product_apply_def optional_def needed_def
          or_default_def opt_in_def qs_exists_iff ids_of_def split: option.splits)
  qed
  note sv = t_save_mem [OF wf id]
  show ?thesis unfolding c'
    by (rule put_products [OF assms(2) sv(3)]) (use cat assms(2) in \<open>auto simp: sv(1,2) catalog_refs_def\<close>)
qed (simp add: grown_refl assms(2))

lemma specification_createD:
  assumes "specification_create rq n d srt c = (r, c')" and "catalog_refs c"
  shows "grown c c'"
proof (cases "c' = c")
  case False
  then obtain tn where c': "c' = c\<lparr>db_specs := snd (t_add (\<lambda>i. \<lparr>sp_id = i, sp_name = n, sp_display = d,
      sp_sort = srt, sp_shop = tn\<rparr>) (db_specs c))\<rparr>"
    using assms(1)
    by (auto simp: specification_create_def Let_def case_prod_beta split: option.splits if_splits)
  have wf: "t_wf sp_id (db_specs c)" using assms(2) by (simp add: catalog_refs_def)
  show ?thesis unfolding c'
    by (rule put_specs [OF assms(2) t_wf_t_add [OF wf]]) (auto simp: ids_of_t_add)
qed (simp add: grown_refl assms(2))

lemma specification_updateD:
  assumes "specification_update partial rq pk b c = (r, c')" and "catalog_refs c"
  shows "grown c c'"
proof (cases "c' = c")
  case False
  then obtain s where obj: "spec_object rq pk c = Some s"
    and st: "store_specs (t_save sp_id (spec_apply b s) (db_specs c)) c = Inr c'"
    using assms(1) by (auto simp: specification_update_def signed_in_def split: option.splits if_splits sum.splits)
  have c': "c' = c\<lparr>db_specs := t_save sp_id (spec_apply b s) (db_specs c)\<rparr>"
    using st by (auto simp: store_specs_def store_unique_def split: if_splits)
  have s: "s \<in> set (rows (db_specs c))" using qs_first_SomeD [OF obj [unfolded spec_object_def]] by simp
  have wf: "t_wf sp_id (db_specs c)" using assms(2) by (simp add: catalog_refs_def)
  have id: "sp_id (spec_apply b s) \<in> ids_of sp_id (db_specs c)" using s by (simp add: spec_apply_def ids_of_def)
  note sv = t_save_mem [OF wf id]
  show ?thesis unfolding c' by (rule put_specs [OF assms(2) sv(3)]) (simp add: sv(2))
qed (simp add: grown_refl assms(2))

section \<open>SKUs and their stock\<close>

lemma sku_save_grown:
  assumes "sku_save k c = Inr (k', c')" and "catalog_refs c" and "k_product k \<in> ids_of p_id (db_products c)"
    and "set (k_specs k) \<subseteq> ids_of sv_id (db_spec_values c)" and "k_id k = 0 \<or> k_id k \<in> ids_of k_id (db_skus c)"
  shows "grown c c'" and "k_id k' \<in> ids_of k_id (db_skus c')" and "k_id k \<noteq> 0 \<Longrightarrow> k_id k' = k_id k"
proof -
  have wf: "t_wf k_id (db_skus c)" using assms(2) by (simp add: catalog_refs_def)
  have skus: "k_product x \<in> ids_of p_id (db_products c) \<and> set (k_specs x) \<subseteq> ids_of sv_id (db_spec_values c)"
    if "x \<in> set (rows (db_skus c))" for x using assms(2) that by (simp add: catalog_refs_def)
  have "grown c c' \<and> k_id k' \<in> ids_of k_id (db_skus c') \<and> (k_id k \<noteq> 0 \<longrightarrow> k_id k' = k_id k)"
  proof (cases "k_id k = 0")
    case True
    let ?f = "\<lambda>i. k\<lparr>k_id := i\<rparr>"
    have c': "c' = c\<lparr>db_skus := snd (t_add ?f (db_skus c))\<rparr>" and k': "k' = ?f (seq (db_skus c) + 1)"
      using assms(1) True by (auto simp: sku_save_def Let_def case_prod_beta t_add_def split: if_splits)
    have wf': "t_wf k_id (snd (t_add ?f (db_skus c)))" by (rule t_wf_t_add [OF wf]) simp
    have "grown c c'" unfolding c'
      by (rule put_skus [OF assms(2) wf']) (use assms(3,4) skus in \<open>auto simp: ids_of_t_add set_rows_t_add\<close>)
    then show ?thesis using True by (simp add: c' k' ids_of_t_add)
  next
    case False
    then have id: "k_id k \<in> ids_of k_id (db_skus c)" using assms(5) by simp
    have c': "c' = c\<lparr>db_skus := t_save k_id k (db_skus c)\<rparr>" and k': "k' = k"
      using assms(1) False by (auto simp: sku_save_def split: if_splits)
    note sv = t_save_mem [OF wf id]
    have "grown c c'" unfolding c'
      by (rule put_skus [OF assms(2) sv(3)]) (use assms(3,4) skus in \<open>auto simp: sv(1,2)\<close>)
    then show ?thesis using id by (simp add: c' k' sv(2))
  qed
  then show "grown c c'" "k_id k' \<in> ids_of k_id (db_skus c')" "k_id k \<noteq> 0 \<Longrightarrow> k_id k' = k_id k" by simp_all
qed

lemma log_stock_grown:
  assumes "log_stock sid act ch cur notes by c = Inr c'" and "catalog_refs c" and "sid \<in> ids_of k_id (db_skus c)"
  shows "grown c c'"
proof -
  have c': "\<exists>f. (\<forall>i. il_sku (f i) = sid) \<and> c' = c\<lparr>db_inventory := snd (t_add f (db_inventory c))\<rparr>"
    using assms(1) unfolding log_stock_def
    by (intro exI [of _ "\<lambda>i. \<lparr>il_id = i, il_sku = sid, il_action = act, il_change = ch, il_current = cur,
       il_ref = [], il_notes = notes, il_by = by\<rparr>"]) (auto split: if_splits)
  then obtain f where f: "\<forall>i. il_sku (f i) = sid" "c' = c\<lparr>db_inventory := snd (t_add f (db_inventory c))\<rparr>" by blast
  show ?thesis unfolding f(2)
    by (rule put_inventory [OF assms(2)]) (use assms(2,3) f(1) in \<open>auto simp: set_rows_t_add catalog_refs_def\<close>)
qed

lemma set_specs_grown:
  assumes "set_specs k ids c = Inr (k', c')" and "catalog_refs c"
  shows "grown c c'"
proof -
  have sub: "set ids \<subseteq> ids_of sv_id (db_spec_values c)"
    and c': "c' = c\<lparr>db_skus := t_upd (\<lambda>r. k_id r = k_id k) (\<lambda>r. r\<lparr>k_specs := remdups ids\<rparr>) (db_skus c)\<rparr>"
    using assms(1) by (auto simp: set_specs_def qs_exists_iff ids_of_def Let_def split: if_splits)
  have wf: "t_wf k_id (db_skus c)" using assms(2) by (simp add: catalog_refs_def)
  show ?thesis unfolding c'
    by (rule put_skus [OF assms(2) t_wf_t_upd [OF wf]])
      (use sub assms(2) in \<open>auto simp: ids_of_t_upd rows_t_upd catalog_refs_def\<close>)
qed

text \<open>A stored SKU is a row with its references in place.\<close>

lemma sku_objectD:
  assumes "sku_object rq pk c = Some k" and "catalog_refs c"
  shows "k_id k \<in> ids_of k_id (db_skus c)" and "k_product k \<in> ids_of p_id (db_products c)"
    and "set (k_specs k) \<subseteq> ids_of sv_id (db_spec_values c)" and "k_id k \<noteq> 0"
proof -
  have k: "k \<in> set (rows (db_skus c))" using qs_first_SomeD [OF assms(1) [unfolded sku_object_def]] by simp
  then show "k_id k \<in> ids_of k_id (db_skus c)" "k_product k \<in> ids_of p_id (db_products c)"
    "set (k_specs k) \<subseteq> ids_of sv_id (db_spec_values c)" "k_id k \<noteq> 0"
    using assms(2) by (auto simp: ids_of_def catalog_refs_def t_wf_def)
qed

lemma sku_body_product:
  assumes "sku_body_valid partial i b c" and "partial \<longrightarrow> k_product k \<in> ids_of p_id (db_products c)"
  shows "k_product (sku_apply b k) \<in> ids_of p_id (db_products c)"
  using assms
  by (cases "kb_product b") (auto simp: sku_body_valid_def sku_apply_def needed_def or_default_def qs_exists_iff ids_of_def)

lemma sku_createD:
  assumes "sku_create rq b c = (r, c')" and "catalog_refs c"
  shows "grown c c'"
proof (cases "c' = c")
  case False
  have v: "sku_body_valid False 0 b c"
    using assms(1) False by (auto simp: sku_create_def split: option.splits if_splits)
  obtain k c1 where sv: "sku_save (sku_apply b blank_sku) c = Inr (k, c1)"
    using assms(1) False by (auto simp: sku_create_def Let_def split: option.splits if_splits sum.splits)
  have c': "c' = c1 \<or> (\<exists>ids k'. set_specs k ids c1 = Inr (k', c'))"
    using assms(1) False sv by (auto simp: sku_create_def Let_def split: option.splits if_splits sum.splits)
  have "grown c c1"
    by (rule sku_save_grown [OF sv assms(2) sku_body_product [OF v]]) (simp_all add: sku_apply_def blank_sku_def)
  moreover have "grown c1 c'" using c' set_specs_grown grown_refl grown_refs [OF \<open>grown c c1\<close>] by metis
  ultimately show ?thesis by (rule grown_trans)
qed (simp add: grown_refl assms(2))

lemma sku_updateD:
  assumes "sku_update partial rq pk b c = (r, c')" and "catalog_refs c"
  shows "grown c c'"
proof (cases "c' = c")
  case False
  obtain k where obj: "sku_object rq pk c = Some k"
    using assms(1) False by (auto simp: sku_update_def split: option.splits)
  note k = sku_objectD [OF obj assms(2)]
  have v: "sku_body_valid partial (k_id k) b c"
    using assms(1) False obj by (auto simp: sku_update_def split: option.splits if_splits)
  obtain k1 c1 where sv: "sku_save (sku_apply b k) c = Inr (k1, c1)"
    using assms(1) False obj by (auto simp: sku_update_def split: option.splits if_splits sum.splits)
  have c': "c' = c1 \<or> (\<exists>ids k'. set_specs k1 ids c1 = Inr (k', c'))"
    using assms(1) False obj sv by (auto simp: sku_update_def split: option.splits if_splits sum.splits)
  have "grown c c1"
    by (rule sku_save_grown [OF sv assms(2) sku_body_product [OF v]]) (use k in \<open>simp_all add: sku_apply_def\<close>)
  moreover have "grown c1 c'" using c' set_specs_grown grown_refl grown_refs [OF \<open>grown c c1\<close>] by metis
  ultimately show ?thesis by (rule grown_trans)
qed (simp add: grown_refl assms(2))

text \<open>Saving a new amount for a stored SKU, and logging it.\<close>

lemma stock_saved_grown:
  assumes "sku_save (k\<lparr>k_stock := q\<rparr>) c = Inr (k1, c1)" and "catalog_refs c" and "k \<in> set (rows (db_skus c))"
  shows "grown c c1" and "k_id k1 \<in> ids_of k_id (db_skus c1)" and "k_id k1 = k_id k"
proof -
  have k: "k_id k \<in> ids_of k_id (db_skus c)" "k_product k \<in> ids_of p_id (db_products c)"
    "set (k_specs k) \<subseteq> ids_of sv_id (db_spec_values c)" "k_id k \<noteq> 0"
    using assms(2,3) by (auto simp: ids_of_def catalog_refs_def t_wf_def)
  note sv = sku_save_grown [OF assms(1,2)]
  show "grown c c1" "k_id k1 \<in> ids_of k_id (db_skus c1)" "k_id k1 = k_id k" using sv k by simp_all
qed

lemma adjust_stockD:
  assumes "adjust_stock rq pk b c = (r, c')" and "catalog_refs c"
  shows "grown c c'"
proof (cases "c' = c")
  case False
  obtain k where obj: "sku_object rq pk c = Some k"
    using assms(1) False by (auto simp: adjust_stock_def split: option.splits)
  have k: "k \<in> set (rows (db_skus c))" using qs_first_SomeD [OF obj [unfolded sku_object_def]] by simp
  obtain ty q nt w stock where "adjust_apply w k ty q nt c = Inr (stock, c')"
    using assms(1) False obj by (auto simp: adjust_stock_def split: option.splits sum.splits prod.splits)
  then obtain s k1 c1 ch where sv: "sku_save (k\<lparr>k_stock := s\<rparr>) c = Inr (k1, c1)"
    and lg: "log_stock (k_id k1) Adjustment ch (k_stock k1) nt w c1 = Inr c'"
    by (auto simp: adjust_apply_def Let_def split: sum.splits prod.splits)
  note g = stock_saved_grown [OF sv assms(2) k]
  have "grown c1 c'" by (rule log_stock_grown [OF lg]) (use g in \<open>simp_all add: grown_def\<close>)
  with g(1) show ?thesis by (rule grown_trans)
qed (simp add: grown_refl assms(2))

lemma bulk_one_grown:
  assumes "bulk_one rq by u c = Inr (r, c')" and "catalog_refs c"
  shows "grown c c'"
proof (cases "c' = c")
  case False
  obtain sid where sid: "bu_sku u = Some sid" using assms(1) by (auto simp: bulk_one_def split: option.splits)
  let ?P = "\<lambda>k. k_id k = sid \<and> sku_in c (rq_tenant rq) k"
  obtain k where k: "qs_get ''ProductSKU'' ?P (db_skus c) = Inr k"
    using assms(1) False sid by (auto simp: bulk_one_def split: sum.splits exn.splits)
  obtain q where q: "bu_stock u = Some q"
    using assms(1) False sid k by (auto simp: bulk_one_def split: option.splits)
  obtain k1 c1 where sv: "sku_save (k\<lparr>k_stock := q\<rparr>) c = Inr (k1, c1)"
    using assms(1) False sid k q by (auto simp: bulk_one_def split: sum.splits)
  have rest: "c' = c1 \<or> (\<exists>ch cur notes. log_stock sid Adjustment ch cur notes by c1 = Inr c')"
    using assms(1) False sid k q sv by (auto simp: bulk_one_def split: sum.splits if_splits)
  have mem: "k \<in> set (rows (db_skus c))" "k_id k = sid" using qs_get_InrD [OF k] by simp_all
  note g = stock_saved_grown [OF sv assms(2) mem(1)]
  have "grown c1 c'"
    using rest
  proof
    assume "c' = c1"
    then show ?thesis using g(1) by (simp add: grown_def)
  next
    assume "\<exists>ch cur notes. log_stock sid Adjustment ch cur notes by c1 = Inr c'"
    then obtain ch cur nt where "log_stock sid Adjustment ch cur nt by c1 = Inr c'" by blast
    then show ?thesis by (rule log_stock_grown) (use g mem(2) in \<open>simp_all add: grown_def\<close>)
  qed
  with g(1) show ?thesis by (rule grown_trans)
qed (simp add: grown_refl assms(2))

lemma bulk_loop_grown:
  "bulk_loop rq by us c = Inr (rs, c') \<Longrightarrow> catalog_refs c \<Longrightarrow> grown c c'"
proof (induction us arbitrary: c rs)
  case Nil
  then show ?case by (simp add: grown_refl)
next
  case (Cons u us)
  then obtain r c1 rs' where one: "bulk_one rq by u c = Inr (r, c1)" and more: "bulk_loop rq by us c1 = Inr (rs', c')"
    by (auto split: sum.splits prod.splits)
  have g: "grown c c1" by (rule bulk_one_grown [OF one Cons.prems(2)])
  then have "grown c1 c'" using Cons.IH [OF more] by (simp add: grown_def)
  with g show ?case by (rule grown_trans)
qed

lemma bulk_stock_updateD:
  assumes "bulk_stock_update rq us c = (r, c')" and "catalog_refs c"
  shows "grown c c'"
  using assms bulk_loop_grown grown_refl
  by (fastforce simp: bulk_stock_update_def split: option.splits if_splits sum.splits prod.splits)

section \<open>Duplicating a product\<close>

lemma copy_skus_grown:
  "copy_skus pid ks c = (r, c') \<Longrightarrow> catalog_refs c \<Longrightarrow> pid \<in> ids_of p_id (db_products c) \<Longrightarrow> grown c c'"
proof (induction pid ks c arbitrary: r c' rule: copy_skus.induct)
  case (1 pid c)
  then show ?case by (simp add: grown_refl)
next
  case (2 pid k ks c)
  show ?case
  proof (cases "sku_save (k\<lparr>k_id := 0, k_product := pid, k_specs := []\<rparr>) c")
    case (Inl e)
    then show ?thesis using 2 by (simp add: grown_refl)
  next
    case (Inr x)
    then obtain k' c1 where sv: "sku_save (k\<lparr>k_id := 0, k_product := pid, k_specs := []\<rparr>) c = Inr (k', c1)"
      by (cases x) auto
    have g: "grown c c1" by (rule sku_save_grown [OF sv 2(3)]) (use 2(4) in simp_all)
    have "grown c1 c'"
      by (rule 2(1) [OF sv refl _ grown_refs [OF g]]) (use 2(2,4) sv g in \<open>auto simp: grown_def\<close>)
    with g show ?thesis by (rule grown_trans)
  qed
qed

lemma copy_attributes_grown:
  "catalog_refs c \<Longrightarrow> pid \<in> ids_of p_id (db_products c) \<Longrightarrow> grown c (copy_attributes pid as c)"
proof (induction pid as c rule: copy_attributes.induct)
  case (1 pid c)
  then show ?case by (simp add: grown_refl)
next
  case (2 pid a as c)
  let ?c = "c\<lparr>db_attributes := snd (t_add (\<lambda>i. a\<lparr>at_id := i, at_product := pid\<rparr>) (db_attributes c))\<rparr>"
  have g: "grown c ?c"
    by (rule put_attributes [OF 2(2)]) (use 2(2,3) in \<open>auto simp: ids_of_t_add set_rows_t_add catalog_refs_def\<close>)
  have "grown ?c (copy_attributes pid as ?c)" by (rule 2(1) [OF grown_refs [OF g]]) (use 2(3) in simp)
  with g show ?case by (simp add: grown_trans)
qed

lemma duplicateD:
  assumes "duplicate rq pk c = (r, c')" and "catalog_refs c"
  shows "grown c c'"
proof (cases "c' = c")
  case False
  obtain p where obj: "product_object rq pk c = Some p"
    using assms(1) False by (auto simp: duplicate_def split: option.splits)
  have p: "p \<in> set (rows (db_products c))" using qs_first_SomeD [OF obj [unfolded product_object_def]] by simp
  let ?f = "\<lambda>i. p\<lparr>p_id := i, p_name := p_name p @ copy_suffix, p_status := Draft\<rparr>"
  let ?ks = "qs_filter (\<lambda>k. k_product k = p_id p) (db_skus c)"
  let ?n = "seq (db_products c) + 1"
  let ?c = "c\<lparr>db_products := snd (t_add ?f (db_products c))\<rparr>"
  have id: "?n \<in> ids_of p_id (db_products ?c)" by (simp add: ids_of_t_add)
  have wf: "t_wf p_id (snd (t_add ?f (db_products c)))"
    by (rule t_wf_t_add) (use assms(2) in \<open>auto simp: catalog_refs_def\<close>)
  have g: "grown c ?c"
    by (rule put_products [OF assms(2) wf]) (use p assms(2) in \<open>auto simp: ids_of_t_add set_rows_t_add catalog_refs_def\<close>)
  obtain r2 c2 where cs: "copy_skus ?n ?ks ?c = (r2, c2)" by fastforce
  have g2: "grown ?c c2" by (rule copy_skus_grown [OF cs grown_refs [OF g] id])
  then have id2: "?n \<in> ids_of p_id (db_products c2)" using id by (auto simp: grown_def)
  have "c' = c2 \<or> (\<exists>as. c' = copy_attributes ?n as c2)"
    using assms(1) False obj cs
    by (auto simp: duplicate_def Let_def t_add_def split: option.splits if_splits sum.splits)
  then have "grown c2 c'" using copy_attributes_grown [OF grown_refs [OF g2] id2] grown_refl [OF grown_refs [OF g2]] by auto
  with grown_trans [OF g g2] show ?thesis by (rule grown_trans)
qed (simp add: grown_refl assms(2))

section \<open>Deletions\<close>

lemma delete_categories_refs:
  assumes "shop_refs db" and closed: "child_rel (db_categories (cat_of db)) `` set gone \<subseteq> set gone"
  shows "shop_refs (delete_categories gone db)"
proof -
  let ?c = "cat_of db"
  have par: "opt_in (ca_parent r) (ca_id ` {x \<in> set (rows (db_categories ?c)). ca_id x \<notin> set gone})"
    if r: "r \<in> set (rows (db_categories ?c))" "ca_id r \<notin> set gone" for r
  proof (cases "ca_parent r")
    case (Some p)
    then have "(p, ca_id r) \<in> child_rel (db_categories ?c)" using r(1) by (auto simp: child_rel_def)
    then have "p \<notin> set gone" using closed r(2) by auto
    moreover have "p \<in> ca_id ` set (rows (db_categories ?c))"
      using assms(1) r(1) Some by (fastforce simp: shop_refs_def catalog_refs_def ids_of_def)
    ultimately show ?thesis using Some by auto
  qed simp
  have cat: "opt_in (p_category q) (ca_id ` {x \<in> set (rows (db_categories ?c)). ca_id x \<notin> set gone})"
    if q: "q \<in> set (rows (db_products ?c))" "\<not> (case p_category q of None \<Rightarrow> False | Some i \<Rightarrow> i \<in> set gone)" for q
  proof (cases "p_category q")
    case (Some i)
    then have "i \<in> ca_id ` set (rows (db_categories ?c))"
      using assms(1) q(1) by (fastforce simp: shop_refs_def catalog_refs_def ids_of_def)
    then show ?thesis using Some q(2) by auto
  qed simp
  have wf: "t_wf p_id (t_upd (\<lambda>p. case p_category p of None \<Rightarrow> False | Some i \<Rightarrow> i \<in> set gone)
      (\<lambda>p. p\<lparr>p_category := None\<rparr>) (db_products ?c))"
    by (rule t_wf_t_upd) (use assms(1) in \<open>auto simp: shop_refs_def catalog_refs_def\<close>)
  have refs: "catalog_refs (cat_of (delete_categories gone db))"
    using assms(1) par cat wf
    by (auto simp: delete_categories_def Let_def set_cat_def cat_of_def catalog_refs_def shop_refs_def t_wf_t_del
        ids_of_t_del ids_of_t_upd rows_t_del rows_t_upd)
  have cats: "ids_of ca_id (db_categories (cat_of (delete_categories gone db))) = ids_of ca_id (db_categories ?c) - set gone"
    by (auto simp: delete_categories_def Let_def set_cat_def cat_of_def ids_of_def rows_t_del)
  have same: "ids_of p_id (db_products (cat_of (delete_categories gone db))) = ids_of p_id (db_products ?c)"
    "db_skus (cat_of (delete_categories gone db)) = db_skus ?c" "db_options (cat_of (delete_categories gone db)) = db_options ?c"
    "db_cart_items (db_pord (delete_categories gone db)) = db_cart_items (db_pord db)"
    "db_order_items (db_pord (delete_categories gone db)) = db_order_items (db_pord db)"
    by (simp_all add: delete_categories_def Let_def set_cat_def cat_of_def ids_of_t_upd)
  have promos: "rows (db_promos (delete_categories gone db))
      = map (\<lambda>q. q\<lparr>pn_categories := filter (\<lambda>i. i \<notin> set gone) (pn_categories q)\<rparr>) (rows (db_promos db))"
    by (simp add: delete_categories_def Let_def rows_t_upd)
  show ?thesis
    using assms(1) refs unfolding shop_refs_def same cats promos by auto
qed

lemma delete_skus_refs:
  assumes "shop_refs db" and "\<not> skus_ordered ks db"
  shows "shop_refs (delete_skus ks db)"
proof -
  let ?db = "delete_skus ks db"
  have skus: "ids_of k_id (db_skus (cat_of ?db)) = ids_of k_id (db_skus (cat_of db)) - set ks"
    by (auto simp: delete_skus_def Let_def cat_of_def ids_of_def rows_t_del)
  have same: "db_products (cat_of ?db) = db_products (cat_of db)" "db_categories (cat_of ?db) = db_categories (cat_of db)"
    "db_options (cat_of ?db) = db_options (cat_of db)" "db_order_items (db_pord ?db) = db_order_items (db_pord db)"
    "db_promos ?db = db_promos db"
    by (simp_all add: delete_skus_def Let_def cat_of_def)
  have lines: "rows (db_cart_items (db_pord ?db))
      = filter (\<lambda>ci. \<not> (case ci_sku ci of None \<Rightarrow> False | Some k \<Rightarrow> k \<in> set ks)) (rows (db_cart_items (db_pord db)))"
    by (simp add: delete_skus_def Let_def rows_t_del)
  have refs: "catalog_refs (cat_of ?db)"
    using assms(1)
    by (auto simp: delete_skus_def Let_def cat_of_def catalog_refs_def shop_refs_def t_wf_t_del ids_of_t_del rows_t_del
        ids_of_def)
  have items: "opt_in (oi_sku it) (ids_of k_id (db_skus (cat_of db)) - set ks)"
    if it: "it \<in> set (rows (db_order_items (db_pord db)))" for it
  proof -
    have "opt_in (oi_sku it) (ids_of k_id (db_skus (cat_of db)))" using assms(1) it by (simp add: shop_refs_def)
    moreover have "\<not> (case oi_sku it of None \<Rightarrow> False | Some k \<Rightarrow> k \<in> set ks)"
      using assms(2) it by (auto simp: skus_ordered_def qs_exists_iff)
    ultimately show ?thesis by (cases "oi_sku it") auto
  qed
  have carts: "opt_in (ci_sku ci) (ids_of k_id (db_skus (cat_of db)) - set ks)"
    if "opt_in (ci_sku ci) (ids_of k_id (db_skus (cat_of db)))" "\<not> (case ci_sku ci of None \<Rightarrow> False | Some k \<Rightarrow> k \<in> set ks)" for ci
    using that by (cases "ci_sku ci") auto
  show ?thesis
    using assms(1) refs items carts unfolding shop_refs_def same skus lines by auto
qed

text \<open>The attributes of a product and the options of these, and what deleting it does to each table.\<close>

definition attributes_of :: "int \<Rightarrow> catalog_db \<Rightarrow> int set" where
  "attributes_of pid c = at_id ` {a \<in> set (rows (db_attributes c)). at_product a = pid}"

definition options_under :: "int \<Rightarrow> catalog_db \<Rightarrow> int set" where
  "options_under pid c = op_id ` {x \<in> set (rows (db_options c)). op_attribute x \<in> attributes_of pid c}"

lemma delete_product_tables:
  fixes db pid
  defines "d1 \<equiv> delete_skus (map k_id (qs_filter (\<lambda>k. k_product k = pid) (db_skus (cat_of db)))) db"
    and "d2 \<equiv> delete_product pid db"
  shows "db_categories (cat_of d2) = db_categories (cat_of d1)" "db_specs (cat_of d2) = db_specs (cat_of d1)"
    and "db_spec_values (cat_of d2) = db_spec_values (cat_of d1)" "db_skus (cat_of d2) = db_skus (cat_of d1)"
    and "db_inventory (cat_of d2) = db_inventory (cat_of d1)"
    and "db_products (cat_of d2) = t_del (\<lambda>p. p_id p = pid) (db_products (cat_of d1))"
    and "db_attributes (cat_of d2) = t_del (\<lambda>a. at_product a = pid) (db_attributes (cat_of d1))"
    and "db_options (cat_of d2) = t_del (\<lambda>x. op_attribute x \<in> attributes_of pid (cat_of d1)) (db_options (cat_of d1))"
    and "db_cart_items (db_pord d2) = t_upd (\<lambda>_. True)
           (\<lambda>ci. ci\<lparr>ci_options := filter (\<lambda>i. i \<notin> options_under pid (cat_of d1)) (ci_options ci)\<rparr>)
           (t_del (\<lambda>ci. ci_product ci = pid) (db_cart_items (db_pord d1)))"
    and "db_order_items (db_pord d2) = db_order_items (db_pord d1)"
    and "rows (db_promos d2) = map (\<lambda>q. q\<lparr>pn_products := filter (\<lambda>i. i \<noteq> pid) (pn_products q),
           pn_gift := (if pn_gift q = Some pid then None else pn_gift q)\<rparr>) (rows (db_promos d1))"
  unfolding d2_def delete_product_def Let_def d1_def [symmetric]
  by (simp_all add: cat_of_def rows_t_upd qs_filter_def attributes_of_def options_under_def)

lemma delete_product_refs:
  assumes "shop_refs db" and "\<not> product_ordered pid db"
    and "\<not> skus_ordered (map k_id (qs_filter (\<lambda>k. k_product k = pid) (db_skus (cat_of db)))) db"
  shows "shop_refs (delete_product pid db)"
proof -
  let ?ks = "map k_id (qs_filter (\<lambda>k. k_product k = pid) (db_skus (cat_of db)))"
  let ?d1 = "delete_skus ?ks db" let ?c1 = "cat_of ?d1" let ?d2 = "delete_product pid db"
  note tab = delete_product_tables [of pid db]
  have r1: "shop_refs ?d1" by (rule delete_skus_refs [OF assms(1,3)])
  then have c1: "catalog_refs ?c1" by (simp add: shop_refs_def)
  have no_sku: "k_product k \<noteq> pid" if "k \<in> set (rows (db_skus ?c1))" for k
    using that by (auto simp: delete_skus_def Let_def cat_of_def rows_t_del qs_filter_def)
  have no_item: "oi_product it \<noteq> pid" if "it \<in> set (rows (db_order_items (db_pord ?d1)))" for it
    using that assms(2) by (auto simp: product_ordered_def qs_exists_iff delete_skus_def Let_def)
  have prod: "ids_of p_id (db_products (cat_of ?d2)) = ids_of p_id (db_products ?c1) - {pid}"
    by (auto simp: tab ids_of_def rows_t_del)
  have kept: "op_attribute x \<in> ids_of at_id (db_attributes (cat_of ?d2))" if "x \<in> set (rows (db_options (cat_of ?d2)))" for x
  proof -
    have x: "x \<in> set (rows (db_options ?c1))" "op_attribute x \<notin> attributes_of pid ?c1"
      using that by (auto simp: tab rows_t_del)
    then obtain a where "a \<in> set (rows (db_attributes ?c1))" "op_attribute x = at_id a"
      using c1 by (auto simp: catalog_refs_def ids_of_def)
    with x(2) show ?thesis by (auto simp: tab ids_of_def rows_t_del attributes_of_def)
  qed
  have refs: "catalog_refs (cat_of ?d2)"
    unfolding catalog_refs_def prod using c1 no_sku kept
    by (auto simp: tab catalog_refs_def t_wf_t_del rows_t_del)
  have opts: "i \<in> ids_of op_id (db_options (cat_of ?d2))"
    if "i \<in> ids_of op_id (db_options ?c1)" "i \<notin> options_under pid ?c1" for i
    using that by (auto simp: tab ids_of_def rows_t_del options_under_def)
  have carts: "ci_product ci \<in> ids_of p_id (db_products ?c1) \<and> opt_in (ci_sku ci) (ids_of k_id (db_skus ?c1))
      \<and> set (ci_options ci) \<subseteq> ids_of op_id (db_options ?c1)" if "ci \<in> set (rows (db_cart_items (db_pord ?d1)))" for ci
    using r1 that by (simp add: shop_refs_def)
  have items: "oi_product it \<in> ids_of p_id (db_products ?c1) \<and> opt_in (oi_sku it) (ids_of k_id (db_skus ?c1))"
    if "it \<in> set (rows (db_order_items (db_pord ?d1)))" for it
    using r1 that by (simp add: shop_refs_def)
  have promos: "set (pn_products q) \<subseteq> ids_of p_id (db_products ?c1) \<and> set (pn_categories q) \<subseteq> ids_of ca_id (db_categories ?c1)
      \<and> opt_in (pn_gift q) (ids_of p_id (db_products ?c1))" if "q \<in> set (rows (db_promos ?d1))" for q
    using r1 that by (simp add: shop_refs_def)
  have gift: "opt_in (if g = Some pid then None else g) (S - {pid})" if "opt_in g S" for g and S :: "int set"
    using that by (cases g) auto
  show ?thesis
    unfolding shop_refs_def prod
  proof (intro conjI ballI refs)
    fix ci assume "ci \<in> set (rows (db_cart_items (db_pord ?d2)))"
    then obtain c0 where "c0 \<in> set (rows (db_cart_items (db_pord ?d1)))" "ci_product c0 \<noteq> pid"
      and ci: "ci = c0\<lparr>ci_options := filter (\<lambda>i. i \<notin> options_under pid ?c1) (ci_options c0)\<rparr>"
      by (auto simp: tab rows_t_upd rows_t_del)
    with carts [of c0] show "ci_product ci \<in> ids_of p_id (db_products ?c1) - {pid}"
      "opt_in (ci_sku ci) (ids_of k_id (db_skus (cat_of ?d2)))" "set (ci_options ci) \<subseteq> ids_of op_id (db_options (cat_of ?d2))"
      using opts by (auto simp: tab(4))
  next
    fix it assume "it \<in> set (rows (db_order_items (db_pord ?d2)))"
    then show "oi_product it \<in> ids_of p_id (db_products ?c1) - {pid}" "opt_in (oi_sku it) (ids_of k_id (db_skus (cat_of ?d2)))"
      using items [of it] no_item [of it] by (auto simp: tab(4,10))
  next
    fix q assume "q \<in> set (rows (db_promos ?d2))"
    then obtain q0 where "q0 \<in> set (rows (db_promos ?d1))"
      and q: "q = q0\<lparr>pn_products := filter (\<lambda>i. i \<noteq> pid) (pn_products q0), pn_gift := (if pn_gift q0 = Some pid then None else pn_gift q0)\<rparr>"
      by (auto simp: tab(11))
    with promos [of q0] gift show "set (pn_products q) \<subseteq> ids_of p_id (db_products ?c1) - {pid}"
      "set (pn_categories q) \<subseteq> ids_of ca_id (db_categories (cat_of ?d2))"
      "opt_in (pn_gift q) (ids_of p_id (db_products ?c1) - {pid})"
      by (auto simp: tab(1))
  qed
qed

lemma specification_destroy_refs:
  assumes "specification_destroy rq pk db = (r, db')" and "shop_refs db"
  shows "shop_refs db'"
proof (cases "db' = db")
  case False
  let ?c = "cat_of db"
  obtain s where "spec_object rq pk ?c = Some s"
    using assms(1) False by (auto simp: specification_destroy_def signed_in_def split: option.splits)
  define gone where "gone = map sv_id (qs_filter (\<lambda>v. sv_spec v = sp_id s) (db_spec_values ?c))"
  define c' where "c' = ?c\<lparr>db_specs := t_del (\<lambda>r. sp_id r = sp_id s) (db_specs ?c),
      db_spec_values := t_del (\<lambda>v. sv_spec v = sp_id s) (db_spec_values ?c),
      db_skus := t_upd (\<lambda>_. True) (\<lambda>k. k\<lparr>k_specs := filter (\<lambda>i. i \<notin> set gone) (k_specs k)\<rparr>) (db_skus ?c)\<rparr>"
  have db': "db' = set_cat c' db"
    using assms(1) False \<open>spec_object rq pk ?c = Some s\<close>
    by (auto simp: specification_destroy_def signed_in_def Let_def c'_def gone_def split: option.splits)
  have c: "catalog_refs ?c" using assms(2) by (simp add: shop_refs_def)
  have wf: "t_wf k_id (t_upd (\<lambda>_. True) (\<lambda>k. k\<lparr>k_specs := filter (\<lambda>i. i \<notin> set gone) (k_specs k)\<rparr>) (db_skus ?c))"
    by (rule t_wf_t_upd) (use c in \<open>auto simp: catalog_refs_def\<close>)
  have vals: "i \<in> sv_id ` {v \<in> set (rows (db_spec_values ?c)). sv_spec v \<noteq> sp_id s}"
    if "k \<in> set (rows (db_skus ?c))" "i \<in> set (k_specs k)" "i \<notin> set gone" for i k
  proof -
    have "i \<in> ids_of sv_id (db_spec_values ?c)" using c that(1,2) by (auto simp: catalog_refs_def)
    then show ?thesis using that(3) by (auto simp: ids_of_def gone_def qs_filter_def)
  qed
  have specs: "sv_spec v \<in> ids_of sp_id (t_del (\<lambda>r. sp_id r = sp_id s) (db_specs ?c))"
    if "v \<in> set (rows (db_spec_values ?c))" "sv_spec v \<noteq> sp_id s" for v
    using c that by (auto simp: catalog_refs_def ids_of_def rows_t_del)
  have "grown ?c c'"
    using c wf vals specs
    by (auto simp: grown_def catalog_refs_def c'_def ids_of_t_upd ids_of_t_del [of sv_id] t_wf_t_del rows_t_upd rows_t_del)
  with assms(2) show ?thesis unfolding db' by (rule shop_refs_grown)
qed (simp add: assms(2))

lemma category_destroy_refs:
  assumes "category_destroy rq pk db = (r, db')" and "shop_refs db"
  shows "shop_refs db'"
proof (cases "db' = db")
  case False
  let ?t = "db_categories (cat_of db)"
  obtain c where "category_object rq pk (cat_of db) = Some c"
    using assms(1) False by (auto simp: category_destroy_def signed_in_def split: option.splits)
  then have db': "db' = delete_categories (collect_categories ?t [] [ca_id c]) db"
    using assms(1) False by (auto simp: category_destroy_def signed_in_def split: option.splits)
  have reach: "set (collect_categories ?t [] [ca_id c]) = (child_rel ?t)\<^sup>* `` {ca_id c}"
    using collect_categories_reach [of ?t "[]" "[ca_id c]"] by simp
  have "child_rel ?t `` set (collect_categories ?t [] [ca_id c]) \<subseteq> set (collect_categories ?t [] [ca_id c])"
    unfolding reach by (auto intro: rtrancl_into_rtrancl)
  then show ?thesis unfolding db' by (rule delete_categories_refs [OF assms(2)])
qed (simp add: assms(2))

lemma sku_destroy_refs:
  assumes "sku_destroy rq pk db = (r, db')" and "shop_refs db"
  shows "shop_refs db'"
  using assms delete_skus_refs
  by (auto simp: sku_destroy_def signed_in_def split: option.splits if_splits)

lemma product_destroy_refs:
  assumes "product_destroy rq pk db = (r, db')" and "shop_refs db"
  shows "shop_refs db'"
  using assms delete_product_refs
  by (auto simp: product_destroy_def signed_in_def split: option.splits if_splits)

section \<open>The requests of the app\<close>

datatype catalog_op =
    CreateCategory request string string "int option" int bool
  | UpdateCategory bool request int category_body
  | DestroyCategory request int
  | CreateProduct request product_body
  | UpdateProduct bool request int product_body
  | DestroyProduct request int
  | DuplicateProduct request int
  | CreateSpec request string string int
  | UpdateSpec bool request int spec_body
  | DestroySpec request int
  | CreateSku request sku_body
  | UpdateSku bool request int sku_body
  | DestroySku request int
  | AdjustStock request int adjust_body
  | BulkStock request "bulk_item list"

definition in_catalog :: "(catalog_db \<Rightarrow> 'a reply \<times> catalog_db) \<Rightarrow> promo_db \<Rightarrow> bool \<times> promo_db" where
  "in_catalog f db = (case f (cat_of db) of (r, c) \<Rightarrow> (accepted r, set_cat c db))"

primrec handle_catalog :: "catalog_op \<Rightarrow> promo_db \<Rightarrow> bool \<times> promo_db" where
  "handle_catalog (CreateCategory rq n d p s a) = in_catalog (category_create rq n d p s a)"
| "handle_catalog (UpdateCategory partial rq pk b) = in_catalog (category_update partial rq pk b)"
| "handle_catalog (DestroyCategory rq pk) = (\<lambda>db. map_prod accepted id (category_destroy rq pk db))"
| "handle_catalog (CreateProduct rq b) = in_catalog (product_create rq b)"
| "handle_catalog (UpdateProduct partial rq pk b) = in_catalog (product_update partial rq pk b)"
| "handle_catalog (DestroyProduct rq pk) = (\<lambda>db. map_prod accepted id (product_destroy rq pk db))"
| "handle_catalog (DuplicateProduct rq pk) = in_catalog (duplicate rq pk)"
| "handle_catalog (CreateSpec rq n d s) = in_catalog (specification_create rq n d s)"
| "handle_catalog (UpdateSpec partial rq pk b) = in_catalog (specification_update partial rq pk b)"
| "handle_catalog (DestroySpec rq pk) = (\<lambda>db. map_prod accepted id (specification_destroy rq pk db))"
| "handle_catalog (CreateSku rq b) = in_catalog (sku_create rq b)"
| "handle_catalog (UpdateSku partial rq pk b) = in_catalog (sku_update partial rq pk b)"
| "handle_catalog (DestroySku rq pk) = (\<lambda>db. map_prod accepted id (sku_destroy rq pk db))"
| "handle_catalog (AdjustStock rq pk b) = in_catalog (adjust_stock rq pk b)"
| "handle_catalog (BulkStock rq us) = in_catalog (bulk_stock_update rq us)"

lemma in_catalog_refs:
  assumes "\<And>c r c'. f c = (r, c') \<Longrightarrow> catalog_refs c \<Longrightarrow> grown c c'" and "shop_refs db"
  shows "shop_refs (snd (in_catalog f db))"
proof -
  obtain r c' where run: "f (cat_of db) = (r, c')" by fastforce
  have "grown (cat_of db) c'" by (rule assms(1) [OF run]) (use assms(2) in \<open>simp add: shop_refs_def\<close>)
  with assms(2) show ?thesis by (simp add: in_catalog_def run shop_refs_grown)
qed

lemma destroys_refs:
  assumes "\<And>r db'. f db = (r, db') \<Longrightarrow> shop_refs db \<Longrightarrow> shop_refs db'" and "shop_refs db"
  shows "shop_refs (snd (map_prod accepted id (f db)))"
  using assms by (cases "f db") auto

interpretation catalog_system: guarded_system handle_catalog shop_refs
proof unfold_locales
  fix db op assume refs: "shop_refs db"
  show "shop_refs (snd (handle_catalog op db))"
  proof (cases op)
  qed (simp_all only: handle_catalog.simps,
    (rule in_catalog_refs [OF _ refs] destroys_refs [OF _ refs],
     erule (1) category_createD category_updateD category_destroy_refs product_createD product_updateD
       product_destroy_refs duplicateD specification_createD specification_updateD specification_destroy_refs
       sku_createD sku_updateD sku_destroy_refs adjust_stockD bulk_stock_updateD)+)
qed

section \<open>Properties\<close>

lemma demo_shop_refs: "shop_refs demo_promos"
  by (simp add: shop_refs_def catalog_refs_def cat_of_def demo_promos_def demo_catalog_def empty_tbl_def t_wf_def ids_of_def)

text \<open>C32: Every reference stays in place: over any sequence of requests to the catalogue, accepted, refused or failed,
  by any users of any shops, the foreign keys and links of categories, products, specifications, SKUs, attributes,
  options, stock logs, cart lines, order lines and promotions name rows that exist.\<close>

theorem catalogue_references:
  assumes "shop_refs db"
  shows "shop_refs (run_requests handle_catalog ops db)"
  by (rule catalog_system.run_inv [OF assms])

theorem catalogue_references_witness:
  "let db = run_requests handle_catalog [DestroyProduct demo_request 1, DestroyCategory demo_request 1] demo_promos
   in shop_refs db \<and> map p_id (rows (db_products (cat_of db))) = [2] \<and> map k_id (rows (db_skus (cat_of db))) = [3]"
proof -
  let ?ops = "[DestroyProduct demo_request 1, DestroyCategory demo_request 1]"
  have "map p_id (rows (db_products (cat_of (run_requests handle_catalog ?ops demo_promos)))) = [2]"
    and "map k_id (rows (db_skus (cat_of (run_requests handle_catalog ?ops demo_promos)))) = [3]"
    by code_simp+
  then show ?thesis using catalogue_references [OF demo_shop_refs, of ?ops] by (simp add: Let_def)
qed

lemma skus_of_product:
  assumes "t_wf k_id (db_skus c)"
  shows "filter (\<lambda>k. k_id k \<notin> set (map k_id (qs_filter (\<lambda>k. k_product k = pid) (db_skus c)))) (rows (db_skus c))
       = filter (\<lambda>k. k_product k \<noteq> pid) (rows (db_skus c))"
proof (rule filter_cong [OF refl])
  fix k assume k: "k \<in> set (rows (db_skus c))"
  show "k_id k \<notin> set (map k_id (qs_filter (\<lambda>k. k_product k = pid) (db_skus c))) \<longleftrightarrow> k_product k \<noteq> pid"
  proof
    assume "k_product k \<noteq> pid"
    have "k' = k" if "k' \<in> set (rows (db_skus c))" "k_id k' = k_id k" for k'
      using that k find_iff_mem [OF assms] by (metis option.inject)
    with \<open>k_product k \<noteq> pid\<close> show "k_id k \<notin> set (map k_id (qs_filter (\<lambda>k. k_product k = pid) (db_skus c)))"
      by (auto simp: qs_filter_def)
  qed (use k in \<open>auto simp: qs_filter_def\<close>)
qed

text \<open>A product that was ever ordered cannot be deleted: while an order line names it or one of its SKUs the request
  fails and changes nothing; otherwise exactly the product and its SKUs go, with the stock log of these, no cart
  line names the product any more, and the order lines stay as they are.\<close>

theorem ordered_products_stay:
  assumes "shop_refs db" and "rq_user rq = Some u" and "product_object rq pk (cat_of db) = Some p"
  shows "if \<exists>it \<in> set (rows (db_order_items (db_pord db))). oi_product it = pk
            \<or> (\<exists>k \<in> set (rows (db_skus (cat_of db))). k_product k = pk \<and> oi_sku it = Some (k_id k))
    then product_destroy rq pk db = (Crash (IntegrityError ''protected''), db)
    else \<exists>db'. product_destroy rq pk db = (OK 204 (), db')
       \<and> rows (db_products (cat_of db')) = filter (\<lambda>q. p_id q \<noteq> pk) (rows (db_products (cat_of db)))
       \<and> rows (db_skus (cat_of db')) = filter (\<lambda>k. k_product k \<noteq> pk) (rows (db_skus (cat_of db)))
       \<and> (\<forall>ci \<in> set (rows (db_cart_items (db_pord db'))). ci_product ci \<noteq> pk)
       \<and> db_order_items (db_pord db') = db_order_items (db_pord db)"
proof -
  let ?ks = "map k_id (qs_filter (\<lambda>k. k_product k = pk) (db_skus (cat_of db)))"
  have id: "p_id p = pk" using qs_first_SomeD [OF assms(3) [unfolded product_object_def]] by simp
  have run: "product_destroy rq pk db = (if product_ordered pk db \<or> skus_ordered ?ks db
      then (Crash (IntegrityError ''protected''), db) else (OK 204 (), delete_product pk db))"
    using assms(2,3) id by (simp add: product_destroy_def signed_in_def)
  have iff: "product_ordered pk db \<or> skus_ordered ?ks db \<longleftrightarrow>
      (\<exists>it \<in> set (rows (db_order_items (db_pord db))). oi_product it = pk
         \<or> (\<exists>k \<in> set (rows (db_skus (cat_of db))). k_product k = pk \<and> oi_sku it = Some (k_id k)))"
  proof -
    have "skus_ordered ?ks db \<longleftrightarrow> (\<exists>it \<in> set (rows (db_order_items (db_pord db))).
        \<exists>k \<in> set (rows (db_skus (cat_of db))). k_product k = pk \<and> oi_sku it = Some (k_id k))"
      unfolding skus_ordered_def qs_exists_iff by (intro bex_cong refl) (auto simp: qs_filter_def split: option.splits)
    then show ?thesis by (auto simp only: product_ordered_def qs_exists_iff)
  qed
  have wf: "t_wf k_id (db_skus (cat_of db))" using assms(1) by (simp add: shop_refs_def catalog_refs_def)
  note tab = delete_product_tables [of pk db]
  have skus: "rows (db_skus (cat_of (delete_product pk db))) = filter (\<lambda>k. k_product k \<noteq> pk) (rows (db_skus (cat_of db)))"
    unfolding tab(4) skus_of_product [OF wf, symmetric] by (simp add: delete_skus_def Let_def cat_of_def rows_t_del)
  have others: "rows (db_products (cat_of (delete_product pk db))) = filter (\<lambda>q. p_id q \<noteq> pk) (rows (db_products (cat_of db)))"
    "\<forall>ci \<in> set (rows (db_cart_items (db_pord (delete_product pk db)))). ci_product ci \<noteq> pk"
    "db_order_items (db_pord (delete_product pk db)) = db_order_items (db_pord db)"
    unfolding tab by (auto simp: delete_skus_def Let_def cat_of_def rows_t_del rows_t_upd)
  show ?thesis using run skus others unfolding iff by (simp split: if_splits)
qed

theorem ordered_products_stay_witness:
  "\<exists>db'. product_destroy demo_request 1 demo_promos = (OK 204 (), db') \<and> map k_id (rows (db_skus (cat_of db'))) = [3]"
proof -
  obtain p where p: "product_object demo_request 1 (cat_of demo_promos) = Some p"
    by (simp add: product_object_def qs_first_def cat_of_def demo_promos_def demo_catalog_def demo_request_def)
  have u: "rq_user demo_request = Some demo_user" by (simp add: demo_request_def)
  show ?thesis
    using ordered_products_stay [OF demo_shop_refs u p]
    by (auto simp: demo_promos_def empty_tbl_def cat_of_def demo_catalog_def)
qed

text \<open>The catalogue does not ask who is calling: whether a request to write it is accepted, and what it leaves behind,
  is the same for any two signed-in users of a shop, so a customer without a staff row edits categories, products,
  SKUs and stock like the owner; only the recorded author differs.\<close>

theorem catalogue_ignores_role:
  assumes "rq_user rq = Some u" and "rq_user rq' = Some v" and "rq_tenant rq' = rq_tenant rq"
  shows "category_update partial rq pk cb = category_update partial rq' pk cb
       \<and> category_destroy rq pk = category_destroy rq' pk
       \<and> product_update partial rq pk ob = product_update partial rq' pk ob
       \<and> product_destroy rq pk = product_destroy rq' pk
       \<and> sku_update partial rq pk kb c = sku_update partial rq' pk kb c
       \<and> sku_destroy rq pk = sku_destroy rq' pk
       \<and> accepted (fst (adjust_stock rq pk ab c)) = accepted (fst (adjust_stock rq' pk ab c))
       \<and> db_skus (snd (adjust_stock rq pk ab c)) = db_skus (snd (adjust_stock rq' pk ab c))"
proof -
  have obj: "category_object rq = category_object rq'" "product_object rq = product_object rq'" "sku_object rq = sku_object rq'"
    using assms(3) by (auto simp: category_object_def product_object_def sku_object_def fun_eq_iff)
  have log: "log_stock sid act ch cur nt (Some (u_id u)) c1 = Inl e \<longleftrightarrow> log_stock sid act ch cur nt (Some (u_id v)) c1 = Inl e"
    for sid act ch cur nt e c1 by (simp add: log_stock_def)
  have adj: "case (adjust_apply (Some (u_id u)) k ty q nt c, adjust_apply (Some (u_id v)) k ty q nt c) of
      (Inl e, Inl e') \<Rightarrow> True | (Inr (s, d), Inr (s', d')) \<Rightarrow> db_skus d = db_skus d' | _ \<Rightarrow> False" for k ty q nt
    by (auto simp: adjust_apply_def Let_def log_stock_def split: sum.splits prod.splits)
  have "accepted (fst (adjust_stock rq pk ab c)) = accepted (fst (adjust_stock rq' pk ab c))
      \<and> db_skus (snd (adjust_stock rq pk ab c)) = db_skus (snd (adjust_stock rq' pk ab c))"
  proof (cases "sku_object rq pk c")
    case (Some k)
    then show ?thesis
    proof (cases "adjust_valid ab")
      case (Inr x)
      obtain ty q nt where x: "x = (ty, q, nt)" by (cases x)
      from adj [of k ty q nt] Inr x Some show ?thesis
        using assms(1,2) obj by (auto simp: adjust_stock_def split: sum.splits prod.splits)
    qed (use assms(1,2) obj in \<open>simp add: adjust_stock_def\<close>)
  qed (use assms(1,2) obj in \<open>simp add: adjust_stock_def\<close>)
  then show ?thesis
    using assms(1,2) obj
    by (auto simp: category_update_def category_destroy_def product_update_def product_destroy_def sku_update_def
        sku_destroy_def signed_in_def fun_eq_iff)
qed

theorem catalogue_ignores_role_witness:
  "product_destroy \<lparr>rq_user = Some (demo_user\<lparr>u_id := 99\<rparr>), rq_tenant = Some 3\<rparr> 1 = product_destroy demo_request 1
   \<and> \<not> list_ex (\<lambda>s. st_user s = 99) (rows demo_staff)"
proof -
  let ?rq = "\<lparr>rq_user = Some (demo_user\<lparr>u_id := 99\<rparr>), rq_tenant = Some 3\<rparr>"
  have "rq_user ?rq = Some (demo_user\<lparr>u_id := 99\<rparr>)" "rq_user demo_request = Some demo_user"
    "rq_tenant demo_request = rq_tenant ?rq" by (simp_all add: demo_request_def)
  from catalogue_ignores_role [OF this] show ?thesis by (auto simp: demo_staff_def)
qed

text \<open>What the product endpoints do as deployed: listing always fails, because the query defers the author and
  joins it, though with the author among its columns it would answer; and showing a product fails exactly when it
  has files in its gallery.\<close>

theorem product_views_deployed:
  assumes "rq_user rq = Some u"
  shows "fst (product_list 1 product_list_columns rq c) = Crash (FieldError ''created_by'')
       \<and> accepted (fst (product_list 1 (''created_by'' # product_list_columns) rq c))
       \<and> (product_object rq pk c = Some p \<longrightarrow>
            (accepted (fst (product_retrieve rq pk c)) \<longleftrightarrow> p_images p = []))"
  using assms
  by (auto simp: product_list_def signed_in_def deferred_relation_def product_relations_def product_list_columns_def
      product_retrieve_def product_detail_data_def paginated_def)

theorem product_views_deployed_witness:
  "fst (product_list 1 product_list_columns demo_request demo_catalog) = Crash (FieldError ''created_by'')
   \<and> accepted (fst (product_retrieve demo_request 1 demo_catalog))"
proof -
  have u: "rq_user demo_request = Some demo_user" by (simp add: demo_request_def)
  obtain p where p: "product_object demo_request 1 demo_catalog = Some p" "p_images p = []"
    by (simp add: product_object_def qs_first_def demo_catalog_def demo_request_def)
  show ?thesis using product_views_deployed [OF u, of demo_catalog 1 p] p by simp
qed

end
