(* ===== verification/Orders_Correct.thy ===== *)
theory Orders_Correct
  imports Orders
begin

text \<open>What carts, checkout, cancellation and the order statistics of theory \<open>Orders\<close> guarantee.\<close>

section \<open>Properties\<close>

definition demo_orders :: orders_db where
  "demo_orders = \<lparr>db_cat = demo_catalog, db_org = demo_shops,
     db_carts = \<lparr>rows = [\<lparr>c_id = 1, c_user = 7, c_session = None\<rparr>], seq = 1\<rparr>,
     db_cart_items = \<lparr>rows =
       [\<lparr>ci_id = 1, ci_cart = 1, ci_product = 1, ci_sku = Some 1, ci_quantity = 2, ci_options = [],
         ci_customization = [], ci_unit_price = 1800\<rparr>,
        \<lparr>ci_id = 2, ci_cart = 1, ci_product = 1, ci_sku = Some 2, ci_quantity = 9, ci_options = [],
         ci_customization = [], ci_unit_price = 1200\<rparr>], seq = 2\<rparr>,
     db_orders = empty_tbl, db_order_items = empty_tbl, db_status_logs = empty_tbl\<rparr>"

definition demo_body :: order_body where
  "demo_body = \<lparr>ob_type = Some Delivery, ob_name = ''amy'', ob_phone = ''1'', ob_notes = [], ob_address = ''road 2'',
     ob_delivery_time = None, ob_pickup_time = None, ob_table = [], ob_cart = Some 1, ob_items = []\<rparr>"

lemma demo_orders_wf: "orders_wf demo_orders"
  using demo_catalog_wf by (simp add: orders_wf_def demo_orders_def empty_tbl_def t_wf_def)

lemma demo_cart_inv: "cart_inv demo_orders"
  by (simp add: cart_inv_def t_wf_def unique_on_def line_key_def demo_orders_def)

lemma demo_cart: "qs_get ''Cart'' (\<lambda>c. c_id c = the (ob_cart demo_body) \<and> c_user c = u_id demo_user) (db_carts demo_orders)
    = Inr \<lparr>c_id = 1, c_user = 7, c_session = None\<rparr>"
  by (simp add: qs_get_def qs_filter_def demo_orders_def demo_body_def demo_user_def)

lemma demo_body_simps: "ob_items demo_body = []" "truthy_int (ob_cart demo_body)"
  by (simp_all add: demo_body_def)

text \<open>C1: Checking out a cart: the order that \<open>create\<close> returns has exactly the lines of the cart with their
  price snapshots and quantities, its subtotal is the total of the cart, its total adds the delivery fee of the
  shop for a delivery and nothing otherwise, it is pending and unpaid, it is stored with one status log, and
  the cart is empty.\<close>

theorem checkout_amounts:
  assumes "orders_wf db" and "ob_items b = []" and "truthy_int (ob_cart b)"
    and "qs_get ''Cart'' (\<lambda>c. c_id c = the (ob_cart b) \<and> c_user c = u_id u) (db_carts db) = Inr cart"
    and "create_order now hex (Some shop) u b db = Inr (o1, db')"
  shows "o_subtotal o1 = cart_total_price (c_id cart) db
    \<and> o_delivery_fee o1 = delivery_fee_of (o_type o1) shop db
    \<and> o_total o1 = cart_total_price (c_id cart) db + delivery_fee_of (o_type o1) shop db
    \<and> o_status o1 = Pending \<and> \<not> o_paid o1 \<and> o_discount o1 = 0
    \<and> mirrors db (o_id o1) (items_of_cart (c_id cart) db) (items_of_order (o_id o1) db')
    \<and> rows (db_orders db') = rows (db_orders db) @ [o1] \<and> items_of_cart (c_id cart) db' = []
    \<and> length (filter (\<lambda>l. sl_order l = o_id o1) (rows (db_status_logs db'))) = 1"
proof -
  obtain its where I: "mirrors db (seq (db_orders db) + 1) (items_of_cart (c_id cart) db) its"
    "items_of_order (seq (db_orders db) + 1) db' = its"
    "o1 = (new_order shop u b)\<lparr>o_number := generate_order_number now hex, o_id := seq (db_orders db) + 1, o_at := now,
       o_subtotal := sum_list (map oi_total its), o_delivery_fee := delivery_fee_of (or_default (ob_type b) DineIn) shop db,
       o_total := sum_list (map oi_total its) + delivery_fee_of (or_default (ob_type b) DineIn) shop db\<rparr>"
    "rows (db_orders db') = rows (db_orders db) @ [o1]"
    "db_cart_items db' = t_del (\<lambda>ci. ci_cart ci = c_id cart) (db_cart_items db)"
    and L: "\<exists>l. rows (db_status_logs db') = rows (db_status_logs db) @ [l] \<and> sl_order l = o_id o1 \<and> sl_old l = Pending \<and> sl_new l = Pending"
    using create_from_cart_InrD [OF assms(5,2,3,4,1)] by metis
  have id: "o_id o1 = seq (db_orders db) + 1" and ty: "o_type o1 = or_default (ob_type b) DineIn"
    unfolding I(3) by (simp_all add: new_order_def)
  have tot: "sum_list (map oi_total its) = cart_total_price (c_id cart) db"
    using mirrors_totals(1) [OF I(1)] by (simp add: cart_total_price_def)
  have old: "filter (\<lambda>l. sl_order l = o_id o1) (rows (db_status_logs db)) = []"
    using assms(1) id by (auto simp: orders_wf_def filter_empty_conv)
  have "o_subtotal o1 = cart_total_price (c_id cart) db" "o_delivery_fee o1 = delivery_fee_of (o_type o1) shop db"
    "o_total o1 = cart_total_price (c_id cart) db + delivery_fee_of (o_type o1) shop db"
    unfolding ty unfolding I(3) using tot by simp_all
  moreover have "o_status o1 = Pending" "\<not> o_paid o1" "o_discount o1 = 0"
    unfolding I(3) by (simp_all add: new_order_def)
  moreover have "items_of_cart (c_id cart) db' = []" using I(5) by (simp add: items_of_cart_def qs_filter_def rows_t_del filter_empty_conv)
  moreover have "length (filter (\<lambda>l. sl_order l = o_id o1) (rows (db_status_logs db'))) = 1" using L old by auto
  ultimately show ?thesis using I(1,2,4) id by simp
qed

theorem checkout_amounts_witness:
  "res_is (\<lambda>(o1, db'). o_total o1 = 14900) (create_order 5000000 ''A1B2C3'' (Some 3) demo_user demo_body demo_orders)"
proof -
  let ?r = "create_order 5000000 ''A1B2C3'' (Some 3) demo_user demo_body demo_orders"
  have "res_is (\<lambda>(o1, db'). o_type o1 = Delivery) ?r" by code_simp
  then obtain o1 db' where r: "?r = Inr (o1, db')" "o_type o1 = Delivery" by (auto elim: res_isE)
  have p: "cart_total_price 1 demo_orders = 14400" "delivery_fee_of Delivery 3 demo_orders = 500" by code_simp+
  from checkout_amounts [OF demo_orders_wf demo_body_simps demo_cart r(1)] r p show ?thesis by (simp add: res_is_def)
qed

text \<open>C2: Checking out moves stock by exactly the ordered quantities: each SKU ends with its stock minus what
  the cart held of it, whether or not there was enough, so stock can become negative, and no inventory log is
  written for it.\<close>

theorem checkout_stock:
  assumes "orders_wf db" and "ob_items b = []" and "truthy_int (ob_cart b)"
    and "qs_get ''Cart'' (\<lambda>c. c_id c = the (ob_cart b) \<and> c_user c = u_id u) (db_carts db) = Inr cart"
    and "create_order now hex (Some shop) u b db = Inr (o1, db')"
  shows "stock_at (db_cat db') k = map_option (\<lambda>v. v - sum_list (map ci_quantity
      (filter (\<lambda>ci. ci_sku ci = Some k) (items_of_cart (c_id cart) db)))) (stock_at (db_cat db) k)
    \<and> logs_of (db_cat db') k = logs_of (db_cat db) k"
proof -
  let ?its = "items_of_cart (c_id cart) db"
  have mv: "move_all move_stock (cart_moves ?its) (db_cat db) = Inr (db_cat db')"
    and inv: "db_inventory (db_cat db') = db_inventory (db_cat db)"
    using create_from_cart_InrD [OF assms(5,2,3,4,1)] by blast+
  have wf: "catalog_wf (db_cat db)" using assms(1) by (simp add: orders_wf_def)
  have "total_of k (cart_moves xs) = - sum_list (map ci_quantity (filter (\<lambda>ci. ci_sku ci = Some k) xs))" for xs
    by (induction xs) (auto split: option.splits)
  then show ?thesis using stock_ledger.move_all_level [OF wf mv, of k] inv by (simp add: logs_of_def)
qed

theorem checkout_stock_witness:
  "res_is (\<lambda>(o1, db'). stock_at (db_cat db') 2 = Some (- 1))
     (create_order 5000000 ''A1B2C3'' (Some 3) demo_user demo_body demo_orders)"
proof -
  let ?r = "create_order 5000000 ''A1B2C3'' (Some 3) demo_user demo_body demo_orders"
  have "res_is (\<lambda>_. True) ?r" by code_simp
  then obtain o1 db' where r: "?r = Inr (o1, db')" by (auto elim: res_isE)
  have q: "sum_list (map ci_quantity (filter (\<lambda>ci. ci_sku ci = Some 2)
      (items_of_cart (c_id \<lparr>c_id = 1, c_user = 7, c_session = None\<rparr>) demo_orders))) = 9" by code_simp
  have s: "stock_at (db_cat demo_orders) 2 = Some 8" by code_simp
  from checkout_stock [OF demo_orders_wf demo_body_simps demo_cart r, of 2] q s r show ?thesis by (simp add: res_is_def)
qed

text \<open>C9: Cancelling undoes checking out: when an order made from a cart is cancelled at once, every SKU of the
  catalogue has the stock it had before the order.\<close>

theorem cancel_undoes_checkout:
  assumes "orders_wf db" and "ob_items b = []" and "truthy_int (ob_cart b)"
    and "qs_get ''Cart'' (\<lambda>c. c_id c = the (ob_cart b) \<and> c_user c = u_id u) (db_carts db) = Inr cart"
    and "create_order now hex (Some shop) u b db = Inr (o1, db1)"
    and "cancel_rows now2 hex2 u2 notes o1 db1 = Inr (o2, db2)"
  shows "stock_at (db_cat db2) = stock_at (db_cat db) \<and> o_status o2 = Cancelled"
proof -
  obtain its where I: "mirrors db (seq (db_orders db) + 1) (items_of_cart (c_id cart) db) its"
    "items_of_order (seq (db_orders db) + 1) db1 = its"
    "o1 = (new_order shop u b)\<lparr>o_number := generate_order_number now hex, o_id := seq (db_orders db) + 1, o_at := now,
       o_subtotal := sum_list (map oi_total its), o_delivery_fee := delivery_fee_of (or_default (ob_type b) DineIn) shop db,
       o_total := sum_list (map oi_total its) + delivery_fee_of (or_default (ob_type b) DineIn) shop db\<rparr>"
    and mv: "move_all move_stock (cart_moves (items_of_cart (c_id cart) db)) (db_cat db) = Inr (db_cat db1)"
    using create_from_cart_InrD [OF assms(5,2,3,4,1)] by metis
  have wf: "catalog_wf (db_cat db)" and pos: "0 \<le> seq (db_orders db)"
    using assms(1) by (simp_all add: orders_wf_def t_wf_def)
  have wf1: "catalog_wf (db_cat db1)" by (rule stock_ledger.move_all_valid [OF wf mv])
  have id: "o_id o1 = seq (db_orders db) + 1" unfolding I(3) by simp
  then have nz: "o_id o1 \<noteq> 0" using pos by simp
  have num: "o_number o1 \<noteq> []" unfolding I(3) using generate_order_number_not_Nil by simp
  note C = cancel_rows_InrD [OF assms(6) wf1 nz num]
  have "line_moves (items_of_order (o_id o1) db1) = map (\<lambda>(j, d). (j, - d)) (cart_moves (items_of_cart (c_id cart) db))"
    using mirrors_totals(3) [OF I(1)] I(2) id by simp
  then have "\<And>k. total_of k (line_moves (items_of_order (o_id o1) db1)) = - total_of k (cart_moves (items_of_cart (c_id cart) db))"
    by (simp add: total_of_neg)
  then have "stock_at (db_cat db2) = stock_at (db_cat db)"
    by (rule stock_ledger.move_all_inverse [OF wf mv C(6)])
  with C(1) show ?thesis by simp
qed

theorem cancel_undoes_checkout_witness:
  "case create_order 5000000 ''A1B2C3'' (Some 3) demo_user demo_body demo_orders of
     Inl e \<Rightarrow> False
   | Inr (o1, db1) \<Rightarrow> res_is (\<lambda>(o2, db2). stock_at (db_cat db2) = stock_at demo_catalog) (cancel_rows 5 [] demo_user [] o1 db1)"
proof -
  let ?r = "create_order 5000000 ''A1B2C3'' (Some 3) demo_user demo_body demo_orders"
  have "res_is (\<lambda>(o1, db1). res_is (\<lambda>_. True) (cancel_rows 5 [] demo_user [] o1 db1)) ?r" by code_simp
  then obtain o1 db1 o2 db2 where r: "?r = Inr (o1, db1)" and c: "cancel_rows 5 [] demo_user [] o1 db1 = Inr (o2, db2)"
    by (auto elim!: res_isE)
  have "db_cat demo_orders = demo_catalog" by (simp add: demo_orders_def)
  with cancel_undoes_checkout [OF demo_orders_wf demo_body_simps demo_cart r c] r c show ?thesis by (simp add: res_is_def)
qed

text \<open>The status machine does not protect the stock: a cancelled order can be set back to pending and
  cancelled again, and each of the two cancellations adds the quantities of the order's lines to the stock.\<close>

theorem repeated_cancel_restocks_twice:
  assumes "catalog_wf (db_cat db)" and "o_id order \<noteq> 0" and "o_number order \<noteq> []"
    and "cancel_rows n1 h1 u1 t1 order db = Inr (oa, db1)"
    and "update_status_body n2 h2 u2 (Some Pending) t2 oa db1 = (OK 200 ob, db2)"
    and "cancel_rows n3 h3 u3 t3 ob db2 = Inr (oc, db3)"
  shows "stock_at (db_cat db3) k = map_option (\<lambda>v. v + 2 * sum_list (map oi_quantity
      (filter (\<lambda>it. oi_sku it = Some k) (items_of_order (o_id order) db)))) (stock_at (db_cat db) k)"
proof -
  note C1 = cancel_rows_InrD [OF assms(4,1,2,3)]
  have oa: "o_id oa \<noteq> 0" "o_number oa \<noteq> []" "o_id oa = o_id order" using C1(1) assms(2,3) by simp_all
  obtain d where s: "order_save n2 h2 (oa\<lparr>o_status := Pending\<rparr>) db1 = Inr (ob, d)"
    and d: "db2 = log_status n2 (o_id ob) (o_status oa) Pending t2 (Some (u_id u2)) d"
    using assms(5) by (auto simp: update_status_body_def Let_def split: sum.splits prod.splits)
  have "o_id (oa\<lparr>o_status := Pending\<rparr>) \<noteq> 0" "o_number (oa\<lparr>o_status := Pending\<rparr>) \<noteq> []" using oa by simp_all
  note S = order_save_oldD [OF s this]
  have cat: "db_cat db2 = db_cat db1" "db_order_items db2 = db_order_items db1" using S(2) d by (simp_all add: log_status_def)
  have ob: "o_id ob \<noteq> 0" "o_number ob \<noteq> []" "o_id ob = o_id order" using S(1) oa by simp_all
  have wf2: "catalog_wf (db_cat db2)" using C1(2) cat by simp
  note C2 = cancel_rows_InrD [OF assms(6) wf2 ob(1,2)]
  have its: "items_of_order (o_id ob) db2 = items_of_order (o_id order) db"
    using cat(2) C1(4) ob(3) by (simp add: items_of_order_def)
  have "total_of k (line_moves xs) = sum_list (map oi_quantity (filter (\<lambda>it. oi_sku it = Some k) xs))" for xs
    by (induction xs) (auto split: option.splits)
  then show ?thesis
    using C2(3) [of k] C1(3) [of k] its cat(1) by (cases "stock_at (db_cat db) k") auto
qed

theorem repeated_cancel_restocks_twice_witness:
  "case create_order 5000000 ''A1B2C3'' (Some 3) demo_user demo_body demo_orders of
     Inl e \<Rightarrow> False
   | Inr (o1, db) \<Rightarrow> res_is (\<lambda>(oa, db1). reply_is 200 (\<lambda>ob db2.
        res_is (\<lambda>(oc, db3). stock_at (db_cat db3) 1 = Some 7) (cancel_rows 7 [] demo_user [] ob db2))
        (update_status_body 6 [] demo_user (Some Pending) [] oa db1)) (cancel_rows 5 [] demo_user [] o1 db)"
proof -
  let ?r = "create_order 5000000 ''A1B2C3'' (Some 3) demo_user demo_body demo_orders"
  have "res_is (\<lambda>(o1, db). catalog_wf (db_cat db) \<and> o_id o1 \<noteq> 0 \<and> o_number o1 \<noteq> []
      \<and> stock_at (db_cat db) 1 = Some 3 \<and> map oi_quantity (filter (\<lambda>it. oi_sku it = Some 1) (items_of_order (o_id o1) db)) = [2]
      \<and> res_is (\<lambda>(oa, db1). reply_is 200 (\<lambda>ob db2. res_is (\<lambda>_. True) (cancel_rows 7 [] demo_user [] ob db2))
          (update_status_body 6 [] demo_user (Some Pending) [] oa db1))
        (cancel_rows 5 [] demo_user [] o1 db)) ?r" by code_simp
  then obtain o1 db oa db1 ob db2 oc db3 where r: "?r = Inr (o1, db)"
    and w: "catalog_wf (db_cat db)" "o_id o1 \<noteq> 0" "o_number o1 \<noteq> []" "stock_at (db_cat db) 1 = Some 3"
      "map oi_quantity (filter (\<lambda>it. oi_sku it = Some 1) (items_of_order (o_id o1) db)) = [2]"
    and a: "cancel_rows 5 [] demo_user [] o1 db = Inr (oa, db1)"
    and b: "update_status_body 6 [] demo_user (Some Pending) [] oa db1 = (OK 200 ob, db2)"
    and c: "cancel_rows 7 [] demo_user [] ob db2 = Inr (oc, db3)"
    by (auto elim!: res_isE reply_isE)
  from repeated_cancel_restocks_twice [OF w(1-3) a b c, of 1] w(4,5) r a b c show ?thesis by (simp add: res_is_def reply_is_def)
qed

text \<open>When the cart the request names is not the caller's, the request still succeeds: an order with no
  lines and zero amounts is stored, the lines given in the request are ignored, no status log is written, and
  neither cart nor stock changes.\<close>

theorem missing_cart_order:
  assumes "truthy_int (ob_cart b)"
    and "qs_get ''Cart'' (\<lambda>c. c_id c = the (ob_cart b) \<and> c_user c = u_id u) (db_carts db) = Inl (DoesNotExist m)"
    and "create_order now hex (Some shop) u b db = Inr (o1, db')"
  shows "o_subtotal o1 = 0 \<and> o_total o1 = 0 \<and> o_delivery_fee o1 = 0
    \<and> db' = db\<lparr>db_orders := \<lparr>rows = rows (db_orders db) @ [o1], seq = seq (db_orders db) + 1\<rparr>\<rparr>"
proof -
  have s: "order_save now hex (new_order shop u b) db = Inr (o1, db')"
    using assms by (auto simp: create_order_def order_cart_step_def split: sum.splits)
  have "o_id (new_order shop u b) = 0" "o_number (new_order shop u b) = []" by (simp_all add: new_order_def)
  note S = order_save_newD [OF s this]
  have "o_subtotal o1 = 0 \<and> o_total o1 = 0 \<and> o_delivery_fee o1 = 0" unfolding S(1) by (simp add: new_order_def)
  with S(2) show ?thesis by blast
qed

theorem missing_cart_order_witness:
  "res_is (\<lambda>(o1, db'). o_total o1 = 0 \<and> db_status_logs db' = empty_tbl)
     (create_order 5000000 ''A1B2C3'' (Some 3) demo_user (demo_body\<lparr>ob_cart := Some 9,
        ob_items := [\<lparr>lb_product = Some 1, lb_sku = Some 1, lb_quantity = Some 1, lb_attrs = [], lb_custom = []\<rparr>]\<rparr>) demo_orders)"
proof -
  let ?b = "demo_body\<lparr>ob_cart := Some 9,
        ob_items := [\<lparr>lb_product = Some 1, lb_sku = Some 1, lb_quantity = Some 1, lb_attrs = [], lb_custom = []\<rparr>]\<rparr>"
  have t: "truthy_int (ob_cart ?b)" by simp
  have g: "qs_get ''Cart'' (\<lambda>c. c_id c = the (ob_cart ?b) \<and> c_user c = u_id demo_user) (db_carts demo_orders)
      = Inl (DoesNotExist ''Cart'')"
    by (simp add: qs_get_def qs_filter_def demo_orders_def)
  have "res_is (\<lambda>_. True) (create_order 5000000 ''A1B2C3'' (Some 3) demo_user ?b demo_orders)" by code_simp
  then obtain o1 db' where r: "create_order 5000000 ''A1B2C3'' (Some 3) demo_user ?b demo_orders = Inr (o1, db')"
    by (auto elim: res_isE)
  have "db_status_logs demo_orders = empty_tbl" by (simp add: demo_orders_def)
  with missing_cart_order [OF t g r] r show ?thesis by (simp add: res_is_def)
qed

text \<open>Order numbers: a number built between 2001 and 2286 from six random characters has 19 characters, so
  it fits its column, and shows the second it was made; and saving an order, new or old, never leaves two orders
  with one number.\<close>

theorem order_numbers:
  assumes "t_wf o_id (db_orders db)" and "unique_on o_number (db_orders db)"
    and "o_id order = 0 \<or> t_find o_id (o_id order) (db_orders db) \<noteq> None"
    and "order_save now hex order db = Inr (o1, db')"
    and "1000000000 \<le> now div 1000000" "now div 1000000 < 10000000000" "length hex = 6"
  shows "unique_on o_number (db_orders db')
    \<and> (o_number order = [] \<longrightarrow> length (o_number o1) = 19 \<and> undec (take 10 (drop 3 (o_number o1))) = nat (now div 1000000))"
proof -
  have u: "unique_on o_number (db_orders db')"
  proof (cases "o_id order = 0")
    case True
    let ?o = "if o_number order = [] then order\<lparr>o_number := generate_order_number now hex\<rparr> else order"
    let ?f = "\<lambda>i. ?o\<lparr>o_id := i, o_at := now\<rparr>"
    have nq: "\<not> qs_exists (\<lambda>r. o_id r \<noteq> o_id ?o \<and> o_number r = o_number ?o) (db_orders db)"
      and db': "db_orders db' = snd (t_add ?f (db_orders db))"
      using assms(4) True by (auto simp: order_save_def Let_def case_prod_beta split: if_splits)
    have "o_id ?o = 0" using True by simp
    have "o_number x \<noteq> o_number (?f (seq (db_orders db) + 1))" if x: "x \<in> set (rows (db_orders db))" for x
    proof -
      have "o_id x \<noteq> 0" using assms(1) x by (auto simp: t_wf_def)
      then show ?thesis using nq x \<open>o_id ?o = 0\<close> by (auto simp: qs_exists_iff)
    qed
    then show ?thesis unfolding db' using assms(2) by (intro unique_on_t_add) blast+
  next
    case False
    let ?o = "if o_number order = [] then order\<lparr>o_number := generate_order_number now hex\<rparr> else order"
    have nq: "\<not> qs_exists (\<lambda>r. o_id r \<noteq> o_id ?o \<and> o_number r = o_number ?o) (db_orders db)"
      and db': "db_orders db' = t_save o_id ?o (db_orders db)"
      using assms(4) False by (auto simp: order_save_def Let_def case_prod_beta split: if_splits)
    have "o_id ?o = o_id order" by simp
    then have "t_find o_id (o_id ?o) (db_orders db) \<noteq> None" using assms(3) False by simp
    moreover have "o_number x \<noteq> o_number ?o" if "x \<in> set (rows (db_orders db))" "o_id x \<noteq> o_id ?o" for x
      using nq that unfolding qs_exists_iff by blast
    ultimately show ?thesis unfolding db' by (intro unique_on_t_save [OF assms(1,2)])
  qed
  have "length (o_number o1) = 19 \<and> undec (take 10 (drop 3 (o_number o1))) = nat (now div 1000000)" if e: "o_number order = []"
  proof -
    have n: "o_number o1 = generate_order_number now hex"
      using assms(4) e by (auto simp: order_save_def Let_def t_add_def split: if_splits)
    show ?thesis using order_number_length [OF assms(5,6)] assms(7) by (simp add: n undec_dec_of)
  qed
  with u show ?thesis by blast
qed

theorem order_numbers_witness:
  "\<exists>o1 db'. order_save 1700000000000000 ''A1B2C3'' (new_order 3 demo_user demo_body) demo_orders = Inr (o1, db')
     \<and> length (o_number o1) = 19"
proof -
  let ?o = "new_order 3 demo_user demo_body"
  have secs: "(1000000000::int) \<le> 1700000000000000 div 1000000" "1700000000000000 div 1000000 < (10000000000::int)" by simp_all
  have "chars (generate_order_number 1700000000000000 ''A1B2C3'') \<le> 20"
    using chars_le [of "generate_order_number 1700000000000000 ''A1B2C3''"] order_number_length(1) [OF secs] by simp
  then have "order_columns_ok (?o\<lparr>o_number := generate_order_number 1700000000000000 ''A1B2C3''\<rparr>)"
    by (simp add: order_columns_ok_def new_order_def demo_body_def numeric_ok_def chars_def)
  moreover have o: "o_id ?o = 0" "o_number ?o = []" by (simp_all add: new_order_def)
  moreover have e: "rows (db_orders demo_orders) = []" by (simp add: demo_orders_def empty_tbl_def)
  ultimately obtain o1 db' where s: "order_save 1700000000000000 ''A1B2C3'' ?o demo_orders = Inr (o1, db')"
    by (simp add: order_save_def Let_def qs_exists_iff case_prod_beta)
  have wf: "t_wf o_id (db_orders demo_orders)" "unique_on o_number (db_orders demo_orders)"
    by (simp_all add: demo_orders_def empty_tbl_def t_wf_def unique_on_def)
  have i: "o_id ?o = 0 \<or> t_find o_id (o_id ?o) (db_orders demo_orders) \<noteq> None" using o by simp
  from order_numbers [OF wf i s secs] s o show ?thesis by simp
qed

text \<open>A cart keeps one line per product and SKU: over any sequence of additions and clearings by any users,
  every user has at most one cart, a product and SKU occur in at most one line of a cart, and every line holds at
  least one piece.\<close>

theorem cart_lines_unique:
  assumes "cart_inv db" and "db' = run_requests handle_cart ops db"
    and "x \<in> set (rows (db_cart_items db'))" and "y \<in> set (rows (db_cart_items db'))" and "line_key x = line_key y"
  shows "x = y \<and> 1 \<le> ci_quantity x"
proof -
  have "cart_inv db'" unfolding assms(2) by (rule cart_system.run_inv [OF assms(1)])
  then have i: "inj_on line_key (set (rows (db_cart_items db')))" and q: "1 \<le> ci_quantity x"
    using assms(3) by (simp_all add: cart_inv_def unique_on_def distinct_map)
  from inj_onD [OF i assms(5,3,4)] q show ?thesis by simp
qed

theorem cart_lines_unique_witness:
  "let b = \<lparr>ad_product = Some 1, ad_sku = Some 1, ad_quantity = 3, ad_options = [], ad_custom = []\<rparr>;
       db' = run_requests handle_cart [AddReq demo_request b, AddReq demo_request b] demo_orders
   in \<exists>x \<in> set (rows (db_cart_items db')). line_key x = (1, 1, Some 1) \<and> 1 \<le> ci_quantity x"
proof -
  let ?b = "\<lparr>ad_product = Some 1, ad_sku = Some 1, ad_quantity = 3, ad_options = [], ad_custom = []\<rparr>"
  let ?d = "run_requests handle_cart [AddReq demo_request ?b, AddReq demo_request ?b] demo_orders"
  have "map (\<lambda>x. (line_key x, ci_quantity x)) (rows (db_cart_items ?d)) = [((1, 1, Some 1), 8), ((1, 1, Some 2), 9)]" by code_simp
  then have "((1, 1, Some 1), 8) \<in> set (map (\<lambda>x. (line_key x, ci_quantity x)) (rows (db_cart_items ?d)))" by (simp del: run_requests_simps)
  then obtain x where x: "x \<in> set (rows (db_cart_items ?d))" "line_key x = (1, 1, Some 1)" by auto
  from cart_lines_unique [OF demo_cart_inv refl x(1) x(1) refl] x show ?thesis unfolding Let_def by blast
qed

text \<open>Adding to the cart accumulates: an accepted addition raises the quantity of the one line of that product
  and SKU by the requested amount and keeps the price the line had, or opens a line at the current price of the
  SKU (of the product when no SKU is named); all other lines of all carts are untouched.\<close>

theorem add_item_accumulates:
  assumes "cart_inv db" and "rq_user rq = Some u" and "ad_product b = Some pid"
    and "add_item rq b db = (OK 201 ci, db')"
  shows "\<exists>c. c_user c = u_id u \<and> c \<in> set (rows (db_carts db'))
    \<and> line_at db' = (line_at db)((c_id c, pid, ad_sku b) := Some ci)
    \<and> (case line_at db (c_id c, pid, ad_sku b) of
        None \<Rightarrow> ci_quantity ci = ad_quantity b \<and> get_unit_price pid (ad_sku b) (db_cat db) = Inr (ci_unit_price ci)
      | Some c0 \<Rightarrow> ci_quantity ci = ci_quantity c0 + ad_quantity b \<and> ci_unit_price ci = ci_unit_price c0)"
proof -
  obtain c db1 where g: "get_cart (u_id u) db = Inr (c, db1)" and a: "add_to_cart c pid b db1 = Inr (ci, db')"
    and q: "1 \<le> ad_quantity b"
    using assms(2-4) by (auto simp: add_item_def split: sum.splits if_splits)
  note G = get_cart_InrD [OF g assms(1)]
  note A = add_to_cart_InrD [OF a G(1) q]
  have l: "line_at db1 = line_at db" using G(4) by (auto simp: line_at_def)
  have "db_carts db' = db_carts db1"
    using a by (auto simp: add_to_cart_def Let_def split: sum.splits if_splits prod.splits)
  then show ?thesis
    using G(2,3) A(2,3) unfolding l G(5) by (intro exI [of _ c]) (simp split: option.splits)
qed

theorem add_item_accumulates_witness:
  "let b = \<lparr>ad_product = Some 1, ad_sku = Some 1, ad_quantity = 3, ad_options = [], ad_custom = []\<rparr>
   in \<exists>ci. fst (add_item demo_request b demo_orders) = OK 201 ci \<and> ci_quantity ci = 5"
proof -
  let ?b = "\<lparr>ad_product = Some 1, ad_sku = Some 1, ad_quantity = 3, ad_options = [], ad_custom = []\<rparr>"
  have u: "rq_user demo_request = Some demo_user" by (simp add: demo_request_def)
  have p: "ad_product ?b = Some 1" by simp
  have "reply_is 201 (\<lambda>ci db'. map (\<lambda>c. (c_id c, c_user c)) (rows (db_carts db')) = [(1, 7)]) (add_item demo_request ?b demo_orders)"
    by code_simp
  then obtain ci db' where a: "add_item demo_request ?b demo_orders = (OK 201 ci, db')"
    and c: "map (\<lambda>c. (c_id c, c_user c)) (rows (db_carts db')) = [(1, 7)]" by (rule reply_isE)
  have ids: "c_id c = 1" if "c \<in> set (rows (db_carts db'))" for c using c that by auto
  have l: "map_option ci_quantity (line_at demo_orders (1, 1, Some 1)) = Some 2" by code_simp
  from add_item_accumulates [OF demo_cart_inv u p a] a l ids show ?thesis by (auto simp: Let_def)
qed

lemma sum_list_replace:
  assumes "distinct (map pk xs)" and "r \<in> set xs" and "P r" and "P r'"
  shows "sum_list (map f (filter P (map (\<lambda>x. if pk x = pk r then r' else x) xs))) = sum_list (map f (filter P xs)) - f r + (f r' :: int)"
  using assms
proof (induction xs)
  case Nil
  then show ?case by simp
next
  case (Cons x xs)
  show ?case
  proof (cases "x = r")
    case True
    then have "pk y \<noteq> pk r" if "y \<in> set xs" for y
      using Cons.prems(1) that by (metis distinct.simps(2) image_eqI list.simps(9) set_map)
    then have "map (\<lambda>x. if pk x = pk r then r' else x) xs = xs" by (intro map_idI) auto
    with True Cons.prems(3,4) show ?thesis by simp
  next
    case False
    then have "r \<in> set xs" using Cons.prems(2) by simp
    then have "pk x \<noteq> pk r"
      using Cons.prems(1) by (metis distinct.simps(2) image_eqI list.simps(9) set_map)
    with Cons \<open>r \<in> set xs\<close> show ?thesis by simp
  qed
qed

text \<open>A customer sets the price: a partial update of a line of the caller's own cart may carry any unit
  price the column holds, negative ones included; the line keeps it, and the cart's total, which checking out
  charges, changes by the price difference times the quantity.\<close>

theorem patch_sets_price:
  assumes "cart_inv db" and "rq_user rq = Some u" and "cart_item_object u pk db = Some ci" and "numeric_ok 10 p"
    and "db' = snd (cart_item_update True rq pk \<lparr>cb_cart = None, cb_product = None, cb_sku = None, cb_quantity = None,
           cb_options = None, cb_custom = None, cb_price = Some p\<rparr> db)"
  shows "t_find ci_id pk (db_cart_items db') = Some (ci\<lparr>ci_unit_price := p\<rparr>)
    \<and> cart_total_price (ci_cart ci) db' = cart_total_price (ci_cart ci) db + (p - ci_unit_price ci) * ci_quantity ci"
proof -
  let ?b = "\<lparr>cb_cart = None, cb_product = None, cb_sku = None, cb_quantity = None,
           cb_options = None, cb_custom = None, cb_price = Some p\<rparr>"
  let ?ci = "ci\<lparr>ci_unit_price := p\<rparr>"
  have ci: "ci \<in> set (rows (db_cart_items db))" "ci_id ci = pk"
    using qs_first_SomeD [OF assms(3) [unfolded cart_item_object_def]] by blast+
  have wf: "t_wf ci_id (db_cart_items db)" and un: "inj_on line_key (set (rows (db_cart_items db)))"
    using assms(1) by (simp_all add: cart_inv_def unique_on_def distinct_map)
  have app: "ci_apply ?b ci = ?ci" by (simp add: ci_apply_def or_default_def)
  have "\<not> qs_exists (\<lambda>r. ci_id r \<noteq> ci_id ci \<and> ci_cart r = ci_cart ci \<and> ci_product r = ci_product ci
      \<and> ci_sku r = ci_sku ci) (db_cart_items db)"
    using inj_onD [OF un _ _ ci(1)] by (auto simp: qs_exists_iff line_key_def)
  then have "ci_fields_valid True ci ?b db" using assms(4) by (simp add: ci_fields_valid_def needed_def app)
  then have db': "db' = db\<lparr>db_cart_items := t_save ci_id ?ci (db_cart_items db)\<rparr>"
    using assms(2,3,5) by (simp add: cart_item_update_def ci_validate_def app Let_def split: sum.splits)
  have f: "t_find ci_id (ci_id ?ci) (db_cart_items db) \<noteq> None"
    using t_wf_find_unique [OF wf ci(1)] by simp
  have r: "rows (db_cart_items db') = map (\<lambda>x. if ci_id x = ci_id ci then ?ci else x) (rows (db_cart_items db))"
    using f by (auto simp: db' t_save_def t_upd_def)
  have tot: "cart_item_total db' = cart_item_total db" by (rule cart_item_total_cong) (simp add: db')
  have "cart_total_price (ci_cart ci) db'
      = cart_total_price (ci_cart ci) db - cart_item_total db ci + cart_item_total db ?ci"
    unfolding cart_total_price_def items_of_cart_def qs_filter_def tot r
    by (rule sum_list_replace) (use wf ci in \<open>auto simp: t_wf_def\<close>)
  moreover have "cart_item_total db ?ci - cart_item_total db ci = (p - ci_unit_price ci) * ci_quantity ci"
    by (simp add: cart_item_total_def Let_def algebra_simps)
  ultimately show ?thesis using ci(2) by (simp add: db' t_find_t_save)
qed

theorem patch_sets_price_witness:
  "cart_total_price 1 (snd (cart_item_update True demo_request 1 \<lparr>cb_cart = None, cb_product = None, cb_sku = None,
     cb_quantity = None, cb_options = None, cb_custom = None, cb_price = Some (- 5000)\<rparr> demo_orders)) = 800"
proof -
  have u: "rq_user demo_request = Some demo_user" by (simp add: demo_request_def)
  obtain ci where ci: "cart_item_object demo_user 1 demo_orders = Some ci"
    "ci_cart ci = 1" "ci_unit_price ci = 1800" "ci_quantity ci = 2"
    by (simp add: cart_item_object_def qs_first_def qs_exists_def demo_orders_def demo_user_def)
  have n: "numeric_ok 10 (- 5000)" by (simp add: numeric_ok_def)
  have "cart_total_price 1 demo_orders = 14400" by code_simp
  with patch_sets_price [OF demo_cart_inv u ci(1) n refl] ci(2-4) show ?thesis by simp
qed

text \<open>Today's statistics count the orders of one local calendar day, but of the current day only from 08:00
  local time on; before 08:00 they count the day before, because the date is taken in UTC.\<close>

theorem statistics_window:
  "today_orders now tn db = filter (\<lambda>r. Some (o_shop r) = tn \<and> local_date (o_at r) =
     (if shanghai_us \<le> (now + shanghai_us) mod day_us then local_date now else local_date now - 1)) (rows (db_orders db))"
proof -
  have d: "utc_date now = (if shanghai_us \<le> (now + shanghai_us) mod day_us then local_date now else local_date now - 1)"
  proof (cases "shanghai_us \<le> (now + shanghai_us) mod day_us")
    case True
    then show ?thesis using utc_date_local_date [of now] by simp
  next
    case False
    let ?q = "(now + shanghai_us) div day_us" and ?r = "(now + shanghai_us) mod day_us"
    have m: "now + shanghai_us = ?q * day_us + ?r" by simp
    have pos: "0 \<le> ?r" "0 < day_us" "shanghai_us \<le> day_us" by (simp_all add: day_us_def shanghai_us_def)
    have "(?q - 1) * day_us \<le> now \<and> now < (?q - 1 + 1) * day_us"
      unfolding left_diff_distrib diff_add_cancel mult_1 using m pos False by linarith
    then have "now div day_us = ?q - 1" using pos(2) by (simp add: div_eq_iff_bounds)
    with False show ?thesis by (simp add: utc_date_def local_date_def)
  qed
  show ?thesis unfolding today_orders_def Let_def qs_filter_def d local_day_iff by simp
qed

text \<open>As deployed, no order can be fetched: the query prefetches a relation orders do not have, so changing the
  status and cancelling are never accepted and change nothing, and listing one's orders is accepted only when
  there are none to list.\<close>

theorem order_views_deployed:
  "(let (r, db') = update_status order_related_names now hex rq pk st notes db in \<not> accepted r \<and> db' = db)
   \<and> (let (r, db') = cancel_order order_related_names now hex rq pk notes db in \<not> accepted r \<and> db' = db)
   \<and> my_orders order_related_names rq st db \<in> {Reject 401 PermissionDenied, OK 200 [], Crash (AttributeError ''payments'')}"
proof -
  have pre: "prefetch_rows order_related_names os = (if os = [] then Inr [] else Inl (AttributeError ''payments''))" for os
    by (simp add: prefetch_rows_def order_prefetch_def order_related_names_def)
  have "\<exists>e. order_object order_related_names rq pk db = Inl e"
    by (simp add: order_object_def pre)
  then have w: "with_order order_related_names rq pk body db = (r, db') \<Longrightarrow> \<not> accepted r \<and> db' = db"
    for body :: "order_row \<Rightarrow> orders_db \<Rightarrow> order_row reply \<times> orders_db" and r db'
    by (auto simp: with_order_def split: sum.splits bool.splits exn.splits)
  have "my_orders order_related_names rq st db \<in> {Reject 401 PermissionDenied, OK 200 [], Crash (AttributeError ''payments'')}"
    by (auto simp: my_orders_def pre Let_def split: option.splits)
  then show ?thesis using w by (auto simp: update_status_def cancel_order_def split: prod.splits)
qed

end
