(* ===== verification/Cart_Views.thy ===== *)
theory Cart_Views
  imports Orders_Correct Tenant_Views
begin

text \<open>
  The generic routes of \<open>CartViewSet\<close> in \<open>orders/api.py\<close> (\<open>list\<close>, \<open>retrieve\<close>, \<open>create\<close>, \<open>update\<close>,
  \<open>destroy\<close>) over \<open>CartSerializer\<close>, with the pagination of the settings, and what all requests on carts together
  keep: the references of the rows, and the carts of the other users.
\<close>

section \<open>Carts\<close>

text \<open>\<open>CartSerializer\<close> (\<open>fields = '__all__'\<close>): the user of a cart is a field like any other.\<close>

record cart_body =
  kb_user :: "int option"
  kb_session :: "string option option"

definition cart_valid :: "bool \<Rightarrow> cart_body \<Rightarrow> orders_db \<Rightarrow> bool" where
  "cart_valid partial b db \<longleftrightarrow>
     needed partial (kb_user b) (\<lambda>i. qs_exists (\<lambda>u. u_id u = i) (db_members (db_org db)))
     \<and> optional (kb_session b) (\<lambda>s. case s of None \<Rightarrow> True | Some x \<Rightarrow> chars x \<le> 100)"

definition cart_apply :: "cart_body \<Rightarrow> cart_row \<Rightarrow> cart_row" where
  "cart_apply b c = c\<lparr>c_user := or_default (kb_user b) (c_user c), c_session := or_default (kb_session b) (c_session c)\<rparr>"

type_synonym cart_data = "cart_row \<times> cart_item_row list \<times> int \<times> int"

definition cart_data :: "cart_row \<Rightarrow> orders_db \<Rightarrow> cart_data res" where
  "cart_data c db =
     (case collect_res (\<lambda>ci. serialize_cart_item ci db) (items_of_cart (c_id c) db) of
        Inl e \<Rightarrow> Inl e
      | Inr _ \<Rightarrow>
          if \<not> numeric_ok 10 (cart_total_price (c_id c) db) then Inl (DataError ''total_price'')
          else Inr (c, items_of_cart (c_id c) db, cart_total_price (c_id c) db, cart_total_quantity (c_id c) db))"

text \<open>The answer is serialized after the write: when that fails, the write stays.\<close>

definition show_cart :: "nat \<Rightarrow> cart_row \<Rightarrow> orders_db \<Rightarrow> cart_data reply \<times> orders_db" where
  "show_cart n c db = (case cart_data c db of Inl e \<Rightarrow> (Crash e, db) | Inr d \<Rightarrow> (OK n d, db))"

definition cart_object :: "user_row \<Rightarrow> int \<Rightarrow> orders_db \<Rightarrow> cart_row option" where
  "cart_object u pk db = qs_first (\<lambda>c. c_id c = pk \<and> c_user c = u_id u) (db_carts db)"

definition cart_list :: "nat \<Rightarrow> request \<Rightarrow> orders_db \<Rightarrow> cart_data list reply \<times> orders_db" where
  "cart_list page rq = signed_in rq (\<lambda>u db.
     (serialized (collect_res (\<lambda>c. cart_data c db)) (paginated page (qs_filter (\<lambda>c. c_user c = u_id u) (db_carts db))), db))"

definition cart_retrieve :: "request \<Rightarrow> int \<Rightarrow> orders_db \<Rightarrow> cart_data reply \<times> orders_db" where
  "cart_retrieve rq pk = signed_in rq (\<lambda>u db.
     (case cart_object u pk db of
        None \<Rightarrow> (Reject 404 (DoesNotExist ''Cart''), db)
      | Some c \<Rightarrow> show_cart 200 c db))"

definition cart_create :: "request \<Rightarrow> cart_body \<Rightarrow> orders_db \<Rightarrow> cart_data reply \<times> orders_db" where
  "cart_create rq b = signed_in rq (\<lambda>u db.
     if \<not> cart_valid False b db then (Reject 400 (ValidationError ''cart''), db)
     else (let (c, t) = t_add (\<lambda>i. cart_apply b \<lparr>c_id = i, c_user = 0, c_session = None\<rparr>) (db_carts db)
           in show_cart 201 c (db\<lparr>db_carts := t\<rparr>)))"

definition cart_update :: "bool \<Rightarrow> request \<Rightarrow> int \<Rightarrow> cart_body \<Rightarrow> orders_db \<Rightarrow> cart_data reply \<times> orders_db" where
  "cart_update partial rq pk b = signed_in rq (\<lambda>u db.
     (case cart_object u pk db of
        None \<Rightarrow> (Reject 404 (DoesNotExist ''Cart''), db)
      | Some c \<Rightarrow>
          if \<not> cart_valid partial b db then (Reject 400 (ValidationError ''cart''), db)
          else show_cart 200 (cart_apply b c) (db\<lparr>db_carts := t_save c_id (cart_apply b c) (db_carts db)\<rparr>)))"

text \<open>The lines of a deleted cart go with it.\<close>

definition cart_destroy :: "request \<Rightarrow> int \<Rightarrow> orders_db \<Rightarrow> unit reply \<times> orders_db" where
  "cart_destroy rq pk = signed_in rq (\<lambda>u. destroying (cart_object u pk)
     (\<lambda>c db. Inr (db\<lparr>db_carts := t_del (\<lambda>r. c_id r = c_id c) (db_carts db),
        db_cart_items := t_del (\<lambda>ci. ci_cart ci = c_id c) (db_cart_items db)\<rparr>)))"

section \<open>The requests on carts\<close>

datatype cart_op =
    PutLine request add_body
  | EmptyCart request
  | ShowMine request
  | EditLine bool request int ci_body
  | DropLine request int
  | NewCart request cart_body
  | EditCart bool request int cart_body
  | DropCart request int

primrec cart_request_of :: "cart_op \<Rightarrow> request" where
  "cart_request_of (PutLine rq b) = rq"
| "cart_request_of (EmptyCart rq) = rq"
| "cart_request_of (ShowMine rq) = rq"
| "cart_request_of (EditLine partial rq pk b) = rq"
| "cart_request_of (DropLine rq pk) = rq"
| "cart_request_of (NewCart rq b) = rq"
| "cart_request_of (EditCart partial rq pk b) = rq"
| "cart_request_of (DropCart rq pk) = rq"

primrec handle_cart_op :: "cart_op \<Rightarrow> orders_db \<Rightarrow> bool \<times> orders_db" where
  "handle_cart_op (PutLine rq b) db = status_of (add_item rq b db)"
| "handle_cart_op (EmptyCart rq) db = status_of (clear_cart rq db)"
| "handle_cart_op (ShowMine rq) db = status_of (my_cart rq db)"
| "handle_cart_op (EditLine partial rq pk b) db = status_of (cart_item_update partial rq pk b db)"
| "handle_cart_op (DropLine rq pk) db = status_of (cart_item_destroy rq pk db)"
| "handle_cart_op (NewCart rq b) db = status_of (cart_create rq b db)"
| "handle_cart_op (EditCart partial rq pk b) db = status_of (cart_update partial rq pk b db)"
| "handle_cart_op (DropCart rq pk) db = status_of (cart_destroy rq pk db)"

section \<open>What a request keeps\<close>

text \<open>Every line is in a stored cart, of a stored product and SKU, with stored options and a positive quantity.\<close>

definition line_refs :: "orders_db \<Rightarrow> cart_item_row \<Rightarrow> bool" where
  "line_refs db ci \<longleftrightarrow> ci_product ci \<in> ids_of p_id (db_products (db_cat db))
     \<and> opt_in (ci_sku ci) (ids_of k_id (db_skus (db_cat db)))
     \<and> set (ci_options ci) \<subseteq> ids_of op_id (db_options (db_cat db)) \<and> 1 \<le> ci_quantity ci"

definition cart_refs :: "orders_db \<Rightarrow> bool" where
  "cart_refs db \<longleftrightarrow> t_wf c_id (db_carts db) \<and> t_wf ci_id (db_cart_items db)
     \<and> (\<forall>ci \<in> set (rows (db_cart_items db)). ci_cart ci \<in> ids_of c_id (db_carts db) \<and> line_refs db ci)"

definition carts_of :: "int \<Rightarrow> orders_db \<Rightarrow> cart_row set" where
  "carts_of b db = {c \<in> set (rows (db_carts db)). c_user c = b}"

definition lines_of :: "int \<Rightarrow> orders_db \<Rightarrow> cart_item_row set" where
  "lines_of b db = {ci \<in> set (rows (db_cart_items db)). ci_cart ci \<in> c_id ` carts_of b db}"

definition cart_step :: "int \<Rightarrow> orders_db \<Rightarrow> orders_db \<Rightarrow> bool" where
  "cart_step a db db' \<longleftrightarrow> cart_refs db' \<and> db_cat db' = db_cat db \<and> db_org db' = db_org db
     \<and> (\<forall>b. b \<noteq> a \<longrightarrow> carts_of b db \<subseteq> carts_of b db' \<and> lines_of b db \<subseteq> lines_of b db')"

lemma cart_step_refl: "cart_refs db \<Longrightarrow> cart_step a db db"
  by (simp add: cart_step_def)

lemma cart_step_trans: "cart_step a db db1 \<Longrightarrow> cart_step a db1 db2 \<Longrightarrow> cart_step a db db2"
  unfolding cart_step_def by (simp, blast)

lemma line_refs_cong: "db_cat db' = db_cat db \<Longrightarrow> line_refs db' = line_refs db"
  by (rule ext) (simp add: line_refs_def)

text \<open>A write is a step of user \<open>a\<close> when it keeps the rows of the carts that are not his.\<close>

lemma cart_stepI:
  assumes refs: "cart_refs db" and "cart_refs db'" "db_cat db' = db_cat db" "db_org db' = db_org db"
    and carts: "\<And>c. c \<in> set (rows (db_carts db)) \<Longrightarrow> c_user c \<noteq> a \<Longrightarrow> c \<in> set (rows (db_carts db'))"
    and lines: "\<And>ci. ci \<in> set (rows (db_cart_items db)) \<Longrightarrow> (\<forall>c \<in> carts_of a db. ci_cart ci \<noteq> c_id c)
       \<Longrightarrow> ci \<in> set (rows (db_cart_items db'))"
  shows "cart_step a db db'"
proof -
  have wf: "t_wf c_id (db_carts db)" using refs by (simp add: cart_refs_def)
  have one: "c = d" if "c \<in> set (rows (db_carts db))" "d \<in> set (rows (db_carts db))" "c_id c = c_id d" for c d
    using that find_iff_mem [OF wf] by (metis option.inject)
  have "carts_of b db \<subseteq> carts_of b db' \<and> lines_of b db \<subseteq> lines_of b db'" if "b \<noteq> a" for b
  proof -
    have c: "carts_of b db \<subseteq> carts_of b db'" using carts that by (auto simp: carts_of_def)
    moreover have "ci \<in> set (rows (db_cart_items db'))" if l: "ci \<in> lines_of b db" for ci
    proof (rule lines)
      show "ci \<in> set (rows (db_cart_items db))" using l by (simp add: lines_of_def)
      show "\<forall>c \<in> carts_of a db. ci_cart ci \<noteq> c_id c"
      proof (intro ballI notI)
        fix c assume c: "c \<in> carts_of a db" "ci_cart ci = c_id c"
        obtain d where d: "d \<in> carts_of b db" "ci_cart ci = c_id d" using l by (auto simp: lines_of_def)
        have "c = d" by (rule one) (use c d in \<open>simp_all add: carts_of_def\<close>)
        then show False using c(1) d(1) \<open>b \<noteq> a\<close> by (simp add: carts_of_def)
      qed
    qed
    ultimately show ?thesis by (auto simp: lines_of_def)
  qed
  with assms(2-4) show ?thesis by (simp add: cart_step_def)
qed

text \<open>The writes: a new cart, a rewritten cart, a new set of lines.\<close>

lemma new_cart_step:
  assumes "cart_refs db" and "\<And>i. c_id (f i) = i"
  shows "cart_step a db (db\<lparr>db_carts := snd (t_add f (db_carts db))\<rparr>)"
proof (rule cart_stepI [OF assms(1)])
  show "cart_refs (db\<lparr>db_carts := snd (t_add f (db_carts db))\<rparr>)"
    using assms t_wf_t_add [of c_id "db_carts db" f] by (auto simp: cart_refs_def ids_of_t_add line_refs_def)
qed (simp_all add: set_rows_t_add)

lemma save_cart_step:
  assumes "cart_refs db" and "c \<in> carts_of a db" and "c_id c' = c_id c"
  shows "cart_step a db (db\<lparr>db_carts := t_save c_id c' (db_carts db)\<rparr>)"
proof -
  have wf: "t_wf c_id (db_carts db)" and i: "c_id c' \<in> ids_of c_id (db_carts db)" and c: "c \<in> set (rows (db_carts db))" "c_user c = a"
    using assms by (auto simp: cart_refs_def carts_of_def ids_of_def)
  note S = t_save_mem [OF wf i]
  have only: "c_id x \<noteq> c_id c'" if "x \<in> set (rows (db_carts db))" "c_user x \<noteq> a" for x
    using that c assms(3) find_iff_mem [OF wf] by (metis option.inject)
  show ?thesis
  proof (rule cart_stepI [OF assms(1)])
    show "cart_refs (db\<lparr>db_carts := t_save c_id c' (db_carts db)\<rparr>)"
      using assms(1) S by (auto simp: cart_refs_def line_refs_def)
  qed (use S only in auto)
qed

lemma lines_step:
  assumes "cart_refs db" and "t_wf ci_id t"
    and "\<And>ci. ci \<in> set (rows t) \<Longrightarrow> ci \<in> set (rows (db_cart_items db)) \<or> ci_cart ci \<in> ids_of c_id (db_carts db) \<and> line_refs db ci"
    and "\<And>ci. ci \<in> set (rows (db_cart_items db)) \<Longrightarrow> (\<forall>c \<in> carts_of a db. ci_cart ci \<noteq> c_id c) \<Longrightarrow> ci \<in> set (rows t)"
  shows "cart_step a db (db\<lparr>db_cart_items := t\<rparr>)"
proof (rule cart_stepI [OF assms(1)])
  show "cart_refs (db\<lparr>db_cart_items := t\<rparr>)"
    using assms(1-3) by (auto simp: cart_refs_def line_refs_def)
qed (use assms(4) in simp_all)

section \<open>Each request is a step of its user\<close>

lemma get_cart_step:
  assumes "get_cart a db = Inr (c, db')" and "cart_refs db"
  shows "cart_step a db db'" and "c \<in> carts_of a db'"
proof -
  have "cart_step a db db' \<and> c \<in> carts_of a db'"
  proof (cases "qs_get ''Cart'' (\<lambda>c. c_user c = a) (db_carts db)")
    case (Inr c0)
    then show ?thesis using assms cart_step_refl by (auto simp: get_cart_def carts_of_def dest: qs_get_InrD)
  next
    case (Inl e)
    let ?f = "\<lambda>i. \<lparr>c_id = i, c_user = a, c_session = None\<rparr>"
    have "c = ?f (seq (db_carts db) + 1)" "db' = db\<lparr>db_carts := snd (t_add ?f (db_carts db))\<rparr>"
      using assms(1) Inl by (auto simp: get_cart_def t_add_def split: exn.splits)
    then show ?thesis using new_cart_step [OF assms(2), of ?f a] by (simp add: carts_of_def set_rows_t_add)
  qed
  then show "cart_step a db db'" and "c \<in> carts_of a db'" by blast+
qed

lemma serialize_refs:
  assumes "serialize_cart_item ci db = Inr x" and "set (ci_options ci) \<subseteq> ids_of op_id (db_options (db_cat db))" and "1 \<le> ci_quantity ci"
  shows "line_refs db ci"
proof -
  have "t_find p_id (ci_product ci) (db_products (db_cat db)) \<noteq> None"
    using assms(1) by (auto simp: serialize_cart_item_def split: option.splits)
  moreover have "t_find k_id k (db_skus (db_cat db)) \<noteq> None" if "ci_sku ci = Some k" for k
    using assms(1) that by (auto simp: serialize_cart_item_def split: option.splits if_splits)
  ultimately show ?thesis using assms(2,3) unfolding ids_of_find by (cases "ci_sku ci") (simp_all add: line_refs_def)
qed

text \<open>Saving a line that is stored: a line of \<open>a\<close> takes its place.\<close>

lemma save_line_step:
  assumes "cart_refs db" and "c \<in> carts_of a db" and "t_wf ci_id t" and "ci_id ci \<in> ids_of ci_id t"
    and "ci_cart ci \<in> ids_of c_id (db_carts db)" and "line_refs db ci"
    and "\<And>x. x \<in> set (rows t) \<Longrightarrow> x \<in> set (rows (db_cart_items db)) \<or> ci_id x = ci_id ci"
    and "\<And>x. x \<in> set (rows (db_cart_items db)) \<Longrightarrow> ci_cart x \<noteq> c_id c \<Longrightarrow> x \<in> set (rows t) \<and> ci_id x \<noteq> ci_id ci"
  shows "cart_step a db (db\<lparr>db_cart_items := t_save ci_id ci t\<rparr>)"
proof (rule lines_step [OF assms(1)])
  note S = t_save_mem [OF assms(3,4)]
  show "t_wf ci_id (t_save ci_id ci t)" by (fact S(3))
  show "x \<in> set (rows (db_cart_items db)) \<or> ci_cart x \<in> ids_of c_id (db_carts db) \<and> line_refs db x"
    if "x \<in> set (rows (t_save ci_id ci t))" for x using that assms(5,6) assms(7) [of x] by (auto simp: S(1))
  show "x \<in> set (rows (t_save ci_id ci t))"
    if "x \<in> set (rows (db_cart_items db))" "\<forall>c \<in> carts_of a db. ci_cart x \<noteq> c_id c" for x
    using assms(8) [OF that(1)] that(2) assms(2) S(1) by blast
qed

lemma add_to_cart_step:
  assumes run: "add_to_cart c pid b db = Inr (ci, db')" and refs: "cart_refs db" and c: "c \<in> carts_of a db" and q: "1 \<le> ad_quantity b"
  shows "cart_step a db db'"
proof -
  let ?items = "db_cart_items db" and ?cat = "db_cat db"
  let ?P = "\<lambda>x. ci_cart x = c_id c \<and> ci_product x = pid \<and> ci_sku x = ad_sku b"
  have wf: "t_wf ci_id ?items" and lines: "\<And>x. x \<in> set (rows ?items) \<Longrightarrow> line_refs db x" and cid: "c_id c \<in> ids_of c_id (db_carts db)"
    using refs c by (auto simp: cart_refs_def carts_of_def ids_of_def)
  obtain price c1 t x where step: "(case qs_get ''CartItem'' ?P ?items of
                   Inr ci \<Rightarrow>
                     let ci' = ci\<lparr>ci_quantity := ci_quantity ci + ad_quantity b\<rparr>
                     in if cart_item_ok ci' then Inr (ci', t_save ci_id ci' ?items)
                        else Inl (DataError ''cart_items'')
                 | Inl (DoesNotExist m) \<Rightarrow>
                     let (ci, t) = t_add (\<lambda>i. \<lparr>ci_id = i, ci_cart = c_id c, ci_product = pid,
                            ci_sku = ad_sku b, ci_quantity = ad_quantity b, ci_options = [],
                            ci_customization = ad_custom b, ci_unit_price = price\<rparr>) ?items
                     in if cart_item_ok ci then Inr (ci, t) else Inl (DataError ''cart_items'')
                 | Inl e \<Rightarrow> Inl e) = Inr (c1, t)"
    and ci: "ci = (if ad_options b = [] then c1 else c1\<lparr>ci_options := remdups (ad_options b)\<rparr>)"
    and some: "\<not> (\<exists>i \<in> set (ad_options b). \<not> qs_exists (\<lambda>a. op_id a = i) (db_options ?cat))"
    and db': "db' = db\<lparr>db_cart_items := t_save ci_id ci t\<rparr>"
    and ser: "serialize_cart_item ci (db\<lparr>db_cart_items := t_save ci_id ci t\<rparr>) = Inr x"
    using run unfolding add_to_cart_def by (auto simp: Let_def split: sum.splits if_splits prod.splits)
  have opts: "set (ad_options b) \<subseteq> ids_of op_id (db_options ?cat)"
    using some by (auto simp: qs_exists_iff ids_of_def)
  note ser = ser [folded db']
  have main: "t_wf ci_id t \<and> ci_id c1 \<in> ids_of ci_id t \<and> ci_cart c1 = c_id c \<and> 1 \<le> ci_quantity c1
     \<and> set (ci_options c1) \<subseteq> ids_of op_id (db_options ?cat)
     \<and> (\<forall>x \<in> set (rows t). x \<in> set (rows ?items) \<or> ci_id x = ci_id c1)
     \<and> (\<forall>x \<in> set (rows ?items). ci_cart x \<noteq> c_id c \<longrightarrow> x \<in> set (rows t) \<and> ci_id x \<noteq> ci_id c1)"
  proof (cases "qs_get ''CartItem'' ?P ?items")
    case (Inr c0)
    then have c0: "c0 \<in> set (rows ?items)" "ci_cart c0 = c_id c" by (auto dest: qs_get_InrD)
    have c1: "c1 = c0\<lparr>ci_quantity := ci_quantity c0 + ad_quantity b\<rparr>" and t: "t = t_save ci_id c1 ?items"
      using step Inr by (auto simp: Let_def split: if_splits)
    have "ci_id c1 \<in> ids_of ci_id ?items" using c0 by (simp add: c1 ids_of_def)
    note S = t_save_mem [OF wf this]
    have "ci_id x \<noteq> ci_id c1" if "x \<in> set (rows ?items)" "ci_cart x \<noteq> c_id c" for x
      using that c0 find_iff_mem [OF wf] by (metis (no_types, lifting) c1 cart_item_row.select_convs(1) cart_item_row.surjective cart_item_row.update_convs(5) option.inject)
    then show ?thesis using S lines [OF c0(1)] c0 q \<open>ci_id c1 \<in> ids_of ci_id ?items\<close> by (auto simp: t) (auto simp: c1 line_refs_def)
  next
    case (Inl e)
    let ?f = "\<lambda>i. \<lparr>ci_id = i, ci_cart = c_id c, ci_product = pid, ci_sku = ad_sku b, ci_quantity = ad_quantity b,
                ci_options = [], ci_customization = ad_custom b, ci_unit_price = price\<rparr>"
    have c1: "c1 = ?f (seq ?items + 1)" and t: "t = snd (t_add ?f ?items)"
      using step Inl by (auto simp: Let_def t_add_def split: exn.splits if_splits)
    have "t_wf ci_id t" unfolding t by (rule t_wf_t_add [OF wf]) simp
    moreover have "ci_id x \<noteq> seq ?items + 1" if "x \<in> set (rows ?items)" for x
      using wf that by (auto simp: t_wf_def)
    moreover have "set (rows t) = insert c1 (set (rows ?items))" "ci_id c1 = seq ?items + 1" "ci_cart c1 = c_id c"
      "ci_quantity c1 = ad_quantity b" "ci_options c1 = []"
      by (simp_all add: t c1 set_rows_t_add)
    ultimately show ?thesis using q by (simp add: ids_of_def)
  qed
  then have "line_refs db' ci"
    by (intro serialize_refs [OF ser]) (use ci opts in \<open>auto simp: db' split: if_splits\<close>)
  moreover have "line_refs db' = line_refs db" by (rule line_refs_cong) (simp add: db')
  ultimately have "line_refs db ci" by simp
  moreover have "ci_id ci = ci_id c1" "ci_cart ci = ci_cart c1" by (simp_all add: ci)
  ultimately show ?thesis unfolding db' using main cid by (intro save_line_step [OF refs c]) auto
qed

lemma add_item_step:
  assumes "add_item rq b db = (r, db')" and "rq_user rq = Some u" and "cart_refs db"
  shows "cart_step (u_id u) db db'"
proof (cases "db' = db")
  case True
  then show ?thesis using cart_step_refl [OF assms(3)] by simp
next
  case False
  then obtain c db1 where q: "1 \<le> ad_quantity b" and g: "get_cart (u_id u) db = Inr (c, db1)"
    and a: "db' = db1 \<or> (\<exists>pid ci. add_to_cart c pid b db1 = Inr (ci, db'))"
    using assms(1,2) by (auto simp: add_item_def split: option.splits if_splits sum.splits) blast
  note G = get_cart_step [OF g assms(3)]
  have "cart_refs db1" using G(1) by (simp add: cart_step_def)
  then have "cart_step (u_id u) db1 db'"
    using a add_to_cart_step [OF _ _ G(2) q] cart_step_refl by blast
  with G(1) show ?thesis by (rule cart_step_trans)
qed

lemma own_lines_del_step:
  assumes "cart_refs db" and "\<And>ci. ci \<in> set (rows (db_cart_items db)) \<Longrightarrow> P ci \<Longrightarrow> \<exists>c \<in> carts_of a db. ci_cart ci = c_id c"
  shows "cart_step a db (db\<lparr>db_cart_items := t_del P (db_cart_items db)\<rparr>)"
proof (rule lines_step [OF assms(1)])
  show "t_wf ci_id (t_del P (db_cart_items db))" using assms(1) by (simp add: cart_refs_def t_wf_t_del)
qed (use assms(2) in \<open>auto simp: rows_t_del\<close>)

lemma clear_cart_step:
  assumes "clear_cart rq db = (r, db')" and "rq_user rq = Some u" and "cart_refs db"
  shows "cart_step (u_id u) db db'"
proof (cases "get_cart (u_id u) db")
  case (Inl e)
  then show ?thesis using assms cart_step_refl by (simp add: clear_cart_def)
next
  case (Inr p)
  obtain c db1 where g: "get_cart (u_id u) db = Inr (c, db1)" using Inr by (cases p) simp
  note G = get_cart_step [OF g assms(3)]
  have db': "db' = db1\<lparr>db_cart_items := t_del (\<lambda>ci. ci_cart ci = c_id c) (db_cart_items db1)\<rparr>"
    using assms(1,2) g by (simp add: clear_cart_def)
  have "cart_refs db1" using G(1) by (simp add: cart_step_def)
  then have "cart_step (u_id u) db1 db'" unfolding db' by (rule own_lines_del_step) (use G(2) in blast)
  with G(1) show ?thesis by (rule cart_step_trans)
qed

lemma my_cart_step:
  assumes "my_cart rq db = (r, db')" and "rq_user rq = Some u" and "cart_refs db"
  shows "cart_step (u_id u) db db'"
proof (cases "get_cart (u_id u) db")
  case (Inl e)
  then show ?thesis using assms cart_step_refl by (simp add: my_cart_def)
next
  case (Inr p)
  obtain c where "get_cart (u_id u) db = Inr (c, db')"
    using assms(1,2) Inr by (cases p) (auto simp: my_cart_def split: sum.splits if_splits)
  then show ?thesis by (rule get_cart_step [OF _ assms(3)])
qed

lemma cart_item_objectD:
  assumes "cart_item_object u pk db = Some ci"
  shows "ci \<in> set (rows (db_cart_items db))" and "\<exists>c \<in> carts_of (u_id u) db. ci_cart ci = c_id c"
  using qs_first_SomeD [OF assms [unfolded cart_item_object_def]] by (auto simp: qs_exists_iff carts_of_def)

lemma ci_valid_refs:
  assumes "ci_fields_valid partial ci b db" and "ci_validate partial b db = Inr b'" and "line_refs db ci"
    and "ci_cart ci \<in> ids_of c_id (db_carts db)"
  shows "ci_cart (ci_apply b' ci) \<in> ids_of c_id (db_carts db)" and "line_refs db (ci_apply b' ci)"
    and "ci_id (ci_apply b' ci) = ci_id ci"
proof -
  have b': "\<exists>p. b' = b\<lparr>cb_price := p\<rparr>"
    using assms(2) by (cases b) (auto simp: ci_validate_def Let_def split: if_splits option.splits)
  have "needed partial (cb_cart b) (\<lambda>c. c \<in> ids_of c_id (db_carts db))"
    and "needed partial (cb_product b) (\<lambda>p. p \<in> ids_of p_id (db_products (db_cat db)))"
    and "needed True (cb_sku b) (\<lambda>s. opt_in s (ids_of k_id (db_skus (db_cat db))))"
    and "needed True (cb_quantity b) (\<lambda>q. 1 \<le> q)"
    and "needed True (cb_options b) (\<lambda>os. set os \<subseteq> ids_of op_id (db_options (db_cat db)))"
    using assms(1) by (auto simp: ci_fields_valid_def needed_def qs_exists_iff ids_of_def opt_in_def split: option.splits)
  with assms(3,4) b' show "ci_cart (ci_apply b' ci) \<in> ids_of c_id (db_carts db)" and "line_refs db (ci_apply b' ci)"
    by (auto simp: ci_apply_def line_refs_def needed_def or_default_def split: option.splits)
  show "ci_id (ci_apply b' ci) = ci_id ci" by (simp add: ci_apply_def)
qed

lemma cart_item_update_step:
  assumes "cart_item_update partial rq pk b db = (r, db')" and "rq_user rq = Some u" and "cart_refs db"
  shows "cart_step (u_id u) db db'"
proof (cases "db' = db")
  case True
  then show ?thesis using cart_step_refl [OF assms(3)] by simp
next
  case False
  then obtain ci b' where o: "cart_item_object u pk db = Some ci" and v: "ci_fields_valid partial ci b db" "ci_validate partial b db = Inr b'"
    and db': "db' = db\<lparr>db_cart_items := t_save ci_id (ci_apply b' ci) (db_cart_items db)\<rparr>"
    using assms(1,2) by (auto simp: cart_item_update_def Let_def split: option.splits if_splits sum.splits)
  note O = cart_item_objectD [OF o]
  have wf: "t_wf ci_id (db_cart_items db)" and ok: "line_refs db ci" "ci_cart ci \<in> ids_of c_id (db_carts db)"
    using assms(3) O(1) by (auto simp: cart_refs_def)
  note V = ci_valid_refs [OF v ok]
  obtain c where c: "c \<in> carts_of (u_id u) db" "ci_cart ci = c_id c" using O(2) by blast
  have "ci_id x \<noteq> ci_id ci" if "x \<in> set (rows (db_cart_items db))" "ci_cart x \<noteq> c_id c" for x
    using that c(2) O(1) find_iff_mem [OF wf] by (metis option.inject)
  then show ?thesis
    unfolding db' by (intro save_line_step [OF assms(3) c(1) wf]) (use V O(1) in \<open>simp_all add: ids_of_def\<close>)
qed

lemma cart_item_destroy_step:
  assumes "cart_item_destroy rq pk db = (r, db')" and "rq_user rq = Some u" and "cart_refs db"
  shows "cart_step (u_id u) db db'"
proof (cases "cart_item_object u pk db")
  case None
  then show ?thesis using assms cart_step_refl by (simp add: cart_item_destroy_def)
next
  case (Some ci)
  note O = cart_item_objectD [OF Some]
  have wf: "t_wf ci_id (db_cart_items db)" using assms(3) by (simp add: cart_refs_def)
  have "x = ci" if "x \<in> set (rows (db_cart_items db))" "ci_id x = ci_id ci" for x
    using that O(1) find_iff_mem [OF wf] by (metis option.inject)
  moreover have "db' = db\<lparr>db_cart_items := t_del (\<lambda>x. ci_id x = ci_id ci) (db_cart_items db)\<rparr>"
    using assms(1,2) Some by (simp add: cart_item_destroy_def)
  ultimately show ?thesis using O(2) by (auto intro!: own_lines_del_step [OF assms(3)])
qed

lemma snd_show_cart [simp]: "snd (show_cart n c db) = db"
  by (simp add: show_cart_def split: sum.splits)

lemma show_cart_same: "show_cart n c db = (r, db') \<Longrightarrow> db' = db"
  by (metis snd_conv snd_show_cart)

lemma cart_objectD: "cart_object u pk db = Some c \<Longrightarrow> c \<in> carts_of (u_id u) db"
  using qs_first_SomeD by (fastforce simp: cart_object_def carts_of_def)

lemma cart_create_step:
  assumes "cart_create rq b db = (r, db')" and "rq_user rq = Some u" and "cart_refs db"
  shows "cart_step (u_id u) db db'"
proof -
  let ?f = "\<lambda>i. cart_apply b \<lparr>c_id = i, c_user = 0, c_session = None\<rparr>"
  have "db' = db \<or> db' = db\<lparr>db_carts := snd (t_add ?f (db_carts db))\<rparr>"
    using assms(1,2) by (auto simp: cart_create_def signed_in_def split: if_splits prod.splits dest!: show_cart_same)
  then show ?thesis using cart_step_refl [OF assms(3)] new_cart_step [OF assms(3), of ?f] by (auto simp: cart_apply_def)
qed

lemma cart_update_step:
  assumes "cart_update partial rq pk b db = (r, db')" and "rq_user rq = Some u" and "cart_refs db"
  shows "cart_step (u_id u) db db'"
proof -
  have "db' = db \<or> (\<exists>c. cart_object u pk db = Some c \<and> db' = db\<lparr>db_carts := t_save c_id (cart_apply b c) (db_carts db)\<rparr>)"
    using assms(1,2) by (auto simp: cart_update_def signed_in_def split: option.splits if_splits dest!: show_cart_same)
  then show ?thesis
  proof (elim disjE exE conjE)
    fix c assume c: "cart_object u pk db = Some c" and db': "db' = db\<lparr>db_carts := t_save c_id (cart_apply b c) (db_carts db)\<rparr>"
    show ?thesis unfolding db' by (rule save_cart_step [OF assms(3) cart_objectD [OF c]]) (simp add: cart_apply_def)
  qed (simp add: cart_step_refl [OF assms(3)])
qed

lemma cart_destroy_step:
  assumes "cart_destroy rq pk db = (r, db')" and "rq_user rq = Some u" and refs: "cart_refs db"
  shows "cart_step (u_id u) db db'"
proof (cases "cart_object u pk db")
  case None
  then show ?thesis using assms cart_step_refl by (simp add: cart_destroy_def signed_in_def destroying_def)
next
  case (Some c)
  note C = cart_objectD [OF Some]
  let ?t = "t_del (\<lambda>ci. ci_cart ci = c_id c) (db_cart_items db)"
  have db': "db' = db\<lparr>db_carts := t_del (\<lambda>r. c_id r = c_id c) (db_carts db), db_cart_items := ?t\<rparr>"
    using assms(1,2) Some by (simp add: cart_destroy_def signed_in_def destroying_def)
  have wf: "t_wf c_id (db_carts db)" using refs by (simp add: cart_refs_def)
  have one: "x = c" if "x \<in> set (rows (db_carts db))" "c_id x = c_id c" for x
  proof -
    have "c \<in> set (rows (db_carts db))" using C by (simp add: carts_of_def)
    with that find_iff_mem [OF wf] show ?thesis by (metis option.inject)
  qed
  show ?thesis
  proof (rule cart_stepI [OF refs])
    show "cart_refs db'"
      using refs by (auto simp: db' cart_refs_def t_wf_t_del rows_t_del ids_of_t_del ids_of_def line_refs_def)
    show "x \<in> set (rows (db_carts db'))" if "x \<in> set (rows (db_carts db))" "c_user x \<noteq> u_id u" for x
      using that one C by (auto simp: db' rows_t_del carts_of_def)
  qed (use C in \<open>auto simp: db' rows_t_del\<close>)
qed

lemmas cart_steps = add_item_step clear_cart_step my_cart_step cart_item_update_step cart_item_destroy_step
  cart_create_step cart_update_step cart_destroy_step

text \<open>A request without a user changes nothing; one with a user is a step of that user.\<close>

definition cart_actor :: "cart_op \<Rightarrow> int option" where
  "cart_actor op = map_option u_id (rq_user (cart_request_of op))"

lemma handle_cart_op_step:
  assumes "cart_refs db"
  shows "snd (handle_cart_op op db) = db \<or> (\<exists>a. cart_actor op = Some a \<and> cart_step a db (snd (handle_cart_op op db)))"
proof (cases "rq_user (cart_request_of op)")
  case None
  then have "snd (handle_cart_op op db) = db"
    by (cases op) (simp_all add: status_of_def add_item_def clear_cart_def my_cart_def cart_item_update_def cart_item_destroy_def
      cart_create_def cart_update_def cart_destroy_def signed_in_def)
  then show ?thesis by simp
next
  case (Some u)
  note steps = cart_steps [OF surjective_pairing]
  have "cart_step (u_id u) db (snd (handle_cart_op op db))"
    using Some by (cases op) (simp_all add: status_of_def steps [OF _ assms])
  then show ?thesis using Some by (auto simp: cart_actor_def)
qed

section \<open>Rows with an owner\<close>

text \<open>A system in which the requests of one actor keep the rows of every other: then they survive any sequence of
  requests of others.\<close>

locale owned_rows =
  fixes rows_for :: "'o \<Rightarrow> 's \<Rightarrow> 'r set"
    and inv :: "'s \<Rightarrow> bool"
    and actor :: "'op \<Rightarrow> 'o option"
    and handle :: "'op \<Rightarrow> 's \<Rightarrow> bool \<times> 's"
  assumes keeps: "inv s \<Longrightarrow> inv (snd (handle op s))"
    and others: "inv s \<Longrightarrow> actor op \<noteq> Some b \<Longrightarrow> rows_for b s \<subseteq> rows_for b (snd (handle op s))"
begin

lemma run_kept:
  assumes "inv s" and "\<And>op. op \<in> set ops \<Longrightarrow> actor op \<noteq> Some b"
  shows "rows_for b s \<subseteq> rows_for b (run_requests handle ops s)"
  using assms
proof (induction ops arbitrary: s)
  case (Cons op ops)
  have "rows_for b (snd (handle op s)) \<subseteq> rows_for b (run_requests handle ops (snd (handle op s)))"
    using Cons.IH [OF keeps [OF Cons.prems(1)]] Cons.prems(2) by simp
  with others [OF Cons.prems(1)] Cons.prems(2) show ?case by fastforce
qed simp

sublocale system: guarded_system handle inv
  by unfold_locales (rule keeps)

end

lemma handle_cart_op_keeps:
  assumes "cart_refs db"
  shows "cart_refs (snd (handle_cart_op op db))"
    and "cart_actor op \<noteq> Some b \<Longrightarrow> carts_of b db \<subseteq> carts_of b (snd (handle_cart_op op db))"
    and "cart_actor op \<noteq> Some b \<Longrightarrow> lines_of b db \<subseteq> lines_of b (snd (handle_cart_op op db))"
proof -
  note H = handle_cart_op_step [OF assms, of op]
  show "cart_refs (snd (handle_cart_op op db))" using H assms by (auto simp: cart_step_def)
  assume "cart_actor op \<noteq> Some b"
  with H have "carts_of b db \<subseteq> carts_of b (snd (handle_cart_op op db)) \<and> lines_of b db \<subseteq> lines_of b (snd (handle_cart_op op db))"
    unfolding cart_step_def by (elim disjE exE conjE; simp; blast)
  then show "carts_of b db \<subseteq> carts_of b (snd (handle_cart_op op db))"
    and "lines_of b db \<subseteq> lines_of b (snd (handle_cart_op op db))" by blast+
qed

interpretation user_carts: owned_rows carts_of cart_refs cart_actor handle_cart_op
  by unfold_locales (rule handle_cart_op_keeps; assumption)+

interpretation user_lines: owned_rows lines_of cart_refs cart_actor handle_cart_op
  by unfold_locales (rule handle_cart_op_keeps; assumption)+

section \<open>Properties\<close>

lemma qs_get_two:
  assumes "r \<in> set (rows t)" and "s \<in> set (rows t)" and "r \<noteq> s" and "P r" and "P s"
  shows "qs_get m P t = Inl (MultipleObjectsReturned m)"
proof (cases "qs_get m P t")
  case (Inr x)
  then have "set (filter P (rows t)) = {x}" by (simp add: qs_get_Inr)
  then have "r = x \<and> s = x" using assms by (metis (mono_tags, lifting) mem_Collect_eq set_filter singletonD)
  with assms(3) show ?thesis by simp
next
  case (Inl e)
  with qs_get_exn [OF Inl] assms(1,4) show ?thesis by (auto simp: qs_get_DoesNotExist)
qed

definition two_carts :: "int \<Rightarrow> orders_db \<Rightarrow> bool" where
  "two_carts a db \<longleftrightarrow> (\<exists>c \<in> carts_of a db. \<exists>d \<in> carts_of a db. c \<noteq> d)"

lemma two_carts_crash:
  assumes "two_carts (u_id u) db" and "rq_user rq = Some u"
  shows "my_cart rq db = (Crash (MultipleObjectsReturned ''Cart''), db)"
    and "clear_cart rq db = (Crash (MultipleObjectsReturned ''Cart''), db)"
    and "ad_product b \<noteq> None \<Longrightarrow> 1 \<le> ad_quantity b \<Longrightarrow> add_item rq b db = (Crash (MultipleObjectsReturned ''Cart''), db)"
proof -
  obtain c d where "c \<in> set (rows (db_carts db))" "d \<in> set (rows (db_carts db))" "c \<noteq> d" "c_user c = u_id u" "c_user d = u_id u"
    using assms(1) by (auto simp: two_carts_def carts_of_def)
  then have "get_cart (u_id u) db = Inl (MultipleObjectsReturned ''Cart'')" by (simp add: get_cart_def qs_get_two)
  then show "my_cart rq db = (Crash (MultipleObjectsReturned ''Cart''), db)"
    and "clear_cart rq db = (Crash (MultipleObjectsReturned ''Cart''), db)"
    and "ad_product b \<noteq> None \<Longrightarrow> 1 \<le> ad_quantity b \<Longrightarrow> add_item rq b db = (Crash (MultipleObjectsReturned ''Cart''), db)"
    using assms(2) by (auto simp: my_cart_def clear_cart_def add_item_def)
qed

lemma empty_cart_data: "items_of_cart (c_id c) db = [] \<Longrightarrow> cart_data c db = Inr (c, [], 0, 0)"
  by (simp add: cart_data_def cart_total_price_def cart_total_quantity_def numeric_ok_def)

definition rival :: request where
  "rival = \<lparr>rq_user = Some (demo_user\<lparr>u_id := 8\<rparr>), rq_tenant = Some 3\<rparr>"

lemma demo_cart_refs: "cart_refs demo_orders"
  by code_simp

text \<open>The rows of carts stay well formed: whatever sequence of requests on carts is served, accepted or refused, every line is
  in a stored cart, of a stored product and SKU with stored options, and has a positive quantity.\<close>

theorem cart_references:
  assumes "cart_refs db"
  shows "cart_refs (run_requests handle_cart_op ops db)"
  using assms by (rule user_carts.system.run_inv)

theorem cart_references_witness:
  "cart_refs (run_requests handle_cart_op
     [PutLine demo_request \<lparr>ad_product = Some 1, ad_sku = Some 1, ad_quantity = 3, ad_options = [], ad_custom = []\<rparr>,
      NewCart demo_request \<lparr>kb_user = Some 7, kb_session = None\<rparr>, EditCart True demo_request 2 \<lparr>kb_user = Some 8, kb_session = None\<rparr>,
      DropCart demo_request 1] demo_orders)"
  by (rule cart_references [OF demo_cart_refs])



text \<open>C38: A customer can lock another one out: \<open>user\<close> is a writable field of a cart, so any signed-in user can create a cart for somebody
  who has one.  From then on, whatever anybody but the victim requests, the victim's own cart views fail, because
  \<open>get_or_create\<close> finds two carts.\<close>

theorem cart_lockout:
  assumes refs: "cart_refs db" and old: "carts_of (u_id v) db \<noteq> {}" and member: "u_id v \<in> ids_of u_id (db_members (db_org db))"
    and user: "rq_user rq = Some a" and run: "cart_create rq \<lparr>kb_user = Some (u_id v), kb_session = None\<rparr> db = (r, db1)"
    and others: "\<And>op. op \<in> set ops \<Longrightarrow> cart_actor op \<noteq> Some (u_id v)"
    and db2: "db2 = run_requests handle_cart_op ops db1" and victim: "rq_user rv = Some v"
  shows "accepted r \<and> my_cart rv db2 = (Crash (MultipleObjectsReturned ''Cart''), db2)
    \<and> clear_cart rv db2 = (Crash (MultipleObjectsReturned ''Cart''), db2)
    \<and> (\<forall>b. ad_product b \<noteq> None \<and> 1 \<le> ad_quantity b \<longrightarrow> add_item rv b db2 = (Crash (MultipleObjectsReturned ''Cart''), db2))"
proof -
  let ?b = "\<lparr>kb_user = Some (u_id v), kb_session = None\<rparr>" and ?n = "seq (db_carts db) + 1"
  let ?f = "\<lambda>i. cart_apply ?b \<lparr>c_id = i, c_user = 0, c_session = None\<rparr>"
  let ?db = "db\<lparr>db_carts := snd (t_add ?f (db_carts db))\<rparr>"
  have valid: "cart_valid False ?b db"
    using member by (auto simp: cart_valid_def needed_def optional_def qs_exists_iff ids_of_def)
  have new: "i < ?n" if "i \<in> ids_of c_id (db_carts db)" for i
    using that refs by (auto simp: cart_refs_def t_wf_def ids_of_def)
  have shown: "show_cart 201 (?f ?n) ?db = (r, db1)"
    using run user valid by (simp add: cart_create_def signed_in_def t_add_def)
  have "items_of_cart (c_id (?f ?n)) ?db = []"
    using refs new by (fastforce simp: cart_refs_def items_of_cart_def qs_filter_def filter_empty_conv cart_apply_def)
  from empty_cart_data [OF this] have "accepted r" using shown by (auto simp: show_cart_def)
  obtain c where c: "c \<in> carts_of (u_id v) db" using old by blast
  have "c \<noteq> ?f ?n" using c new by (fastforce simp: carts_of_def ids_of_def cart_apply_def)
  moreover have "db1 = ?db" using show_cart_same [OF shown] .
  then have "c \<in> carts_of (u_id v) db1" "?f ?n \<in> carts_of (u_id v) db1"
    using c by (simp_all add: carts_of_def set_rows_t_add cart_apply_def or_default_def)
  moreover have "cart_refs db1" using cart_create_step [OF run user refs] by (simp add: cart_step_def)
  then have "carts_of (u_id v) db1 \<subseteq> carts_of (u_id v) db2" unfolding db2 by (rule user_carts.run_kept [OF _ others])
  ultimately have "two_carts (u_id v) db2" unfolding two_carts_def by blast
  with two_carts_crash [OF _ victim] \<open>accepted r\<close> show ?thesis by blast
qed

theorem cart_lockout_witness:
  "let db1 = snd (cart_create rival \<lparr>kb_user = Some 7, kb_session = None\<rparr> demo_orders);
       db2 = run_requests handle_cart_op [ShowMine rival, DropCart rival 1] db1
   in my_cart demo_request db2 = (Crash (MultipleObjectsReturned ''Cart''), db2)"
proof -
  let ?b = "\<lparr>kb_user = Some 7, kb_session = None\<rparr>"
  have v: "u_id demo_user = 7" "rq_user demo_request = Some demo_user" "rq_user rival = Some (demo_user\<lparr>u_id := 8\<rparr>)"
    by (simp_all add: demo_user_def demo_request_def rival_def)
  have "carts_of 7 demo_orders \<noteq> {}" "7 \<in> ids_of u_id (db_members (db_org demo_orders))"
    by (simp_all add: carts_of_def ids_of_def demo_orders_def demo_shops_def demo_user_def)
  moreover have "cart_actor op \<noteq> Some 7" if "op \<in> set [ShowMine rival, DropCart rival 1]" for op
    using that by (auto simp: cart_actor_def rival_def)
  ultimately show ?thesis
    unfolding Let_def
    using cart_lockout [of demo_orders demo_user, OF demo_cart_refs _ _ v(3) surjective_pairing _ refl v(2),
        of "[ShowMine rival, DropCart rival 1]"]
    unfolding v(1) by blast
qed

end
