(* ===== verification/Order_Views.thy ===== *)
theory Order_Views
  imports Cart_Views "HOL-Library.Multiset"
begin

text \<open>
  Reading orders: the list and detail routes of \<open>OrderViewSet\<close> in \<open>orders/api.py\<close> with its filters, and the
  representations of \<open>orders/serializers.py\<close>.  The names an \<open>Order\<close> is related under are the argument \<open>related\<close>, as in
  theory \<open>Orders\<close>; the database's \<open>icontains\<close> is the argument \<open>icontains\<close>.
\<close>

section \<open>Representations\<close>

text \<open>\<open>OrderListSerializer\<close>.\<close>

record order_line =
  ol_id :: int
  ol_number :: string
  ol_status :: order_status
  ol_type :: order_type
  ol_total :: int
  ol_name :: string
  ol_phone :: string
  ol_items_count :: nat
  ol_at :: int
  ol_customer :: "(string \<times> string) list"

text \<open>An \<open>Order\<close> has no attribute \<open>items_count\<close>, so the lines are counted.\<close>

definition get_items_count :: "orders_db \<Rightarrow> order_row \<Rightarrow> nat" where
  "get_items_count db r = length (items_of_order (o_id r) db)"

definition get_customer_info :: "order_row \<Rightarrow> (string \<times> string) list" where
  "get_customer_info r = [(''name'', o_name r), (''phone'', o_phone r)]"

definition order_list_data :: "orders_db \<Rightarrow> order_row \<Rightarrow> order_line" where
  "order_list_data db r = \<lparr>ol_id = o_id r, ol_number = o_number r, ol_status = o_status r, ol_type = o_type r,
     ol_total = o_total r, ol_name = o_name r, ol_phone = o_phone r, ol_items_count = get_items_count db r, ol_at = o_at r,
     ol_customer = get_customer_info r\<rparr>"

text \<open>\<open>OrderDetailSerializer\<close>: the columns, the lines, the status logs with the name of their author, and the preparation time.
  The read-only field \<open>payments\<close> names no attribute of an order and is skipped.\<close>

record order_detail =
  od_order :: order_row
  od_items :: "item_row list"
  od_logs :: "(status_log \<times> string option) list"
  od_preparation :: int

definition created_by_name :: "orders_db \<Rightarrow> status_log \<Rightarrow> string option" where
  "created_by_name db l = (case sl_by l of None \<Rightarrow> None | Some i \<Rightarrow> map_option u_username (t_find u_id i (db_members (db_org db))))"

definition order_detail_data :: "orders_db \<Rightarrow> order_row \<Rightarrow> order_detail" where
  "order_detail_data db r = \<lparr>od_order = r, od_items = items_of_order (o_id r) db,
     od_logs = map (\<lambda>l. (l, created_by_name db l)) (sort_key (\<lambda>l. - sl_at l) (qs_filter (\<lambda>l. sl_order l = o_id r) (db_status_logs db))),
     od_preparation = estimated_preparation_time (o_id r) db\<rparr>"

section \<open>Filters\<close>

text \<open>\<open>filterset_fields\<close>, \<open>search_fields\<close> and \<open>ordering_fields\<close>: every search word must occur in one of three columns; the
  first ordering key counts most.\<close>

datatype order_key = ByCreated | ByTotal | ByStatus

record order_filter =
  of_status :: "order_status option"
  of_type :: "order_type option"
  of_paid :: "bool option"
  of_words :: "string list"
  of_keys :: "(bool \<times> order_key) list"

text \<open>The status is sorted by its code word.\<close>

primrec status_rank :: "order_status \<Rightarrow> int" where
  "status_rank Cancelled = 0"
| "status_rank Completed = 1"
| "status_rank Confirmed = 2"
| "status_rank Paid = 3"
| "status_rank Pending = 4"
| "status_rank Preparing = 5"
| "status_rank Ready = 6"
| "status_rank Refunded = 7"

primrec key_of :: "order_key \<Rightarrow> order_row \<Rightarrow> int" where
  "key_of ByCreated r = o_at r"
| "key_of ByTotal r = o_total r"
| "key_of ByStatus r = status_rank (o_status r)"

definition order_matches :: "(string \<Rightarrow> string \<Rightarrow> bool) \<Rightarrow> order_filter \<Rightarrow> order_row \<Rightarrow> bool" where
  "order_matches icontains f r \<longleftrightarrow>
     (case of_status f of None \<Rightarrow> True | Some st \<Rightarrow> o_status r = st)
     \<and> (case of_type f of None \<Rightarrow> True | Some ty \<Rightarrow> o_type r = ty)
     \<and> (case of_paid f of None \<Rightarrow> True | Some p \<Rightarrow> o_paid r = p)
     \<and> list_all (\<lambda>w. icontains w (o_number r) \<or> icontains w (o_name r) \<or> icontains w (o_phone r)) (of_words f)"

text \<open>Without keys the order of the model, newest first.\<close>

definition order_sort :: "(bool \<times> order_key) list \<Rightarrow> order_row list \<Rightarrow> order_row list" where
  "order_sort keys os =
     foldr (\<lambda>(descending, k). sort_key (\<lambda>r. if descending then - key_of k r else key_of k r))
       (if keys = [] then [(True, ByCreated)] else keys) os"

definition selected_orders :: "(string \<Rightarrow> string \<Rightarrow> bool) \<Rightarrow> order_filter \<Rightarrow> request \<Rightarrow> orders_db \<Rightarrow> order_row list" where
  "selected_orders icontains f rq db = order_sort (of_keys f) (filter (order_matches icontains f) (order_queryset rq db))"

section \<open>Views\<close>

definition order_list ::
  "string list \<Rightarrow> (string \<Rightarrow> string \<Rightarrow> bool) \<Rightarrow> order_filter \<Rightarrow> nat \<Rightarrow> request \<Rightarrow> orders_db \<Rightarrow> order_line list reply" where
  "order_list related icontains f page rq db =
     (case is_shop_owner_or_staff (db_staff (db_org db)) rq of
        Inl e \<Rightarrow> Crash e
      | Inr False \<Rightarrow> Reject 403 PermissionDenied
      | Inr True \<Rightarrow>
          shown (order_list_data db) (serialized (prefetch_rows related) (paginated page (selected_orders icontains f rq db))))"

definition order_retrieve :: "string list \<Rightarrow> request \<Rightarrow> int \<Rightarrow> orders_db \<Rightarrow> order_detail reply \<times> orders_db" where
  "order_retrieve related rq pk db = with_order related rq pk (\<lambda>r db. (OK 200 (order_detail_data db r), db)) db"

text \<open>The permission of an action: \<open>create\<close> and \<open>my_orders\<close> only ask for a signed-in user.\<close>

definition order_permitted :: "string \<Rightarrow> request \<Rightarrow> orders_db \<Rightarrow> bool res" where
  "order_permitted act rq db =
     (if act \<in> {''create'', ''my_orders''} then Inr (rq_user rq \<noteq> None)
      else is_shop_owner_or_staff (db_staff (db_org db)) rq)"

section \<open>Lemmas\<close>

lemma mset_order_sort: "mset (order_sort keys os) = mset os"
proof -
  have "mset (foldr (\<lambda>(descending, k). sort_key (\<lambda>r. if descending then - key_of k r else key_of k r)) ks os) = mset os" for ks
    by (induction ks) auto
  then show ?thesis by (simp add: order_sort_def)
qed

lemma selected_orders_mset:
  "mset (selected_orders icontains f rq db) = mset (filter (order_matches icontains f) (order_queryset rq db))"
  by (simp add: selected_orders_def mset_order_sort)

lemma order_list_page:
  assumes "is_shop_owner_or_staff (db_staff (db_org db)) rq = Inr True" and "set order_prefetch \<subseteq> set related"
  shows "order_list related icontains f n rq db = shown (order_list_data db) (paginated n (selected_orders icontains f rq db))"
proof -
  have "prefetch_rows related = Inr"
    using assms(2) by (fastforce simp: prefetch_rows_def find_Some_iff split: option.splits dest: nth_mem)
  then have "serialized (prefetch_rows related) r = r" for r :: "order_row list reply"
    by (cases r) simp_all
  then show ?thesis using assms(1) by (simp add: order_list_def)
qed

section \<open>Properties\<close>



end
