(* ===== verification/Payments.thy ===== *)
theory Payments
  imports Orders
begin

text \<open>
  Payments: \<open>apps/payments/models.py\<close>, \<open>serializers.py\<close>, \<open>services.py\<close> and \<open>api.py\<close>.

  The WeChat client is the package \<open>wechatpayv3\<close>: its calls are the fields of \<open>wechat_lib\<close>.  The names
  \<open>models.py\<close> and \<open>api.py\<close> use are looked up in two \<open>module_env\<close> arguments: \<open>M\<close> for the models,
  \<open>E\<close> for the views; \<open>payments_models_env\<close> and \<open>payments_api_env\<close> are what the import lines bind.
\<close>

section \<open>Rows and state\<close>

datatype pay_code = Wechat | Alipay | CashPay | Card | BalancePay | PointsPay

record method_row =
  pm_id :: int
  pm_name :: string
  pm_code :: pay_code
  pm_active :: bool
  pm_sort :: int
  pm_shop :: int

datatype txn_status = TPending | TPaid | TFailed | TRefunded | TCancelled

text \<open>What the services return from \<open>create_payment\<close>, kept in the JSON column \<open>payment_data\<close>.\<close>

datatype pay_data =
    NativePay "string option"
  | JsapiPay
  | MiniprogPay
  | CashData int
  | NullData
  | CallbackData string

record txn_row =
  tx_id :: int
  tx_no :: string
  tx_out_no :: string
  tx_order :: int
  tx_method :: int
  tx_amount :: int
  tx_status :: txn_status
  tx_third :: "string option"
  tx_data :: "pay_data option"
  tx_refund :: int
  tx_refund_null :: bool
  tx_at :: int
  tx_paid_at :: "int option"
  tx_refunded_at :: "int option"

datatype refund_status = RPending | RApproved | RRejected | RCompleted

record refund_row =
  rf_id :: int
  rf_no :: string
  rf_txn :: int
  rf_amount :: int
  rf_reason :: string
  rf_status :: refund_status
  rf_by :: "int option"
  rf_handled_at :: "int option"
  rf_reject_reason :: string

record wechat_config =
  wc_id :: int
  wc_shop :: int
  wc_app_id :: string
  wc_mch_id :: string
  wc_api_key :: string
  wc_notify_url :: string
  wc_active :: bool

record alipay_config =
  ac_id :: int
  ac_shop :: int
  ac_app_id :: string
  ac_active :: bool

record payments_db =
  db_ord :: orders_db
  db_methods :: "method_row tbl"
  db_txns :: "txn_row tbl"
  db_refunds :: "refund_row tbl"
  db_wechat :: "wechat_config tbl"
  db_alipay :: "alipay_config tbl"

definition payments_models_env :: module_env where
  "payments_models_env = \<lparr>env_time = BoundElsewhere, env_timezone = Unbound, env_Decimal = Bound\<rparr>"

definition payments_api_env :: module_env where
  "payments_api_env = \<lparr>env_time = Unbound, env_timezone = Unbound, env_Decimal = Unbound\<rparr>"

section \<open>Saving transactions and refunds\<close>

definition generate_transaction_no :: "module_env \<Rightarrow> int \<Rightarrow> string \<Rightarrow> string res" where
  "generate_transaction_no M now hex =
     (case use_name (env_time M) ''time'' of
        Inl e \<Rightarrow> Inl e
      | Inr _ \<Rightarrow> Inr (''T'' @ dec_int (now div 1000000) @ hex))"

text \<open>The JSON columns: a \<open>Decimal\<close> inside cannot be encoded, and \<open>None\<close> is stored as NULL, which the
  columns do not allow.\<close>

definition json_ok :: "pay_data option \<Rightarrow> unit res" where
  "json_ok d =
     (case d of
        Some (CashData _) \<Rightarrow> Inl (TypeError ''Decimal is not JSON serializable'')
      | Some NullData \<Rightarrow> Inl (IntegrityError ''payment_data'')
      | _ \<Rightarrow> Inr ())"

definition txn_save :: "module_env \<Rightarrow> int \<Rightarrow> string \<Rightarrow> txn_row \<Rightarrow> payments_db \<Rightarrow> (txn_row \<times> payments_db) res" where
  "txn_save M now hex tx db =
     (case (if tx_no tx = [] then generate_transaction_no M now hex else Inr (tx_no tx)) of
        Inl e \<Rightarrow> Inl e
      | Inr no \<Rightarrow>
          let tx1 = tx\<lparr>tx_no := no\<rparr> in
          (case json_ok (tx_data tx1) of
             Inl e \<Rightarrow> Inl e
           | Inr _ \<Rightarrow>
               if \<not> numeric_ok 10 (tx_amount tx1) \<or> \<not> numeric_ok 10 (tx_refund tx1) then Inl (DataError ''payment_transactions'')
               else if tx_third tx1 = None \<or> tx_refund_null tx1 then Inl (IntegrityError ''payment_transactions'')
               else if qs_exists (\<lambda>r. tx_id r \<noteq> tx_id tx1 \<and> tx_no r = no) (db_txns db)
               then Inl (IntegrityError ''transaction_no'')
               else if tx_id tx1 = 0 then
                 (let (tx2, t) = t_add (\<lambda>i. tx1\<lparr>tx_id := i, tx_at := now\<rparr>) (db_txns db)
                  in Inr (tx2, db\<lparr>db_txns := t\<rparr>))
               else Inr (tx1, db\<lparr>db_txns := t_save tx_id tx1 (db_txns db)\<rparr>)))"

definition refund_save :: "module_env \<Rightarrow> int \<Rightarrow> string \<Rightarrow> refund_row \<Rightarrow> payments_db \<Rightarrow> (refund_row \<times> payments_db) res" where
  "refund_save M now hex rf db =
     (case (if rf_no rf = [] then
              (case use_name (env_time M) ''time'' of
                 Inl e \<Rightarrow> Inl e
               | Inr _ \<Rightarrow> Inr (''R'' @ dec_int (now div 1000000) @ hex))
            else Inr (rf_no rf)) of
        Inl e \<Rightarrow> Inl e
      | Inr no \<Rightarrow>
          let rf1 = rf\<lparr>rf_no := no\<rparr> in
          if \<not> numeric_ok 10 (rf_amount rf1) then Inl (DataError ''refund_requests'')
          else if qs_exists (\<lambda>r. rf_id r \<noteq> rf_id rf1 \<and> rf_no r = no) (db_refunds db)
          then Inl (IntegrityError ''refund_no'')
          else if rf_id rf1 = 0 then
            (let (rf2, t) = t_add (\<lambda>i. rf1\<lparr>rf_id := i\<rparr>) (db_refunds db) in Inr (rf2, db\<lparr>db_refunds := t\<rparr>))
          else Inr (rf1, db\<lparr>db_refunds := t_save rf_id rf1 (db_refunds db)\<rparr>))"

section \<open>Payment services\<close>

record wx_result =
  wx_out_no :: "string option"
  wx_transaction :: "string option"
  wx_total :: int

record wechat_lib =
  wx_init :: "wechat_config \<Rightarrow> unit res"
  wx_pay :: "wechat_config \<Rightarrow> string \<Rightarrow> int \<Rightarrow> string \<Rightarrow> string option res"
  wx_qrcode :: "string option \<Rightarrow> unit res"
  wx_refund :: "wechat_config \<Rightarrow> txn_row \<Rightarrow> int \<Rightarrow> int \<Rightarrow> unit res"
  wx_callback :: "wechat_config \<Rightarrow> string \<Rightarrow> wx_result res"

datatype pay_service = WechatService "wechat_config option" | AlipayService | CashService

text \<open>\<open>PaymentServiceFactory.get_service\<close>; two of its classes are not defined anywhere.\<close>

definition get_service :: "wechat_lib \<Rightarrow> method_row \<Rightarrow> payments_db \<Rightarrow> pay_service res" where
  "get_service lib pm db =
     (case pm_code pm of
        Wechat \<Rightarrow>
          (case qs_first (\<lambda>c. wc_shop c = pm_shop pm) (db_wechat db) of
             None \<Rightarrow> Inr (WechatService None)
           | Some c \<Rightarrow> (case wx_init lib c of Inl e \<Rightarrow> Inl e | Inr _ \<Rightarrow> Inr (WechatService (Some c))))
      | Alipay \<Rightarrow> Inr AlipayService
      | CashPay \<Rightarrow> Inr CashService
      | BalancePay \<Rightarrow> Inl (NameError ''BalancePaymentService'')
      | PointsPay \<Rightarrow> Inl (NameError ''PointsPaymentService'')
      | Card \<Rightarrow> Inl (ValueError ''card''))"

datatype pay_type = Native | Jsapi | Miniprog

text \<open>\<open>'x' in user_agent\<close> of Python is \<open>contains\<close>; the agent is in lower case.\<close>

definition contains :: "string \<Rightarrow> string \<Rightarrow> bool" where
  "contains pat s \<longleftrightarrow> list_ex (\<lambda>i. take (length pat) (drop i s) = pat) [0..<Suc (length s)]"

definition get_pay_type :: "string \<Rightarrow> pay_type" where
  "get_pay_type user_agent =
     (if contains ''micromessenger'' user_agent then
        (if contains ''miniprogram'' user_agent then Miniprog else Jsapi)
      else Native)"

text \<open>\<open>request.data.get('openid') or request.user.wechat_openid\<close>; users have no such attribute.\<close>

definition get_user_openid :: "string option \<Rightarrow> string res" where
  "get_user_openid openid = (if falsy openid then Inl (AttributeError ''wechat_openid'') else Inr (the openid))"

definition wechat_create_payment ::
  "wechat_lib \<Rightarrow> wechat_config option \<Rightarrow> string \<Rightarrow> string option \<Rightarrow> order_row \<Rightarrow> pay_data res" where
  "wechat_create_payment lib cfg agent openid order =
     (case cfg of
        None \<Rightarrow> Inl (External ''wechat not configured'')
      | Some c \<Rightarrow>
          (case get_pay_type agent of
             Native \<Rightarrow>
               (case wx_pay lib c (o_number order) (o_total order) [] of
                  Inl e \<Rightarrow> Inl (External ''wechat pay'')
                | Inr url \<Rightarrow> (case wx_qrcode lib url of Inl e \<Rightarrow> Inl (External ''wechat pay'') | Inr _ \<Rightarrow> Inr (NativePay url)))
           | Jsapi \<Rightarrow>
               (case get_user_openid openid of
                  Inl e \<Rightarrow> Inl e
                | Inr oid \<Rightarrow> (case wx_pay lib c (o_number order) (o_total order) oid of
                               Inl e \<Rightarrow> Inl (External ''wechat pay'') | Inr _ \<Rightarrow> Inr JsapiPay))
           | Miniprog \<Rightarrow>
               (case get_user_openid openid of
                  Inl e \<Rightarrow> Inl e
                | Inr oid \<Rightarrow> (case wx_pay lib c (o_number order) (o_total order) oid of
                               Inl e \<Rightarrow> Inl (External ''wechat pay'') | Inr _ \<Rightarrow> Inr MiniprogPay))))"

definition service_create_payment ::
  "wechat_lib \<Rightarrow> pay_service \<Rightarrow> string \<Rightarrow> string option \<Rightarrow> order_row \<Rightarrow> pay_data res" where
  "service_create_payment lib svc agent openid order =
     (case svc of
        WechatService cfg \<Rightarrow> wechat_create_payment lib cfg agent openid order
      | AlipayService \<Rightarrow> Inr NullData
      | CashService \<Rightarrow> Inr (CashData (o_total order)))"

text \<open>\<open>refund\<close>: whether the result is \<open>None\<close>.  The WeChat service turns every error, the missing client
  included, into one of its own.\<close>

definition service_refund :: "wechat_lib \<Rightarrow> pay_service \<Rightarrow> txn_row \<Rightarrow> int \<Rightarrow> bool res" where
  "service_refund lib svc tx amount =
     (case svc of
        WechatService None \<Rightarrow> Inl (External ''wechat refund'')
      | WechatService (Some c) \<Rightarrow>
          (case wx_refund lib c tx amount (tx_amount tx) of Inl e \<Rightarrow> Inl (External ''wechat refund'') | Inr _ \<Rightarrow> Inr False)
      | AlipayService \<Rightarrow> Inr True
      | CashService \<Rightarrow> Inr False)"

text \<open>\<open>_process_payment_result\<close>.  Saving the transaction and saving the order are two steps.\<close>

definition process_payment_result ::
  "module_env \<Rightarrow> int \<Rightarrow> wx_result \<Rightarrow> payments_db \<Rightarrow> bool res \<times> payments_db" where
  "process_payment_result M now result db =
     (case qs_get ''PaymentTransaction'' (\<lambda>t. Some (tx_out_no t) = wx_out_no result) (db_txns db) of
        Inl (DoesNotExist m) \<Rightarrow> (Inr False, db)
      | Inl e \<Rightarrow> (Inl e, db)
      | Inr tx \<Rightarrow>
          (case txn_save M now [] (tx\<lparr>tx_status := TPaid, tx_third := wx_transaction result, tx_paid_at := Some now,
                                     tx_data := Some (CallbackData (case wx_out_no result of None \<Rightarrow> [] | Some n \<Rightarrow> n))\<rparr>) db of
             Inl e \<Rightarrow> (Inl e, db)
           | Inr (tx1, db1) \<Rightarrow>
               (case t_find o_id (tx_order tx1) (db_orders (db_ord db1)) of
                  None \<Rightarrow> (Inl (DoesNotExist ''Order''), db1)
                | Some order \<Rightarrow>
                    (case order_save now [] (order\<lparr>o_paid := True, o_paid_at := Some now, o_status := Paid\<rparr>) (db_ord db1) of
                       Inl e \<Rightarrow> (Inl e, db1)
                     | Inr (_, od) \<Rightarrow> (Inr True, db1\<lparr>db_ord := od\<rparr>)))))"

section \<open>Creating a payment\<close>

definition payment_validate :: "request \<Rightarrow> int option \<Rightarrow> int option \<Rightarrow> payments_db \<Rightarrow> (order_row \<times> method_row) res" where
  "payment_validate rq oid mid db =
     (case (oid, mid) of
        (Some oi, Some mi) \<Rightarrow>
          (case qs_get ''Order'' (\<lambda>r. o_id r = oi \<and> Some (o_shop r) = rq_tenant rq) (db_orders (db_ord db)) of
             Inl (DoesNotExist m) \<Rightarrow> Inl (ValidationError ''order'')
           | Inl e \<Rightarrow> Inl e
           | Inr order \<Rightarrow>
               (case qs_get ''PaymentMethod'' (\<lambda>p. pm_id p = mi \<and> Some (pm_shop p) = rq_tenant rq \<and> pm_active p) (db_methods db) of
                  Inl (DoesNotExist m) \<Rightarrow> Inl (ValidationError ''payment_method'')
                | Inl e \<Rightarrow> Inl e
                | Inr pm \<Rightarrow> Inr (order, pm)))
      | _ \<Rightarrow> Inl (ValidationError ''required''))"

definition new_txn :: "order_row \<Rightarrow> method_row \<Rightarrow> txn_row" where
  "new_txn order pm = \<lparr>tx_id = 0, tx_no = [], tx_out_no = o_number order, tx_order = o_id order, tx_method = pm_id pm,
     tx_amount = o_total order, tx_status = TPending, tx_third = Some [], tx_data = None, tx_refund = 0,
     tx_refund_null = False, tx_at = 0, tx_paid_at = None, tx_refunded_at = None\<rparr>"

text \<open>
  The atomic block of \<open>create_payment\<close>.  Any error of the service, or of storing its result, marks the
  transaction as failed and saves it again, with the result it already carries; an error of that second save
  leaves the block.  A database error inside the block makes the connection refuse the second save.
\<close>

definition create_payment_block ::
  "module_env \<Rightarrow> wechat_lib \<Rightarrow> int \<Rightarrow> string \<Rightarrow> string \<Rightarrow> string option \<Rightarrow> order_row \<Rightarrow> method_row \<Rightarrow> payments_db \<Rightarrow>
   (txn_row reply \<times> payments_db) res" where
  "create_payment_block M lib now hex agent openid order pm db =
     (case txn_save M now hex (new_txn order pm) db of
        Inl e \<Rightarrow> Inl e
      | Inr (tx, db1) \<Rightarrow>
          (case (case get_service lib pm db1 of
                   Inl e \<Rightarrow> Inl e
                 | Inr svc \<Rightarrow> service_create_payment lib svc agent openid order) of
             Inl e \<Rightarrow>
               (case txn_save M now hex (tx\<lparr>tx_status := TFailed\<rparr>) db1 of
                  Inl e' \<Rightarrow> Inl e'
                | Inr (tx2, db2) \<Rightarrow> Inr (Reject 400 e, db2))
           | Inr result \<Rightarrow>
               (case txn_save M now hex (tx\<lparr>tx_data := Some result\<rparr>) db1 of
                  Inr (tx2, db2) \<Rightarrow> Inr (OK 200 tx2, db2)
                | Inl (IntegrityError c) \<Rightarrow> Inl (External ''TransactionManagementError'')
                | Inl (DataError c) \<Rightarrow> Inl (External ''TransactionManagementError'')
                | Inl e \<Rightarrow>
                    (case txn_save M now hex (tx\<lparr>tx_data := Some result, tx_status := TFailed\<rparr>) db1 of
                       Inl e' \<Rightarrow> Inl e'
                     | Inr (tx2, db2) \<Rightarrow> Inr (Reject 400 e, db2)))))"

definition create_payment ::
  "module_env \<Rightarrow> wechat_lib \<Rightarrow> int \<Rightarrow> string \<Rightarrow> request \<Rightarrow> string \<Rightarrow> int option \<Rightarrow> int option \<Rightarrow> string option \<Rightarrow>
   payments_db \<Rightarrow> txn_row reply \<times> payments_db" where
  "create_payment M lib now hex rq agent oid mid openid db =
     (case is_shop_owner_or_staff (db_staff (db_org (db_ord db))) rq of
        Inl e \<Rightarrow> (Crash e, db)
      | Inr False \<Rightarrow> (Reject 403 PermissionDenied, db)
      | Inr True \<Rightarrow>
          (case payment_validate rq oid mid db of
             Inl (ValidationError m) \<Rightarrow> (Reject 400 (ValidationError m), db)
           | Inl e \<Rightarrow> (Crash e, db)
           | Inr (order, pm) \<Rightarrow>
               if o_status order \<noteq> Pending then (Reject 400 (ValueError ''status''), db)
               else (case create_payment_block M lib now hex agent openid order pm db of
                       Inl e \<Rightarrow> (Crash e, db)
                     | Inr r \<Rightarrow> r)))"

section \<open>Callbacks\<close>

definition wechat_pay_callback ::
  "module_env \<Rightarrow> wechat_lib \<Rightarrow> int \<Rightarrow> string \<Rightarrow> payments_db \<Rightarrow> unit reply \<times> payments_db" where
  "wechat_pay_callback M lib now body db =
     (case qs_get ''PaymentMethod'' (\<lambda>p. pm_code p = Wechat \<and> pm_active p) (db_methods db) of
        Inl e \<Rightarrow> (Reject 400 e, db)
      | Inr pm \<Rightarrow>
          (case get_service lib pm db of
             Inl e \<Rightarrow> (Reject 400 e, db)
           | Inr (WechatService (Some c)) \<Rightarrow>
               (case wx_callback lib c body of
                  Inl e \<Rightarrow> (Reject 400 (External ''wechat callback''), db)
                | Inr result \<Rightarrow>
                    (case process_payment_result M now result db of
                       (Inl e, db1) \<Rightarrow> (Reject 400 (External ''wechat callback''), db1)
                     | (Inr True, db1) \<Rightarrow> (OK 200 (), db1)
                     | (Inr False, db1) \<Rightarrow> (Reject 400 (External ''FAIL''), db1)))
           | Inr _ \<Rightarrow> (Reject 400 (External ''wechat callback''), db)))"

definition alipay_callback :: "payments_db \<Rightarrow> unit reply \<times> payments_db" where
  "alipay_callback db = (OK 200 (), db)"

section \<open>Refunds\<close>

definition txn_object :: "request \<Rightarrow> int \<Rightarrow> payments_db \<Rightarrow> txn_row option" where
  "txn_object rq pk db =
     qs_first (\<lambda>t. tx_id t = pk \<and> qs_exists (\<lambda>r. o_id r = tx_order t \<and> Some (o_shop r) = rq_tenant rq)
                 (db_orders (db_ord db))) (db_txns db)"

text \<open>
  The body of \<open>refund\<close> after \<open>get_object\<close>; \<open>amount\<close> is the requested amount in cents, \<open>None\<close> when it is
  missing or empty.  Everything after the amount check is one \<open>try\<close> block without a transaction, so an error
  in it is answered with 400 while what was saved stays.
\<close>

definition refund_call :: "wechat_lib \<Rightarrow> txn_row \<Rightarrow> int \<Rightarrow> payments_db \<Rightarrow> bool res" where
  "refund_call lib tx a db =
     (case t_find pm_id (tx_method tx) (db_methods db) of
        None \<Rightarrow> Inl (DoesNotExist ''PaymentMethod'')
      | Some pm \<Rightarrow>
          (case get_service lib pm db of
             Inl e \<Rightarrow> Inl e
           | Inr svc \<Rightarrow> service_refund lib svc tx a))"

definition refund_amounts :: "module_env \<Rightarrow> int \<Rightarrow> txn_row \<Rightarrow> int \<Rightarrow> txn_row res" where
  "refund_amounts E now tx a =
     (let tx1 = tx\<lparr>tx_refund := tx_refund tx + a\<rparr> in
      if tx_refund tx1 = tx_amount tx1
      then (case use_name (env_timezone E) ''timezone'' of
              Inl e \<Rightarrow> Inl e
            | Inr _ \<Rightarrow> Inr (tx1\<lparr>tx_status := TRefunded, tx_refunded_at := Some now\<rparr>))
      else Inr tx1)"

definition refund_record ::
  "module_env \<Rightarrow> module_env \<Rightarrow> int \<Rightarrow> string \<Rightarrow> user_row \<Rightarrow> int \<Rightarrow> string \<Rightarrow> txn_row \<Rightarrow> payments_db \<Rightarrow>
   refund_row reply \<times> payments_db" where
  "refund_record E M now hex u a reason tx db =
     (case use_name (env_timezone E) ''timezone'' of
        Inl e \<Rightarrow> (Reject 400 e, db)
      | Inr _ \<Rightarrow>
          (case refund_save M now hex \<lparr>rf_id = 0, rf_no = [], rf_txn = tx_id tx, rf_amount = a, rf_reason = reason,
                  rf_status = RCompleted, rf_by = Some (u_id u), rf_handled_at = Some now, rf_reject_reason = []\<rparr> db of
             Inl e \<Rightarrow> (Reject 400 e, db)
           | Inr (rf, db') \<Rightarrow> (OK 200 rf, db')))"

definition refund_body ::
  "module_env \<Rightarrow> module_env \<Rightarrow> wechat_lib \<Rightarrow> int \<Rightarrow> string \<Rightarrow> user_row \<Rightarrow> int option \<Rightarrow> string \<Rightarrow> txn_row \<Rightarrow>
   payments_db \<Rightarrow> refund_row reply \<times> payments_db" where
  "refund_body E M lib now hex u amount reason tx db =
     (case amount of
        None \<Rightarrow> (Reject 400 (ValueError ''refund_amount''), db)
      | Some a \<Rightarrow>
          (case use_name (env_Decimal E) ''Decimal'' of
             Inl e \<Rightarrow> (Crash e, db)
           | Inr _ \<Rightarrow>
               if tx_amount tx - tx_refund tx < a then (Reject 400 (ValueError ''refund_amount''), db)
               else
                 (case refund_call lib tx a db of
                    Inl e \<Rightarrow> (Reject 400 e, db)
                  | Inr null \<Rightarrow>
                      (case refund_amounts E now tx a of
                         Inl e \<Rightarrow> (Reject 400 e, db)
                       | Inr tx1 \<Rightarrow>
                           (case txn_save M now hex (tx1\<lparr>tx_refund_null := null\<rparr>) db of
                              Inl e \<Rightarrow> (Reject 400 e, db)
                            | Inr (tx2, db1) \<Rightarrow> refund_record E M now hex u a reason tx2 db1)))))"

definition refund ::
  "module_env \<Rightarrow> module_env \<Rightarrow> wechat_lib \<Rightarrow> int \<Rightarrow> string \<Rightarrow> request \<Rightarrow> int \<Rightarrow> int option \<Rightarrow> string \<Rightarrow> payments_db \<Rightarrow>
   refund_row reply \<times> payments_db" where
  "refund E M lib now hex rq pk amount reason db =
     (case is_shop_owner_or_staff (db_staff (db_org (db_ord db))) rq of
        Inl e \<Rightarrow> (Crash e, db)
      | Inr False \<Rightarrow> (Reject 403 PermissionDenied, db)
      | Inr True \<Rightarrow>
          (case txn_object rq pk db of
             None \<Rightarrow> (Reject 404 (DoesNotExist ''PaymentTransaction''), db)
           | Some tx \<Rightarrow> refund_body E M lib now hex (the (rq_user rq)) amount reason tx db))"

text \<open>\<open>RefundRequestViewSet.create\<close>: the amount is only checked to be at least 0.01.\<close>

definition refund_request_create ::
  "module_env \<Rightarrow> int \<Rightarrow> string \<Rightarrow> request \<Rightarrow> int \<Rightarrow> int \<Rightarrow> string \<Rightarrow> payments_db \<Rightarrow> refund_row reply \<times> payments_db" where
  "refund_request_create M now hex rq txn a reason db =
     (case is_shop_owner_or_staff (db_staff (db_org (db_ord db))) rq of
        Inl e \<Rightarrow> (Crash e, db)
      | Inr False \<Rightarrow> (Reject 403 PermissionDenied, db)
      | Inr True \<Rightarrow>
          if a < 1 \<or> \<not> numeric_ok 10 a \<or> reason = [] \<or> \<not> qs_exists (\<lambda>t. tx_id t = txn) (db_txns db)
          then (Reject 400 (ValidationError ''refund''), db)
          else (case refund_save M now hex \<lparr>rf_id = 0, rf_no = [], rf_txn = txn, rf_amount = a, rf_reason = reason,
                       rf_status = RPending, rf_by = None, rf_handled_at = None, rf_reject_reason = []\<rparr> db of
                  Inl e \<Rightarrow> (Crash e, db)
                | Inr (rf, db') \<Rightarrow> (OK 201 rf, db')))"

datatype refund_action = Approve | RejectRefund | OtherAction

text \<open>\<open>process\<close> after \<open>get_object\<close>.  It does not look at the status the request has.\<close>

definition approve_body ::
  "module_env \<Rightarrow> module_env \<Rightarrow> wechat_lib \<Rightarrow> int \<Rightarrow> string \<Rightarrow> user_row \<Rightarrow> refund_row \<Rightarrow> payments_db \<Rightarrow>
   unit reply \<times> payments_db" where
  "approve_body E M lib now hex u rf db =
     (case use_name (env_timezone E) ''timezone'' of
        Inl e \<Rightarrow> (Crash e, db)
      | Inr _ \<Rightarrow>
          (case refund_save M now hex (rf\<lparr>rf_status := RApproved, rf_by := Some (u_id u), rf_handled_at := Some now\<rparr>) db of
             Inl e \<Rightarrow> (Crash e, db)
           | Inr (rf1, db1) \<Rightarrow>
               (case t_find tx_id (rf_txn rf1) (db_txns db1) of
                  None \<Rightarrow> (Crash (DoesNotExist ''PaymentTransaction''), db1)
                | Some tx \<Rightarrow>
                    (case (case t_find pm_id (tx_method tx) (db_methods db1) of
                             None \<Rightarrow> Inl (DoesNotExist ''PaymentMethod'')
                           | Some pm \<Rightarrow> get_service lib pm db1) of
                       Inl e \<Rightarrow> (Crash e, db1)
                     | Inr svc \<Rightarrow>
                         (case service_refund lib svc tx (rf_amount rf1) of
                            Inl e \<Rightarrow> (Reject 400 e, db1)
                          | Inr null \<Rightarrow>
                              (case refund_save M now hex (rf1\<lparr>rf_status := RCompleted\<rparr>) db1 of
                                 Inl e \<Rightarrow> (Reject 400 e, db1)
                               | Inr (rf2, db2) \<Rightarrow>
                                   let tx1 = tx\<lparr>tx_refund := tx_refund tx + rf_amount rf2\<rparr>;
                                       tx2 = (if tx_refund tx1 = tx_amount tx1
                                              then tx1\<lparr>tx_status := TRefunded, tx_refunded_at := Some now\<rparr> else tx1)
                                   in (case txn_save M now hex tx2 db2 of
                                         Inl e \<Rightarrow> (Reject 400 e, db2)
                                       | Inr (_, db3) \<Rightarrow> (OK 200 (), db3))))))))"

definition reject_body ::
  "module_env \<Rightarrow> module_env \<Rightarrow> int \<Rightarrow> string \<Rightarrow> user_row \<Rightarrow> string \<Rightarrow> refund_row \<Rightarrow> payments_db \<Rightarrow>
   unit reply \<times> payments_db" where
  "reject_body E M now hex u reason rf db =
     (case use_name (env_timezone E) ''timezone'' of
        Inl e \<Rightarrow> (Crash e, db)
      | Inr _ \<Rightarrow>
          (case refund_save M now hex (rf\<lparr>rf_status := RRejected, rf_by := Some (u_id u), rf_handled_at := Some now,
                   rf_reject_reason := reason\<rparr>) db of
             Inl e \<Rightarrow> (Crash e, db)
           | Inr (_, db') \<Rightarrow> (OK 200 (), db')))"

definition refund_object :: "request \<Rightarrow> int \<Rightarrow> payments_db \<Rightarrow> refund_row option" where
  "refund_object rq pk db =
     qs_first (\<lambda>f. rf_id f = pk \<and> qs_exists (\<lambda>t. tx_id t = rf_txn f \<and>
        qs_exists (\<lambda>r. o_id r = tx_order t \<and> Some (o_shop r) = rq_tenant rq) (db_orders (db_ord db))) (db_txns db))
       (db_refunds db)"

definition process_refund ::
  "module_env \<Rightarrow> module_env \<Rightarrow> wechat_lib \<Rightarrow> int \<Rightarrow> string \<Rightarrow> request \<Rightarrow> int \<Rightarrow> refund_action \<Rightarrow> string \<Rightarrow> payments_db \<Rightarrow>
   unit reply \<times> payments_db" where
  "process_refund E M lib now hex rq pk act reason db =
     (case is_shop_owner_or_staff (db_staff (db_org (db_ord db))) rq of
        Inl e \<Rightarrow> (Crash e, db)
      | Inr False \<Rightarrow> (Reject 403 PermissionDenied, db)
      | Inr True \<Rightarrow>
          (case refund_object rq pk db of
             None \<Rightarrow> (Reject 404 (DoesNotExist ''RefundRequest''), db)
           | Some rf \<Rightarrow>
               (case act of
                  Approve \<Rightarrow> approve_body E M lib now hex (the (rq_user rq)) rf db
                | RejectRefund \<Rightarrow> reject_body E M now hex (the (rq_user rq)) reason rf db
                | OtherAction \<Rightarrow> (Reject 400 (ValueError ''action''), db))))"

section \<open>Statistics and configuration\<close>

text \<open>\<open>payment_statistics\<close>: the paid transactions created since the local midnight of the UTC date, their
  amount, and the groups by name of the method.\<close>

definition payment_statistics ::
  "module_env \<Rightarrow> int \<Rightarrow> request \<Rightarrow> payments_db \<Rightarrow> (int \<times> nat \<times> (string \<times> int \<times> nat) list) reply" where
  "payment_statistics E now rq db =
     (case rq_user rq of
        None \<Rightarrow> Reject 401 PermissionDenied
      | Some _ \<Rightarrow>
          (case use_name (env_timezone E) ''timezone'' of
             Inl e \<Rightarrow> Crash e
           | Inr _ \<Rightarrow>
               let txs = qs_filter (\<lambda>t. local_midnight (utc_date now) \<le> tx_at t \<and> tx_status t = TPaid
                     \<and> qs_exists (\<lambda>r. o_id r = tx_order t \<and> Some (o_shop r) = rq_tenant rq) (db_orders (db_ord db)))
                     (db_txns db);
                   name = (\<lambda>t. case t_find pm_id (tx_method t) (db_methods db) of None \<Rightarrow> [] | Some p \<Rightarrow> pm_name p)
               in OK 200 (sum_list (map tx_amount txs), length txs,
                    map (\<lambda>n. let ts = filter (\<lambda>t. name t = n) txs in (n, sum_list (map tx_amount ts), length ts))
                      (remdups (map name txs)))))"

definition wechat_config_object :: "request \<Rightarrow> payments_db \<Rightarrow> wechat_config option" where
  "wechat_config_object rq db = qs_first (\<lambda>c. Some (wc_shop c) = rq_tenant rq) (db_wechat db)"

definition alipay_config_object :: "request \<Rightarrow> payments_db \<Rightarrow> alipay_config option" where
  "alipay_config_object rq db = qs_first (\<lambda>c. Some (ac_shop c) = rq_tenant rq) (db_alipay db)"

section \<open>Lemmas\<close>

definition payments_wf :: "payments_db \<Rightarrow> bool" where
  "payments_wf db \<longleftrightarrow> t_wf tx_id (db_txns db) \<and> t_wf o_id (db_orders (db_ord db))
     \<and> list_all (\<lambda>t. tx_no t \<noteq> []) (rows (db_txns db)) \<and> list_all (\<lambda>r. o_number r \<noteq> []) (rows (db_orders (db_ord db)))"

lemma transaction_no_not_Nil: "generate_transaction_no M now hex = Inr n \<Longrightarrow> n \<noteq> []"
  by (auto simp: generate_transaction_no_def split: sum.splits)

lemma txn_save_newD:
  assumes "txn_save M now hex tx db = Inr (tx2, db')" and "tx_id tx = 0"
  shows "tx_id tx2 = seq (db_txns db) + 1" and "tx_out_no tx2 = tx_out_no tx" and "tx_no tx2 \<noteq> []"
    and "db' = db\<lparr>db_txns := \<lparr>rows = rows (db_txns db) @ [tx2], seq = seq (db_txns db) + 1\<rparr>\<rparr>"
proof -
  obtain no where no: "(if tx_no tx = [] then generate_transaction_no M now hex else Inr (tx_no tx)) = Inr no"
    using assms(1) by (auto simp: txn_save_def simp del: if_split split: sum.splits)
  then have nn: "no \<noteq> []" using transaction_no_not_Nil by (auto split: if_splits)
  have all: "tx2 = tx\<lparr>tx_no := no, tx_id := seq (db_txns db) + 1, tx_at := now\<rparr>
    \<and> db' = db\<lparr>db_txns := \<lparr>rows = rows (db_txns db) @ [tx2], seq = seq (db_txns db) + 1\<rparr>\<rparr>"
    using assms no by (auto simp: txn_save_def Let_def t_add_def split: sum.splits if_splits)
  then show "tx_id tx2 = seq (db_txns db) + 1" and "tx_out_no tx2 = tx_out_no tx" and "tx_no tx2 \<noteq> []"
    and "db' = db\<lparr>db_txns := \<lparr>rows = rows (db_txns db) @ [tx2], seq = seq (db_txns db) + 1\<rparr>\<rparr>"
    using nn by simp_all
qed

lemma txn_save_old:
  assumes "tx_id tx \<noteq> 0" and "tx_no tx \<noteq> []"
  shows "txn_save M now hex tx db = Inr (tx2, db') \<longleftrightarrow>
    json_ok (tx_data tx) = Inr () \<and> numeric_ok 10 (tx_amount tx) \<and> numeric_ok 10 (tx_refund tx) \<and> tx_third tx \<noteq> None
    \<and> \<not> tx_refund_null tx \<and> \<not> qs_exists (\<lambda>r. tx_id r \<noteq> tx_id tx \<and> tx_no r = tx_no tx) (db_txns db)
    \<and> tx2 = tx \<and> db' = db\<lparr>db_txns := t_save tx_id tx (db_txns db)\<rparr>"
  using assms by (auto simp: txn_save_def Let_def split: sum.splits)

lemma refund_save_txns: "refund_save M now hex rf db = Inr (rf2, db') \<Longrightarrow> db_txns db' = db_txns db \<and> db_methods db' = db_methods db \<and> db_wechat db' = db_wechat db"
  by (auto simp: refund_save_def Let_def t_add_def split: sum.splits if_splits)

lemma refund_save_oldD:
  assumes "refund_save M now hex rf db = Inr (rf2, db')" and "rf_id rf \<noteq> 0" and "rf_no rf \<noteq> []"
  shows "rf2 = rf" and "db' = db\<lparr>db_refunds := t_save rf_id rf (db_refunds db)\<rparr>"
  using assms by (auto simp: refund_save_def Let_def split: if_splits)

lemma t_save_twice: "t_save pk r (t_save pk r t) = t_save pk r t"
proof (cases "t_find pk (pk r) t")
  case None
  then have "\<forall>x \<in> set (rows t). pk x \<noteq> pk r" by (simp add: t_find_None)
  then have "map (\<lambda>x. if pk x = pk r then r else x) (rows t) = rows t" by (intro map_idI) auto
  with None show ?thesis by (simp add: t_save_def t_find_None t_upd_def)
next
  case (Some r0)
  then have "t_find pk (pk r) (t_save pk r t) \<noteq> None" by (simp add: t_find_t_save)
  then have a: "t_save pk r (t_save pk r t) = t_upd (\<lambda>x. pk x = pk r) (\<lambda>_. r) (t_save pk r t)"
    by (auto simp: t_save_def [of pk r "t_save pk r t"])
  have b: "t_save pk r t = t_upd (\<lambda>x. pk x = pk r) (\<lambda>_. r) t" using Some by (simp add: t_save_def)
  show ?thesis unfolding a unfolding b by (auto simp: t_upd_def)
qed

lemma qs_exists_t_save:
  assumes "\<not> P r" and "\<And>x. pk x = pk r \<Longrightarrow> \<not> P x"
  shows "qs_exists P (t_save pk r t) \<longleftrightarrow> qs_exists P t"
proof (cases "t_find pk (pk r) t")
  case None
  then show ?thesis using assms by (auto simp: t_save_def qs_exists_iff)
next
  case (Some r0)
  then show ?thesis using assms by (auto simp: t_save_def qs_exists_iff t_upd_def)
qed

text \<open>Recording a payment attempt, whatever its outcome, adds one transaction with the order's number.\<close>

definition count_out :: "string \<Rightarrow> payments_db \<Rightarrow> nat" where
  "count_out n db = qs_count (\<lambda>t. tx_out_no t = n) (db_txns db)"


lemma payment_attempt:
  assumes c: "create_payment_block M lib now hex agent openid order pm db = Inr (r, db')" and wf: "t_wf tx_id (db_txns db)"
  shows "t_wf tx_id (db_txns db') \<and> count_out (o_number order) db' = Suc (count_out (o_number order) db)"
proof -
  obtain tx db1 where s: "txn_save M now hex (new_txn order pm) db = Inr (tx, db1)"
    using c by (auto simp: create_payment_block_def split: sum.splits)
  have "tx_id (new_txn order pm) = 0" by (simp add: new_txn_def)
  note S = txn_save_newD [OF s this]
  have out: "tx_out_no tx = o_number order" using S(2) by (simp add: new_txn_def)
  have nz: "tx_id tx \<noteq> 0" using S(1) wf by (simp add: t_wf_def)
  have fin: "db' = db1\<lparr>db_txns := t_save tx_id t2 (db_txns db1)\<rparr> \<and> tx_id t2 = tx_id tx \<and> tx_out_no t2 = tx_out_no tx"
    if "txn_save M now hex t2 db1 = Inr (t3, db')" and "t2 = tx\<lparr>tx_status := st, tx_data := d\<rparr>" for t2 t3 st d
    using that txn_save_old [of t2] nz S(3) by auto
  obtain t2 where t2: "db' = db1\<lparr>db_txns := t_save tx_id t2 (db_txns db1)\<rparr>" "tx_id t2 = tx_id tx" "tx_out_no t2 = tx_out_no tx"
  proof -
    have "\<exists>t2 t3 st d. txn_save M now hex t2 db1 = Inr (t3, db') \<and> t2 = tx\<lparr>tx_status := st, tx_data := d\<rparr>"
    proof (cases "case get_service lib pm db1 of Inl e \<Rightarrow> Inl e | Inr svc \<Rightarrow> service_create_payment lib svc agent openid order")
      case (Inl e)
      with c s obtain t3 where "txn_save M now hex (tx\<lparr>tx_status := TFailed\<rparr>) db1 = Inr (t3, db')"
        by (auto simp: create_payment_block_def split: sum.splits)
      moreover have "tx\<lparr>tx_status := TFailed\<rparr> = tx\<lparr>tx_status := TFailed, tx_data := tx_data tx\<rparr>" by simp
      ultimately show ?thesis by metis
    next
      case (Inr result)
      show ?thesis
      proof (cases "txn_save M now hex (tx\<lparr>tx_data := Some result\<rparr>) db1")
        case (Inr q)
        with c s \<open>_ = Inr result\<close> have "txn_save M now hex (tx\<lparr>tx_data := Some result\<rparr>) db1 = Inr (fst q, db')"
          by (cases q) (auto simp: create_payment_block_def)
        moreover have "tx\<lparr>tx_data := Some result\<rparr> = tx\<lparr>tx_status := tx_status tx, tx_data := Some result\<rparr>" by simp
        ultimately show ?thesis by metis
      next
        case (Inl e)
        with c s \<open>_ = Inr result\<close> obtain t3 where
          "txn_save M now hex (tx\<lparr>tx_data := Some result, tx_status := TFailed\<rparr>) db1 = Inr (t3, db')"
          by (cases e) (auto simp: create_payment_block_def split: sum.splits)
        moreover have "tx\<lparr>tx_data := Some result, tx_status := TFailed\<rparr> = tx\<lparr>tx_status := TFailed, tx_data := Some result\<rparr>" by simp
        ultimately show ?thesis by metis
      qed
    qed
    then show thesis using fin that by metis
  qed
  have "t_save tx_id t2 \<lparr>rows = rows (db_txns db) @ [tx], seq = seq (db_txns db) + 1\<rparr>
      = \<lparr>rows = rows (db_txns db) @ [t2], seq = seq (db_txns db) + 1\<rparr>"
    by (rule t_save_last [OF wf S(1)]) (use S(1) t2(2) in simp)
  then have d: "db_txns db' = \<lparr>rows = rows (db_txns db) @ [t2], seq = seq (db_txns db) + 1\<rparr>"
    using t2(1) S(4) by simp
  show ?thesis using wf t2(2,3) S(1) out by (auto simp: d t_wf_def count_out_def qs_count_def qs_filter_def)
qed

end
