(* ===== verification/Payments_Correct.thy ===== *)
theory Payments_Correct
  imports Payments Orders_Correct
begin

text \<open>What payments, callbacks and refunds of theory \<open>Payments\<close> guarantee, and what they do not.\<close>

section \<open>Refund requests\<close>

datatype refund_request = RefundReq int string request int "int option" string

fun handle_refund ::
  "module_env \<Rightarrow> module_env \<Rightarrow> wechat_lib \<Rightarrow> refund_request \<Rightarrow> payments_db \<Rightarrow> refund_row reply \<times> payments_db" where
  "handle_refund E M lib (RefundReq now hex rq pk amount reason) db = refund E M lib now hex rq pk amount reason db"

definition refunds_bounded :: "payments_db \<Rightarrow> bool" where
  "refunds_bounded db \<longleftrightarrow> payments_wf db \<and> list_all (\<lambda>t. tx_refund t \<le> tx_amount t) (rows (db_txns db))"

lemma refund_record_keeps: "db_txns (snd (refund_record E M now hex u a reason tx db)) = db_txns db
    \<and> db_ord (snd (refund_record E M now hex u a reason tx db)) = db_ord db"
  by (auto simp: refund_record_def refund_save_def Let_def t_add_def split: sum.splits)

lemma refund_amounts_InrD:
  "refund_amounts E now tx a = Inr tx1 \<Longrightarrow> tx_refund tx1 = tx_refund tx + a \<and> tx_amount tx1 = tx_amount tx
     \<and> tx_id tx1 = tx_id tx \<and> tx_no tx1 = tx_no tx"
  by (auto simp: refund_amounts_def Let_def split: if_splits sum.splits)

text \<open>What a refund does to the transactions: nothing, or one more refunded amount within the limit.\<close>

lemma refund_body_txns:
  assumes wf: "payments_wf db" and tx: "tx \<in> set (rows (db_txns db))"
    and r: "refund_body E M lib now hex u amount reason tx db = (r, db')"
  obtains "db_txns db' = db_txns db" "db_ord db' = db_ord db"
  | a t2 where "a \<le> tx_amount tx - tx_refund tx" "tx_refund t2 = tx_refund tx + a" "tx_amount t2 = tx_amount tx"
      "tx_id t2 = tx_id tx" "tx_no t2 = tx_no tx" "db_ord db' = db_ord db" "db_txns db' = t_save tx_id t2 (db_txns db)"
proof (cases "db_txns db' = db_txns db \<and> db_ord db' = db_ord db")
  case True
  with that(1) show thesis by blast
next
  case False
  then obtain a null tx1 tx2 db1 where a: "\<not> tx_amount tx - tx_refund tx < a"
    and m: "refund_amounts E now tx a = Inr tx1"
    and s: "txn_save M now hex (tx1\<lparr>tx_refund_null := null\<rparr>) db = Inr (tx2, db1)"
    and q: "refund_record E M now hex u a reason tx2 db1 = (r, db')"
    using r by (auto simp: refund_body_def split: option.splits sum.splits if_splits)
  note A = refund_amounts_InrD [OF m]
  have "tx_id tx \<noteq> 0" "tx_no tx \<noteq> []" using wf tx by (auto simp: payments_wf_def t_wf_def list_all_iff)
  then have "db1 = db\<lparr>db_txns := t_save tx_id (tx1\<lparr>tx_refund_null := null\<rparr>) (db_txns db)\<rparr>"
    using s txn_save_old [of "tx1\<lparr>tx_refund_null := null\<rparr>"] A by simp
  moreover have "db_txns db' = db_txns db1" "db_ord db' = db_ord db1"
    using refund_record_keeps [of E M now hex u a reason tx2 db1] q by simp_all
  ultimately show thesis using a A by (intro that(2) [of a "tx1\<lparr>tx_refund_null := null\<rparr>"]) simp_all
qed

lemma t_save_rows:
  "t_find pk (pk r) t \<noteq> None \<Longrightarrow> x \<in> set (rows (t_save pk r t)) \<Longrightarrow> x = r \<or> x \<in> set (rows t)"
  by (auto simp: t_save_def t_upd_def split: if_splits)

lemma filter_only:
  "distinct xs \<Longrightarrow> r \<in> set xs \<Longrightarrow> P r \<Longrightarrow> (\<And>x. x \<in> set xs \<Longrightarrow> P x \<Longrightarrow> x = r) \<Longrightarrow> filter P xs = [r]"
proof (induction xs)
  case (Cons y xs)
  show ?case
  proof (cases "y = r")
    case True
    have "\<not> P x" if x: "x \<in> set xs" for x
    proof
      assume "P x"
      have "x = r" by (rule Cons.prems(4)) (use x \<open>P x\<close> in simp_all)
      with x True Cons.prems(1) show False by simp
    qed
    then have "filter P xs = []" by (simp add: filter_empty_conv)
    with True Cons.prems(3) show ?thesis by simp
  next
    case False
    then have "\<not> P y" using Cons.prems(4) [of y] by simp blast
    moreover have "filter P xs = [r]"
    proof (rule Cons.IH)
      show "x = r" if "x \<in> set xs" "P x" for x by (rule Cons.prems(4)) (use that in simp_all)
    qed (use Cons.prems(1-3) False in simp_all)
    ultimately show ?thesis by simp
  qed
qed simp

lemma qs_get_InrD_unique:
  assumes "qs_get m P t = Inr r" and "x \<in> set (rows t)" and "P x"
  shows "x = r"
proof -
  have "x \<in> set (filter P (rows t))" using assms(2,3) by simp
  then have "x \<in> set [r]" using assms(1) by (simp only: qs_get_Inr)
  then show ?thesis by simp
qed

lemma qs_get_t_save:
  assumes "qs_get m P t = Inr r" and "t_wf pk t" and "pk r' = pk r" and "P r'"
  shows "qs_get m P (t_save pk r' t) = Inr r'"
proof -
  have r: "r \<in> set (rows t)" "P r" using qs_get_InrD [OF assms(1)] by blast+
  have f: "t_find pk (pk r') t \<noteq> None" using t_wf_find_unique [OF assms(2) r(1)] assms(3) by simp
  have wf: "t_wf pk (t_save pk r' t)" by (rule t_wf_t_save [OF assms(2) f])
  have mem: "r' \<in> set (rows (t_save pk r' t))" using t_find_t_save [of pk "pk r'" r' t] t_find_mem by simp
  have only: "x = r'" if "x \<in> set (rows (t_save pk r' t))" "P x" for x
  proof (rule ccontr)
    assume n: "x \<noteq> r'"
    then have x: "x \<in> set (rows t)" using t_save_rows [OF f that(1)] by simp
    then have "x = r" using qs_get_InrD_unique [OF assms(1) x that(2)] by simp
    then have "pk x = pk r'" using assms(3) by simp
    with t_wf_find_unique [OF wf that(1)] t_wf_find_unique [OF wf mem] n show False by simp
  qed
  have "filter P (rows (t_save pk r' t)) = [r']"
  proof (rule filter_only)
    show "distinct (rows (t_save pk r' t))" using wf by (auto simp: t_wf_def distinct_map)
  qed (use mem assms(4) only in auto)
  then show ?thesis by (simp add: qs_get_Inr)
qed

interpretation refund_limit: guarded_system "handle_refund E M lib" refunds_bounded for E M lib
proof unfold_locales
  fix db op
  assume inv: "refunds_bounded db"
  then have wf: "payments_wf db" by (simp add: refunds_bounded_def)
  obtain now hex rq pk amount reason where op: "op = RefundReq now hex rq pk amount reason" by (cases op)
  show "refunds_bounded (snd (handle_refund E M lib op db))"
  proof (cases "snd (handle_refund E M lib op db) = db")
    case True
    with inv show ?thesis by simp
  next
    case False
    then obtain tx where o: "txn_object rq pk db = Some tx"
      and h: "handle_refund E M lib op db = refund_body E M lib now hex (the (rq_user rq)) amount reason tx db"
      by (auto simp: op refund_def split: sum.splits bool.splits option.splits)
    have tx: "tx \<in> set (rows (db_txns db))" using qs_first_SomeD [OF o [unfolded txn_object_def]] by blast
    obtain r db' where r: "refund_body E M lib now hex (the (rq_user rq)) amount reason tx db = (r, db')" by fastforce
    from wf tx r have "refunds_bounded db'"
    proof (cases rule: refund_body_txns)
      case 1
      with inv show ?thesis by (simp add: refunds_bounded_def payments_wf_def)
    next
      case (2 a t2)
      have f: "t_find tx_id (tx_id t2) (db_txns db) \<noteq> None"
        using t_wf_find_unique [of tx_id "db_txns db" tx] wf tx 2(4) by (simp add: payments_wf_def)
      have "t_wf tx_id (db_txns db')" using wf f by (simp add: 2(7) payments_wf_def t_wf_t_save)
      moreover have "x = t2 \<or> x \<in> set (rows (db_txns db))" if "x \<in> set (rows (db_txns db'))" for x
        using t_save_rows [OF f] that by (simp add: 2(7))
      moreover have "tx_no t2 \<noteq> []" using wf tx 2(5) by (simp add: payments_wf_def list_all_iff)
      moreover have "tx_refund t2 \<le> tx_amount t2" using 2(1-3) by simp
      ultimately have "\<forall>x \<in> set (rows (db_txns db')). tx_refund x \<le> tx_amount x \<and> tx_no x \<noteq> []"
        using inv by (auto simp: refunds_bounded_def payments_wf_def list_all_iff)
      with \<open>t_wf tx_id (db_txns db')\<close> wf 2(6) show ?thesis
        by (simp add: refunds_bounded_def payments_wf_def list_all_iff)
    qed
    with h r show ?thesis by simp
  qed
qed


section \<open>Payment notifications\<close>

definition notified_by :: "wx_result \<Rightarrow> txn_row \<Rightarrow> bool" where
  "notified_by r t \<longleftrightarrow> Some (tx_out_no t) = wx_out_no r"

definition paid_txn :: "wx_result \<Rightarrow> int \<Rightarrow> txn_row \<Rightarrow> txn_row" where
  "paid_txn r now tx = tx\<lparr>tx_status := TPaid, tx_third := wx_transaction r, tx_paid_at := Some now,
      tx_data := Some (CallbackData (tx_out_no tx))\<rparr>"

definition paid_order :: "int \<Rightarrow> order_row \<Rightarrow> order_row" where
  "paid_order now order = order\<lparr>o_paid := True, o_paid_at := Some now, o_status := Paid\<rparr>"

lemma paid_keys [simp]:
  "tx_id (paid_txn r now tx) = tx_id tx" "tx_no (paid_txn r now tx) = tx_no tx" "tx_order (paid_txn r now tx) = tx_order tx"
  "o_id (paid_order now order) = o_id order" "o_number (paid_order now order) = o_number order"
  by (simp_all add: paid_txn_def paid_order_def)

lemma process_payment_run:
  assumes "qs_get ''PaymentTransaction'' (notified_by r) (db_txns db) = Inr tx"
  shows "process_payment_result M now r db = (case txn_save M now [] (paid_txn r now tx) db of
        Inl e \<Rightarrow> (Inl e, db)
      | Inr (tx1, db1) \<Rightarrow>
          (case t_find o_id (tx_order tx1) (db_orders (db_ord db1)) of
             None \<Rightarrow> (Inl (DoesNotExist ''Order''), db1)
           | Some order \<Rightarrow>
               (case order_save now [] (paid_order now order) (db_ord db1) of
                  Inl e \<Rightarrow> (Inl e, db1)
                | Inr (_, od) \<Rightarrow> (Inr True, db1\<lparr>db_ord := od\<rparr>))))"
proof -
  have "wx_out_no r = Some (tx_out_no tx)" using qs_get_InrD [OF assms] by (simp add: notified_by_def)
  moreover have "notified_by r = (\<lambda>t. Some (tx_out_no t) = wx_out_no r)" by (simp add: notified_by_def fun_eq_iff)
  ultimately show ?thesis
    using assms unfolding process_payment_result_def paid_txn_def paid_order_def by simp
qed

lemma process_payment_resultD:
  assumes "payments_wf db" and "process_payment_result M now r db = (Inr True, db')"
  obtains tx order where "qs_get ''PaymentTransaction'' (notified_by r) (db_txns db) = Inr tx"
    "t_find o_id (tx_order tx) (db_orders (db_ord db)) = Some order"
    "txn_save M now [] (paid_txn r now tx) db = Inr (paid_txn r now tx, db\<lparr>db_txns := t_save tx_id (paid_txn r now tx) (db_txns db)\<rparr>)"
    "order_save now [] (paid_order now order) (db_ord db)
        = Inr (paid_order now order, (db_ord db)\<lparr>db_orders := t_save o_id (paid_order now order) (db_orders (db_ord db))\<rparr>)"
    "db' = db\<lparr>db_txns := t_save tx_id (paid_txn r now tx) (db_txns db),
        db_ord := (db_ord db)\<lparr>db_orders := t_save o_id (paid_order now order) (db_orders (db_ord db))\<rparr>\<rparr>"
proof -
  have "notified_by r = (\<lambda>t. Some (tx_out_no t) = wx_out_no r)" by (simp add: notified_by_def fun_eq_iff)
  with assms(2) obtain tx where g: "qs_get ''PaymentTransaction'' (notified_by r) (db_txns db) = Inr tx"
    by (auto simp: process_payment_result_def split: sum.splits exn.splits)
  then have nz: "tx_id tx \<noteq> 0" "tx_no tx \<noteq> []"
    using assms(1) qs_get_InrD [OF g] by (auto simp: payments_wf_def t_wf_def list_all_iff)
  obtain tx1 db1 order od od' where s: "txn_save M now [] (paid_txn r now tx) db = Inr (tx1, db1)"
    and f: "t_find o_id (tx_order tx1) (db_orders (db_ord db1)) = Some order"
    and os: "order_save now [] (paid_order now order) (db_ord db1) = Inr (od', od)" and db': "db' = db1\<lparr>db_ord := od\<rparr>"
    using assms(2) unfolding process_payment_run [OF g] by (auto split: sum.splits option.splits prod.splits)
  have S: "tx1 = paid_txn r now tx" "db1 = db\<lparr>db_txns := t_save tx_id (paid_txn r now tx) (db_txns db)\<rparr>"
    using s txn_save_old [of "paid_txn r now tx"] nz by simp_all
  with f have f': "t_find o_id (tx_order tx) (db_orders (db_ord db)) = Some order" by simp
  then have "o_id order \<noteq> 0" "o_number order \<noteq> []"
    using assms(1) t_find_mem [OF f'] by (auto simp: payments_wf_def t_wf_def list_all_iff)
  with order_save_oldD [OF os] S os s db' show thesis by (intro that [OF g f']) simp_all
qed

text \<open>Saving a row that is stored as it is changes nothing.\<close>

lemma txn_save_again:
  assumes "txn_save M now [] t db = Inr (t, db1)" and "tx_id t \<noteq> 0" and "tx_no t \<noteq> []"
    and "db_txns db' = t_save tx_id t (db_txns db)"
  shows "txn_save M now [] t db' = Inr (t, db')"
proof -
  have "qs_exists (\<lambda>x. tx_id x \<noteq> tx_id t \<and> tx_no x = tx_no t) (db_txns db')
      \<longleftrightarrow> qs_exists (\<lambda>x. tx_id x \<noteq> tx_id t \<and> tx_no x = tx_no t) (db_txns db)"
    unfolding assms(4) by (rule qs_exists_t_save) simp_all
  moreover have "db'\<lparr>db_txns := t_save tx_id t (db_txns db')\<rparr> = db'" unfolding assms(4) t_save_twice by (simp flip: assms(4))
  ultimately show ?thesis using assms(1-3) by (simp add: txn_save_old)
qed

lemma order_save_again:
  assumes "order_save now [] o1 db = Inr (o1, db1)" and "o_id o1 \<noteq> 0" and "o_number o1 \<noteq> []"
    and "db_orders db' = t_save o_id o1 (db_orders db)"
  shows "order_save now [] o1 db' = Inr (o1, db')"
proof -
  have "qs_exists (\<lambda>x. o_id x \<noteq> o_id o1 \<and> o_number x = o_number o1) (db_orders db')
      \<longleftrightarrow> qs_exists (\<lambda>x. o_id x \<noteq> o_id o1 \<and> o_number x = o_number o1) (db_orders db)"
    unfolding assms(4) by (rule qs_exists_t_save) simp_all
  moreover have "db'\<lparr>db_orders := t_save o_id o1 (db_orders db')\<rparr> = db'" unfolding assms(4) t_save_twice by (simp flip: assms(4))
  ultimately show ?thesis using assms(1-3) by (auto simp: order_save_def Let_def split: if_splits)
qed

section \<open>Properties\<close>

definition demo_order :: order_row where
  "demo_order = \<lparr>o_id = 1, o_number = ''ORD1'', o_user = Some 7, o_status = Pending, o_type = DineIn, o_subtotal = 3000,
     o_delivery_fee = 0, o_discount = 0, o_total = 3000, o_method = [], o_paid = False, o_paid_at = None,
     o_name = ''amy'', o_phone = ''1'', o_notes = [], o_address = [], o_delivery_time = None, o_pickup_time = None,
     o_table = [], o_shop = 3, o_at = 5, o_completed_at = None\<rparr>"

definition demo_method :: "int \<Rightarrow> pay_code \<Rightarrow> method_row" where
  "demo_method i c = \<lparr>pm_id = i, pm_name = [], pm_code = c, pm_active = True, pm_sort = 0, pm_shop = 3\<rparr>"

definition demo_txn :: txn_row where
  "demo_txn = \<lparr>tx_id = 1, tx_no = ''T1'', tx_out_no = ''ORD1'', tx_order = 1, tx_method = 2, tx_amount = 3000,
     tx_status = TPending, tx_third = Some [], tx_data = None, tx_refund = 0, tx_refund_null = False, tx_at = 5,
     tx_paid_at = None, tx_refunded_at = None\<rparr>"

definition demo_refund :: refund_row where
  "demo_refund = \<lparr>rf_id = 1, rf_no = ''R1'', rf_txn = 1, rf_amount = 2000, rf_reason = ''cold'', rf_status = RPending,
     rf_by = None, rf_handled_at = None, rf_reject_reason = []\<rparr>"

definition demo_payments :: payments_db where
  "demo_payments = \<lparr>db_ord = demo_orders\<lparr>db_orders := \<lparr>rows = [demo_order], seq = 1\<rparr>\<rparr>,
     db_methods = \<lparr>rows = [demo_method 1 Wechat, demo_method 2 CashPay], seq = 2\<rparr>,
     db_txns = \<lparr>rows = [demo_txn], seq = 1\<rparr>, db_refunds = \<lparr>rows = [demo_refund], seq = 1\<rparr>,
     db_wechat = \<lparr>rows = [\<lparr>wc_id = 1, wc_shop = 3, wc_app_id = [], wc_mch_id = [], wc_api_key = [],
        wc_notify_url = [], wc_active = True\<rparr>], seq = 1\<rparr>, db_alipay = empty_tbl\<rparr>"

definition demo_wechat :: wechat_lib where
  "demo_wechat = \<lparr>wx_init = (\<lambda>c. Inr ()), wx_pay = (\<lambda>c n a i. Inr (Some ''weixin://'')), wx_qrcode = (\<lambda>u. Inr ()),
     wx_refund = (\<lambda>c t a b. Inr ()),
     wx_callback = (\<lambda>c b. Inr \<lparr>wx_out_no = Some b, wx_transaction = Some ''42'', wx_total = 1\<rparr>)\<rparr>"

lemma demo_payments_wf: "payments_wf demo_payments"
  by (simp add: payments_wf_def t_wf_def demo_payments_def demo_txn_def demo_order_def)

lemma demo_refunds_bounded: "refunds_bounded demo_payments"
  using demo_payments_wf by (simp add: refunds_bounded_def) (simp add: demo_payments_def demo_txn_def)

text \<open>C5: Direct refunds never exceed the payment: over any sequence of refund requests, by whomever, for whatever
  amounts, with every outcome of the payment provider and whichever module names are bound, what is recorded as
  refunded of a transaction stays at most its amount.\<close>

theorem refunds_within_amount:
  assumes "refunds_bounded db" and "t \<in> set (rows (db_txns (run_requests (handle_refund E M lib) ops db)))"
  shows "tx_refund t \<le> tx_amount t"
  using refund_limit.run_inv [OF assms(1), of E M lib ops] assms(2) by (auto simp: refunds_bounded_def list_all_iff)

theorem refunds_within_amount_witness:
  "\<exists>t \<in> set (rows (db_txns (run_requests (handle_refund full_env full_env demo_wechat)
      [RefundReq 5000000 ''A'' demo_request 1 (Some 2000) [], RefundReq 5000000 ''B'' demo_request 1 (Some 2000) []] demo_payments))).
     tx_refund t = 2000 \<and> tx_refund t \<le> tx_amount t"
proof -
  let ?s = "run_requests (handle_refund full_env full_env demo_wechat)
      [RefundReq 5000000 ''A'' demo_request 1 (Some 2000) [], RefundReq 5000000 ''B'' demo_request 1 (Some 2000) []] demo_payments"
  have "map tx_refund (rows (db_txns ?s)) = [2000]" by code_simp
  then obtain t where t: "rows (db_txns ?s) = [t]" "tx_refund t = 2000" by auto
  have m: "t \<in> set (rows (db_txns ?s))" unfolding t(1) by simp
  from refunds_within_amount [OF demo_refunds_bounded m] m t(2) show ?thesis by blast
qed

text \<open>Approving refund requests has no such limit: each approval adds the requested amount to what is recorded as
  refunded, whatever the request's status and whatever was refunded before, so approving one request twice
  refunds it twice.\<close>

theorem approve_adds_refund:
  assumes "payments_wf db" and "t_find tx_id (rf_txn rf) (db_txns db) = Some tx"
    and "rf_id rf \<noteq> 0" and "rf_no rf \<noteq> []"
    and "approve_body E M lib now hex u rf db = (OK 200 x, db')"
  shows "\<exists>tx'. t_find tx_id (rf_txn rf) (db_txns db') = Some tx' \<and> tx_refund tx' = tx_refund tx + rf_amount rf
    \<and> tx_amount tx' = tx_amount tx"
proof -
  obtain rf1 db1 svc rf2 db2 tx0 where s1: "refund_save M now hex (rf\<lparr>rf_status := RApproved, rf_by := Some (u_id u), rf_handled_at := Some now\<rparr>) db = Inr (rf1, db1)"
    and f: "t_find tx_id (rf_txn rf1) (db_txns db1) = Some tx0"
    and s2: "refund_save M now hex (rf1\<lparr>rf_status := RCompleted\<rparr>) db1 = Inr (rf2, db2)"
    and s3: "\<exists>t3. txn_save M now hex (let tx1 = tx0\<lparr>tx_refund := tx_refund tx0 + rf_amount rf2\<rparr>
        in if tx_refund tx1 = tx_amount tx1 then tx1\<lparr>tx_status := TRefunded, tx_refunded_at := Some now\<rparr> else tx1) db2 = Inr (t3, db')"
    using assms(5) by (auto simp: approve_body_def Let_def simp del: if_split split: option.splits sum.splits)
  have rf1: "rf1 = rf\<lparr>rf_status := RApproved, rf_by := Some (u_id u), rf_handled_at := Some now\<rparr>" and db1: "db_txns db1 = db_txns db"
    using refund_save_oldD [OF s1] refund_save_txns [OF s1] assms(3,4) by simp_all
  have rf2: "rf2 = rf1\<lparr>rf_status := RCompleted\<rparr>" and db2: "db_txns db2 = db_txns db1"
    using refund_save_oldD [OF s2] refund_save_txns [OF s2] assms(3,4) rf1 by simp_all
  have tx0: "tx0 = tx" using f db1 rf1 assms(2) by simp
  have tx: "tx \<in> set (rows (db_txns db))" "tx_id tx = rf_txn rf" using assms(2) t_find_mem t_find_pk by metis+
  then have nz: "tx_id tx \<noteq> 0" "tx_no tx \<noteq> []" using assms(1) by (auto simp: payments_wf_def t_wf_def list_all_iff)
  let ?t1 = "tx\<lparr>tx_refund := tx_refund tx + rf_amount rf\<rparr>"
  let ?t2 = "if tx_refund ?t1 = tx_amount ?t1 then ?t1\<lparr>tx_status := TRefunded, tx_refunded_at := Some now\<rparr> else ?t1"
  obtain t3 where "txn_save M now hex ?t2 db2 = Inr (t3, db')" using s3 by (auto simp: tx0 rf2 rf1 Let_def)
  moreover have "tx_id ?t2 = tx_id tx" "tx_no ?t2 = tx_no tx" by simp_all
  ultimately have "db_txns db' = t_save tx_id ?t2 (db_txns db)" using txn_save_old [of ?t2] nz db1 db2 by simp
  then have "t_find tx_id (rf_txn rf) (db_txns db') = Some ?t2" using tx(2) by (simp add: t_find_t_save)
  then show ?thesis by (intro exI [of _ ?t2]) simp
qed

theorem approve_adds_refund_witness:
  "let db1 = snd (approve_body full_env full_env demo_wechat 5 [] demo_user demo_refund demo_payments);
       db2 = snd (approve_body full_env full_env demo_wechat 6 [] demo_user demo_refund db1)
   in map_option tx_refund (t_find tx_id 1 (db_txns db2)) = Some 4000"
proof -
  let ?r1 = "approve_body full_env full_env demo_wechat 5 [] demo_user demo_refund demo_payments"
  let ?r2 = "approve_body full_env full_env demo_wechat 6 [] demo_user demo_refund (snd ?r1)"
  have "fst ?r1 = OK 200 ()" "fst ?r2 = OK 200 ()" by code_simp+
  then have r1: "?r1 = (OK 200 (), snd ?r1)" and r2: "?r2 = (OK 200 (), snd ?r2)" by (simp_all add: prod_eq_iff)
  have id: "rf_id demo_refund \<noteq> 0" "rf_no demo_refund \<noteq> []" by (simp_all add: demo_refund_def)
  have t0: "t_find tx_id (rf_txn demo_refund) (db_txns demo_payments) = Some demo_txn"
    by (simp add: t_find_def demo_payments_def demo_txn_def demo_refund_def)
  from approve_adds_refund [OF demo_payments_wf t0 id r1] obtain t1 where
    t1: "t_find tx_id (rf_txn demo_refund) (db_txns (snd ?r1)) = Some t1" "tx_refund t1 = tx_refund demo_txn + rf_amount demo_refund" by blast
  have wf1: "payments_wf (snd ?r1)" by code_simp
  from approve_adds_refund [OF wf1 t1(1) id r2] t1(2) show ?thesis
    by (auto simp: Let_def) (simp_all add: demo_refund_def demo_txn_def)
qed



text \<open>C25: A retried payment cannot be settled: after two recorded payment attempts for one order, whatever their
  methods and outcomes, every notification for the order's number fails and changes nothing.\<close>

theorem two_attempts_block_callback:
  assumes "t_wf tx_id (db_txns db)"
    and "create_payment_block M lib now hex agent openid order pm db = Inr (r1, db1)"
    and "create_payment_block M lib now2 hex2 agent2 openid2 order pm2 db1 = Inr (r2, db2)"
    and "wx_out_no r = Some (o_number order)"
  shows "process_payment_result M2 now3 r db2 = (Inl (MultipleObjectsReturned ''PaymentTransaction''), db2)"
proof -
  note A1 = payment_attempt [OF assms(2,1)]
  have "t_wf tx_id (db_txns db1)" using A1 by blast
  from payment_attempt [OF assms(3) this] A1 have "2 \<le> count_out (o_number order) db2" by simp
  then have "2 \<le> length (qs_filter (\<lambda>t. Some (tx_out_no t) = wx_out_no r) (db_txns db2))"
    by (simp add: count_out_def qs_count_def assms(4))
  then have "qs_get ''PaymentTransaction'' (\<lambda>t. Some (tx_out_no t) = wx_out_no r) (db_txns db2)
      = Inl (MultipleObjectsReturned ''PaymentTransaction'')"
    by (auto simp: qs_get_def split: list.splits)
  then show ?thesis by (simp add: process_payment_result_def)
qed

theorem two_attempts_block_callback_witness:
  "case create_payment_block full_env demo_wechat 5000000 ''A'' [] None demo_order (demo_method 1 Wechat) demo_payments of
     Inl e \<Rightarrow> False
   | Inr (r1, db1) \<Rightarrow> res_is (\<lambda>(r2, db2). process_payment_result full_env 9
        \<lparr>wx_out_no = Some ''ORD1'', wx_transaction = Some ''42'', wx_total = 3000\<rparr> db2
        = (Inl (MultipleObjectsReturned ''PaymentTransaction''), db2))
      (create_payment_block full_env demo_wechat 6000000 ''B'' [] None demo_order (demo_method 1 Wechat) db1)"
proof -
  let ?c = "create_payment_block full_env demo_wechat 5000000 ''A'' [] None demo_order (demo_method 1 Wechat) demo_payments"
  have wf: "t_wf tx_id (db_txns demo_payments)" using demo_payments_wf by (simp add: payments_wf_def)
  have out: "wx_out_no \<lparr>wx_out_no = Some ''ORD1'', wx_transaction = Some ''42'', wx_total = 3000\<rparr> = Some (o_number demo_order)"
    by (simp add: demo_order_def)
  have "res_is (\<lambda>(r1, db1). res_is (\<lambda>_. True)
      (create_payment_block full_env demo_wechat 6000000 ''B'' [] None demo_order (demo_method 1 Wechat) db1)) ?c" by code_simp
  then obtain r1 db1 r2 db2 where c1: "?c = Inr (r1, db1)"
    and c2: "create_payment_block full_env demo_wechat 6000000 ''B'' [] None demo_order (demo_method 1 Wechat) db1 = Inr (r2, db2)"
    by (auto elim!: res_isE)
  from two_attempts_block_callback [OF wf c1 c2 out] c1 c2 show ?thesis by (simp add: res_is_def)
qed

text \<open>Cash, balance, points and card payments cannot be made: when the payment step completes for such a method
  the method is not cash (a cash payment always raises, because its decimal amount cannot be stored in the JSON
  column, and leaves no trace), the request is refused and the attempt stays recorded as failed.\<close>

theorem unsupported_payments:
  assumes "pm_code pm \<in> {CashPay, BalancePay, PointsPay, Card}" and "t_wf tx_id (db_txns db)"
    and "create_payment_block M lib now hex agent openid order pm db = Inr (r, db')"
  shows "pm_code pm \<noteq> CashPay \<and> \<not> accepted r \<and> tx_status (last (rows (db_txns db'))) = TFailed
    \<and> tx_out_no (last (rows (db_txns db'))) = o_number order"
proof -
  obtain tx db1 where s: "txn_save M now hex (new_txn order pm) db = Inr (tx, db1)"
    using assms(3) by (auto simp: create_payment_block_def split: sum.splits)
  have "tx_id (new_txn order pm) = 0" by (simp add: new_txn_def)
  note S = txn_save_newD [OF s this]
  have nz: "tx_id tx \<noteq> 0" using S(1) assms(2) by (simp add: t_wf_def)
  show ?thesis
  proof (cases "pm_code pm = CashPay")
    case True
    have bad: "txn_save M now hex t db1 = Inl (TypeError ''Decimal is not JSON serializable'')"
      if "tx_data t = Some (CashData a)" "tx_no t \<noteq> []" for t a
      using that by (simp add: txn_save_def json_ok_def)
    from True assms(3) s S(3) show ?thesis
      by (auto simp: create_payment_block_def get_service_def service_create_payment_def bad)
  next
    case False
    then obtain e where "get_service lib pm db1 = Inl e" using assms(1) by (auto simp: get_service_def)
    with assms(3) s obtain t2 where t: "txn_save M now hex (tx\<lparr>tx_status := TFailed\<rparr>) db1 = Inr (t2, db')" and r: "r = Reject 400 e"
      by (auto simp: create_payment_block_def split: sum.splits)
    have "db' = db1\<lparr>db_txns := t_save tx_id (tx\<lparr>tx_status := TFailed\<rparr>) (db_txns db1)\<rparr>"
      using t txn_save_old [of "tx\<lparr>tx_status := TFailed\<rparr>"] nz S(3) by simp
    moreover have "t_save tx_id (tx\<lparr>tx_status := TFailed\<rparr>) \<lparr>rows = rows (db_txns db) @ [tx], seq = seq (db_txns db) + 1\<rparr>
      = \<lparr>rows = rows (db_txns db) @ [tx\<lparr>tx_status := TFailed\<rparr>], seq = seq (db_txns db) + 1\<rparr>"
      by (rule t_save_last [OF assms(2) S(1)]) (use S(1) in simp)
    ultimately show ?thesis using False r S(2,4) by (simp add: new_txn_def)
  qed
qed

theorem unsupported_payments_witness:
  "res_is (\<lambda>(r, db'). tx_status (last (rows (db_txns db'))) = TFailed)
     (create_payment_block full_env demo_wechat 5000000 ''A'' [] None demo_order (demo_method 3 PointsPay) demo_payments)"
proof -
  let ?c = "create_payment_block full_env demo_wechat 5000000 ''A'' [] None demo_order (demo_method 3 PointsPay) demo_payments"
  have wf: "t_wf tx_id (db_txns demo_payments)" using demo_payments_wf by (simp add: payments_wf_def)
  have m: "pm_code (demo_method 3 PointsPay) \<in> {CashPay, BalancePay, PointsPay, Card}" by (simp add: demo_method_def)
  have "res_is (\<lambda>_. True) ?c" by code_simp
  then obtain r db' where c: "?c = Inr (r, db')" by (auto elim: res_isE)
  from unsupported_payments [OF m wf c] c show ?thesis by (simp add: res_is_def)
qed

text \<open>As deployed no payment and no refund ever goes through: the transaction number needs \<open>time.time\<close>, but the
  models import the class \<open>time\<close> of \<open>datetime\<close>, and the refund view uses the unimported \<open>Decimal\<close>; every attempt is
  refused or crashes and the database is unchanged.\<close>

theorem payments_deployed:
  "(let (r, db') = create_payment payments_models_env lib now hex rq agent oid mid openid db in \<not> accepted r \<and> db' = db)
   \<and> (let (r, db') = refund payments_api_env payments_models_env lib now hex rq pk amount reason db in \<not> accepted r \<and> db' = db)"
proof -
  have "txn_save payments_models_env now hex (new_txn order pm) db = Inl (AttributeError ''time'')" for order pm
    by (simp add: txn_save_def new_txn_def generate_transaction_no_def payments_models_env_def)
  then have "create_payment_block payments_models_env lib now hex agent openid order pm db = Inl (AttributeError ''time'')" for order pm
    by (simp add: create_payment_block_def)
  then have "case create_payment payments_models_env lib now hex rq agent oid mid openid db of (r, db') \<Rightarrow> \<not> accepted r \<and> db' = db"
    by (auto simp: create_payment_def split: sum.splits bool.splits exn.splits)
  moreover have "\<not> accepted (fst (refund_body payments_api_env payments_models_env lib now hex u amount reason tx db))
      \<and> snd (refund_body payments_api_env payments_models_env lib now hex u amount reason tx db) = db" for u tx
    by (simp add: refund_body_def payments_api_env_def split: option.splits)
  then have "case refund payments_api_env payments_models_env lib now hex rq pk amount reason db of (r, db') \<Rightarrow> \<not> accepted r \<and> db' = db"
    by (auto simp: refund_def case_prod_beta split: sum.splits bool.splits option.splits)
  ultimately show ?thesis by simp
qed

end
