(* ===== verification/Payment_Views.thy ===== *)
theory Payment_Views
  imports Payments_Correct Tenant_Views
begin

text \<open>
  The viewsets of \<open>payments/api.py\<close> that manage rows: payment methods, transactions, refund requests and
  the two provider configurations.  The actions are those of theory \<open>Tenant_Views\<close>, over the rows and the
  saving of theory \<open>Payments\<close>.
\<close>

section \<open>Payment methods\<close>

definition pay_staff :: "payments_db \<Rightarrow> staff_row tbl" where
  "pay_staff db = db_staff (db_org (db_ord db))"

definition with_pay_staff ::
  "request \<Rightarrow> (payments_db \<Rightarrow> 'a reply \<times> payments_db) \<Rightarrow> payments_db \<Rightarrow> 'a reply \<times> payments_db" where
  "with_pay_staff rq body db = staff_only (pay_staff db) rq body db"

definition method_key :: "method_row \<Rightarrow> int \<times> pay_code" where
  "method_key m = (pm_shop m, pm_code m)"

definition store_methods :: "method_row tbl \<Rightarrow> payments_db \<Rightarrow> payments_db res" where
  "store_methods = store_unique method_key ''payment_methods'' (\<lambda>t db. db\<lparr>db_methods := t\<rparr>)"

record method_body =
  mb_name :: "string option"
  mb_code :: "pay_code option"
  mb_active :: "bool option"
  mb_sort :: "int option"

definition method_valid :: "bool \<Rightarrow> method_body \<Rightarrow> bool" where
  "method_valid partial b \<longleftrightarrow> needed partial (mb_name b) (text_ok 50) \<and> needed partial (mb_code b) (\<lambda>_. True)
     \<and> optional (mb_sort b) int4_ok"

definition method_apply :: "method_body \<Rightarrow> method_row \<Rightarrow> method_row" where
  "method_apply b m = m\<lparr>pm_name := or_default (mb_name b) (pm_name m), pm_code := or_default (mb_code b) (pm_code m),
     pm_active := or_default (mb_active b) (pm_active m), pm_sort := or_default (mb_sort b) (pm_sort m)\<rparr>"

definition blank_method :: "int \<Rightarrow> method_row" where
  "blank_method shop = \<lparr>pm_id = 0, pm_name = [], pm_code = CashPay, pm_active = True, pm_sort = 0, pm_shop = shop\<rparr>"

definition method_object :: "request \<Rightarrow> int \<Rightarrow> payments_db \<Rightarrow> method_row option" where
  "method_object rq pk db = qs_first (\<lambda>m. pm_id m = pk \<and> Some (pm_shop m) = rq_tenant rq) (db_methods db)"

definition method_insert :: "request \<Rightarrow> method_body \<Rightarrow> payments_db \<Rightarrow> (method_row \<times> payments_db) res" where
  "method_insert rq b db = for_tenant rq (\<lambda>tn.
     let (m, t) = t_add (\<lambda>i. (method_apply b (blank_method tn))\<lparr>pm_id := i\<rparr>) (db_methods db)
     in (case store_methods t db of Inl e \<Rightarrow> Inl e | Inr db' \<Rightarrow> Inr (m, db')))"

definition method_write :: "method_body \<Rightarrow> method_row \<Rightarrow> payments_db \<Rightarrow> (method_row \<times> payments_db) res" where
  "method_write b m db =
     (case store_methods (t_save pm_id (method_apply b m) (db_methods db)) db of
        Inl e \<Rightarrow> Inl e
      | Inr db' \<Rightarrow> Inr (method_apply b m, db'))"

text \<open>A method that a transaction names is protected.\<close>

definition method_delete :: "method_row \<Rightarrow> payments_db \<Rightarrow> payments_db res" where
  "method_delete m db =
     (if qs_exists (\<lambda>t. tx_method t = pm_id m) (db_txns db) then Inl (IntegrityError ''protected'')
      else Inr (db\<lparr>db_methods := t_del (\<lambda>r. pm_id r = pm_id m) (db_methods db)\<rparr>))"

definition method_list :: "nat \<Rightarrow> request \<Rightarrow> payments_db \<Rightarrow> method_row list reply \<times> payments_db" where
  "method_list page rq = with_pay_staff rq
     (\<lambda>db. (paginated page (qs_filter (\<lambda>m. Some (pm_shop m) = rq_tenant rq) (db_methods db)), db))"

definition method_retrieve :: "request \<Rightarrow> int \<Rightarrow> payments_db \<Rightarrow> method_row reply \<times> payments_db" where
  "method_retrieve rq pk = with_pay_staff rq (retrieving (method_object rq pk))"

definition method_create :: "request \<Rightarrow> method_body \<Rightarrow> payments_db \<Rightarrow> method_row reply \<times> payments_db" where
  "method_create rq b = with_pay_staff rq (creating (\<lambda>_. method_valid False b) (method_insert rq b))"

definition method_update ::
  "bool \<Rightarrow> request \<Rightarrow> int \<Rightarrow> method_body \<Rightarrow> payments_db \<Rightarrow> method_row reply \<times> payments_db" where
  "method_update partial rq pk b =
     with_pay_staff rq (updating (method_object rq pk) (\<lambda>_ _. method_valid partial b) (method_write b))"

definition method_destroy :: "request \<Rightarrow> int \<Rightarrow> payments_db \<Rightarrow> unit reply \<times> payments_db" where
  "method_destroy rq pk = with_pay_staff rq (destroying (method_object rq pk) method_delete)"

section \<open>Transactions\<close>

text \<open>
  \<open>PaymentTransactionSerializer\<close>: everything but the two numbers and the two JSON columns can be written, with
  any order and any method of the database; \<open>create\<close> sets no shop.
\<close>

record txn_body =
  xb_order :: "int option"
  xb_method :: "int option"
  xb_amount :: "int option"
  xb_status :: "txn_status option"
  xb_third :: "string option"
  xb_refund :: "int option"
  xb_paid_at :: "int option option"
  xb_refunded_at :: "int option option"

definition txn_valid :: "bool \<Rightarrow> txn_body \<Rightarrow> payments_db \<Rightarrow> bool" where
  "txn_valid partial b db \<longleftrightarrow>
     needed partial (xb_order b) (\<lambda>i. qs_exists (\<lambda>r. o_id r = i) (db_orders (db_ord db)))
     \<and> needed partial (xb_method b) (\<lambda>i. qs_exists (\<lambda>m. pm_id m = i) (db_methods db))
     \<and> needed partial (xb_amount b) (\<lambda>a. 1 \<le> a \<and> numeric_ok 10 a)
     \<and> optional (xb_third b) (\<lambda>s. chars s \<le> 64)
     \<and> optional (xb_refund b) (\<lambda>a. 0 \<le> a \<and> numeric_ok 10 a)"

definition txn_apply :: "txn_body \<Rightarrow> txn_row \<Rightarrow> txn_row" where
  "txn_apply b t = t\<lparr>tx_order := or_default (xb_order b) (tx_order t), tx_method := or_default (xb_method b) (tx_method t),
     tx_amount := or_default (xb_amount b) (tx_amount t), tx_status := or_default (xb_status b) (tx_status t),
     tx_third := (case xb_third b of None \<Rightarrow> tx_third t | Some s \<Rightarrow> Some s),
     tx_refund := or_default (xb_refund b) (tx_refund t),
     tx_paid_at := or_default (xb_paid_at b) (tx_paid_at t),
     tx_refunded_at := or_default (xb_refunded_at b) (tx_refunded_at t)\<rparr>"

definition blank_txn :: txn_row where
  "blank_txn = \<lparr>tx_id = 0, tx_no = [], tx_out_no = [], tx_order = 0, tx_method = 0, tx_amount = 0, tx_status = TPending,
     tx_third = Some [], tx_data = None, tx_refund = 0, tx_refund_null = False, tx_at = 0, tx_paid_at = None,
     tx_refunded_at = None\<rparr>"

definition transaction_create ::
  "module_env \<Rightarrow> int \<Rightarrow> string \<Rightarrow> request \<Rightarrow> txn_body \<Rightarrow> payments_db \<Rightarrow> txn_row reply \<times> payments_db" where
  "transaction_create M now hex rq b =
     with_pay_staff rq (creating (txn_valid False b) (txn_save M now hex (txn_apply b blank_txn)))"

definition transaction_update ::
  "module_env \<Rightarrow> int \<Rightarrow> string \<Rightarrow> bool \<Rightarrow> request \<Rightarrow> int \<Rightarrow> txn_body \<Rightarrow> payments_db \<Rightarrow> txn_row reply \<times> payments_db" where
  "transaction_update M now hex partial rq pk b =
     with_pay_staff rq (updating (txn_object rq pk) (\<lambda>_. txn_valid partial b) (\<lambda>t. txn_save M now hex (txn_apply b t)))"

text \<open>The refund requests of a deleted transaction go with it.\<close>

definition txn_delete :: "txn_row \<Rightarrow> payments_db \<Rightarrow> payments_db res" where
  "txn_delete t db = Inr (db\<lparr>db_txns := t_del (\<lambda>r. tx_id r = tx_id t) (db_txns db),
     db_refunds := t_del (\<lambda>f. rf_txn f = tx_id t) (db_refunds db)\<rparr>)"

definition transaction_destroy :: "request \<Rightarrow> int \<Rightarrow> payments_db \<Rightarrow> unit reply \<times> payments_db" where
  "transaction_destroy rq pk = with_pay_staff rq (destroying (txn_object rq pk) txn_delete)"

text \<open>What the serializer adds to the columns: the number of the order and the name of the method.\<close>

definition txn_names :: "payments_db \<Rightarrow> txn_row \<Rightarrow> string option \<times> string option" where
  "txn_names db t = (map_option o_number (t_find o_id (tx_order t) (db_orders (db_ord db))),
     map_option pm_name (t_find pm_id (tx_method t) (db_methods db)))"

definition transaction_list ::
  "nat \<Rightarrow> request \<Rightarrow> payments_db \<Rightarrow> (txn_row \<times> string option \<times> string option) list reply \<times> payments_db" where
  "transaction_list page rq = with_pay_staff rq (\<lambda>db.
     (shown (\<lambda>t. (t, txn_names db t)) (paginated page (sort_key (\<lambda>t. - tx_at t)
        (qs_filter (\<lambda>t. qs_exists (\<lambda>r. o_id r = tx_order t \<and> Some (o_shop r) = rq_tenant rq) (db_orders (db_ord db)))
          (db_txns db)))), db))"

definition transaction_retrieve :: "request \<Rightarrow> int \<Rightarrow> payments_db \<Rightarrow> txn_row reply \<times> payments_db" where
  "transaction_retrieve rq pk = with_pay_staff rq (retrieving (txn_object rq pk))"

section \<open>Refund requests\<close>

text \<open>Number, status and handling are read-only: a request can be moved to another transaction or changed in amount
  whatever its status.\<close>

record refund_patch =
  xf_txn :: "int option"
  xf_amount :: "int option"
  xf_reason :: "string option"

definition refund_valid :: "bool \<Rightarrow> refund_patch \<Rightarrow> payments_db \<Rightarrow> bool" where
  "refund_valid partial b db \<longleftrightarrow>
     needed partial (xf_txn b) (\<lambda>i. qs_exists (\<lambda>t. tx_id t = i) (db_txns db))
     \<and> needed partial (xf_amount b) (\<lambda>a. 1 \<le> a \<and> numeric_ok 10 a)
     \<and> needed partial (xf_reason b) (\<lambda>s. s \<noteq> [])"

definition refund_apply :: "refund_patch \<Rightarrow> refund_row \<Rightarrow> refund_row" where
  "refund_apply b f = f\<lparr>rf_txn := or_default (xf_txn b) (rf_txn f), rf_amount := or_default (xf_amount b) (rf_amount f),
     rf_reason := or_default (xf_reason b) (rf_reason f)\<rparr>"

definition refund_request_update ::
  "module_env \<Rightarrow> int \<Rightarrow> string \<Rightarrow> bool \<Rightarrow> request \<Rightarrow> int \<Rightarrow> refund_patch \<Rightarrow> payments_db \<Rightarrow> refund_row reply \<times> payments_db" where
  "refund_request_update M now hex partial rq pk b =
     with_pay_staff rq (updating (refund_object rq pk) (\<lambda>_. refund_valid partial b)
       (\<lambda>f. refund_save M now hex (refund_apply b f)))"

definition refund_delete :: "refund_row \<Rightarrow> payments_db \<Rightarrow> payments_db res" where
  "refund_delete f db = Inr (db\<lparr>db_refunds := t_del (\<lambda>r. rf_id r = rf_id f) (db_refunds db)\<rparr>)"

definition refund_request_destroy :: "request \<Rightarrow> int \<Rightarrow> payments_db \<Rightarrow> unit reply \<times> payments_db" where
  "refund_request_destroy rq pk = with_pay_staff rq (destroying (refund_object rq pk) refund_delete)"

text \<open>\<open>get_transaction_info\<close>: the number of the transaction, the number of its order and its amount.\<close>

definition get_transaction_info :: "payments_db \<Rightarrow> refund_row \<Rightarrow> (string \<times> string \<times> int) res" where
  "get_transaction_info db f =
     (case t_find tx_id (rf_txn f) (db_txns db) of
        None \<Rightarrow> Inl (DoesNotExist ''PaymentTransaction'')
      | Some t \<Rightarrow>
          (case t_find o_id (tx_order t) (db_orders (db_ord db)) of
             None \<Rightarrow> Inl (DoesNotExist ''Order'')
           | Some r \<Rightarrow> Inr (tx_no t, o_number r, tx_amount t)))"

definition refund_request_list ::
  "nat \<Rightarrow> request \<Rightarrow> payments_db \<Rightarrow> (refund_row \<times> (string \<times> string \<times> int) res) list reply \<times> payments_db" where
  "refund_request_list page rq = with_pay_staff rq (\<lambda>db.
     (shown (\<lambda>f. (f, get_transaction_info db f)) (paginated page (qs_filter (\<lambda>f. qs_exists (\<lambda>t. tx_id t = rf_txn f \<and>
        qs_exists (\<lambda>r. o_id r = tx_order t \<and> Some (o_shop r) = rq_tenant rq) (db_orders (db_ord db))) (db_txns db))
        (db_refunds db))), db))"

section \<open>Provider configurations\<close>

text \<open>The columns that the payment services read; the switches of the scenes and the paths of the certificates
  are stored in the same way and read by nothing.\<close>

record wechat_body =
  wb_app_id :: "string option"
  wb_mch_id :: "string option"
  wb_api_key :: "string option"
  wb_notify_url :: "string option"
  wb_active :: "bool option"

definition wechat_valid :: "bool \<Rightarrow> wechat_body \<Rightarrow> bool" where
  "wechat_valid partial b \<longleftrightarrow> needed partial (wb_app_id b) (text_ok 64) \<and> needed partial (wb_mch_id b) (text_ok 32)
     \<and> needed partial (wb_api_key b) (text_ok 128) \<and> optional (wb_notify_url b) (\<lambda>s. chars s \<le> 255)"

definition wechat_apply :: "wechat_body \<Rightarrow> wechat_config \<Rightarrow> wechat_config" where
  "wechat_apply b c = c\<lparr>wc_app_id := or_default (wb_app_id b) (wc_app_id c), wc_mch_id := or_default (wb_mch_id b) (wc_mch_id c),
     wc_api_key := or_default (wb_api_key b) (wc_api_key c), wc_notify_url := or_default (wb_notify_url b) (wc_notify_url c),
     wc_active := or_default (wb_active b) (wc_active c)\<rparr>"

definition wechat_config_retrieve :: "request \<Rightarrow> payments_db \<Rightarrow> wechat_config reply \<times> payments_db" where
  "wechat_config_retrieve rq = with_pay_staff rq (retrieving (wechat_config_object rq))"

definition wechat_config_update ::
  "bool \<Rightarrow> request \<Rightarrow> wechat_body \<Rightarrow> payments_db \<Rightarrow> wechat_config reply \<times> payments_db" where
  "wechat_config_update partial rq b =
     with_pay_staff rq (updating (wechat_config_object rq) (\<lambda>_ _. wechat_valid partial b)
       (\<lambda>c db. Inr (wechat_apply b c, db\<lparr>db_wechat := t_save wc_id (wechat_apply b c) (db_wechat db)\<rparr>)))"

record alipay_body =
  ab_app_id :: "string option"
  ab_active :: "bool option"

definition alipay_valid :: "bool \<Rightarrow> alipay_body \<Rightarrow> bool" where
  "alipay_valid partial b \<longleftrightarrow> needed partial (ab_app_id b) (text_ok 32)"

definition alipay_apply :: "alipay_body \<Rightarrow> alipay_config \<Rightarrow> alipay_config" where
  "alipay_apply b c = c\<lparr>ac_app_id := or_default (ab_app_id b) (ac_app_id c), ac_active := or_default (ab_active b) (ac_active c)\<rparr>"

definition alipay_config_retrieve :: "request \<Rightarrow> payments_db \<Rightarrow> alipay_config reply \<times> payments_db" where
  "alipay_config_retrieve rq = with_pay_staff rq (retrieving (alipay_config_object rq))"

definition alipay_config_update ::
  "bool \<Rightarrow> request \<Rightarrow> alipay_body \<Rightarrow> payments_db \<Rightarrow> alipay_config reply \<times> payments_db" where
  "alipay_config_update partial rq b =
     with_pay_staff rq (updating (alipay_config_object rq) (\<lambda>_ _. alipay_valid partial b)
       (\<lambda>c db. Inr (alipay_apply b c, db\<lparr>db_alipay := t_save ac_id (alipay_apply b c) (db_alipay db)\<rparr>)))"

section \<open>The requests\<close>

datatype pay_op =
    CreateMethod request method_body
  | UpdateMethod bool request int method_body
  | DestroyMethod request int
  | CreateTxn int string request txn_body
  | UpdateTxn int string bool request int txn_body
  | DestroyTxn request int
  | CreateRefundReq int string request int int string
  | UpdateRefundReq int string bool request int refund_patch
  | DestroyRefundReq request int
  | ProcessRefund int string request int refund_action string
  | RefundTxn int string request int "int option" string
  | UpdateWechat bool request wechat_body
  | UpdateAlipay bool request alipay_body

primrec pay_request :: "pay_op \<Rightarrow> request" where
  "pay_request (CreateMethod rq b) = rq"
| "pay_request (UpdateMethod partial rq pk b) = rq"
| "pay_request (DestroyMethod rq pk) = rq"
| "pay_request (CreateTxn now hex rq b) = rq"
| "pay_request (UpdateTxn now hex partial rq pk b) = rq"
| "pay_request (DestroyTxn rq pk) = rq"
| "pay_request (CreateRefundReq now hex rq txn a reason) = rq"
| "pay_request (UpdateRefundReq now hex partial rq pk b) = rq"
| "pay_request (DestroyRefundReq rq pk) = rq"
| "pay_request (ProcessRefund now hex rq pk act reason) = rq"
| "pay_request (RefundTxn now hex rq pk amount reason) = rq"
| "pay_request (UpdateWechat partial rq b) = rq"
| "pay_request (UpdateAlipay partial rq b) = rq"

primrec handle_pay :: "module_env \<Rightarrow> module_env \<Rightarrow> wechat_lib \<Rightarrow> pay_op \<Rightarrow> payments_db \<Rightarrow> bool \<times> payments_db" where
  "handle_pay E M lib (CreateMethod rq b) db = status_of (method_create rq b db)"
| "handle_pay E M lib (UpdateMethod partial rq pk b) db = status_of (method_update partial rq pk b db)"
| "handle_pay E M lib (DestroyMethod rq pk) db = status_of (method_destroy rq pk db)"
| "handle_pay E M lib (CreateTxn now hex rq b) db = status_of (transaction_create M now hex rq b db)"
| "handle_pay E M lib (UpdateTxn now hex partial rq pk b) db = status_of (transaction_update M now hex partial rq pk b db)"
| "handle_pay E M lib (DestroyTxn rq pk) db = status_of (transaction_destroy rq pk db)"
| "handle_pay E M lib (CreateRefundReq now hex rq txn a reason) db =
     status_of (refund_request_create M now hex rq txn a reason db)"
| "handle_pay E M lib (UpdateRefundReq now hex partial rq pk b) db =
     status_of (refund_request_update M now hex partial rq pk b db)"
| "handle_pay E M lib (DestroyRefundReq rq pk) db = status_of (refund_request_destroy rq pk db)"
| "handle_pay E M lib (ProcessRefund now hex rq pk act reason) db =
     status_of (process_refund E M lib now hex rq pk act reason db)"
| "handle_pay E M lib (RefundTxn now hex rq pk amount reason) db = status_of (refund E M lib now hex rq pk amount reason db)"
| "handle_pay E M lib (UpdateWechat partial rq b) db = status_of (wechat_config_update partial rq b db)"
| "handle_pay E M lib (UpdateAlipay partial rq b) db = status_of (alipay_config_update partial rq b db)"

end
