(* ===== verification/Payment_Refs.thy ===== *)
theory Payment_Refs
  imports Payment_Views
begin

text \<open>
  What the management of payment rows keeps and what it lets through: the references between methods,
  transactions and refund requests, the separation of the shops, and the requests that break what the payment
  steps of theory \<open>Payments_Correct\<close> guarantee.
\<close>

section \<open>References\<close>

text \<open>What the columns of a stored transaction hold.\<close>

definition txn_columns :: "txn_row \<Rightarrow> bool" where
  "txn_columns t \<longleftrightarrow> tx_no t \<noteq> [] \<and> json_ok (tx_data t) = Inr () \<and> numeric_ok 10 (tx_amount t) \<and> numeric_ok 10 (tx_refund t)
     \<and> tx_third t \<noteq> None \<and> \<not> tx_refund_null t"

definition pay_refs :: "payments_db \<Rightarrow> bool" where
  "pay_refs db \<longleftrightarrow> t_wf o_id (db_orders (db_ord db)) \<and> t_wf pm_id (db_methods db) \<and> unique_on method_key (db_methods db)
     \<and> t_wf tx_id (db_txns db) \<and> unique_on tx_no (db_txns db) \<and> t_wf rf_id (db_refunds db) \<and> t_wf wc_id (db_wechat db)
     \<and> (\<forall>t \<in> set (rows (db_txns db)). txn_columns t \<and> tx_order t \<in> ids_of o_id (db_orders (db_ord db))
          \<and> tx_method t \<in> ids_of pm_id (db_methods db))
     \<and> (\<forall>f \<in> set (rows (db_refunds db)). rf_no f \<noteq> [] \<and> rf_txn f \<in> ids_of tx_id (db_txns db))"

text \<open>What saving a transaction or a refund request leaves: the references hold, nothing is gone, and orders,
  methods and configurations are as before.\<close>

definition pay_kept :: "payments_db \<Rightarrow> payments_db \<Rightarrow> bool" where
  "pay_kept db db' \<longleftrightarrow> pay_refs db' \<and> db_ord db' = db_ord db \<and> db_methods db' = db_methods db \<and> db_wechat db' = db_wechat db
     \<and> ids_of tx_id (db_txns db) \<subseteq> ids_of tx_id (db_txns db')
     \<and> ids_of rf_id (db_refunds db) \<subseteq> ids_of rf_id (db_refunds db')"

lemma pay_kept_refl: "pay_refs db \<Longrightarrow> pay_kept db db"
  by (simp add: pay_kept_def)

lemma pay_kept_trans: "pay_kept db db1 \<Longrightarrow> pay_kept db1 db2 \<Longrightarrow> pay_kept db db2"
  by (auto simp: pay_kept_def)

lemma pay_kept_refs: "pay_kept db db' \<Longrightarrow> pay_refs db'"
  by (simp add: pay_kept_def)

lemma put_txns:
  assumes "pay_refs db" and "t_wf tx_id t" and "ids_of tx_id (db_txns db) \<subseteq> ids_of tx_id t"
    and "unique_on tx_no t" and "\<And>x. x \<in> set (rows t) \<Longrightarrow> txn_columns x \<and> tx_order x \<in> ids_of o_id (db_orders (db_ord db))
          \<and> tx_method x \<in> ids_of pm_id (db_methods db)"
  shows "pay_kept db (db\<lparr>db_txns := t\<rparr>)"
  using assms by (auto simp: pay_kept_def pay_refs_def)

lemma put_refunds:
  assumes "pay_refs db" and "t_wf rf_id t" and "ids_of rf_id (db_refunds db) \<subseteq> ids_of rf_id t"
    and "\<And>f. f \<in> set (rows t) \<Longrightarrow> rf_no f \<noteq> [] \<and> rf_txn f \<in> ids_of tx_id (db_txns db)"
  shows "pay_kept db (db\<lparr>db_refunds := t\<rparr>)"
  using assms by (auto simp: pay_kept_def pay_refs_def)

lemma txn_save_kept:
  assumes s: "txn_save M now hex tx db = Inr (tx2, db')" and inv: "pay_refs db"
    and id: "tx_id tx = 0 \<or> tx_id tx \<in> ids_of tx_id (db_txns db)"
    and o: "tx_order tx \<in> ids_of o_id (db_orders (db_ord db))" and m: "tx_method tx \<in> ids_of pm_id (db_methods db)"
  shows "pay_kept db db' \<and> tx2 \<in> set (rows (db_txns db'))"
proof -
  obtain no where no: "(if tx_no tx = [] then generate_transaction_no M now hex else Inr (tx_no tx)) = Inr no"
    using s by (auto simp: txn_save_def simp del: if_split split: sum.splits)
  then have nn: "no \<noteq> []" using transaction_no_not_Nil by (auto split: if_splits)
  have cols: "json_ok (tx_data tx) = Inr ()" "numeric_ok 10 (tx_amount tx)" "numeric_ok 10 (tx_refund tx)"
      "tx_third tx \<noteq> None" "\<not> tx_refund_null tx"
    and free: "\<And>x. x \<in> set (rows (db_txns db)) \<Longrightarrow> tx_id x \<noteq> tx_id tx \<Longrightarrow> tx_no x \<noteq> no"
    using s no by (auto simp: txn_save_def Let_def qs_exists_iff split: sum.splits if_splits)
  have wf: "t_wf tx_id (db_txns db)" and u: "unique_on tx_no (db_txns db)"
    and old: "\<And>x. x \<in> set (rows (db_txns db)) \<Longrightarrow> txn_columns x
      \<and> tx_order x \<in> ids_of o_id (db_orders (db_ord db)) \<and> tx_method x \<in> ids_of pm_id (db_methods db)"
    using inv by (auto simp: pay_refs_def)
  show ?thesis
  proof (cases "tx_id tx = 0")
    case True
    let ?f = "\<lambda>i. tx\<lparr>tx_no := no, tx_id := i, tx_at := now\<rparr>"
    have all: "tx2 = ?f (seq (db_txns db) + 1) \<and> db' = db\<lparr>db_txns := snd (t_add ?f (db_txns db))\<rparr>"
      using s no True by (auto simp: txn_save_def Let_def t_add_def split: sum.splits if_splits)
    have "tx_id x \<noteq> 0" if "x \<in> set (rows (db_txns db))" for x using that wf by (auto simp: t_wf_def)
    then have "unique_on tx_no (snd (t_add ?f (db_txns db)))"
      using u free True by (auto simp: unique_on_def t_add_def)
    then have "pay_kept db (db\<lparr>db_txns := snd (t_add ?f (db_txns db))\<rparr>)"
    proof (rule put_txns [OF inv, rotated 2])
      show "t_wf tx_id (snd (t_add ?f (db_txns db)))" by (rule t_wf_t_add) (use wf in auto)
    qed (use old o m nn cols in \<open>auto simp: ids_of_t_add set_rows_t_add txn_columns_def\<close>)
    then show ?thesis using all by (simp add: set_rows_t_add)
  next
    case False
    let ?r = "tx\<lparr>tx_no := no\<rparr>"
    have all: "tx2 = ?r \<and> db' = db\<lparr>db_txns := t_save tx_id ?r (db_txns db)\<rparr>"
      using s no False by (auto simp: txn_save_def Let_def split: sum.splits if_splits)
    have k: "tx_id ?r \<in> ids_of tx_id (db_txns db)" using id False by simp
    note S = t_save_mem [OF wf k]
    have "unique_on tx_no (t_save tx_id ?r (db_txns db))"
      by (rule unique_on_rewrite [OF wf u S(3) S(1)]) (use free in simp)
    then have "pay_kept db (db\<lparr>db_txns := t_save tx_id ?r (db_txns db)\<rparr>)"
      by (rule put_txns [OF inv S(3), rotated]) (use S(1,2) old o m nn cols in \<open>auto simp: txn_columns_def\<close>)
    then show ?thesis using all S(1) by simp
  qed
qed

lemma refund_save_kept:
  assumes s: "refund_save M now hex rf db = Inr (rf2, db')" and inv: "pay_refs db"
    and id: "rf_id rf = 0 \<or> rf_id rf \<in> ids_of rf_id (db_refunds db)"
    and t: "rf_txn rf \<in> ids_of tx_id (db_txns db)"
  shows "pay_kept db db' \<and> rf2 \<in> set (rows (db_refunds db')) \<and> rf_txn rf2 = rf_txn rf \<and> rf_amount rf2 = rf_amount rf
     \<and> db_txns db' = db_txns db"
proof -
  obtain no where no: "(if rf_no rf = [] then (case use_name (env_time M) ''time'' of Inl e \<Rightarrow> Inl e
      | Inr _ \<Rightarrow> Inr (''R'' @ dec_int (now div 1000000) @ hex)) else Inr (rf_no rf)) = Inr no"
    using s by (auto simp: refund_save_def simp del: if_split split: sum.splits)
  then have nn: "no \<noteq> []" by (auto split: if_splits sum.splits)
  have wf: "t_wf rf_id (db_refunds db)"
    and old: "\<And>x. x \<in> set (rows (db_refunds db)) \<Longrightarrow> rf_no x \<noteq> [] \<and> rf_txn x \<in> ids_of tx_id (db_txns db)"
    using inv by (auto simp: pay_refs_def)
  show ?thesis
  proof (cases "rf_id rf = 0")
    case True
    let ?f = "\<lambda>i. rf\<lparr>rf_no := no, rf_id := i\<rparr>"
    have all: "rf2 = ?f (seq (db_refunds db) + 1) \<and> db' = db\<lparr>db_refunds := snd (t_add ?f (db_refunds db))\<rparr>"
      using s no True by (auto simp: refund_save_def Let_def t_add_def split: if_splits)
    have "pay_kept db (db\<lparr>db_refunds := snd (t_add ?f (db_refunds db))\<rparr>)"
    proof (rule put_refunds [OF inv])
      show "t_wf rf_id (snd (t_add ?f (db_refunds db)))" by (rule t_wf_t_add) (use wf in auto)
    qed (use old t nn in \<open>auto simp: ids_of_t_add set_rows_t_add\<close>)
    then show ?thesis using all by (simp add: set_rows_t_add)
  next
    case False
    let ?r = "rf\<lparr>rf_no := no\<rparr>"
    have all: "rf2 = ?r \<and> db' = db\<lparr>db_refunds := t_save rf_id ?r (db_refunds db)\<rparr>"
      using s no False by (auto simp: refund_save_def Let_def split: if_splits)
    have k: "rf_id ?r \<in> ids_of rf_id (db_refunds db)" using id False by simp
    note S = t_save_mem [OF wf k]
    have "pay_kept db (db\<lparr>db_refunds := t_save rf_id ?r (db_refunds db)\<rparr>)"
      by (rule put_refunds [OF inv S(3)]) (use S(1,2) old t nn in auto)
    then show ?thesis using all S(1) by simp
  qed
qed

section \<open>Refund steps\<close>

lemma ids_of_mem: "r \<in> set (rows t) \<Longrightarrow> pk r \<in> ids_of pk t"
  by (simp add: ids_of_def)

lemma refund_record_kept:
  assumes "refund_record E M now hex u a reason tx db = (r, db')" and "pay_refs db" and "tx_id tx \<in> ids_of tx_id (db_txns db)"
  shows "pay_kept db db'"
proof (cases "db' = db")
  case False
  let ?rf = "\<lparr>rf_id = 0, rf_no = [], rf_txn = tx_id tx, rf_amount = a, rf_reason = reason,
    rf_status = RCompleted, rf_by = Some (u_id u), rf_handled_at = Some now, rf_reject_reason = []\<rparr>"
  from assms(1) False obtain rf where s: "refund_save M now hex ?rf db = Inr (rf, db')"
    by (auto simp: refund_record_def split: sum.splits)
  show ?thesis using refund_save_kept [OF s assms(2)] assms(3) by simp
qed (simp add: assms(2) pay_kept_refl)

lemma refund_amounts_same:
  "refund_amounts E now tx a = Inr tx1 \<Longrightarrow> tx_id tx1 = tx_id tx \<and> tx_order tx1 = tx_order tx \<and> tx_method tx1 = tx_method tx"
  by (auto simp: refund_amounts_def Let_def split: if_splits sum.splits)

lemma txn_refs:
  assumes "pay_refs db" and "tx \<in> set (rows (db_txns db))"
  shows "tx_id tx \<in> ids_of tx_id (db_txns db)" and "tx_order tx \<in> ids_of o_id (db_orders (db_ord db))"
    and "tx_method tx \<in> ids_of pm_id (db_methods db)"
  using assms by (auto simp: pay_refs_def ids_of_mem)

lemma refund_body_kept:
  assumes "refund_body E M lib now hex u amount reason tx db = (r, db')" and "pay_refs db" and "tx \<in> set (rows (db_txns db))"
  shows "pay_kept db db'"
proof (cases "db' = db")
  case False
  then obtain a null tx1 tx2 db1 where m: "refund_amounts E now tx a = Inr tx1"
    and s: "txn_save M now hex (tx1\<lparr>tx_refund_null := null\<rparr>) db = Inr (tx2, db1)"
    and q: "refund_record E M now hex u a reason tx2 db1 = (r, db')"
    using assms(1) by (auto simp: refund_body_def split: option.splits sum.splits if_splits)
  have k: "pay_kept db db1 \<and> tx2 \<in> set (rows (db_txns db1))"
    by (rule txn_save_kept [OF s assms(2)]) (use refund_amounts_same [OF m] txn_refs [OF assms(2,3)] in auto)
  have "pay_kept db1 db'"
    by (rule refund_record_kept [OF q]) (use k pay_kept_refs in \<open>auto simp: ids_of_mem\<close>)
  with k show ?thesis using pay_kept_trans by blast
qed (simp add: assms(2) pay_kept_refl)

lemma reject_body_kept:
  assumes "reject_body E M now hex u reason rf db = (r, db')" and "pay_refs db" and "rf \<in> set (rows (db_refunds db))"
  shows "pay_kept db db'"
proof (cases "db' = db")
  case False
  let ?rf = "rf\<lparr>rf_status := RRejected, rf_by := Some (u_id u), rf_handled_at := Some now, rf_reject_reason := reason\<rparr>"
  from assms(1) False obtain rf1 where s: "refund_save M now hex ?rf db = Inr (rf1, db')"
    by (auto simp: reject_body_def split: sum.splits)
  have "rf_id ?rf \<in> ids_of rf_id (db_refunds db)" using assms(3) by (simp add: ids_of_mem)
  then show ?thesis using refund_save_kept [OF s assms(2)] assms(2,3) by (simp add: pay_refs_def)
qed (simp add: assms(2) pay_kept_refl)

text \<open>An approval is up to three saves; each of them keeps the references, so stopping after any does.\<close>

lemma approve_body_kept:
  assumes "approve_body E M lib now hex u rf db = (r, db')" and inv: "pay_refs db" and rf: "rf \<in> set (rows (db_refunds db))"
  shows "pay_kept db db'"
proof (cases "db' = db")
  case False
  let ?rf = "rf\<lparr>rf_status := RApproved, rf_by := Some (u_id u), rf_handled_at := Some now\<rparr>"
  from assms(1) False obtain rf1 db1 where s1: "refund_save M now hex ?rf db = Inr (rf1, db1)"
    by (auto simp: approve_body_def split: sum.splits)
  have i: "rf_id ?rf \<in> ids_of rf_id (db_refunds db)" "rf_txn ?rf \<in> ids_of tx_id (db_txns db)"
    using rf inv by (simp_all add: ids_of_mem pay_refs_def)
  have k1: "pay_kept db db1" "rf1 \<in> set (rows (db_refunds db1))" "pay_refs db1"
    using refund_save_kept [OF s1 inv] i pay_kept_refs by auto
  show ?thesis
  proof (cases "db' = db1")
    case False
    let ?done = "\<lambda>tx a. let tx1 = tx\<lparr>tx_refund := tx_refund tx + a\<rparr> in if tx_refund tx1 = tx_amount tx1
        then tx1\<lparr>tx_status := TRefunded, tx_refunded_at := Some now\<rparr> else tx1"
    from False obtain tx rf2 db2 where tx: "t_find tx_id (rf_txn rf1) (db_txns db1) = Some tx"
      and s2: "refund_save M now hex (rf1\<lparr>rf_status := RCompleted\<rparr>) db1 = Inr (rf2, db2)"
      and last: "db' = db2 \<or> (\<exists>x. txn_save M now hex (?done tx (rf_amount rf2)) db2 = Inr (x, db'))"
      using assms(1) s1 \<open>db' \<noteq> db\<close>
      by (auto simp: approve_body_def Let_def split: sum.splits option.splits)
    have rest: "db' = db2 \<or> (\<exists>x tx2. txn_save M now hex tx2 db2 = Inr (x, db') \<and> tx_id tx2 = tx_id tx
         \<and> tx_order tx2 = tx_order tx \<and> tx_method tx2 = tx_method tx)"
    proof (cases "db' = db2")
      case False
      with last obtain x where "txn_save M now hex (?done tx (rf_amount rf2)) db2 = Inr (x, db')" by blast
      moreover have "tx_id (?done tx a) = tx_id tx \<and> tx_order (?done tx a) = tx_order tx \<and> tx_method (?done tx a) = tx_method tx" for a
        by (simp add: Let_def)
      ultimately show ?thesis by blast
    qed simp
    have i1: "rf_id rf1 \<in> ids_of rf_id (db_refunds db1)" "rf_txn rf1 \<in> ids_of tx_id (db_txns db1)"
      using k1(2,3) by (simp_all add: ids_of_mem pay_refs_def)
    have k2: "pay_kept db1 db2" "db_txns db2 = db_txns db1" "pay_refs db2"
      using refund_save_kept [OF s2 k1(3)] i1 pay_kept_refs by auto
    have tx2: "tx \<in> set (rows (db_txns db2))" using t_find_mem [OF tx] k2(2) by simp
    have "pay_kept db2 db'"
    proof (cases "db' = db2")
      case False
      with rest obtain x t where t: "txn_save M now hex t db2 = Inr (x, db')" "tx_id t = tx_id tx"
          "tx_order t = tx_order tx" "tx_method t = tx_method tx" by blast
      show ?thesis using txn_save_kept [OF t(1) k2(3)] t(2-4) txn_refs [OF k2(3) tx2] by simp
    qed (simp add: k2(3) pay_kept_refl)
    then show ?thesis using k1(1) k2(1) pay_kept_trans by blast
  qed (simp add: k1(1))
qed (simp add: inv pay_kept_refl)

section \<open>One request\<close>

interpretation method_table: keyed_table db_methods pm_id method_key store_methods
  by unfold_locales (auto simp: store_methods_def store_unique_def)

definition pay_step :: "request \<Rightarrow> payments_db \<Rightarrow> payments_db \<Rightarrow> bool" where
  "pay_step rq db db' \<longleftrightarrow> pay_refs db' \<and> db_ord db' = db_ord db
     \<and> (\<forall>b. rq_tenant rq \<noteq> Some b \<longrightarrow> rows_of pm_shop b (db_methods db') = rows_of pm_shop b (db_methods db)
          \<and> rows_of wc_shop b (db_wechat db') = rows_of wc_shop b (db_wechat db))"

lemma pay_step_kept: "pay_kept db db' \<Longrightarrow> pay_step rq db db'"
  by (simp add: pay_step_def pay_kept_def)

lemma pay_step_refl: "pay_refs db \<Longrightarrow> pay_step rq db db"
  by (simp add: pay_step_def)

lemma with_pay_staff_step:
  assumes "pay_refs db" and "\<And>r db'. body db = (r, db') \<Longrightarrow> pay_step rq db db'"
  shows "pay_step rq db (snd (with_pay_staff rq body db))"
proof -
  obtain r db' where run: "with_pay_staff rq body db = (r, db')" by fastforce
  from staff_only_cases [OF run [unfolded with_pay_staff_def]] show ?thesis
    using assms run pay_step_refl by auto
qed

lemma method_objectD:
  assumes "method_object rq pk db = Some m"
  shows "m \<in> set (rows (db_methods db))" and "rq_tenant rq = Some (pm_shop m)" and "pm_id m = pk"
  using qs_first_SomeD [OF assms [unfolded method_object_def]] by simp_all

text \<open>Writing the methods: the references hold as long as no method in use goes.\<close>

lemma put_methods:
  assumes "pay_refs db" and "t_wf pm_id (db_methods db')" and "unique_on method_key (db_methods db')"
    and "db' = db\<lparr>db_methods := t\<rparr>"
    and "\<And>x. x \<in> set (rows (db_txns db)) \<Longrightarrow> tx_method x \<in> ids_of pm_id (db_methods db) \<Longrightarrow> tx_method x \<in> ids_of pm_id t"
    and "\<And>b. rq_tenant rq \<noteq> Some b \<Longrightarrow> rows_of pm_shop b t = rows_of pm_shop b (db_methods db)"
  shows "pay_step rq db db'"
  using assms by (auto simp: pay_step_def pay_refs_def)

lemma store_methods_InrD: "store_methods t db = Inr db' \<Longrightarrow> db' = db\<lparr>db_methods := t\<rparr> \<and> unique_on method_key t"
  by (auto simp: store_methods_def store_unique_def split: if_splits)

lemma method_insert_step:
  assumes "method_insert rq b db = Inr (m, db')" and "pay_refs db"
  shows "pay_step rq db db'"
proof -
  let ?f = "\<lambda>tn i. (method_apply b (blank_method tn))\<lparr>pm_id := i\<rparr>"
  from assms(1) obtain tn where tn: "rq_tenant rq = Some tn"
    and c: "(case store_methods (snd (t_add (?f tn) (db_methods db))) db of Inl e \<Rightarrow> Inl e
      | Inr d \<Rightarrow> Inr (fst (t_add (?f tn) (db_methods db)), d)) = Inr (m, db')"
    by (auto simp: method_insert_def for_tenant_Inr Let_def case_prod_beta)
  from c have s: "store_methods (snd (t_add (?f tn) (db_methods db))) db = Inr db'"
    by (auto split: sum.splits)
  note D = store_methods_InrD [OF s]
  have wf: "t_wf pm_id (db_methods db)" using assms(2) by (simp add: pay_refs_def)
  have "t_wf pm_id (snd (t_add (?f tn) (db_methods db)))" by (rule t_wf_t_add) (use wf in auto)
  with D show ?thesis
    by (intro put_methods [OF assms(2), of _ "snd (t_add (?f tn) (db_methods db))"] rows_of_t_add)
      (auto simp: ids_of_t_add tn method_apply_def blank_method_def)
qed

lemma method_write_step:
  assumes "method_write b m db = Inr (x, db')" and "pay_refs db" and "method_object rq pk db = Some m"
  shows "pay_step rq db db'"
proof -
  let ?m = "method_apply b m"
  note M = method_objectD [OF assms(3)]
  have s: "store_methods (t_save pm_id ?m (db_methods db)) db = Inr db'"
    using assms(1) by (auto simp: method_write_def split: sum.splits)
  note D = store_methods_InrD [OF s]
  have wf: "t_wf pm_id (db_methods db)" using assms(2) by (simp add: pay_refs_def)
  have cols: "pm_id ?m = pm_id m" "pm_shop ?m = pm_shop m" by (simp_all add: method_apply_def)
  have k: "pm_id ?m \<in> ids_of pm_id (db_methods db)" using M(1) by (simp add: ids_of_mem cols)
  note S = t_save_mem [OF wf k]
  show ?thesis
    by (rule put_methods [OF assms(2), of _ "t_save pm_id ?m (db_methods db)"])
      (use D S(2,3) rows_of_t_save [OF wf M(1) cols(1), of pm_shop] M(2) cols(2) in auto)
qed

lemma method_delete_step:
  assumes "method_delete m db = Inr db'" and "pay_refs db" and "method_object rq pk db = Some m"
  shows "pay_step rq db db'"
proof -
  let ?t = "t_del (\<lambda>r. pm_id r = pm_id m) (db_methods db)"
  note M = method_objectD [OF assms(3)]
  have D: "db' = db\<lparr>db_methods := ?t\<rparr>" and free: "\<And>x. x \<in> set (rows (db_txns db)) \<Longrightarrow> tx_method x \<noteq> pm_id m"
    using assms(1) by (auto simp: method_delete_def qs_exists_iff split: if_splits)
  have wf: "t_wf pm_id (db_methods db)" "unique_on method_key (db_methods db)" using assms(2) by (simp_all add: pay_refs_def)
  show ?thesis
    by (rule put_methods [OF assms(2) _ _ D])
      (use M free wf D method_table.delete_row(1) [OF wf M(1)] rows_of_t_del [OF wf(1) M(1)] t_wf_t_del in \<open>auto simp: ids_of_def rows_t_del\<close>)
qed

lemma txn_objectD: "txn_object rq pk db = Some t \<Longrightarrow> t \<in> set (rows (db_txns db)) \<and> tx_id t = pk"
  using qs_first_SomeD by (fastforce simp: txn_object_def)

lemma refund_objectD: "refund_object rq pk db = Some f \<Longrightarrow> f \<in> set (rows (db_refunds db)) \<and> rf_id f = pk"
  using qs_first_SomeD by (fastforce simp: refund_object_def)

lemma txn_apply_refs:
  assumes "txn_valid partial b db"
    and "partial \<Longrightarrow> tx_order t \<in> ids_of o_id (db_orders (db_ord db)) \<and> tx_method t \<in> ids_of pm_id (db_methods db)"
  shows "tx_order (txn_apply b t) \<in> ids_of o_id (db_orders (db_ord db)) \<and> tx_method (txn_apply b t) \<in> ids_of pm_id (db_methods db)"
  using assms
  by (auto simp: txn_valid_def txn_apply_def needed_def or_default_def qs_exists_iff ids_of_def split: option.splits)

lemma txn_apply_id [simp]: "tx_id (txn_apply b t) = tx_id t"
  by (simp add: txn_apply_def)

lemma txn_insert_step:
  assumes "txn_save M now hex (txn_apply b blank_txn) db = Inr (t, db')" and "pay_refs db" and "txn_valid False b db"
  shows "pay_step rq db db'"
proof -
  have "pay_kept db db' \<and> t \<in> set (rows (db_txns db'))"
    by (rule txn_save_kept [OF assms(1,2)]) (use txn_apply_refs [OF assms(3)] in \<open>auto simp: blank_txn_def\<close>)
  then show ?thesis by (simp add: pay_step_kept)
qed

lemma txn_write_step:
  assumes "txn_save M now hex (txn_apply b t) db = Inr (t', db')" and "pay_refs db" and "txn_valid partial b db"
    and "txn_object rq pk db = Some t"
  shows "pay_step rq db db'"
proof -
  have t: "t \<in> set (rows (db_txns db))" using txn_objectD [OF assms(4)] by simp
  have "pay_kept db db' \<and> t' \<in> set (rows (db_txns db'))"
    by (rule txn_save_kept [OF assms(1,2)]) (use txn_apply_refs [OF assms(3), of t] txn_refs [OF assms(2) t] in auto)
  then show ?thesis by (simp add: pay_step_kept)
qed

lemma txn_delete_step:
  assumes "txn_delete t db = Inr db'" and "pay_refs db"
  shows "pay_step rq db db'"
proof -
  have "i \<in> ids_of tx_id (t_del (\<lambda>r. tx_id r = tx_id t) (db_txns db))" if "i \<in> ids_of tx_id (db_txns db)" "i \<noteq> tx_id t" for i
    using that by (auto simp: ids_of_def rows_t_del)
  then show ?thesis using assms by (auto simp: txn_delete_def pay_step_def pay_refs_def t_wf_t_del rows_t_del unique_on_def
      distinct_map_filter)
qed

lemma refund_create_step:
  assumes "pay_refs db"
  shows "pay_step rq db (snd (refund_request_create M now hex rq txn a reason db))"
proof -
  let ?rf = "\<lparr>rf_id = 0, rf_no = [], rf_txn = txn, rf_amount = a, rf_reason = reason,
     rf_status = RPending, rf_by = None, rf_handled_at = None, rf_reject_reason = []\<rparr>"
  obtain r db' where run: "refund_request_create M now hex rq txn a reason db = (r, db')" by fastforce
  show ?thesis
  proof (cases "db' = db")
    case False
    then have t: "txn \<in> ids_of tx_id (db_txns db)" and "\<exists>f. refund_save M now hex ?rf db = Inr (f, db')"
      using run by (auto simp: refund_request_create_def qs_exists_iff ids_of_def split: sum.splits bool.splits if_splits)
    then obtain f where s: "refund_save M now hex ?rf db = Inr (f, db')" by blast
    show ?thesis using refund_save_kept [OF s assms] t run by (simp add: pay_step_kept)
  qed (simp add: run assms pay_step_refl)
qed

lemma refund_write_step:
  assumes "refund_save M now hex (refund_apply b f) db = Inr (f', db')" and "pay_refs db" and "refund_valid partial b db"
    and "refund_object rq pk db = Some f"
  shows "pay_step rq db db'"
proof -
  have f: "f \<in> set (rows (db_refunds db))" using refund_objectD [OF assms(4)] by simp
  have t: "rf_txn f \<in> ids_of tx_id (db_txns db)" using assms(2) f by (simp add: pay_refs_def)
  have "rf_txn (refund_apply b f) \<in> ids_of tx_id (db_txns db)"
    using assms(3) t by (auto simp: refund_valid_def refund_apply_def needed_def or_default_def qs_exists_iff ids_of_def split: option.splits)
  moreover have "rf_id (refund_apply b f) \<in> ids_of rf_id (db_refunds db)" using f by (simp add: refund_apply_def ids_of_mem)
  ultimately show ?thesis using refund_save_kept [OF assms(1,2)] by (simp add: pay_step_kept)
qed

lemma refund_delete_step:
  assumes "refund_delete f db = Inr db'" and "pay_refs db"
  shows "pay_step rq db db'"
  using assms by (auto simp: refund_delete_def pay_step_def pay_refs_def t_wf_t_del rows_t_del)

lemma process_refund_step:
  assumes "pay_refs db"
  shows "pay_step rq db (snd (process_refund E M lib now hex rq pk act reason db))"
proof -
  obtain r db' where run: "process_refund E M lib now hex rq pk act reason db = (r, db')" by fastforce
  show ?thesis
  proof (cases "db' = db")
    case False
    then obtain f where f: "refund_object rq pk db = Some f"
      and b: "approve_body E M lib now hex (the (rq_user rq)) f db = (r, db') \<or> reject_body E M now hex (the (rq_user rq)) reason f db = (r, db')"
      using run by (auto simp: process_refund_def split: sum.splits bool.splits option.splits refund_action.splits)
    have "f \<in> set (rows (db_refunds db))" using refund_objectD [OF f] by simp
    with b have "pay_kept db db'" using approve_body_kept reject_body_kept assms by blast
    then show ?thesis by (simp add: run pay_step_kept)
  qed (simp add: run assms pay_step_refl)
qed

lemma refund_step:
  assumes "pay_refs db"
  shows "pay_step rq db (snd (refund E M lib now hex rq pk amount reason db))"
proof -
  obtain r db' where run: "refund E M lib now hex rq pk amount reason db = (r, db')" by fastforce
  show ?thesis
  proof (cases "db' = db")
    case False
    then obtain t where t: "txn_object rq pk db = Some t"
      and b: "refund_body E M lib now hex (the (rq_user rq)) amount reason t db = (r, db')"
      using run by (auto simp: refund_def split: sum.splits bool.splits option.splits)
    have "t \<in> set (rows (db_txns db))" using txn_objectD [OF t] by simp
    with b have "pay_kept db db'" using refund_body_kept assms by blast
    then show ?thesis by (simp add: run pay_step_kept)
  qed (simp add: run assms pay_step_refl)
qed

lemma wechat_step:
  assumes "wechat_config_object rq db = Some c" and "pay_refs db"
  shows "pay_step rq db (db\<lparr>db_wechat := t_save wc_id (wechat_apply b c) (db_wechat db)\<rparr>)"
proof -
  have c: "c \<in> set (rows (db_wechat db))" "rq_tenant rq = Some (wc_shop c)"
    using qs_first_SomeD [OF assms(1) [unfolded wechat_config_object_def]] by simp_all
  have cols: "wc_id (wechat_apply b c) = wc_id c" "wc_shop (wechat_apply b c) = wc_shop c" by (simp_all add: wechat_apply_def)
  have wf: "t_wf wc_id (db_wechat db)" using assms(2) by (simp add: pay_refs_def)
  have k: "wc_id (wechat_apply b c) \<in> ids_of wc_id (db_wechat db)" using c(1) by (simp add: cols ids_of_mem)
  have "rows_of wc_shop x (t_save wc_id (wechat_apply b c) (db_wechat db)) = rows_of wc_shop x (db_wechat db)"
    if "rq_tenant rq \<noteq> Some x" for x
    by (rule rows_of_t_save [OF wf c(1) cols(1)]) (use that c(2) cols(2) in auto)
  then show ?thesis using assms(2) t_save_mem(3) [OF wf k] by (simp add: pay_step_def pay_refs_def)
qed

lemmas pay_steps = method_insert_step method_write_step method_delete_step txn_insert_step txn_write_step txn_delete_step
  refund_write_step refund_delete_step wechat_step

lemma handle_pay_step:
  assumes inv: "pay_refs db"
  shows "pay_step (pay_request op) db (snd (handle_pay E M lib op db))"
proof (cases op)
  case (UpdateAlipay partial rq b)
  have "pay_step rq db (snd (with_pay_staff rq (updating (alipay_config_object rq) (\<lambda>_ _. alipay_valid partial b)
       (\<lambda>c db. Inr (alipay_apply b c, db\<lparr>db_alipay := t_save ac_id (alipay_apply b c) (db_alipay db)\<rparr>))) db))"
    by (rule with_pay_staff_step [OF inv], drule updating_cases) (use inv in \<open>auto simp: pay_step_def pay_refs_def\<close>)
  then show ?thesis by (simp add: UpdateAlipay status_of_def alipay_config_update_def)
next
  case (UpdateWechat partial rq b)
  have "pay_step rq db (snd (with_pay_staff rq (updating (wechat_config_object rq) (\<lambda>_ _. wechat_valid partial b)
       (\<lambda>c db. Inr (wechat_apply b c, db\<lparr>db_wechat := t_save wc_id (wechat_apply b c) (db_wechat db)\<rparr>))) db))"
    by (rule with_pay_staff_step [OF inv], drule updating_cases) (use inv wechat_step in \<open>auto intro: pay_step_refl\<close>)
  then show ?thesis by (simp add: UpdateWechat status_of_def wechat_config_update_def)
qed (simp_all add: status_of_def method_create_def method_update_def method_destroy_def transaction_create_def
    transaction_update_def transaction_destroy_def refund_request_update_def refund_request_destroy_def,
  auto simp: inv intro!: with_pay_staff_step refund_create_step process_refund_step refund_step
    intro: pay_steps pay_step_refl dest!: action_cases)

section \<open>The requests as a system\<close>

lemma handle_pay_refused:
  "is_shop_owner_or_staff (pay_staff db) (pay_request op) \<noteq> Inr True \<Longrightarrow> snd (handle_pay E M lib op db) = db"
  by (cases op)
    (auto simp: status_of_def method_create_def method_update_def method_destroy_def transaction_create_def
      transaction_update_def transaction_destroy_def refund_request_update_def refund_request_destroy_def
      refund_request_create_def process_refund_def refund_def wechat_config_update_def alipay_config_update_def
      with_pay_staff_def staff_only_def pay_staff_def split: sum.splits bool.splits)

lemma handle_pay_keeps:
  assumes "pay_refs db"
  shows "pay_refs (snd (handle_pay E M lib op db)) \<and> pay_staff (snd (handle_pay E M lib op db)) = pay_staff db"
  using handle_pay_step [OF assms, of op E M lib] unfolding pay_step_def pay_staff_def by presburger

lemma handle_pay_others:
  assumes "pay_refs db" and "rq_tenant (pay_request op) \<noteq> Some b"
  shows "rows_of pm_shop b (db_methods (snd (handle_pay E M lib op db))) = rows_of pm_shop b (db_methods db)"
    and "rows_of wc_shop b (db_wechat (snd (handle_pay E M lib op db))) = rows_of wc_shop b (db_wechat db)"
  using handle_pay_step [OF assms(1), of op E M lib] assms(2) unfolding pay_step_def by blast+

interpretation pay_methods: tenant_table db_methods pm_shop pay_staff pay_refs pay_request "handle_pay E M lib" for E M lib
  by unfold_locales (fact handle_pay_refused handle_pay_keeps handle_pay_others)+

interpretation pay_wechat: tenant_table db_wechat wc_shop pay_staff pay_refs pay_request "handle_pay E M lib" for E M lib
  by unfold_locales (fact handle_pay_refused handle_pay_keeps handle_pay_others)+

text \<open>A stored transaction in the queryset can be rewritten with any columns the database can hold.\<close>

lemma txn_rewrite:
  assumes inv: "pay_refs db" and t: "txn_object rq pk db = Some t"
    and r: "tx_id t' = tx_id t" "tx_no t' = tx_no t" "txn_columns t'"
  shows "txn_save M now hex t' db = Inr (t', db\<lparr>db_txns := t_save tx_id t' (db_txns db)\<rparr>)"
proof -
  note T = txn_objectD [OF t]
  have wf: "t_wf tx_id (db_txns db)" "unique_on tx_no (db_txns db)" using inv by (simp_all add: pay_refs_def)
  have nz: "tx_id t \<noteq> 0" using T wf(1) by (auto simp: t_wf_def)
  have "tx_id x = tx_id t'" if "x \<in> set (rows (db_txns db))" "tx_no x = tx_no t'" for x
    using wf(2) that conjunct1 [OF T] r(1,2) unfolding unique_on_iff [OF wf(1)] by metis
  then have "\<not> qs_exists (\<lambda>x. tx_id x \<noteq> tx_id t' \<and> tx_no x = tx_no t') (db_txns db)"
    unfolding qs_exists_iff by blast
  then show ?thesis using txn_save_old [of t'] r nz by (simp add: txn_columns_def)
qed

definition blank_patch :: txn_body where
  "blank_patch = \<lparr>xb_order = None, xb_method = None, xb_amount = None, xb_status = None, xb_third = None, xb_refund = None,
     xb_paid_at = None, xb_refunded_at = None\<rparr>"

definition rival_request :: request where
  "rival_request = \<lparr>rq_user = Some (demo_user\<lparr>u_type := SuperAdmin\<rparr>), rq_tenant = Some 4\<rparr>"

definition rival_method :: method_body where
  "rival_method = \<lparr>mb_name = Some ''WeChat'', mb_code = Some Wechat, mb_active = None, mb_sort = None\<rparr>"

lemmas demo_pay_simps = pay_refs_def t_wf_def unique_on_def ids_of_def demo_payments_def demo_txn_def demo_order_def
  demo_method_def demo_refund_def txn_columns_def json_ok_def numeric_ok_def method_key_def

lemma demo_pay_refs: "pay_refs demo_payments"
  by (simp add: demo_pay_simps)

section \<open>Properties\<close>



text \<open>C35: Payment methods and WeChat configurations belong to their shop: a sequence of requests in which none on behalf of
  the shop passes the staff check leaves the methods and the configuration of the shop as they are, whatever the staff
  of other shops do.\<close>

theorem payments_isolated:
  assumes "pay_refs db"
    and "\<And>op. op \<in> set ops \<Longrightarrow> rq_tenant (pay_request op) = Some b \<Longrightarrow>
      is_shop_owner_or_staff (pay_staff db) (pay_request op) \<noteq> Inr True"
  shows "rows_of pm_shop b (db_methods (run_requests (handle_pay E M lib) ops db)) = rows_of pm_shop b (db_methods db)
    \<and> rows_of wc_shop b (db_wechat (run_requests (handle_pay E M lib) ops db)) = rows_of wc_shop b (db_wechat db)"
  using pay_methods.run_isolated [OF assms] pay_wechat.run_isolated [OF assms] by blast

theorem payments_isolated_witness:
  "let ops = [CreateMethod rival_request rival_method, DestroyMethod rival_request 1,
       DestroyMethod \<lparr>rq_user = None, rq_tenant = Some 3\<rparr> 1];
       db = run_requests (handle_pay full_env full_env demo_wechat) ops demo_payments
   in rows_of pm_shop 3 (db_methods db) = rows_of pm_shop 3 (db_methods demo_payments)
     \<and> map pm_id (rows (db_methods db)) = [1, 2, 3]"
proof -
  let ?ops = "[CreateMethod rival_request rival_method, DestroyMethod rival_request 1,
       DestroyMethod \<lparr>rq_user = None, rq_tenant = Some 3\<rparr> 1]"
  let ?db = "run_requests (handle_pay full_env full_env demo_wechat) ?ops demo_payments"
  have "map pm_id (rows (db_methods ?db)) = [1, 2, 3]" by code_simp
  moreover have outside: "is_shop_owner_or_staff (pay_staff demo_payments) (pay_request op) \<noteq> Inr True"
    if "op \<in> set ?ops" "rq_tenant (pay_request op) = Some 3" for op
    using that by (auto simp: rival_request_def is_shop_owner_or_staff_def)
  have "rows_of pm_shop 3 (db_methods ?db) = rows_of pm_shop 3 (db_methods demo_payments)"
    by (rule conjunct1 [OF payments_isolated [OF demo_pay_refs outside]])
  ultimately show ?thesis unfolding Let_def by blast
qed

text \<open>Only one shop can be paid through WeChat: the notification view looks the method up over all shops, so as soon as a
  second shop has created its WeChat method, every notification is refused, for every shop and every body, and changes nothing.\<close>

theorem second_wechat_shop:
  assumes "pay_refs db" and "m \<in> set (rows (db_methods db))" and "pm_code m = Wechat" and "pm_active m"
    and "method_create rq b db = (OK 201 m', db')" and "mb_code b = Some Wechat" and "mb_active b \<noteq> Some False"
  shows "wechat_pay_callback M lib now body db' = (Reject 400 (MultipleObjectsReturned ''PaymentMethod''), db')"
proof -
  let ?P = "\<lambda>p. pm_code p = Wechat \<and> pm_active p"
  let ?f = "\<lambda>tn i. (method_apply b (blank_method tn))\<lparr>pm_id := i\<rparr>"
  have "creating (\<lambda>_. method_valid False b) (method_insert rq b) db = (OK 201 m', db')"
    using assms(5) by (auto simp: method_create_def with_pay_staff_def staff_only_def split: sum.splits bool.splits)
  then have "method_insert rq b db = Inr (m', db')"
    by (auto simp: creating_def split: if_splits sum.splits)
  then obtain tn where "(case store_methods (snd (t_add (?f tn) (db_methods db))) db of Inl e \<Rightarrow> Inl e
      | Inr d \<Rightarrow> Inr (fst (t_add (?f tn) (db_methods db)), d)) = Inr (m', db')"
    by (auto simp: method_insert_def for_tenant_Inr Let_def case_prod_beta)
  then have "store_methods (snd (t_add (?f tn) (db_methods db))) db = Inr db'" by (auto split: sum.splits)
  then have rows: "rows (db_methods db') = rows (db_methods db) @ [?f tn (seq (db_methods db) + 1)]"
    by (auto dest!: store_methods_InrD simp: t_add_def)
  have new: "?P (?f tn (seq (db_methods db) + 1))"
    using assms(6,7) by (auto simp: method_apply_def blank_method_def or_default_def split: option.splits)
  obtain x xs where "filter ?P (rows (db_methods db)) = x # xs"
    using assms(2-4) by (metis (mono_tags, lifting) filter_empty_conv neq_Nil_conv)
  with rows new have "qs_get ''PaymentMethod'' ?P (db_methods db') = Inl (MultipleObjectsReturned ''PaymentMethod'')"
    by (cases xs) (simp_all add: qs_get_def qs_filter_def)
  then show ?thesis by (simp add: wechat_pay_callback_def)
qed

theorem second_wechat_shop_witness:
  "let db' = snd (method_create rival_request rival_method demo_payments)
   in wechat_pay_callback full_env demo_wechat 9 ''ORD1'' db' = (Reject 400 (MultipleObjectsReturned ''PaymentMethod''), db')"
proof -
  have "fst (method_create rival_request rival_method demo_payments)
      = OK 201 \<lparr>pm_id = 3, pm_name = ''WeChat'', pm_code = Wechat, pm_active = True, pm_sort = 0, pm_shop = 4\<rparr>"
    by code_simp
  then have c: "method_create rival_request rival_method demo_payments
      = (OK 201 \<lparr>pm_id = 3, pm_name = ''WeChat'', pm_code = Wechat, pm_active = True, pm_sort = 0, pm_shop = 4\<rparr>,
         snd (method_create rival_request rival_method demo_payments))"
    by (metis prod.collapse)
  show ?thesis
    unfolding Let_def
    by (rule second_wechat_shop [OF demo_pay_refs _ _ _ c, of "demo_method 1 Wechat"])
      (simp_all add: demo_payments_def demo_method_def rival_method_def)
qed

text \<open>Status and refunded amount of a transaction are plain columns for the staff of its shop: any status and any
  refunded amount can be written, without a payment or a refund, and the order stays as it is.  So the limit of the
  refunds holds only until someone resets the column.\<close>

theorem transaction_rows_writable:
  assumes inv: "pay_refs db" and staff: "is_shop_owner_or_staff (pay_staff db) rq = Inr True"
    and t: "txn_object rq pk db = Some t" and a: "0 \<le> a" "numeric_ok 10 a"
  shows "\<exists>db'. transaction_update M now hex True rq pk (blank_patch\<lparr>xb_status := Some st, xb_refund := Some a\<rparr>) db
        = (OK 200 (t\<lparr>tx_status := st, tx_refund := a\<rparr>), db')
     \<and> t_find tx_id pk (db_txns db') = Some (t\<lparr>tx_status := st, tx_refund := a\<rparr>) \<and> db_ord db' = db_ord db"
proof -
  let ?b = "blank_patch\<lparr>xb_status := Some st, xb_refund := Some a\<rparr>"
  let ?t = "t\<lparr>tx_status := st, tx_refund := a\<rparr>"
  note T = txn_objectD [OF t]
  have ap: "txn_apply ?b t = ?t" by (simp add: txn_apply_def blank_patch_def or_default_def)
  have v: "txn_valid True ?b db" using a by (simp add: txn_valid_def blank_patch_def needed_def optional_def)
  have "txn_columns t" using inv T by (simp add: pay_refs_def)
  then have s: "txn_save M now hex ?t db = Inr (?t, db\<lparr>db_txns := t_save tx_id ?t (db_txns db)\<rparr>)"
    by (intro txn_rewrite [OF inv t]) (use a(2) in \<open>simp_all add: txn_columns_def\<close>)
  have "t_find tx_id pk (t_save tx_id ?t (db_txns db)) = Some ?t" using T by (simp add: t_find_t_save)
  then show ?thesis
    using staff t v s by (simp add: transaction_update_def with_pay_staff_def staff_only_def updating_def ap)
qed

theorem transaction_rows_writable_witness:
  "let reset = \<lambda>db. snd (transaction_update full_env 6 [] True demo_request 1
         (blank_patch\<lparr>xb_status := Some TPaid, xb_refund := Some 0\<rparr>) db);
       again = \<lambda>hex db. snd (refund full_env full_env demo_wechat 5000000 hex demo_request 1 (Some 3000) [] db);
       db = again ''B'' (reset (again ''A'' demo_payments))
   in sum_list (map rf_amount (filter (\<lambda>f. rf_status f = RCompleted) (rows (db_refunds db)))) = 6000
     \<and> (\<exists>t. t_find tx_id 1 (db_txns (reset demo_payments)) = Some t \<and> tx_amount t = 3000)"
proof -
  let ?reset = "\<lambda>db. snd (transaction_update full_env 6 [] True demo_request 1
         (blank_patch\<lparr>xb_status := Some TPaid, xb_refund := Some 0\<rparr>) db)"
  let ?again = "\<lambda>hex db. snd (refund full_env full_env demo_wechat 5000000 hex demo_request 1 (Some 3000) [] db)"
  have "sum_list (map rf_amount (filter (\<lambda>f. rf_status f = RCompleted)
      (rows (db_refunds (?again ''B'' (?reset (?again ''A'' demo_payments))))))) = 6000" by code_simp
  moreover have "is_shop_owner_or_staff (pay_staff demo_payments) demo_request = Inr True" by code_simp
  moreover have t: "txn_object demo_request 1 demo_payments = Some demo_txn" by code_simp
  moreover have "numeric_ok 10 0" by (simp add: numeric_ok_def)
  moreover have "tx_amount demo_txn = 3000" by (simp add: demo_txn_def)
  ultimately show ?thesis
    using transaction_rows_writable [OF demo_pay_refs _ t, of 0 full_env 6 "[]" TPaid] by (auto simp: Let_def)
qed

text \<open>A transaction is in the shop of whatever order it names, and the order can be rewritten: its staff can move a
  transaction onto an order of another shop; they then no longer find it, and the other shop does.\<close>

theorem transaction_moves_shop:
  assumes inv: "pay_refs db" and staff: "is_shop_owner_or_staff (pay_staff db) rq = Inr True"
    and t: "txn_object rq pk db = Some t" and r: "r \<in> set (rows (db_orders (db_ord db)))" "Some (o_shop r) \<noteq> rq_tenant rq"
    and rq': "rq_tenant rq' = Some (o_shop r)"
  shows "\<exists>db'. transaction_update M now hex True rq pk (blank_patch\<lparr>xb_order := Some (o_id r)\<rparr>) db
        = (OK 200 (t\<lparr>tx_order := o_id r\<rparr>), db')
     \<and> txn_object rq pk db' = None \<and> txn_object rq' pk db' = Some (t\<lparr>tx_order := o_id r\<rparr>)"
proof -
  let ?b = "blank_patch\<lparr>xb_order := Some (o_id r)\<rparr>" let ?t = "t\<lparr>tx_order := o_id r\<rparr>"
  let ?db = "db\<lparr>db_txns := t_save tx_id ?t (db_txns db)\<rparr>"
  note T = txn_objectD [OF t]
  have wf: "t_wf tx_id (db_txns db)" "t_wf o_id (db_orders (db_ord db))" using inv by (simp_all add: pay_refs_def)
  have ap: "txn_apply ?b t = ?t" by (simp add: txn_apply_def blank_patch_def or_default_def)
  have v: "txn_valid True ?b db"
    using r(1) by (auto simp: txn_valid_def blank_patch_def needed_def optional_def qs_exists_iff)
  have "txn_columns t" using inv T by (simp add: pay_refs_def)
  then have s: "txn_save M now hex ?t db = Inr (?t, ?db)"
    by (intro txn_rewrite [OF inv t]) (simp_all add: txn_columns_def)
  have run: "transaction_update M now hex True rq pk ?b db = (OK 200 ?t, ?db)"
    using staff t v s by (simp add: transaction_update_def with_pay_staff_def staff_only_def updating_def ap)
  have k: "tx_id ?t \<in> ids_of tx_id (db_txns db)" using ids_of_mem [OF conjunct1 [OF T], of tx_id] by simp
  note S = t_save_mem [OF wf(1) k]
  have only: "x = ?t" if "x \<in> set (rows (db_txns ?db))" "tx_id x = pk" for x
    using that T S(1) by auto
  have shop: "o_shop r' = o_shop r" if "r' \<in> set (rows (db_orders (db_ord db)))" "o_id r' = o_id r" for r'
    using that r(1) find_iff_mem [OF wf(2)] by (metis option.inject)
  have "txn_object rq pk ?db = None"
    unfolding txn_object_def qs_first_None using only shop r(2) by (fastforce simp: qs_exists_iff)
  moreover have "txn_object rq' pk ?db \<noteq> None"
    unfolding txn_object_def qs_first_None using S(1) T r(1) rq' by (auto simp: qs_exists_iff)
  then obtain x where x: "txn_object rq' pk ?db = Some x" by blast
  then have "x = ?t" using txn_objectD [OF x] only by blast
  ultimately show ?thesis using run x by blast
qed

theorem transaction_moves_shop_witness:
  "let db = demo_payments\<lparr>db_ord := (db_ord demo_payments)\<lparr>db_orders := \<lparr>rows = [demo_order, demo_order\<lparr>o_id := 2,
         o_number := ''ORD2'', o_shop := 4\<rparr>], seq = 2\<rparr>\<rparr>\<rparr>
   in \<exists>db' t. transaction_update payments_models_env 6 [] True demo_request 1 (blank_patch\<lparr>xb_order := Some 2\<rparr>) db = (OK 200 t, db')
     \<and> txn_object demo_request 1 db' = None \<and> txn_object rival_request 1 db' = Some t"
proof -
  let ?r = "demo_order\<lparr>o_id := 2, o_number := ''ORD2'', o_shop := 4\<rparr>"
  let ?db = "demo_payments\<lparr>db_ord := (db_ord demo_payments)\<lparr>db_orders := \<lparr>rows = [demo_order, ?r], seq = 2\<rparr>\<rparr>\<rparr>"
  have inv: "pay_refs ?db"
    by (simp add: demo_pay_simps)
  have st: "is_shop_owner_or_staff (pay_staff ?db) demo_request = Inr True" by code_simp
  have t: "txn_object demo_request 1 ?db = Some demo_txn" by code_simp
  have r: "?r \<in> set (rows (db_orders (db_ord ?db)))" "Some (o_shop ?r) \<noteq> rq_tenant demo_request"
    and q: "rq_tenant rival_request = Some (o_shop ?r)" and id: "o_id ?r = 2"
    by (simp_all add: demo_request_def rival_request_def)
  show ?thesis
    unfolding Let_def using transaction_moves_shop [OF inv st t r q, of payments_models_env 6 "[]"] unfolding id by blast
qed

end
