(* ===== verification/Promotion_Views.thy ===== *)
theory Promotion_Views
  imports Promotions Tenant_Views
begin

text \<open>
  The viewsets of \<open>promotions/api.py\<close> for granting rules and promotions, with the actions of theory
  \<open>Tenant_Views\<close>, and what the management of coupons, rules and promotions keeps apart between shops.
\<close>

section \<open>Granting rules\<close>

text \<open>\<open>CouponRuleSerializer\<close>: the coupon can be any coupon of the database.\<close>

record grant_body =
  gb_name :: "string option"
  gb_type :: "grant_type option"
  gb_coupon :: "int option"
  gb_active :: "bool option"

definition grant_valid :: "bool \<Rightarrow> grant_body \<Rightarrow> promo_db \<Rightarrow> bool" where
  "grant_valid partial b db \<longleftrightarrow> needed partial (gb_name b) (text_ok 100) \<and> needed partial (gb_type b) (\<lambda>_. True)
     \<and> needed partial (gb_coupon b) (\<lambda>i. qs_exists (\<lambda>c. cp_id c = i) (db_coupons db))"

definition grant_apply :: "grant_body \<Rightarrow> grant_row \<Rightarrow> grant_row" where
  "grant_apply b r = r\<lparr>cr_name := or_default (gb_name b) (cr_name r), cr_type := or_default (gb_type b) (cr_type r),
     cr_coupon := or_default (gb_coupon b) (cr_coupon r), cr_active := or_default (gb_active b) (cr_active r)\<rparr>"

definition blank_grant :: "int \<Rightarrow> grant_row" where
  "blank_grant shop = \<lparr>cr_id = 0, cr_name = [], cr_type = ManualGrant, cr_coupon = 0, cr_shop = shop, cr_active = True\<rparr>"

definition grant_object :: "request \<Rightarrow> int \<Rightarrow> promo_db \<Rightarrow> grant_row option" where
  "grant_object rq pk db = qs_first (\<lambda>r. cr_id r = pk \<and> Some (cr_shop r) = rq_tenant rq) (db_grants db)"

definition grant_insert :: "request \<Rightarrow> grant_body \<Rightarrow> promo_db \<Rightarrow> (grant_row \<times> promo_db) res" where
  "grant_insert rq b db = for_tenant rq (\<lambda>tn.
     let (r, t) = t_add (\<lambda>i. (grant_apply b (blank_grant tn))\<lparr>cr_id := i\<rparr>) (db_grants db)
     in Inr (r, db\<lparr>db_grants := t\<rparr>))"

definition grant_list :: "nat \<Rightarrow> request \<Rightarrow> promo_db \<Rightarrow> (grant_row \<times> string option) list reply \<times> promo_db" where
  "grant_list page rq = with_staff rq (\<lambda>db.
     (shown (\<lambda>r. (r, map_option cp_name (t_find cp_id (cr_coupon r) (db_coupons db))))
        (paginated page (qs_filter (\<lambda>r. Some (cr_shop r) = rq_tenant rq) (db_grants db))), db))"

definition grant_retrieve :: "request \<Rightarrow> int \<Rightarrow> promo_db \<Rightarrow> grant_row reply \<times> promo_db" where
  "grant_retrieve rq pk = with_staff rq (retrieving (grant_object rq pk))"

definition grant_create :: "request \<Rightarrow> grant_body \<Rightarrow> promo_db \<Rightarrow> grant_row reply \<times> promo_db" where
  "grant_create rq b = with_staff rq (creating (grant_valid False b) (grant_insert rq b))"

definition grant_update :: "bool \<Rightarrow> request \<Rightarrow> int \<Rightarrow> grant_body \<Rightarrow> promo_db \<Rightarrow> grant_row reply \<times> promo_db" where
  "grant_update partial rq pk b = with_staff rq (updating (grant_object rq pk) (\<lambda>_. grant_valid partial b)
     (\<lambda>r db. Inr (grant_apply b r, db\<lparr>db_grants := t_save cr_id (grant_apply b r) (db_grants db)\<rparr>)))"

definition grant_destroy :: "request \<Rightarrow> int \<Rightarrow> promo_db \<Rightarrow> unit reply \<times> promo_db" where
  "grant_destroy rq pk = with_staff rq (destroying (grant_object rq pk)
     (\<lambda>r db. Inr (db\<lparr>db_grants := t_del (\<lambda>x. cr_id x = cr_id r) (db_grants db)\<rparr>)))"

section \<open>Promotions\<close>

record promotion_body =
  nb_name :: "string option"
  nb_type :: "promotion_type option"
  nb_amount :: "int option option"
  nb_quantity :: "int option option"
  nb_rate :: "int option option"
  nb_discount :: "int option option"
  nb_gift :: "int option option"
  nb_gift_quantity :: "int option"
  nb_products :: "int list option"
  nb_categories :: "int list option"
  nb_from :: "int option"
  nb_until :: "int option"
  nb_active :: "bool option"

definition nullable :: "('a \<Rightarrow> bool) \<Rightarrow> 'a option \<Rightarrow> bool" where
  "nullable ok x = (case x of None \<Rightarrow> True | Some v \<Rightarrow> ok v)"

definition promotion_valid :: "bool \<Rightarrow> promotion_body \<Rightarrow> promo_db \<Rightarrow> bool" where
  "promotion_valid partial b db \<longleftrightarrow>
     needed partial (nb_name b) (text_ok 100) \<and> needed partial (nb_type b) (\<lambda>_. True)
     \<and> optional (nb_amount b) (nullable (numeric_ok 10)) \<and> optional (nb_quantity b) (nullable int4_ok)
     \<and> optional (nb_rate b) (nullable (\<lambda>x. 0 \<le> x \<and> x \<le> 100)) \<and> optional (nb_discount b) (nullable (numeric_ok 10))
     \<and> optional (nb_gift b) (nullable (\<lambda>i. qs_exists (\<lambda>p. p_id p = i) (db_products (db_cat (db_pord db)))))
     \<and> optional (nb_gift_quantity b) int4_ok
     \<and> optional (nb_products b) (list_all (\<lambda>i. qs_exists (\<lambda>p. p_id p = i) (db_products (db_cat (db_pord db)))))
     \<and> optional (nb_categories b) (list_all (\<lambda>i. qs_exists (\<lambda>c. ca_id c = i) (db_categories (db_cat (db_pord db)))))
     \<and> needed partial (nb_from b) (\<lambda>_. True) \<and> needed partial (nb_until b) (\<lambda>_. True)"

definition promotion_apply :: "promotion_body \<Rightarrow> promotion_row \<Rightarrow> promotion_row" where
  "promotion_apply b p = p\<lparr>pn_name := or_default (nb_name b) (pn_name p), pn_type := or_default (nb_type b) (pn_type p),
     pn_amount := or_default (nb_amount b) (pn_amount p), pn_quantity := or_default (nb_quantity b) (pn_quantity p),
     pn_rate := or_default (nb_rate b) (pn_rate p), pn_discount := or_default (nb_discount b) (pn_discount p),
     pn_gift := or_default (nb_gift b) (pn_gift p), pn_gift_quantity := or_default (nb_gift_quantity b) (pn_gift_quantity p),
     pn_products := or_default (map_option remdups (nb_products b)) (pn_products p),
     pn_categories := or_default (map_option remdups (nb_categories b)) (pn_categories p),
     pn_from := or_default (nb_from b) (pn_from p), pn_until := or_default (nb_until b) (pn_until p),
     pn_active := or_default (nb_active b) (pn_active p)\<rparr>"

definition blank_promotion :: "int \<Rightarrow> promotion_row" where
  "blank_promotion shop = \<lparr>pn_id = 0, pn_name = [], pn_type = DiscountPromo, pn_amount = None, pn_quantity = None,
     pn_rate = None, pn_discount = None, pn_gift = None, pn_gift_quantity = 1, pn_products = [], pn_categories = [],
     pn_from = 0, pn_until = 0, pn_active = True, pn_shop = shop\<rparr>"

definition promotion_object :: "request \<Rightarrow> int \<Rightarrow> promo_db \<Rightarrow> promotion_row option" where
  "promotion_object rq pk db = qs_first (\<lambda>p. pn_id p = pk \<and> Some (pn_shop p) = rq_tenant rq) (db_promos db)"

definition promotion_insert :: "request \<Rightarrow> promotion_body \<Rightarrow> promo_db \<Rightarrow> (promotion_row \<times> promo_db) res" where
  "promotion_insert rq b db = for_tenant rq (\<lambda>tn.
     let (p, t) = t_add (\<lambda>i. (promotion_apply b (blank_promotion tn))\<lparr>pn_id := i\<rparr>) (db_promos db)
     in Inr (p, db\<lparr>db_promos := t\<rparr>))"

text \<open>The representation adds \<open>is_valid\<close>.\<close>

definition promotion_list :: "nat \<Rightarrow> int \<Rightarrow> request \<Rightarrow> promo_db \<Rightarrow> (promotion_row \<times> bool) list reply \<times> promo_db" where
  "promotion_list page now rq = with_staff rq (\<lambda>db.
     (shown (\<lambda>p. (p, is_valid_promo now p)) (paginated page (qs_filter (\<lambda>p. Some (pn_shop p) = rq_tenant rq) (db_promos db))), db))"

definition promotion_retrieve :: "request \<Rightarrow> int \<Rightarrow> promo_db \<Rightarrow> promotion_row reply \<times> promo_db" where
  "promotion_retrieve rq pk = with_staff rq (retrieving (promotion_object rq pk))"

definition promotion_create :: "request \<Rightarrow> promotion_body \<Rightarrow> promo_db \<Rightarrow> promotion_row reply \<times> promo_db" where
  "promotion_create rq b = with_staff rq (creating (promotion_valid False b) (promotion_insert rq b))"

definition promotion_update ::
  "bool \<Rightarrow> request \<Rightarrow> int \<Rightarrow> promotion_body \<Rightarrow> promo_db \<Rightarrow> promotion_row reply \<times> promo_db" where
  "promotion_update partial rq pk b = with_staff rq (updating (promotion_object rq pk) (\<lambda>_. promotion_valid partial b)
     (\<lambda>p db. Inr (promotion_apply b p, db\<lparr>db_promos := t_save pn_id (promotion_apply b p) (db_promos db)\<rparr>)))"

definition promotion_destroy :: "request \<Rightarrow> int \<Rightarrow> promo_db \<Rightarrow> unit reply \<times> promo_db" where
  "promotion_destroy rq pk = with_staff rq (destroying (promotion_object rq pk)
     (\<lambda>p db. Inr (db\<lparr>db_promos := t_del (\<lambda>x. pn_id x = pn_id p) (db_promos db)\<rparr>)))"

section \<open>The requests as a system\<close>

datatype promo_op =
    CreateCoupon request coupon_body
  | UpdateCoupon bool request int coupon_body
  | DestroyCoupon request int
  | CreateGrant request grant_body
  | UpdateGrant bool request int grant_body
  | DestroyGrant request int
  | CreatePromotion request promotion_body
  | UpdatePromotion bool request int promotion_body
  | DestroyPromotion request int

primrec promo_request :: "promo_op \<Rightarrow> request" where
  "promo_request (CreateCoupon rq b) = rq"
| "promo_request (UpdateCoupon partial rq pk b) = rq"
| "promo_request (DestroyCoupon rq pk) = rq"
| "promo_request (CreateGrant rq b) = rq"
| "promo_request (UpdateGrant partial rq pk b) = rq"
| "promo_request (DestroyGrant rq pk) = rq"
| "promo_request (CreatePromotion rq b) = rq"
| "promo_request (UpdatePromotion partial rq pk b) = rq"
| "promo_request (DestroyPromotion rq pk) = rq"

primrec handle_promo :: "promo_op \<Rightarrow> promo_db \<Rightarrow> bool \<times> promo_db" where
  "handle_promo (CreateCoupon rq b) db = status_of (coupon_create rq b db)"
| "handle_promo (UpdateCoupon partial rq pk b) db = status_of (coupon_update partial rq pk b db)"
| "handle_promo (DestroyCoupon rq pk) db = status_of (coupon_destroy rq pk db)"
| "handle_promo (CreateGrant rq b) db = status_of (grant_create rq b db)"
| "handle_promo (UpdateGrant partial rq pk b) db = status_of (grant_update partial rq pk b db)"
| "handle_promo (DestroyGrant rq pk) db = status_of (grant_destroy rq pk db)"
| "handle_promo (CreatePromotion rq b) db = status_of (promotion_create rq b db)"
| "handle_promo (UpdatePromotion partial rq pk b) db = status_of (promotion_update partial rq pk b db)"
| "handle_promo (DestroyPromotion rq pk) db = status_of (promotion_destroy rq pk db)"

definition promo_refs :: "promo_db \<Rightarrow> bool" where
  "promo_refs db \<longleftrightarrow> t_wf cp_id (db_coupons db) \<and> t_wf cr_id (db_grants db) \<and> t_wf pn_id (db_promos db)
     \<and> (\<forall>h \<in> set (rows (db_holdings db)). uc_coupon h \<in> ids_of cp_id (db_coupons db))
     \<and> (\<forall>r \<in> set (rows (db_grants db)). cr_coupon r \<in> ids_of cp_id (db_coupons db))"

definition promo_step :: "request \<Rightarrow> promo_db \<Rightarrow> promo_db \<Rightarrow> bool" where
  "promo_step rq db db' \<longleftrightarrow> promo_refs db' \<and> db_pord db' = db_pord db
     \<and> (\<forall>b. rq_tenant rq \<noteq> Some b \<longrightarrow> rows_of cp_shop b (db_coupons db') = rows_of cp_shop b (db_coupons db)
          \<and> rows_of pn_shop b (db_promos db') = rows_of pn_shop b (db_promos db))"

lemma promo_step_refl: "promo_refs db \<Longrightarrow> promo_step rq db db"
  by (simp add: promo_step_def)

lemma with_staff_step:
  assumes "promo_refs db" and "\<And>r db'. body db = (r, db') \<Longrightarrow> promo_step rq db db'"
  shows "promo_step rq db (snd (with_staff rq body db))"
proof -
  obtain r db' where run: "with_staff rq body db = (r, db')" by fastforce
  from staff_only_cases [OF run [unfolded with_staff_def]] show ?thesis using assms run promo_step_refl by auto
qed

lemma put_coupons:
  assumes "promo_refs db" and "t_wf cp_id t" and "ids_of cp_id (db_coupons db) \<subseteq> ids_of cp_id t"
    and "\<And>b. rq_tenant rq \<noteq> Some b \<Longrightarrow> rows_of cp_shop b t = rows_of cp_shop b (db_coupons db)"
  shows "promo_step rq db (db\<lparr>db_coupons := t\<rparr>)"
  using assms by (auto simp: promo_step_def promo_refs_def)

lemma put_grants:
  assumes "promo_refs db" and "t_wf cr_id t" and "\<And>r. r \<in> set (rows t) \<Longrightarrow> cr_coupon r \<in> ids_of cp_id (db_coupons db)"
  shows "promo_step rq db (db\<lparr>db_grants := t\<rparr>)"
  using assms by (auto simp: promo_step_def promo_refs_def)

lemma put_promos:
  assumes "promo_refs db" and "t_wf pn_id t"
    and "\<And>b. rq_tenant rq \<noteq> Some b \<Longrightarrow> rows_of pn_shop b t = rows_of pn_shop b (db_promos db)"
  shows "promo_step rq db (db\<lparr>db_promos := t\<rparr>)"
  using assms by (auto simp: promo_step_def promo_refs_def)

lemma coupon_objectD:
  assumes "coupon_object rq pk db = Some c"
  shows "c \<in> set (rows (db_coupons db))" and "rq_tenant rq = Some (cp_shop c)" and "cp_id c = pk"
  using qs_first_SomeD [OF assms [unfolded coupon_object_def]] by simp_all

lemma grant_objectD:
  assumes "grant_object rq pk db = Some r"
  shows "r \<in> set (rows (db_grants db))" and "rq_tenant rq = Some (cr_shop r)" and "cr_id r = pk"
  using qs_first_SomeD [OF assms [unfolded grant_object_def]] by simp_all

lemma promotion_objectD:
  assumes "promotion_object rq pk db = Some p"
  shows "p \<in> set (rows (db_promos db))" and "rq_tenant rq = Some (pn_shop p)" and "pn_id p = pk"
  using qs_first_SomeD [OF assms [unfolded promotion_object_def]] by simp_all

text \<open>Coupons.\<close>

lemma coupon_insert_step:
  assumes "promo_refs db" and "rq_tenant rq = Some tn"
  shows "promo_step rq db (db\<lparr>db_coupons := snd (t_add (\<lambda>i. (coupon_apply b (blank_coupon tn))\<lparr>cp_id := i\<rparr>) (db_coupons db))\<rparr>)"
proof (rule put_coupons [OF assms(1)])
  show "t_wf cp_id (snd (t_add (\<lambda>i. (coupon_apply b (blank_coupon tn))\<lparr>cp_id := i\<rparr>) (db_coupons db)))"
    by (rule t_wf_t_add) (use assms(1) in \<open>auto simp: promo_refs_def\<close>)
qed (use assms(2) in \<open>auto simp: ids_of_t_add coupon_apply_def blank_coupon_def intro!: rows_of_t_add\<close>)

lemma coupon_write_step:
  assumes "promo_refs db" and "coupon_object rq pk db = Some c"
  shows "promo_step rq db (db\<lparr>db_coupons := t_save cp_id (coupon_apply b c) (db_coupons db)\<rparr>)"
proof -
  note C = coupon_objectD [OF assms(2)]
  have cols: "cp_id (coupon_apply b c) = cp_id c" "cp_shop (coupon_apply b c) = cp_shop c" by (simp_all add: coupon_apply_def)
  have wf: "t_wf cp_id (db_coupons db)" using assms(1) by (simp add: promo_refs_def)
  have k: "cp_id (coupon_apply b c) \<in> ids_of cp_id (db_coupons db)" using C(1) by (simp add: cols ids_of_def)
  note S = t_save_mem [OF wf k]
  show ?thesis
    by (rule put_coupons [OF assms(1) S(3)])
      (use S(2) C(2) cols(2) rows_of_t_save [OF wf C(1) cols(1), of cp_shop] in auto)
qed

lemma coupon_delete_step:
  assumes "promo_refs db" and "coupon_object rq pk db = Some c"
  shows "promo_step rq db (db\<lparr>db_coupons := t_del (\<lambda>r. cp_id r = cp_id c) (db_coupons db),
     db_holdings := t_del (\<lambda>h. uc_coupon h = cp_id c) (db_holdings db),
     db_grants := t_del (\<lambda>r. cr_coupon r = cp_id c) (db_grants db)\<rparr>)"
proof -
  note C = coupon_objectD [OF assms(2)]
  have wf: "t_wf cp_id (db_coupons db)" using assms(1) by (simp add: promo_refs_def)
  have "i \<in> ids_of cp_id (t_del (\<lambda>r. cp_id r = cp_id c) (db_coupons db))"
    if "i \<in> ids_of cp_id (db_coupons db)" "i \<noteq> cp_id c" for i
    using that by (auto simp: ids_of_def rows_t_del)
  moreover have "rows_of cp_shop b (t_del (\<lambda>r. cp_id r = cp_id c) (db_coupons db)) = rows_of cp_shop b (db_coupons db)"
    if "rq_tenant rq \<noteq> Some b" for b
    by (rule rows_of_t_del [OF wf C(1)]) (use that C(2) in simp)
  ultimately show ?thesis
    using assms(1) by (simp add: promo_step_def promo_refs_def t_wf_t_del rows_t_del)
qed

text \<open>Granting rules.\<close>

lemma grant_apply_coupon:
  assumes "grant_valid partial b db" and "partial \<Longrightarrow> cr_coupon r \<in> ids_of cp_id (db_coupons db)"
  shows "cr_coupon (grant_apply b r) \<in> ids_of cp_id (db_coupons db)"
  using assms by (auto simp: grant_valid_def grant_apply_def needed_def or_default_def qs_exists_iff ids_of_def split: option.splits)

lemma grant_insert_step:
  assumes "grant_insert rq b db = Inr (r, db')" and "promo_refs db" and "grant_valid False b db"
  shows "promo_step rq db db'"
proof -
  let ?f = "\<lambda>tn i. (grant_apply b (blank_grant tn))\<lparr>cr_id := i\<rparr>"
  obtain tn where db': "db' = db\<lparr>db_grants := snd (t_add (?f tn) (db_grants db))\<rparr>"
    using assms(1) by (auto simp: grant_insert_def for_tenant_Inr Let_def case_prod_beta)
  have "t_wf cr_id (snd (t_add (?f tn) (db_grants db)))"
    by (rule t_wf_t_add) (use assms(2) in \<open>auto simp: promo_refs_def\<close>)
  then show ?thesis
    unfolding db'
    by (rule put_grants [OF assms(2)])
      (use grant_apply_coupon [OF assms(3)] assms(2) in \<open>auto simp: set_rows_t_add promo_refs_def\<close>)
qed

lemma grant_write_step:
  assumes "promo_refs db" and "grant_object rq pk db = Some r" and "grant_valid partial b db"
  shows "promo_step rq db (db\<lparr>db_grants := t_save cr_id (grant_apply b r) (db_grants db)\<rparr>)"
proof -
  note G = grant_objectD [OF assms(2)]
  have wf: "t_wf cr_id (db_grants db)" using assms(1) by (simp add: promo_refs_def)
  have k: "cr_id (grant_apply b r) \<in> ids_of cr_id (db_grants db)" using G(1) by (simp add: grant_apply_def ids_of_def)
  note S = t_save_mem [OF wf k]
  show ?thesis
    by (rule put_grants [OF assms(1) S(3)])
      (use S(1) grant_apply_coupon [OF assms(3), of r] G(1) assms(1) in \<open>auto simp: promo_refs_def\<close>)
qed

lemma grant_delete_step:
  "promo_refs db \<Longrightarrow> promo_step rq db (db\<lparr>db_grants := t_del P (db_grants db)\<rparr>)"
  by (rule put_grants) (auto simp: promo_refs_def t_wf_t_del rows_t_del)

text \<open>Promotions.\<close>

lemma promotion_insert_step:
  assumes "promotion_insert rq b db = Inr (p, db')" and "promo_refs db"
  shows "promo_step rq db db'"
proof -
  let ?f = "\<lambda>tn i. (promotion_apply b (blank_promotion tn))\<lparr>pn_id := i\<rparr>"
  obtain tn where tn: "rq_tenant rq = Some tn" and db': "db' = db\<lparr>db_promos := snd (t_add (?f tn) (db_promos db))\<rparr>"
    using assms(1) by (auto simp: promotion_insert_def for_tenant_Inr Let_def case_prod_beta)
  have "t_wf pn_id (snd (t_add (?f tn) (db_promos db)))"
    by (rule t_wf_t_add) (use assms(2) in \<open>auto simp: promo_refs_def\<close>)
  then show ?thesis
    unfolding db'
    by (rule put_promos [OF assms(2)]) (use tn in \<open>auto simp: promotion_apply_def blank_promotion_def intro!: rows_of_t_add\<close>)
qed

lemma promotion_write_step:
  assumes "promo_refs db" and "promotion_object rq pk db = Some p"
  shows "promo_step rq db (db\<lparr>db_promos := t_save pn_id (promotion_apply b p) (db_promos db)\<rparr>)"
proof -
  note P = promotion_objectD [OF assms(2)]
  have cols: "pn_id (promotion_apply b p) = pn_id p" "pn_shop (promotion_apply b p) = pn_shop p"
    by (simp_all add: promotion_apply_def)
  have wf: "t_wf pn_id (db_promos db)" using assms(1) by (simp add: promo_refs_def)
  have k: "pn_id (promotion_apply b p) \<in> ids_of pn_id (db_promos db)" using P(1) by (simp add: cols ids_of_def)
  show ?thesis
    by (rule put_promos [OF assms(1) t_save_mem(3) [OF wf k]])
      (use P(2) cols(2) rows_of_t_save [OF wf P(1) cols(1), of pn_shop] in auto)
qed

lemma promotion_delete_step:
  assumes "promo_refs db" and "promotion_object rq pk db = Some p"
  shows "promo_step rq db (db\<lparr>db_promos := t_del (\<lambda>x. pn_id x = pn_id p) (db_promos db)\<rparr>)"
proof -
  note P = promotion_objectD [OF assms(2)]
  have wf: "t_wf pn_id (db_promos db)" using assms(1) by (simp add: promo_refs_def)
  show ?thesis
    by (rule put_promos [OF assms(1) t_wf_t_del [OF wf]]) (use P(2) rows_of_t_del [OF wf P(1), of pn_shop] in auto)
qed

lemma handle_promo_step:
  assumes inv: "promo_refs db"
  shows "promo_step (promo_request op) db (snd (handle_promo op db))"
proof (cases op)
  case (CreateCoupon rq b)
  show ?thesis
    unfolding CreateCoupon promo_request.simps handle_promo.simps status_of_def snd_conv coupon_create_def
    by (rule with_staff_step [OF inv])
      (use coupon_insert_step [OF inv] in \<open>auto simp: Let_def case_prod_beta promo_step_refl [OF inv] split: if_splits option.splits\<close>)
next
  case (UpdateCoupon partial rq pk b)
  show ?thesis
    unfolding UpdateCoupon promo_request.simps handle_promo.simps status_of_def snd_conv coupon_update_def
    by (rule with_staff_step [OF inv])
      (use coupon_write_step [OF inv] in \<open>auto simp: promo_step_refl [OF inv] split: if_splits option.splits\<close>)
next
  case (DestroyCoupon rq pk)
  show ?thesis
    unfolding DestroyCoupon promo_request.simps handle_promo.simps status_of_def snd_conv coupon_destroy_def
    by (rule with_staff_step [OF inv])
      (use coupon_delete_step [OF inv] in \<open>auto simp: promo_step_refl [OF inv] split: option.splits\<close>)
qed (simp_all add: status_of_def grant_create_def grant_update_def grant_destroy_def promotion_create_def promotion_update_def
    promotion_destroy_def,
  auto simp: inv intro!: with_staff_step
    intro: promo_step_refl grant_insert_step grant_write_step grant_delete_step promotion_insert_step promotion_write_step
      promotion_delete_step
    dest!: action_cases)

lemma handle_promo_refused:
  "is_shop_owner_or_staff (db_staff (db_org (db_pord db))) (promo_request op) \<noteq> Inr True \<Longrightarrow> snd (handle_promo op db) = db"
  by (cases op)
    (auto simp: status_of_def coupon_create_def coupon_update_def coupon_destroy_def grant_create_def grant_update_def
      grant_destroy_def promotion_create_def promotion_update_def promotion_destroy_def with_staff_def staff_only_def
      split: sum.splits bool.splits)

lemma handle_promo_keeps:
  assumes "promo_refs db"
  shows "promo_refs (snd (handle_promo op db))
    \<and> db_staff (db_org (db_pord (snd (handle_promo op db)))) = db_staff (db_org (db_pord db))"
  using handle_promo_step [OF assms, of op] unfolding promo_step_def by presburger

lemma handle_promo_others:
  assumes "promo_refs db" and "rq_tenant (promo_request op) \<noteq> Some b"
  shows "rows_of cp_shop b (db_coupons (snd (handle_promo op db))) = rows_of cp_shop b (db_coupons db)"
    and "rows_of pn_shop b (db_promos (snd (handle_promo op db))) = rows_of pn_shop b (db_promos db)"
  using handle_promo_step [OF assms(1), of op] assms(2) unfolding promo_step_def by blast+

interpretation shop_coupons: tenant_table db_coupons cp_shop "\<lambda>db. db_staff (db_org (db_pord db))" promo_refs promo_request handle_promo
  by unfold_locales (fact handle_promo_refused handle_promo_keeps handle_promo_others)+

interpretation shop_promos: tenant_table db_promos pn_shop "\<lambda>db. db_staff (db_org (db_pord db))" promo_refs promo_request handle_promo
  by unfold_locales (fact handle_promo_refused handle_promo_keeps handle_promo_others)+

definition promo_rival :: request where
  "promo_rival = \<lparr>rq_user = Some (demo_user\<lparr>u_type := SuperAdmin\<rparr>), rq_tenant = Some 4\<rparr>"

definition demo_grant :: grant_body where
  "demo_grant = \<lparr>gb_name = Some ''welcome'', gb_type = Some AutoRegister, gb_coupon = Some 1, gb_active = None\<rparr>"

lemma demo_promo_refs: "promo_refs demo_promos"
  by (simp add: promo_refs_def demo_promos_def demo_coupon_def t_wf_def empty_tbl_def)

section \<open>Properties\<close>

text \<open>Coupons and promotions belong to their shop: a sequence of requests to manage coupons, granting rules and promotions in
  which none on behalf of the shop passes the staff check leaves the shop's coupons and promotions as they are.\<close>

theorem promotions_isolated:
  assumes "promo_refs db"
    and "\<And>op. op \<in> set ops \<Longrightarrow> rq_tenant (promo_request op) = Some b \<Longrightarrow>
      is_shop_owner_or_staff (db_staff (db_org (db_pord db))) (promo_request op) \<noteq> Inr True"
  shows "rows_of cp_shop b (db_coupons (run_requests handle_promo ops db)) = rows_of cp_shop b (db_coupons db)
    \<and> rows_of pn_shop b (db_promos (run_requests handle_promo ops db)) = rows_of pn_shop b (db_promos db)"
  using shop_coupons.run_isolated [OF assms] shop_promos.run_isolated [OF assms] by blast

theorem promotions_isolated_witness:
  "let db = run_requests handle_promo [DestroyCoupon promo_rival 1, DestroyCoupon promo_rival 2] demo_promos
   in rows_of cp_shop 3 (db_coupons db) = rows_of cp_shop 3 (db_coupons demo_promos) \<and> map cp_id (rows (db_coupons db)) = [1]"
proof -
  let ?ops = "[DestroyCoupon promo_rival 1, DestroyCoupon promo_rival 2]"
  have outside: "is_shop_owner_or_staff (db_staff (db_org (db_pord demo_promos))) (promo_request op) \<noteq> Inr True"
    if "op \<in> set ?ops" "rq_tenant (promo_request op) = Some 3" for op
    using that by (auto simp: promo_rival_def)
  have "map cp_id (rows (db_coupons (run_requests handle_promo ?ops demo_promos))) = [1]" by code_simp
  with conjunct1 [OF promotions_isolated [OF demo_promo_refs outside]] show ?thesis unfolding Let_def by blast
qed

text \<open>A granting rule may name the coupon of another shop: the request is accepted, the rule then stops the grants of its
  shop for every user it applies to, and it disappears when the other shop deletes its coupon.\<close>

theorem foreign_grant_rule:
  assumes inv: "promo_refs db" and staff: "is_shop_owner_or_staff (db_staff (db_org (db_pord db))) rq = Inr True"
    and tn: "rq_tenant rq = Some tn" and c: "c \<in> set (rows (db_coupons db))" "cp_shop c \<noteq> tn"
    and own: "\<And>c'. c' \<in> set (rows (db_coupons db)) \<Longrightarrow> cp_code c' = cp_code c \<Longrightarrow> cp_shop c' \<noteq> tn"
    and b: "grant_valid False b db" "gb_coupon b = Some (cp_id c)" "gb_active b \<noteq> Some False"
  shows "\<exists>r db'. grant_create rq b db = (OK 201 r, db') \<and> r \<in> set (rows (db_grants db')) \<and> cr_shop r = tn
     \<and> (\<forall>now uid rs. check_rule_condition uid (Some tn) r db' = Inr True \<longrightarrow>
          grant_loop now uid (Some tn) (r # rs) db' = (Inl (ValueError ''coupon does not exist''), db'))
     \<and> (\<forall>rq'. coupon_object rq' (cp_id c) db' = Some c \<and> is_shop_owner_or_staff (db_staff (db_org (db_pord db'))) rq' = Inr True
          \<longrightarrow> r \<notin> set (rows (db_grants (snd (coupon_destroy rq' (cp_id c) db')))))"
proof -
  let ?f = "\<lambda>i. (grant_apply b (blank_grant tn))\<lparr>cr_id := i\<rparr>"
  obtain r where r: "r = ?f (seq (db_grants db) + 1)" by simp
  obtain db' where db': "db' = db\<lparr>db_grants := snd (t_add ?f (db_grants db))\<rparr>" by simp
  have run: "grant_create rq b db = (OK 201 r, db')"
    using staff b(1) tn
    by (simp add: grant_create_def with_staff_def staff_only_def creating_def grant_insert_def for_tenant_def t_add_def r db')
  have cols: "cr_shop r = tn" "cr_coupon r = cp_id c"
    using b(2) by (simp_all add: grant_apply_def blank_grant_def or_default_def r)
  have mem: "r \<in> set (rows (db_grants db'))" by (simp add: db' r t_add_def)
  have f: "t_find cp_id (cp_id c) (db_coupons db') = Some c"
    unfolding db' by (simp, rule t_wf_find_unique) (use inv c(1) in \<open>auto simp: promo_refs_def\<close>)
  have "filter (\<lambda>x. cp_code x = cp_code c \<and> Some (cp_shop x) = Some tn \<and> cp_active x) (rows (db_coupons db')) = []"
    using own by (auto simp: filter_empty_conv db')
  then have claim: "claim_coupon now uid (Some tn) (cp_code c) db' = Inl (ValueError ''coupon does not exist'')" for now uid
    by (simp add: claim_coupon_def qs_get_def qs_filter_def)
  have stop: "grant_loop now uid (Some tn) (r # rs) db' = (Inl (ValueError ''coupon does not exist''), db')"
    if "check_rule_condition uid (Some tn) r db' = Inr True" for now uid rs
    using that f claim by (simp add: cols(2))
  have gone: "r \<notin> set (rows (db_grants (snd (coupon_destroy rq' (cp_id c) db'))))"
    if "coupon_object rq' (cp_id c) db' = Some c" "is_shop_owner_or_staff (db_staff (db_org (db_pord db'))) rq' = Inr True" for rq'
    using that cols(2) by (simp add: coupon_destroy_def with_staff_def staff_only_def rows_t_del)
  show ?thesis using run mem cols(1) stop gone by blast
qed

theorem foreign_grant_rule_witness:
  "\<exists>r db'. grant_create promo_rival demo_grant demo_promos = (OK 201 r, db')
     \<and> grant_loop 5 7 (Some 4) [r] db' = (Inl (ValueError ''coupon does not exist''), db')"
proof -
  have hyps: "is_shop_owner_or_staff (db_staff (db_org (db_pord demo_promos))) promo_rival = Inr True"
      "rq_tenant promo_rival = Some 4" "demo_coupon \<in> set (rows (db_coupons demo_promos))" "cp_shop demo_coupon \<noteq> 4"
      "grant_valid False demo_grant demo_promos" "gb_coupon demo_grant = Some (cp_id demo_coupon)" "gb_active demo_grant \<noteq> Some False"
    by (simp_all add: promo_rival_def demo_promos_def demo_coupon_def demo_grant_def grant_valid_def needed_def text_ok_def
        chars_def qs_exists_iff is_shop_owner_or_staff_def)
  have own: "cp_shop c \<noteq> 4" if "c \<in> set (rows (db_coupons demo_promos))" "cp_code c = cp_code demo_coupon" for c
    using that by (auto simp: demo_promos_def demo_coupon_def)
  have met: "case grant_create promo_rival demo_grant demo_promos of
      (OK n r, db') \<Rightarrow> check_rule_condition 7 (Some 4) r db' = Inr True | _ \<Rightarrow> False" by code_simp
  from foreign_grant_rule [OF demo_promo_refs hyps(1-4) own hyps(5-7)] met show ?thesis by fastforce
qed

end
