(* ===== verification/Pos.thy ===== *)
theory Pos
  imports Payments Promotions Membership
begin

text \<open>
  The point of sale: \<open>apps/pos/services.py\<close>, \<open>serializers.py\<close>, \<open>api.py\<close>.

  The state \<open>pos_db\<close> joins the payments (with the orders under them), the coupons users hold and the
  membership levels, because deleting an order reaches all of them.  \<open>pos_env\<close> is what the code finds
  when it runs: whether \<open>services.py\<close> binds \<open>time\<close>, the default of the two amount columns of an order
  that \<open>Order.objects.create\<close> leaves out (\<open>None\<close> when they have none and the insert stores NULL), and
  whether the package has a module \<open>models\<close> with \<open>Table\<close>; \<open>deployed_pos\<close> is what is there.
\<close>

record pos_env =
  pe_time :: binding
  pe_amount :: "int option"
  pe_models :: bool
  pe_sku_barcode :: "(sku_row \<Rightarrow> string) option"
  pe_product_barcode :: "(product_row \<Rightarrow> string) option"

definition deployed_pos :: pos_env where
  "deployed_pos = \<lparr>pe_time = Unbound, pe_amount = None, pe_models = False, pe_sku_barcode = None, pe_product_barcode = None\<rparr>"

record pos_db =
  db_pay :: payments_db
  db_held :: "holding_row tbl"
  db_level_configs :: "level_row tbl"

abbreviation pos_orders :: "pos_db \<Rightarrow> orders_db" where
  "pos_orders db \<equiv> db_ord (db_pay db)"

definition set_pos_orders :: "orders_db \<Rightarrow> pos_db \<Rightarrow> pos_db" where
  "set_pos_orders od db = db\<lparr>db_pay := (db_pay db)\<lparr>db_ord := od\<rparr>\<rparr>"

section \<open>Quick orders\<close>

datatype discount_kind = PercentDiscount | FixedDiscount

record quick_item =
  qi_product :: int
  qi_sku :: "int option"
  qi_quantity :: int
  qi_attrs :: "(string \<times> string) list"
  qi_custom :: string

record quick_body =
  qb_type :: "order_type option"
  qb_name :: "string option"
  qb_phone :: string
  qb_table :: string
  qb_method :: "string option"
  qb_items :: "quick_item list"
  qb_apply_discount :: bool
  qb_kind :: "discount_kind option"
  qb_value :: "int option"

text \<open>\<open>QuickOrderSerializer\<close>: delivery is not offered; a given name is not empty.\<close>

definition quick_valid :: "quick_body \<Rightarrow> bool" where
  "quick_valid b \<longleftrightarrow> qb_type b \<noteq> Some Delivery
     \<and> (case qb_name b of None \<Rightarrow> True | Some n \<Rightarrow> n \<noteq> [] \<and> chars n \<le> 100)
     \<and> qb_method b \<noteq> Some [] \<and> list_all (\<lambda>i. 1 \<le> qi_quantity i) (qb_items b)
     \<and> (case qb_value b of None \<Rightarrow> True | Some v \<Rightarrow> price_ok v)"

definition walk_in :: string where
  "walk_in = map char_of [0xE6 :: nat, 0x95, 0xA3, 0xE5, 0xAE, 0xA2]"

text \<open>\<open>Order.objects.create\<close> without \<open>subtotal\<close> and \<open>total_amount\<close>, which are NOT NULL.\<close>

definition order_create_bare :: "pos_env \<Rightarrow> int \<Rightarrow> order_row \<Rightarrow> orders_db \<Rightarrow> (order_row \<times> orders_db) res" where
  "order_create_bare P now order db =
     (case pe_amount P of
        None \<Rightarrow> Inl (if order_columns_ok order then IntegrityError ''subtotal'' else DataError ''orders'')
      | Some a \<Rightarrow> order_save now [] (order\<lparr>o_subtotal := a, o_total := a\<rparr>) db)"

definition pos_number :: "pos_env \<Rightarrow> string \<Rightarrow> int \<Rightarrow> string \<Rightarrow> string res" where
  "pos_number P prefix now hex =
     (case use_name (pe_time P) ''time'' of
        Inl e \<Rightarrow> Inl e
      | Inr _ \<Rightarrow> Inr (prefix @ dec_int (now div 1000000) @ hex))"

definition quick_row :: "int \<Rightarrow> int \<Rightarrow> int option \<Rightarrow> string \<Rightarrow> quick_body \<Rightarrow> order_row" where
  "quick_row now shop uid number b = \<lparr>o_id = 0, o_number = number, o_user = uid, o_status = Paid,
     o_type = or_default (qb_type b) DineIn, o_subtotal = 0, o_delivery_fee = 0, o_discount = 0, o_total = 0,
     o_method = or_default (qb_method b) ''cash'', o_paid = True, o_paid_at = Some now,
     o_name = or_default (qb_name b) walk_in, o_phone = qb_phone b, o_notes = [], o_address = [],
     o_delivery_time = None, o_pickup_time = None, o_table = qb_table b, o_shop = shop, o_at = 0, o_completed_at = None\<rparr>"

text \<open>The body of the loop: \<open>None\<close> when the product, or its SKU, is not there and the line is skipped.  The
  stock stops at zero.\<close>

definition quick_line :: "order_row \<Rightarrow> int \<Rightarrow> quick_item \<Rightarrow> orders_db \<Rightarrow> (int \<times> orders_db) option res" where
  "quick_line order shop q db =
     (case qs_first (\<lambda>p. p_id p = qi_product q \<and> p_shop p = shop) (db_products (db_cat db)) of
        None \<Rightarrow> Inr None
      | Some p \<Rightarrow>
          let wanted = truthy_int (qi_sku q);
              sku = (if wanted then qs_first (\<lambda>k. k_id k = the (qi_sku q) \<and> k_product k = p_id p) (db_skus (db_cat db)) else None)
          in if wanted \<and> sku = None then Inr None
             else let unit_price = (case sku of Some k \<Rightarrow> k_price k | None \<Rightarrow> p_base_price p);
                      total_price = unit_price * qi_quantity q;
                      it = \<lparr>oi_id = 0, oi_order = o_id order, oi_product = p_id p, oi_sku = map_option k_id sku,
                        oi_name = p_name p, oi_image = image_url p, oi_specs = get_specifications_data sku (db_cat db),
                        oi_unit_price = unit_price, oi_quantity = qi_quantity q, oi_total = total_price,
                        oi_attrs = qi_attrs q, oi_customization = qi_custom q\<rparr>
                  in (case create_order_item it db of
                        Inl e \<Rightarrow> Inl e
                      | Inr db1 \<Rightarrow>
                          (case sku of
                             None \<Rightarrow> Inr (Some (total_price, db1))
                           | Some k \<Rightarrow>
                               (case sku_save (k\<lparr>k_stock := max 0 (k_stock k - qi_quantity q)\<rparr>) (db_cat db1) of
                                  Inl e \<Rightarrow> Inl e
                                | Inr (_, cat) \<Rightarrow> Inr (Some (total_price, db1\<lparr>db_cat := cat\<rparr>))))))"

fun quick_loop :: "order_row \<Rightarrow> int \<Rightarrow> quick_item list \<Rightarrow> int \<Rightarrow> orders_db \<Rightarrow> (int \<times> orders_db) res" where
  "quick_loop order shop [] subtotal db = Inr (subtotal, db)"
| "quick_loop order shop (q # qs) subtotal db =
     (case quick_line order shop q db of
        Inl e \<Rightarrow> Inl e
      | Inr None \<Rightarrow> quick_loop order shop qs subtotal db
      | Inr (Some (t, db')) \<Rightarrow> quick_loop order shop qs (subtotal + t) db')"

definition create_quick_order ::
  "pos_env \<Rightarrow> int \<Rightarrow> string \<Rightarrow> int \<Rightarrow> int option \<Rightarrow> quick_body \<Rightarrow> orders_db \<Rightarrow> (order_row \<times> orders_db) res" where
  "create_quick_order P now hex shop uid b db =
     (case pos_number P ''POS'' now hex of
        Inl e \<Rightarrow> Inl e
      | Inr number \<Rightarrow>
          (case order_create_bare P now (quick_row now shop uid number b) db of
             Inl e \<Rightarrow> Inl e
           | Inr (order, db1) \<Rightarrow>
               (case quick_loop order shop (qb_items b) 0 db1 of
                  Inl e \<Rightarrow> Inl e
                | Inr (subtotal, db2) \<Rightarrow> order_save now [] (order\<lparr>o_subtotal := subtotal, o_total := subtotal\<rparr>) db2)))"

text \<open>
  \<open>apply_discount\<close> with the exact amounts the Python object holds: the discount and the new total; the
  columns round each of them to two places.  Without a value the view passes the integer 0, and \<open>0 / 100\<close> is
  a float.
\<close>

definition discount_amount_of :: "discount_kind option \<Rightarrow> int option \<Rightarrow> int \<Rightarrow> rat res" where
  "discount_amount_of kind value subtotal =
     (case kind of
        Some PercentDiscount \<Rightarrow>
          (case value of
             None \<Rightarrow> Inl (TypeError ''Decimal * float'')
           | Some v \<Rightarrow> Inr (dec_mult (of_cents subtotal) (of_cents v / 100)))
      | Some FixedDiscount \<Rightarrow> Inr (case value of None \<Rightarrow> 0 | Some v \<Rightarrow> of_cents v)
      | None \<Rightarrow> Inr 0)"

definition apply_discount ::
  "int \<Rightarrow> order_row \<Rightarrow> discount_kind option \<Rightarrow> int option \<Rightarrow> orders_db \<Rightarrow> (order_row \<times> orders_db) res" where
  "apply_discount now order kind value db =
     (case discount_amount_of kind value (o_subtotal order) of
        Inl e \<Rightarrow> Inl e
      | Inr d \<Rightarrow> order_save now [] (order\<lparr>o_discount := to_cents d,
                  o_total := to_cents (of_cents (o_subtotal order) - d)\<rparr>) db)"

text \<open>What a view with \<open>IsShopOwnerOrStaff\<close> does before its body.\<close>

definition pos_staff :: "request \<Rightarrow> (pos_db \<Rightarrow> 'a reply \<times> pos_db) \<Rightarrow> pos_db \<Rightarrow> 'a reply \<times> pos_db" where
  "pos_staff rq body db = staff_only (db_staff (db_org (pos_orders db))) rq body db"

text \<open>\<open>quick_order\<close>: the order is committed before the discount is applied, and any exception is answered with
  status 400.\<close>

definition quick_order_body :: "pos_env \<Rightarrow> int \<Rightarrow> string \<Rightarrow> request \<Rightarrow> quick_body \<Rightarrow> pos_db \<Rightarrow> order_row reply \<times> pos_db" where
  "quick_order_body P now hex rq b db =
     (if \<not> quick_valid b then (Reject 400 (ValidationError ''quick_order''), db)
      else case rq_tenant rq of
             None \<Rightarrow> (Reject 400 (IntegrityError ''shop''), db)
           | Some shop \<Rightarrow>
               (case create_quick_order P now hex shop (map_option u_id (rq_user rq)) b (pos_orders db) of
                  Inl e \<Rightarrow> (Reject 400 e, db)
                | Inr (order, od) \<Rightarrow>
                    if qb_apply_discount b then
                      (case apply_discount now order (qb_kind b) (qb_value b) od of
                         Inl e \<Rightarrow> (Reject 400 e, set_pos_orders od db)
                       | Inr (order', od') \<Rightarrow> (OK 200 order', set_pos_orders od' db))
                    else (OK 200 order, set_pos_orders od db)))"

definition quick_order :: "pos_env \<Rightarrow> int \<Rightarrow> string \<Rightarrow> request \<Rightarrow> quick_body \<Rightarrow> pos_db \<Rightarrow> order_row reply \<times> pos_db" where
  "quick_order P now hex rq b = pos_staff rq (quick_order_body P now hex rq b)"

section \<open>Splitting and merging orders\<close>

record split_item =
  sq_item :: "int option"
  sq_quantity :: "int option"

definition item_save :: "item_row \<Rightarrow> orders_db \<Rightarrow> orders_db res" where
  "item_save it db =
     (if \<not> item_columns_ok it then Inl (DataError ''order_items'')
      else if oi_quantity it < 0 then Inl (IntegrityError ''quantity'')
      else Inr (db\<lparr>db_order_items := t_save oi_id it (db_order_items db)\<rparr>))"

definition split_one :: "order_row \<Rightarrow> order_row \<Rightarrow> split_item \<Rightarrow> orders_db \<Rightarrow> orders_db res" where
  "split_one order new s db =
     (case sq_item s of
        None \<Rightarrow> Inl (KeyError ''item_id'')
      | Some i \<Rightarrow>
          (case qs_first (\<lambda>it. oi_id it = i \<and> oi_order it = o_id order) (db_order_items db) of
             None \<Rightarrow> Inr db
           | Some it \<Rightarrow>
               let q = or_default (sq_quantity s) (oi_quantity it) in
               (case create_order_item (it\<lparr>oi_id := 0, oi_order := o_id new, oi_quantity := q,
                                           oi_total := oi_unit_price it * q\<rparr>) db of
                  Inl e \<Rightarrow> Inl e
                | Inr db1 \<Rightarrow>
                    if q < oi_quantity it
                    then item_save (it\<lparr>oi_quantity := oi_quantity it - q,
                                       oi_total := oi_unit_price it * (oi_quantity it - q)\<rparr>) db1
                    else Inr (db1\<lparr>db_order_items := t_del (\<lambda>r. oi_id r = oi_id it) (db_order_items db1)\<rparr>))))"

definition recalculate_order_amount :: "int \<Rightarrow> order_row \<Rightarrow> orders_db \<Rightarrow> (order_row \<times> orders_db) res" where
  "recalculate_order_amount now order db =
     (let subtotal = sum_list (map oi_total (items_of_order (o_id order) db))
      in order_save now [] (order\<lparr>o_subtotal := subtotal, o_total := subtotal - o_discount order\<rparr>) db)"

definition split_row :: "order_row \<Rightarrow> string \<Rightarrow> order_row" where
  "split_row order number = \<lparr>o_id = 0, o_number = number, o_user = o_user order, o_status = o_status order,
     o_type = o_type order, o_subtotal = 0, o_delivery_fee = 0, o_discount = 0, o_total = 0, o_method = [],
     o_paid = False, o_paid_at = None, o_name = o_name order, o_phone = o_phone order, o_notes = [], o_address = [],
     o_delivery_time = None, o_pickup_time = None, o_table = o_table order, o_shop = o_shop order, o_at = 0,
     o_completed_at = None\<rparr>"

text \<open>\<open>split_order\<close>: the original and the new order.\<close>

definition split_order ::
  "pos_env \<Rightarrow> int \<Rightarrow> string \<Rightarrow> order_row \<Rightarrow> split_item list \<Rightarrow> orders_db \<Rightarrow> ((order_row \<times> order_row) \<times> orders_db) res" where
  "split_order P now hex order ss db =
     (case pos_number P ''SPLIT'' now hex of
        Inl e \<Rightarrow> Inl e
      | Inr number \<Rightarrow>
          (case order_create_bare P now (split_row order number) db of
             Inl e \<Rightarrow> Inl e
           | Inr (new, db1) \<Rightarrow>
               (case place_all (split_one order new) ss db1 of
                  Inl e \<Rightarrow> Inl e
                | Inr db2 \<Rightarrow>
                    (case recalculate_order_amount now order db2 of
                       Inl e \<Rightarrow> Inl e
                     | Inr (order', db3) \<Rightarrow>
                         (case recalculate_order_amount now new db3 of
                            Inl e \<Rightarrow> Inl e
                          | Inr (new', db4) \<Rightarrow> Inr ((order', new'), db4))))))"

definition split_order_body ::
  "pos_env \<Rightarrow> int \<Rightarrow> string \<Rightarrow> request \<Rightarrow> int option \<Rightarrow> split_item list \<Rightarrow> pos_db \<Rightarrow> (order_row \<times> order_row) reply \<times> pos_db" where
  "split_order_body P now hex rq order_id ss db =
     (case order_id of
        None \<Rightarrow> (Reject 400 (ValidationError ''order_id''), db)
      | Some i \<Rightarrow>
          if ss = [] then (Reject 400 (ValidationError ''split_items''), db)
          else (case qs_get ''Order'' (\<lambda>r. o_id r = i \<and> Some (o_shop r) = rq_tenant rq) (db_orders (pos_orders db)) of
                  Inl (DoesNotExist m) \<Rightarrow> (Reject 404 (DoesNotExist m), db)
                | Inl e \<Rightarrow> (Crash e, db)
                | Inr order \<Rightarrow>
                    (case split_order P now hex order ss (pos_orders db) of
                       Inl e \<Rightarrow> (Crash e, db)
                     | Inr (r, od) \<Rightarrow> (OK 200 r, set_pos_orders od db))))"

definition split_order_view ::
  "pos_env \<Rightarrow> int \<Rightarrow> string \<Rightarrow> request \<Rightarrow> int option \<Rightarrow> split_item list \<Rightarrow> pos_db \<Rightarrow> (order_row \<times> order_row) reply \<times> pos_db" where
  "split_order_view P now hex rq order_id ss = pos_staff rq (split_order_body P now hex rq order_id ss)"

text \<open>
  \<open>order.delete()\<close> takes along what refers to the order with \<open>CASCADE\<close> (its lines, status logs, payment
  transactions and their refunds) and clears the reference of coupons used in it.
\<close>

definition delete_order :: "int \<Rightarrow> pos_db \<Rightarrow> pos_db" where
  "delete_order i db =
     (let pay = db_pay db; od = db_ord pay;
          gone = map tx_id (qs_filter (\<lambda>t. tx_order t = i) (db_txns pay))
      in db\<lparr>db_pay := pay\<lparr>db_ord := od\<lparr>db_orders := t_del (\<lambda>r. o_id r = i) (db_orders od),
               db_order_items := t_del (\<lambda>it. oi_order it = i) (db_order_items od),
               db_status_logs := t_del (\<lambda>l. sl_order l = i) (db_status_logs od)\<rparr>,
             db_txns := t_del (\<lambda>t. tx_order t = i) (db_txns pay),
             db_refunds := t_del (\<lambda>f. rf_txn f \<in> set gone) (db_refunds pay)\<rparr>,
           db_held := t_upd (\<lambda>h. uc_order h = Some i) (\<lambda>h. h\<lparr>uc_order := None\<rparr>) (db_held db)\<rparr>)"

text \<open>Every line of the merged order is saved with the main order as its order: one update of those rows.\<close>

definition move_items :: "int \<Rightarrow> int \<Rightarrow> orders_db \<Rightarrow> orders_db" where
  "move_items i main od = od\<lparr>db_order_items := t_upd (\<lambda>it. oi_order it = i) (\<lambda>it. it\<lparr>oi_order := main\<rparr>) (db_order_items od)\<rparr>"

definition merge_one :: "int \<Rightarrow> int \<Rightarrow> int \<Rightarrow> pos_db \<Rightarrow> pos_db" where
  "merge_one shop main i db =
     (case qs_first (\<lambda>r. o_id r = i \<and> o_shop r = shop) (db_orders (pos_orders db)) of
        None \<Rightarrow> db
      | Some m \<Rightarrow> delete_order i (set_pos_orders (move_items i main (pos_orders db)) db))"

definition merge_orders :: "int \<Rightarrow> int \<Rightarrow> order_row \<Rightarrow> int list \<Rightarrow> pos_db \<Rightarrow> (order_row \<times> pos_db) res" where
  "merge_orders now shop main ids db =
     (let db1 = fold (merge_one shop (o_id main)) ids db
      in case recalculate_order_amount now main (pos_orders db1) of
           Inl e \<Rightarrow> Inl e
         | Inr (main', od) \<Rightarrow> Inr (main', set_pos_orders od db1))"

definition merge_orders_body :: "int \<Rightarrow> request \<Rightarrow> int option \<Rightarrow> int list \<Rightarrow> pos_db \<Rightarrow> order_row reply \<times> pos_db" where
  "merge_orders_body now rq main_id ids db =
     (case main_id of
        None \<Rightarrow> (Reject 400 (ValidationError ''main_order_id''), db)
      | Some i \<Rightarrow>
          if ids = [] then (Reject 400 (ValidationError ''merge_order_ids''), db)
          else (case qs_get ''Order'' (\<lambda>r. o_id r = i \<and> Some (o_shop r) = rq_tenant rq) (db_orders (pos_orders db)) of
                  Inl (DoesNotExist m) \<Rightarrow> (Reject 404 (DoesNotExist m), db)
                | Inl e \<Rightarrow> (Crash e, db)
                | Inr main \<Rightarrow>
                    (case merge_orders now (o_shop main) main ids db of
                       Inl e \<Rightarrow> (Crash e, db)
                     | Inr (main', db') \<Rightarrow> (OK 200 main', db'))))"

definition merge_orders_view :: "int \<Rightarrow> request \<Rightarrow> int option \<Rightarrow> int list \<Rightarrow> pos_db \<Rightarrow> order_row reply \<times> pos_db" where
  "merge_orders_view now rq main_id ids = pos_staff rq (merge_orders_body now rq main_id ids)"

section \<open>Scanning\<close>

text \<open>What a scan shows: whether it is a SKU, the keys, name, price, stock (none for a product) and the names and values of
  the specifications.  As deployed neither SKUs nor products have a column \<open>barcode\<close>, and the first query cannot be built.\<close>

record scan_info =
  sc_is_sku :: bool
  sc_id :: int
  sc_product :: int
  sc_name :: string
  sc_price :: int
  sc_stock :: "int option"
  sc_specs :: "(string \<times> string) list"

definition spec_name_value :: "catalog_db \<Rightarrow> spec_value_row \<Rightarrow> (string \<times> string) res" where
  "spec_name_value db v =
     (case t_find sp_id (sv_spec v) (db_specs db) of
        None \<Rightarrow> Inl (DoesNotExist ''Specification'')
      | Some s \<Rightarrow> Inr (sp_display s, sv_display v))"

definition sku_scan_info :: "catalog_db \<Rightarrow> sku_row \<Rightarrow> scan_info res" where
  "sku_scan_info db k =
     (case t_find p_id (k_product k) (db_products db) of
        None \<Rightarrow> Inl (DoesNotExist ''Product'')
      | Some p \<Rightarrow>
          (case collect_res (spec_name_value db) (qs_filter (\<lambda>v. sv_id v \<in> set (k_specs k)) (db_spec_values db)) of
             Inl e \<Rightarrow> Inl e
           | Inr vs \<Rightarrow> Inr \<lparr>sc_is_sku = True, sc_id = k_id k, sc_product = p_id p, sc_name = p_name p, sc_price = k_price k,
                           sc_stock = Some (k_stock k), sc_specs = vs\<rparr>))"

definition scan_product :: "pos_env \<Rightarrow> int option \<Rightarrow> string \<Rightarrow> catalog_db \<Rightarrow> scan_info option res" where
  "scan_product P shop barcode db =
     (case pe_sku_barcode P of
        None \<Rightarrow> Inl (FieldError ''barcode'')
      | Some sku_code \<Rightarrow>
          (case qs_first (\<lambda>k. product_in db shop (k_product k) \<and> sku_code k = barcode) (db_skus db) of
             Some k \<Rightarrow> map_sum id Some (sku_scan_info db k)
           | None \<Rightarrow>
               (case pe_product_barcode P of
                  None \<Rightarrow> Inl (FieldError ''barcode'')
                | Some code \<Rightarrow>
                    (case qs_first (\<lambda>p. Some (p_shop p) = shop \<and> code p = barcode) (db_products db) of
                       None \<Rightarrow> Inr None
                     | Some p \<Rightarrow> Inr (Some \<lparr>sc_is_sku = False, sc_id = p_id p, sc_product = p_id p, sc_name = p_name p,
                                     sc_price = p_base_price p, sc_stock = None, sc_specs = []\<rparr>)))))"

text \<open>The rate of a member: the active configuration of the level in any shop.\<close>

definition get_membership_discount_rate :: "level \<Rightarrow> pos_db \<Rightarrow> rat res" where
  "get_membership_discount_rate lv db =
     (case qs_get ''MembershipLevelConfig'' (\<lambda>l. ml_level l = lv \<and> ml_active l) (db_level_configs db) of
        Inl (DoesNotExist m) \<Rightarrow> Inr 1
      | Inl e \<Rightarrow> Inl e
      | Inr l \<Rightarrow> Inr (of_cents (ml_rate l)))"

record member_info =
  mi_user :: int
  mi_username :: string
  mi_level :: level
  mi_points :: int
  mi_rate :: rat

definition scan_member_card :: "string \<Rightarrow> pos_db \<Rightarrow> member_info option res" where
  "scan_member_card card_no db =
     (case qs_first (\<lambda>u. u_number u = Some card_no) (db_members (db_org (pos_orders db))) of
        None \<Rightarrow> Inr None
      | Some u \<Rightarrow>
          (case get_membership_discount_rate (u_level u) db of
             Inl e \<Rightarrow> Inl e
           | Inr rate \<Rightarrow> Inr (Some \<lparr>mi_user = u_id u, mi_username = u_username u, mi_level = u_level u,
                             mi_points = u_available_points u, mi_rate = rate\<rparr>)))"

definition scan_barcode :: "pos_env \<Rightarrow> request \<Rightarrow> string \<Rightarrow> pos_db \<Rightarrow> (scan_info + member_info) reply \<times> pos_db" where
  "scan_barcode P rq barcode = pos_staff rq (\<lambda>db.
     if barcode = [] \<or> 100 < chars barcode then (Reject 400 (ValidationError ''barcode''), db)
     else (case scan_product P (rq_tenant rq) barcode (db_cat (pos_orders db)) of
             Inl e \<Rightarrow> (Crash e, db)
           | Inr (Some i) \<Rightarrow> (OK 200 (Inl i), db)
           | Inr None \<Rightarrow>
               (case scan_member_card barcode db of
                  Inl e \<Rightarrow> (Crash e, db)
                | Inr (Some m) \<Rightarrow> (OK 200 (Inr m), db)
                | Inr None \<Rightarrow> (Reject 404 (ValueError ''barcode''), db))))"

section \<open>Tables\<close>

definition use_tables :: "pos_env \<Rightarrow> unit res" where
  "use_tables P = (if pe_models P then Inr () else Inl (ImportError ''pos.models''))"

text \<open>\<open>Table.current_order\<close> filters by a column \<open>table\<close> that orders do not have.\<close>

definition current_order :: "table_row \<Rightarrow> orders_db \<Rightarrow> order_row option res" where
  "current_order t db = Inl (FieldError ''table'')"

definition get_table_status :: "pos_env \<Rightarrow> int option \<Rightarrow> orders_db \<Rightarrow> (table_row \<times> order_row option) list res" where
  "get_table_status P shop db =
     (case use_tables P of
        Inl e \<Rightarrow> Inl e
      | Inr _ \<Rightarrow> collect_res (\<lambda>t. case current_order t db of Inl e \<Rightarrow> Inl e | Inr r \<Rightarrow> Inr (t, r))
                  (qs_filter (\<lambda>t. Some (tb_shop t) = shop \<and> tb_active t) (db_tables (db_org db))))"

text \<open>\<open>order.table = table\<close> sets an attribute that is no column, so saving the order rewrites its row as it is.\<close>

definition update_table_status ::
  "pos_env \<Rightarrow> int \<Rightarrow> int option \<Rightarrow> int \<Rightarrow> table_status \<Rightarrow> int option \<Rightarrow> orders_db \<Rightarrow> (bool \<times> orders_db) res" where
  "update_table_status P now shop table_id st order_id db =
     (case use_tables P of
        Inl e \<Rightarrow> Inl e
      | Inr _ \<Rightarrow>
          (case qs_first (\<lambda>t. tb_id t = table_id \<and> Some (tb_shop t) = shop) (db_tables (db_org db)) of
             None \<Rightarrow> Inr (False, db)
           | Some t \<Rightarrow>
               (case (if truthy_int order_id
                      then (case qs_first (\<lambda>r. o_id r = the order_id \<and> Some (o_shop r) = shop) (db_orders db) of
                              None \<Rightarrow> Inr None
                            | Some r \<Rightarrow> (case order_save now [] r db of Inl e \<Rightarrow> Inl e | Inr (_, db1) \<Rightarrow> Inr (Some db1)))
                      else Inr (Some db)) of
                  Inl e \<Rightarrow> Inl e
                | Inr None \<Rightarrow> Inr (False, db)
                | Inr (Some db1) \<Rightarrow>
                    Inr (True, db1\<lparr>db_org := (db_org db1)\<lparr>db_tables :=
                      t_save tb_id (t\<lparr>tb_status := st\<rparr>) (db_tables (db_org db1))\<rparr>\<rparr>))))"

definition get_available_tables :: "pos_env \<Rightarrow> int option \<Rightarrow> int option \<Rightarrow> orders_db \<Rightarrow> table_row list res" where
  "get_available_tables P shop capacity db =
     (case use_tables P of
        Inl e \<Rightarrow> Inl e
      | Inr _ \<Rightarrow>
          let tables = qs_filter (\<lambda>t. Some (tb_shop t) = shop \<and> tb_status t = Available \<and> tb_active t) (db_tables (db_org db))
          in Inr (if truthy_int capacity then filter (\<lambda>t. tb_min t \<le> the capacity \<and> the capacity \<le> tb_max t) tables else tables))"

definition table_status_view :: "pos_env \<Rightarrow> request \<Rightarrow> pos_db \<Rightarrow> (table_row \<times> order_row option) list reply \<times> pos_db" where
  "table_status_view P rq = pos_staff rq (\<lambda>db.
     (case get_table_status P (rq_tenant rq) (pos_orders db) of Inl e \<Rightarrow> (Crash e, db) | Inr ts \<Rightarrow> (OK 200 ts, db)))"

text \<open>In \<open>update_status\<close> the assignment \<open>status = ...\<close> makes \<open>status\<close> local: an invalid request reads it
  unbound, and after a failed update \<open>status.HTTP_404_NOT_FOUND\<close> is read from a string.\<close>

definition table_update_view ::
  "pos_env \<Rightarrow> int \<Rightarrow> request \<Rightarrow> int option \<Rightarrow> table_status option \<Rightarrow> int option \<Rightarrow> pos_db \<Rightarrow> unit reply \<times> pos_db" where
  "table_update_view P now rq table_id st order_id = pos_staff rq (\<lambda>db.
     (case (table_id, st) of
        (Some tid, Some s) \<Rightarrow>
          if s = Maintenance then (Crash (NameError ''status''), db)
          else (case update_table_status P now (rq_tenant rq) tid s order_id (pos_orders db) of
                  Inl e \<Rightarrow> (Crash e, db)
                | Inr (False, _) \<Rightarrow> (Crash (AttributeError ''HTTP_404_NOT_FOUND''), db)
                | Inr (True, od) \<Rightarrow> (OK 200 (), set_pos_orders od db))
      | _ \<Rightarrow> (Crash (NameError ''status''), db)))"

text \<open>\<open>available\<close>: a capacity that is no number counts as none; \<open>TableSerializer\<close> does not exist.\<close>

definition available_tables_view :: "pos_env \<Rightarrow> bool \<Rightarrow> request \<Rightarrow> int option \<Rightarrow> pos_db \<Rightarrow> table_row list reply \<times> pos_db" where
  "available_tables_view P serializer_exists rq capacity = pos_staff rq (\<lambda>db.
     (case get_available_tables P (rq_tenant rq) capacity (pos_orders db) of
        Inl e \<Rightarrow> (Crash e, db)
      | Inr ts \<Rightarrow> if serializer_exists then (OK 200 ts, db) else (Crash (ImportError ''TableSerializer''), db)))"

section \<open>Dashboard, statistics and shifts\<close>

record table_stats =
  ts_total :: nat
  ts_available :: nat
  ts_occupied :: nat
  ts_reserved :: nat
  ts_cleaning :: nat

definition table_stats_of :: "int option \<Rightarrow> orders_db \<Rightarrow> table_stats" where
  "table_stats_of shop db =
     (let ts = qs_filter (\<lambda>t. Some (tb_shop t) = shop \<and> tb_active t) (db_tables (db_org db));
          count = (\<lambda>st. length (filter (\<lambda>t. tb_status t = st) ts))
      in \<lparr>ts_total = length ts, ts_available = count Available, ts_occupied = count Occupied,
          ts_reserved = count Reserved, ts_cleaning = count Cleaning\<rparr>)"

text \<open>\<open>values(...).annotate(Sum('total_amount'), Count('id'))\<close>: one row per value, in no particular order.\<close>

definition grouped_orders :: "(order_row \<Rightarrow> 'k) \<Rightarrow> order_row list \<Rightarrow> ('k \<times> int \<times> nat) list" where
  "grouped_orders key os = map (\<lambda>k. let g = filter (\<lambda>r. key r = k) os in (k, sum_list (map o_total g), length g))
     (remdups (map key os))"

record pos_dashboard_data =
  pd_orders :: nat
  pd_revenue :: int
  pd_completed :: nat
  pd_pending :: nat
  pd_tables :: table_stats
  pd_payments :: "(string \<times> int \<times> nat) list"
  pd_popular :: "(string \<times> int) list"

definition pos_dashboard_body :: "int \<Rightarrow> int option \<Rightarrow> orders_db \<Rightarrow> pos_dashboard_data" where
  "pos_dashboard_body now shop db =
     (let os = today_orders now shop db;
          its = qs_filter (\<lambda>it. \<exists>r \<in> set os. o_id r = oi_order it) (db_order_items db)
      in \<lparr>pd_orders = length os, pd_revenue = sum_list (map o_total os),
          pd_completed = length (filter (\<lambda>r. o_status r = Completed) os),
          pd_pending = length (filter (\<lambda>r. o_status r \<in> {Pending, Confirmed, Preparing}) os),
          pd_tables = table_stats_of shop db,
          pd_payments = grouped_orders o_method (filter o_paid os),
          pd_popular = take 10 (sort_key (\<lambda>p. - snd p)
            (map (\<lambda>n. (n, sum_list (map oi_quantity (filter (\<lambda>it. oi_name it = n) its)))) (remdups (map oi_name its))))\<rparr>)"

definition pos_dashboard :: "int \<Rightarrow> request \<Rightarrow> pos_db \<Rightarrow> pos_dashboard_data reply \<times> pos_db" where
  "pos_dashboard now rq = pos_staff rq (\<lambda>db. (OK 200 (pos_dashboard_body now (rq_tenant rq) (pos_orders db)), db))"

record pos_report =
  pr_daily :: "(int \<times> int \<times> nat \<times> rat) list"
  pr_methods :: "(string \<times> int \<times> nat) list"
  pr_types :: "(order_type \<times> int \<times> nat) list"

text \<open>\<open>pos_statistics\<close>; the bounds are the parsed dates.  The database groups by the UTC date.\<close>

definition pos_statistics_body :: "int option \<Rightarrow> int option \<Rightarrow> int option \<Rightarrow> orders_db \<Rightarrow> pos_report" where
  "pos_statistics_body start_at end_at shop db =
     (let os = qs_filter (\<lambda>r. Some (o_shop r) = shop \<and> o_paid r
                 \<and> (case start_at of None \<Rightarrow> True | Some s \<Rightarrow> s \<le> o_at r)
                 \<and> (case end_at of None \<Rightarrow> True | Some e \<Rightarrow> o_at r \<le> e)) (db_orders db)
      in \<lparr>pr_daily = map (\<lambda>(d, t, n). (d, t, n, of_cents t / of_nat n))
                       (sort_key fst (grouped_orders (\<lambda>r. utc_date (o_at r)) os)),
          pr_methods = grouped_orders o_method os, pr_types = grouped_orders o_type os\<rparr>)"

definition pos_statistics :: "request \<Rightarrow> int option \<Rightarrow> int option \<Rightarrow> pos_db \<Rightarrow> pos_report reply \<times> pos_db" where
  "pos_statistics rq start_at end_at = pos_staff rq (\<lambda>db.
     (OK 200 (pos_statistics_body start_at end_at (rq_tenant rq) (pos_orders db)), db))"

text \<open>Shifts are answered but not stored.\<close>

record shift_data =
  sh_number :: string
  sh_cashier :: "int option"
  sh_amount :: int
  sh_at :: int
  sh_closed :: bool

definition start_cashier_shift ::
  "int \<Rightarrow> request \<Rightarrow> string \<Rightarrow> int option \<Rightarrow> int option \<Rightarrow> pos_db \<Rightarrow> shift_data reply \<times> pos_db" where
  "start_cashier_shift now rq number cashier amount = pos_staff rq (\<lambda>db.
     (case cashier of
        None \<Rightarrow> (Reject 400 (ValidationError ''cashier_id''), db)
      | Some c \<Rightarrow>
          if number = [] \<or> \<not> numeric_ok 10 (or_default amount 0) then (Reject 400 (ValidationError ''shift''), db)
          else (OK 200 \<lparr>sh_number = number, sh_cashier = Some c, sh_amount = or_default amount 0, sh_at = now,
                  sh_closed = False\<rparr>, db)))"

definition end_cashier_shift ::
  "int \<Rightarrow> request \<Rightarrow> string option \<Rightarrow> int option \<Rightarrow> pos_db \<Rightarrow> shift_data reply \<times> pos_db" where
  "end_cashier_shift now rq number amount = pos_staff rq (\<lambda>db.
     if falsy number \<or> \<not> truthy_int amount then (Reject 400 (ValueError ''shift''), db)
     else (OK 200 \<lparr>sh_number = the number, sh_cashier = None, sh_amount = the amount, sh_at = now, sh_closed = True\<rparr>, db))"

end
