(* ===== verification/Pos_Correct.thy ===== *)
theory Pos_Correct
  imports Pos Orders_Correct Payments_Correct
begin

text \<open>
  The point of sale: lemmas about quick orders, splitting and merging, and the properties.
\<close>

section \<open>Creating and saving orders\<close>

lemma pos_number_InrD:
  assumes "pos_number P prefix now hex = Inr number" and "prefix \<noteq> []"
  shows "number \<noteq> []" and "number = prefix @ dec_int (now div 1000000) @ hex"
  using assms by (auto simp: pos_number_def split: sum.splits)

lemma order_create_bareD:
  assumes "order_create_bare P now order db = Inr (o1, db1)" and "o_id order = 0" and "o_number order \<noteq> []"
  shows "\<exists>a. pe_amount P = Some a \<and> o1 = order\<lparr>o_subtotal := a, o_total := a, o_id := seq (db_orders db) + 1, o_at := now\<rparr>"
    and "db1 = db\<lparr>db_orders := \<lparr>rows = rows (db_orders db) @ [o1], seq = seq (db_orders db) + 1\<rparr>\<rparr>"
  using assms by (auto simp: order_create_bare_def order_save_def Let_def t_add_def split: option.splits if_splits)

lemma recalculate_InrD:
  assumes "recalculate_order_amount now order db = Inr (o1, db')" and "o_id order \<noteq> 0" and "o_number order \<noteq> []"
  shows "o1 = order\<lparr>o_subtotal := sum_list (map oi_total (items_of_order (o_id order) db)),
      o_total := sum_list (map oi_total (items_of_order (o_id order) db)) - o_discount order\<rparr>"
    and "db' = db\<lparr>db_orders := t_save o_id o1 (db_orders db)\<rparr>"
  using order_save_oldD [OF assms(1) [unfolded recalculate_order_amount_def Let_def]] assms(2,3) by simp_all

section \<open>Quick orders\<close>

text \<open>How a sold quantity changes a stock: down, but not below zero.\<close>

definition sold_down :: "item_row \<Rightarrow> (int \<Rightarrow> int option) \<Rightarrow> int \<Rightarrow> int option" where
  "sold_down it stock k = (if oi_sku it = Some k then map_option (\<lambda>v. max 0 (v - oi_quantity it)) (stock k) else stock k)"

lemma quick_line_InrD:
  assumes "quick_line order shop q db = Inr (Some (t, db'))" and wf: "catalog_wf (db_cat db)"
  shows "\<exists>it. rows (db_order_items db') = rows (db_order_items db) @ [it] \<and> oi_order it = o_id order \<and> oi_total it = t
       \<and> 0 \<le> oi_quantity it \<and> oi_quantity it = qi_quantity q \<and> oi_total it = oi_unit_price it * oi_quantity it
       \<and> stock_at (db_cat db') = sold_down it (stock_at (db_cat db))"
    and "db' = db\<lparr>db_cat := db_cat db', db_order_items := db_order_items db'\<rparr>" and "catalog_wf (db_cat db')"
proof -
  obtain p sku where p: "qs_first (\<lambda>p. p_id p = qi_product q \<and> p_shop p = shop) (db_products (db_cat db)) = Some p"
    and sku: "sku = (if truthy_int (qi_sku q)
        then qs_first (\<lambda>k. k_id k = the (qi_sku q) \<and> k_product k = p_id p) (db_skus (db_cat db)) else None)"
    and go: "\<not> (truthy_int (qi_sku q) \<and> sku = None)"
    using assms(1) by (auto simp: quick_line_def Let_def split: option.splits if_splits)
  define price where "price = (case sku of Some k \<Rightarrow> k_price k | None \<Rightarrow> p_base_price p)"
  define it where "it = \<lparr>oi_id = 0, oi_order = o_id order, oi_product = p_id p, oi_sku = map_option k_id sku,
      oi_name = p_name p, oi_image = image_url p, oi_specs = get_specifications_data sku (db_cat db),
      oi_unit_price = price, oi_quantity = qi_quantity q, oi_total = price * qi_quantity q,
      oi_attrs = qi_attrs q, oi_customization = qi_custom q\<rparr>"
  have "quick_line order shop q db = (case create_order_item it db of
        Inl e \<Rightarrow> Inl e
      | Inr db1 \<Rightarrow> (case sku of None \<Rightarrow> Inr (Some (price * qi_quantity q, db1))
           | Some k \<Rightarrow> (case sku_save (k\<lparr>k_stock := max 0 (k_stock k - qi_quantity q)\<rparr>) (db_cat db1) of
                Inl e \<Rightarrow> Inl e
              | Inr (_, cat) \<Rightarrow> Inr (Some (price * qi_quantity q, db1\<lparr>db_cat := cat\<rparr>)))))"
    unfolding quick_line_def p option.case Let_def sku [symmetric] price_def [symmetric] it_def [symmetric]
    using go by (simp only: if_False)
  with assms(1) obtain db1 where c: "create_order_item it db = Inr db1"
    and rest: "(case sku of None \<Rightarrow> Inr (Some (price * qi_quantity q, db1))
           | Some k \<Rightarrow> (case sku_save (k\<lparr>k_stock := max 0 (k_stock k - qi_quantity q)\<rparr>) (db_cat db1) of
                Inl e \<Rightarrow> Inl e
              | Inr (_, cat) \<Rightarrow> Inr (Some (price * qi_quantity q, db1\<lparr>db_cat := cat\<rparr>)))) = Inr (Some (t, db'))"
    by (auto split: sum.splits)
  obtain i where i: "db1 = db\<lparr>db_order_items := db_order_items db1\<rparr>"
    "rows (db_order_items db1) = rows (db_order_items db) @ [it\<lparr>oi_id := i\<rparr>]"
    using create_order_item_InrD(1) [OF c] by blast
  have q0: "0 \<le> qi_quantity q" using create_order_item_InrD(2) [OF c] by (simp add: it_def)
  have cat1: "db_cat db1 = db_cat db" using i(1) by (cases db; cases db1) simp
  have t: "t = price * qi_quantity q" using rest by (auto split: option.splits sum.splits)
  have "\<exists>cat. db' = db1\<lparr>db_cat := cat\<rparr> \<and> catalog_wf cat
      \<and> stock_at cat = sold_down (it\<lparr>oi_id := i\<rparr>) (stock_at (db_cat db))"
  proof (cases sku)
    case None
    then show ?thesis using rest wf cat1
      by (intro exI [of _ "db_cat db1"]) (auto simp: sold_down_def it_def)
  next
    case (Some k)
    with sku go have k: "k \<in> set (rows (db_skus (db_cat db)))" by (auto dest: qs_first_SomeD split: if_splits)
    have f: "t_find k_id (k_id k) (db_skus (db_cat db)) = Some k"
      using t_wf_find_unique k wf by (auto simp: catalog_wf_def)
    obtain k' cat where s: "sku_save (k\<lparr>k_stock := max 0 (k_stock k - qi_quantity q)\<rparr>) (db_cat db) = Inr (k', cat)"
      and e: "db' = db1\<lparr>db_cat := cat\<rparr>" using rest Some cat1 by (auto split: sum.splits)
    have "t_find k_id (k_id (k\<lparr>k_stock := max 0 (k_stock k - qi_quantity q)\<rparr>)) (db_skus (db_cat db)) \<noteq> None" using f by simp
    note S = sku_save_InrD [OF s wf this]
    have "stock_at cat = sold_down (it\<lparr>oi_id := i\<rparr>) (stock_at (db_cat db))"
      using S(4) f by (auto simp: fun_eq_iff stock_at_def sold_down_def it_def Some)
    with S(3) e show ?thesis by blast
  qed
  then obtain cat where cat: "db' = db1\<lparr>db_cat := cat\<rparr>" "catalog_wf cat"
    "stock_at cat = sold_down (it\<lparr>oi_id := i\<rparr>) (stock_at (db_cat db))" by blast
  show "\<exists>it. rows (db_order_items db') = rows (db_order_items db) @ [it] \<and> oi_order it = o_id order \<and> oi_total it = t
       \<and> 0 \<le> oi_quantity it \<and> oi_quantity it = qi_quantity q \<and> oi_total it = oi_unit_price it * oi_quantity it
       \<and> stock_at (db_cat db') = sold_down it (stock_at (db_cat db))"
    using i(2) cat t q0 by (intro exI [of _ "it\<lparr>oi_id := i\<rparr>"]) (simp add: it_def)
  show "db' = db\<lparr>db_cat := db_cat db', db_order_items := db_order_items db'\<rparr>"
    using cat(1) i(1) by (cases db; cases db1; cases db') simp
  show "catalog_wf (db_cat db')" using cat by simp
qed

lemma quick_loop_InrD:
  "quick_loop order shop qs s db = Inr (s', db') \<Longrightarrow> catalog_wf (db_cat db) \<Longrightarrow>
     (\<exists>its. rows (db_order_items db') = rows (db_order_items db) @ its \<and> (\<forall>it \<in> set its. oi_order it = o_id order \<and> 0 \<le> oi_quantity it)
        \<and> s' = s + sum_list (map oi_total its)
        \<and> (\<forall>k v. stock_at (db_cat db) k = Some v \<and> 0 \<le> v \<longrightarrow>
             stock_at (db_cat db') k = Some (max 0 (v - total_of k (line_moves its)))))
     \<and> db' = db\<lparr>db_cat := db_cat db', db_order_items := db_order_items db'\<rparr> \<and> catalog_wf (db_cat db')"
proof (induction qs arbitrary: s db)
  case Nil
  then show ?case by (auto simp: max_def intro!: exI [of _ "[]"])
next
  case (Cons q qs)
  show ?case
  proof (cases "\<exists>t db1. quick_line order shop q db = Inr (Some (t, db1))")
    case False
    then have "quick_line order shop q db = Inr None \<and> quick_loop order shop qs s db = Inr (s', db')"
      using Cons.prems(1) by (auto split: sum.splits option.splits)
    then show ?thesis using Cons.IH Cons.prems(2) by blast
  next
    case True
    then obtain t db1 where l: "quick_line order shop q db = Inr (Some (t, db1))" by blast
    then have r: "quick_loop order shop qs (s + t) db1 = Inr (s', db')" using Cons.prems(1) by simp
    note L = quick_line_InrD [OF l Cons.prems(2)]
    note IH = Cons.IH [OF r L(3)]
    obtain it where it: "rows (db_order_items db1) = rows (db_order_items db) @ [it]" "oi_order it = o_id order"
      "oi_total it = t" "0 \<le> oi_quantity it" "stock_at (db_cat db1) = sold_down it (stock_at (db_cat db))" using L(1) by blast
    obtain its where its: "rows (db_order_items db') = rows (db_order_items db1) @ its" "\<forall>it \<in> set its. oi_order it = o_id order \<and> 0 \<le> oi_quantity it"
      "s' = s + t + sum_list (map oi_total its)"
      "\<And>k v. stock_at (db_cat db1) k = Some v \<Longrightarrow> 0 \<le> v \<Longrightarrow>
             stock_at (db_cat db') k = Some (max 0 (v - total_of k (line_moves its)))" using IH by blast
    have pos: "0 \<le> total_of k (line_moves its)" for k
      using its(2) by (induction its) (auto split: option.splits)
    have "stock_at (db_cat db') k = Some (max 0 (v - total_of k (line_moves (it # its))))"
      if v: "stock_at (db_cat db) k = Some v" "0 \<le> v" for k v
    proof (cases "oi_sku it = Some k")
      case True
      then show ?thesis using its(4) [of k "max 0 (v - oi_quantity it)"] v it(4,5) pos [of k]
        by (auto simp: sold_down_def)
    next
      case False
      then show ?thesis using its(4) [of k v] v it(5) by (auto simp: sold_down_def split: option.splits)
    qed
    moreover have "db' = db\<lparr>db_cat := db_cat db', db_order_items := db_order_items db'\<rparr>"
      using L(2) IH by (cases db; cases db1; cases db') simp
    ultimately show ?thesis using it its IH by (intro conjI exI [of _ "it # its"]) auto
  qed
qed

section \<open>Discounts\<close>

lemma to_cents_micro:
  assumes "0 \<le> n"
  shows "to_cents (of_int n / of_int 1000000) = (n + 5000) div 10000"
proof -
  have "of_int n / (of_int 1000000 :: rat) * 100 + 1/2 = (of_int (n + 5000) / of_int 10000 :: rat)" by (simp add: field_simps)
  then have "\<lfloor>of_int n / (of_int 1000000 :: rat) * 100 + 1/2\<rfloor> = \<lfloor>of_int (n + 5000) / (of_int 10000 :: rat)\<rfloor>" by (simp only:)
  also have "\<dots> = (n + 5000) div 10000" by (rule floor_divide_of_int_eq)
  finally show ?thesis using assms by (simp add: to_cents_def)
qed

lemma half_cents:
  fixes n s :: int
  shows "(n + 5000) div 10000 + (s * 10000 - n + 5000) div 10000 = s + (if n mod 10000 = 5000 then 1 else 0)"
proof -
  obtain a r where n: "n = 10000 * a + r" and r: "0 \<le> r" "r < 10000" "r = n mod 10000"
    by (metis mult_div_mod_eq pos_mod_bound pos_mod_sign zero_less_numeral)
  have "n + 5000 = (r + 5000) + a * 10000" "s * 10000 - n + 5000 = (5000 - r) + (s - a) * 10000" using n by simp_all
  then have "(n + 5000) div 10000 = a + (r + 5000) div 10000"
    and "(s * 10000 - n + 5000) div 10000 = s - a + (5000 - r) div 10000" by (simp_all only: div_mult_self1)
  moreover have "(r + 5000) div 10000 = (if r < 5000 then 0 else 1)" using r by (auto simp: div_eq_iff_bounds)
  moreover have "(5000 - r) div 10000 = (if r \<le> 5000 then 0 else - 1)" using r by (auto simp: div_eq_iff_bounds)
  ultimately show ?thesis unfolding r(3) [symmetric] by auto
qed

section \<open>Properties\<close>

definition full_pos :: pos_env where
  "full_pos = \<lparr>pe_time = Bound, pe_amount = Some 0, pe_models = True, pe_sku_barcode = Some k_code, pe_product_barcode = Some p_name\<rparr>"

definition demo_pos :: pos_db where
  "demo_pos = \<lparr>db_pay = \<lparr>db_ord = demo_orders, db_methods = empty_tbl, db_txns = empty_tbl, db_refunds = empty_tbl,
      db_wechat = empty_tbl, db_alipay = empty_tbl\<rparr>, db_held = empty_tbl, db_level_configs = empty_tbl\<rparr>"

definition demo_quick :: quick_body where
  "demo_quick = \<lparr>qb_type = None, qb_name = None, qb_phone = [], qb_table = ''A1'', qb_method = None,
     qb_items = [\<lparr>qi_product = 1, qi_sku = Some 1, qi_quantity = 9, qi_attrs = [], qi_custom = []\<rparr>,
                 \<lparr>qi_product = 2, qi_sku = None, qi_quantity = 1, qi_attrs = [], qi_custom = []\<rparr>],
     qb_apply_discount = False, qb_kind = None, qb_value = None\<rparr>"



text \<open>A percentage discount can charge a cent too much: discount and total are rounded separately, both half up, so
  they add up to the subtotal except when the exact discount ends in half a cent, where they exceed it by one
  cent; both stay between zero and the subtotal.\<close>

theorem discount_rounding:
  assumes "apply_discount now order (Some PercentDiscount) (Some v) db = Inr (o1, db')"
    and "o_id order \<noteq> 0" "o_number order \<noteq> []"
    and "0 \<le> o_subtotal order" "o_subtotal order < 10000000000" "0 \<le> v" "v \<le> 10000"
  shows "o_discount o1 = (o_subtotal order * v + 5000) div 10000
     \<and> o_discount o1 + o_total o1 = o_subtotal order + (if o_subtotal order * v mod 10000 = 5000 then 1 else 0)
     \<and> 0 \<le> o_discount o1 \<and> o_discount o1 \<le> o_subtotal order \<and> 0 \<le> o_total o1 \<and> o_total o1 \<le> o_subtotal order
     \<and> t_find o_id (o_id order) (db_orders db') = Some o1"
proof -
  let ?s = "o_subtotal order" let ?n = "?s * v"
  have "?n \<le> 10000000000 * 10000" using assms by (intro mult_mono) auto
  then have d: "dec_mult (of_cents ?s) (of_cents v / 100) = of_int ?n / of_int 1000000"
    using assms by (intro dec_mult_cents(2)) auto
  have n0: "0 \<le> ?n" using assms by simp
  have le: "?n \<le> ?s * 10000" using assms by (intro mult_left_mono) auto
  have r: "of_cents ?s - of_int ?n / of_int 1000000 = of_int (?s * 10000 - ?n) / (of_int 1000000 :: rat)"
    by (simp add: of_cents_def field_simps)
  have "order_save now [] (order\<lparr>o_discount := (?n + 5000) div 10000,
      o_total := (?s * 10000 - ?n + 5000) div 10000\<rparr>) db = Inr (o1, db')"
    using assms(1) le n0
    by (simp only: apply_discount_def discount_amount_of_def option.case discount_kind.case sum.case d r to_cents_micro
        diff_ge_0_iff_ge)
  from order_save_oldD [OF this] assms(2,3)
  have o1: "o1 = order\<lparr>o_discount := (?n + 5000) div 10000, o_total := (?s * 10000 - ?n + 5000) div 10000\<rparr>"
    and db': "db' = db\<lparr>db_orders := t_save o_id o1 (db_orders db)\<rparr>" by simp_all
  have "(?n + 5000) div 10000 \<le> (5000 + ?s * 10000) div 10000"
    and "(?s * 10000 - ?n + 5000) div 10000 \<le> (5000 + ?s * 10000) div 10000"
    using le n0 by (intro zdiv_mono1; simp)+
  then have "(?n + 5000) div 10000 \<le> ?s" "(?s * 10000 - ?n + 5000) div 10000 \<le> ?s" by simp_all
  moreover have "0 \<le> (?n + 5000) div 10000" "0 \<le> (?s * 10000 - ?n + 5000) div 10000"
    using le n0 by (simp_all add: pos_imp_zdiv_nonneg_iff)
  ultimately show ?thesis using half_cents [of ?n ?s] by (simp add: o1 db' t_find_t_save)
qed

definition demo_tab :: order_row where
  "demo_tab = (quick_row 5 3 None ''POS1'' demo_quick)\<lparr>o_id := 1, o_subtotal := 5, o_total := 5\<rparr>"

theorem discount_rounding_witness:
  "res_is (\<lambda>(o1, db'). o_discount o1 + o_total o1 = 6)
     (apply_discount 5 demo_tab (Some PercentDiscount) (Some 5000) (demo_orders\<lparr>db_orders := \<lparr>rows = [demo_tab], seq = 1\<rparr>\<rparr>))"
proof -
  let ?db = "demo_orders\<lparr>db_orders := \<lparr>rows = [demo_tab], seq = 1\<rparr>\<rparr>"
  have "res_is (\<lambda>_. True) (apply_discount 5 demo_tab (Some PercentDiscount) (Some 5000) ?db)" by code_simp
  then obtain o1 db' where a: "apply_discount 5 demo_tab (Some PercentDiscount) (Some 5000) ?db = Inr (o1, db')"
    by (auto elim: res_isE)
  have "o_discount o1 + o_total o1 = 5 + (if 5 * 5000 mod 10000 = (5000 :: int) then 1 else 0)"
    using discount_rounding [OF a] by (simp add: demo_tab_def quick_row_def)
  then show ?thesis by (simp add: a res_is_def)
qed

section \<open>Splitting\<close>

lemma sum_list_swap:
  assumes "distinct (map pk xs)" and "x \<in> set xs"
  shows "sum_list (map f (map (\<lambda>r. if pk r = pk x then y else r) xs)) = sum_list (map f xs) - f x + (f y :: int)
     \<and> sum_list (map f (filter (\<lambda>r. pk r \<noteq> pk x) xs)) = sum_list (map f xs) - f x"
  using assms
proof (induction xs)
  case Nil
  then show ?case by simp
next
  case (Cons a xs)
  have same: "pk r \<noteq> pk a" if "r \<in> set xs" for r using imageI [OF that, of pk] Cons.prems(1) by auto
  show ?case
  proof (cases "x = a")
    case True
    have "map (\<lambda>r. if pk r = pk a then y else r) xs = xs" using same by (intro map_idI) auto
    moreover have "filter (\<lambda>r. pk r \<noteq> pk a) xs = xs" using same by (intro filter_True) auto
    ultimately show ?thesis using True by simp
  next
    case False
    with Cons.prems have "x \<in> set xs" "pk a \<noteq> pk x" using same by auto
    with Cons.IH Cons.prems(1) show ?thesis by simp
  qed
qed

text \<open>What an entry asks for beyond what its line holds.\<close>

definition line_of :: "order_row \<Rightarrow> split_item \<Rightarrow> orders_db \<Rightarrow> item_row option" where
  "line_of order s od = (case sq_item s of None \<Rightarrow> None
     | Some i \<Rightarrow> qs_first (\<lambda>it. oi_id it = i \<and> oi_order it = o_id order) (db_order_items od))"

definition surplus :: "order_row \<Rightarrow> split_item \<Rightarrow> orders_db \<Rightarrow> int" where
  "surplus order s od = (case line_of order s od of None \<Rightarrow> 0
     | Some it \<Rightarrow> max 0 (or_default (sq_quantity s) (oi_quantity it) - oi_quantity it))"

text \<open>What one entry of a split request does to the lines.\<close>

lemma split_one_cases:
  assumes "split_one order new s od = Inr od'" and wf: "t_wf oi_id (db_order_items od)"
  obtains "line_of order s od = None" "od' = od"
    | it q n where "line_of order s od = Some it" "surplus order s od = max 0 (q - oi_quantity it)"
      "sq_item s = Some (oi_id it)" "it \<in> set (rows (db_order_items od))" "oi_order it = o_id order"
      "q = or_default (sq_quantity s) (oi_quantity it)" "0 \<le> q"
      "n = it\<lparr>oi_id := seq (db_order_items od) + 1, oi_order := o_id new, oi_quantity := q, oi_total := oi_unit_price it * q\<rparr>"
      "od' = od\<lparr>db_order_items := \<lparr>rows =
         (if q < oi_quantity it then map (\<lambda>r. if oi_id r = oi_id it then it\<lparr>oi_quantity := oi_quantity it - q,
                oi_total := oi_unit_price it * (oi_quantity it - q)\<rparr> else r) (rows (db_order_items od))
          else filter (\<lambda>r. oi_id r \<noteq> oi_id it) (rows (db_order_items od))) @ [n], seq = seq (db_order_items od) + 1\<rparr>\<rparr>"
proof -
  obtain i where i: "sq_item s = Some i" using assms(1) by (auto simp: split_one_def split: option.splits)
  show thesis
  proof (cases "qs_first (\<lambda>it. oi_id it = i \<and> oi_order it = o_id order) (db_order_items od)")
    case None
    have "line_of order s od = None" using None i by (simp add: line_of_def)
    moreover have "od' = od" using assms(1) None i by (simp add: split_one_def)
    ultimately show thesis by (rule that(1))
  next
    case (Some it)
    have it: "it \<in> set (rows (db_order_items od))" "oi_id it = i" "oi_order it = o_id order"
      using qs_first_SomeD [OF Some] by auto
    define q where "q = or_default (sq_quantity s) (oi_quantity it)"
    define n where "n = it\<lparr>oi_id := seq (db_order_items od) + 1, oi_order := o_id new, oi_quantity := q, oi_total := oi_unit_price it * q\<rparr>"
    define it' where "it' = it\<lparr>oi_quantity := oi_quantity it - q, oi_total := oi_unit_price it * (oi_quantity it - q)\<rparr>"
    obtain od1 where c: "create_order_item (it\<lparr>oi_id := 0, oi_order := o_id new, oi_quantity := q, oi_total := oi_unit_price it * q\<rparr>) od = Inr od1"
      and r: "(if q < oi_quantity it then item_save it' od1
               else Inr (od1\<lparr>db_order_items := t_del (\<lambda>r. oi_id r = oi_id it) (db_order_items od1)\<rparr>)) = Inr od'"
    proof -
      have "split_one order new s od =
         (case create_order_item (it\<lparr>oi_id := 0, oi_order := o_id new, oi_quantity := q, oi_total := oi_unit_price it * q\<rparr>) od of
            Inl e \<Rightarrow> Inl e
          | Inr od1 \<Rightarrow> if q < oi_quantity it then item_save it' od1
               else Inr (od1\<lparr>db_order_items := t_del (\<lambda>r. oi_id r = oi_id it) (db_order_items od1)\<rparr>))"
        unfolding split_one_def i Some option.case Let_def q_def it'_def by (rule refl)
      with assms(1) show thesis by (auto split: sum.splits intro: that)
    qed
    have q0: "0 \<le> q" using create_order_item_InrD(2) [OF c] by simp
    have od1: "od1 = od\<lparr>db_order_items := \<lparr>rows = rows (db_order_items od) @ [n], seq = seq (db_order_items od) + 1\<rparr>\<rparr>"
      using c by (auto simp: create_order_item_def t_add_def n_def split: if_splits)
    have ne: "i \<le> seq (db_order_items od)" using wf it by (auto simp: t_wf_def)
    have idn: "oi_id n = seq (db_order_items od) + 1" by (simp add: n_def)
    have "od' = od\<lparr>db_order_items := \<lparr>rows =
         (if q < oi_quantity it then map (\<lambda>r. if oi_id r = oi_id it then it' else r) (rows (db_order_items od))
          else filter (\<lambda>r. oi_id r \<noteq> oi_id it) (rows (db_order_items od))) @ [n], seq = seq (db_order_items od) + 1\<rparr>\<rparr>"
    proof (cases "q < oi_quantity it")
      case True
      have "t_find oi_id (oi_id it') (db_order_items od1) \<noteq> None" using it(1) by (auto simp: t_find_None od1 it'_def)
      with r True have "od' = od1\<lparr>db_order_items := t_upd (\<lambda>x. oi_id x = oi_id it') (\<lambda>_. it') (db_order_items od1)\<rparr>"
        by (auto simp: item_save_def t_save_def split: if_splits)
      then show ?thesis using True ne idn it(2) by (simp add: od1 t_upd_def it'_def)
    next
      case False
      with r have "od' = od1\<lparr>db_order_items := t_del (\<lambda>r. oi_id r = oi_id it) (db_order_items od1)\<rparr>" by simp
      then show ?thesis using False ne idn it(2) by (simp add: od1 t_del_def)
    qed
    then show thesis using i it q0 Some
      by (intro that(2) [of it q n]) (simp_all add: q_def n_def it'_def surplus_def line_of_def)
  qed
qed

text \<open>The pieces of two orders together, weighted by product, SKU and unit price.\<close>

definition both_sum :: "(int \<Rightarrow> int option \<Rightarrow> int \<Rightarrow> int) \<Rightarrow> int \<Rightarrow> int \<Rightarrow> orders_db \<Rightarrow> int" where
  "both_sum w a b od = sum_list (map (\<lambda>r. if oi_order r \<in> {a, b} then w (oi_product r) (oi_sku r) (oi_unit_price r) * oi_quantity r else 0)
     (rows (db_order_items od)))"

definition plain_lines :: "int \<Rightarrow> int \<Rightarrow> orders_db \<Rightarrow> bool" where
  "plain_lines a b od \<longleftrightarrow> (\<forall>r \<in> set (rows (db_order_items od)). oi_order r \<in> {a, b} \<longrightarrow> oi_total r = oi_unit_price r * oi_quantity r)"

lemma find_other_line:
  assumes "i \<noteq> oi_id it" and "oi_id y = oi_id it"
  shows "find (\<lambda>r. oi_id r = i \<and> oi_order r = k) (map (\<lambda>r. if oi_id r = oi_id it then y else r) xs)
       = find (\<lambda>r. oi_id r = i \<and> oi_order r = k) xs"
    and "find (\<lambda>r. oi_id r = i \<and> oi_order r = k) (filter (\<lambda>r. oi_id r \<noteq> oi_id it) xs)
       = find (\<lambda>r. oi_id r = i \<and> oi_order r = k) xs"
  using assms by (induction xs) auto

lemma filter_other_order:
  assumes d: "distinct (map oi_id rs)" and "it \<in> set rs" "oi_order it \<noteq> k" "oi_order y \<noteq> k"
  shows "filter (\<lambda>r. oi_order r = k) (map (\<lambda>r. if oi_id r = oi_id it then y else r) rs) = filter (\<lambda>r. oi_order r = k) rs"
    and "filter (\<lambda>r. oi_order r = k) (filter (\<lambda>r. oi_id r \<noteq> oi_id it) rs) = filter (\<lambda>r. oi_order r = k) rs"
proof -
  have same: "r = it" if "r \<in> set rs" "oi_id r = oi_id it" for r
    using d assms(2) that unfolding distinct_map by (blast dest: inj_onD)
  have "filter (\<lambda>r. oi_order r = k) (map (\<lambda>r. if oi_id r = oi_id it then y else r) xs) = filter (\<lambda>r. oi_order r = k) xs"
    if "set xs \<subseteq> set rs" for xs using that same assms(3,4) by (induction xs) auto
  then show "filter (\<lambda>r. oi_order r = k) (map (\<lambda>r. if oi_id r = oi_id it then y else r) rs) = filter (\<lambda>r. oi_order r = k) rs"
    by simp
  show "filter (\<lambda>r. oi_order r = k) (filter (\<lambda>r. oi_id r \<noteq> oi_id it) rs) = filter (\<lambda>r. oi_order r = k) rs"
    unfolding filter_filter using same assms(3) by (intro filter_cong) auto
qed

text \<open>An entry moves pieces from one order to the other and never loses any; asking for more than the line
  holds adds the difference.\<close>

lemma split_one_step:
  assumes s: "split_one order new s od = Inr od'" and wf: "t_wf oi_id (db_order_items od)"
    and ne: "o_id new \<noteq> o_id order"
  shows "t_wf oi_id (db_order_items od') \<and> od' = od\<lparr>db_order_items := db_order_items od'\<rparr>
    \<and> both_sum w (o_id order) (o_id new) od' = both_sum w (o_id order) (o_id new) od
       + (case line_of order s od of None \<Rightarrow> 0 | Some it \<Rightarrow> w (oi_product it) (oi_sku it) (oi_unit_price it) * surplus order s od)
    \<and> (k \<noteq> o_id order \<longrightarrow> k \<noteq> o_id new \<longrightarrow> items_of_order k od' = items_of_order k od)
    \<and> (sq_item s' \<noteq> sq_item s \<longrightarrow> line_of order s' od' = line_of order s' od)
    \<and> (plain_lines (o_id order) (o_id new) od \<longrightarrow> plain_lines (o_id order) (o_id new) od')"
  using s wf
proof (cases rule: split_one_cases)
  case 1
  then show ?thesis using wf by (auto split: option.splits)
next
  case (2 it q n)
  let ?f = "\<lambda>r. if oi_order r \<in> {o_id order, o_id new} then w (oi_product r) (oi_sku r) (oi_unit_price r) * oi_quantity r else 0"
  let ?it' = "it\<lparr>oi_quantity := oi_quantity it - q, oi_total := oi_unit_price it * (oi_quantity it - q)\<rparr>"
  let ?rs = "rows (db_order_items od)"
  have d: "distinct (map oi_id ?rs)" using wf by (simp add: t_wf_def)
  note R = sum_list_swap [OF d 2(4), of ?f ?it']
  have fr: "k \<noteq> o_id order \<longrightarrow> k \<noteq> o_id new \<longrightarrow> items_of_order k od' = items_of_order k od"
    using filter_other_order [OF d 2(4), of k ?it'] 2(5) by (simp add: items_of_order_def qs_filter_def 2(8,9))
  have sum: "both_sum w (o_id order) (o_id new) od' = both_sum w (o_id order) (o_id new) od + w (oi_product it) (oi_sku it) (oi_unit_price it) * surplus order s od"
    using R 2(2,5,7) by (auto simp: both_sum_def 2(8,9) algebra_simps max_def)
  have ids: "map oi_id (map (\<lambda>r. if oi_id r = oi_id it then ?it' else r) ?rs) = map oi_id ?rs" by simp
  have b: "\<forall>r \<in> set ?rs. 0 < oi_id r \<and> oi_id r \<le> seq (db_order_items od)" "0 \<le> seq (db_order_items od)"
    using wf by (simp_all add: t_wf_def)
  have t: "t_wf oi_id (db_order_items od')"
    unfolding t_wf_def 2(9) using b d 2(4) by (auto simp: 2(8) distinct_map_filter ids simp del: map_map)
  have other: "line_of order s' od' = line_of order s' od" if "sq_item s' \<noteq> sq_item s"
    using that find_other_line [of _ it ?it' "o_id order" ?rs] ne 2(3)
    by (auto simp: line_of_def qs_first_def 2(8,9) find_append_option split: option.splits)
  have plain: "plain_lines (o_id order) (o_id new) od'" if "plain_lines (o_id order) (o_id new) od"
    using that by (auto simp: plain_lines_def 2(8,9))
  show ?thesis using fr sum t other plain 2(1,9) by simp
qed

lemma split_all_InrD:
  assumes "place_all (split_one order new) ss od = Inr od'" and "t_wf oi_id (db_order_items od)" and ne: "o_id new \<noteq> o_id order"
    and "distinct (map sq_item ss)" and "\<forall>s \<in> set ss. surplus order s od = 0"
  shows "od' = od\<lparr>db_order_items := db_order_items od'\<rparr>
    \<and> both_sum w (o_id order) (o_id new) od' = both_sum w (o_id order) (o_id new) od
    \<and> (k \<noteq> o_id order \<longrightarrow> k \<noteq> o_id new \<longrightarrow> items_of_order k od' = items_of_order k od)
    \<and> (plain_lines (o_id order) (o_id new) od \<longrightarrow> plain_lines (o_id order) (o_id new) od')"
  using assms(1,2,4,5)
proof (induction ss arbitrary: od)
  case Nil
  then show ?case by simp
next
  case (Cons s ss)
  obtain od1 where o: "split_one order new s od = Inr od1" and r: "place_all (split_one order new) ss od1 = Inr od'"
    using Cons.prems(1) by (auto split: sum.splits)
  note S = split_one_step [OF o Cons.prems(2) ne]
  have "line_of order s' od1 = line_of order s' od" if "s' \<in> set ss" for s'
  proof -
    have "sq_item s' \<noteq> sq_item s" using that Cons.prems(3) by (metis distinct.simps(2) image_eqI list.set_map list.simps(9))
    then show ?thesis using S [of undefined undefined s'] by blast
  qed
  then have "\<forall>s' \<in> set ss. surplus order s' od1 = 0" using Cons.prems(4) by (simp add: surplus_def)
  moreover have "t_wf oi_id (db_order_items od1)" using S by blast
  moreover have "distinct (map sq_item ss)" using Cons.prems(3) by simp
  ultimately have IH: "od' = od1\<lparr>db_order_items := db_order_items od'\<rparr>
    \<and> both_sum w (o_id order) (o_id new) od' = both_sum w (o_id order) (o_id new) od1
    \<and> (k \<noteq> o_id order \<longrightarrow> k \<noteq> o_id new \<longrightarrow> items_of_order k od' = items_of_order k od1)
    \<and> (plain_lines (o_id order) (o_id new) od1 \<longrightarrow> plain_lines (o_id order) (o_id new) od')"
    using Cons.IH [OF r] by blast
  have "od1 = od\<lparr>db_order_items := db_order_items od1\<rparr>" using S by blast
  with IH have "od' = od\<lparr>db_order_items := db_order_items od'\<rparr>" by (cases od; cases od1; cases od') simp
  moreover have "both_sum w (o_id order) (o_id new) od1 = both_sum w (o_id order) (o_id new) od"
    using S [of w] Cons.prems(4) by (auto split: option.splits)
  ultimately show ?case using IH S [of undefined k] by simp
qed

text \<open>How many pieces of a product (and SKU) an order has.\<close>

definition pieces :: "int \<Rightarrow> int option \<Rightarrow> int \<Rightarrow> orders_db \<Rightarrow> int" where
  "pieces p k i od = sum_list (map oi_quantity (filter (\<lambda>it. oi_product it = p \<and> oi_sku it = k) (items_of_order i od)))"

lemma both_sum_pieces:
  assumes "a \<noteq> b"
  shows "both_sum (\<lambda>p' k' _. if p' = p \<and> k' = k then 1 else 0) a b od = pieces p k a od + pieces p k b od"
proof -
  have "sum_list (map (\<lambda>r. if oi_order r \<in> {a, b} then (if oi_product r = p \<and> oi_sku r = k then 1 else 0) * oi_quantity r else 0) xs)
      = sum_list (map oi_quantity (filter (\<lambda>it. oi_product it = p \<and> oi_sku it = k) (filter (\<lambda>it. oi_order it = a) xs)))
      + sum_list (map oi_quantity (filter (\<lambda>it. oi_product it = p \<and> oi_sku it = k) (filter (\<lambda>it. oi_order it = b) xs)))" for xs
    using assms by (induction xs) auto
  then show ?thesis by (simp add: both_sum_def pieces_def items_of_order_def qs_filter_def)
qed

lemma both_sum_totals:
  assumes "a \<noteq> b" and "plain_lines a b od"
  shows "both_sum (\<lambda>_ _ v. v) a b od
     = sum_list (map oi_total (items_of_order a od)) + sum_list (map oi_total (items_of_order b od))"
proof -
  have "(\<forall>r \<in> set xs. oi_order r \<in> {a, b} \<longrightarrow> oi_total r = oi_unit_price r * oi_quantity r) \<Longrightarrow>
      sum_list (map (\<lambda>r. if oi_order r \<in> {a, b} then oi_unit_price r * oi_quantity r else 0) xs)
      = sum_list (map oi_total (filter (\<lambda>it. oi_order it = a) xs)) + sum_list (map oi_total (filter (\<lambda>it. oi_order it = b) xs))" for xs
    using assms(1) by (induction xs) auto
  then show ?thesis using assms(2) by (simp add: both_sum_def plain_lines_def items_of_order_def qs_filter_def)
qed

text \<open>C6: Splitting an order: when no entry asks for more than its line holds and every line is named once, the two
  orders together have exactly the pieces the one had, of every product and SKU; each order's subtotal is the sum
  of its lines, each total the subtotal less the order's discount, and where line totals are price times quantity
  the two subtotals add up to the old sum.  No other order, and no line of one, changes.\<close>

theorem split_conserves:
  assumes wf: "orders_wf db" and wfi: "t_wf oi_id (db_order_items db)"
    and order: "o_id order \<noteq> 0" "o_id order \<le> seq (db_orders db)" "o_number order \<noteq> []"
    and split: "split_order P now hex order ss db = Inr ((o1, new), db')"
    and entries: "distinct (map sq_item ss)" "\<forall>s \<in> set ss. surplus order s db = 0"
  shows "o_id o1 = o_id order \<and> o_id new = seq (db_orders db) + 1
     \<and> pieces p k (o_id o1) db' + pieces p k (o_id new) db' = pieces p k (o_id order) db
     \<and> o_subtotal o1 = sum_list (map oi_total (items_of_order (o_id o1) db')) \<and> o_total o1 = o_subtotal o1 - o_discount order
     \<and> o_subtotal new = sum_list (map oi_total (items_of_order (o_id new) db')) \<and> o_total new = o_subtotal new
     \<and> (plain_lines (o_id order) (o_id new) db \<longrightarrow>
          o_subtotal o1 + o_subtotal new = sum_list (map oi_total (items_of_order (o_id order) db)))
     \<and> (i \<noteq> o_id o1 \<longrightarrow> i \<noteq> o_id new \<longrightarrow> items_of_order i db' = items_of_order i db
          \<and> t_find o_id i (db_orders db') = t_find o_id i (db_orders db))"
proof -
  obtain number n0 db1 db2 db3 where num: "pos_number P ''SPLIT'' now hex = Inr number"
    and c: "order_create_bare P now (split_row order number) db = Inr (n0, db1)"
    and l: "place_all (split_one order n0) ss db1 = Inr db2"
    and r1: "recalculate_order_amount now order db2 = Inr (o1, db3)" and r2: "recalculate_order_amount now n0 db3 = Inr (new, db')"
    using split by (auto simp: split_order_def split: sum.splits prod.splits)
  have "number \<noteq> []" using pos_number_InrD(1) [OF num] by simp
  then have q: "o_id (split_row order number) = 0" "o_number (split_row order number) \<noteq> []" "o_discount (split_row order number) = 0"
    by (simp_all add: split_row_def)
  note C = order_create_bareD [OF c q(1,2)]
  have n0: "o_id n0 = seq (db_orders db) + 1" "o_number n0 \<noteq> []" "o_discount n0 = 0" using C(1) q by auto
  have seq0: "0 \<le> seq (db_orders db)" and old: "\<forall>it \<in> set (rows (db_order_items db)). oi_order it \<le> seq (db_orders db)"
    using wf by (simp_all add: orders_wf_def t_wf_def)
  have ne: "o_id n0 \<noteq> o_id order" "o_id n0 \<noteq> 0" using order(2) n0(1) seq0 by simp_all
  have it1: "db_order_items db1 = db_order_items db" using C(2) by simp
  then have same1: "items_of_order i db1 = items_of_order i db" "both_sum w a b db1 = both_sum w a b db"
    "plain_lines a b db1 = plain_lines a b db" "surplus order s db1 = surplus order s db" for i w a b s
    by (simp_all only: items_of_order_def both_sum_def plain_lines_def surplus_def line_of_def)
  have "\<forall>s \<in> set ss. surplus order s db1 = 0" "t_wf oi_id (db_order_items db1)" using entries(2) same1 wfi it1 by simp_all
  note L = split_all_InrD [OF l this(2) ne(1) entries(1) this(1), unfolded same1]
  note R1 = recalculate_InrD [OF r1 order(1,3)] and R2 = recalculate_InrD [OF r2 ne(2) n0(2)]
  have same2: "items_of_order i db' = items_of_order i db2" for i using R1(2) R2(2) by (simp add: items_of_order_def)
  have same3: "items_of_order i db3 = items_of_order i db2" for i using R1(2) by (simp add: items_of_order_def)
  have ids: "o_id o1 = o_id order" "o_id new = o_id n0" using R1(1) R2(1) by simp_all
  have none: "items_of_order (o_id n0) db = []"
    using old n0(1) by (auto simp: items_of_order_def qs_filter_def filter_empty_conv)
  have p: "pieces p k (o_id order) db2 + pieces p k (o_id n0) db2 = pieces p k (o_id order) db"
    using L [of "\<lambda>p' k' _. if p' = p \<and> k' = k then 1 else 0"] both_sum_pieces [OF ne(1) [symmetric]] none by (simp add: pieces_def)
  have t: "sum_list (map oi_total (items_of_order (o_id order) db2)) + sum_list (map oi_total (items_of_order (o_id n0) db2))
      = sum_list (map oi_total (items_of_order (o_id order) db))" if "plain_lines (o_id order) (o_id n0) db"
  proof -
    have "plain_lines (o_id order) (o_id n0) db2" using L that by blast
    from both_sum_totals [OF ne(1) [symmetric] this] both_sum_totals [OF ne(1) [symmetric] that] none
    show ?thesis using L [of "\<lambda>_ _ v. v"] by simp
  qed
  have "db_orders db2 = db_orders db1" using L by (metis orders_db.select_convs(5) orders_db.surjective orders_db.update_convs(6))
  moreover have "t_find o_id i (db_orders db1) = t_find o_id i (db_orders db)" if "i \<noteq> o_id n0"
    using that C(2) by (simp add: t_find_def find_append_option split: option.splits)
  ultimately have find: "t_find o_id i (db_orders db') = t_find o_id i (db_orders db)" if "i \<noteq> o_id order" "i \<noteq> o_id n0"
    using that R1(2) R2(2) ids by (simp add: t_find_t_save)
  show ?thesis using ids n0 p t find L [of undefined i] R1(1) R2(1) by (simp add: pieces_def same2 same3)
qed

text \<open>Splitting off nothing that is not there, on the demonstration data.\<close>

definition demo_line :: "int \<Rightarrow> int \<Rightarrow> item_row" where
  "demo_line i oid = \<lparr>oi_id = i, oi_order = oid, oi_product = 1, oi_sku = Some 1, oi_name = ''milk tea'', oi_image = ''a.png'', oi_specs = [],
     oi_unit_price = 1800, oi_quantity = 3, oi_total = 5400, oi_attrs = [], oi_customization = []\<rparr>"

definition demo_bill :: "int \<Rightarrow> string \<Rightarrow> order_row" where
  "demo_bill i number = (quick_row 5 3 None number demo_quick)\<lparr>o_id := i, o_subtotal := 5400, o_total := 5400\<rparr>"

definition demo_bills :: orders_db where
  "demo_bills = demo_orders\<lparr>db_orders := \<lparr>rows = [demo_bill 1 ''POS1'', demo_bill 2 ''POS2''], seq = 2\<rparr>,
     db_order_items := \<lparr>rows = [demo_line 1 1, demo_line 2 2], seq = 2\<rparr>\<rparr>"

lemma demo_bills_wf: "orders_wf demo_bills" "t_wf oi_id (db_order_items demo_bills)"
  using demo_orders_wf by (simp_all add: orders_wf_def demo_bills_def t_wf_def demo_bill_def demo_line_def demo_orders_def empty_tbl_def)

theorem split_conserves_witness:
  "res_is (\<lambda>((o1, new), db'). o_subtotal o1 + o_subtotal new = 5400 \<and> pieces 1 (Some 1) 1 db' + pieces 1 (Some 1) 3 db' = 3)
     (split_order full_pos 5000000 ''AB12'' (demo_bill 1 ''POS1'') [\<lparr>sq_item = Some 1, sq_quantity = Some 2\<rparr>] demo_bills)"
proof -
  let ?ss = "[\<lparr>sq_item = Some 1, sq_quantity = Some 2\<rparr>]"
  have "res_is (\<lambda>_. True) (split_order full_pos 5000000 ''AB12'' (demo_bill 1 ''POS1'') ?ss demo_bills)" by code_simp
  then obtain o1 new db' where s: "split_order full_pos 5000000 ''AB12'' (demo_bill 1 ''POS1'') ?ss demo_bills = Inr ((o1, new), db')"
    by (auto elim: res_isE)
  have b: "o_id (demo_bill 1 ''POS1'') = 1" "o_number (demo_bill 1 ''POS1'') = ''POS1''" "seq (db_orders demo_bills) = 2"
    by (simp_all add: demo_bill_def demo_bills_def quick_row_def)
  have "\<forall>s \<in> set ?ss. surplus (demo_bill 1 ''POS1'') s demo_bills = 0"
    by (simp add: surplus_def line_of_def qs_first_def demo_bills_def demo_line_def or_default_def b)
  moreover have "o_id (demo_bill 1 ''POS1'') \<noteq> 0" "o_id (demo_bill 1 ''POS1'') \<le> seq (db_orders demo_bills)"
    "o_number (demo_bill 1 ''POS1'') \<noteq> []" "distinct (map sq_item ?ss)" by (simp_all add: b)
  ultimately have S: "o_id o1 = o_id (demo_bill 1 ''POS1'')" "o_id new = seq (db_orders demo_bills) + 1"
    "pieces 1 (Some 1) (o_id o1) db' + pieces 1 (Some 1) (o_id new) db' = pieces 1 (Some 1) (o_id (demo_bill 1 ''POS1'')) demo_bills"
    "plain_lines (o_id (demo_bill 1 ''POS1'')) (o_id new) demo_bills \<longrightarrow>
       o_subtotal o1 + o_subtotal new = sum_list (map oi_total (items_of_order (o_id (demo_bill 1 ''POS1'')) demo_bills))"
    using split_conserves [OF demo_bills_wf _ _ _ s, of 1 "Some 1"] by blast+
  have "plain_lines 1 3 demo_bills" by (simp add: plain_lines_def demo_bills_def demo_line_def)
  moreover have "pieces 1 (Some 1) 1 demo_bills = 3" "sum_list (map oi_total (items_of_order 1 demo_bills)) = 5400"
    by (simp_all add: pieces_def items_of_order_def qs_filter_def demo_bills_def demo_line_def)
  ultimately have "o_subtotal o1 + o_subtotal new = 5400 \<and> pieces 1 (Some 1) 1 db' + pieces 1 (Some 1) 3 db' = 3"
    using S by (simp add: b)
  then show ?thesis by (simp add: s res_is_def)
qed

section \<open>Merging\<close>

definition is_merged :: "int \<Rightarrow> int list \<Rightarrow> pos_db \<Rightarrow> int \<Rightarrow> bool" where
  "is_merged shop ids db j \<longleftrightarrow> j \<in> set ids \<and> (\<exists>r \<in> set (rows (db_orders (pos_orders db))). o_id r = j \<and> o_shop r = shop)"

lemma fold_merge_rows:
  assumes "main \<notin> set ids"
  shows "rows (db_order_items (pos_orders (fold (merge_one shop main) ids db)))
       = map (\<lambda>it. if is_merged shop ids db (oi_order it) then it\<lparr>oi_order := main\<rparr> else it) (rows (db_order_items (pos_orders db)))
     \<and> rows (db_orders (pos_orders (fold (merge_one shop main) ids db)))
       = filter (\<lambda>r. \<not> is_merged shop ids db (o_id r)) (rows (db_orders (pos_orders db)))
     \<and> rows (db_txns (db_pay (fold (merge_one shop main) ids db)))
       = filter (\<lambda>t. \<not> is_merged shop ids db (tx_order t)) (rows (db_txns (db_pay db)))"
  using assms
proof (induction ids arbitrary: db)
  case Nil
  then show ?case by (simp add: is_merged_def)
next
  case (Cons i ids)
  define db1 where "db1 = merge_one shop main i db"
  have IH: "rows (db_order_items (pos_orders (fold (merge_one shop main) ids db1)))
       = map (\<lambda>it. if is_merged shop ids db1 (oi_order it) then it\<lparr>oi_order := main\<rparr> else it) (rows (db_order_items (pos_orders db1)))"
    "rows (db_orders (pos_orders (fold (merge_one shop main) ids db1)))
       = filter (\<lambda>r. \<not> is_merged shop ids db1 (o_id r)) (rows (db_orders (pos_orders db1)))"
    "rows (db_txns (db_pay (fold (merge_one shop main) ids db1)))
       = filter (\<lambda>t. \<not> is_merged shop ids db1 (tx_order t)) (rows (db_txns (db_pay db1)))"
    using Cons.IH [of db1] Cons.prems by simp_all
  show ?case
  proof (cases "qs_first (\<lambda>r. o_id r = i \<and> o_shop r = shop) (db_orders (pos_orders db))")
    case None
    then have "db1 = db" by (simp add: db1_def merge_one_def)
    moreover have "is_merged shop (i # ids) db = is_merged shop ids db"
      using None by (auto simp: is_merged_def fun_eq_iff qs_first_None)
    ultimately show ?thesis using IH by (simp add: db1_def)
  next
    case (Some m)
    have m: "m \<in> set (rows (db_orders (pos_orders db)))" "o_id m = i" "o_shop m = shop" using qs_first_SomeD [OF Some] by auto
    have e: "db1 = delete_order i (set_pos_orders (move_items i main (pos_orders db)) db)"
      using Some by (simp add: db1_def merge_one_def)
    have ne: "i \<noteq> main" and nin: "main \<notin> set ids" using Cons.prems by auto
    have rows1: "rows (db_order_items (pos_orders db1))
        = map (\<lambda>it. if oi_order it = i then it\<lparr>oi_order := main\<rparr> else it) (rows (db_order_items (pos_orders db)))"
      "rows (db_orders (pos_orders db1)) = filter (\<lambda>r. o_id r \<noteq> i) (rows (db_orders (pos_orders db)))"
      "rows (db_txns (db_pay db1)) = filter (\<lambda>t. tx_order t \<noteq> i) (rows (db_txns (db_pay db)))"
      using ne by (auto simp: e delete_order_def Let_def t_del_def set_pos_orders_def move_items_def t_upd_def intro!: filter_True)
    have g: "is_merged shop (i # ids) db j \<longleftrightarrow> j = i \<or> is_merged shop ids db1 j" for j
      using m by (auto simp: is_merged_def rows1(2))
    have "\<not> is_merged shop ids db1 main" using nin by (simp add: is_merged_def)
    then show ?thesis using IH by (auto simp: db1_def [symmetric] rows1 g)
  qed
qed

text \<open>A line with the reference to its order taken out.\<close>

definition loose :: "item_row \<Rightarrow> item_row" where
  "loose it = it\<lparr>oi_order := 0\<rparr>"

lemma merged_rows:
  "j \<noteq> main \<Longrightarrow> filter (\<lambda>it. oi_order it = j) (map (\<lambda>it. if G (oi_order it) then it\<lparr>oi_order := main\<rparr> else it) its)
     = (if G j then [] else filter (\<lambda>it. oi_order it = j) its)"
  "find (\<lambda>r. o_id r = j) (filter (\<lambda>r. \<not> G (o_id r)) os) = (if G j then None else find (\<lambda>r. o_id r = j) os)"
  "filter (\<lambda>t. tx_order t = j) (filter (\<lambda>t. \<not> G (tx_order t)) txs) = (if G j then [] else filter (\<lambda>t. tx_order t = j) txs)"
proof -
  show "j \<noteq> main \<Longrightarrow> filter (\<lambda>it. oi_order it = j) (map (\<lambda>it. if G (oi_order it) then it\<lparr>oi_order := main\<rparr> else it) its)
     = (if G j then [] else filter (\<lambda>it. oi_order it = j) its)" by (induction its) auto
  show "find (\<lambda>r. o_id r = j) (filter (\<lambda>r. \<not> G (o_id r)) os) = (if G j then None else find (\<lambda>r. o_id r = j) os)"
    by (induction os) auto
  show "filter (\<lambda>t. tx_order t = j) (filter (\<lambda>t. \<not> G (tx_order t)) txs) = (if G j then [] else filter (\<lambda>t. tx_order t = j) txs)"
    by (induction txs) auto
qed


definition demo_pos_bills :: pos_db where
  "demo_pos_bills = set_pos_orders demo_bills demo_pos"


text \<open>An order merged into itself loses all its lines and its payment transactions: its row comes back with
  subtotal zero.\<close>

theorem merge_self_loses:
  assumes "main \<in> set (rows (db_orders (pos_orders db)))" and "o_id main \<noteq> 0" and "o_number main \<noteq> []"
    and "merge_orders now (o_shop main) main [o_id main] db = Inr (m, db')"
  shows "items_of_order (o_id main) (pos_orders db') = [] \<and> m = main\<lparr>o_subtotal := 0, o_total := - o_discount main\<rparr>
     \<and> t_find o_id (o_id main) (db_orders (pos_orders db')) = Some m
     \<and> qs_filter (\<lambda>t. tx_order t = o_id main) (db_txns (db_pay db')) = []"
proof -
  define db1 where "db1 = fold (merge_one (o_shop main) (o_id main)) [o_id main] db"
  obtain od where r: "recalculate_order_amount now main (pos_orders db1) = Inr (m, od)" and db': "db' = set_pos_orders od db1"
    using assms(4) by (auto simp: merge_orders_def Let_def db1_def split: sum.splits prod.splits)
  note R = recalculate_InrD [OF r assms(2,3)]
  obtain x where "qs_first (\<lambda>r. o_id r = o_id main \<and> o_shop r = o_shop main) (db_orders (pos_orders db)) = Some x"
    using assms(1) by (cases "qs_first (\<lambda>r. o_id r = o_id main \<and> o_shop r = o_shop main) (db_orders (pos_orders db))")
      (auto simp: qs_first_None)
  then have "db1 = delete_order (o_id main) (set_pos_orders (move_items (o_id main) (o_id main) (pos_orders db)) db)"
    by (simp add: db1_def merge_one_def)
  then have none: "items_of_order (o_id main) (pos_orders db1) = []" "qs_filter (\<lambda>t. tx_order t = o_id main) (db_txns (db_pay db1)) = []"
    by (simp_all add: delete_order_def Let_def items_of_order_def qs_filter_def t_del_def set_pos_orders_def)
  have "o_id m = o_id main" using R(1) by simp
  moreover have "items_of_order (o_id main) (pos_orders db') = items_of_order (o_id main) (pos_orders db1)"
    "db_txns (db_pay db') = db_txns (db_pay db1)" "db_orders (pos_orders db') = t_save o_id m (db_orders (pos_orders db1))"
    by (simp_all add: db' set_pos_orders_def R(2) items_of_order_def)
  ultimately show ?thesis using none R(1) by (simp add: t_find_t_save)
qed

theorem merge_self_loses_witness:
  "res_is (\<lambda>(m, db'). o_subtotal m = 0 \<and> items_of_order 1 (pos_orders db') = [])
     (merge_orders 9 3 (demo_bill 1 ''POS1'') [1] demo_pos_bills)"
proof -
  have "res_is (\<lambda>_. True) (merge_orders 9 3 (demo_bill 1 ''POS1'') [1] demo_pos_bills)" by code_simp
  then obtain m db' where r: "merge_orders 9 3 (demo_bill 1 ''POS1'') [1] demo_pos_bills = Inr (m, db')" by (auto elim: res_isE)
  have b: "o_id (demo_bill 1 ''POS1'') = 1" "o_number (demo_bill 1 ''POS1'') = ''POS1''" "o_shop (demo_bill 1 ''POS1'') = 3"
    by (simp_all add: demo_bill_def quick_row_def)
  have mem: "demo_bill 1 ''POS1'' \<in> set (rows (db_orders (pos_orders demo_pos_bills)))"
    by (simp add: demo_pos_bills_def demo_bills_def set_pos_orders_def)
  have r': "merge_orders 9 (o_shop (demo_bill 1 ''POS1'')) (demo_bill 1 ''POS1'') [o_id (demo_bill 1 ''POS1'')] demo_pos_bills = Inr (m, db')"
    using r by (simp add: b)
  have "o_id (demo_bill 1 ''POS1'') \<noteq> 0" "o_number (demo_bill 1 ''POS1'') \<noteq> []" by (simp_all add: b)
  from merge_self_loses [OF mem this r'] have "items_of_order 1 (pos_orders db') = [] \<and> o_subtotal m = 0" by (auto simp: b)
  then show ?thesis by (simp add: r res_is_def)
qed

section \<open>As deployed\<close>

text \<open>As deployed, quick orders, splits, the scanner and the three table views never succeed: whoever asks and
  whatever is in the database, the request is turned away or fails, and nothing is changed.\<close>

theorem pos_deployed:
  shows "\<not> accepted (fst (quick_order deployed_pos now hex rq b db)) \<and> snd (quick_order deployed_pos now hex rq b db) = db
     \<and> \<not> accepted (fst (split_order_view deployed_pos now hex rq order_id ss db))
     \<and> snd (split_order_view deployed_pos now hex rq order_id ss db) = db
     \<and> \<not> accepted (fst (scan_barcode deployed_pos rq barcode db)) \<and> snd (scan_barcode deployed_pos rq barcode db) = db
     \<and> \<not> accepted (fst (table_status_view deployed_pos rq db)) \<and> snd (table_status_view deployed_pos rq db) = db
     \<and> \<not> accepted (fst (table_update_view deployed_pos now rq table_id st order_id db))
     \<and> snd (table_update_view deployed_pos now rq table_id st order_id db) = db
     \<and> \<not> accepted (fst (available_tables_view deployed_pos e rq capacity db))
     \<and> snd (available_tables_view deployed_pos e rq capacity db) = db"
proof -
  have n: "pos_number deployed_pos prefix now hex = Inl (NameError ''time'')" for prefix
    by (simp add: pos_number_def deployed_pos_def)
  have b: "scan_product deployed_pos shop barcode cat = Inl (FieldError ''barcode'')" for shop cat
    by (simp add: scan_product_def deployed_pos_def)
  have t: "use_tables deployed_pos = Inl (ImportError ''pos.models'')" by (simp add: use_tables_def deployed_pos_def)
  have staff: "\<not> accepted (fst (pos_staff rq body db)) \<and> snd (pos_staff rq body db) = db"
    if "\<not> accepted (fst (body db)) \<and> snd (body db) = db" for body :: "pos_db \<Rightarrow> 'b reply \<times> pos_db"
    using that by (auto simp: pos_staff_def staff_only_def split: sum.splits bool.splits)
  show ?thesis
    unfolding quick_order_def split_order_view_def scan_barcode_def table_status_view_def table_update_view_def
      available_tables_view_def
    by (intro conjI staff [THEN conjunct1] staff [THEN conjunct2])
       (auto simp: quick_order_body_def create_quick_order_def split_order_body_def split_order_def n
         b get_table_status_def update_table_status_def get_available_tables_def t
         split: option.splits sum.splits exn.splits)
qed

end
