(* ===== verification/Pos_Rows.thy ===== *)
theory Pos_Rows
  imports Pos_Correct
begin

text \<open>
  The point of sale as a system of requests: quick orders, splits, merges and table updates keep the orders, their
  lines and their payment transactions well formed.
\<close>

section \<open>References\<close>

text \<open>The orders and their lines are well formed, and every line and payment transaction belongs to an order, or to
  one of the orders E that are being rewritten.\<close>

definition refs :: "int set \<Rightarrow> pos_db \<Rightarrow> bool" where
  "refs E db \<longleftrightarrow> t_wf o_id (db_orders (pos_orders db)) \<and> t_wf oi_id (db_order_items (pos_orders db))
     \<and> (\<forall>r \<in> set (rows (db_orders (pos_orders db))). o_number r \<noteq> [])
     \<and> oi_order ` set (rows (db_order_items (pos_orders db))) \<subseteq> E \<union> o_id ` set (rows (db_orders (pos_orders db)))
     \<and> tx_order ` set (rows (db_txns (db_pay db))) \<subseteq> E \<union> o_id ` set (rows (db_orders (pos_orders db)))"

lemma set_pos_orders_simps [simp]:
  "pos_orders (set_pos_orders od db) = od" "db_txns (db_pay (set_pos_orders od db)) = db_txns (db_pay db)"
  by (simp_all add: set_pos_orders_def)

lemma t_wf_t_save_old:
  assumes "t_wf pk t" and "0 < pk r" and "pk r \<le> seq t"
  shows "t_wf pk (t_save pk r t)"
proof (cases "t_find pk (pk r) t")
  case None
  then show ?thesis using assms by (auto simp: t_save_def t_wf_def t_find_None)
next
  case (Some x)
  then show ?thesis using t_wf_t_save [OF assms(1)] by simp
qed

lemma ids_t_save: "pk ` set (rows (t_save pk r t)) = insert (pk r) (pk ` set (rows t))"
proof (cases "t_find pk (pk r) t")
  case None
  then show ?thesis by (simp add: t_save_def)
next
  case (Some x)
  then have "pk r \<in> pk ` set (rows t)" using t_find_mem [OF Some] t_find_pk [OF Some] by (metis imageI)
  moreover have "map pk (rows (t_upd (\<lambda>x. pk x = pk r) (\<lambda>_. r) t)) = map pk (rows t)" by (rule map_pk_t_upd) simp
  then have "pk ` set (rows (t_upd (\<lambda>x. pk x = pk r) (\<lambda>_. r) t)) = pk ` set (rows t)" by (metis set_map)
  ultimately show ?thesis using Some by (simp add: t_save_def insert_absorb)
qed

lemma mem_t_save: "x \<in> set (rows (t_save pk r t)) \<Longrightarrow> x = r \<or> x \<in> set (rows t)"
  by (auto simp: t_save_def t_upd_def split: option.splits if_splits)

text \<open>Saving an order that is, or was, in the table.\<close>

lemma refs_save:
  assumes "refs E db" and "od = (pos_orders db)\<lparr>db_orders := t_save o_id r (db_orders (pos_orders db))\<rparr>"
    and "0 < o_id r" "o_id r \<le> seq (db_orders (pos_orders db))" "o_number r \<noteq> []" and "E \<subseteq> {o_id r}"
  shows "refs {} (set_pos_orders od db)"
  using assms(1,3-6) unfolding refs_def
  by (auto simp: assms(2) t_wf_t_save_old ids_t_save dest!: mem_t_save)

lemma refs_known:
  assumes "refs {} db" and "r \<in> set (rows (db_orders (pos_orders db)))"
  shows "0 < o_id r" "o_id r \<le> seq (db_orders (pos_orders db))" "o_number r \<noteq> []"
  using assms by (auto simp: refs_def t_wf_def)

lemma refs_create:
  assumes "refs {} db" and "od = (pos_orders db)\<lparr>db_orders := \<lparr>rows = rows (db_orders (pos_orders db)) @ [r], seq = seq (db_orders (pos_orders db)) + 1\<rparr>\<rparr>"
    and "o_id r = seq (db_orders (pos_orders db)) + 1" "o_number r \<noteq> []"
  shows "refs {} (set_pos_orders od db)"
  using assms(1,3,4) unfolding refs_def by (auto simp: assms(2) t_wf_def)

text \<open>Changing only the lines, which keep or get an order that is there.\<close>

lemma refs_lines:
  assumes "refs {} db" and "od = (pos_orders db)\<lparr>db_cat := c, db_order_items := its\<rparr>" and "t_wf oi_id its"
    and "oi_order ` set (rows its) \<subseteq> oi_order ` set (rows (db_order_items (pos_orders db))) \<union> o_id ` set (rows (db_orders (pos_orders db)))"
  shows "refs {} (set_pos_orders od db)"
proof -
  have "oi_order ` set (rows its) \<subseteq> o_id ` set (rows (db_orders (pos_orders db)))"
  proof -
    have "oi_order ` set (rows (db_order_items (pos_orders db))) \<subseteq> o_id ` set (rows (db_orders (pos_orders db)))"
      using assms(1) by (simp add: refs_def)
    with assms(4) show ?thesis by (meson Un_least order_refl subset_trans)
  qed
  then show ?thesis using assms(1,3) by (simp add: refs_def assms(2))
qed

lemma create_order_item_lines:
  assumes "create_order_item it db = Inr db'" and "t_wf oi_id (db_order_items db)"
  shows "t_wf oi_id (db_order_items db') \<and> oi_order ` set (rows (db_order_items db')) = insert (oi_order it) (oi_order ` set (rows (db_order_items db)))
     \<and> db' = db\<lparr>db_order_items := db_order_items db'\<rparr>"
proof -
  have e: "db' = db\<lparr>db_order_items := snd (t_add (\<lambda>i. it\<lparr>oi_id := i\<rparr>) (db_order_items db))\<rparr>"
    using assms(1) by (auto simp: create_order_item_def split: if_splits prod.splits)
  then show ?thesis using t_wf_t_add [OF assms(2), of "\<lambda>i. it\<lparr>oi_id := i\<rparr>"] by (simp add: t_add_def)
qed

lemma quick_line_lines:
  assumes "quick_line order shop q db = Inr (Some (t, db'))"
  shows "\<exists>it db1 c. create_order_item it db = Inr db1 \<and> oi_order it = o_id order \<and> db' = db1\<lparr>db_cat := c\<rparr>"
proof -
  obtain it sku where ord: "oi_order it = o_id order" and q: "quick_line order shop q db =
      (case create_order_item it db of Inl e \<Rightarrow> Inl e
       | Inr db1 \<Rightarrow> (case sku of None \<Rightarrow> Inr (Some (oi_total it, db1))
           | Some k \<Rightarrow> (case sku_save (k\<lparr>k_stock := max 0 (k_stock k - qi_quantity q)\<rparr>) (db_cat db1) of
                Inl e \<Rightarrow> Inl e | Inr (_, cat) \<Rightarrow> Inr (Some (oi_total it, db1\<lparr>db_cat := cat\<rparr>)))))"
  proof -
    obtain p where p: "qs_first (\<lambda>p. p_id p = qi_product q \<and> p_shop p = shop) (db_products (db_cat db)) = Some p"
      using assms by (auto simp: quick_line_def split: option.splits)
    define sku where "sku = (if truthy_int (qi_sku q)
        then qs_first (\<lambda>k. k_id k = the (qi_sku q) \<and> k_product k = p_id p) (db_skus (db_cat db)) else None)"
    define it where "it = \<lparr>oi_id = 0, oi_order = o_id order, oi_product = p_id p, oi_sku = map_option k_id sku,
      oi_name = p_name p, oi_image = image_url p, oi_specs = get_specifications_data sku (db_cat db),
      oi_unit_price = (case sku of Some k \<Rightarrow> k_price k | None \<Rightarrow> p_base_price p), oi_quantity = qi_quantity q,
      oi_total = (case sku of Some k \<Rightarrow> k_price k | None \<Rightarrow> p_base_price p) * qi_quantity q,
      oi_attrs = qi_attrs q, oi_customization = qi_custom q\<rparr>"
    have go: "\<not> (truthy_int (qi_sku q) \<and> sku = None)"
      using assms p by (auto simp: quick_line_def Let_def sku_def split: if_splits)
    have tot: "oi_total it = (case sku of Some k \<Rightarrow> k_price k | None \<Rightarrow> p_base_price p) * qi_quantity q"
      and ord: "oi_order it = o_id order" by (simp_all add: it_def)
    show thesis
      by (rule that [OF ord])
         (simp only: quick_line_def p option.case Let_def sku_def [symmetric] go if_False it_def [symmetric] tot)
  qed
  show ?thesis
  proof (cases sku)
    case None
    then have "create_order_item it db = Inr db'" using assms q by (auto split: sum.splits)
    then show ?thesis using ord by (intro exI [of _ it] exI [of _ db'] exI [of _ "db_cat db'"]) simp
  next
    case (Some k)
    then show ?thesis using assms ord unfolding q by (auto split: sum.splits)
  qed
qed

lemma quick_loop_lines:
  "quick_loop order shop qs s db = Inr (s', db') \<Longrightarrow> t_wf oi_id (db_order_items db) \<Longrightarrow>
     (\<exists>c. db' = db\<lparr>db_cat := c, db_order_items := db_order_items db'\<rparr>) \<and> t_wf oi_id (db_order_items db')
     \<and> oi_order ` set (rows (db_order_items db')) \<subseteq> insert (o_id order) (oi_order ` set (rows (db_order_items db)))"
proof (induction qs arbitrary: s db)
  case Nil
  then show ?case by (auto intro: exI [of _ "db_cat db"])
next
  case (Cons q qs)
  show ?case
  proof (cases "\<exists>t db1. quick_line order shop q db = Inr (Some (t, db1))")
    case False
    then have "quick_loop order shop qs s db = Inr (s', db')" using Cons.prems(1) by (auto split: sum.splits option.splits)
    then show ?thesis using Cons.IH Cons.prems(2) by blast
  next
    case True
    then obtain t db1 where l: "quick_line order shop q db = Inr (Some (t, db1))" by blast
    obtain it d c where d: "create_order_item it db = Inr d" "oi_order it = o_id order" "db1 = d\<lparr>db_cat := c\<rparr>"
      using quick_line_lines [OF l] by blast
    note D = create_order_item_lines [OF d(1) Cons.prems(2)]
    have r: "quick_loop order shop qs (s + t) db1 = Inr (s', db')" using Cons.prems(1) l by simp
    have "t_wf oi_id (db_order_items db1)" using D d(3) by simp
    from Cons.IH [OF r this] obtain c' where c': "db' = db1\<lparr>db_cat := c', db_order_items := db_order_items db'\<rparr>"
      "t_wf oi_id (db_order_items db')"
      "oi_order ` set (rows (db_order_items db')) \<subseteq> insert (o_id order) (oi_order ` set (rows (db_order_items db1)))" by blast
    have "db' = db\<lparr>db_cat := c', db_order_items := db_order_items db'\<rparr>"
      using c'(1) d(3) D by (cases db; cases d; cases db1; cases db') simp
    then show ?thesis using c'(2,3) D d(2,3) by auto
  qed
qed

lemma refs_quick_order:
  assumes "create_quick_order P now hex shop uid b (pos_orders db) = Inr (o1, od)" and "refs {} db"
  shows "refs {} (set_pos_orders od db) \<and> o1 \<in> set (rows (db_orders od))"
proof -
  obtain number order db1 subtotal db2 where n: "pos_number P ''POS'' now hex = Inr number"
    and c: "order_create_bare P now (quick_row now shop uid number b) (pos_orders db) = Inr (order, db1)"
    and l: "quick_loop order shop (qb_items b) 0 db1 = Inr (subtotal, db2)"
    and s: "order_save now [] (order\<lparr>o_subtotal := subtotal, o_total := subtotal\<rparr>) db2 = Inr (o1, od)"
    using assms(1) by (auto simp: create_quick_order_def split: sum.splits prod.splits)
  have "number \<noteq> []" using pos_number_InrD(1) [OF n] by simp
  then have q: "o_id (quick_row now shop uid number b) = 0" "o_number (quick_row now shop uid number b) \<noteq> []"
    by (simp_all add: quick_row_def)
  note C = order_create_bareD [OF c q]
  have o: "o_id order = seq (db_orders (pos_orders db)) + 1" "o_number order \<noteq> []" using C(1) q by auto
  have w1: "refs {} (set_pos_orders db1 db)" by (rule refs_create [OF assms(2) C(2) o])
  then have "t_wf oi_id (db_order_items db1)" by (simp add: refs_def)
  from quick_loop_lines [OF l this] obtain cat where L: "db2 = db1\<lparr>db_cat := cat, db_order_items := db_order_items db2\<rparr>"
    "t_wf oi_id (db_order_items db2)"
    "oi_order ` set (rows (db_order_items db2)) \<subseteq> insert (o_id order) (oi_order ` set (rows (db_order_items db1)))" by blast
  have mem: "order \<in> set (rows (db_orders db1))" using C(2) by simp
  have w2: "refs {} (set_pos_orders db2 (set_pos_orders db1 db))"
    by (rule refs_lines [OF w1, where c = cat and its = "db_order_items db2"]) (use L mem in auto)
  have e2: "set_pos_orders db2 (set_pos_orders db1 db) = set_pos_orders db2 db" by (simp add: set_pos_orders_def)
  have oo: "db_orders db2 = db_orders db1" by (subst L(1)) simp
  have "o_id order \<noteq> 0" using refs_known(1) [OF w1, of order] mem by simp
  then have S: "o1 = order\<lparr>o_subtotal := subtotal, o_total := subtotal\<rparr>" "od = db2\<lparr>db_orders := t_save o_id o1 (db_orders db2)\<rparr>"
    using order_save_oldD [OF s] o(2) by simp_all
  have "refs {} (set_pos_orders od (set_pos_orders db2 db))"
    by (rule refs_save [OF w2 [unfolded e2], of _ o1]) (use S refs_known [OF w1, of order] mem oo in auto)
  moreover have "set_pos_orders od (set_pos_orders db2 db) = set_pos_orders od db" by (simp add: set_pos_orders_def)
  moreover have "o1 \<in> set (rows (db_orders od))" using t_find_t_save [of o_id "o_id o1" o1 "db_orders db2"] S(2) t_find_mem by fastforce
  ultimately show ?thesis by simp
qed

lemma refs_recalculate:
  assumes "recalculate_order_amount now order (pos_orders db) = Inr (o1, od)" and "refs E db" and "E \<subseteq> {o_id order}"
    and "0 < o_id order" "o_id order \<le> seq (db_orders (pos_orders db))" "o_number order \<noteq> []"
  shows "refs {} (set_pos_orders od db)"
proof -
  have "o_id order \<noteq> 0" using assms(4) by simp
  note R = recalculate_InrD [OF assms(1) this assms(6)]
  have "od = (pos_orders db)\<lparr>db_orders := t_save o_id o1 (db_orders (pos_orders db))\<rparr>" using R(2) .
  then show ?thesis by (rule refs_save [OF assms(2)]) (use R(1) assms(3-6) in auto)
qed

lemma split_all_lines:
  "place_all (split_one order new) ss od = Inr od' \<Longrightarrow> t_wf oi_id (db_order_items od) \<Longrightarrow> o_id new \<noteq> o_id order \<Longrightarrow>
     od' = od\<lparr>db_order_items := db_order_items od'\<rparr> \<and> t_wf oi_id (db_order_items od')
     \<and> oi_order ` set (rows (db_order_items od')) \<subseteq> {o_id order, o_id new} \<union> oi_order ` set (rows (db_order_items od))"
proof (induction ss arbitrary: od)
  case Nil
  then show ?case by auto
next
  case (Cons s ss)
  obtain od1 where o: "split_one order new s od = Inr od1" and r: "place_all (split_one order new) ss od1 = Inr od'"
    using Cons.prems(1) by (auto split: sum.splits)
  note S = split_one_step [OF o Cons.prems(2,3)]
  have t1: "t_wf oi_id (db_order_items od1)" and e1: "od1 = od\<lparr>db_order_items := db_order_items od1\<rparr>" using S by blast+
  have "oi_order it \<in> oi_order ` set (rows (db_order_items od))"
    if "it \<in> set (rows (db_order_items od1))" "oi_order it \<noteq> o_id order" "oi_order it \<noteq> o_id new" for it
  proof -
    have "items_of_order (oi_order it) od1 = items_of_order (oi_order it) od" using S [of undefined "oi_order it"] that by blast
    moreover have "it \<in> set (items_of_order (oi_order it) od1)" using that(1) by (simp add: items_of_order_def qs_filter_def)
    ultimately have "it \<in> set (items_of_order (oi_order it) od)" by (simp only:)
    then show ?thesis by (auto simp: items_of_order_def qs_filter_def)
  qed
  then have i1: "oi_order ` set (rows (db_order_items od1)) \<subseteq> {o_id order, o_id new} \<union> oi_order ` set (rows (db_order_items od))" by blast
  have IH: "od' = od1\<lparr>db_order_items := db_order_items od'\<rparr>" "t_wf oi_id (db_order_items od')"
    "oi_order ` set (rows (db_order_items od')) \<subseteq> {o_id order, o_id new} \<union> oi_order ` set (rows (db_order_items od1))"
    using Cons.IH [OF r t1 Cons.prems(3)] by blast+
  have "od' = od\<lparr>db_order_items := db_order_items od'\<rparr>" using IH(1) e1 by (cases od; cases od1; cases od') simp
  then show ?case using IH(2,3) i1 by blast
qed

lemma refs_split_order:
  assumes "split_order P now hex order ss (pos_orders db) = Inr (res, od)" and "refs {} db"
    and "order \<in> set (rows (db_orders (pos_orders db)))"
  shows "refs {} (set_pos_orders od db)"
proof -
  obtain number n0 db1 db2 o1 db3 new where num: "pos_number P ''SPLIT'' now hex = Inr number"
    and c: "order_create_bare P now (split_row order number) (pos_orders db) = Inr (n0, db1)"
    and l: "place_all (split_one order n0) ss db1 = Inr db2"
    and r1: "recalculate_order_amount now order db2 = Inr (o1, db3)" and r2: "recalculate_order_amount now n0 db3 = Inr (new, od)"
    using assms(1) by (auto simp: split_order_def split: sum.splits prod.splits)
  have "number \<noteq> []" using pos_number_InrD(1) [OF num] by simp
  then have q: "o_id (split_row order number) = 0" "o_number (split_row order number) \<noteq> []" by (simp_all add: split_row_def)
  note C = order_create_bareD [OF c q]
  have n0: "o_id n0 = seq (db_orders (pos_orders db)) + 1" "o_number n0 \<noteq> []" using C(1) q by auto
  note K = refs_known [OF assms(2,3)]
  have w1: "refs {} (set_pos_orders db1 db)" by (rule refs_create [OF assms(2) C(2) n0])
  then have "t_wf oi_id (db_order_items db1)" by (simp add: refs_def)
  from split_all_lines [OF l this] K(2) n0(1) have L: "db2 = db1\<lparr>db_order_items := db_order_items db2\<rparr>" "t_wf oi_id (db_order_items db2)"
    "oi_order ` set (rows (db_order_items db2)) \<subseteq> {o_id order, o_id n0} \<union> oi_order ` set (rows (db_order_items db1))" by auto
  have mem: "n0 \<in> set (rows (db_orders db1))" "order \<in> set (rows (db_orders db1))" using C(2) assms(3) by simp_all
  have "refs {} (set_pos_orders db2 (set_pos_orders db1 db))"
    by (rule refs_lines [OF w1, where c = "db_cat db1" and its = "db_order_items db2"]) (use L mem in auto)
  then have w2: "refs {} (set_pos_orders db2 db)" by (simp add: set_pos_orders_def)
  have oo: "db_orders db2 = db_orders db1" by (subst L(1)) simp
  have s1: "seq (db_orders db1) = seq (db_orders (pos_orders db)) + 1" using C(2) by simp
  have "refs {} (set_pos_orders db3 (set_pos_orders db2 db))"
    by (rule refs_recalculate [OF _ w2, of now order o1]) (use r1 K oo s1 in auto)
  then have w3: "refs {} (set_pos_orders db3 db)" by (simp add: set_pos_orders_def)
  have "seq (db_orders db3) = seq (db_orders db2)"
    using recalculate_InrD(2) [OF r1] K by (simp add: seq_t_save)
  then have "refs {} (set_pos_orders od (set_pos_orders db3 db))"
    by (intro refs_recalculate [OF _ w3, of now n0 new]) (use r2 n0 K oo s1 in auto)
  then show ?thesis by (simp add: set_pos_orders_def)
qed

lemma refs_merge_one:
  assumes "refs {main} db"
  shows "refs {main} (merge_one shop main i db) \<and> seq (db_orders (pos_orders (merge_one shop main i db))) = seq (db_orders (pos_orders db))"
proof (cases "qs_first (\<lambda>r. o_id r = i \<and> o_shop r = shop) (db_orders (pos_orders db))")
  case None
  then show ?thesis using assms by (simp add: merge_one_def)
next
  case (Some m)
  define db1 where "db1 = merge_one shop main i db"
  have e: "db1 = delete_order i (set_pos_orders (move_items i main (pos_orders db)) db)" using Some by (simp add: db1_def merge_one_def)
  have o: "db_orders (pos_orders db1) = t_del (\<lambda>r. o_id r = i) (db_orders (pos_orders db))"
    and l: "db_order_items (pos_orders db1)
      = t_del (\<lambda>it. oi_order it = i) (t_upd (\<lambda>it. oi_order it = i) (\<lambda>it. it\<lparr>oi_order := main\<rparr>) (db_order_items (pos_orders db)))"
    and t: "db_txns (db_pay db1) = t_del (\<lambda>t. tx_order t = i) (db_txns (db_pay db))"
    by (simp_all add: e delete_order_def Let_def move_items_def set_pos_orders_def)
  have "t_wf oi_id (db_order_items (pos_orders db1))"
    unfolding l by (rule t_wf_t_del, rule t_wf_t_upd) (use assms in \<open>auto simp: refs_def\<close>)
  moreover have "t_wf o_id (db_orders (pos_orders db1))" unfolding o using assms by (simp add: refs_def t_wf_t_del)
  ultimately have "refs {main} db1" using assms by (auto simp: refs_def o l t table_simps)
  then show ?thesis by (simp add: db1_def [symmetric] o table_simps)
qed

lemma refs_merge_all:
  "refs {main} db \<Longrightarrow> refs {main} (fold (merge_one shop main) ids db)
     \<and> seq (db_orders (pos_orders (fold (merge_one shop main) ids db))) = seq (db_orders (pos_orders db))"
  using refs_merge_one by (induction ids arbitrary: db) auto

lemma refs_merge_orders:
  assumes "merge_orders now shop main ids db = Inr (m, db')" and "refs {} db" and "main \<in> set (rows (db_orders (pos_orders db)))"
  shows "refs {} db'"
proof -
  define db1 where "db1 = fold (merge_one shop (o_id main)) ids db"
  obtain od where r: "recalculate_order_amount now main (pos_orders db1) = Inr (m, od)" and db': "db' = set_pos_orders od db1"
    using assms(1) by (auto simp: merge_orders_def Let_def db1_def split: sum.splits prod.splits)
  have "refs {o_id main} db" using assms(2) by (auto simp: refs_def)
  note A = refs_merge_all [OF this, of shop ids, folded db1_def]
  note K = refs_known [OF assms(2,3)]
  show ?thesis unfolding db' by (rule refs_recalculate [OF r A [THEN conjunct1] subset_refl]) (use A K in auto)
qed

text \<open>The requests of the point of sale that write.\<close>

datatype pos_request =
    QuickOrder int string request quick_body
  | SplitOrder int string request "int option" "split_item list"
  | MergeOrders int request "int option" "int list"
  | UpdateTable int request "int option" "table_status option" "int option"

primrec handle_pos :: "pos_env \<Rightarrow> pos_request \<Rightarrow> pos_db \<Rightarrow> bool \<times> pos_db" where
  "handle_pos P (QuickOrder now hex rq b) db = map_prod accepted id (quick_order P now hex rq b db)"
| "handle_pos P (SplitOrder now hex rq i ss) db = map_prod accepted id (split_order_view P now hex rq i ss db)"
| "handle_pos P (MergeOrders now rq i ids) db = map_prod accepted id (merge_orders_view now rq i ids db)"
| "handle_pos P (UpdateTable now rq i st oid) db = map_prod accepted id (table_update_view P now rq i st oid db)"

lemma pos_staff_inv:
  assumes "Q db" and "Q (snd (body db))"
  shows "Q (snd (pos_staff rq body db))"
  using assms by (auto simp: pos_staff_def staff_only_def split: sum.splits bool.splits)

lemma refs_quick_body:
  assumes "refs {} db"
  shows "refs {} (snd (quick_order_body P now hex rq b db))"
proof -
  have d: "refs {} (set_pos_orders od' db)" if "create_quick_order P now hex shop uid b (pos_orders db) = Inr (o1, od)"
    and a: "apply_discount now o1 k v od = Inr (o2, od')" for shop uid o1 od k v o2 od'
  proof -
    note Q = refs_quick_order [OF that(1) assms]
    have mem: "o1 \<in> set (rows (db_orders (pos_orders (set_pos_orders od db))))" using Q by simp
    note K = refs_known [OF Q [THEN conjunct1] mem]
    obtain x where "order_save now [] (o1\<lparr>o_discount := to_cents x, o_total := to_cents (of_cents (o_subtotal o1) - x)\<rparr>) od = Inr (o2, od')"
      using a by (auto simp: apply_discount_def split: sum.splits)
    from order_save_oldD [OF this] K have S: "o2 = o1\<lparr>o_discount := to_cents x, o_total := to_cents (of_cents (o_subtotal o1) - x)\<rparr>"
      "od' = od\<lparr>db_orders := t_save o_id o2 (db_orders od)\<rparr>" by simp_all
    have "refs {} (set_pos_orders od' (set_pos_orders od db))"
      by (rule refs_save [OF Q [THEN conjunct1], of _ o2]) (use S K in auto)
    then show ?thesis by (simp add: set_pos_orders_def)
  qed
  show ?thesis unfolding quick_order_body_def
    using assms d by (auto dest: refs_quick_order [OF _ assms] split: option.splits sum.splits prod.splits)
qed

lemma refs_tables: "refs {} (set_pos_orders (od\<lparr>db_org := org\<rparr>) db) = refs {} (set_pos_orders od db)"
  by (simp add: refs_def)

lemma refs_update_table:
  assumes "update_table_status P now shop i st oid (pos_orders db) = Inr (ok, od)" and "refs {} db"
  shows "refs {} (set_pos_orders od db)"
proof -
  have same: "set_pos_orders (pos_orders db) db = db" by (simp add: set_pos_orders_def)
  have save: "refs {} (set_pos_orders od1 db)" if "order_save now [] r (pos_orders db) = Inr (r', od1)"
    and "qs_first (\<lambda>r. o_id r = k \<and> Some (o_shop r) = shop) (db_orders (pos_orders db)) = Some r" for r r' od1 k
  proof -
    have mem: "r \<in> set (rows (db_orders (pos_orders db)))" using qs_first_SomeD [OF that(2)] by simp
    note K = refs_known [OF assms(2) mem]
    have "od1 = (pos_orders db)\<lparr>db_orders := t_save o_id r (db_orders (pos_orders db))\<rparr>" using order_save_oldD [OF that(1)] K by simp
    then show ?thesis by (rule refs_save [OF assms(2)]) (use K in auto)
  qed
  show ?thesis using assms(1) unfolding update_table_status_def
    by (auto simp: same assms(2) refs_tables save split: sum.splits option.splits if_splits prod.splits)
qed

interpretation pos_system: guarded_system "handle_pos P" "refs {}" for P
proof unfold_locales
  fix db op
  assume inv: "refs {} db"
  show "refs {} (snd (handle_pos P op db))"
  proof (cases op)
    case (QuickOrder now hex rq b)
    then show ?thesis using refs_quick_body [OF inv] inv by (simp add: quick_order_def pos_staff_inv)
  next
    case (SplitOrder now hex rq i ss)
    have "refs {} (snd (split_order_body P now hex rq i ss db))"
      using inv by (auto simp: split_order_body_def dest: refs_split_order [OF _ inv] qs_get_InrD split: option.splits sum.splits exn.splits)
    then show ?thesis using inv SplitOrder by (simp add: split_order_view_def pos_staff_inv)
  next
    case (MergeOrders now rq i ids)
    have "refs {} (snd (merge_orders_body now rq i ids db))"
      using inv by (auto simp: merge_orders_body_def dest: refs_merge_orders [OF _ inv] qs_get_InrD split: option.splits sum.splits exn.splits)
    then show ?thesis using inv MergeOrders by (simp add: merge_orders_view_def pos_staff_inv)
  next
    case (UpdateTable now rq i st oid)
    have "refs {} (snd (table_update_view P now rq i st oid db))" unfolding table_update_view_def
      by (rule pos_staff_inv [where Q = "refs {}", OF inv])
         (use inv in \<open>auto dest: refs_update_table [OF _ inv] split: option.splits sum.splits bool.splits\<close>)
    then show ?thesis by (simp add: UpdateTable)
  qed
qed

lemma subset_image_ex:
  assumes "f ` X \<subseteq> g ` R"
  shows "\<forall>x \<in> X. \<exists>r \<in> R. g r = f x"
proof
  fix x
  assume "x \<in> X"
  with assms have "f x \<in> g ` R" by blast
  then show "\<exists>r \<in> R. g r = f x" by (metis imageE)
qed



end
