(* ===== verification/Printing.thy ===== *)
theory Printing
  imports Orders Texts
begin

text \<open>
  Printing: \<open>apps/printing/models.py\<close>, \<open>services.py\<close>, \<open>serializers.py\<close>, \<open>api.py\<close>.

  The state \<open>print_db\<close> holds the orders (with the shops under them), printers, templates, tasks and logs, and
  the list \<open>db_sent\<close> of the requests sent to the cloud printing service, which no rollback takes back.  The
  service is the parameter \<open>cloud\<close>: the account, the SHA-1 function of \<open>hashlib\<close>, and \<open>cl_post\<close>, what
  \<open>requests.post\<close> gives for the n-th request.  \<open>module_env\<close> says whether \<open>api.py\<close> binds \<open>time\<close> and
  \<open>timezone\<close>; \<open>printing_api_env\<close> is what it binds.  A printer's \<open>brand\<close> is one of its four choices; the brands
  \<open>usb\<close> and \<open>network\<close> the factory also knows are not among them, so \<open>USBPrintService\<close> and
  \<open>NetworkPrintService\<close> are never made.
\<close>

section \<open>Rows and state\<close>

datatype printer_type = UsbPrinter | NetworkPrinter | CloudPrinter | BluetoothPrinter

datatype brand = Feie | Yilianyun | Xinjie | CustomBrand

record printer_row =
  prn_id :: int
  prn_name :: string
  prn_type :: printer_type
  prn_brand :: brand
  prn_device :: string
  prn_key :: string
  prn_connection :: string
  prn_ip :: string
  prn_port :: int
  prn_width :: int
  prn_copies :: int
  prn_auto :: bool
  prn_header :: bool
  prn_footer :: bool
  prn_qrcode :: bool
  prn_online :: bool
  prn_active :: bool
  prn_shop :: int

datatype template_type = OrderTemplate | KitchenTemplate | ReceiptTemplate | LabelTemplate

record template_row =
  pt_id :: int
  pt_name :: string
  pt_type :: template_type
  pt_header :: string
  pt_content :: string
  pt_footer :: string
  pt_font :: int
  pt_spacing :: int
  pt_top :: int
  pt_bottom :: int
  pt_default :: bool
  pt_active :: bool
  pt_shop :: int

datatype task_status = PendingTask | PrintingTask | CompletedTask | FailedTask

datatype json_value = JInt int | JText string

record task_row =
  pk_id :: int
  pk_task :: string
  pk_printer :: int
  pk_template :: int
  pk_data :: "(string \<times> json_value) list"
  pk_content :: string
  pk_status :: task_status
  pk_copies :: int
  pk_error :: string
  pk_retries :: int
  pk_printed_at :: "int option"

record plog_row =
  lg_id :: int
  lg_printer :: int
  lg_task :: "int option"
  lg_type :: string
  lg_reference :: string
  lg_content :: string
  lg_success :: bool
  lg_copies :: int
  lg_at :: int

text \<open>A form posted to the service; a receipt without text has no content field.\<close>

record cloud_form =
  cf_user :: string
  cf_stime :: string
  cf_sig :: string
  cf_api :: string
  cf_sn :: string
  cf_content :: "string option"
  cf_times :: "int option"

text \<open>A value in a JSON answer that may be missing or null.\<close>

datatype json_text = Missing | Null | Text string

datatype cloud_answer =
    NetFailed string
  | Answered "int option" json_text json_text

record cloud =
  cl_user :: string
  cl_ukey :: string
  cl_sha1 :: "string \<Rightarrow> string"
  cl_post :: "nat \<Rightarrow> cloud_form \<Rightarrow> cloud_answer"

record print_db =
  db_receipts :: orders_db
  db_printers :: "printer_row tbl"
  db_templates :: "template_row tbl"
  db_tasks :: "task_row tbl"
  db_plogs :: "plog_row tbl"
  db_sent :: "cloud_form list"

definition printing_api_env :: module_env where
  "printing_api_env = \<lparr>env_time = Unbound, env_timezone = Unbound, env_Decimal = Unbound\<rparr>"

section \<open>The cloud service\<close>

record print_result =
  po_success :: bool
  po_message :: json_text
  po_task :: json_text

definition generate_signature :: "cloud \<Rightarrow> string \<Rightarrow> string" where
  "generate_signature C timestamp = cl_sha1 C (cl_user C @ cl_ukey C @ timestamp)"

text \<open>\<open>requests.post\<close>: the request is sent, and the answer may be anything.\<close>

definition post_form :: "cloud \<Rightarrow> cloud_form \<Rightarrow> print_db \<Rightarrow> cloud_answer \<times> print_db" where
  "post_form C form db = (cl_post C (length (db_sent db)) form, db\<lparr>db_sent := db_sent db @ [form]\<rparr>)"

definition msg_or :: "string \<Rightarrow> json_text \<Rightarrow> json_text" where
  "msg_or d j = (if j = Missing then Text d else j)"

definition net_error :: "string \<Rightarrow> print_result" where
  "net_error m = \<lparr>po_success = False, po_message = Text (zh_net_error @ m), po_task = Missing\<rparr>"

definition print_text :: "cloud \<Rightarrow> int \<Rightarrow> printer_row \<Rightarrow> string option \<Rightarrow> int \<Rightarrow> print_db \<Rightarrow> print_result \<times> print_db" where
  "print_text C now printer content copies db =
     (let timestamp = dec_int (now div 1000000);
          form = \<lparr>cf_user = cl_user C, cf_stime = timestamp, cf_sig = generate_signature C timestamp,
                  cf_api = ''Open_printMsg'', cf_sn = prn_device printer, cf_content = content, cf_times = Some copies\<rparr>;
          (answer, db') = post_form C form db
      in (case answer of
            NetFailed m \<Rightarrow> net_error m
          | Answered ret dat msg \<Rightarrow>
              if ret = Some 0
              then \<lparr>po_success = True, po_message = Text zh_sent,
                    po_task = (if dat = Missing then Null else dat)\<rparr>
              else \<lparr>po_success = False, po_message = msg_or zh_failed msg, po_task = Missing\<rparr>, db'))"

datatype printer_state = Online | Offline | PaperOut | CoverOpen | Overheat | UnknownState

definition status_words :: "(string \<times> printer_state) list" where
  "status_words = [(zh_online, Online), (zh_normal, Online), (zh_offline, Offline), (zh_paper_out, PaperOut),
     (zh_cover_open, CoverOpen), (zh_overheat, Overheat)]"

definition read_status :: "string \<Rightarrow> printer_state" where
  "read_status s = (case find (\<lambda>(w, _). has_part w s) status_words of None \<Rightarrow> UnknownState | Some (_, st) \<Rightarrow> st)"

text \<open>The state when the query succeeded, and what the answer says.  With a null \<open>data\<close> the test \<open>key in None\<close>
  raises and is caught like a network failure.\<close>

definition get_printer_status ::
  "cloud \<Rightarrow> int \<Rightarrow> printer_row \<Rightarrow> print_db \<Rightarrow> (printer_state option \<times> json_text) \<times> print_db" where
  "get_printer_status C now printer db =
     (let timestamp = dec_int (now div 1000000);
          form = \<lparr>cf_user = cl_user C, cf_stime = timestamp, cf_sig = generate_signature C timestamp,
                  cf_api = ''Open_queryPrinterStatus'', cf_sn = prn_device printer, cf_content = None, cf_times = None\<rparr>;
          (answer, db') = post_form C form db
      in (case answer of
            NetFailed m \<Rightarrow> (None, po_message (net_error m))
          | Answered ret dat msg \<Rightarrow>
              if ret = Some 0 then
                (case dat of
                   Missing \<Rightarrow> (Some (read_status []), Text [])
                 | Text s \<Rightarrow> (Some (read_status s), Text s)
                 | Null \<Rightarrow> (None, po_message (net_error ''argument of type 'NoneType' is not iterable'')))
              else (None, msg_or zh_query_failed msg), db'))"

text \<open>\<open>PrintServiceFactory.get_service\<close>.\<close>

definition print_service :: "printer_row \<Rightarrow> unit res" where
  "print_service printer = (if prn_brand printer = Feie then Inr () else Inl (ValueError ''brand''))"

section \<open>What is printed\<close>

text \<open>\<open>order.shop.name\<close>; the foreign key is never dangling.\<close>

definition shop_name :: "order_row \<Rightarrow> orders_db \<Rightarrow> string" where
  "shop_name order od = (case t_find s_id (o_shop order) (db_shops (db_org od)) of None \<Rightarrow> [] | Some s \<Rightarrow> s_name s)"

definition specs_text :: "(string \<times> string) list \<Rightarrow> string" where
  "specs_text specs = join '' '' (map (\<lambda>(k, v). k @ '':'' @ v) specs)"

definition yuan :: "int \<Rightarrow> string" where
  "yuan c = dec_cents c @ zh_yuan"

text \<open>The six placeholders of a template, replaced one after the other.\<close>

datatype hole = OrderNumber | CustomerName | CustomerPhone | TotalAmount | CreatedAt | Items

primrec hole_name :: "hole \<Rightarrow> string" where
  "hole_name OrderNumber = ''order_number''"
| "hole_name CustomerName = ''customer_name''"
| "hole_name CustomerPhone = ''customer_phone''"
| "hole_name TotalAmount = ''total_amount''"
| "hole_name CreatedAt = ''created_at''"
| "hole_name Items = ''items''"

definition hole_tag :: "hole \<Rightarrow> string" where
  "hole_tag h = ''{{'' @ hole_name h @ ''}}''"

definition items_text :: "item_row list \<Rightarrow> string" where
  "items_text its = concat (map (\<lambda>it. oi_name it @ '' x'' @ dec_int (oi_quantity it) @ '' '' @ yuan (oi_total it) @ [CHR 0x0A]) its)"

definition render_template :: "template_row \<Rightarrow> order_row \<Rightarrow> orders_db \<Rightarrow> string" where
  "render_template tpl order od =
     (let content = pt_content tpl;
          content = replace_all (hole_tag OrderNumber) (o_number order) content;
          content = replace_all (hole_tag CustomerName) (o_name order) content;
          content = replace_all (hole_tag CustomerPhone) (o_phone order) content;
          content = replace_all (hole_tag TotalAmount) (dec_cents (o_total order)) content;
          content = replace_all (hole_tag CreatedAt) (stamp_text (o_at order)) content
      in replace_all (hole_tag Items) (items_text (items_of_order (o_id order) od)) content)"

text \<open>\<open>order.paid_at.strftime('%H:%M')\<close> of an order that counts as paid.\<close>

definition paid_clock :: "order_row \<Rightarrow> string res" where
  "paid_clock order = (case o_paid_at order of None \<Rightarrow> Inl (AttributeError ''strftime'') | Some t \<Rightarrow> Inr (clock_text t))"

definition feie_item :: "item_row \<Rightarrow> string" where
  "feie_item it = oi_name it @ ''<BR>'' @ (if oi_specs it = [] then [] else ''  '' @ specs_text (oi_specs it) @ ''<BR>'')
     @ ''  '' @ dec_int (oi_quantity it) @ '' x '' @ dec_cents (oi_unit_price it) @ '' = '' @ yuan (oi_total it) @ ''<BR>''"

definition feie_default_content :: "string \<Rightarrow> printer_row \<Rightarrow> order_row \<Rightarrow> orders_db \<Rightarrow> string res" where
  "feie_default_content frontend printer order od =
     (let rule = replicate 32 CHR ''-'' @ ''<BR>'';
          content = ''<CB>'' @ shop_name order od @ ''</CB><BR>'' @ ''<C>'' @ zh_order_no @ '': '' @ o_number order @ ''</C><BR>''
            @ zh_time @ '': '' @ stamp_text (o_at order) @ ''<BR>'' @ rule
            @ zh_customer @ '': '' @ o_name order @ ''<BR>''
            @ (if o_phone order = [] then [] else zh_phone @ '': '' @ o_phone order @ ''<BR>'')
            @ (if o_table order = [] then [] else zh_table @ '': '' @ o_table order @ ''<BR>'') @ rule
            @ ''<B>'' @ zh_lines @ ''</B><BR>'' @ concat (map feie_item (items_of_order (o_id order) od)) @ rule
            @ zh_subtotal @ '': '' @ yuan (o_subtotal order) @ ''<BR>''
            @ (if 0 < o_delivery_fee order then zh_delivery @ '': '' @ yuan (o_delivery_fee order) @ ''<BR>'' else [])
            @ (if 0 < o_discount order then zh_discount @ '': -'' @ yuan (o_discount order) @ ''<BR>'' else [])
            @ ''<B>'' @ zh_total @ '': '' @ yuan (o_total order) @ ''</B><BR>'';
          tail = rule @ ''<C>'' @ zh_thanks @ ''</C><BR>''
            @ (if prn_qrcode printer then ''<QR>'' @ frontend @ ''/order/'' @ o_number order @ ''</QR><BR>'' else [])
      in if \<not> o_paid order then Inr (content @ tail)
         else (case paid_clock order of
                 Inl e \<Rightarrow> Inl e
               | Inr clock \<Rightarrow> Inr (content @ zh_method @ '': '' @ o_method order @ ''<BR>''
                   @ zh_paid_at @ '': '' @ clock @ ''<BR>'' @ tail)))"

definition feie_order_content ::
  "string \<Rightarrow> printer_row \<Rightarrow> template_row option \<Rightarrow> order_row \<Rightarrow> orders_db \<Rightarrow> string res" where
  "feie_order_content frontend printer tpl order od =
     (case tpl of
        Some t \<Rightarrow> Inr (render_template t order od)
      | None \<Rightarrow> feie_default_content frontend printer order od)"

definition feie_print_order ::
  "cloud \<Rightarrow> string \<Rightarrow> int \<Rightarrow> printer_row \<Rightarrow> order_row \<Rightarrow> template_row option \<Rightarrow> int \<Rightarrow> print_db \<Rightarrow> print_result res \<times> print_db" where
  "feie_print_order C frontend now printer order tpl copies db =
     (case feie_order_content frontend printer tpl order (db_receipts db) of
        Inl e \<Rightarrow> (Inl e, db)
      | Inr content \<Rightarrow> (let (r, db') = print_text C now printer (Some content) copies db in (Inr r, db')))"

text \<open>\<open>PrintContentGenerator\<close>.  Its \<open>_render_template\<close> is \<open>pass\<close> and returns nothing.\<close>

definition item_lines :: "item_row \<Rightarrow> string list" where
  "item_lines it = oi_name it # (if oi_specs it = [] then [] else [''  '' @ specs_text (oi_specs it)])
     @ [''  '' @ dec_int (oi_quantity it) @ '' x '' @ dec_cents (oi_unit_price it) @ '' = '' @ yuan (oi_total it)]"

definition default_lines :: "order_row \<Rightarrow> orders_db \<Rightarrow> string list res" where
  "default_lines order od =
     (let double = replicate 32 CHR ''=''; rule = replicate 32 CHR ''-'';
          ls = [''<center><b>'' @ shop_name order od @ ''</b></center>'',
                ''<center>'' @ zh_order_no @ '': '' @ o_number order @ ''</center>'',
                zh_time @ '': '' @ stamp_text (o_at order), double, zh_customer @ '': '' @ o_name order]
            @ (if o_phone order = [] then [] else [zh_phone @ '': '' @ o_phone order])
            @ (if o_table order = [] then [] else [zh_table @ '': '' @ o_table order])
            @ [rule, ''<b>'' @ zh_lines @ ''</b>''] @ concat (map item_lines (items_of_order (o_id order) od))
            @ [rule, zh_subtotal @ '': '' @ yuan (o_subtotal order)]
            @ (if 0 < o_delivery_fee order then [zh_delivery @ '': '' @ yuan (o_delivery_fee order)] else [])
            @ (if 0 < o_discount order then [zh_discount @ '': -'' @ yuan (o_discount order)] else [])
            @ [''<b>'' @ zh_total @ '': '' @ yuan (o_total order) @ ''</b>''];
          tail = [double, ''<center>'' @ zh_thanks @ ''</center>'']
      in if \<not> o_paid order then Inr (ls @ tail)
         else (case paid_clock order of
                 Inl e \<Rightarrow> Inl e
               | Inr clock \<Rightarrow> Inr (ls @ [zh_method @ '': '' @ o_method order, zh_paid_at @ '': '' @ clock] @ tail)))"

definition generate_order_content :: "order_row \<Rightarrow> template_row option \<Rightarrow> orders_db \<Rightarrow> string option res" where
  "generate_order_content order tpl od =
     (case tpl of
        Some t \<Rightarrow> Inr None
      | None \<Rightarrow> (case default_lines order od of Inl e \<Rightarrow> Inl e | Inr ls \<Rightarrow> Inr (Some (join [CHR 0x0A] ls))))"

definition kitchen_item :: "item_row \<Rightarrow> string list" where
  "kitchen_item it = (oi_name it @ '' x'' @ dec_int (oi_quantity it))
     # (if oi_customization it = [] then [] else [''  '' @ zh_wish @ '': '' @ oi_customization it])"

definition kitchen_lines :: "order_row \<Rightarrow> orders_db \<Rightarrow> string list" where
  "kitchen_lines order od =
     (let double = replicate 32 CHR ''=''
      in [''<center><b>'' @ zh_kitchen @ ''</b></center>'', zh_order_no @ '': '' @ o_number order,
          zh_time @ '': '' @ clock_text (o_at order)]
         @ (if o_table order = [] then [] else [zh_table @ '': '' @ o_table order]) @ [double]
         @ concat (map kitchen_item (items_of_order (o_id order) od))
         @ [double, ''<center>'' @ zh_hurry @ ''</center>''])"

definition generate_kitchen_content :: "order_row \<Rightarrow> orders_db \<Rightarrow> string" where
  "generate_kitchen_content order od = join [CHR 0x0A] (kitchen_lines order od)"

section \<open>Printers\<close>

definition print_staff :: "request \<Rightarrow> (print_db \<Rightarrow> 'a reply \<times> print_db) \<Rightarrow> print_db \<Rightarrow> 'a reply \<times> print_db" where
  "print_staff rq body db = staff_only (db_staff (db_org (db_receipts db))) rq body db"

definition printer_object :: "request \<Rightarrow> int \<Rightarrow> print_db \<Rightarrow> printer_row option" where
  "printer_object rq pk db = qs_first (\<lambda>p. prn_id p = pk \<and> Some (prn_shop p) = rq_tenant rq) (db_printers db)"

record printer_body =
  rb_name :: "string option"
  rb_type :: "printer_type option"
  rb_brand :: "brand option"
  rb_device :: "string option"
  rb_key :: "string option"
  rb_connection :: "string option"
  rb_ip :: "string option"
  rb_port :: "int option"
  rb_width :: "int option"
  rb_copies :: "int option"
  rb_auto :: "bool option"
  rb_header :: "bool option"
  rb_footer :: "bool option"
  rb_qrcode :: "bool option"
  rb_active :: "bool option"

definition printer_body_valid :: "bool \<Rightarrow> printer_body \<Rightarrow> bool" where
  "printer_body_valid partial b \<longleftrightarrow>
     needed partial (rb_name b) (text_ok 100) \<and> needed partial (rb_device b) (text_ok 100)
     \<and> optional (rb_key b) (\<lambda>s. chars s \<le> 100) \<and> optional (rb_connection b) (\<lambda>s. chars s \<le> 500)
     \<and> optional (rb_ip b) (\<lambda>s. chars s \<le> 50)
     \<and> optional (rb_port b) int4_ok \<and> optional (rb_width b) int4_ok \<and> optional (rb_copies b) int4_ok"

definition printer_apply :: "printer_body \<Rightarrow> printer_row \<Rightarrow> printer_row" where
  "printer_apply b p = p\<lparr>prn_name := or_default (rb_name b) (prn_name p), prn_type := or_default (rb_type b) (prn_type p),
     prn_brand := or_default (rb_brand b) (prn_brand p), prn_device := or_default (rb_device b) (prn_device p),
     prn_key := or_default (rb_key b) (prn_key p), prn_connection := or_default (rb_connection b) (prn_connection p),
     prn_ip := or_default (rb_ip b) (prn_ip p), prn_port := or_default (rb_port b) (prn_port p),
     prn_width := or_default (rb_width b) (prn_width p), prn_copies := or_default (rb_copies b) (prn_copies p),
     prn_auto := or_default (rb_auto b) (prn_auto p), prn_header := or_default (rb_header b) (prn_header p),
     prn_footer := or_default (rb_footer b) (prn_footer p), prn_qrcode := or_default (rb_qrcode b) (prn_qrcode p),
     prn_active := or_default (rb_active b) (prn_active p)\<rparr>"

definition blank_printer :: "int \<Rightarrow> printer_row" where
  "blank_printer shop = \<lparr>prn_id = 0, prn_name = [], prn_type = CloudPrinter, prn_brand = Feie, prn_device = [], prn_key = [],
     prn_connection = [], prn_ip = [], prn_port = 9100, prn_width = 80, prn_copies = 1, prn_auto = True, prn_header = True,
     prn_footer = True, prn_qrcode = True, prn_online = False, prn_active = True, prn_shop = shop\<rparr>"

definition printer_list :: "nat \<Rightarrow> request \<Rightarrow> print_db \<Rightarrow> printer_row list reply \<times> print_db" where
  "printer_list page rq = print_staff rq (\<lambda>db. (paginated page (qs_filter (\<lambda>p. Some (prn_shop p) = rq_tenant rq) (db_printers db)), db))"

definition printer_create :: "request \<Rightarrow> printer_body \<Rightarrow> print_db \<Rightarrow> printer_row reply \<times> print_db" where
  "printer_create rq b = print_staff rq (\<lambda>db.
     if \<not> printer_body_valid False b then (Reject 400 (ValidationError ''printer''), db)
     else (case rq_tenant rq of
             None \<Rightarrow> (Crash (IntegrityError ''shop''), db)
           | Some tn \<Rightarrow> let (p, t) = t_add (\<lambda>i. (printer_apply b (blank_printer tn))\<lparr>prn_id := i\<rparr>) (db_printers db)
                        in (OK 201 p, db\<lparr>db_printers := t\<rparr>)))"

definition printer_update :: "bool \<Rightarrow> request \<Rightarrow> int \<Rightarrow> printer_body \<Rightarrow> print_db \<Rightarrow> printer_row reply \<times> print_db" where
  "printer_update partial rq pk b = print_staff rq (\<lambda>db.
     (case printer_object rq pk db of
        None \<Rightarrow> (Reject 404 (DoesNotExist ''Printer''), db)
      | Some p \<Rightarrow>
          if \<not> printer_body_valid partial b then (Reject 400 (ValidationError ''printer''), db)
          else (OK 200 (printer_apply b p), db\<lparr>db_printers := t_save prn_id (printer_apply b p) (db_printers db)\<rparr>)))"

text \<open>Deleting a task takes its logs along, a printer its tasks and logs, a template its tasks.\<close>

definition delete_tasks :: "(task_row \<Rightarrow> bool) \<Rightarrow> print_db \<Rightarrow> print_db" where
  "delete_tasks Q db =
     (let gone = map pk_id (qs_filter Q (db_tasks db))
      in db\<lparr>db_tasks := t_del Q (db_tasks db),
            db_plogs := t_del (\<lambda>l. \<exists>i \<in> set gone. lg_task l = Some i) (db_plogs db)\<rparr>)"

definition printer_destroy :: "request \<Rightarrow> int \<Rightarrow> print_db \<Rightarrow> unit reply \<times> print_db" where
  "printer_destroy rq pk = print_staff rq (\<lambda>db.
     (case printer_object rq pk db of
        None \<Rightarrow> (Reject 404 (DoesNotExist ''Printer''), db)
      | Some p \<Rightarrow>
          let db1 = delete_tasks (\<lambda>k. pk_printer k = prn_id p) db
          in (OK 204 (), db1\<lparr>db_plogs := t_del (\<lambda>l. lg_printer l = prn_id p) (db_plogs db1),
                             db_printers := t_del (\<lambda>r. prn_id r = prn_id p) (db_printers db1)\<rparr>)))"

definition add_plog ::
  "int \<Rightarrow> printer_row \<Rightarrow> int option \<Rightarrow> string \<Rightarrow> string \<Rightarrow> string option \<Rightarrow> bool \<Rightarrow> int \<Rightarrow> print_db \<Rightarrow> print_db res" where
  "add_plog now printer task kind reference content success copies db =
     (case content of
        None \<Rightarrow> Inl (IntegrityError ''print_content'')
      | Some text \<Rightarrow> Inr (db\<lparr>db_plogs := snd (t_add (\<lambda>i. \<lparr>lg_id = i, lg_printer = prn_id printer, lg_task = task,
            lg_type = kind, lg_reference = reference, lg_content = text, lg_success = success, lg_copies = copies,
            lg_at = now\<rparr>) (db_plogs db))\<rparr>))"

definition test_text :: string where
  "test_text = u8 [0xE6, 0xB5, 0x8B, 0xE8, 0xAF, 0x95, 0xE6, 0x89, 0x93, 0xE5, 0x8D, 0xB0, 0xE5, 0x86, 0x85, 0xE5, 0xAE,
     0xB9, 0xA, 0xE8, 0xBF, 0x99, 0xE6, 0x98, 0xAF, 0xE4, 0xB8, 0x80, 0xE8, 0xA1, 0x8C, 0xE6, 0xB5, 0x8B, 0xE8, 0xAF,
     0x95, 0xE6, 0x96, 0x87, 0xE6, 0x9C, 0xAC, 0xA, 0xE6, 0x89, 0x93, 0xE5, 0x8D, 0xB0, 0xE6, 0x97, 0xB6, 0xE9, 0x97,
     0xB4, 0xE6, 0xB5, 0x8B, 0xE8, 0xAF, 0x95]"

text \<open>The serializer requires a \<open>printer_id\<close> that the view does not use.\<close>

definition test_print ::
  "cloud \<Rightarrow> int \<Rightarrow> request \<Rightarrow> int \<Rightarrow> int option \<Rightarrow> string option \<Rightarrow> print_db \<Rightarrow> print_result reply \<times> print_db" where
  "test_print C now rq pk printer_id content = print_staff rq (\<lambda>db.
     (case printer_object rq pk db of
        None \<Rightarrow> (Reject 404 (DoesNotExist ''Printer''), db)
      | Some p \<Rightarrow>
          if printer_id = None \<or> content = Some [] then (Reject 400 (ValidationError ''test_print''), db)
          else (case print_service p of
                  Inl e \<Rightarrow> (Crash e, db)
                | Inr _ \<Rightarrow>
                    let text = or_default content test_text;
                        (r, db1) = print_text C now p (Some text) 1 db
                    in (case add_plog now p None ''test'' ''test'' (Some text) (po_success r) 1 db1 of
                          Inl e \<Rightarrow> (Crash e, db1)
                        | Inr db2 \<Rightarrow> (OK 200 r, db2)))))"

definition printer_status ::
  "cloud \<Rightarrow> int \<Rightarrow> request \<Rightarrow> int \<Rightarrow> print_db \<Rightarrow> (printer_state option \<times> json_text) reply \<times> print_db" where
  "printer_status C now rq pk = print_staff rq (\<lambda>db.
     (case printer_object rq pk db of
        None \<Rightarrow> (Reject 404 (DoesNotExist ''Printer''), db)
      | Some p \<Rightarrow>
          (case print_service p of
             Inl e \<Rightarrow> (Crash e, db)
           | Inr _ \<Rightarrow>
               let (r, db1) = get_printer_status C now p db
               in (case fst r of
                     None \<Rightarrow> (OK 200 r, db1)
                   | Some st \<Rightarrow> (OK 200 r, db1\<lparr>db_printers := t_save prn_id (p\<lparr>prn_online := st = Online\<rparr>) (db_printers db1)\<rparr>)))))"

fun query_all ::
  "cloud \<Rightarrow> int \<Rightarrow> printer_row list \<Rightarrow> print_db \<Rightarrow> (int \<times> string \<times> printer_state option \<times> json_text) list res \<times> print_db" where
  "query_all C now [] db = (Inr [], db)"
| "query_all C now (p # ps) db =
     (case print_service p of
        Inl e \<Rightarrow> (Inl e, db)
      | Inr _ \<Rightarrow>
          let (r, db1) = get_printer_status C now p db; (rs, db2) = query_all C now ps db1
          in (case rs of Inl e \<Rightarrow> (Inl e, db2) | Inr xs \<Rightarrow> (Inr ((prn_id p, prn_name p, r) # xs), db2)))"

definition printer_status_all ::
  "cloud \<Rightarrow> int \<Rightarrow> request \<Rightarrow> print_db \<Rightarrow> (int \<times> string \<times> printer_state option \<times> json_text) list reply \<times> print_db" where
  "printer_status_all C now rq = print_staff rq (\<lambda>db.
     let (rs, db') = query_all C now (qs_filter (\<lambda>p. Some (prn_shop p) = rq_tenant rq) (db_printers db)) db
     in (case rs of Inl e \<Rightarrow> (Crash e, db') | Inr xs \<Rightarrow> (OK 200 xs, db')))"

section \<open>Templates\<close>

definition template_object :: "request \<Rightarrow> int \<Rightarrow> print_db \<Rightarrow> template_row option" where
  "template_object rq pk db = qs_first (\<lambda>t. pt_id t = pk \<and> Some (pt_shop t) = rq_tenant rq) (db_templates db)"

record template_body =
  mb_name :: "string option"
  mb_type :: "template_type option"
  mb_header :: "string option"
  mb_content :: "string option"
  mb_footer :: "string option"
  mb_font :: "int option"
  mb_spacing :: "int option"
  mb_top :: "int option"
  mb_bottom :: "int option"
  mb_default :: "bool option"
  mb_active :: "bool option"

definition template_body_valid :: "bool \<Rightarrow> template_body \<Rightarrow> bool" where
  "template_body_valid partial b \<longleftrightarrow>
     needed partial (mb_name b) (text_ok 100) \<and> needed partial (mb_content b) (\<lambda>s. s \<noteq> [])
     \<and> optional (mb_font b) int4_ok \<and> optional (mb_spacing b) int4_ok
     \<and> optional (mb_top b) int4_ok \<and> optional (mb_bottom b) int4_ok"

text \<open>The serializer knows the unique columns \<open>template_type\<close> and \<open>is_default\<close> with their defaults, and puts the
  defaults in when a request that is not partial leaves them out.\<close>

definition template_apply :: "bool \<Rightarrow> template_body \<Rightarrow> template_row \<Rightarrow> template_row" where
  "template_apply partial b t = t\<lparr>pt_name := or_default (mb_name b) (pt_name t),
     pt_type := or_default (mb_type b) (if partial then pt_type t else OrderTemplate),
     pt_header := or_default (mb_header b) (pt_header t), pt_content := or_default (mb_content b) (pt_content t),
     pt_footer := or_default (mb_footer b) (pt_footer t), pt_font := or_default (mb_font b) (pt_font t),
     pt_spacing := or_default (mb_spacing b) (pt_spacing t), pt_top := or_default (mb_top b) (pt_top t),
     pt_bottom := or_default (mb_bottom b) (pt_bottom t),
     pt_default := or_default (mb_default b) (if partial then pt_default t else False),
     pt_active := or_default (mb_active b) (pt_active t)\<rparr>"

definition blank_template :: "int \<Rightarrow> template_row" where
  "blank_template shop = \<lparr>pt_id = 0, pt_name = [], pt_type = OrderTemplate, pt_header = [], pt_content = [], pt_footer = [],
     pt_font = 14, pt_spacing = 1, pt_top = 5, pt_bottom = 5, pt_default = False, pt_active = True, pt_shop = shop\<rparr>"

text \<open>\<open>unique_together = ['shop', 'template_type', 'is_default']\<close>.\<close>

definition template_key :: "template_row \<Rightarrow> int \<times> template_type \<times> bool" where
  "template_key t = (pt_shop t, pt_type t, pt_default t)"

definition store_templates :: "template_row tbl \<Rightarrow> print_db \<Rightarrow> print_db res" where
  "store_templates t db = (if unique_on template_key t then Inr (db\<lparr>db_templates := t\<rparr>) else Inl (IntegrityError ''print_templates''))"

text \<open>\<open>filter(shop=..., template_type=...).update(is_default=False)\<close>.\<close>

definition clear_defaults :: "int option \<Rightarrow> template_type \<Rightarrow> print_db \<Rightarrow> print_db res" where
  "clear_defaults shop ty db =
     store_templates (t_upd (\<lambda>t. Some (pt_shop t) = shop \<and> pt_type t = ty) (\<lambda>t. t\<lparr>pt_default := False\<rparr>) (db_templates db)) db"

definition template_list :: "nat \<Rightarrow> request \<Rightarrow> print_db \<Rightarrow> template_row list reply \<times> print_db" where
  "template_list page rq = print_staff rq (\<lambda>db. (paginated page (qs_filter (\<lambda>t. Some (pt_shop t) = rq_tenant rq) (db_templates db)), db))"

definition template_create :: "request \<Rightarrow> template_body \<Rightarrow> print_db \<Rightarrow> template_row reply \<times> print_db" where
  "template_create rq b = print_staff rq (\<lambda>db.
     if \<not> template_body_valid False b then (Reject 400 (ValidationError ''template''), db)
     else (case (if or_default (mb_default b) False
                 then clear_defaults (rq_tenant rq) (or_default (mb_type b) OrderTemplate) db else Inr db) of
             Inl e \<Rightarrow> (Crash e, db)
           | Inr db1 \<Rightarrow>
               (case rq_tenant rq of
                  None \<Rightarrow> (Crash (IntegrityError ''shop''), db1)
                | Some tn \<Rightarrow>
                    let (r, t) = t_add (\<lambda>i. (template_apply False b (blank_template tn))\<lparr>pt_id := i\<rparr>) (db_templates db1)
                    in (case store_templates t db1 of
                          Inl e \<Rightarrow> (Crash e, db1)
                        | Inr db2 \<Rightarrow> (OK 201 r, db2)))))"

definition template_update :: "bool \<Rightarrow> request \<Rightarrow> int \<Rightarrow> template_body \<Rightarrow> print_db \<Rightarrow> template_row reply \<times> print_db" where
  "template_update partial rq pk b = print_staff rq (\<lambda>db.
     (case template_object rq pk db of
        None \<Rightarrow> (Reject 404 (DoesNotExist ''PrintTemplate''), db)
      | Some t \<Rightarrow>
          if \<not> template_body_valid partial b then (Reject 400 (ValidationError ''template''), db)
          else (case store_templates (t_save pt_id (template_apply partial b t) (db_templates db)) db of
                  Inl e \<Rightarrow> (Crash e, db)
                | Inr db1 \<Rightarrow> (OK 200 (template_apply partial b t), db1))))"

definition template_destroy :: "request \<Rightarrow> int \<Rightarrow> print_db \<Rightarrow> unit reply \<times> print_db" where
  "template_destroy rq pk = print_staff rq (\<lambda>db.
     (case template_object rq pk db of
        None \<Rightarrow> (Reject 404 (DoesNotExist ''PrintTemplate''), db)
      | Some t \<Rightarrow>
          let db1 = delete_tasks (\<lambda>k. pk_template k = pt_id t) db
          in (OK 204 (), db1\<lparr>db_templates := t_del (\<lambda>r. pt_id r = pt_id t) (db_templates db1)\<rparr>)))"

text \<open>\<open>set_default\<close>: the block is atomic.\<close>

definition set_default_rows :: "int option \<Rightarrow> template_row \<Rightarrow> print_db \<Rightarrow> print_db res" where
  "set_default_rows shop t db =
     (case clear_defaults shop (pt_type t) db of
        Inl e \<Rightarrow> Inl e
      | Inr db1 \<Rightarrow> store_templates (t_save pt_id (t\<lparr>pt_default := True\<rparr>) (db_templates db1)) db1)"

definition set_default :: "request \<Rightarrow> int \<Rightarrow> print_db \<Rightarrow> unit reply \<times> print_db" where
  "set_default rq pk = print_staff rq (\<lambda>db.
     (case template_object rq pk db of
        None \<Rightarrow> (Reject 404 (DoesNotExist ''PrintTemplate''), db)
      | Some t \<Rightarrow>
          (case set_default_rows (rq_tenant rq) t db of
             Inl e \<Rightarrow> (Crash e, db)
           | Inr db' \<Rightarrow> (OK 200 (), db'))))"

section \<open>Tasks\<close>

definition task_object :: "request \<Rightarrow> int \<Rightarrow> print_db \<Rightarrow> (task_row \<times> printer_row) option" where
  "task_object rq pk db =
     (case qs_first (\<lambda>k. pk_id k = pk) (db_tasks db) of
        None \<Rightarrow> None
      | Some k \<Rightarrow> map_option (Pair k) (qs_first (\<lambda>p. prn_id p = pk_printer k \<and> Some (prn_shop p) = rq_tenant rq) (db_printers db)))"

definition task_list :: "nat \<Rightarrow> request \<Rightarrow> print_db \<Rightarrow> task_row list reply \<times> print_db" where
  "task_list page rq = print_staff rq (\<lambda>db.
     (paginated page (rev (qs_filter (\<lambda>k. task_object rq (pk_id k) db \<noteq> None) (db_tasks db))), db))"

record task_body =
  kb_task :: "string option"
  kb_printer :: "int option"
  kb_template :: "int option"
  kb_data :: "(string \<times> json_value) list option"
  kb_content :: "string option"
  kb_status :: "task_status option"
  kb_copies :: "int option"
  kb_error :: "string option"
  kb_retries :: "int option"
  kb_printed_at :: "int option option"

text \<open>Every column of a task is writable; printer and template may be any that exist, of any shop.\<close>

definition task_body_valid :: "bool \<Rightarrow> int \<Rightarrow> task_body \<Rightarrow> print_db \<Rightarrow> bool" where
  "task_body_valid partial self b db \<longleftrightarrow>
     needed partial (kb_task b) (\<lambda>s. text_ok 100 s \<and> \<not> qs_exists (\<lambda>k. pk_task k = s \<and> pk_id k \<noteq> self) (db_tasks db))
     \<and> needed partial (kb_printer b) (\<lambda>i. qs_exists (\<lambda>p. prn_id p = i) (db_printers db))
     \<and> needed partial (kb_template b) (\<lambda>i. qs_exists (\<lambda>t. pt_id t = i) (db_templates db))
     \<and> needed partial (kb_content b) (\<lambda>s. s \<noteq> [])
     \<and> optional (kb_copies b) int4_ok \<and> optional (kb_retries b) int4_ok"

definition task_apply :: "task_body \<Rightarrow> task_row \<Rightarrow> task_row" where
  "task_apply b k = k\<lparr>pk_task := or_default (kb_task b) (pk_task k), pk_printer := or_default (kb_printer b) (pk_printer k),
     pk_template := or_default (kb_template b) (pk_template k), pk_data := or_default (kb_data b) (pk_data k),
     pk_content := or_default (kb_content b) (pk_content k), pk_status := or_default (kb_status b) (pk_status k),
     pk_copies := or_default (kb_copies b) (pk_copies k), pk_error := or_default (kb_error b) (pk_error k),
     pk_retries := or_default (kb_retries b) (pk_retries k), pk_printed_at := or_default (kb_printed_at b) (pk_printed_at k)\<rparr>"

definition blank_task :: task_row where
  "blank_task = \<lparr>pk_id = 0, pk_task = [], pk_printer = 0, pk_template = 0, pk_data = [], pk_content = [],
     pk_status = PendingTask, pk_copies = 1, pk_error = [], pk_retries = 0, pk_printed_at = None\<rparr>"

definition task_create :: "request \<Rightarrow> task_body \<Rightarrow> print_db \<Rightarrow> task_row reply \<times> print_db" where
  "task_create rq b = print_staff rq (\<lambda>db.
     if \<not> task_body_valid False 0 b db then (Reject 400 (ValidationError ''task''), db)
     else let (k, t) = t_add (\<lambda>i. (task_apply b blank_task)\<lparr>pk_id := i\<rparr>) (db_tasks db)
          in (OK 201 k, db\<lparr>db_tasks := t\<rparr>))"

definition task_update :: "bool \<Rightarrow> request \<Rightarrow> int \<Rightarrow> task_body \<Rightarrow> print_db \<Rightarrow> task_row reply \<times> print_db" where
  "task_update partial rq pk b = print_staff rq (\<lambda>db.
     (case task_object rq pk db of
        None \<Rightarrow> (Reject 404 (DoesNotExist ''PrintTask''), db)
      | Some (k, _) \<Rightarrow>
          if \<not> task_body_valid partial (pk_id k) b db then (Reject 400 (ValidationError ''task''), db)
          else (OK 200 (task_apply b k), db\<lparr>db_tasks := t_save pk_id (task_apply b k) (db_tasks db)\<rparr>)))"

definition task_destroy :: "request \<Rightarrow> int \<Rightarrow> print_db \<Rightarrow> unit reply \<times> print_db" where
  "task_destroy rq pk = print_staff rq (\<lambda>db.
     (case task_object rq pk db of
        None \<Rightarrow> (Reject 404 (DoesNotExist ''PrintTask''), db)
      | Some (k, _) \<Rightarrow> (OK 204 (), delete_tasks (\<lambda>r. pk_id r = pk_id k) db)))"

text \<open>\<open>task.save()\<close>; the error message is NOT NULL.\<close>

definition save_task :: "task_row \<Rightarrow> json_text \<Rightarrow> print_db \<Rightarrow> print_db res" where
  "save_task k message db =
     (case message of
        Text m \<Rightarrow> if int4_ok (pk_retries k) then Inr (db\<lparr>db_tasks := t_save pk_id (k\<lparr>pk_error := m\<rparr>) (db_tasks db)\<rparr>)
                  else Inl (DataError ''retry_count'')
      | _ \<Rightarrow> Inl (IntegrityError ''error_message''))"

definition retry_task ::
  "module_env \<Rightarrow> cloud \<Rightarrow> int \<Rightarrow> task_row \<Rightarrow> printer_row \<Rightarrow> print_db \<Rightarrow> (bool \<times> json_text) reply \<times> print_db" where
  "retry_task E C now k p db =
     (if pk_status k \<noteq> FailedTask \<and> pk_status k \<noteq> PendingTask then (Reject 400 (ValueError ''status''), db)
      else case print_service p of
             Inl e \<Rightarrow> (Crash e, db)
           | Inr _ \<Rightarrow>
               let (r, db1) = print_text C now p (Some (pk_content k)) (pk_copies k) db
               in if po_success r then
                    (case use_name (env_timezone E) ''timezone'' of
                       Inl e \<Rightarrow> (Crash e, db1)
                     | Inr _ \<Rightarrow>
                         (case save_task (k\<lparr>pk_status := CompletedTask, pk_printed_at := Some now\<rparr>) (Text []) db1 of
                            Inl e \<Rightarrow> (Crash e, db1)
                          | Inr db2 \<Rightarrow> (OK 200 (True, po_message r), db2)))
                  else
                    (case save_task (k\<lparr>pk_status := FailedTask, pk_retries := pk_retries k + 1\<rparr>) (po_message r) db1 of
                       Inl e \<Rightarrow> (Crash e, db1)
                     | Inr db2 \<Rightarrow> (OK 200 (False, po_message r), db2)))"

definition retry ::
  "module_env \<Rightarrow> cloud \<Rightarrow> int \<Rightarrow> request \<Rightarrow> int \<Rightarrow> print_db \<Rightarrow> (bool \<times> json_text) reply \<times> print_db" where
  "retry E C now rq pk = print_staff rq (\<lambda>db.
     (case task_object rq pk db of
        None \<Rightarrow> (Reject 404 (DoesNotExist ''PrintTask''), db)
      | Some (k, p) \<Rightarrow> retry_task E C now k p db))"

definition plog_list :: "nat \<Rightarrow> request \<Rightarrow> print_db \<Rightarrow> plog_row list reply \<times> print_db" where
  "plog_list page rq = print_staff rq (\<lambda>db.
     (paginated page (rev (qs_filter (\<lambda>l. qs_exists (\<lambda>p. prn_id p = lg_printer l \<and> Some (prn_shop p) = rq_tenant rq) (db_printers db))
        (db_plogs db))), db))"

section \<open>Printing an order\<close>

datatype print_kind = PrintReceipt | PrintKitchen | PrintBoth

record print_request =
  pq_order :: "int option"
  pq_printer :: "int option"
  pq_template :: "int option"
  pq_copies :: "int option"
  pq_kind :: "print_kind option"

record print_answer =
  pa_kind :: string
  pa_success :: bool
  pa_message :: json_text
  pa_task :: string

definition print_request_valid :: "print_request \<Rightarrow> bool" where
  "print_request_valid q \<longleftrightarrow> pq_order q \<noteq> None \<and> pq_printer q \<noteq> None \<and> optional (pq_copies q) (\<lambda>n. 1 \<le> n \<and> n \<le> 10)"

text \<open>\<open>PrintTask.objects.create\<close>: a printed task reads the clock first, then the insert checks its columns.\<close>

definition create_task ::
  "module_env \<Rightarrow> int \<Rightarrow> string \<Rightarrow> printer_row \<Rightarrow> template_row option \<Rightarrow> int \<Rightarrow> string \<Rightarrow> string option \<Rightarrow> int
     \<Rightarrow> print_result \<Rightarrow> print_db \<Rightarrow> (task_row \<times> print_db) res" where
  "create_task E now task_id printer tpl order_id kind content copies r db =
     (case (if po_success r then use_name (env_timezone E) ''timezone'' else Inr ()) of
        Inl e \<Rightarrow> Inl e
      | Inr _ \<Rightarrow>
          (case (tpl, content, if po_success r then Text [] else po_message r) of
             (Some t, Some text, Text m) \<Rightarrow>
               if qs_exists (\<lambda>k. pk_task k = task_id) (db_tasks db) then Inl (IntegrityError ''task_id'')
               else let (k, ts) = t_add (\<lambda>i. \<lparr>pk_id = i, pk_task = task_id, pk_printer = prn_id printer, pk_template = pt_id t,
                          pk_data = [(''order_id'', JInt order_id), (''print_type'', JText kind)], pk_content = text,
                          pk_status = (if po_success r then CompletedTask else FailedTask), pk_copies = copies, pk_error = m,
                          pk_retries = 0, pk_printed_at = (if po_success r then Some now else None)\<rparr>) (db_tasks db)
                    in Inr (k, db\<lparr>db_tasks := ts\<rparr>)
           | _ \<Rightarrow> Inl (IntegrityError ''print_tasks'')))"

text \<open>Sending one slip and recording it as a task and a log.\<close>

definition print_and_record ::
  "module_env \<Rightarrow> cloud \<Rightarrow> int \<Rightarrow> string \<Rightarrow> order_row \<Rightarrow> printer_row \<Rightarrow> template_row option \<Rightarrow> string \<Rightarrow> string option \<Rightarrow> int
     \<Rightarrow> print_db \<Rightarrow> print_answer res \<times> print_db" where
  "print_and_record E C now task_id order printer tpl kind content copies db =
     (let (r, db1) = print_text C now printer content copies db
      in case create_task E now task_id printer tpl (o_id order) kind content copies r db1 of
           Inl e \<Rightarrow> (Inl e, db1)
         | Inr (k, db2) \<Rightarrow>
             (case add_plog now printer (Some (pk_id k)) kind (o_number order) content (po_success r) copies db2 of
                Inl e \<Rightarrow> (Inl e, db2)
              | Inr db3 \<Rightarrow> (Inr \<lparr>pa_kind = kind, pa_success = po_success r, pa_message = po_message r, pa_task = task_id\<rparr>, db3)))"

definition print_receipt ::
  "module_env \<Rightarrow> cloud \<Rightarrow> int \<Rightarrow> string \<Rightarrow> order_row \<Rightarrow> printer_row \<Rightarrow> template_row option \<Rightarrow> int \<Rightarrow> print_db \<Rightarrow> print_answer res \<times> print_db" where
  "print_receipt E C now task_id order printer tpl copies db =
     (case generate_order_content order tpl (db_receipts db) of
        Inl e \<Rightarrow> (Inl e, db)
      | Inr content \<Rightarrow> print_and_record E C now task_id order printer tpl ''order'' content copies db)"

definition print_kitchen_slip ::
  "module_env \<Rightarrow> cloud \<Rightarrow> int \<Rightarrow> string \<Rightarrow> order_row \<Rightarrow> printer_row \<Rightarrow> template_row option \<Rightarrow> print_db \<Rightarrow> print_answer res \<times> print_db" where
  "print_kitchen_slip E C now task_id order printer tpl db =
     print_and_record E C now (task_id @ ''_KITCHEN'') order printer tpl ''kitchen''
       (Some (generate_kitchen_content order (db_receipts db))) 1 db"

text \<open>The \<open>try\<close> block: the slips in order, any exception answered with status 500.\<close>

definition print_slips ::
  "module_env \<Rightarrow> cloud \<Rightarrow> int \<Rightarrow> string \<Rightarrow> order_row \<Rightarrow> printer_row \<Rightarrow> template_row option \<Rightarrow> int \<Rightarrow> print_kind \<Rightarrow> print_db
     \<Rightarrow> (string \<times> print_answer list) reply \<times> print_db" where
  "print_slips E C now task_id order printer tpl copies kind db =
     (let (r1, db1) = (if kind = PrintKitchen then (Inr [], db)
            else case print_receipt E C now task_id order printer tpl copies db of
                   (Inl e, d) \<Rightarrow> (Inl e, d) | (Inr a, d) \<Rightarrow> (Inr [a], d))
      in case r1 of
           Inl e \<Rightarrow> (Reject 500 e, db1)
         | Inr as \<Rightarrow>
             if kind = PrintReceipt then (OK 200 (o_number order, as), db1)
             else (case print_kitchen_slip E C now task_id order printer tpl db1 of
                     (Inl e, db2) \<Rightarrow> (Reject 500 e, db2)
                   | (Inr a, db2) \<Rightarrow> (OK 200 (o_number order, as @ [a]), db2)))"

definition default_template :: "int option \<Rightarrow> print_db \<Rightarrow> template_row option" where
  "default_template shop db = qs_first (\<lambda>t. Some (pt_shop t) = shop \<and> pt_type t = OrderTemplate \<and> pt_default t \<and> pt_active t)
     (db_templates db)"

definition choose_template :: "int option \<Rightarrow> int option \<Rightarrow> print_db \<Rightarrow> template_row option" where
  "choose_template shop template_id db =
     (case (if truthy_int template_id
            then qs_first (\<lambda>t. Some (pt_id t) = template_id \<and> Some (pt_shop t) = shop) (db_templates db) else None) of
        Some t \<Rightarrow> Some t
      | None \<Rightarrow> default_template shop db)"

definition print_order_body ::
  "module_env \<Rightarrow> cloud \<Rightarrow> int \<Rightarrow> string \<Rightarrow> request \<Rightarrow> print_request \<Rightarrow> print_db \<Rightarrow> (string \<times> print_answer list) reply \<times> print_db" where
  "print_order_body E C now hex rq q db =
     (if \<not> print_request_valid q then (Reject 400 (ValidationError ''print_order''), db)
      else case qs_first (\<lambda>r. Some (o_id r) = pq_order q \<and> Some (o_shop r) = rq_tenant rq) (db_orders (db_receipts db)) of
             None \<Rightarrow> (Reject 404 (DoesNotExist ''Order''), db)
           | Some order \<Rightarrow>
               (case qs_first (\<lambda>p. Some (prn_id p) = pq_printer q \<and> Some (prn_shop p) = rq_tenant rq) (db_printers db) of
                  None \<Rightarrow> (Reject 404 (DoesNotExist ''Printer''), db)
                | Some printer \<Rightarrow>
                    let tpl = choose_template (rq_tenant rq) (pq_template q) db in
                    (case print_service printer of
                       Inl e \<Rightarrow> (Crash e, db)
                     | Inr _ \<Rightarrow>
                         (case use_name (env_time E) ''time'' of
                            Inl e \<Rightarrow> (Crash e, db)
                          | Inr _ \<Rightarrow> print_slips E C now (''TASK'' @ dec_int (now div 1000000) @ hex) order printer tpl
                              (or_default (pq_copies q) 1) (or_default (pq_kind q) PrintReceipt) db))))"

definition print_order ::
  "module_env \<Rightarrow> cloud \<Rightarrow> int \<Rightarrow> string \<Rightarrow> request \<Rightarrow> print_request \<Rightarrow> print_db \<Rightarrow> (string \<times> print_answer list) reply \<times> print_db" where
  "print_order E C now hex rq q = print_staff rq (print_order_body E C now hex rq q)"

text \<open>\<open>auto_print_order\<close>: only a missing order is caught.\<close>

definition auto_print_one ::
  "cloud \<Rightarrow> int \<Rightarrow> int option \<Rightarrow> order_row \<Rightarrow> printer_row \<Rightarrow> print_db \<Rightarrow> (string \<times> bool \<times> json_text) res \<times> print_db" where
  "auto_print_one C now shop order p db =
     (case print_service p of
        Inl e \<Rightarrow> (Inl e, db)
      | Inr _ \<Rightarrow>
          (case generate_order_content order (default_template shop db) (db_receipts db) of
             Inl e \<Rightarrow> (Inl e, db)
           | Inr content \<Rightarrow>
               let (r, db1) = print_text C now p content 1 db
               in (case add_plog now p None ''auto_order'' (o_number order) content (po_success r) 1 db1 of
                     Inl e \<Rightarrow> (Inl e, db1)
                   | Inr db2 \<Rightarrow> (Inr (prn_name p, po_success r, po_message r), db2))))"

fun auto_print_all ::
  "cloud \<Rightarrow> int \<Rightarrow> int option \<Rightarrow> order_row \<Rightarrow> printer_row list \<Rightarrow> print_db \<Rightarrow> (string \<times> bool \<times> json_text) list res \<times> print_db" where
  "auto_print_all C now shop order [] db = (Inr [], db)"
| "auto_print_all C now shop order (p # ps) db =
     (case auto_print_one C now shop order p db of
        (Inl e, db1) \<Rightarrow> (Inl e, db1)
      | (Inr x, db1) \<Rightarrow>
          (case auto_print_all C now shop order ps db1 of
             (Inl e, db2) \<Rightarrow> (Inl e, db2)
           | (Inr xs, db2) \<Rightarrow> (Inr (x # xs), db2)))"

definition auto_printers :: "int option \<Rightarrow> print_db \<Rightarrow> printer_row list" where
  "auto_printers shop db = qs_filter (\<lambda>p. Some (prn_shop p) = shop \<and> prn_auto p \<and> prn_active p) (db_printers db)"

definition auto_print_order ::
  "cloud \<Rightarrow> int \<Rightarrow> request \<Rightarrow> int \<Rightarrow> print_db \<Rightarrow> (string \<times> bool \<times> json_text) list reply \<times> print_db" where
  "auto_print_order C now rq order_id = print_staff rq (\<lambda>db.
     (case qs_first (\<lambda>r. o_id r = order_id \<and> Some (o_shop r) = rq_tenant rq) (db_orders (db_receipts db)) of
        None \<Rightarrow> (Reject 404 (DoesNotExist ''Order''), db)
      | Some order \<Rightarrow>
          (case auto_print_all C now (rq_tenant rq) order (auto_printers (rq_tenant rq) db) db of
             (Inl e, db') \<Rightarrow> (Crash e, db')
           | (Inr rs, db') \<Rightarrow> (OK 200 rs, db'))))"

section \<open>Statistics\<close>

record printer_stats =
  sp_printer :: int
  sp_name :: string
  sp_online :: bool
  sp_prints :: nat
  sp_rate :: rat

record print_stats =
  st_prints :: nat
  st_success :: nat
  st_failed :: nat
  st_printers :: "printer_stats list"

text \<open>\<open>rate a b\<close> is the value of the floating-point expression \<open>round(a / b * 100, 2)\<close>.\<close>

definition print_stats_of :: "(nat \<Rightarrow> nat \<Rightarrow> rat) \<Rightarrow> int \<Rightarrow> int option \<Rightarrow> print_db \<Rightarrow> print_stats" where
  "print_stats_of rate now shop db =
     (let today_start = local_midnight (utc_date now);
          today = qs_filter (\<lambda>l. qs_exists (\<lambda>p. prn_id p = lg_printer l \<and> Some (prn_shop p) = shop) (db_printers db)
                      \<and> today_start \<le> lg_at l) (db_plogs db)
      in \<lparr>st_prints = length today, st_success = length (filter lg_success today),
          st_failed = length (filter (\<lambda>l. \<not> lg_success l) today),
          st_printers = map (\<lambda>p. let mine = filter (\<lambda>l. lg_printer l = prn_id p) today
               in \<lparr>sp_printer = prn_id p, sp_name = prn_name p, sp_online = prn_online p, sp_prints = length mine,
                   sp_rate = (if mine = [] then 0 else rate (length (filter lg_success mine)) (length mine))\<rparr>)
             (qs_filter (\<lambda>p. Some (prn_shop p) = shop) (db_printers db))\<rparr>)"

definition print_statistics :: "module_env \<Rightarrow> (nat \<Rightarrow> nat \<Rightarrow> rat) \<Rightarrow> int \<Rightarrow> request \<Rightarrow> print_db \<Rightarrow> print_stats reply \<times> print_db" where
  "print_statistics E rate now rq = print_staff rq (\<lambda>db.
     (case use_name (env_timezone E) ''timezone'' of
        Inl e \<Rightarrow> (Crash e, db)
      | Inr _ \<Rightarrow> (OK 200 (print_stats_of rate now (rq_tenant rq) db), db)))"

end
