(* ===== verification/Printing_Correct.thy ===== *)
theory Printing_Correct
  imports Printing Orders_Correct
begin

text \<open>
  Printing: lemmas about slips, templates, tasks and what reaches the cloud service, and the properties.
\<close>

section \<open>The cloud service\<close>

definition print_form :: "cloud \<Rightarrow> int \<Rightarrow> printer_row \<Rightarrow> string option \<Rightarrow> int \<Rightarrow> cloud_form" where
  "print_form C now printer content copies = \<lparr>cf_user = cl_user C, cf_stime = dec_int (now div 1000000),
     cf_sig = generate_signature C (dec_int (now div 1000000)), cf_api = ''Open_printMsg'', cf_sn = prn_device printer,
     cf_content = content, cf_times = Some copies\<rparr>"

text \<open>An answer that confirms a job, and one that refuses it with a message.\<close>

definition granted :: "cloud_answer \<Rightarrow> bool" where
  "granted a = (case a of Answered ret dat msg \<Rightarrow> ret = Some 0 | NetFailed m \<Rightarrow> False)"

definition refused :: "cloud_answer \<Rightarrow> bool" where
  "refused a = (case a of Answered ret dat msg \<Rightarrow> ret \<noteq> Some 0 \<and> msg \<noteq> Null | NetFailed m \<Rightarrow> True)"

lemma print_text_snd: "snd (print_text C now printer content copies db)
    = db\<lparr>db_sent := db_sent db @ [print_form C now printer content copies]\<rparr>"
  by (simp add: print_text_def post_form_def print_form_def Let_def)

lemma print_text_success: "po_success (fst (print_text C now printer content copies db))
    \<longleftrightarrow> granted (cl_post C (length (db_sent db)) (print_form C now printer content copies))"
  by (simp add: print_text_def post_form_def print_form_def Let_def granted_def net_error_def split: cloud_answer.split)

lemma print_text_refused:
  assumes "refused (cl_post C (length (db_sent db)) (print_form C now printer content copies))"
  shows "\<exists>m. po_message (fst (print_text C now printer content copies db)) = Text m"
  using assms
  by (cases "cl_post C (length (db_sent db)) (print_form C now printer content copies)")
     (auto simp: print_text_def post_form_def print_form_def Let_def refused_def net_error_def msg_or_def
       split: if_splits, metis json_text.exhaust)

section \<open>Slips\<close>

lemma newline_not_in_dec: "CHR 0x0A \<notin> set (dec_of n)"
  by (rule not_in_dec_of) (rule digit_not, simp_all)

lemma newline_not_in_pad: "CHR 0x0A \<notin> set (pad_dec w n)"
  using newline_not_in_dec by (auto simp: pad_dec_def)

lemma newline_not_in_clock: "CHR 0x0A \<notin> set (clock_text t)"
  using newline_not_in_pad by (auto simp: clock_text_def Let_def)

lemma newline_not_in_int: "CHR 0x0A \<notin> set (dec_int i)"
  using newline_not_in_dec by (auto simp: dec_int_def)

lemma newline_not_in_words:
  "CHR 0x0A \<notin> set zh_kitchen" "CHR 0x0A \<notin> set zh_order_no" "CHR 0x0A \<notin> set zh_time" "CHR 0x0A \<notin> set zh_table"
  "CHR 0x0A \<notin> set zh_wish" "CHR 0x0A \<notin> set zh_hurry"
  by code_simp+

lemmas newline_free = newline_not_in_clock newline_not_in_int newline_not_in_words

definition one_line :: "string \<Rightarrow> bool" where
  "one_line s \<longleftrightarrow> CHR 0x0A \<notin> set s"

text \<open>C24: A kitchen slip can be read back: as long as no name or note on it holds a line break, splitting the
  printed text at its line breaks gives the heading, one line with name and quantity for every line of the order,
  in order, each followed by its wish if it has one, and the footing; nothing is lost or run together.\<close>

theorem kitchen_slip_roundtrip:
  assumes "one_line (o_number order)" "one_line (o_table order)"
    and "\<forall>it \<in> set (items_of_order (o_id order) od). one_line (oi_name it) \<and> one_line (oi_customization it)"
  shows "\<exists>head foot. split_on (CHR 0x0A) (generate_kitchen_content order od)
       = head @ concat (map (\<lambda>it. (oi_name it @ '' x'' @ dec_int (oi_quantity it))
            # (if oi_customization it = [] then [] else [''  '' @ zh_wish @ '': '' @ oi_customization it]))
          (items_of_order (o_id order) od)) @ foot
     \<and> length head = (if o_table order = [] then 4 else 5) \<and> length foot = 2 \<and> head ! 1 = zh_order_no @ '': '' @ o_number order"
proof -
  have free: "\<forall>x \<in> set (kitchen_lines order od). CHR 0x0A \<notin> set x"
    using assms by (auto simp: kitchen_lines_def Let_def kitchen_item_def one_line_def newline_free)
  have ne: "kitchen_lines order od \<noteq> []" by (simp add: kitchen_lines_def Let_def)
  have s: "split_on (CHR 0x0A) (generate_kitchen_content order od) = kitchen_lines order od"
    unfolding generate_kitchen_content_def by (rule split_on_join [OF ne free])
  have k: "kitchen_item = (\<lambda>it. (oi_name it @ '' x'' @ dec_int (oi_quantity it))
      # (if oi_customization it = [] then [] else [''  '' @ zh_wish @ '': '' @ oi_customization it]))"
    by (simp add: fun_eq_iff kitchen_item_def)
  have f: "kitchen_lines order od = ([''<center><b>'' @ zh_kitchen @ ''</b></center>'', zh_order_no @ '': '' @ o_number order,
          zh_time @ '': '' @ clock_text (o_at order)]
         @ (if o_table order = [] then [] else [zh_table @ '': '' @ o_table order]) @ [replicate 32 CHR ''=''])
       @ concat (map kitchen_item (items_of_order (o_id order) od))
       @ [replicate 32 CHR ''='', ''<center>'' @ zh_hurry @ ''</center>'']"
    by (simp only: kitchen_lines_def Let_def append_assoc)
  show ?thesis unfolding s k [symmetric] by (rule exI, rule exI, rule conjI, rule f) simp
qed

definition demo_receipt :: order_row where
  "demo_receipt = \<lparr>o_id = 1, o_number = ''ORD1'', o_user = None, o_status = Paid, o_type = DineIn, o_subtotal = 5400,
     o_delivery_fee = 0, o_discount = 0, o_total = 5400, o_method = ''cash'', o_paid = True, o_paid_at = Some 5, o_name = ''amy'',
     o_phone = [], o_notes = [], o_address = [], o_delivery_time = None, o_pickup_time = None, o_table = ''A1'', o_shop = 3,
     o_at = 5, o_completed_at = None\<rparr>"

definition demo_wish :: item_row where
  "demo_wish = \<lparr>oi_id = 1, oi_order = 1, oi_product = 1, oi_sku = Some 1, oi_name = ''milk tea'', oi_image = ''a.png'',
     oi_specs = [], oi_unit_price = 1800, oi_quantity = 3, oi_total = 5400, oi_attrs = [], oi_customization = ''no ice''\<rparr>"

definition demo_kitchen :: orders_db where
  "demo_kitchen = demo_orders\<lparr>db_orders := \<lparr>rows = [demo_receipt], seq = 1\<rparr>, db_order_items := \<lparr>rows = [demo_wish], seq = 1\<rparr>\<rparr>"

theorem kitchen_slip_roundtrip_witness:
  "\<exists>head foot. split_on (CHR 0x0A) (generate_kitchen_content demo_receipt demo_kitchen)
     = head @ [''milk tea x3'', ''  '' @ zh_wish @ '': no ice''] @ foot \<and> length head = 5"
proof -
  have i: "items_of_order (o_id demo_receipt) demo_kitchen = [demo_wish]"
    by (simp add: items_of_order_def qs_filter_def demo_kitchen_def demo_receipt_def demo_wish_def)
  have "one_line (o_number demo_receipt)" "one_line (o_table demo_receipt)"
    "\<forall>it \<in> set (items_of_order (o_id demo_receipt) demo_kitchen). one_line (oi_name it) \<and> one_line (oi_customization it)"
    unfolding i by (simp_all add: one_line_def demo_receipt_def demo_wish_def)
  note K = kitchen_slip_roundtrip [OF this, unfolded i]
  have "dec_int 3 = ''3''" by code_simp
  then show ?thesis using K by (auto simp: demo_wish_def demo_receipt_def)
qed

section \<open>Templates as texts with holes\<close>

datatype part = Literal string | Hole hole

primrec part_text :: "part \<Rightarrow> string" where
  "part_text (Literal s) = s"
| "part_text (Hole h) = hole_tag h"

definition parts_text :: "part list \<Rightarrow> string" where
  "parts_text ps = concat (map part_text ps)"

definition plain :: "string \<Rightarrow> bool" where
  "plain s \<longleftrightarrow> list_all (\<lambda>c. c \<noteq> CHR ''{'') s"

lemma plain_iff: "plain s \<longleftrightarrow> CHR ''{'' \<notin> set s"
  by (auto simp: plain_def list_all_iff)

definition parts_plain :: "part list \<Rightarrow> bool" where
  "parts_plain ps \<longleftrightarrow> (\<forall>s. Literal s \<in> set ps \<longrightarrow> plain s)"

definition fill :: "hole \<Rightarrow> string \<Rightarrow> part list \<Rightarrow> part list" where
  "fill h v ps = map (\<lambda>p. if p = Hole h then Literal v else p) ps"

primrec hole_value :: "order_row \<Rightarrow> orders_db \<Rightarrow> hole \<Rightarrow> string" where
  "hole_value order od OrderNumber = o_number order"
| "hole_value order od CustomerName = o_name order"
| "hole_value order od CustomerPhone = o_phone order"
| "hole_value order od TotalAmount = dec_cents (o_total order)"
| "hole_value order od CreatedAt = stamp_text (o_at order)"
| "hole_value order od Items = items_text (items_of_order (o_id order) od)"

primrec part_value :: "order_row \<Rightarrow> orders_db \<Rightarrow> part \<Rightarrow> string" where
  "part_value order od (Literal s) = s"
| "part_value order od (Hole h) = hole_value order od h"

lemma hole_tag_Cons: "hole_tag h = CHR ''{'' # CHR ''{'' # hole_name h @ ''}}''"
  by (simp add: hole_tag_def)

lemma hole_name_plain: "CHR ''{'' \<notin> set (hole_name h)"
  by (cases h) simp_all

lemma replace_tag_literal: "plain s \<Longrightarrow> replace_all (hole_tag h) v (s @ t) = s @ replace_all (hole_tag h) v t"
  unfolding hole_tag_Cons plain_iff by (rule replace_all_free)

lemma replace_tag_same: "replace_all (hole_tag h) v (hole_tag h @ t) = v @ replace_all (hole_tag h) v t"
  by (rule replace_all_hit) (simp add: hole_tag_def)

lemma hole_tag_no_prefix: "g \<noteq> h \<Longrightarrow> take (length (hole_tag h)) (hole_tag g @ t) \<noteq> hole_tag h"
  by (cases g; cases h) (simp_all add: hole_tag_def)

lemma hole_tag_no_second: "take (length (hole_tag h)) (CHR ''{'' # hole_name g @ t) \<noteq> hole_tag h"
  by (cases g; cases h) (simp_all add: hole_tag_def)

lemma replace_tag_other:
  assumes "g \<noteq> h"
  shows "replace_all (hole_tag h) v (hole_tag g @ t) = hole_tag g @ replace_all (hole_tag h) v t"
proof -
  have p: "plain (hole_name g @ ''}}'')" using hole_name_plain by (simp add: plain_iff)
  have "replace_all (hole_tag h) v (hole_tag g @ t) = CHR ''{'' # replace_all (hole_tag h) v (CHR ''{'' # hole_name g @ ''}}'' @ t)"
    using hole_tag_no_prefix [OF assms, of t] by (simp add: hole_tag_Cons [of g] replace_all_skip)
  also have "replace_all (hole_tag h) v (CHR ''{'' # hole_name g @ ''}}'' @ t)
      = CHR ''{'' # replace_all (hole_tag h) v ((hole_name g @ ''}}'') @ t)"
    using hole_tag_no_second [of h g "''}}'' @ t"] by (simp add: replace_all_skip)
  finally show ?thesis using replace_tag_literal [OF p] by (simp add: hole_tag_Cons [of g])
qed

lemma replace_tag_parts: "parts_plain ps \<Longrightarrow> replace_all (hole_tag h) v (parts_text ps) = parts_text (fill h v ps)"
proof (induction ps)
  case (Cons p ps)
  then have IH: "replace_all (hole_tag h) v (parts_text ps) = parts_text (fill h v ps)" by (simp add: parts_plain_def)
  show ?case
  proof (cases p)
    case (Literal s)
    then have "plain s" using Cons.prems by (simp add: parts_plain_def)
    then show ?thesis using IH Literal by (simp add: parts_text_def fill_def replace_tag_literal)
  next
    case (Hole g)
    then show ?thesis using IH
      by (cases "g = h") (simp_all add: parts_text_def fill_def replace_tag_same replace_tag_other)
  qed
qed (simp add: parts_text_def fill_def)

lemma parts_plain_fill: "parts_plain ps \<Longrightarrow> plain v \<Longrightarrow> parts_plain (fill h v ps)"
  by (auto simp: parts_plain_def fill_def split: if_splits)

text \<open>C21: Rendering a template is filling its holes: for a template written as text and placeholders, six passes of
  \<open>str.replace\<close> give exactly the text with every placeholder, wherever and however often it stands, replaced by its
  value for the order, provided neither the text nor a value of the order brings in an opening brace.\<close>

theorem template_rendering:
  assumes "pt_content tpl = parts_text ps" and "parts_plain ps" and "\<forall>h. plain (hole_value order od h)"
  shows "render_template tpl order od = concat (map (part_value order od) ps)"
proof -
  define fs where "fs = foldl (\<lambda>qs h. fill h (hole_value order od h) qs) ps
     [OrderNumber, CustomerName, CustomerPhone, TotalAmount, CreatedAt, Items]"
  have pl: "parts_plain (fill h (hole_value order od h) qs)" if "parts_plain qs" for h qs
    using parts_plain_fill [OF that] assms(3) by blast
  have r: "replace_all (hole_tag h) (hole_value order od h) (parts_text qs) = parts_text (fill h (hole_value order od h) qs)"
    if "parts_plain qs" for h qs by (rule replace_tag_parts [OF that])
  have "render_template tpl order od = parts_text fs"
    unfolding render_template_def Let_def assms(1) fs_def hole_value.simps [of order od, symmetric]
    by (simp only: r pl assms(2) foldl.simps)
  also have "\<dots> = concat (map (part_value order od) ps)"
  proof -
    let ?step = "\<lambda>h p. if p = Hole h then Literal (hole_value order od h) else p"
    have "part_text (?step Items (?step CreatedAt (?step TotalAmount (?step CustomerPhone (?step CustomerName
        (?step OrderNumber p)))))) = part_value order od p" for p
    proof (cases p)
      case (Hole h)
      then show ?thesis by (cases h) simp_all
    qed simp
    then show ?thesis by (simp add: fs_def parts_text_def fill_def comp_def del: map_map) (simp add: comp_def)
  qed
  finally show ?thesis .
qed

definition demo_template :: "int \<Rightarrow> bool \<Rightarrow> template_row" where
  "demo_template i d = (blank_template 3)\<lparr>pt_id := i, pt_name := ''slip'', pt_content := ''No. {{order_number}}: {{total_amount}}'', pt_default := d\<rparr>"

theorem template_rendering_witness: "render_template (demo_template 1 True) demo_receipt demo_kitchen = ''No. ORD1: 54.00''"
proof -
  have "plain (dec_cents 5400)" "dec_of 1970 = ''1970''" "pad_dec 2 1 = ''01''" "pad_dec 2 0 = ''00''" by code_simp+
  then have "plain (dec_cents 5400)" "plain (stamp_text 5)"
    by (simp_all add: stamp_text_def clock_text_def civil_def utc_date_def day_us_def in_year.simps month_lengths_def
        year_length_def leap_def plain_def)
  moreover have "items_of_order (o_id demo_receipt) demo_kitchen = [demo_wish]"
    by (simp add: items_of_order_def qs_filter_def demo_kitchen_def demo_receipt_def demo_wish_def)
  moreover have "plain (items_text [demo_wish])" by code_simp
  ultimately have "plain (hole_value demo_receipt demo_kitchen OrderNumber)" "plain (hole_value demo_receipt demo_kitchen CustomerName)"
    "plain (hole_value demo_receipt demo_kitchen CustomerPhone)" "plain (hole_value demo_receipt demo_kitchen TotalAmount)"
    "plain (hole_value demo_receipt demo_kitchen CreatedAt)" "plain (hole_value demo_receipt demo_kitchen Items)"
    by (simp_all add: demo_receipt_def plain_def)
  then have v: "plain (hole_value demo_receipt demo_kitchen h)" for h by (cases h) (simp_all only:)
  have t: "pt_content (demo_template 1 True) = parts_text [Literal ''No. '', Hole OrderNumber, Literal '': '', Hole TotalAmount]"
    by (simp add: demo_template_def parts_text_def hole_tag_def)
  have p: "parts_plain [Literal ''No. '', Hole OrderNumber, Literal '': '', Hole TotalAmount]"
    by (auto simp: parts_plain_def plain_def)
  have "dec_cents 5400 = ''54.00''" by code_simp
  then show ?thesis using template_rendering [OF t p] v by (simp add: demo_receipt_def)
qed

section \<open>Receipts\<close>

lemma create_task_untemplated: "create_task E now i printer None oid kind content copies r db \<noteq> Inr x"
  by (auto simp: create_task_def split: sum.splits)

lemma create_task_empty: "create_task E now i printer tpl oid kind None copies r db \<noteq> Inr x"
  by (auto simp: create_task_def split: sum.splits option.splits)

lemma print_and_record_fails:
  assumes "\<And>r db' x. create_task E now i printer tpl (o_id order) kind content copies r db' \<noteq> Inr x"
  shows "\<exists>e. print_and_record E C now i order printer tpl kind content copies db
     = (Inl e, db\<lparr>db_sent := db_sent db @ [print_form C now printer content copies]\<rparr>)"
proof -
  obtain r db1 where r: "print_text C now printer content copies db = (r, db1)" by fastforce
  then have db1: "db1 = db\<lparr>db_sent := db_sent db @ [print_form C now printer content copies]\<rparr>"
    using print_text_snd [of C now printer content copies db] by simp
  obtain e where "create_task E now i printer tpl (o_id order) kind content copies r db1 = Inl e"
    using assms [of r db1] by (cases "create_task E now i printer tpl (o_id order) kind content copies r db1") auto
  then show ?thesis by (simp add: print_and_record_def r db1 [symmetric])
qed

lemma print_receipt_fails:
  "\<exists>e. print_receipt E C now i order printer tpl copies db
     = (Inl e, db\<lparr>db_sent := db_sent db @ (case generate_order_content order tpl (db_receipts db) of
          Inl _ \<Rightarrow> [] | Inr content \<Rightarrow> [print_form C now printer content copies])\<rparr>)"
proof (cases "generate_order_content order tpl (db_receipts db)")
  case (Inl e)
  then show ?thesis by (simp add: print_receipt_def)
next
  case (Inr content)
  have "create_task E now i printer tpl (o_id order) ''order'' content copies r db' \<noteq> Inr x" for r db' x
  proof (cases tpl)
    case None
    then show ?thesis using create_task_untemplated by simp
  next
    case (Some t)
    then have "content = None" using Inr by (simp add: generate_order_content_def)
    then show ?thesis using create_task_empty by simp
  qed
  from print_and_record_fails [OF this] Inr show ?thesis by (simp add: print_receipt_def)
qed

text \<open>A receipt is never recorded, whatever names the module binds: rendering with a template gives no text, and
  without a template the task has none to refer to, and both columns are mandatory.  So a request for a receipt is
  never accepted and stores neither task nor log, although the job went to the printer whenever its content could
  be made; the kitchen slip of the same request is not tried.\<close>

theorem receipt_never_recorded:
  assumes "kind \<noteq> PrintKitchen"
  shows "\<exists>e. print_slips E C now i order printer tpl copies kind db
     = (Reject 500 e, db\<lparr>db_sent := db_sent db @ (case generate_order_content order tpl (db_receipts db) of
          Inl _ \<Rightarrow> [] | Inr content \<Rightarrow> [print_form C now printer content copies])\<rparr>)"
  using print_receipt_fails [of E C now i order printer tpl copies db] assms by (auto simp: print_slips_def)

definition demo_cloud :: cloud where
  "demo_cloud = \<lparr>cl_user = ''u'', cl_ukey = ''k'', cl_sha1 = (\<lambda>s. s),
     cl_post = (\<lambda>n form. if n < 2 then Answered (Some 1) Missing (Text ''busy'') else Answered (Some 0) (Text ''T9'') Missing)\<rparr>"

definition demo_printer :: printer_row where
  "demo_printer = (blank_printer 3)\<lparr>prn_id := 1, prn_name := ''bar'', prn_device := ''SN1''\<rparr>"

definition demo_task :: task_row where
  "demo_task = blank_task\<lparr>pk_id := 1, pk_task := ''T1'', pk_printer := 1, pk_template := 1, pk_content := ''hello''\<rparr>"

definition demo_print :: print_db where
  "demo_print = \<lparr>db_receipts = demo_kitchen, db_printers = \<lparr>rows = [demo_printer], seq = 1\<rparr>,
     db_templates = \<lparr>rows = [demo_template 1 False], seq = 1\<rparr>, db_tasks = \<lparr>rows = [demo_task], seq = 1\<rparr>,
     db_plogs = empty_tbl, db_sent = []\<rparr>"

theorem receipt_never_recorded_witness:
  "\<exists>e. print_slips full_env demo_cloud 5 ''TASK5'' demo_receipt demo_printer (Some (demo_template 1 True)) 1 PrintBoth demo_print
     = (Reject 500 e, demo_print\<lparr>db_sent := [print_form demo_cloud 5 demo_printer None 1]\<rparr>)"
  using receipt_never_recorded [of PrintBoth full_env demo_cloud 5 "''TASK5''" demo_receipt demo_printer
      "Some (demo_template 1 True)" 1 demo_print]
  by (simp add: generate_order_content_def demo_print_def)

text \<open>A kitchen slip is recorded as it was printed: with the names bound and a template chosen, a request for
  a kitchen slip sends one job and answers with what the service said, stores one task that is completed exactly if
  the service confirmed it (with the time) and failed with the message otherwise, and one log of the same slip.\<close>

theorem kitchen_slip_recorded:
  assumes "refused (cl_post C (length (db_sent db)) form) \<or> granted (cl_post C (length (db_sent db)) form)"
    and "form = print_form C now printer (Some (generate_kitchen_content order (db_receipts db))) 1"
    and "\<not> qs_exists (\<lambda>k. pk_task k = i @ ''_KITCHEN'') (db_tasks db)"
  shows "\<exists>a k l db'. print_slips full_env C now i order printer (Some t) copies PrintKitchen db = (OK 200 (o_number order, [a]), db')
     \<and> db_sent db' = db_sent db @ [form] \<and> rows (db_tasks db') = rows (db_tasks db) @ [k] \<and> rows (db_plogs db') = rows (db_plogs db) @ [l]
     \<and> pa_success a = granted (cl_post C (length (db_sent db)) form)
     \<and> pk_status k = (if pa_success a then CompletedTask else FailedTask) \<and> pk_printed_at k = (if pa_success a then Some now else None)
     \<and> (\<not> pa_success a \<longrightarrow> Text (pk_error k) = pa_message a)
     \<and> pk_content k = generate_kitchen_content order (db_receipts db) \<and> lg_content l = pk_content k
     \<and> lg_success l = pa_success a \<and> lg_task l = Some (pk_id k) \<and> lg_reference l = o_number order"
proof -
  let ?text = "generate_kitchen_content order (db_receipts db)"
  obtain r db1 where r: "print_text C now printer (Some ?text) 1 db = (r, db1)" by fastforce
  have db1: "db1 = db\<lparr>db_sent := db_sent db @ [form]\<rparr>" using r print_text_snd [of C now printer "Some ?text" 1 db] assms(2) by simp
  have ok: "po_success r = granted (cl_post C (length (db_sent db)) form)"
    using r print_text_success [of C now printer "Some ?text" 1 db] assms(2) by simp
  have msg: "\<exists>m. po_message r = Text m" if "\<not> po_success r"
    using r that ok assms(1,2) print_text_refused [of C db now printer "Some ?text" 1] by auto
  have free: "\<not> qs_exists (\<lambda>k. pk_task k = i @ ''_KITCHEN'') (db_tasks db1)" using assms(3) db1 by simp
  obtain m where m: "(if po_success r then Text [] else po_message r) = Text m" using msg by (cases "po_success r") auto
  show ?thesis
    using m free
    by (intro exI [of _ "\<lparr>pa_kind = ''kitchen'', pa_success = po_success r, pa_message = po_message r, pa_task = i @ ''_KITCHEN''\<rparr>"])
       (simp add: print_slips_def print_kitchen_slip_def print_and_record_def r create_task_def full_env_def add_plog_def
         t_add_def ok [symmetric] db1 split: if_splits)
qed

theorem kitchen_slip_recorded_witness:
  "\<exists>a k db'. print_slips full_env demo_cloud 5 ''TASK5'' demo_receipt demo_printer (Some (demo_template 1 True)) 1 PrintKitchen demo_print
     = (OK 200 (''ORD1'', [a]), db') \<and> \<not> pa_success a \<and> rows (db_tasks db') = [demo_task, k] \<and> pk_status k = FailedTask"
proof -
  let ?form = "print_form demo_cloud 5 demo_printer (Some (generate_kitchen_content demo_receipt (db_receipts demo_print))) 1"
  have a: "cl_post demo_cloud (length (db_sent demo_print)) ?form = Answered (Some 1) Missing (Text ''busy'')"
    by (simp add: demo_cloud_def demo_print_def)
  then have b: "refused (cl_post demo_cloud (length (db_sent demo_print)) ?form) \<or> granted (cl_post demo_cloud (length (db_sent demo_print)) ?form)"
    by (simp add: refused_def)
  have c: "\<not> granted (cl_post demo_cloud (length (db_sent demo_print)) ?form)" using a by (simp add: granted_def)
  have free: "\<not> qs_exists (\<lambda>k. pk_task k = ''TASK5'' @ ''_KITCHEN'') (db_tasks demo_print)"
    by (simp add: qs_exists_iff demo_print_def demo_task_def)
  have "rows (db_tasks demo_print) = [demo_task]" "o_number demo_receipt = ''ORD1''" by (simp_all add: demo_print_def demo_receipt_def)
  with kitchen_slip_recorded [OF b refl free, of "demo_template 1 True" 1] c show ?thesis by auto
qed

lemma auto_print_one_plain:
  assumes "prn_brand p = Feie" and "default_template shop db = None" and "default_lines order (db_receipts db) = Inr ls"
  shows "\<exists>x db1 l. auto_print_one C now shop order p db = (Inr x, db1) \<and> db1 = db\<lparr>db_sent := db_sent db1, db_plogs := db_plogs db1\<rparr>
     \<and> db_sent db1 = db_sent db @ [print_form C now p (Some (join [CHR 0x0A] ls)) 1]
     \<and> rows (db_plogs db1) = rows (db_plogs db) @ [l] \<and> lg_printer l = prn_id p \<and> lg_content l = join [CHR 0x0A] ls
     \<and> lg_success l = granted (cl_post C (length (db_sent db)) (print_form C now p (Some (join [CHR 0x0A] ls)) 1))"
proof -
  let ?text = "Some (join [CHR 0x0A] ls)"
  obtain r db1 where r: "print_text C now p ?text 1 db = (r, db1)" by fastforce
  have db1: "db1 = db\<lparr>db_sent := db_sent db @ [print_form C now p ?text 1]\<rparr>" using r print_text_snd [of C now p ?text 1 db] by simp
  have ok: "po_success r = granted (cl_post C (length (db_sent db)) (print_form C now p ?text 1))"
    using r print_text_success [of C now p ?text 1 db] by simp
  show ?thesis using assms
    by (simp add: auto_print_one_def print_service_def generate_order_content_def r add_plog_def t_add_def db1 ok [symmetric])
qed

lemma auto_print_all_plain:
  assumes "\<forall>p \<in> set ps. prn_brand p = Feie" and "default_template shop db = None" and "default_lines order (db_receipts db) = Inr ls"
  shows "\<exists>xs db1 new. auto_print_all C now shop order ps db = (Inr xs, db1)
     \<and> db_sent db1 = db_sent db @ map (\<lambda>p. print_form C now p (Some (join [CHR 0x0A] ls)) 1) ps
     \<and> rows (db_plogs db1) = rows (db_plogs db) @ new \<and> map lg_printer new = map prn_id ps
     \<and> (\<forall>l \<in> set new. lg_content l = join [CHR 0x0A] ls) \<and> db1 = db\<lparr>db_sent := db_sent db1, db_plogs := db_plogs db1\<rparr>"
  using assms
proof (induction ps arbitrary: db)
  case Nil
  then show ?case by simp
next
  case (Cons p ps)
  obtain x db1 l where o: "auto_print_one C now shop order p db = (Inr x, db1)" "db1 = db\<lparr>db_sent := db_sent db1, db_plogs := db_plogs db1\<rparr>"
    "db_sent db1 = db_sent db @ [print_form C now p (Some (join [CHR 0x0A] ls)) 1]"
    "rows (db_plogs db1) = rows (db_plogs db) @ [l]" "lg_printer l = prn_id p" "lg_content l = join [CHR 0x0A] ls"
    using auto_print_one_plain [of p shop db order ls C now] Cons.prems by auto
  have same: "db_templates db1 = db_templates db" "db_receipts db1 = db_receipts db"
    by (subst o(2), simp)+
  then have "default_template shop db1 = None" "default_lines order (db_receipts db1) = Inr ls"
    using Cons.prems by (simp_all add: default_template_def)
  from Cons.IH [OF _ this] Cons.prems(1) obtain xs db2 new where
    "auto_print_all C now shop order ps db1 = (Inr xs, db2)"
    "db_sent db2 = db_sent db1 @ map (\<lambda>p. print_form C now p (Some (join [CHR 0x0A] ls)) 1) ps"
    "rows (db_plogs db2) = rows (db_plogs db1) @ new" "map lg_printer new = map prn_id ps"
    "\<forall>l \<in> set new. lg_content l = join [CHR 0x0A] ls" "db2 = db1\<lparr>db_sent := db_sent db2, db_plogs := db_plogs db2\<rparr>" by auto
  moreover from this(6) o(2) have "db2 = db\<lparr>db_sent := db_sent db2, db_plogs := db_plogs db2\<rparr>"
    by (cases db; cases db1; cases db2) simp
  ultimately show ?case using o(1,3,4,5,6) by (intro exI [of _ "x # xs"] exI [of _ db2] exI [of _ "l # new"]) simp
qed

text \<open>Automatic printing: without an active default template every automatic printer gets the order's receipt once
  and a log of it with the service's verdict; with one, the first printer gets a job without text, nothing is
  logged, and the rest get none.\<close>

theorem auto_print_outcome:
  assumes "auto_printers shop db = p # ps" and "\<forall>q \<in> set (p # ps). prn_brand q = Feie"
  shows "(default_template shop db = None \<and> default_lines order (db_receipts db) = Inr ls \<longrightarrow>
       (\<exists>xs db1 new. auto_print_all C now shop order (auto_printers shop db) db = (Inr xs, db1)
          \<and> db_sent db1 = db_sent db @ map (\<lambda>p. print_form C now p (Some (join [CHR 0x0A] ls)) 1) (p # ps)
          \<and> rows (db_plogs db1) = rows (db_plogs db) @ new \<and> map lg_printer new = map prn_id (p # ps)
          \<and> (\<forall>l \<in> set new. lg_content l = join [CHR 0x0A] ls)))
     \<and> (default_template shop db = Some t \<longrightarrow>
          (\<exists>e. auto_print_all C now shop order (auto_printers shop db) db
             = (Inl e, db\<lparr>db_sent := db_sent db @ [print_form C now p None 1]\<rparr>)))"
proof (intro conjI impI)
  assume "default_template shop db = None \<and> default_lines order (db_receipts db) = Inr ls"
  then have "default_template shop db = None" "default_lines order (db_receipts db) = Inr ls" by simp_all
  from auto_print_all_plain [OF assms(2) this, of C now] show
    "\<exists>xs db1 new. auto_print_all C now shop order (auto_printers shop db) db = (Inr xs, db1)
          \<and> db_sent db1 = db_sent db @ map (\<lambda>p. print_form C now p (Some (join [CHR 0x0A] ls)) 1) (p # ps)
          \<and> rows (db_plogs db1) = rows (db_plogs db) @ new \<and> map lg_printer new = map prn_id (p # ps)
          \<and> (\<forall>l \<in> set new. lg_content l = join [CHR 0x0A] ls)"
    unfolding assms(1) by (elim exE conjE) (intro exI conjI)
next
  assume t: "default_template shop db = Some t"
  obtain r db1 where r: "print_text C now p None 1 db = (r, db1)" by fastforce
  then have "db1 = db\<lparr>db_sent := db_sent db @ [print_form C now p None 1]\<rparr>" using print_text_snd [of C now p None 1 db] by simp
  then have "auto_print_one C now shop order p db = (Inl (IntegrityError ''print_content''), db\<lparr>db_sent := db_sent db @ [print_form C now p None 1]\<rparr>)"
    using assms(2) t r by (simp add: auto_print_one_def print_service_def generate_order_content_def add_plog_def)
  then show "\<exists>e. auto_print_all C now shop order (auto_printers shop db) db
             = (Inl e, db\<lparr>db_sent := db_sent db @ [print_form C now p None 1]\<rparr>)" by (simp add: assms(1))
qed

theorem auto_print_outcome_witness:
  "\<exists>xs db1 l. auto_print_all demo_cloud 5 (Some 3) demo_receipt (auto_printers (Some 3) demo_print) demo_print = (Inr xs, db1)
     \<and> length (db_sent db1) = 1 \<and> rows (db_plogs db1) = [l]"
proof -
  have p: "auto_printers (Some 3) demo_print = demo_printer # []"
    by (simp add: auto_printers_def qs_filter_def demo_print_def demo_printer_def blank_printer_def)
  have f: "\<forall>q \<in> set (demo_printer # []). prn_brand q = Feie" by (simp add: demo_printer_def blank_printer_def)
  obtain ls where ls: "default_lines demo_receipt (db_receipts demo_print) = Inr ls"
    by (simp add: default_lines_def paid_clock_def demo_receipt_def Let_def)
  have "default_template (Some 3) demo_print = None"
    by (simp add: default_template_def qs_first_def demo_print_def demo_template_def)
  moreover have "rows (db_plogs demo_print) = []" "db_sent demo_print = []" by (simp_all add: demo_print_def empty_tbl_def)
  ultimately show ?thesis using auto_print_outcome [OF p f, of demo_receipt ls demo_cloud 5] ls by (auto simp: length_Suc_conv)
qed

section \<open>Templates\<close>

definition template_inv :: "print_db \<Rightarrow> bool" where
  "template_inv db \<longleftrightarrow> unique_on template_key (db_templates db)"

datatype template_op =
    CreateTemplate request template_body
  | UpdateTemplate bool request int template_body
  | DestroyTemplate request int
  | SetDefault request int

primrec handle_template :: "template_op \<Rightarrow> print_db \<Rightarrow> bool \<times> print_db" where
  "handle_template (CreateTemplate rq b) db = (case template_create rq b db of (r, db') \<Rightarrow> (accepted r, db'))"
| "handle_template (UpdateTemplate partial rq pk b) db = (case template_update partial rq pk b db of (r, db') \<Rightarrow> (accepted r, db'))"
| "handle_template (DestroyTemplate rq pk) db = (case template_destroy rq pk db of (r, db') \<Rightarrow> (accepted r, db'))"
| "handle_template (SetDefault rq pk) db = (case set_default rq pk db of (r, db') \<Rightarrow> (accepted r, db'))"

lemma print_staff_inv:
  assumes "print_staff rq body db = (r, db')" and "Q db" and "\<And>r db'. body db = (r, db') \<Longrightarrow> Q db'"
  shows "Q db'"
  using assms unfolding print_staff_def by (rule staff_only_inv)

lemma store_templates_inv: "store_templates t db = Inr db' \<Longrightarrow> template_inv db'"
  by (auto simp: store_templates_def template_inv_def split: if_splits)

lemma template_inv_del: "template_inv db \<Longrightarrow> unique_on template_key (t_del P (db_templates db))"
  by (simp add: template_inv_def unique_on_def table_simps distinct_map_filter)

interpretation template_system: guarded_system handle_template template_inv
proof unfold_locales
  fix db op
  assume inv: "template_inv db"
  show "template_inv (snd (handle_template op db))"
  proof (cases op)
    case (CreateTemplate rq b)
    have "template_inv db'" if "template_create rq b db = (r, db')" for r db'
      using that inv unfolding template_create_def
      by (rule print_staff_inv)
         (auto simp: t_add_def clear_defaults_def inv split: if_splits sum.splits option.splits dest: store_templates_inv)
    then show ?thesis by (simp add: CreateTemplate split: prod.split)
  next
    case (UpdateTemplate partial rq pk b)
    have "template_inv db'" if "template_update partial rq pk b db = (r, db')" for r db'
      using that inv unfolding template_update_def
      by (rule print_staff_inv) (auto simp: inv split: if_splits sum.splits option.splits dest: store_templates_inv)
    then show ?thesis by (simp add: UpdateTemplate split: prod.split)
  next
    case (DestroyTemplate rq pk)
    have "template_inv db'" if "template_destroy rq pk db = (r, db')" for r db'
      using that inv unfolding template_destroy_def
      by (rule print_staff_inv) (auto simp: inv [unfolded template_inv_def] Let_def delete_tasks_def template_inv_def
          template_inv_del [OF inv, unfolded template_inv_def] split: option.splits)
    then show ?thesis by (simp add: DestroyTemplate split: prod.split)
  next
    case (SetDefault rq pk)
    have "template_inv db'" if "set_default rq pk db = (r, db')" for r db'
      using that inv unfolding set_default_def
      by (rule print_staff_inv)
         (auto simp: inv set_default_rows_def split: sum.splits option.splits dest: store_templates_inv)
    then show ?thesis by (simp add: SetDefault split: prod.split)
  qed
qed

text \<open>Whatever is done with templates by whoever, accepted or refused, a shop never has two default templates of a
  type; but the rule that keeps it so counts the flag as part of the key, and a shop never has more than two
  templates of a type at all, one of them the default.\<close>

theorem template_defaults:
  assumes "unique_on template_key (db_templates db)"
  shows "let ts = rows (db_templates (run_requests handle_template ops db)) in
     length (filter (\<lambda>t. pt_shop t = shop \<and> pt_type t = ty \<and> pt_default t) ts) \<le> 1
     \<and> length (filter (\<lambda>t. pt_shop t = shop \<and> pt_type t = ty) ts) \<le> 2"
proof -
  define ts where "ts = rows (db_templates (run_requests handle_template ops db))"
  have "template_inv (run_requests handle_template ops db)"
    using assms by (intro template_system.run_inv) (simp add: template_inv_def)
  then have d: "distinct (map template_key ts)" by (simp add: template_inv_def unique_on_def ts_def)
  have le: "length (filter P ts) \<le> card K" if "finite K" "\<And>t. t \<in> set ts \<Longrightarrow> P t \<Longrightarrow> template_key t \<in> K" for P K
  proof -
    have "length (filter P ts) = card (set (map template_key (filter P ts)))"
      using distinct_card [OF distinct_map_filter [OF d, of P]] by simp
    also have "\<dots> \<le> card K" by (rule card_mono) (use that in auto)
    finally show ?thesis .
  qed
  have "length (filter (\<lambda>t. pt_shop t = shop \<and> pt_type t = ty \<and> pt_default t) ts) \<le> card {(shop, ty, True)}"
    by (rule le) (auto simp: template_key_def)
  moreover have "length (filter (\<lambda>t. pt_shop t = shop \<and> pt_type t = ty) ts) \<le> card {(shop, ty, True), (shop, ty, False)}"
    by (rule le) (auto simp: template_key_def)
  ultimately show ?thesis by (simp add: ts_def [symmetric] Let_def)
qed

theorem template_defaults_witness:
  "let ts = rows (db_templates (run_requests handle_template [SetDefault demo_request 1, DestroyTemplate demo_request 9] demo_print))
   in length (filter (\<lambda>t. pt_shop t = 3 \<and> pt_type t = OrderTemplate \<and> pt_default t) ts) \<le> 1"
proof -
  have "unique_on template_key (db_templates demo_print)" by (simp add: unique_on_def demo_print_def)
  from template_defaults [OF this, of "[SetDefault demo_request 1, DestroyTemplate demo_request 9]" 3 OrderTemplate]
  show ?thesis unfolding Let_def by blast
qed

lemma clear_defaults_single:
  assumes "qs_filter (\<lambda>r. pt_shop r = tn \<and> pt_type r = ty) (db_templates db) = [t]" and "template_inv db"
  shows "clear_defaults (Some tn) ty db
     = Inr (db\<lparr>db_templates := t_upd (\<lambda>r. pt_shop r = tn \<and> pt_type r = ty) (\<lambda>r. r\<lparr>pt_default := False\<rparr>) (db_templates db)\<rparr>)"
proof -
  let ?P = "\<lambda>r. pt_shop r = tn \<and> pt_type r = ty" let ?f = "\<lambda>r. if ?P r then r\<lparr>pt_default := False\<rparr> else r"
  obtain as bs where r: "rows (db_templates db) = as @ t # bs" and as: "\<forall>r \<in> set as. \<not> ?P r" "?P t" and bs: "filter ?P bs = []"
    using assms(1) unfolding qs_filter_def filter_eq_Cons_iff by (metis (no_types, lifting))
  have bs': "\<forall>r \<in> set bs. \<not> ?P r" using bs by (simp only: filter_empty_conv)
  have id: "map ?f as = as" "map ?f bs = bs" using as(1) bs' by (auto intro!: map_idI)
  have "distinct (map template_key (as @ t\<lparr>pt_default := False\<rparr> # bs))"
    using assms(2) as bs' by (auto simp: template_inv_def unique_on_def r template_key_def)
  then have "unique_on template_key (t_upd ?P (\<lambda>r. r\<lparr>pt_default := False\<rparr>) (db_templates db))"
    using as(2) id by (simp add: unique_on_def table_simps r)
  then show ?thesis by (simp add: clear_defaults_def store_templates_def)
qed

lemma clear_defaults_several:
  assumes "2 \<le> length (qs_filter (\<lambda>r. pt_shop r = tn \<and> pt_type r = ty) (db_templates db))"
  shows "clear_defaults (Some tn) ty db = Inl (IntegrityError ''print_templates'')"
proof -
  let ?P = "\<lambda>r. pt_shop r = tn \<and> pt_type r = ty" let ?f = "\<lambda>r. if ?P r then r\<lparr>pt_default := False\<rparr> else r"
  let ?rs = "rows (db_templates db)"
  have "map template_key (filter ?P (map ?f xs)) = replicate (length (filter ?P xs)) (tn, ty, False)" for xs
    by (induction xs) (auto simp: template_key_def)
  then have k: "map template_key (filter ?P (map ?f ?rs)) = replicate (length (filter ?P ?rs)) (tn, ty, False)" .
  obtain n where "length (filter ?P ?rs) = Suc (Suc n)"
    using assms unfolding qs_filter_def by (metis add_2_eq_Suc le_Suc_ex)
  then have "\<not> distinct (map template_key (filter ?P (map ?f ?rs)))" unfolding k by simp
  then have "\<not> distinct (map template_key (map ?f ?rs))" using distinct_map_filter by blast
  then have "\<not> unique_on template_key (t_upd ?P (\<lambda>r. r\<lparr>pt_default := False\<rparr>) (db_templates db))"
    by (simp only: unique_on_def rows_t_upd not_False_eq_True)
  then show ?thesis by (simp add: clear_defaults_def store_templates_def)
qed

text \<open>Making a template the default works only for the single template of its type in the shop: then it becomes the
  default; as soon as the shop has a second template of the type, clearing the flags breaks the unique rule, and
  the request fails and changes nothing, so the default can never be moved.\<close>

theorem set_default_outcome:
  assumes "unique_on template_key (db_templates db)" and "is_shop_owner_or_staff (db_staff (db_org (db_receipts db))) rq = Inr True"
    and "rq_tenant rq = Some tn" and "template_object rq pk db = Some t"
    and "t_wf pt_id (db_templates db)"
  shows "if length (qs_filter (\<lambda>r. pt_shop r = tn \<and> pt_type r = pt_type t) (db_templates db)) = 1
     then \<exists>db'. set_default rq pk db = (OK 200 (), db') \<and> t_find pt_id pk (db_templates db') = Some (t\<lparr>pt_default := True\<rparr>)
     else set_default rq pk db = (Crash (IntegrityError ''print_templates''), db)"
proof -
  let ?P = "\<lambda>r. pt_shop r = tn \<and> pt_type r = pt_type t"
  have t: "t \<in> set (rows (db_templates db))" "pt_id t = pk" "pt_shop t = tn"
    using assms(3,4) by (auto simp: template_object_def dest: qs_first_SomeD)
  then have mem: "t \<in> set (qs_filter ?P (db_templates db))" by (simp add: qs_filter_def)
  have go: "set_default rq pk db = (case set_default_rows (Some tn) t db of Inl e \<Rightarrow> (Crash e, db) | Inr db' \<Rightarrow> (OK 200 (), db'))"
    by (simp add: set_default_def print_staff_def staff_only_def assms(2,3,4))
  show ?thesis
  proof (cases "length (qs_filter ?P (db_templates db)) = 1")
    case True
    then have one: "qs_filter ?P (db_templates db) = [t]" using mem by (auto simp: length_Suc_conv)
    define T where "T = t_upd ?P (\<lambda>r. r\<lparr>pt_default := False\<rparr>) (db_templates db)"
    have c: "clear_defaults (Some tn) (pt_type t) db = Inr (db\<lparr>db_templates := T\<rparr>)"
      unfolding T_def by (rule clear_defaults_single [OF one]) (simp add: template_inv_def assms(1))
    have u: "unique_on template_key T" using store_templates_inv [OF c [unfolded clear_defaults_def]] by (simp add: template_inv_def)
    have w: "t_wf pt_id T" unfolding T_def by (rule t_wf_t_upd [OF assms(5)]) simp
    have f: "t_find pt_id (pt_id (t\<lparr>pt_default := True\<rparr>)) T \<noteq> None"
    proof -
      have "(if ?P t then t\<lparr>pt_default := False\<rparr> else t) \<in> set (rows T)" unfolding T_def rows_t_upd set_map using t(1) by (rule imageI)
      then have "t\<lparr>pt_default := False\<rparr> \<in> set (rows T)" using t(3) by simp
      then show ?thesis unfolding t_find_None by (auto intro: bexI [of _ "t\<lparr>pt_default := False\<rparr>"])
    qed
    have "template_key x \<noteq> template_key (t\<lparr>pt_default := True\<rparr>)" if x: "x \<in> set (rows T)" "pt_id x \<noteq> pt_id (t\<lparr>pt_default := True\<rparr>)" for x
    proof -
      obtain r where r: "r \<in> set (rows (db_templates db))" "x = (if ?P r then r\<lparr>pt_default := False\<rparr> else r)"
        using x(1) unfolding T_def rows_t_upd set_map by blast
      then have "r \<noteq> t" using x(2) by (auto split: if_splits)
      then have "r \<notin> set (qs_filter ?P (db_templates db))" unfolding one by simp
      then have "\<not> ?P r" using r(1) by (simp add: qs_filter_def)
      then show ?thesis using r(2) t(3) by (auto simp: template_key_def)
    qed
    from unique_on_t_save [OF w u f this] have "set_default_rows (Some tn) t db
        = Inr (db\<lparr>db_templates := t_save pt_id (t\<lparr>pt_default := True\<rparr>) T\<rparr>)"
      by (simp add: set_default_rows_def c store_templates_def)
    then show ?thesis using True t(2) by (simp add: go t_find_t_save)
  next
    case False
    then have "2 \<le> length (qs_filter ?P (db_templates db))" using mem by (cases "qs_filter ?P (db_templates db)") (auto simp: Suc_le_eq)
    from clear_defaults_several [OF this] False show ?thesis by (simp add: go set_default_rows_def)
  qed
qed

lemma demo_print_staff: "is_shop_owner_or_staff (db_staff (db_org (db_receipts demo_print))) demo_request = Inr True"
proof -
  have "db_staff (db_org (db_receipts demo_print)) = demo_staff"
    by (simp add: demo_print_def demo_kitchen_def demo_orders_def demo_shops_def)
  moreover have "is_shop_owner_or_staff demo_staff demo_request = Inr True" by code_simp
  ultimately show ?thesis by simp
qed

lemma demo_print_task: "task_object demo_request 1 demo_print = Some (demo_task, demo_printer)"
  by (simp add: task_object_def qs_first_def demo_print_def demo_task_def demo_printer_def blank_printer_def demo_request_def)

theorem set_default_outcome_witness:
  "\<exists>db'. set_default demo_request 1 demo_print = (OK 200 (), db') \<and> t_find pt_id 1 (db_templates db') = Some (demo_template 1 True)"
proof -
  have u: "unique_on template_key (db_templates demo_print)" "t_wf pt_id (db_templates demo_print)"
    by (simp_all add: unique_on_def demo_print_def t_wf_def demo_template_def)
  have o: "template_object demo_request 1 demo_print = Some (demo_template 1 False)"
    by (simp add: template_object_def qs_first_def demo_print_def demo_template_def blank_template_def demo_request_def)
  have tn: "rq_tenant demo_request = Some 3" by (simp add: demo_request_def)
  have "qs_filter (\<lambda>r. pt_shop r = 3 \<and> pt_type r = pt_type (demo_template 1 False)) (db_templates demo_print) = [demo_template 1 False]"
    by (simp add: qs_filter_def demo_print_def demo_template_def blank_template_def)
  then show ?thesis using set_default_outcome [OF u(1) demo_print_staff tn o u(2)] by (simp add: demo_template_def)
qed

section \<open>Retrying\<close>

lemma retry_go:
  assumes "is_shop_owner_or_staff (db_staff (db_org (db_receipts db))) rq = Inr True"
    and "task_object rq pk db = Some (k, p)"
  shows "retry E C now rq pk db = retry_task E C now k p db"
  by (simp add: retry_def print_staff_def staff_only_def assms)

lemma task_object_save:
  assumes "task_object rq pk db = Some (k, p)" and "pk_id k' = pk_id k" "pk_printer k' = pk_printer k"
    and "db_tasks db' = t_save pk_id k' (db_tasks db)" "db_printers db' = db_printers db"
  shows "task_object rq pk db' = Some (k', p)"
proof -
  have k: "qs_first (\<lambda>k. pk_id k = pk) (db_tasks db) = Some k"
    and p: "qs_first (\<lambda>p. prn_id p = pk_printer k \<and> Some (prn_shop p) = rq_tenant rq) (db_printers db) = Some p"
    using assms(1) by (auto simp: task_object_def split: option.splits)
  have "pk_id k = pk" using qs_first_SomeD [OF k] by simp
  then have "qs_first (\<lambda>k. pk_id k = pk) (db_tasks db') = Some k'"
    using t_find_t_save [of pk_id pk k' "db_tasks db"] assms(2,4) by (simp add: qs_first_def t_find_def)
  then show ?thesis using p assms(3,5) by (simp add: task_object_def)
qed

lemma retry_refused:
  assumes "task_object rq pk db = Some (k, p)" and "pk_status k = FailedTask \<or> pk_status k = PendingTask" and "prn_brand p = Feie"
    and "refused (cl_post C (length (db_sent db)) (print_form C now p (Some (pk_content k)) (pk_copies k)))"
    and "int4_ok (pk_retries k + 1)"
  obtains m r db' where "retry_task E C now k p db = (OK 200 r, db')"
    "task_object rq pk db' = Some (k\<lparr>pk_status := FailedTask, pk_retries := pk_retries k + 1, pk_error := m\<rparr>, p)"
    "db_sent db' = db_sent db @ [print_form C now p (Some (pk_content k)) (pk_copies k)]" "db_receipts db' = db_receipts db"
proof -
  let ?form = "print_form C now p (Some (pk_content k)) (pk_copies k)"
  obtain r db1 where r: "print_text C now p (Some (pk_content k)) (pk_copies k) db = (r, db1)" by fastforce
  have db1: "db1 = db\<lparr>db_sent := db_sent db @ [?form]\<rparr>" using r print_text_snd [of C now p "Some (pk_content k)" "pk_copies k" db] by simp
  have "\<not> granted (cl_post C (length (db_sent db)) ?form)"
    using assms(4) by (auto simp: refused_def granted_def split: cloud_answer.splits)
  then have no: "\<not> po_success r" using r print_text_success [of C now p "Some (pk_content k)" "pk_copies k" db] by simp
  obtain m where m: "po_message r = Text m" using r print_text_refused [OF assms(4)] by auto
  define k' where "k' = k\<lparr>pk_status := FailedTask, pk_retries := pk_retries k + 1, pk_error := m\<rparr>"
  define db' where "db' = db1\<lparr>db_tasks := t_save pk_id k' (db_tasks db)\<rparr>"
  have "retry_task E C now k p db = (OK 200 (False, Text m), db')"
    using assms(2,3,5) by (auto simp: retry_task_def print_service_def r no m save_task_def db'_def k'_def db1)
  moreover have "task_object rq pk db' = Some (k', p)"
    by (rule task_object_save [OF assms(1)]) (simp_all add: k'_def db'_def db1)
  ultimately show thesis using that [of "(False, Text m)" db' m] by (simp add: k'_def db'_def db1)
qed

lemma retry_granted:
  assumes "task_object rq pk db = Some (k, p)" and "pk_status k = FailedTask \<or> pk_status k = PendingTask" and "prn_brand p = Feie"
    and "granted (cl_post C (length (db_sent db)) (print_form C now p (Some (pk_content k)) (pk_copies k)))"
    and "int4_ok (pk_retries k)"
  obtains r db' where "retry_task full_env C now k p db = (OK 200 r, db')"
    "task_object rq pk db' = Some (k\<lparr>pk_status := CompletedTask, pk_printed_at := Some now, pk_error := []\<rparr>, p)"
    "db_sent db' = db_sent db @ [print_form C now p (Some (pk_content k)) (pk_copies k)]" "db_receipts db' = db_receipts db"
proof -
  let ?form = "print_form C now p (Some (pk_content k)) (pk_copies k)"
  obtain r db1 where r: "print_text C now p (Some (pk_content k)) (pk_copies k) db = (r, db1)" by fastforce
  have db1: "db1 = db\<lparr>db_sent := db_sent db @ [?form]\<rparr>" using r print_text_snd [of C now p "Some (pk_content k)" "pk_copies k" db] by simp
  have yes: "po_success r" using r assms(4) print_text_success [of C now p "Some (pk_content k)" "pk_copies k" db] by simp
  define k' where "k' = k\<lparr>pk_status := CompletedTask, pk_printed_at := Some now, pk_error := []\<rparr>"
  define db' where "db' = db1\<lparr>db_tasks := t_save pk_id k' (db_tasks db)\<rparr>"
  have "retry_task full_env C now k p db = (OK 200 (True, po_message r), db')"
    using assms(2,3,5) by (auto simp: retry_task_def print_service_def r yes full_env_def save_task_def db'_def k'_def db1)
  moreover have "task_object rq pk db' = Some (k', p)"
    by (rule task_object_save [OF assms(1)]) (simp_all add: k'_def db'_def db1)
  ultimately show thesis using that [of "(True, po_message r)" db'] by (simp add: k'_def db'_def db1)
qed

lemma retry_while_refused:
  assumes "is_shop_owner_or_staff (db_staff (db_org (db_receipts db))) rq = Inr True" and "prn_brand p = Feie"
    and "task_object rq pk db = Some (k, p)" and "pk_status k = FailedTask \<or> pk_status k = PendingTask"
    and "\<forall>j < length ts. \<forall>form. refused (cl_post C (length (db_sent db) + j) form)"
    and "0 \<le> pk_retries k" and "int4_ok (pk_retries k + int (length ts))"
  shows "\<exists>k' db'. run_requests (\<lambda>now. retry E C now rq pk) ts db = db' \<and> task_object rq pk db' = Some (k', p)
     \<and> (pk_status k' = FailedTask \<or> pk_status k' = PendingTask) \<and> pk_retries k' = pk_retries k + int (length ts)
     \<and> pk_content k' = pk_content k \<and> length (db_sent db') = length (db_sent db) + length ts \<and> db_receipts db' = db_receipts db"
  using assms(1,3-7)
proof (induction ts arbitrary: db k)
  case Nil
  then show ?case by auto
next
  case (Cons t ts)
  have "int4_ok (pk_retries k + 1)" using Cons.prems(5,6) by (auto simp: int4_ok_def)
  moreover have "refused (cl_post C (length (db_sent db)) (print_form C t p (Some (pk_content k)) (pk_copies k)))"
    using Cons.prems(4) by (metis add_0_right length_Cons zero_less_Suc)
  ultimately obtain m r db1 where s: "retry_task E C t k p db = (OK 200 r, db1)"
    "task_object rq pk db1 = Some (k\<lparr>pk_status := FailedTask, pk_retries := pk_retries k + 1, pk_error := m\<rparr>, p)"
    "db_sent db1 = db_sent db @ [print_form C t p (Some (pk_content k)) (pk_copies k)]" "db_receipts db1 = db_receipts db"
    using retry_refused [OF Cons.prems(2,3) assms(2)] by metis
  let ?k = "k\<lparr>pk_status := FailedTask, pk_retries := pk_retries k + 1, pk_error := m\<rparr>"
  have "\<forall>j < length ts. \<forall>form. refused (cl_post C (length (db_sent db1) + j) form)"
    using Cons.prems(4) by (auto simp: s(3) dest: spec [of _ "Suc _"])
  moreover have "is_shop_owner_or_staff (db_staff (db_org (db_receipts db1))) rq = Inr True" using Cons.prems(1) s(4) by simp
  moreover have "0 \<le> pk_retries ?k" "int4_ok (pk_retries ?k + int (length ts))" using Cons.prems(5,6) by (simp_all add: add_ac)
  ultimately obtain k' where "task_object rq pk (run_requests (\<lambda>now. retry E C now rq pk) ts db1) = Some (k', p)"
     "pk_status k' = FailedTask \<or> pk_status k' = PendingTask" "pk_retries k' = pk_retries ?k + int (length ts)"
     "pk_content k' = pk_content ?k" "length (db_sent (run_requests (\<lambda>now. retry E C now rq pk) ts db1)) = length (db_sent db1) + length ts"
     "db_receipts (run_requests (\<lambda>now. retry E C now rq pk) ts db1) = db_receipts db1"
    using Cons.IH [OF _ s(2)] by auto
  moreover have "snd (retry E C t rq pk db) = db1" by (simp add: retry_go [OF Cons.prems(1,2)] s(1))
  ultimately show ?case by (auto simp: s(3,4))
qed



section \<open>As deployed\<close>

text \<open>As deployed, orders are never printed on request and there are no statistics: both views stop at a name their
  module does not import, before anything is sent or stored.  And a retried job that the service confirms is
  printed and then fails on \<open>timezone\<close>, so the task stays as it was and every further retry prints it again.\<close>

theorem printing_deployed:
  "\<not> accepted (fst (print_order printing_api_env C now hex rq q db)) \<and> snd (print_order printing_api_env C now hex rq q db) = db
   \<and> \<not> accepted (fst (print_statistics printing_api_env rate now rq db))
   \<and> (is_shop_owner_or_staff (db_staff (db_org (db_receipts db))) rq = Inr True \<and> task_object rq pk db = Some (k, p)
       \<and> (pk_status k = FailedTask \<or> pk_status k = PendingTask) \<and> prn_brand p = Feie \<and> (\<forall>n form. granted (cl_post C n form)) \<longrightarrow>
       run_requests (\<lambda>now. retry printing_api_env C now rq pk) nows db
         = db\<lparr>db_sent := db_sent db @ map (\<lambda>now. print_form C now p (Some (pk_content k)) (pk_copies k)) nows\<rparr>)"
proof (intro conjI impI)
  show "\<not> accepted (fst (print_order printing_api_env C now hex rq q db))" "snd (print_order printing_api_env C now hex rq q db) = db"
    "\<not> accepted (fst (print_statistics printing_api_env rate now rq db))"
    by (auto simp: print_order_def print_staff_def staff_only_def print_order_body_def printing_api_env_def print_statistics_def Let_def
        split: sum.splits option.splits bool.splits)
next
  assume "is_shop_owner_or_staff (db_staff (db_org (db_receipts db))) rq = Inr True \<and> task_object rq pk db = Some (k, p)
       \<and> (pk_status k = FailedTask \<or> pk_status k = PendingTask) \<and> prn_brand p = Feie \<and> (\<forall>n form. granted (cl_post C n form))"
  then have a: "is_shop_owner_or_staff (db_staff (db_org (db_receipts db))) rq = Inr True" "task_object rq pk db = Some (k, p)"
    and b: "pk_status k = FailedTask \<or> pk_status k = PendingTask" "prn_brand p = Feie" "\<forall>n form. granted (cl_post C n form)" by simp_all
  show "run_requests (\<lambda>now. retry printing_api_env C now rq pk) nows db
         = db\<lparr>db_sent := db_sent db @ map (\<lambda>now. print_form C now p (Some (pk_content k)) (pk_copies k)) nows\<rparr>"
    using a
  proof (induction nows arbitrary: db)
    case (Cons t ts)
    let ?db = "db\<lparr>db_sent := db_sent db @ [print_form C t p (Some (pk_content k)) (pk_copies k)]\<rparr>"
    obtain r db1 where r: "print_text C t p (Some (pk_content k)) (pk_copies k) db = (r, db1)" by fastforce
    have db1: "db1 = ?db" using r print_text_snd [of C t p "Some (pk_content k)" "pk_copies k" db] by simp
    have "po_success r" using r b(3) print_text_success [of C t p "Some (pk_content k)" "pk_copies k" db] by simp
    then have "snd (retry printing_api_env C t rq pk db) = ?db"
      using b by (auto simp: retry_go [OF Cons.prems] retry_task_def print_service_def r printing_api_env_def db1)
    moreover have "task_object rq pk ?db = Some (k, p)" using Cons.prems(2) by (simp add: task_object_def split: option.splits)
    ultimately show ?case using Cons.IH [of ?db] Cons.prems(1) by simp
  qed simp
qed

theorem printing_deployed_witness:
  "length (db_sent (run_requests (\<lambda>now. retry printing_api_env
      (demo_cloud\<lparr>cl_post := \<lambda>n form. Answered (Some 0) Missing Missing\<rparr>) now demo_request 1) [5, 6, 7] demo_print)) = 3"
proof -
  let ?C = "demo_cloud\<lparr>cl_post := \<lambda>n form. Answered (Some 0) Missing Missing\<rparr>"
  have "(pk_status demo_task = FailedTask \<or> pk_status demo_task = PendingTask) \<and> prn_brand demo_printer = Feie
      \<and> (\<forall>n form. granted (cl_post ?C n form)) \<and> db_sent demo_print = []"
    by (simp add: demo_task_def blank_task_def demo_printer_def blank_printer_def granted_def demo_print_def)
  then show ?thesis using printing_deployed [of ?C 5 "[]" demo_request undefined demo_print undefined 1 demo_task demo_printer "[5, 6, 7]"]
      demo_print_staff demo_print_task by (simp del: run_requests_simps)
qed

end
