(* ===== verification/Print_Devices.thy ===== *)
theory Print_Devices
  imports Printing
begin

text \<open>
  The two printing services of \<open>printing/services.py\<close> that drive a device instead of the cloud, \<open>USBPrintService\<close> and
  \<open>NetworkPrintService\<close>, and the admin action \<open>test_connection\<close> of \<open>printing/admin.py\<close>.

  The device libraries are parameters: what opening the device answers, and which of its operations raise.  What a service
  did is the list of operations that the device has carried out.  Python's \<open>int\<close> of a text is written out for ASCII text.
\<close>

section \<open>\<open>int(text, base)\<close>\<close>

definition py_space :: "char \<Rightarrow> bool" where
  "py_space c \<longleftrightarrow> (of_char c :: nat) \<in> {9, 10, 11, 12, 13, 28, 29, 30, 31, 32}"

definition py_strip :: "string \<Rightarrow> string" where
  "py_strip s = rev (dropWhile py_space (rev (dropWhile py_space s)))"

definition digit_of :: "nat \<Rightarrow> char \<Rightarrow> nat option" where
  "digit_of base c =
     (let n = of_char c :: nat;
          d = (if 48 \<le> n \<and> n \<le> 57 then n - 48 else if 97 \<le> n \<and> n \<le> 122 then n - 87 else if 65 \<le> n \<and> n \<le> 90 then n - 55 else base)
      in if d < base then Some d else None)"

text \<open>An underscore may stand between two digits; \<open>after\<close> says that a digit or the prefix came last.\<close>

fun digits_value :: "nat \<Rightarrow> nat \<Rightarrow> bool \<Rightarrow> string \<Rightarrow> nat option" where
  "digits_value base acc after [] = (if after then Some acc else None)"
| "digits_value base acc after (c # cs) =
     (if c = CHR ''_'' then (if after then digits_value base acc False cs else None)
      else (case digit_of base c of None \<Rightarrow> None | Some d \<Rightarrow> digits_value base (acc * base + d) True cs))"

definition unsigned_int :: "nat \<Rightarrow> string \<Rightarrow> nat option" where
  "unsigned_int base s =
     (if base = 16 \<and> (take 2 s = ''0x'' \<or> take 2 s = ''0X'')
      then (if drop 2 s = [] then None else digits_value base 0 True (drop 2 s))
      else digits_value base 0 False s)"

definition parse_int :: "nat \<Rightarrow> string \<Rightarrow> int option" where
  "parse_int base s =
     (case py_strip s of
        [] \<Rightarrow> None
      | c # cs \<Rightarrow>
          if c = CHR ''-'' then map_option (\<lambda>n. - int n) (unsigned_int base cs)
          else if c = CHR ''+'' then map_option int (unsigned_int base cs)
          else map_option int (unsigned_int base (c # cs)))"

section \<open>USB\<close>

datatype usb_step = PrintText string | CutPaper

datatype usb_open = UsbMissing | UsbError string | UsbOpened

text \<open>Whether the module \<open>escpos\<close> can be imported, what opening a device answers, and the operation that raises, if one does.\<close>

record usb_lib =
  ub_module :: bool
  ub_open :: "int \<Rightarrow> int \<Rightarrow> int \<Rightarrow> usb_open"
  ub_raises :: "nat \<Rightarrow> string option"

datatype device_answer = Printed | BadConnection | DeviceMissing | DeviceError string

definition usb_script :: "string \<Rightarrow> nat \<Rightarrow> usb_step list" where
  "usb_script content copies =
     concat (map (\<lambda>i. PrintText content # (if i + 1 < copies then [CutPaper] else [])) [0..<copies]) @ [CutPaper]"

fun run_steps :: "(nat \<Rightarrow> string option) \<Rightarrow> nat \<Rightarrow> usb_step list \<Rightarrow> usb_step list \<times> string option" where
  "run_steps raises n [] = ([], None)"
| "run_steps raises n (x # xs) =
     (case raises n of
        Some m \<Rightarrow> ([], Some m)
      | None \<Rightarrow> (let (ys, r) = run_steps raises (n + 1) xs in (x # ys, r)))"

text \<open>\<open>vendor_id:product_id:endpoint\<close>.\<close>

definition usb_address :: "string \<Rightarrow> (int \<times> int \<times> int) option res" where
  "usb_address connection =
     (case split_on (CHR '':'') connection of
        v # p # rest \<Rightarrow>
          (case (parse_int 16 v, parse_int 16 p, (case rest of [] \<Rightarrow> Some 0 | e # _ \<Rightarrow> parse_int 10 e)) of
             (Some vendor, Some product, Some endpoint) \<Rightarrow> Inr (Some (vendor, product, endpoint))
           | _ \<Rightarrow> Inl (ValueError ''invalid literal for int()''))
      | _ \<Rightarrow> Inr None)"

text \<open>\<open>USBPrintService.print_text\<close>.  When the import fails, the name in \<open>except USBNotFoundError\<close> is itself unbound.\<close>

definition usb_print_text :: "usb_lib \<Rightarrow> printer_row \<Rightarrow> string \<Rightarrow> nat \<Rightarrow> device_answer res \<times> usb_step list" where
  "usb_print_text U p content copies =
     (if \<not> ub_module U then (Inl (NameError ''USBNotFoundError''), [])
      else (case usb_address (prn_connection p) of
              Inl e \<Rightarrow> (Inr (DeviceError ''invalid literal for int()''), [])
            | Inr None \<Rightarrow> (Inr BadConnection, [])
            | Inr (Some (v, d, e)) \<Rightarrow>
                (case ub_open U v d e of
                   UsbMissing \<Rightarrow> (Inr DeviceMissing, [])
                 | UsbError m \<Rightarrow> (Inr (DeviceError m), [])
                 | UsbOpened \<Rightarrow>
                     (case run_steps (ub_raises U) 0 (usb_script content copies) of
                        (done, None) \<Rightarrow> (Inr Printed, done)
                      | (done, Some m) \<Rightarrow> (Inr (DeviceError m), done)))))"

section \<open>Network\<close>

text \<open>\<open>socket.connect\<close> may raise; the GBK codec may refuse a text; \<open>socket.send\<close> may raise, and answers how many bytes
  it took, which can be fewer than it was given.\<close>

record net_lib =
  nl_connect :: "string \<Rightarrow> int \<Rightarrow> string option"
  nl_gbk :: "string \<Rightarrow> string option"
  nl_send :: "nat \<Rightarrow> string \<Rightarrow> string + nat"

fun send_copies :: "net_lib \<Rightarrow> string \<Rightarrow> nat \<Rightarrow> nat \<Rightarrow> string option \<times> string" where
  "send_copies N content i 0 = (None, [])"
| "send_copies N content i (Suc k) =
     (case nl_gbk N content of
        None \<Rightarrow> (Some ''gbk'', [])
      | Some bytes \<Rightarrow>
          (case nl_send N i bytes of
             Inl m \<Rightarrow> (Some m, [])
           | Inr n \<Rightarrow> (let (r, sent) = send_copies N content (i + 1) k in (r, take n bytes @ sent))))"

text \<open>\<open>NetworkPrintService.print_text\<close>: the answer, and the bytes that left.\<close>

definition net_print_text :: "net_lib \<Rightarrow> printer_row \<Rightarrow> string \<Rightarrow> nat \<Rightarrow> device_answer \<times> string" where
  "net_print_text N p content copies =
     (case nl_connect N (prn_ip p) (prn_port p) of
        Some m \<Rightarrow> (DeviceError m, [])
      | None \<Rightarrow>
          (case send_copies N content 0 copies of
             (None, sent) \<Rightarrow> (Printed, sent)
           | (Some m, sent) \<Rightarrow> (DeviceError m, sent)))"

section \<open>The admin action\<close>

text \<open>\<open>PrinterAdmin.test_connection\<close>: one message per printer; a brand without a service ends the action with the exception.\<close>

fun test_connection ::
  "cloud \<Rightarrow> int \<Rightarrow> printer_row list \<Rightarrow> print_db \<Rightarrow> (string \<times> bool \<times> json_text) list res \<times> print_db" where
  "test_connection C now [] db = (Inr [], db)"
| "test_connection C now (p # ps) db =
     (case print_service p of
        Inl e \<Rightarrow> (Inl e, db)
      | Inr _ \<Rightarrow>
          let (r, db1) = get_printer_status C now p db; (ms, db2) = test_connection C now ps db1
          in (case ms of Inl e \<Rightarrow> (Inl e, db2) | Inr xs \<Rightarrow> (Inr ((prn_name p, fst r \<noteq> None, snd r) # xs), db2)))"

section \<open>Lemmas\<close>

lemma run_steps_prefix: "run_steps raises n xs = (ys, r) \<Longrightarrow> \<exists>zs. xs = ys @ zs \<and> (r = None \<longleftrightarrow> zs = [])"
  by (induction xs arbitrary: n ys r) (auto split: option.splits prod.splits)

lemma run_steps_all: "(\<And>k. raises k = None) \<Longrightarrow> run_steps raises n xs = (xs, None)"
  by (induction xs arbitrary: n) simp_all

lemma usb_script_texts:
  "filter (\<lambda>x. x \<noteq> CutPaper) (usb_script content copies) = replicate copies (PrintText content)"
proof -
  have "filter (\<lambda>x. x \<noteq> CutPaper) (concat (map (\<lambda>i. PrintText content # (if i + 1 < k then [CutPaper] else [])) xs))
      = replicate (length xs) (PrintText content)" for k and xs :: "nat list"
    by (induction xs) auto
  then show ?thesis by (simp add: usb_script_def)
qed

lemma usb_script_cuts: "length (filter (\<lambda>x. x = CutPaper) (usb_script content copies)) = max 1 copies"
proof -
  have "length (filter (\<lambda>x. x = CutPaper) (concat (map (\<lambda>i. PrintText content # (if i + 1 < k then [CutPaper] else [])) xs)))
      = length (filter (\<lambda>i. i + 1 < k) xs)" for k and xs :: "nat list"
    by (induction xs) auto
  moreover have "filter (\<lambda>i. i + 1 < copies) [0..<copies] = [0..<copies - 1]"
    by (cases copies) (auto simp: filter_eq_Cons_iff intro!: filter_True)
  ultimately show ?thesis by (simp add: usb_script_def)
qed

text \<open>Reading digits: the value is that of the digits, and writing a number and reading it gives the number.\<close>

lemma digits_value_foldl:
  assumes "\<And>c. c \<in> set ds \<Longrightarrow> c \<noteq> CHR ''_'' \<and> digit_of base c \<noteq> None" and "ds \<noteq> [] \<or> after"
  shows "digits_value base acc after ds = Some (foldl (\<lambda>a c. a * base + the (digit_of base c)) acc ds)"
  using assms by (induction ds arbitrary: acc after) (auto split: option.splits)

definition digit_char :: "nat \<Rightarrow> char" where
  "digit_char d = char_of (if d < 10 then 48 + d else 87 + d)"

function hex_of :: "nat \<Rightarrow> string" where
  "hex_of n = (if n < 16 then [digit_char n] else hex_of (n div 16) @ [digit_char (n mod 16)])"
  by pat_completeness auto
termination
  by (relation "measure id") auto

declare hex_of.simps [simp del]

lemma digit_char_cases:
  assumes "d < 16"
  shows "digit_of 16 (digit_char d) = Some d" and "d < 10 \<Longrightarrow> digit_of 10 (digit_char d) = Some d"
    and "digit_char d \<notin> set ''_-+:xX''" and "\<not> py_space (digit_char d)"
proof -
  have v: "(of_char (digit_char d) :: nat) = (if d < 10 then 48 + d else 87 + d)"
    using assms by (simp add: digit_char_def)
  show "digit_of 16 (digit_char d) = Some d" and "d < 10 \<Longrightarrow> digit_of 10 (digit_char d) = Some d"
    using assms by (auto simp: digit_of_def Let_def v)
  show "\<not> py_space (digit_char d)" using assms by (auto simp: py_space_def v)
  show "digit_char d \<notin> set ''_-+:xX''"
  proof
    assume "digit_char d \<in> set ''_-+:xX''"
    then have "(of_char (digit_char d) :: nat) \<in> of_char ` set ''_-+:xX''" by (rule imageI)
    then have "(of_char (digit_char d) :: nat) \<in> {95, 45, 43, 58, 120, 88}" by simp
    then show False using assms by (auto simp: v split: if_splits)
  qed
qed

lemma hex_of_digits: "hex_of n \<noteq> [] \<and> set (hex_of n) \<subseteq> digit_char ` {..<16}"
proof (induction n rule: hex_of.induct)
  case (1 n)
  show ?case
  proof (cases "n < 16")
    case True
    then show ?thesis by (subst (1 2) hex_of.simps) simp
  next
    case False
    then have "hex_of n = hex_of (n div 16) @ [digit_char (n mod 16)]" by (subst hex_of.simps) simp
    with 1 [OF False] show ?thesis by simp
  qed
qed

lemma hex_of_value: "foldl (\<lambda>a c. a * 16 + the (digit_of 16 c)) 0 (hex_of n) = n"
  by (induction n rule: hex_of.induct) (subst hex_of.simps, simp add: digit_char_cases)

lemma py_strip_none:
  assumes "\<And>c. c \<in> set s \<Longrightarrow> \<not> py_space c"
  shows "py_strip s = s"
proof -
  have d: "dropWhile py_space xs = xs" if "\<And>c. c \<in> set xs \<Longrightarrow> \<not> py_space c" for xs
    using that by (cases xs) auto
  have "dropWhile py_space s = s" "dropWhile py_space (rev s) = rev s" by (rule d; use assms in simp)+
  then show ?thesis by (simp add: py_strip_def)
qed

lemma parse_hex: "parse_int 16 (hex_of n) = Some (int n)"
proof -
  have d: "c \<notin> set ''_-+:xX'' \<and> \<not> py_space c \<and> digit_of 16 c \<noteq> None" if "c \<in> set (hex_of n)" for c
  proof -
    have "c \<in> digit_char ` {..<16}" using that hex_of_digits [of n] by blast
    then obtain k where "k < 16" "c = digit_char k" by auto
    then show ?thesis using digit_char_cases [of k] by simp
  qed
  obtain c cs where h: "hex_of n = c # cs" using hex_of_digits [of n] by (cases "hex_of n") auto
  have strip: "py_strip (hex_of n) = c # cs" using py_strip_none [of "hex_of n"] d h by simp
  have pre: "\<not> (take 2 (hex_of n) = ''0x'' \<or> take 2 (hex_of n) = ''0X'')"
  proof
    assume "take 2 (hex_of n) = ''0x'' \<or> take 2 (hex_of n) = ''0X''"
    then have "set (take 2 (hex_of n)) \<inter> set ''xX'' \<noteq> {}" by auto
    then show False using d set_take_subset [of 2 "hex_of n"] by fastforce
  qed
  have "digits_value 16 0 False (hex_of n) = Some n"
    using digits_value_foldl [of "hex_of n" 16 False 0] d hex_of_digits [of n] hex_of_value [of n] by simp
  then have "unsigned_int 16 (hex_of n) = Some n" using pre by (simp add: unsigned_int_def)
  moreover have "c \<noteq> CHR ''-'' \<and> c \<noteq> CHR ''+''" using d [of c] h by simp
  ultimately show ?thesis by (simp add: parse_int_def strip h strip [unfolded h])
qed

lemma hex_no_colon: "CHR '':'' \<notin> set (hex_of n)"
  using hex_of_digits [of n] digit_char_cases(3) by fastforce

section \<open>Properties\<close>

text \<open>The address of a USB printer reads back: a connection written as vendor and product in hexadecimal names exactly that
  device, with endpoint 0.\<close>

theorem usb_address_roundtrip:
  "usb_address (hex_of v @ '':'' @ hex_of p) = Inr (Some (int v, int p, 0))"
  using split_on_append [OF hex_no_colon, of v "hex_of p"] split_on_plain [OF hex_no_colon, of p]
  by (simp add: usb_address_def parse_hex)

text \<open>A USB job: what the device has done is always the beginning of the script for the copies, all of it exactly when the job is
  reported as printed; then every copy was printed, the copies are cut apart and the last is cut off.\<close>

theorem usb_job:
  assumes "usb_print_text U p content copies = (r, done)"
  shows "(\<exists>rest. done @ rest = usb_script content copies)
    \<and> (r = Inr Printed \<longrightarrow> filter (\<lambda>x. x \<noteq> CutPaper) done = replicate copies (PrintText content)
         \<and> length (filter (\<lambda>x. x = CutPaper) done) = max 1 copies \<and> last done = CutPaper)"
proof -
  have "(\<exists>rest. done @ rest = usb_script content copies) \<and> (r = Inr Printed \<longrightarrow> done = usb_script content copies)"
    using assms by (auto simp: usb_print_text_def split: if_splits sum.splits option.splits prod.splits usb_open.splits
      dest!: run_steps_prefix)
  moreover have "last (usb_script content copies) = CutPaper" by (simp add: usb_script_def)
  ultimately show ?thesis using usb_script_texts usb_script_cuts by metis
qed

theorem usb_job_witness:
  "let U = \<lparr>ub_module = True, ub_open = (\<lambda>_ _ _. UsbOpened), ub_raises = (\<lambda>_. None)\<rparr>;
       done = snd (usb_print_text U ((blank_printer 3)\<lparr>prn_connection := ''04b8:0e15''\<rparr>) ''tea'' 2)
   in filter (\<lambda>x. x \<noteq> CutPaper) done = [PrintText ''tea'', PrintText ''tea''] \<and> last done = CutPaper"
proof -
  let ?U = "\<lparr>ub_module = True, ub_open = (\<lambda>_ _ _. UsbOpened), ub_raises = (\<lambda>_. None)\<rparr>"
  let ?p = "(blank_printer 3)\<lparr>prn_connection := ''04b8:0e15''\<rparr>"
  have a: "usb_address ''04b8:0e15'' = Inr (Some (0x4b8, 0xe15, 0))" by code_simp
  have run: "usb_print_text ?U ?p ''tea'' 2 = (Inr Printed, usb_script ''tea'' 2)"
    by (simp add: usb_print_text_def a run_steps_all)
  from usb_job [OF run] show ?thesis unfolding Let_def run snd_conv by (simp add: numeral_2_eq_2)
qed

text \<open>A network job reports success without looking at what was taken: when the socket takes every text whole, the copies leave one
  after the other; when it takes only a part, the rest is lost and the job is still reported as printed.\<close>

theorem network_job:
  assumes "nl_connect N (prn_ip p) (prn_port p) = None" and "nl_gbk N content = Some bytes"
    and "\<And>k. nl_send N k bytes = Inr (took k)"
  shows "net_print_text N p content copies = (Printed, concat (map (\<lambda>k. take (took k) bytes) [0..<copies]))"
proof -
  have "send_copies N content i k = (None, concat (map (\<lambda>j. take (took j) bytes) [i..<i + k]))" for i k
  proof (induction k arbitrary: i)
    case (Suc k)
    have "[i..<i + Suc k] = i # [Suc i..<Suc i + k]" by (simp add: upt_conv_Cons)
    with Suc [of "Suc i"] show ?case by (simp add: assms(2,3))
  qed simp
  from this [of 0 copies] show ?thesis by (simp add: net_print_text_def assms(1))
qed

theorem network_job_witness:
  "net_print_text \<lparr>nl_connect = (\<lambda>_ _. None), nl_gbk = Some, nl_send = (\<lambda>k s. Inr 2)\<rparr> (blank_printer 3) ''tea'' 2
     = (Printed, ''tete'')"
  by (subst network_job [where bytes = "''tea''" and took = "\<lambda>_. 2"]) (simp_all add: numeral_2_eq_2)

end
