(* ===== verification/Setup.thy ===== *)
theory Setup
  imports Accounts Shops Texts
begin

text \<open>
  Installing the system: the scripts \<open>create_tenant.py\<close>, \<open>create_first_tenant.py\<close>, \<open>create_superuser.py\<close> and
  \<open>create_tenant_admin.py\<close>, with the domain rows of \<open>apps/shops/models.py\<close>, and the QR codes of the tables.

  A script runs to its end or to the first exception, outside any transaction: what it wrote stays.  What it prints
  is not part of the state.  Creating the schema of a tenant is the package \<open>django_tenants\<close>.
\<close>

section \<open>State\<close>

record domain_row =
  dm_id :: int
  dm_domain :: string
  dm_tenant :: int
  dm_primary :: bool

record install_db =
  in_shops :: shops_db
  in_hash :: "int \<Rightarrow> string option"
  in_domains :: "domain_row tbl"

definition accounts_of :: "install_db \<Rightarrow> auth_db" where
  "accounts_of db = \<lparr>au_users = db_members (in_shops db), au_hash = in_hash db\<rparr>"

definition put_accounts :: "auth_db \<Rightarrow> install_db \<Rightarrow> install_db" where
  "put_accounts a db = db\<lparr>in_shops := (in_shops db)\<lparr>db_members := au_users a\<rparr>, in_hash := au_hash a\<rparr>"

section \<open>\<open>create_tenant.py\<close> and \<open>create_first_tenant.py\<close>\<close>

definition script_shop :: "int \<Rightarrow> shop_row" where
  "script_shop i = \<lparr>s_id = i, s_schema = ''demo-shop'',
     s_name = u8 [230, 188, 148, 231, 164, 186, 229, 186, 151, 233, 147, 186],
     s_description = u8 [232, 191, 153, 230, 152, 175, 228, 184, 128, 228, 184, 170, 230, 188, 148, 231, 164, 186, 229, 186,
       151, 233, 147, 186],
     s_address = u8 [229, 140, 151, 228, 186, 172, 229, 184, 130, 230, 156, 157, 233, 152, 179, 229, 140, 186, 230, 159, 144,
       230, 159, 144, 232, 161, 151, 233, 129, 147, 32, 49, 50, 51, 32, 229, 143, 183],
     s_phone = ''13800138000'', s_email = ''demo@example.com'', s_type = Cafe, s_active = True, s_delivery = True,
     s_pickup = True, s_dine_in = True, s_delivery_fee = 0, s_minimum_order = 0, s_radius = 5, s_payment_methods = []\<rparr>"

definition create_tenant :: "install_db \<Rightarrow> (shop_row \<times> domain_row) res \<times> install_db" where
  "create_tenant db =
     (if qs_exists (\<lambda>s. s_schema s = ''demo-shop'') (db_shops (in_shops db)) then (Inl (IntegrityError ''schema_name''), db)
      else
        let (shop, ts) = t_add script_shop (db_shops (in_shops db));
            db1 = db\<lparr>in_shops := (in_shops db)\<lparr>db_shops := ts\<rparr>\<rparr>
        in if qs_exists (\<lambda>d. dm_domain d = ''demo.localhost'') (in_domains db1) then (Inl (IntegrityError ''domain''), db1)
           else let (d, td) = t_add (\<lambda>i. \<lparr>dm_id = i, dm_domain = ''demo.localhost'', dm_tenant = s_id shop, dm_primary = True\<rparr>)
                    (in_domains db1)
                in (Inr (shop, d), db1\<lparr>in_domains := td\<rparr>))"

section \<open>\<open>create_superuser.py\<close>\<close>

text \<open>\<open>create_superuser(...)\<close> is \<open>create_user(...)\<close> with the two flags.  The script catches every exception.\<close>

definition superuser_row :: "auth_lib \<Rightarrow> user_row" where
  "superuser_row lib = (new_user lib \<lparr>rg_username = ''admin'', rg_password = ''admin123456'', rg_password2 = ''admin123456'',
       rg_email = ''admin@example.com'', rg_phone = None, rg_user_type = Some SuperAdmin\<rparr>)
     \<lparr>u_superuser := True, u_is_staff := True\<rparr>"

definition create_superuser :: "auth_lib \<Rightarrow> pw_lib \<Rightarrow> nat \<Rightarrow> string \<Rightarrow> install_db \<Rightarrow> bool \<times> install_db" where
  "create_superuser lib P rnd salt db =
     (case save_with_password lib rnd (superuser_row lib) (lib_pw_make P salt ''admin123456'') (accounts_of db) of
        (Inl e, a) \<Rightarrow> (False, put_accounts a db)
      | (Inr u, a) \<Rightarrow> (True, put_accounts a db))"

section \<open>\<open>create_tenant_admin.py\<close>\<close>

definition tenant_admin_row :: "auth_lib \<Rightarrow> user_row" where
  "tenant_admin_row lib = new_user lib \<lparr>rg_username = ''shop_admin'', rg_password = ''admin123'', rg_password2 = ''admin123'',
     rg_email = ''shop_admin@example.com'', rg_phone = None, rg_user_type = Some ShopOwnerType\<rparr>"

definition tenant_admin_permissions :: "(string \<times> bool) list" where
  "tenant_admin_permissions =
     [(''product_manage'', True), (''order_manage'', True), (''staff_manage'', True), (''settings_manage'', True)]"

text \<open>The account: an existing one is taken as it is, a missing one created; then the password is set in either case.\<close>

definition admin_account ::
  "auth_lib \<Rightarrow> pw_lib \<Rightarrow> nat \<Rightarrow> string \<Rightarrow> string \<Rightarrow> auth_db \<Rightarrow> user_row res \<times> auth_db" where
  "admin_account lib P rnd salt1 salt2 a =
     (let found = (case qs_get ''User'' (\<lambda>u. u_username u = ''shop_admin'') (au_users a) of
                     Inl (DoesNotExist m) \<Rightarrow>
                       save_with_password lib rnd (tenant_admin_row lib) (lib_pw_make P salt1 ''admin123'') a
                   | r \<Rightarrow> (r, a))
      in case found of
           (Inl e, a1) \<Rightarrow> (Inl e, a1)
         | (Inr u, a1) \<Rightarrow> save_with_password lib rnd u (lib_pw_make P salt2 ''admin123'') a1)"

text \<open>\<open>get_or_create\<close>, and the update of a row that was there.\<close>

definition admin_staff_row :: "int \<Rightarrow> int \<Rightarrow> staff_row tbl \<Rightarrow> (staff_row \<times> staff_row tbl) res" where
  "admin_staff_row uid shop t =
     (case qs_get ''ShopStaff'' (\<lambda>st. st_user st = uid \<and> st_shop st = shop) t of
        Inl (DoesNotExist m) \<Rightarrow>
          Inr (t_add (\<lambda>i. \<lparr>st_id = i, st_user = uid, st_shop = shop, st_role = Owner, st_active = True,
                         st_perms = tenant_admin_permissions\<rparr>) t)
      | Inl e \<Rightarrow> Inl e
      | Inr st \<Rightarrow>
          (let st1 = st\<lparr>st_role := Owner, st_active := True, st_perms := tenant_admin_permissions\<rparr>
           in Inr (st1, t_save st_id st1 t)))"

definition create_tenant_admin ::
  "auth_lib \<Rightarrow> pw_lib \<Rightarrow> nat \<Rightarrow> string \<Rightarrow> string \<Rightarrow> install_db \<Rightarrow> staff_row res \<times> install_db" where
  "create_tenant_admin lib P rnd salt1 salt2 db =
     (case rows (db_shops (in_shops db)) of
        [] \<Rightarrow> (Inl (DoesNotExist ''Shop''), db)
      | shop # _ \<Rightarrow>
          (case admin_account lib P rnd salt1 salt2 (accounts_of db) of
             (Inl e, a) \<Rightarrow> (Inl e, put_accounts a db)
           | (Inr u, a) \<Rightarrow>
               let db1 = put_accounts a db in
               (case admin_staff_row (u_id u) (s_id shop) (db_staff (in_shops db1)) of
                  Inl e \<Rightarrow> (Inl e, db1)
                | Inr (st, t) \<Rightarrow> (Inr st, db1\<lparr>in_shops := (in_shops db1)\<lparr>db_staff := t\<rparr>\<rparr>))))"

text \<open>\<open>AdminSite.has_permission\<close>, the door of \<open>/admin/\<close>, as Django documents it.\<close>

definition admin_site_entry :: "user_row \<Rightarrow> bool" where
  "admin_site_entry u \<longleftrightarrow> u_active u \<and> u_is_staff u"

section \<open>QR codes of tables\<close>

text \<open>\<open>Table.generate_qr_code\<close>: the address in the code and the name of the file; the image is the package \<open>qrcode\<close>.\<close>

definition qr_content :: "string \<Rightarrow> table_row \<Rightarrow> string" where
  "qr_content frontend tb = frontend @ ''/menu/?shop='' @ dec_int (tb_shop tb) @ ''&table='' @ dec_int (tb_id tb)"

definition qr_file_name :: "table_row \<Rightarrow> string" where
  "qr_file_name tb = ''table_'' @ dec_int (tb_id tb) @ ''_qr.png''"

text \<open>The admin action over the chosen tables.\<close>

definition generate_qr_codes :: "string \<Rightarrow> table_row list \<Rightarrow> (int \<times> string \<times> string) list" where
  "generate_qr_codes frontend tbs = map (\<lambda>tb. (tb_id tb, qr_file_name tb, qr_content frontend tb)) tbs"

section \<open>Lemmas\<close>

lemma accounts_of_put [simp]: "accounts_of (put_accounts a db) = a"
  by (simp add: accounts_of_def put_accounts_def)

lemma put_accounts_same [simp]: "put_accounts (accounts_of db) db = db"
  by (simp add: accounts_of_def put_accounts_def)

lemma put_accounts_keeps [simp]:
  "db_staff (in_shops (put_accounts a db)) = db_staff (in_shops db)"
  "db_shops (in_shops (put_accounts a db)) = db_shops (in_shops db)"
  "db_settings (in_shops (put_accounts a db)) = db_settings (in_shops db)"
  by (simp_all add: put_accounts_def)

lemma save_with_password_user:
  "save_with_password lib rnd u h db = (Inr u', db') \<Longrightarrow> user_save lib rnd u (au_users db) = (Inr u', au_users db')"
  by (auto simp: save_with_password_def split: prod.splits)

lemma save_with_password_flags:
  assumes "save_with_password lib rnd u h db = (Inr u', db')"
  shows "u_is_staff u' = u_is_staff u" and "u_superuser u' = u_superuser u" and "u_type u' = u_type u"
  using user_save_InrD [OF save_with_password_user [OF assms]] by simp_all

text \<open>A save of a stored user, or of a new one, keeps the accounts well formed and puts the row into the table.\<close>

lemma save_with_password_wf:
  assumes "save_with_password lib rnd u h db = (Inr u', db')" and "auth_wf db" and "u_id u = 0 \<or> u \<in> set (rows (au_users db))"
  shows "auth_wf db'" and "u' \<in> set (rows (au_users db'))" and "u_username u' = u_username u" and "u_active u' = u_active u"
    and "u \<in> set (rows (au_users db)) \<Longrightarrow> u_id u' = u_id u"
proof -
  have "savable u (au_users db)"
    using assms(2,3) t_wf_find_unique [of u_id "au_users db" u] by (auto simp: savable_def auth_wf_def)
  note S = save_with_passwordE [OF assms(1,2) this]
  show "auth_wf db'" "u_username u' = u_username u" "u_active u' = u_active u" by (fact S)+
  show "u' \<in> set (rows (au_users db'))" using S(2) by simp
  show "u_id u' = u_id u" if "u \<in> set (rows (au_users db))"
    using that S(4) assms(2) by (auto simp: auth_wf_def t_wf_def)
qed

text \<open>The account of the tenant administrator: who it is, what opens it, and that it stays outside the admin site.\<close>

definition existing_admin :: "user_row \<Rightarrow> auth_db \<Rightarrow> bool" where
  "existing_admin u a \<longleftrightarrow> u \<in> set (rows (au_users a)) \<and> u_username u = ''shop_admin''"

lemma admin_account_Inr:
  assumes run: "admin_account lib P rnd salt1 salt2 a = (Inr u, a')" and wf: "auth_wf a" and P: "hash_contract P"
    and norm: "lib_norm_username lib ''shop_admin'' = ''shop_admin''"
  shows "auth_wf a'" and "existing_admin u a'"
    and "account_of P a' ''shop_admin'' p v \<longleftrightarrow> v = u \<and> u_active u \<and> p = ''admin123''"
    and "(\<exists>x. existing_admin x a \<and> u_id u = u_id x \<and> u_active u = u_active x \<and> u_is_staff u = u_is_staff x)
       \<or> (\<forall>x. \<not> existing_admin x a) \<and> u_active u \<and> \<not> u_is_staff u \<and> \<not> u_superuser u"
proof -
  let ?P = "\<lambda>x. u_username x = ''shop_admin''"
  obtain x a1 where sv: "save_with_password lib rnd x (lib_pw_make P salt2 ''admin123'') a1 = (Inr u, a')"
    and x: "auth_wf a1" "existing_admin x a1"
    and how: "existing_admin x a \<or> (\<forall>y. \<not> existing_admin y a) \<and> u_active x \<and> \<not> u_is_staff x \<and> \<not> u_superuser x"
  proof (cases "qs_get ''User'' ?P (au_users a)")
    case (Inr y)
    then have "save_with_password lib rnd y (lib_pw_make P salt2 ''admin123'') a = (Inr u, a')"
      using run by (simp add: admin_account_def)
    then show thesis by (rule that [OF _ wf]) (use qs_get_InrD [OF Inr] in \<open>auto simp: existing_admin_def\<close>)
  next
    case (Inl e)
    then obtain m where e: "e = DoesNotExist m" using run by (cases e) (auto simp: admin_account_def)
    then have "m = ''User''" using Inl by (auto simp: qs_get_def split: list.splits)
    with e Inl have none: "\<forall>y. \<not> existing_admin y a"
      by (auto simp: qs_get_DoesNotExist existing_admin_def)
    obtain y a1 where new: "save_with_password lib rnd (tenant_admin_row lib) (lib_pw_make P salt1 ''admin123'') a = (Inr y, a1)"
      and sv: "save_with_password lib rnd y (lib_pw_make P salt2 ''admin123'') a1 = (Inr u, a')"
      using run Inl e by (auto simp: admin_account_def split: sum.splits prod.splits)
    have r: "u_id (tenant_admin_row lib) = 0" "u_username (tenant_admin_row lib) = ''shop_admin''" "u_active (tenant_admin_row lib)"
      "\<not> u_is_staff (tenant_admin_row lib)" "\<not> u_superuser (tenant_admin_row lib)"
      using norm by (simp_all add: tenant_admin_row_def new_user_def)
    then have "u_id (tenant_admin_row lib) = 0 \<or> tenant_admin_row lib \<in> set (rows (au_users a))" by simp
    note N = save_with_password_wf [OF new wf this] save_with_password_flags [OF new]
    have y: "existing_admin y a1" using N(2,3) r(2) by (simp add: existing_admin_def)
    have "(\<forall>y. \<not> existing_admin y a) \<and> u_active y \<and> \<not> u_is_staff y \<and> \<not> u_superuser y" using none N(4,6,7) r(3-5) by simp
    then show thesis by (intro that [OF sv N(1) y] disjI2)
  qed
  have id: "u_id x = 0 \<or> x \<in> set (rows (au_users a1))" using x(2) by (simp add: existing_admin_def)
  note S = save_with_password_wf [OF sv x(1) id] save_with_password_flags [OF sv]
  show "auth_wf a'" by (rule S(1))
  show "existing_admin u a'" using S(2,3) x(2) by (simp add: existing_admin_def)
  have "u_username x = ''shop_admin''" using x(2) by (simp add: existing_admin_def)
  then show "account_of P a' ''shop_admin'' p v \<longleftrightarrow> v = u \<and> u_active u \<and> p = ''admin123''"
    using account_of_saved [OF sv x(1) id P] S(4) by simp
  show "(\<exists>x. existing_admin x a \<and> u_id u = u_id x \<and> u_active u = u_active x \<and> u_is_staff u = u_is_staff x)
       \<or> (\<forall>x. \<not> existing_admin x a) \<and> u_active u \<and> \<not> u_is_staff u \<and> \<not> u_superuser u"
  proof (cases "existing_admin x a")
    case True
    have "x \<in> set (rows (au_users a1))" using x(2) by (simp add: existing_admin_def)
    then show ?thesis using True S(4-7) by auto
  qed (use how S(4,6,7) in auto)
qed

lemma t_save_same:
  assumes "t_wf pk t" and "r \<in> set (rows t)"
  shows "t_save pk r t = t"
proof -
  have f: "t_find pk (pk r) t = Some r" by (rule t_wf_find_unique [OF assms])
  have "x = r" if "x \<in> set (rows t)" "pk x = pk r" for x
    using that f find_iff_mem [OF assms(1), of "pk r" x] by simp
  then have "map (\<lambda>x. if pk x = pk r then r else x) (rows t) = rows t" by (intro map_idI) auto
  with f show ?thesis by (simp add: t_save_def t_upd_def)
qed

text \<open>The staff row: afterwards the user is the owner of the shop, and a second call finds the row as it is.\<close>

lemma admin_staff_row_Inr:
  assumes run: "admin_staff_row uid shop t = Inr (st, t')" and wf: "t_wf st_id t" and u: "staff_unique t"
  shows "t_wf st_id t'" and "staff_unique t'" and "st \<in> set (rows t')"
    and "st_user st = uid \<and> st_shop st = shop \<and> st_role st = Owner \<and> st_active st"
    and "admin_staff_row uid shop t' = Inr (st, t')"
proof -
  let ?P = "\<lambda>st. st_user st = uid \<and> st_shop st = shop"
  let ?key = "\<lambda>st. (st_user st, st_shop st)"
  have core: "t_wf st_id t' \<and> staff_unique t' \<and> st \<in> set (rows t')
    \<and> st_user st = uid \<and> st_shop st = shop \<and> st_role st = Owner \<and> st_active st \<and> st_perms st = tenant_admin_permissions"
  proof (cases "qs_get ''ShopStaff'' ?P t")
    case (Inr s)
    let ?s = "s\<lparr>st_role := Owner, st_active := True, st_perms := tenant_admin_permissions\<rparr>"
    have s: "s \<in> set (rows t)" "?P s" using qs_get_InrD [OF Inr] by blast+
    have eq: "st = ?s" "t' = t_save st_id ?s t" using run Inr by (auto simp: admin_staff_row_def Let_def)
    have f: "t_find st_id (st_id ?s) t \<noteq> None" using t_wf_find_unique [OF wf s(1)] by simp
    note wf' = t_wf_t_save [OF wf f] and rows = set_rows_t_save [OF wf f]
    have "unique_on ?key (t_save st_id ?s t)"
    proof (rule unique_on_rewrite [OF wf _ wf' rows])
      show "unique_on ?key t" using u by (simp add: staff_unique_def)
      show "?key x \<noteq> ?key ?s" if "x \<in> set (rows t)" "st_id x \<noteq> st_id ?s" for x
        using that u [unfolded staff_unique_def unique_on_iff [OF wf], rule_format, OF that(1) s(1)] by auto
    qed
    then show ?thesis using wf' rows s(2) by (simp add: eq staff_unique_def)
  next
    case (Inl e)
    then obtain m where e: "e = DoesNotExist m" using run by (cases e) (auto simp: admin_staff_row_def)
    then have "m = ''ShopStaff''" using Inl by (auto simp: qs_get_def split: list.splits)
    with e Inl have none: "\<forall>x \<in> set (rows t). \<not> ?P x" by (auto simp: qs_get_DoesNotExist)
    let ?f = "\<lambda>i. \<lparr>st_id = i, st_user = uid, st_shop = shop, st_role = Owner, st_active = True,
                         st_perms = tenant_admin_permissions\<rparr>"
    have eq: "st = fst (t_add ?f t)" "t' = snd (t_add ?f t)" using run Inl e by (auto simp: admin_staff_row_def)
    have "t_wf st_id (snd (t_add ?f t))" by (rule t_wf_t_add) (use wf in auto)
    moreover have "staff_unique (snd (t_add ?f t))"
      using u none by (auto simp: staff_unique_def unique_on_def t_add_def)
    ultimately show ?thesis by (simp add: eq t_add_def)
  qed
  then show "t_wf st_id t'" "staff_unique t'" "st \<in> set (rows t')"
    "st_user st = uid \<and> st_shop st = shop \<and> st_role st = Owner \<and> st_active st" by blast+
  have "qs_get ''ShopStaff'' ?P t' = Inr st"
    by (rule qs_get_unique [of ?key]) (use core in \<open>auto simp: staff_unique_def\<close>)
  moreover have "t_save st_id st t' = t'" by (rule t_save_same) (use core in blast)+
  moreover have "st\<lparr>st_role := Owner, st_active := True, st_perms := tenant_admin_permissions\<rparr> = st" using core by simp
  ultimately show "admin_staff_row uid shop t' = Inr (st, t')" by (simp add: admin_staff_row_def)
qed

text \<open>The name and password of the super administrator.\<close>

lemma create_superuser_True:
  assumes "create_superuser lib P rnd salt db = (True, db')"
  obtains u a where "save_with_password lib rnd (superuser_row lib) (lib_pw_make P salt ''admin123456'') (accounts_of db) = (Inr u, a)"
    and "db' = put_accounts a db"
  using assms by (auto simp: create_superuser_def split: prod.splits sum.splits)

lemma superuser_name_taken:
  assumes "u \<in> set (rows (db_members (in_shops db)))" and "u_username u = u_username (superuser_row lib)" and "u_id u \<noteq> 0"
  shows "create_superuser lib P rnd salt db = (False, db)"
proof -
  have "u_id (superuser_row lib) = 0" by (simp add: superuser_row_def new_user_def)
  then have "user_conflict (superuser_row lib) (db_members (in_shops db))"
    using assms by (auto simp: user_conflict_def list_ex_iff)
  then have "\<exists>e. store_user (superuser_row lib) (au_users (accounts_of db)) = Inl e"
    by (auto simp: store_user_def accounts_of_def)
  then obtain e where e: "store_user (superuser_row lib) (au_users (accounts_of db)) = Inl e" ..
  then have "save_with_password lib rnd (superuser_row lib) (lib_pw_make P salt ''admin123456'') (accounts_of db) = (Inl e, accounts_of db)"
    by (simp add: save_with_password_def user_save_def)
  then show ?thesis by (simp add: create_superuser_def)
qed

definition fresh_install :: install_db where
  "fresh_install = \<lparr>in_shops = \<lparr>db_shops = empty_tbl, db_staff = empty_tbl, db_settings = empty_tbl, db_tables = empty_tbl,
     db_members = empty_tbl\<rparr>, in_hash = Map.empty, in_domains = empty_tbl\<rparr>"

definition install_wf :: "install_db \<Rightarrow> bool" where
  "install_wf db \<longleftrightarrow> auth_wf (accounts_of db) \<and> t_wf st_id (db_staff (in_shops db)) \<and> staff_unique (db_staff (in_shops db))
     \<and> t_wf s_id (db_shops (in_shops db))
     \<and> (\<forall>st \<in> set (rows (db_staff (in_shops db))). st_shop st \<in> ids_of s_id (db_shops (in_shops db)))
     \<and> (\<forall>x \<in> set (rows (db_settings (in_shops db))). ss_shop x \<in> ids_of s_id (db_shops (in_shops db)))"

lemma fresh_install_wf: "install_wf fresh_install"
  by (simp add: install_wf_def fresh_install_def accounts_of_def auth_wf_def t_wf_def unique_on_def staff_unique_def empty_tbl_def)

text \<open>Decimal numbers: what characters they have, and that they determine the number.\<close>

lemma minus_not_in_dec_of: "CHR ''-'' \<notin> set (dec_of n)"
  by (rule not_in_dec_of) (rule digit_not, simp_all)

lemma amp_not_in_dec_int: "CHR ''&'' \<notin> set (dec_int i)"
proof -
  have "CHR ''&'' \<notin> set (dec_of n)" for n by (rule not_in_dec_of) (rule digit_not, simp_all)
  then show ?thesis by (simp add: dec_int_def)
qed

lemma dec_int_inject: "dec_int i = dec_int j \<longleftrightarrow> i = j"
proof
  have inj: "dec_of m = dec_of n \<Longrightarrow> m = n" for m n using undec_dec_of by metis
  have minus: "CHR ''-'' # s \<noteq> dec_of n" for s n using minus_not_in_dec_of [of n] by (metis list.set_intros(1))
  assume "dec_int i = dec_int j"
  then show "i = j"
    using inj [of "nat i" "nat j"] inj [of "nat (- i)" "nat (- j)"] minus minus [symmetric]
    by (auto simp: dec_int_def split: if_splits)
qed simp

text \<open>An installation with one shop and no accounts.\<close>

definition demo_install :: install_db where
  "demo_install = fresh_install\<lparr>in_shops := (in_shops fresh_install)\<lparr>db_shops := \<lparr>rows = [demo_shop 1], seq = 1\<rparr>\<rparr>\<rparr>"

lemma demo_install_facts:
  "install_wf demo_install" "rows (db_shops (in_shops demo_install)) = demo_shop 1 # []"
  "\<not> existing_admin x (accounts_of demo_install)"
  by (simp_all add: install_wf_def demo_install_def accounts_of_def fresh_install_def empty_tbl_def t_wf_def demo_shop_def
      auth_wf_def unique_on_def staff_unique_def existing_admin_def)

lemma demo_norm: "lib_norm_username demo_lib n = n"
  by (simp add: demo_lib_def)

lemma demo_install_run:
  obtains st db' u where "create_tenant_admin demo_lib demo_pw 1234 ''a'' ''b'' demo_install = (Inr st, db')"
    and "existing_admin u (accounts_of db')" and "u_active u"
proof -
  let ?run = "create_tenant_admin demo_lib demo_pw 1234 ''a'' ''b'' demo_install"
  have "case ?run of (Inr st, db') \<Rightarrow> list_ex (\<lambda>u. u_username u = ''shop_admin'' \<and> u_active u) (rows (au_users (accounts_of db')))
      | _ \<Rightarrow> False" by code_simp
  then show thesis using that by (auto simp: list_ex_iff existing_admin_def split: prod.splits sum.splits)
qed

section \<open>Properties\<close>

lemma owner_row_rights:
  assumes "staff_unique t" and "st \<in> set (rows t)" and "st_user st = u_id u" "st_shop st = shop" "st_role st = Owner" "st_active st"
  shows "is_shop_owner t \<lparr>rq_user = Some u, rq_tenant = Some shop\<rparr> = Inr True" and "has_change_permission u (Some shop) t"
proof -
  have works: "works_for t u shop st" using assms(2-6) by (simp add: works_for_def)
  show "is_shop_owner t \<lparr>rq_user = Some u, rq_tenant = Some shop\<rparr> = Inr True"
    using works assms(5) staff_get_unique [OF assms(1), of "\<lambda>st. st_role st = Owner" u shop]
    by (auto simp: is_shop_owner_def)
  show "has_change_permission u (Some shop) t"
    using assms(2-6) by (auto simp: has_change_permission_def admin_staff_exists_def qs_exists_iff)
qed



text \<open>The address the script prints does not let its user in: an account that \<open>create_tenant_admin.py\<close> creates is not a staff
  user, so \<open>/admin/\<close> refuses it, although the checks of the admin mixin grant it the shop.\<close>

theorem tenant_admin_outside:
  assumes wf: "install_wf db" and P: "hash_contract P" and norm: "lib_norm_username lib ''shop_admin'' = ''shop_admin''"
    and shop: "rows (db_shops (in_shops db)) = shop # shops" and new: "\<And>x. \<not> existing_admin x (accounts_of db)"
    and run: "create_tenant_admin lib P rnd salt1 salt2 db = (Inr st, db')" and u: "existing_admin u (accounts_of db')"
  shows "\<not> admin_site_entry u \<and> has_view_permission u (Some (s_id shop)) (db_staff (in_shops db'))
     \<and> has_add_permission u (Some (s_id shop)) (db_staff (in_shops db')) \<and> \<not> has_delete_permission u"
proof -
  obtain v a t where acc: "admin_account lib P rnd salt1 salt2 (accounts_of db) = (Inr v, a)"
    and row: "admin_staff_row (u_id v) (s_id shop) (db_staff (in_shops db)) = Inr (st, t)"
    and db': "db' = (put_accounts a db)\<lparr>in_shops := (in_shops (put_accounts a db))\<lparr>db_staff := t\<rparr>\<rparr>"
    using run shop by (auto simp: create_tenant_admin_def Let_def split: prod.splits sum.splits)
  have acc': "accounts_of db' = a" and staff: "db_staff (in_shops db') = t"
    by (simp_all add: db' accounts_of_def put_accounts_def)
  have w: "auth_wf (accounts_of db)" "t_wf st_id (db_staff (in_shops db))" "staff_unique (db_staff (in_shops db))"
    using wf by (simp_all add: install_wf_def)
  note A = admin_account_Inr [OF acc w(1) P norm] and R = admin_staff_row_Inr [OF row w(2,3)]
  have "u_id u = u_id v"
    using A(1,2) u unfolding acc' auth_wf_def existing_admin_def by (metis unique_on_iff)
  then have "u = v"
    using A(1,2) u find_iff_mem [of u_id "au_users a"] unfolding acc' auth_wf_def existing_admin_def by (metis option.inject)
  moreover have "\<not> u_is_staff v" "\<not> u_superuser v" using A(4) new by blast+
  ultimately show ?thesis
    using R(3,4) by (auto simp: staff admin_site_entry_def has_view_permission_def has_add_permission_def has_delete_permission_def
        admin_staff_exists_def qs_exists_iff)
qed

theorem tenant_admin_outside_witness:
  "case create_tenant_admin demo_lib demo_pw 1234 ''a'' ''b'' demo_install of (r, db') \<Rightarrow>
     \<exists>u. existing_admin u (accounts_of db') \<and> u_active u \<and> \<not> admin_site_entry u"
proof -
  obtain st db' u where run: "create_tenant_admin demo_lib demo_pw 1234 ''a'' ''b'' demo_install = (Inr st, db')"
    and u: "existing_admin u (accounts_of db')" "u_active u"
    by (rule demo_install_run)
  from tenant_admin_outside [OF demo_install_facts(1) demo_contracts(1) demo_norm demo_install_facts(2,3) run u(1)] u
  show ?thesis unfolding run by auto
qed

text \<open>The super administrator: after \<open>create_superuser.py\<close> the announced password opens an account that is the owner of every
  shop, enters the admin site and may delete there; a second run is reported as failed and changes nothing.\<close>

theorem superuser_everywhere:
  assumes wf: "install_wf db" and P: "hash_contract P" "backend_contract P authenticate"
    and norm: "lib_norm_username lib ''admin'' = ''admin''"
    and run: "create_superuser lib P rnd salt db = (True, db')"
  shows "\<exists>u. login_view authenticate ''admin'' ''admin123456'' (accounts_of db') = OK 200 u
     \<and> (\<forall>t tenant. is_shop_owner t \<lparr>rq_user = Some u, rq_tenant = tenant\<rparr> = Inr True)
     \<and> admin_site_entry u \<and> has_delete_permission u
     \<and> (\<forall>rnd' salt'. create_superuser lib P rnd' salt' db' = (False, db'))"
proof -
  obtain u a where sv: "save_with_password lib rnd (superuser_row lib) (lib_pw_make P salt ''admin123456'') (accounts_of db) = (Inr u, a)"
    and db': "db' = put_accounts a db"
    by (rule create_superuser_True [OF run])
  have w: "auth_wf (accounts_of db)" using wf by (simp add: install_wf_def)
  have r: "u_id (superuser_row lib) = 0" "u_username (superuser_row lib) = ''admin''" "u_active (superuser_row lib)"
    "u_is_staff (superuser_row lib)" "u_superuser (superuser_row lib)" "u_type (superuser_row lib) = SuperAdmin"
    using norm by (simp_all add: superuser_row_def new_user_def)
  then have id: "u_id (superuser_row lib) = 0 \<or> superuser_row lib \<in> set (rows (au_users (accounts_of db)))" by simp
  note S = save_with_password_wf [OF sv w id] save_with_password_flags [OF sv]
  have "account_of P a ''admin'' ''admin123456'' u"
    using account_of_saved [OF sv w id P(1)] r(2,3) S(4) by simp
  then have login: "login_view authenticate ''admin'' ''admin123456'' a = OK 200 u"
    unfolding login_view_OK [OF P(2) S(1)] by simp
  have "u \<in> set (rows (db_members (in_shops db')))" using S(2) by (simp add: db' put_accounts_def)
  moreover have "u_id u \<noteq> 0" using S(1,2) by (auto simp: auth_wf_def t_wf_def)
  ultimately have "create_superuser lib P rnd' salt' db' = (False, db')" for rnd' salt'
    using superuser_name_taken S(3) by blast
  with login show ?thesis
    using r S(4,6,7,8) by (intro exI [of _ u]) (simp add: db' is_shop_owner_def admin_site_entry_def has_delete_permission_def)
qed

theorem superuser_everywhere_witness:
  "case create_superuser demo_lib demo_pw 1234 ''a'' fresh_install of (ok, db') \<Rightarrow>
     ok \<and> (\<exists>u. login_view demo_backend ''admin'' ''admin123456'' (accounts_of db') = OK 200 u \<and> admin_site_entry u)"
proof -
  have "fst (create_superuser demo_lib demo_pw 1234 ''a'' fresh_install)" by code_simp
  then obtain db' where run: "create_superuser demo_lib demo_pw 1234 ''a'' fresh_install = (True, db')"
    by (metis (full_types) prod.collapse)
  from superuser_everywhere [OF fresh_install_wf demo_contracts(1,2) demo_norm run] show ?thesis unfolding run by auto
qed

text \<open>A shop made by the script is not one made by the interface: it has neither an owner nor settings, so nobody but a super
  administrator passes the staff checks for it, and the settings view fails even for her.\<close>

theorem script_tenant_incomplete:
  assumes wf: "install_wf db" and run: "create_tenant db = (Inr (shop, d), db')" and user: "rq_user rq = Some u"
  shows "(u_type u \<noteq> SuperAdmin \<longrightarrow> is_shop_owner_or_staff (db_staff (in_shops db')) (rq\<lparr>rq_tenant := Some (s_id shop)\<rparr>) = Inr False)
     \<and> (u_type u = SuperAdmin \<longrightarrow> settings_object rq (s_id shop) (in_shops db') = Inl (DoesNotExist ''ShopSettings''))
     \<and> dm_tenant d = s_id shop \<and> create_tenant db' = (Inl (IntegrityError ''schema_name''), db')"
proof -
  have id: "s_id shop = seq (db_shops (in_shops db)) + 1" and d: "dm_tenant d = s_id shop"
    and staff: "db_staff (in_shops db') = db_staff (in_shops db)" and settings: "db_settings (in_shops db') = db_settings (in_shops db)"
    and shops: "rows (db_shops (in_shops db')) = rows (db_shops (in_shops db)) @ [script_shop (s_id shop)]"
    using run by (auto simp: create_tenant_def t_add_def Let_def script_shop_def split: if_splits)
  have old: "i \<noteq> s_id shop" if "i \<in> ids_of s_id (db_shops (in_shops db))" for i
    using that wf id by (auto simp: install_wf_def t_wf_def ids_of_def)
  have st: "\<forall>st \<in> set (rows (db_staff (in_shops db))). st_shop st \<noteq> s_id shop"
    and se: "\<forall>x \<in> set (rows (db_settings (in_shops db))). ss_shop x \<noteq> s_id shop"
    using wf old by (simp_all add: install_wf_def)
  have "is_shop_owner_or_staff (db_staff (in_shops db')) (rq\<lparr>rq_tenant := Some (s_id shop)\<rparr>) = Inr False" if "u_type u \<noteq> SuperAdmin"
  proof -
    have "staff_get (\<lambda>_. True) (u_id u) (s_id shop) (db_staff (in_shops db)) = Inl (DoesNotExist ''ShopStaff'')"
      unfolding staff_get_def qs_get_DoesNotExist using st by (auto simp: qs_get_DoesNotExist)
    then show ?thesis using that user by (simp add: is_shop_owner_or_staff_def staff)
  qed
  moreover have "settings_object rq (s_id shop) (in_shops db') = Inl (DoesNotExist ''ShopSettings'')" if "u_type u = SuperAdmin"
  proof -
    have "qs_get ''ShopSettings'' (\<lambda>x. ss_shop x = s_id shop) (db_settings (in_shops db)) = Inl (DoesNotExist ''ShopSettings'')"
      using se by (auto simp: qs_get_DoesNotExist)
    then show ?thesis using that user by (simp add: settings_object_def may_manage_shop_def settings)
  qed
  moreover have "create_tenant db' = (Inl (IntegrityError ''schema_name''), db')"
    using shops by (simp add: create_tenant_def qs_exists_iff script_shop_def)
  ultimately show ?thesis using d by blast
qed

theorem script_tenant_incomplete_witness:
  "case create_tenant fresh_install of (r, db') \<Rightarrow>
     settings_object \<lparr>rq_user = Some (superuser_row demo_lib), rq_tenant = None\<rparr> 1 (in_shops db') = Inl (DoesNotExist ''ShopSettings'')"
proof -
  let ?rq = "\<lparr>rq_user = Some (superuser_row demo_lib), rq_tenant = None\<rparr>"
  obtain d where run: "create_tenant fresh_install = (Inr (script_shop 1, d), snd (create_tenant fresh_install))"
    by (simp add: create_tenant_def fresh_install_def empty_tbl_def qs_exists_iff t_add_def script_shop_def)
  have "u_type (superuser_row demo_lib) = SuperAdmin" "s_id (script_shop 1) = 1"
    by (simp_all add: superuser_row_def new_user_def script_shop_def)
  with script_tenant_incomplete [OF fresh_install_wf run, of ?rq] show ?thesis by (subst run) simp
qed

text \<open>No two tables share a QR code: the address in the code tells the shop and the table, whatever the address of the frontend.\<close>

theorem qr_codes_distinct:
  "qr_content frontend tb = qr_content frontend tb' \<longleftrightarrow> tb_shop tb = tb_shop tb' \<and> tb_id tb = tb_id tb'"
proof
  have cut: "takeWhile (\<lambda>c. c \<noteq> CHR ''&'') (dec_int i @ CHR ''&'' # s) = dec_int i" for i s
    using amp_not_in_dec_int [of i] by (subst takeWhile_append2) auto
  assume "qr_content frontend tb = qr_content frontend tb'"
  then have eq: "dec_int (tb_shop tb) @ ''&table='' @ dec_int (tb_id tb) = dec_int (tb_shop tb') @ ''&table='' @ dec_int (tb_id tb')"
    by (simp add: qr_content_def)
  then have "dec_int (tb_shop tb) = dec_int (tb_shop tb')" using cut by (metis append_Cons)
  with eq show "tb_shop tb = tb_shop tb' \<and> tb_id tb = tb_id tb'" by (simp add: dec_int_inject)
qed (simp add: qr_content_def)

end
