(* ===== verification/Deployment.thy ===== *)
theory Deployment
  imports Texts
begin

text \<open>
  How a request reaches a view: the composition of the applications in \<open>settings.py\<close>, the middleware
  \<open>DisableCSRFMiddleware\<close>, and the URL configuration (\<open>zdrink_core/urls.py\<close> and the \<open>urls.py\<close> of the apps).

  A path is the list of its parts between the slashes, for a path that ends with a slash.  The patterns that
  \<open>DefaultRouter\<close> makes of a viewset are, as the REST framework documents them, the list route, the extra
  list actions, the detail route and the extra detail actions, in this order, and the root view after all of them; its format suffixes
  are left out, and so are the admin site and the pages of the API documentation.
\<close>

section \<open>Applications\<close>

text \<open>The list \<open>INSTALLED_APPS\<close> is assigned twice; the second assignment builds it from the shared and the tenant apps.\<close>

definition FIRST_INSTALLED_APPS :: "string list" where
  "FIRST_INSTALLED_APPS =
    [''django.contrib.admin'', ''django.contrib.auth'', ''django.contrib.contenttypes'', ''django.contrib.sessions'',
     ''django.contrib.messages'', ''django.contrib.staticfiles'', ''rest_framework'', ''rest_framework_simplejwt'',
     ''corsheaders'', ''django_filters'', ''django_extensions'', ''django_tenants'', ''drf_spectacular'', ''apps.core'',
     ''apps.users'', ''apps.shops'', ''apps.products'', ''apps.orders'', ''apps.payments'', ''apps.printing'', ''apps.pos'',
     ''apps.promotions'']"

definition SHARED_APPS :: "string list" where
  "SHARED_APPS =
    [''django_tenants'', ''django.contrib.contenttypes'', ''django.contrib.auth'', ''django.contrib.sessions'',
     ''django.contrib.messages'', ''django.contrib.admin'', ''django.contrib.staticfiles'', ''rest_framework'',
     ''rest_framework_simplejwt'', ''corsheaders'', ''django_filters'', ''django_extensions'', ''drf_spectacular'',
     ''apps.core'', ''apps.users'', ''apps.shops'']"

definition TENANT_APPS :: "string list" where
  "TENANT_APPS =
    [''django.contrib.contenttypes'', ''django.contrib.auth'', ''django.contrib.sessions'', ''django.contrib.messages'',
     ''apps.products'', ''apps.orders'', ''apps.payments'', ''apps.printing'', ''apps.pos'']"

definition compose_apps :: "string list \<Rightarrow> string list \<Rightarrow> string list" where
  "compose_apps shared tenant = shared @ filter (\<lambda>app. app \<notin> set shared) tenant"

definition INSTALLED_APPS :: "string list" where
  "INSTALLED_APPS = compose_apps SHARED_APPS TENANT_APPS"

section \<open>Middleware\<close>

text \<open>What the middleware and the CSRF check read of a request; \<open>h_dont_enforce\<close> is the attribute \<open>_dont_enforce_csrf_checks\<close>.\<close>

record http =
  h_path :: string
  h_method :: string
  h_session :: "int option"
  h_token_ok :: bool
  h_dont_enforce :: bool

definition starts_with :: "string \<Rightarrow> string \<Rightarrow> bool" where
  "starts_with pre s \<longleftrightarrow> take (length pre) s = pre"

definition disable_csrf :: "(http \<Rightarrow> 'a) \<Rightarrow> http \<Rightarrow> 'a" where
  "disable_csrf get_response req =
     get_response (if starts_with ''/api/'' (h_path req) then req\<lparr>h_dont_enforce := True\<rparr> else req)"

text \<open>Django's \<open>CsrfViewMiddleware\<close>, and the same check in the REST framework's \<open>SessionAuthentication\<close>, as the parameter
  \<open>csrf\<close>; what its documentation says is the contract.\<close>

definition csrf_contract :: "(http \<Rightarrow> bool) \<Rightarrow> bool" where
  "csrf_contract csrf \<longleftrightarrow> (\<forall>r. csrf r \<longleftrightarrow>
     h_dont_enforce r \<or> h_method r \<in> {''GET'', ''HEAD'', ''OPTIONS'', ''TRACE''} \<or> h_token_ok r)"

datatype 'a http_reply = Forbidden | Answer 'a

text \<open>The order of \<open>MIDDLEWARE\<close>: the flag is set before the check reads it.  The view sees the user of the session.\<close>

definition csrf_middleware :: "(http \<Rightarrow> bool) \<Rightarrow> (http \<Rightarrow> 'a) \<Rightarrow> http \<Rightarrow> 'a http_reply" where
  "csrf_middleware csrf view req = (if csrf req then Answer (view req) else Forbidden)"

definition session_authenticated :: "(http \<Rightarrow> bool) \<Rightarrow> http \<Rightarrow> int option" where
  "session_authenticated csrf req = (case h_session req of None \<Rightarrow> None | Some u \<Rightarrow> if csrf req then Some u else None)"

definition serve :: "(http \<Rightarrow> bool) \<Rightarrow> http \<Rightarrow> int option http_reply" where
  "serve csrf = disable_csrf (csrf_middleware csrf (session_authenticated csrf))"

section \<open>Patterns\<close>

datatype seg = Lit string | Pk | IntArg

datatype action = ListRoute | DetailRoute | ListAction string | DetailAction string | RootView | View

record route =
  r_segs :: "seg list"
  r_view :: string
  r_action :: action

text \<open>A primary key in a router's pattern is any text without a dot; \<open><int:...>\<close> is a number.\<close>

primrec seg_match :: "seg \<Rightarrow> string \<Rightarrow> bool" where
  "seg_match (Lit s) w \<longleftrightarrow> s = w"
| "seg_match Pk w \<longleftrightarrow> w \<noteq> [] \<and> CHR ''.'' \<notin> set w \<and> CHR ''/'' \<notin> set w"
| "seg_match IntArg w \<longleftrightarrow> w \<noteq> [] \<and> list_all (\<lambda>c. c \<in> set ''0123456789'') w"

definition route_match :: "route \<Rightarrow> string list \<Rightarrow> bool" where
  "route_match r ws \<longleftrightarrow> list_all2 seg_match (r_segs r) ws"

text \<open>The first pattern that matches serves the request.\<close>

definition resolve :: "route list \<Rightarrow> string list \<Rightarrow> route option" where
  "resolve rs ws = find (\<lambda>r. route_match r ws) rs"

definition include_at :: "string list \<Rightarrow> route list \<Rightarrow> route list" where
  "include_at pre rs = map (\<lambda>r. r\<lparr>r_segs := map Lit pre @ r_segs r\<rparr>) rs"

definition path_view :: "string list \<Rightarrow> string \<Rightarrow> route" where
  "path_view ss v = \<lparr>r_segs = map Lit ss, r_view = v, r_action = View\<rparr>"

record viewset =
  vs_name :: string
  vs_list_actions :: "string list"
  vs_detail_actions :: "string list"

definition register :: "string list \<Rightarrow> viewset \<Rightarrow> route list" where
  "register pre v =
     [\<lparr>r_segs = map Lit pre, r_view = vs_name v, r_action = ListRoute\<rparr>]
     @ map (\<lambda>a. \<lparr>r_segs = map Lit pre @ [Lit a], r_view = vs_name v, r_action = ListAction a\<rparr>) (vs_list_actions v)
     @ [\<lparr>r_segs = map Lit pre @ [Pk], r_view = vs_name v, r_action = DetailRoute\<rparr>]
     @ map (\<lambda>a. \<lparr>r_segs = map Lit pre @ [Pk, Lit a], r_view = vs_name v, r_action = DetailAction a\<rparr>) (vs_detail_actions v)"

definition router :: "(string list \<times> viewset) list \<Rightarrow> route list" where
  "router vs = concat (map (\<lambda>(pre, v). register pre v) vs) @ [\<lparr>r_segs = [], r_view = ''APIRootView'', r_action = RootView\<rparr>]"

section \<open>The URL configuration\<close>

definition plain_viewset :: "string \<Rightarrow> viewset" where
  "plain_viewset n = \<lparr>vs_name = n, vs_list_actions = [], vs_detail_actions = []\<rparr>"

definition shops_urls :: "route list" where
  "shops_urls =
    [path_view [] ''ShopListView'', path_view [''current''] ''get_current_shop'',
     \<lparr>r_segs = [IntArg], r_view = ''ShopDetailView'', r_action = View\<rparr>,
     \<lparr>r_segs = [IntArg, Lit ''staff''], r_view = ''ShopStaffListView'', r_action = View\<rparr>,
     \<lparr>r_segs = [IntArg, Lit ''settings''], r_view = ''ShopSettingsView'', r_action = View\<rparr>]"

definition users_urls :: "route list" where
  "users_urls = router
      [([''membership-levels''], plain_viewset ''MembershipLevelConfigViewSet''),
       ([''points-rules''], plain_viewset ''PointsRuleViewSet''),
       ([''recharges''], \<lparr>vs_name = ''MemberRechargeViewSet'', vs_list_actions = [''recharge''], vs_detail_actions = []\<rparr>)]
    @ [path_view [''profile'', ''membership''] ''user_membership_info'', path_view [''points'', ''logs''] ''PointsLogView'',
       path_view [''points'', ''consume''] ''consume_points'', path_view [''points'', ''signin''] ''signin_earn_points'']"

definition products_urls :: "route list" where
  "products_urls = router
      [([''categories''], plain_viewset ''CategoryViewSet''),
       ([''products''], \<lparr>vs_name = ''ProductViewSet'', vs_list_actions = [''export''], vs_detail_actions = [''duplicate'']\<rparr>),
       ([''specifications''], plain_viewset ''SpecificationViewSet''),
       ([''skus''], \<lparr>vs_name = ''ProductSKUViewSet'', vs_list_actions = [], vs_detail_actions = [''adjust_stock'']\<rparr>)]
    @ [path_view [''inventory'', ''logs''] ''InventoryLogView'', path_view [''inventory'', ''bulk-update''] ''bulk_stock_update'',
       path_view [''inventory'', ''low-stock-alert''] ''low_stock_alert'', path_view [''public'', ''products''] ''public_products'']"

definition orders_urls :: "route list" where
  "orders_urls = router
      [([''carts''], \<lparr>vs_name = ''CartViewSet'', vs_list_actions = [''add_item'', ''clear'', ''my_cart''], vs_detail_actions = []\<rparr>),
       ([''carts'', ''items''], plain_viewset ''CartItemViewSet''),
       ([''orders''], \<lparr>vs_name = ''OrderViewSet'', vs_list_actions = [''my_orders'', ''sales_report'', ''statistics''],
          vs_detail_actions = [''cancel'', ''update_status'']\<rparr>)]
    @ [path_view [''dashboard''] ''order_dashboard'']"

definition payments_urls :: "route list" where
  "payments_urls = router
      [([''methods''], plain_viewset ''PaymentMethodViewSet''),
       ([''transactions''], \<lparr>vs_name = ''PaymentTransactionViewSet'', vs_list_actions = [''create_payment''], vs_detail_actions = [''refund'']\<rparr>),
       ([''refunds''], \<lparr>vs_name = ''RefundRequestViewSet'', vs_list_actions = [], vs_detail_actions = [''process'']\<rparr>)]
    @ [path_view [''callback'', ''wechat''] ''wechat_pay_callback'', path_view [''callback'', ''alipay''] ''alipay_callback'',
       path_view [''config'', ''wechat''] ''WechatPayConfigView'', path_view [''config'', ''alipay''] ''AlipayConfigView'',
       path_view [''statistics''] ''payment_statistics'']"

definition printing_urls :: "route list" where
  "printing_urls = router
      [([''printers''], \<lparr>vs_name = ''PrinterViewSet'', vs_list_actions = [''status_all''], vs_detail_actions = [''status'', ''test_print'']\<rparr>),
       ([''templates''], \<lparr>vs_name = ''PrintTemplateViewSet'', vs_list_actions = [], vs_detail_actions = [''set_default'']\<rparr>),
       ([''tasks''], \<lparr>vs_name = ''PrintTaskViewSet'', vs_list_actions = [], vs_detail_actions = [''retry'']\<rparr>)]
    @ [path_view [''logs''] ''PrintLogView'', path_view [''print-order''] ''print_order'',
       \<lparr>r_segs = [Lit ''auto-print-order'', IntArg], r_view = ''auto_print_order'', r_action = View\<rparr>,
       path_view [''statistics''] ''print_statistics'']"

definition pos_urls :: "route list" where
  "pos_urls = router
      [([''pos''], \<lparr>vs_name = ''POSViewSet'', vs_list_actions = [''merge_orders'', ''quick_order'', ''scan_barcode'', ''split_order''],
          vs_detail_actions = []\<rparr>),
       ([''tables''], \<lparr>vs_name = ''TableManagementViewSet'', vs_list_actions = [''available'', ''status'', ''update_status''], vs_detail_actions = []\<rparr>)]
    @ [path_view [''dashboard''] ''pos_dashboard'', path_view [''statistics''] ''pos_statistics'',
       path_view [''shift'', ''start''] ''start_cashier_shift'', path_view [''shift'', ''end''] ''end_cashier_shift'']"

definition promotions_urls :: "route list" where
  "promotions_urls = router
      [([''coupons''], plain_viewset ''CouponViewSet''),
       ([''user-coupons''], \<lparr>vs_name = ''UserCouponViewSet'', vs_list_actions = [''available'', ''claim''], vs_detail_actions = []\<rparr>),
       ([''coupon-rules''], plain_viewset ''CouponRuleViewSet''), ([''promotions''], plain_viewset ''PromotionViewSet'')]
    @ [path_view [''apply-coupon''] ''apply_coupon'', path_view [''available-coupons''] ''available_coupons'',
       path_view [''current-promotions''] ''current_promotions'']"

definition core_urls :: "route list" where
  "core_urls = []"

definition urlpatterns :: "route list" where
  "urlpatterns =
    [path_view [''api'', ''auth'', ''register''] ''RegisterView'', path_view [''api'', ''auth'', ''login''] ''LoginView'',
     path_view [''api'', ''auth'', ''logout''] ''LogoutView'', path_view [''api'', ''auth'', ''token'', ''refresh''] ''TokenRefreshView'',
     path_view [''api'', ''auth'', ''me''] ''get_current_user'', path_view [''api'', ''auth'', ''profile''] ''UserProfileView'',
     path_view [''api'', ''auth'', ''profile'', ''update''] ''UpdateProfileView'',
     path_view [''api'', ''auth'', ''change-password''] ''ChangePasswordView'']
    @ include_at [''api'', ''shops''] shops_urls
    @ include_at [''api''] core_urls
    @ include_at [''api'', ''users''] users_urls
    @ include_at [''api'', ''products''] products_urls
    @ include_at [''api'', ''orders''] orders_urls
    @ include_at [''api'', ''payments''] payments_urls
    @ include_at [''api'', ''printing''] printing_urls
    @ include_at [''api'', ''pos''] pos_urls
    @ include_at [''api'', ''promotions''] promotions_urls"

section \<open>Lemmas\<close>

text \<open>The parts of a path that a pattern describes, with a number for the argument.\<close>

definition fill :: "seg list \<Rightarrow> nat \<Rightarrow> string list" where
  "fill ss n = map (\<lambda>s. case s of Lit a \<Rightarrow> a | _ \<Rightarrow> dec_of n) ss"

text \<open>Whether one pattern matches every path of another.\<close>

fun seg_covers :: "seg \<Rightarrow> seg \<Rightarrow> bool" where
  "seg_covers p (Lit b) \<longleftrightarrow> seg_match p b"
| "seg_covers (Lit a) _ \<longleftrightarrow> False"
| "seg_covers _ _ \<longleftrightarrow> True"

definition covers :: "route \<Rightarrow> route \<Rightarrow> bool" where
  "covers p q \<longleftrightarrow> list_all2 seg_covers (r_segs p) (r_segs q)"

definition worded :: "seg \<Rightarrow> bool" where
  "worded s = (case s of Lit a \<Rightarrow> list_ex (\<lambda>c. c \<notin> set ''0123456789'') a | _ \<Rightarrow> True)"

lemma digit_char: "d < 10 \<Longrightarrow> digit d \<in> set ''0123456789''"
proof -
  have "list_all (\<lambda>d. digit d \<in> set ''0123456789'') [0..<10]" by code_simp
  then show "d < 10 \<Longrightarrow> digit d \<in> set ''0123456789''" by (simp add: list_all_iff)
qed

lemma dec_of_digits: "c \<in> set (dec_of n) \<Longrightarrow> c \<in> set ''0123456789''"
  using not_in_dec_of [of c n] digit_char by blast

lemma dec_of_not_Nil: "dec_of n \<noteq> []"
  by (subst dec_of.simps) simp

lemma seg_match_fill:
  assumes "worded p"
  shows "seg_match p (case q of Lit a \<Rightarrow> a | _ \<Rightarrow> dec_of n) \<longleftrightarrow> seg_covers p q"
proof -
  have pk: "seg_match Pk (dec_of n)" and num: "seg_match IntArg (dec_of n)"
    using dec_of_not_Nil [of n] dec_of_digits [of _ n] by (auto simp: list_all_iff)
  have "a \<noteq> dec_of n" if "p = Lit a" for a
  proof
    assume "a = dec_of n"
    with assms that show False using dec_of_digits [of _ n] by (auto simp: worded_def list_ex_iff)
  qed
  with pk num show ?thesis by (cases q; cases p) auto
qed

lemma route_match_fill:
  assumes "list_all worded (r_segs p)"
  shows "route_match p (fill (r_segs q) n) \<longleftrightarrow> covers p q"
proof -
  have "list_all2 seg_match ps (map (\<lambda>s. case s of Lit a \<Rightarrow> a | _ \<Rightarrow> dec_of n) qs) \<longleftrightarrow> list_all2 seg_covers ps qs"
    if "list_all worded ps" for ps qs
    using that
  proof (induction ps arbitrary: qs)
    case (Cons p ps)
    then show ?case using seg_match_fill [of p] by (cases qs) auto
  qed simp
  from this [OF assms] show ?thesis by (simp add: route_match_def fill_def covers_def)
qed

lemma urlpatterns_worded: "list_all (\<lambda>r. list_all worded (r_segs r)) urlpatterns"
  by code_simp

lemma resolve_fill: "resolve urlpatterns (fill (r_segs r) n) = find (\<lambda>p. covers p r) urlpatterns"
proof -
  have "find (\<lambda>p. route_match p (fill (r_segs r) n)) rs = find (\<lambda>p. covers p r) rs" if "list_all (\<lambda>r. list_all worded (r_segs r)) rs" for rs
    using that by (induction rs) (auto simp: route_match_fill)
  from this [OF urlpatterns_worded] show ?thesis by (simp add: resolve_def)
qed

text \<open>The configuration is one list of patterns under each part after \<open>api\<close>, so a pattern can only shadow one of its own
  list.\<close>

definition mount :: "string \<Rightarrow> route \<Rightarrow> route" where
  "mount x r = r\<lparr>r_segs := map Lit [''api'', x] @ r_segs r\<rparr>"

definition mounted :: "(string \<times> route list) list \<Rightarrow> route list" where
  "mounted sites = concat (map (\<lambda>(x, rs). map (mount x) rs) sites)"

definition auth_urls :: "route list" where
  "auth_urls = [path_view [''register''] ''RegisterView'', path_view [''login''] ''LoginView'', path_view [''logout''] ''LogoutView'',
     path_view [''token'', ''refresh''] ''TokenRefreshView'', path_view [''me''] ''get_current_user'',
     path_view [''profile''] ''UserProfileView'', path_view [''profile'', ''update''] ''UpdateProfileView'',
     path_view [''change-password''] ''ChangePasswordView'']"

definition api_sites :: "(string \<times> route list) list" where
  "api_sites = [(''auth'', auth_urls), (''shops'', shops_urls), (''users'', users_urls), (''products'', products_urls),
     (''orders'', orders_urls), (''payments'', payments_urls), (''printing'', printing_urls), (''pos'', pos_urls),
     (''promotions'', promotions_urls)]"

lemma include_at_mount: "include_at [''api'', x] rs = map (mount x) rs"
  by (simp add: include_at_def mount_def)

lemma urlpatterns_mounted: "urlpatterns = mounted api_sites"
  by (simp add: urlpatterns_def api_sites_def mounted_def include_at_mount core_urls_def auth_urls_def path_view_def mount_def
      include_at_def)

lemma covers_mount: "covers (mount x p) (mount y q) \<longleftrightarrow> x = y \<and> covers p q"
  by (simp add: covers_def mount_def)

lemma find_mounted:
  assumes "distinct (map fst sites)" and "(x, rs) \<in> set sites"
  shows "find (\<lambda>p. covers p (mount x q)) (mounted sites) = map_option (mount x) (find (\<lambda>p. covers p q) rs)"
  using assms
proof (induction sites)
  case (Cons s sites)
  obtain y ps where s: "s = (y, ps)" by (cases s)
  have here: "find (\<lambda>p. covers p (mount x q)) (map (mount y) ps) = (if x = y then map_option (mount x) (find (\<lambda>p. covers p q) ps) else None)"
    for ps by (induction ps) (auto simp: covers_mount)
  have rest: "find (\<lambda>p. covers p (mount x q)) (mounted sites) = None" if "x \<notin> fst ` set sites"
    using that by (force simp: find_None_iff mounted_def covers_mount)
  have split: "find P (xs @ ys) = (case find P xs of None \<Rightarrow> find P ys | Some z \<Rightarrow> Some z)" for P :: "route \<Rightarrow> bool" and xs ys
    by (induction xs) auto
  have step: "mounted (s # sites) = map (mount y) ps @ mounted sites" by (simp add: mounted_def s)
  show ?case
  proof (cases "x = y")
    case True
    then have "rs = ps" using Cons.prems s by force
    moreover have "x \<notin> fst ` set sites" using Cons.prems s True by auto
    ultimately show ?thesis
      unfolding step split here by (simp add: True [symmetric] rest split: option.splits)
  next
    case False
    then have "(x, rs) \<in> set sites" using Cons.prems s by simp
    with False Cons show ?thesis unfolding step split here by simp
  qed
qed simp

definition cart_items_list :: route where
  "cart_items_list = \<lparr>r_segs = map Lit [''carts'', ''items''], r_view = ''CartItemViewSet'', r_action = ListRoute\<rparr>"

definition cart_detail :: route where
  "cart_detail = \<lparr>r_segs = [Lit ''carts'', Pk], r_view = ''CartViewSet'', r_action = DetailRoute\<rparr>"

text \<open>Within each list, every pattern is the first that covers its paths; one is not.\<close>

definition reachable_in :: "route list \<Rightarrow> route \<Rightarrow> bool" where
  "reachable_in rs r \<longleftrightarrow> find (\<lambda>p. covers p r) rs = Some r"

lemma reachable_apps:
  "list_all (reachable_in auth_urls) auth_urls" "list_all (reachable_in shops_urls) shops_urls"
  "list_all (reachable_in users_urls) users_urls" "list_all (reachable_in products_urls) products_urls"
  "list_all (reachable_in payments_urls) payments_urls" "list_all (reachable_in printing_urls) printing_urls"
  "list_all (reachable_in pos_urls) pos_urls" "list_all (reachable_in promotions_urls) promotions_urls"
  "list_all (\<lambda>r. r = cart_items_list \<or> reachable_in orders_urls r) orders_urls"
  "find (\<lambda>p. covers p cart_items_list) orders_urls = Some cart_detail"
  by code_simp+

lemma compose_apps_set: "set (compose_apps shared tenant) = set shared \<union> set tenant"
  by (auto simp: compose_apps_def)

lemma compose_apps_distinct: "distinct shared \<Longrightarrow> distinct tenant \<Longrightarrow> distinct (compose_apps shared tenant)"
  by (auto simp: compose_apps_def)

section \<open>Properties\<close>

text \<open>The second assignment of \<open>INSTALLED_APPS\<close> lists every application once and loses exactly one of the first: \<open>apps.promotions\<close>,
  whose tables are therefore never created.\<close>

theorem installed_apps_lose_promotions:
  "distinct INSTALLED_APPS \<and> set FIRST_INSTALLED_APPS = insert ''apps.promotions'' (set INSTALLED_APPS)
     \<and> ''apps.promotions'' \<notin> set INSTALLED_APPS"
proof -
  have "distinct INSTALLED_APPS"
    unfolding INSTALLED_APPS_def by (rule compose_apps_distinct) (simp_all add: SHARED_APPS_def TENANT_APPS_def)
  then show ?thesis
    by (auto simp: INSTALLED_APPS_def compose_apps_set SHARED_APPS_def TENANT_APPS_def FIRST_INSTALLED_APPS_def)
qed

text \<open>C37: Every view can be reached: for each pattern of the URL configuration but one, the path it describes, with any number
  for its argument, is served by it and by no pattern before it.\<close>

theorem routes_reachable:
  assumes "r \<in> set urlpatterns" and "r \<noteq> mount ''orders'' cart_items_list"
  shows "resolve urlpatterns (fill (r_segs r) n) = Some r"
proof -
  obtain x rs q where site: "(x, rs) \<in> set api_sites" and q: "q \<in> set rs" and r: "r = mount x q"
    using assms(1) by (auto simp: urlpatterns_mounted mounted_def)
  have "distinct (map fst api_sites)" by (simp add: api_sites_def)
  note found = find_mounted [OF this site, of q]
  have "reachable_in rs q"
  proof (cases "x = ''orders''")
    case True
    then have "rs = orders_urls" using site by (simp add: api_sites_def)
    moreover have "q \<noteq> cart_items_list" using assms(2) r True by auto
    ultimately show ?thesis using reachable_apps(9) q by (auto simp: list_all_iff)
  next
    case False
    then show ?thesis using site q reachable_apps(1-8) by (auto simp: api_sites_def list_all_iff)
  qed
  with found have "find (\<lambda>p. covers p r) urlpatterns = Some r" by (simp add: urlpatterns_mounted r reachable_in_def)
  then show ?thesis by (simp only: resolve_fill)
qed

theorem routes_reachable_witness:
  "\<exists>r. r_view r = ''CartItemViewSet'' \<and> r_action r = DetailRoute
     \<and> resolve urlpatterns [''api'', ''orders'', ''carts'', ''items'', ''5''] = Some r"
proof -
  let ?r = "mount ''orders'' \<lparr>r_segs = [Lit ''carts'', Lit ''items'', Pk], r_view = ''CartItemViewSet'', r_action = DetailRoute\<rparr>"
  have "?r \<in> set urlpatterns"
    by (simp add: urlpatterns_mounted mounted_def api_sites_def orders_urls_def router_def register_def plain_viewset_def)
  moreover have "?r \<noteq> mount ''orders'' cart_items_list" by (simp add: mount_def cart_items_list_def)
  ultimately have "resolve urlpatterns (fill (r_segs ?r) 5) = Some ?r" by (rule routes_reachable)
  moreover have "fill (r_segs ?r) 5 = [''api'', ''orders'', ''carts'', ''items'', ''5'']"
    by code_simp
  ultimately show ?thesis by (intro exI [of _ ?r]) (simp add: mount_def)
qed

text \<open>The list of cart items cannot be reached: \<open>carts\<close> is registered before \<open>carts/items\<close>, so the path of the list is
  taken for the cart with the key \<open>items\<close>, and no path leads to \<open>CartItemViewSet.list\<close> or \<open>create\<close>.\<close>

theorem cart_items_shadowed:
  "resolve urlpatterns [''api'', ''orders'', ''carts'', ''items''] = Some (mount ''orders'' cart_detail)
     \<and> mount ''orders'' cart_items_list \<in> set urlpatterns
     \<and> (\<forall>ws. resolve urlpatterns ws \<noteq> Some (mount ''orders'' cart_items_list))"
proof -
  let ?r = "mount ''orders'' cart_items_list" let ?ws = "[''api'', ''orders'', ''carts'', ''items'']"
  have d: "distinct (map fst api_sites)" and s: "(''orders'', orders_urls) \<in> set api_sites" by (simp_all add: api_sites_def)
  have fill: "fill (r_segs ?r) 0 = ?ws" by (simp add: fill_def mount_def cart_items_list_def)
  have at: "resolve urlpatterns ?ws = Some (mount ''orders'' cart_detail)"
    using resolve_fill [of ?r 0] find_mounted [OF d s, of cart_items_list] reachable_apps(10)
    by (simp add: fill urlpatterns_mounted)
  have "resolve urlpatterns ws \<noteq> Some ?r" for ws
  proof
    assume r: "resolve urlpatterns ws = Some ?r"
    then have "route_match ?r ws" by (auto simp: resolve_def find_Some_iff)
    then have "ws = ?ws" by (auto simp: route_match_def mount_def cart_items_list_def list_all2_Cons1)
    with r at show False by (simp add: mount_def cart_detail_def cart_items_list_def)
  qed
  moreover have "?r \<in> set urlpatterns"
    by (simp add: urlpatterns_mounted mounted_def api_sites_def orders_urls_def router_def register_def plain_viewset_def cart_items_list_def)
  ultimately show ?thesis using at by blast
qed

text \<open>The API has no protection against forged requests: under \<open>/api/\<close> a request with a session is answered as its user
  whatever its method and token, because the flag is set before both checks; elsewhere an unsafe request without a token is refused.\<close>

theorem api_without_csrf:
  assumes "csrf_contract csrf" and "\<not> h_dont_enforce r"
  shows "serve csrf r = (if starts_with ''/api/'' (h_path r) \<or> h_method r \<in> {''GET'', ''HEAD'', ''OPTIONS'', ''TRACE''} \<or> h_token_ok r
     then Answer (h_session r) else Forbidden)"
  using assms
  by (auto simp: serve_def disable_csrf_def csrf_middleware_def session_authenticated_def csrf_contract_def split: option.splits)

theorem api_without_csrf_witness:
  "let csrf = \<lambda>r. h_dont_enforce r \<or> h_method r \<in> {''GET'', ''HEAD'', ''OPTIONS'', ''TRACE''} \<or> h_token_ok r;
       forged = \<lambda>p. \<lparr>h_path = p, h_method = ''POST'', h_session = Some 7, h_token_ok = False, h_dont_enforce = False\<rparr>
   in serve csrf (forged ''/api/users/points/consume/'') = Answer (Some 7) \<and> serve csrf (forged ''/admin/'') = Forbidden"
proof -
  let ?csrf = "\<lambda>r. h_dont_enforce r \<or> h_method r \<in> {''GET'', ''HEAD'', ''OPTIONS'', ''TRACE''} \<or> h_token_ok r"
  have "csrf_contract ?csrf" by (simp add: csrf_contract_def)
  note api_without_csrf [OF this]
  then show ?thesis by (simp add: Let_def starts_with_def)
qed

end
