(* ===== verification/Admin_Site.thy ===== *)
theory Admin_Site
  imports Setup Deployment Orders
begin

text \<open>
  The admin site: the classes that \<open>apps/*/admin.py\<close> register, the columns of \<open>apps/*/models.py\<close> they name, who may
  do what with them, and which rows the lists show.

  Django's own part is written after its documentation: the system checks of the admin options, the form that a
  class or an inline builds from its fields, and the model permissions, which are the parameter \<open>has_perm\<close>.  The columns
  that a model inherits (\<open>AbstractUser\<close>, \<open>TenantMixin\<close>, \<open>DomainMixin\<close>) are those of the packages.
\<close>

section \<open>Columns\<close>

text \<open>The columns of a model: those a new row can go without (nullable, with a default, or text), those it cannot, the
  references with their model and whether they are required, the many-to-many relations, the columns no form shows
  (the key and the time stamps), and the methods and properties.\<close>

record model =
  m_name :: string
  m_plain :: "string list"
  m_required :: "string list"
  m_links :: "(string \<times> string \<times> bool) list"
  m_many :: "(string \<times> string) list"
  m_stamps :: "string list"
  m_attrs :: "string list"

definition the_User :: model where
  "the_User = \<lparr>m_name = ''User'',
    m_plain = [''username'', ''first_name'', ''last_name'', ''email'', ''password'', ''is_staff'', ''is_active'',
     ''is_superuser'', ''last_login'', ''date_joined'', ''user_type'', ''phone'', ''avatar'', ''points'',
     ''membership_level'', ''membership_number'', ''membership_expiry'', ''total_points'', ''available_points'',
     ''used_points'', ''total_consumption'', ''consumption_count'', ''referral_code''],
    m_required = [],
    m_links = [(''referrer'', ''User'', False)],
    m_many = [(''groups'', ''Group''), (''user_permissions'', ''Permission'')],
    m_stamps = [''id'', ''created_at'', ''updated_at''],
    m_attrs = [''generate_membership_number'', ''generate_referral_code'']\<rparr>"

definition the_MembershipLevelConfig :: model where
  "the_MembershipLevelConfig = \<lparr>m_name = ''MembershipLevelConfig'',
    m_plain = [''level'', ''name'', ''min_points'', ''discount_rate'', ''points_earn_rate'', ''benefits'', ''is_active''],
    m_required = [],
    m_links = [(''shop'', ''Shop'', True)],
    m_many = [],
    m_stamps = [''id'', ''created_at'', ''updated_at''],
    m_attrs = []\<rparr>"

definition the_PointsLog :: model where
  "the_PointsLog = \<lparr>m_name = ''PointsLog'',
    m_plain = [''points_type'', ''notes'', ''reference_id''],
    m_required = [''points'', ''current_points''],
    m_links = [(''user'', ''User'', True), (''shop'', ''Shop'', True)],
    m_many = [],
    m_stamps = [''id'', ''created_at''],
    m_attrs = []\<rparr>"

definition the_PointsRule :: model where
  "the_PointsRule = \<lparr>m_name = ''PointsRule'',
    m_plain = [''rule_type'', ''name'', ''description'', ''config'', ''is_active''],
    m_required = [],
    m_links = [(''shop'', ''Shop'', True)],
    m_many = [],
    m_stamps = [''id'', ''created_at'', ''updated_at''],
    m_attrs = []\<rparr>"

definition the_MemberRecharge :: model where
  "the_MemberRecharge = \<lparr>m_name = ''MemberRecharge'',
    m_plain = [''gift_amount'', ''gift_points'', ''payment_method'', ''payment_status'', ''paid_at''],
    m_required = [''recharge_amount''],
    m_links = [(''user'', ''User'', True), (''shop'', ''Shop'', True)],
    m_many = [],
    m_stamps = [''id'', ''created_at'', ''updated_at''],
    m_attrs = []\<rparr>"

definition the_Shop :: model where
  "the_Shop = \<lparr>m_name = ''Shop'',
    m_plain = [''schema_name'', ''name'', ''description'', ''address'', ''phone'', ''email'', ''shop_type'',
     ''opening_hours'', ''is_active'', ''allow_delivery'', ''allow_pickup'', ''allow_dine_in'', ''delivery_fee'',
     ''minimum_order_amount'', ''delivery_radius'', ''logo'', ''banner'', ''payment_methods''],
    m_required = [],
    m_links = [],
    m_many = [],
    m_stamps = [''id'', ''created_at'', ''updated_at''],
    m_attrs = []\<rparr>"

definition the_Domain :: model where
  "the_Domain = \<lparr>m_name = ''Domain'',
    m_plain = [''domain'', ''is_primary''],
    m_required = [],
    m_links = [(''tenant'', ''Shop'', True)],
    m_many = [],
    m_stamps = [''id''],
    m_attrs = []\<rparr>"

definition the_ShopStaff :: model where
  "the_ShopStaff = \<lparr>m_name = ''ShopStaff'',
    m_plain = [''role'', ''is_active'', ''permissions''],
    m_required = [],
    m_links = [(''user'', ''User'', True), (''shop'', ''Shop'', True)],
    m_many = [],
    m_stamps = [''id'', ''created_at'', ''updated_at''],
    m_attrs = []\<rparr>"

definition the_ShopSettings :: model where
  "the_ShopSettings = \<lparr>m_name = ''ShopSettings'',
    m_plain = [''auto_confirm_order'', ''order_timeout'', ''auto_print_order'', ''printer_config'', ''email_notification'',
     ''sms_notification'', ''points_enabled'', ''points_ratio''],
    m_required = [],
    m_links = [(''shop'', ''Shop'', True)],
    m_many = [],
    m_stamps = [''id'', ''created_at'', ''updated_at''],
    m_attrs = []\<rparr>"

definition the_Table :: model where
  "the_Table = \<lparr>m_name = ''Table'',
    m_plain = [''table_number'', ''table_name'', ''table_type'', ''min_capacity'', ''max_capacity'', ''status'', ''qr_code'',
     ''floor'', ''section'', ''position_x'', ''position_y'', ''features'', ''description'', ''sort_order'',
     ''is_active''],
    m_required = [],
    m_links = [(''shop'', ''Shop'', True)],
    m_many = [],
    m_stamps = [''id'', ''created_at'', ''updated_at''],
    m_attrs = [''generate_qr_code'', ''current_order'']\<rparr>"

definition the_Category :: model where
  "the_Category = \<lparr>m_name = ''Category'',
    m_plain = [''name'', ''description'', ''image'', ''sort_order'', ''is_active''],
    m_required = [],
    m_links = [(''parent'', ''Category'', False), (''shop'', ''Shop'', True)],
    m_many = [],
    m_stamps = [''id'', ''created_at'', ''updated_at''],
    m_attrs = []\<rparr>"

definition the_Product :: model where
  "the_Product = \<lparr>m_name = ''Product'',
    m_plain = [''name'', ''description'', ''cost_price'', ''main_image'', ''images'', ''status'', ''is_featured'',
     ''sort_order'', ''allow_customization'', ''preparation_time''],
    m_required = [''base_price''],
    m_links = [(''category'', ''Category'', False), (''shop'', ''Shop'', True), (''created_by'', ''User'', False)],
    m_many = [],
    m_stamps = [''id'', ''created_at'', ''updated_at''],
    m_attrs = []\<rparr>"

definition the_Specification :: model where
  "the_Specification = \<lparr>m_name = ''Specification'',
    m_plain = [''name'', ''display_name'', ''sort_order''],
    m_required = [],
    m_links = [(''shop'', ''Shop'', True)],
    m_many = [],
    m_stamps = [''id'', ''created_at'', ''updated_at''],
    m_attrs = []\<rparr>"

definition the_SpecificationValue :: model where
  "the_SpecificationValue = \<lparr>m_name = ''SpecificationValue'',
    m_plain = [''value'', ''display_value'', ''sort_order''],
    m_required = [],
    m_links = [(''specification'', ''Specification'', True)],
    m_many = [],
    m_stamps = [''id'', ''created_at'', ''updated_at''],
    m_attrs = []\<rparr>"

definition the_ProductSKU :: model where
  "the_ProductSKU = \<lparr>m_name = ''ProductSKU'',
    m_plain = [''sku_code'', ''cost_price'', ''stock_quantity'', ''low_stock_threshold'', ''image'', ''is_active''],
    m_required = [''price''],
    m_links = [(''product'', ''Product'', True)],
    m_many = [(''specifications'', ''SpecificationValue'')],
    m_stamps = [''id'', ''created_at'', ''updated_at''],
    m_attrs = [''is_in_stock'', ''is_low_stock'']\<rparr>"

definition the_ProductAttribute :: model where
  "the_ProductAttribute = \<lparr>m_name = ''ProductAttribute'',
    m_plain = [''name'', ''attribute_type'', ''is_required'', ''sort_order''],
    m_required = [],
    m_links = [(''product'', ''Product'', True)],
    m_many = [],
    m_stamps = [''id'', ''created_at'', ''updated_at''],
    m_attrs = []\<rparr>"

definition the_ProductAttributeOption :: model where
  "the_ProductAttributeOption = \<lparr>m_name = ''ProductAttributeOption'',
    m_plain = [''value'', ''additional_price'', ''sort_order''],
    m_required = [],
    m_links = [(''attribute'', ''ProductAttribute'', True)],
    m_many = [],
    m_stamps = [''id'', ''created_at'', ''updated_at''],
    m_attrs = []\<rparr>"

definition the_InventoryLog :: model where
  "the_InventoryLog = \<lparr>m_name = ''InventoryLog'',
    m_plain = [''action'', ''reference_id'', ''notes''],
    m_required = [''quantity_change'', ''current_quantity''],
    m_links = [(''sku'', ''ProductSKU'', True), (''created_by'', ''User'', False)],
    m_many = [],
    m_stamps = [''id'', ''created_at''],
    m_attrs = []\<rparr>"

definition the_ProductImage :: model where
  "the_ProductImage = \<lparr>m_name = ''ProductImage'',
    m_plain = [''image'', ''alt_text'', ''sort_order''],
    m_required = [],
    m_links = [(''product'', ''Product'', True)],
    m_many = [],
    m_stamps = [''id'', ''created_at'', ''updated_at''],
    m_attrs = []\<rparr>"

definition the_Cart :: model where
  "the_Cart = \<lparr>m_name = ''Cart'',
    m_plain = [''session_key''],
    m_required = [],
    m_links = [(''user'', ''User'', True)],
    m_many = [],
    m_stamps = [''id'', ''created_at'', ''updated_at''],
    m_attrs = [''total_price'', ''total_quantity'']\<rparr>"

definition the_CartItem :: model where
  "the_CartItem = \<lparr>m_name = ''CartItem'',
    m_plain = [''quantity'', ''customization''],
    m_required = [''unit_price''],
    m_links = [(''cart'', ''Cart'', True), (''product'', ''Product'', True), (''sku'', ''ProductSKU'', False)],
    m_many = [(''attribute_options'', ''ProductAttributeOption'')],
    m_stamps = [''id'', ''created_at'', ''updated_at''],
    m_attrs = [''total_price'']\<rparr>"

definition the_Order :: model where
  "the_Order = \<lparr>m_name = ''Order'',
    m_plain = [''order_number'', ''status'', ''order_type'', ''delivery_fee'', ''discount_amount'', ''payment_method'',
     ''payment_status'', ''paid_at'', ''customer_name'', ''customer_phone'', ''customer_notes'',
     ''delivery_address'', ''delivery_time'', ''pickup_time'', ''table_number'', ''completed_at''],
    m_required = [''subtotal'', ''total_amount''],
    m_links = [(''user'', ''User'', False), (''shop'', ''Shop'', True)],
    m_many = [],
    m_stamps = [''id'', ''created_at'', ''updated_at''],
    m_attrs = [''generate_order_number'', ''estimated_preparation_time'']\<rparr>"

definition the_OrderItem :: model where
  "the_OrderItem = \<lparr>m_name = ''OrderItem'',
    m_plain = [''product_name'', ''product_image'', ''specifications'', ''attribute_selections'', ''customization''],
    m_required = [''unit_price'', ''quantity'', ''total_price''],
    m_links = [(''order'', ''Order'', True), (''product'', ''Product'', True), (''sku'', ''ProductSKU'', False)],
    m_many = [],
    m_stamps = [''id''],
    m_attrs = []\<rparr>"

definition the_OrderStatusLog :: model where
  "the_OrderStatusLog = \<lparr>m_name = ''OrderStatusLog'',
    m_plain = [''old_status'', ''new_status'', ''notes''],
    m_required = [],
    m_links = [(''order'', ''Order'', True), (''created_by'', ''User'', False)],
    m_many = [],
    m_stamps = [''id'', ''created_at''],
    m_attrs = []\<rparr>"

definition the_OrderPayment :: model where
  "the_OrderPayment = \<lparr>m_name = ''OrderPayment'',
    m_plain = [''payment_method'', ''payment_status'', ''transaction_id'', ''payment_data'', ''refund_data'', ''paid_at''],
    m_required = [''amount''],
    m_links = [(''order'', ''Order'', True)],
    m_many = [],
    m_stamps = [''id'', ''created_at'', ''updated_at''],
    m_attrs = []\<rparr>"

definition the_PaymentMethod :: model where
  "the_PaymentMethod = \<lparr>m_name = ''PaymentMethod'',
    m_plain = [''name'', ''code'', ''is_active'', ''sort_order'', ''config''],
    m_required = [],
    m_links = [(''shop'', ''Shop'', True)],
    m_many = [],
    m_stamps = [''id'', ''created_at'', ''updated_at''],
    m_attrs = []\<rparr>"

definition the_PaymentTransaction :: model where
  "the_PaymentTransaction = \<lparr>m_name = ''PaymentTransaction'',
    m_plain = [''transaction_no'', ''out_trade_no'', ''status'', ''thirdparty_trade_no'', ''payment_data'', ''refund_amount'',
     ''refund_data'', ''paid_at'', ''refunded_at''],
    m_required = [''amount''],
    m_links = [(''order'', ''Order'', True), (''payment_method'', ''PaymentMethod'', True)],
    m_many = [],
    m_stamps = [''id'', ''created_at'', ''updated_at''],
    m_attrs = [''generate_transaction_no'']\<rparr>"

definition the_RefundRequest :: model where
  "the_RefundRequest = \<lparr>m_name = ''RefundRequest'',
    m_plain = [''refund_no'', ''reason'', ''status'', ''handled_at'', ''reject_reason''],
    m_required = [''refund_amount''],
    m_links = [(''transaction'', ''PaymentTransaction'', True), (''handled_by'', ''User'', False)],
    m_many = [],
    m_stamps = [''id'', ''created_at'', ''updated_at''],
    m_attrs = []\<rparr>"

definition the_WechatPayConfig :: model where
  "the_WechatPayConfig = \<lparr>m_name = ''WechatPayConfig'',
    m_plain = [''app_id'', ''mch_id'', ''api_key'', ''cert_path'', ''key_path'', ''enable_jsapi'', ''enable_miniprogram'',
     ''enable_native'', ''notify_url'', ''refund_notify_url'', ''is_active''],
    m_required = [],
    m_links = [(''shop'', ''Shop'', True)],
    m_many = [],
    m_stamps = [''id'', ''created_at'', ''updated_at''],
    m_attrs = []\<rparr>"

definition the_AlipayConfig :: model where
  "the_AlipayConfig = \<lparr>m_name = ''AlipayConfig'',
    m_plain = [''app_id'', ''app_private_key'', ''alipay_public_key'', ''enable_app'', ''enable_wap'', ''enable_pc'',
     ''notify_url'', ''return_url'', ''is_active''],
    m_required = [],
    m_links = [(''shop'', ''Shop'', True)],
    m_many = [],
    m_stamps = [''id'', ''created_at'', ''updated_at''],
    m_attrs = []\<rparr>"

definition the_Coupon :: model where
  "the_Coupon = \<lparr>m_name = ''Coupon'',
    m_plain = [''name'', ''code'', ''coupon_type'', ''max_discount'', ''min_order_amount'', ''apply_to'', ''apply_to_ids'',
     ''used_quantity'', ''limit_per_user'', ''is_active''],
    m_required = [''value'', ''total_quantity'', ''valid_from'', ''valid_until''],
    m_links = [(''shop'', ''Shop'', True)],
    m_many = [],
    m_stamps = [''id'', ''created_at'', ''updated_at''],
    m_attrs = [''is_available'']\<rparr>"

definition the_UserCoupon :: model where
  "the_UserCoupon = \<lparr>m_name = ''UserCoupon'',
    m_plain = [''status'', ''used_at''],
    m_required = [],
    m_links = [(''user'', ''User'', True), (''coupon'', ''Coupon'', True), (''used_in_order'', ''Order'', False)],
    m_many = [],
    m_stamps = [''id'', ''created_at'', ''updated_at''],
    m_attrs = []\<rparr>"

definition the_CouponRule :: model where
  "the_CouponRule = \<lparr>m_name = ''CouponRule'',
    m_plain = [''name'', ''rule_type'', ''config'', ''is_active''],
    m_required = [],
    m_links = [(''coupon'', ''Coupon'', True), (''shop'', ''Shop'', True)],
    m_many = [],
    m_stamps = [''id'', ''created_at'', ''updated_at''],
    m_attrs = []\<rparr>"

definition the_Promotion :: model where
  "the_Promotion = \<lparr>m_name = ''Promotion'',
    m_plain = [''name'', ''promotion_type'', ''description'', ''condition_amount'', ''condition_quantity'', ''discount_rate'',
     ''discount_amount'', ''gift_quantity'', ''is_active''],
    m_required = [''valid_from'', ''valid_until''],
    m_links = [(''gift_product'', ''Product'', False), (''shop'', ''Shop'', True)],
    m_many = [(''apply_to_products'', ''Product''), (''apply_to_categories'', ''Category'')],
    m_stamps = [''id'', ''created_at'', ''updated_at''],
    m_attrs = [''is_valid'']\<rparr>"

definition the_Printer :: model where
  "the_Printer = \<lparr>m_name = ''Printer'',
    m_plain = [''name'', ''printer_type'', ''brand'', ''device_no'', ''device_key'', ''connection_string'', ''ip_address'',
     ''port'', ''paper_width'', ''copies'', ''auto_print'', ''print_header'', ''print_footer'', ''print_qrcode'',
     ''is_online'', ''is_active''],
    m_required = [],
    m_links = [(''shop'', ''Shop'', True)],
    m_many = [],
    m_stamps = [''id'', ''created_at'', ''updated_at''],
    m_attrs = []\<rparr>"

definition the_PrintTemplate :: model where
  "the_PrintTemplate = \<lparr>m_name = ''PrintTemplate'',
    m_plain = [''name'', ''template_type'', ''header_template'', ''content_template'', ''footer_template'', ''font_size'',
     ''line_spacing'', ''margin_top'', ''margin_bottom'', ''is_default'', ''is_active''],
    m_required = [],
    m_links = [(''shop'', ''Shop'', True)],
    m_many = [],
    m_stamps = [''id'', ''created_at'', ''updated_at''],
    m_attrs = []\<rparr>"

definition the_PrintTask :: model where
  "the_PrintTask = \<lparr>m_name = ''PrintTask'',
    m_plain = [''task_id'', ''content_data'', ''print_content'', ''status'', ''copies'', ''error_message'', ''retry_count'',
     ''printed_at''],
    m_required = [],
    m_links = [(''printer'', ''Printer'', True), (''template'', ''PrintTemplate'', True)],
    m_many = [],
    m_stamps = [''id'', ''created_at'', ''updated_at''],
    m_attrs = []\<rparr>"

definition the_PrintLog :: model where
  "the_PrintLog = \<lparr>m_name = ''PrintLog'',
    m_plain = [''content_type'', ''reference_id'', ''print_content'', ''is_success'', ''copies''],
    m_required = [],
    m_links = [(''printer'', ''Printer'', True), (''task'', ''PrintTask'', False)],
    m_many = [],
    m_stamps = [''id'', ''created_at''],
    m_attrs = []\<rparr>"

definition model_named :: "string \<Rightarrow> model option" where
  "model_named n =
    (if n = ''User'' then Some the_User
     else if n = ''MembershipLevelConfig'' then Some the_MembershipLevelConfig
     else if n = ''PointsLog'' then Some the_PointsLog
     else if n = ''PointsRule'' then Some the_PointsRule
     else if n = ''MemberRecharge'' then Some the_MemberRecharge
     else if n = ''Shop'' then Some the_Shop
     else if n = ''Domain'' then Some the_Domain
     else if n = ''ShopStaff'' then Some the_ShopStaff
     else if n = ''ShopSettings'' then Some the_ShopSettings
     else if n = ''Table'' then Some the_Table
     else if n = ''Category'' then Some the_Category
     else if n = ''Product'' then Some the_Product
     else if n = ''Specification'' then Some the_Specification
     else if n = ''SpecificationValue'' then Some the_SpecificationValue
     else if n = ''ProductSKU'' then Some the_ProductSKU
     else if n = ''ProductAttribute'' then Some the_ProductAttribute
     else if n = ''ProductAttributeOption'' then Some the_ProductAttributeOption
     else if n = ''InventoryLog'' then Some the_InventoryLog
     else if n = ''ProductImage'' then Some the_ProductImage
     else if n = ''Cart'' then Some the_Cart
     else if n = ''CartItem'' then Some the_CartItem
     else if n = ''Order'' then Some the_Order
     else if n = ''OrderItem'' then Some the_OrderItem
     else if n = ''OrderStatusLog'' then Some the_OrderStatusLog
     else if n = ''OrderPayment'' then Some the_OrderPayment
     else if n = ''PaymentMethod'' then Some the_PaymentMethod
     else if n = ''PaymentTransaction'' then Some the_PaymentTransaction
     else if n = ''RefundRequest'' then Some the_RefundRequest
     else if n = ''WechatPayConfig'' then Some the_WechatPayConfig
     else if n = ''AlipayConfig'' then Some the_AlipayConfig
     else if n = ''Coupon'' then Some the_Coupon
     else if n = ''UserCoupon'' then Some the_UserCoupon
     else if n = ''CouponRule'' then Some the_CouponRule
     else if n = ''Promotion'' then Some the_Promotion
     else if n = ''Printer'' then Some the_Printer
     else if n = ''PrintTemplate'' then Some the_PrintTemplate
     else if n = ''PrintTask'' then Some the_PrintTask
     else if n = ''PrintLog'' then Some the_PrintLog
     else None)"

definition editable :: "model \<Rightarrow> string list" where
  "editable m = m_plain m @ m_required m @ map fst (m_links m) @ map fst (m_many m)"

definition field_names :: "model \<Rightarrow> string list" where
  "field_names m = editable m @ m_stamps m"

definition link_target :: "model \<Rightarrow> string \<Rightarrow> string option" where
  "link_target m f = map_of (map (\<lambda>(n, t, _). (n, t)) (m_links m) @ m_many m) f"

section \<open>Admin classes\<close>

text \<open>Who decides on the permissions of a class: Django's model permissions, the mixin of \<open>core/admin_utils.py\<close>, or the
  methods of \<open>ShopAdmin\<close>.  The mixin of \<open>django_tenants\<close> only changes a template.\<close>

datatype gate = ModelPermissions | TenantGate | ShopGate

record inline =
  il_model :: string
  il_fields :: "string list option"
  il_readonly :: "string list"
  il_raw :: "string list"

text \<open>A lookup such as \<open>user__username\<close> is the list of its steps; the fields of all fieldsets are one list.\<close>

record admin_class =
  ac_model :: string
  ac_gate :: gate
  ac_no_add :: bool
  ac_display :: "string list"
  ac_filter :: "string list list"
  ac_search :: "string list list"
  ac_ordering :: "string list"
  ac_readonly :: "string list"
  ac_fields :: "string list option"
  ac_many :: "string list"
  ac_raw :: "string list"
  ac_methods :: "string list"
  ac_inlines :: "inline list"

definition site :: "string \<Rightarrow> gate \<Rightarrow> admin_class" where
  "site m g = \<lparr>ac_model = m, ac_gate = g, ac_no_add = False, ac_display = [], ac_filter = [], ac_search = [],
     ac_ordering = [], ac_readonly = [], ac_fields = None, ac_many = [], ac_raw = [], ac_methods = [], ac_inlines = []\<rparr>"

definition plain_inline :: "string \<Rightarrow> inline" where
  "plain_inline m = \<lparr>il_model = m, il_fields = None, il_readonly = [], il_raw = []\<rparr>"

text \<open>The fieldsets of Django's \<open>UserAdmin\<close>, and the three columns added to it.\<close>

definition user_admin :: admin_class where
  "user_admin = (site ''User'' ModelPermissions)\<lparr>ac_display := [''username'', ''email'', ''phone'', ''user_type'',
      ''is_active'', ''date_joined''], ac_filter := [[''user_type''], [''is_active''], [''is_staff''], [''date_joined'']],
      ac_search := [[''username''], [''email''], [''phone'']], ac_ordering := [''date_joined''], ac_many := [''groups'',
      ''user_permissions''], ac_fields := Some [''username'', ''password'', ''first_name'', ''last_name'', ''email'',
      ''is_active'', ''is_staff'', ''is_superuser'', ''groups'', ''user_permissions'', ''last_login'', ''date_joined'',
      ''user_type'', ''phone'', ''avatar'', ''points'']\<rparr>"

definition users_admin :: "admin_class list" where
  "users_admin = user_admin #
   [(site ''MembershipLevelConfig'' ModelPermissions)\<lparr>ac_display := [''level'', ''name'', ''shop'',
      ''min_points'', ''discount_rate'', ''is_active''], ac_filter := [[''level''], [''is_active''], [''shop'']],
      ac_search := [[''name'']]\<rparr>,
    (site ''PointsRule'' ModelPermissions)\<lparr>ac_display := [''rule_type'', ''name'', ''shop'', ''is_active''],
      ac_filter := [[''rule_type''], [''is_active''], [''shop'']], ac_search := [[''name'']]\<rparr>,
    (site ''PointsLog'' ModelPermissions)\<lparr>ac_display := [''user'', ''points_type'', ''points'',
      ''current_points'', ''created_at''], ac_filter := [[''points_type''], [''created_at''], [''shop'']], ac_search :=
      [[''user'', ''username'']], ac_readonly := [''created_at'']\<rparr>,
    (site ''MemberRecharge'' ModelPermissions)\<lparr>ac_display := [''user'', ''recharge_amount'', ''gift_amount'',
      ''payment_status'', ''created_at''], ac_filter := [[''payment_status''], [''created_at''], [''shop'']], ac_search :=
      [[''user'', ''username'']]\<rparr>]"

definition shops_admin :: "admin_class list" where
  "shops_admin =
   [(site ''Shop'' ShopGate)\<lparr>ac_display := [''name'', ''shop_type'', ''is_active'', ''created_at''], ac_filter :=
      [[''shop_type''], [''is_active''], [''created_at'']], ac_search := [[''name''], [''address''], [''phone'']],
      ac_fields := Some [''name'', ''description'', ''shop_type'', ''is_active'', ''address'', ''phone'', ''email'',
      ''allow_delivery'', ''allow_pickup'', ''allow_dine_in'', ''delivery_fee'', ''minimum_order_amount'',
      ''delivery_radius'', ''schema_name''], ac_inlines := [(plain_inline ''ShopStaff'')\<lparr>il_fields := Some
      [''user'', ''role'', ''is_active'', ''permissions''], il_raw := [''user'']\<rparr>]\<rparr>,
    (site ''Table'' ModelPermissions)\<lparr>ac_display := [''table_number'', ''table_name'', ''shop'', ''table_type'',
      ''status'', ''min_capacity'', ''max_capacity''], ac_filter := [[''table_type''], [''status''], [''shop'']],
      ac_search := [[''table_number''], [''table_name'']], ac_methods := [''generate_qr_codes'']\<rparr>,
    (site ''Domain'' ModelPermissions),
    (site ''ShopStaff'' ModelPermissions)\<lparr>ac_display := [''user'', ''shop'', ''role'', ''is_active'',
      ''created_at''], ac_filter := [[''role''], [''is_active''], [''shop'']], ac_search := [[''user'', ''username''],
      [''user'', ''email''], [''shop'', ''name'']], ac_raw := [''user'', ''shop'']\<rparr>,
    (site ''ShopSettings'' ModelPermissions)\<lparr>ac_display := [''shop'', ''auto_confirm_order'', ''points_enabled'',
      ''updated_at''], ac_search := [[''shop'', ''name'']]\<rparr>]"

definition products_admin :: "admin_class list" where
  "products_admin =
   [(site ''Category'' TenantGate)\<lparr>ac_display := [''name'', ''parent'', ''sort_order'', ''is_active'',
      ''products_count''], ac_filter := [[''is_active''], [''shop'']], ac_search := [[''name'']], ac_ordering :=
      [''sort_order'', ''name''], ac_methods := [''products_count'']\<rparr>,
    (site ''ProductAttribute'' TenantGate)\<lparr>ac_display := [''name'', ''product'', ''attribute_type'',
      ''is_required'', ''sort_order''], ac_filter := [[''attribute_type''], [''is_required'']], ac_inlines :=
      [(plain_inline ''ProductAttributeOption'')]\<rparr>,
    (site ''Product'' TenantGate)\<lparr>ac_display := [''name'', ''category'', ''base_price'', ''status'',
      ''is_featured'', ''created_at''], ac_filter := [[''status''], [''is_featured''], [''category''], [''shop'']],
      ac_search := [[''name''], [''description'']], ac_ordering := [''created_at''], ac_inlines := [(plain_inline
      ''ProductSKU'')\<lparr>il_fields := Some [''sku_code'', ''price'', ''stock_quantity'', ''is_active'',
      ''is_in_stock'', ''is_low_stock''], il_readonly := [''is_in_stock'', ''is_low_stock'']\<rparr>, (plain_inline
      ''ProductImage'')], ac_fields := Some [''name'', ''description'', ''category'', ''shop'', ''base_price'',
      ''cost_price'', ''main_image'', ''status'', ''is_featured'', ''sort_order'', ''allow_customization'',
      ''preparation_time'']\<rparr>,
    (site ''ProductSKU'' TenantGate)\<lparr>ac_display := [''sku_code'', ''product'', ''price'', ''stock_quantity'',
      ''is_in_stock'', ''is_low_stock''], ac_filter := [[''is_active''], [''product'', ''shop'']], ac_search :=
      [[''sku_code''], [''product'', ''name'']], ac_many := [''specifications''], ac_methods := [''is_in_stock'',
      ''is_low_stock'']\<rparr>,
    (site ''Specification'' TenantGate)\<lparr>ac_display := [''name'', ''display_name'', ''shop'', ''sort_order''],
      ac_filter := [[''shop'']], ac_search := [[''name''], [''display_name'']]\<rparr>,
    (site ''SpecificationValue'' TenantGate)\<lparr>ac_display := [''specification'', ''value'', ''display_value'',
      ''sort_order''], ac_filter := [[''specification'']], ac_search := [[''value''], [''display_value'']]\<rparr>,
    (site ''InventoryLog'' TenantGate)\<lparr>ac_display := [''sku'', ''action'', ''quantity_change'',
      ''current_quantity'', ''created_at''], ac_filter := [[''action''], [''created_at'']], ac_search := [[''sku'',
      ''product'', ''name''], [''reference_id'']], ac_readonly := [''created_at''], ac_no_add := True\<rparr>,
    (site ''ProductImage'' ModelPermissions)]"

definition orders_admin :: "admin_class list" where
  "orders_admin =
   [(site ''Cart'' TenantGate)\<lparr>ac_display := [''id'', ''user'', ''total_price'', ''total_quantity'',
      ''created_at''], ac_filter := [[''created_at'']], ac_inlines := [(plain_inline ''CartItem'')\<lparr>il_readonly :=
      [''unit_price'', ''total_price'']\<rparr>], ac_readonly := [''total_price'', ''total_quantity'']\<rparr>,
    (site ''Order'' TenantGate)\<lparr>ac_display := [''order_number'', ''customer_name'', ''customer_phone'',
      ''status'', ''order_type'', ''total_amount'', ''created_at'', ''order_actions''], ac_filter := [[''status''],
      [''order_type''], [''payment_status''], [''created_at''], [''shop'']], ac_search := [[''order_number''],
      [''customer_name''], [''customer_phone'']], ac_readonly := [''order_number'', ''created_at'', ''updated_at''],
      ac_inlines := [(plain_inline ''OrderItem'')\<lparr>il_readonly := [''unit_price'', ''total_price'']\<rparr>,
      (plain_inline ''OrderStatusLog'')\<lparr>il_readonly := [''created_at'']\<rparr>], ac_fields := Some
      [''order_number'', ''status'', ''order_type'', ''shop'', ''subtotal'', ''delivery_fee'', ''discount_amount'',
      ''total_amount'', ''customer_name'', ''customer_phone'', ''customer_notes'', ''delivery_address'',
      ''delivery_time'', ''pickup_time'', ''table_number'', ''payment_method'', ''payment_status'', ''paid_at'',
      ''created_at'', ''updated_at'', ''completed_at''], ac_methods := [''order_actions'']\<rparr>,
    (site ''OrderPayment'' TenantGate)\<lparr>ac_display := [''order'', ''payment_method'', ''payment_status'',
      ''amount'', ''created_at''], ac_filter := [[''payment_method''], [''payment_status''], [''created_at'']], ac_search
      := [[''order'', ''order_number''], [''transaction_id'']], ac_readonly := [''created_at'', ''updated_at'']\<rparr>,
    (site ''CartItem'' ModelPermissions),
    (site ''OrderStatusLog'' ModelPermissions)]"

definition payments_admin :: "admin_class list" where
  "payments_admin =
   [(site ''PaymentMethod'' ModelPermissions)\<lparr>ac_display := [''name'', ''code'', ''shop'', ''is_active'',
      ''sort_order''], ac_filter := [[''code''], [''is_active''], [''shop'']], ac_search := [[''name''],
      [''code'']]\<rparr>,
    (site ''PaymentTransaction'' ModelPermissions)\<lparr>ac_display := [''transaction_no'', ''order'',
      ''payment_method'', ''amount'', ''status'', ''created_at''], ac_filter := [[''status''], [''payment_method''],
      [''created_at'']], ac_search := [[''transaction_no''], [''order'', ''order_number'']], ac_readonly :=
      [''transaction_no'', ''created_at'', ''updated_at'']\<rparr>,
    (site ''RefundRequest'' ModelPermissions)\<lparr>ac_display := [''refund_no'', ''transaction'', ''refund_amount'',
      ''status'', ''created_at''], ac_filter := [[''status''], [''created_at'']], ac_search := [[''refund_no''],
      [''transaction'', ''transaction_no'']]\<rparr>,
    (site ''WechatPayConfig'' ModelPermissions)\<lparr>ac_display := [''shop'', ''app_id'', ''mch_id'', ''is_active''],
      ac_filter := [[''is_active'']]\<rparr>,
    (site ''AlipayConfig'' ModelPermissions)\<lparr>ac_display := [''shop'', ''app_id'', ''is_active''], ac_filter :=
      [[''is_active'']]\<rparr>]"

definition promotions_admin :: "admin_class list" where
  "promotions_admin =
   [(site ''Coupon'' ModelPermissions)\<lparr>ac_display := [''name'', ''code'', ''coupon_type'', ''value'',
      ''total_quantity'', ''used_quantity'', ''is_active''], ac_filter := [[''coupon_type''], [''is_active''],
      [''shop'']], ac_search := [[''name''], [''code'']]\<rparr>,
    (site ''UserCoupon'' ModelPermissions)\<lparr>ac_display := [''user'', ''coupon'', ''status'', ''used_at'',
      ''created_at''], ac_filter := [[''status''], [''created_at'']], ac_search := [[''user'', ''username''], [''coupon'',
      ''name'']]\<rparr>,
    (site ''CouponRule'' ModelPermissions)\<lparr>ac_display := [''name'', ''rule_type'', ''coupon'', ''is_active''],
      ac_filter := [[''rule_type''], [''is_active''], [''shop'']], ac_search := [[''name'']]\<rparr>,
    (site ''Promotion'' ModelPermissions)\<lparr>ac_display := [''name'', ''promotion_type'', ''is_active'',
      ''valid_from'', ''valid_until''], ac_filter := [[''promotion_type''], [''is_active'']], ac_search :=
      [[''name'']]\<rparr>]"

definition printing_admin :: "admin_class list" where
  "printing_admin =
   [(site ''Printer'' ModelPermissions)\<lparr>ac_display := [''name'', ''printer_type'', ''brand'', ''shop'',
      ''is_online'', ''is_active''], ac_filter := [[''printer_type''], [''brand''], [''is_online''], [''is_active''],
      [''shop'']], ac_search := [[''name''], [''device_no'']], ac_methods := [''test_connection'']\<rparr>,
    (site ''PrintTemplate'' ModelPermissions)\<lparr>ac_display := [''name'', ''template_type'', ''shop'',
      ''is_default'', ''is_active''], ac_filter := [[''template_type''], [''is_default''], [''is_active''], [''shop'']],
      ac_search := [[''name'']]\<rparr>,
    (site ''PrintTask'' ModelPermissions)\<lparr>ac_display := [''task_id'', ''printer'', ''status'', ''copies'',
      ''created_at''], ac_filter := [[''status''], [''created_at'']], ac_search := [[''task_id''], [''printer'',
      ''name'']], ac_readonly := [''created_at'', ''updated_at'']\<rparr>,
    (site ''PrintLog'' ModelPermissions)\<lparr>ac_display := [''printer'', ''content_type'', ''reference_id'',
      ''is_success'', ''created_at''], ac_filter := [[''content_type''], [''is_success''], [''created_at'']], ac_search :=
      [[''printer'', ''name''], [''reference_id'']], ac_readonly := [''created_at'']\<rparr>]"

text \<open>The columns that are methods of the class: the products of a category, and the link to an order.\<close>

definition products_count :: "catalog_db \<Rightarrow> category_row \<Rightarrow> nat" where
  "products_count db c = length (qs_filter (\<lambda>p. p_category p = Some (ca_id c)) (db_products db))"

definition order_actions :: "order_row \<Rightarrow> string" where
  "order_actions r = ''<a href='' @ [CHR 0x22] @ ''/admin/orders/order/'' @ dec_int (o_id r) @ ''/change/'' @ [CHR 0x22] @ ''>''
     @ u8 [0xE6, 0x9F, 0xA5, 0xE7, 0x9C, 0x8B] @ ''</a>''"

text \<open>\<open>admin.autodiscover\<close> imports the \<open>admin\<close> module of every installed application.\<close>

definition app_admins :: "(string \<times> admin_class list) list" where
  "app_admins = [(''apps.users'', users_admin), (''apps.shops'', shops_admin), (''apps.products'', products_admin),
     (''apps.orders'', orders_admin), (''apps.payments'', payments_admin), (''apps.promotions'', promotions_admin),
     (''apps.printing'', printing_admin)]"

definition registered :: "string list \<Rightarrow> admin_class list" where
  "registered apps = concat (map snd (filter (\<lambda>(a, _). a \<in> set apps) app_admins))"

section \<open>System checks and forms\<close>

text \<open>A lookup follows references from model to model and ends in a column.\<close>

fun path_ok :: "string \<Rightarrow> string list \<Rightarrow> bool" where
  "path_ok n [] \<longleftrightarrow> False"
| "path_ok n (f # p) \<longleftrightarrow>
     (case model_named n of
        None \<Rightarrow> False
      | Some m \<Rightarrow>
          if p = [] then f \<in> set (field_names m)
          else (case link_target m f of None \<Rightarrow> False | Some t \<Rightarrow> path_ok t p))"

text \<open>The columns a form offers, and whether it can be built: no field twice, every field a column that can be edited, every
  read-only name something that can be shown.\<close>

definition form_fields :: "model \<Rightarrow> string list option \<Rightarrow> string list \<Rightarrow> string list" where
  "form_fields m names readonly = filter (\<lambda>n. n \<notin> set readonly) (case names of None \<Rightarrow> editable m | Some fs \<Rightarrow> fs)"

definition form_ok :: "model \<Rightarrow> string list \<Rightarrow> string list option \<Rightarrow> string list \<Rightarrow> bool" where
  "form_ok m methods names readonly \<longleftrightarrow>
     (case names of None \<Rightarrow> True | Some fs \<Rightarrow> distinct fs)
     \<and> list_all (\<lambda>n. n \<in> set (editable m)) (form_fields m names readonly)
     \<and> list_all (\<lambda>n. n \<in> set (methods @ m_attrs m @ field_names m)) readonly"

definition inline_ok :: "string \<Rightarrow> inline \<Rightarrow> bool" where
  "inline_ok parent i \<longleftrightarrow>
     (case model_named (il_model i) of
        None \<Rightarrow> False
      | Some m \<Rightarrow> length (filter (\<lambda>(n, t, r). t = parent) (m_links m)) = 1 \<and> form_ok m [] (il_fields i) (il_readonly i)
          \<and> list_all (\<lambda>n. n \<in> fst ` set (m_links m)) (il_raw i))"

definition class_ok :: "admin_class \<Rightarrow> bool" where
  "class_ok c \<longleftrightarrow>
     (case model_named (ac_model c) of
        None \<Rightarrow> False
      | Some m \<Rightarrow>
          list_all (\<lambda>n. n \<in> set (ac_methods c @ m_attrs m @ field_names m) \<and> n \<notin> fst ` set (m_many m)) (ac_display c)
          \<and> list_all (path_ok (ac_model c)) (ac_filter c) \<and> list_all (path_ok (ac_model c)) (ac_search c)
          \<and> list_all (\<lambda>n. n \<in> set (field_names m)) (ac_ordering c)
          \<and> form_ok m (ac_methods c) (ac_fields c) (ac_readonly c)
          \<and> list_all (\<lambda>n. n \<in> fst ` set (m_many m)) (ac_many c) \<and> list_all (\<lambda>n. n \<in> fst ` set (m_links m)) (ac_raw c)
          \<and> list_all (inline_ok (ac_model c)) (ac_inlines c))"

text \<open>The columns without which a row cannot be inserted and which the form does not offer; an inline fills the reference to
  its parent.\<close>

definition missing :: "model \<Rightarrow> string list \<Rightarrow> string list" where
  "missing m fs = filter (\<lambda>n. n \<notin> set fs) (m_required m @ map fst (filter (\<lambda>(n, t, r). r) (m_links m)))"

definition missing_in :: "admin_class \<Rightarrow> string list" where
  "missing_in c =
     (case model_named (ac_model c) of
        None \<Rightarrow> []
      | Some m \<Rightarrow> if ac_no_add c then [] else missing m (form_fields m (ac_fields c) (ac_readonly c)))"

definition missing_in_inline :: "string \<Rightarrow> inline \<Rightarrow> string list" where
  "missing_in_inline parent i =
     (case model_named (il_model i) of
        None \<Rightarrow> []
      | Some m \<Rightarrow> filter (\<lambda>n. link_target m n \<noteq> Some parent) (missing m (form_fields m (il_fields i) (il_readonly i))))"

definition incomplete_forms :: "admin_class list \<Rightarrow> (string \<times> string \<times> string list) list" where
  "incomplete_forms cs = filter (\<lambda>(_, _, ns). ns \<noteq> []) (concat (map (\<lambda>c. (ac_model c, ac_model c, missing_in c)
     # map (\<lambda>i. (ac_model c, il_model i, missing_in_inline (ac_model c) i)) (ac_inlines c)) cs))"

section \<open>Permissions\<close>

datatype permission = MayView | MayAdd | MayChange | MayDelete

type_synonym model_permissions = "user_row \<Rightarrow> string \<Rightarrow> permission \<Rightarrow> bool"

text \<open>\<open>ShopAdmin\<close> asks for a row at the shop of the request and, without one, compares with no shop.\<close>

definition shop_admin_staff :: "user_row \<Rightarrow> int option \<Rightarrow> staff_row tbl \<Rightarrow> bool" where
  "shop_admin_staff u tenant t = qs_exists (\<lambda>st. st_user st = u_id u \<and> Some (st_shop st) = tenant \<and> st_active st \<and>
     (st_role st = Owner \<or> st_role st = Manager)) t"

fun gate_allows :: "model_permissions \<Rightarrow> gate \<Rightarrow> string \<Rightarrow> permission \<Rightarrow> user_row \<Rightarrow> int option \<Rightarrow> staff_row tbl \<Rightarrow> bool" where
  "gate_allows has_perm ModelPermissions m p u tenant t = has_perm u m p"
| "gate_allows has_perm TenantGate m MayView u tenant t = has_view_permission u tenant t"
| "gate_allows has_perm TenantGate m MayAdd u tenant t = has_add_permission u tenant t"
| "gate_allows has_perm TenantGate m MayChange u tenant t = has_change_permission u tenant t"
| "gate_allows has_perm TenantGate m MayDelete u tenant t = has_delete_permission u"
| "gate_allows has_perm ShopGate m MayView u tenant t = (u_superuser u \<or> shop_admin_staff u tenant t)"
| "gate_allows has_perm ShopGate m MayAdd u tenant t = has_perm u m MayAdd"
| "gate_allows has_perm ShopGate m MayChange u tenant t = (u_superuser u \<or> shop_admin_staff u tenant t)"
| "gate_allows has_perm ShopGate m MayDelete u tenant t = u_superuser u"

text \<open>The site's own door comes first (theory \<open>Setup\<close>).\<close>

definition admin_allows ::
  "model_permissions \<Rightarrow> admin_class \<Rightarrow> permission \<Rightarrow> user_row \<Rightarrow> int option \<Rightarrow> staff_row tbl \<Rightarrow> bool" where
  "admin_allows has_perm c p u tenant t \<longleftrightarrow> admin_site_entry u \<and> \<not> (p = MayAdd \<and> ac_no_add c)
     \<and> gate_allows has_perm (ac_gate c) (ac_model c) p u tenant t"

definition admin_menu ::
  "model_permissions \<Rightarrow> permission \<Rightarrow> user_row \<Rightarrow> int option \<Rightarrow> staff_row tbl \<Rightarrow> string list" where
  "admin_menu has_perm p u tenant t =
     map ac_model (filter (\<lambda>c. admin_allows has_perm c p u tenant t) (registered INSTALLED_APPS))"

text \<open>No class overrides \<open>get_queryset\<close>: a list that may be viewed shows every row of the table.\<close>

definition changelist ::
  "model_permissions \<Rightarrow> admin_class \<Rightarrow> user_row \<Rightarrow> int option \<Rightarrow> staff_row tbl \<Rightarrow> 'r tbl \<Rightarrow> 'r list reply" where
  "changelist has_perm c u tenant t tab =
     (if admin_allows has_perm c MayView u tenant t \<or> admin_allows has_perm c MayChange u tenant t then OK 200 (rows tab)
      else Reject 403 PermissionDenied)"

section \<open>Lemmas\<close>

lemma admins_ok:
  "list_all class_ok users_admin" "list_all class_ok shops_admin" "list_all class_ok products_admin"
  "list_all class_ok orders_admin" "list_all class_ok payments_admin" "list_all class_ok promotions_admin"
  "list_all class_ok printing_admin"
  by code_simp+

lemma forms_of_apps:
  "incomplete_forms users_admin = []" "incomplete_forms shops_admin = []" "incomplete_forms products_admin = []"
  "incomplete_forms payments_admin = []" "incomplete_forms promotions_admin = []" "incomplete_forms printing_admin = []"
  "incomplete_forms orders_admin =
     [(''Cart'', ''CartItem'', [''unit_price'']), (''Order'', ''OrderItem'', [''unit_price'', ''total_price''])]"
  by code_simp+

lemma registered_apps:
  "registered INSTALLED_APPS = users_admin @ shops_admin @ products_admin @ orders_admin @ payments_admin @ printing_admin"
  by (simp add: registered_def app_admins_def INSTALLED_APPS_def compose_apps_set SHARED_APPS_def TENANT_APPS_def)

lemma incomplete_forms_append: "incomplete_forms (xs @ ys) = incomplete_forms xs @ incomplete_forms ys"
  by (simp add: incomplete_forms_def)

lemma shop_admin_staff_iff: "shop_admin_staff u (Some tn) t = admin_staff_exists u (Some tn) t"
  by (simp add: shop_admin_staff_def admin_staff_exists_def)

text \<open>Without model permissions, a user who is not a superuser depends on the gate of the class alone.\<close>

definition gate_menu :: "gate set \<Rightarrow> string list" where
  "gate_menu gs = map ac_model (filter (\<lambda>c. ac_gate c \<in> gs) (registered INSTALLED_APPS))"

lemma gate_menus:
  "gate_menu {TenantGate, ShopGate} = [''Shop'', ''Category'', ''ProductAttribute'', ''Product'', ''ProductSKU'',
     ''Specification'', ''SpecificationValue'', ''InventoryLog'', ''Cart'', ''Order'', ''OrderPayment'']"
  "map ac_model (filter (\<lambda>c. ac_gate c = TenantGate \<and> \<not> ac_no_add c) (registered INSTALLED_APPS)) =
     [''Category'', ''ProductAttribute'', ''Product'', ''ProductSKU'', ''Specification'', ''SpecificationValue'', ''Cart'',
      ''Order'', ''OrderPayment'']"
  unfolding gate_menu_def registered_apps by code_simp+

section \<open>Properties\<close>

text \<open>The admin site starts: in every class that an installed application registers, each name that is listed, filtered, searched,
  sorted or shown read-only resolves in the models, every form can be built, every inline has one reference to its parent; no
  model is registered twice.\<close>

theorem admin_site_checked:
  "list_all class_ok (registered INSTALLED_APPS) \<and> distinct (map ac_model (registered INSTALLED_APPS))"
proof
  show "list_all class_ok (registered INSTALLED_APPS)" by (simp add: registered_apps admins_ok)
  show "distinct (map ac_model (registered INSTALLED_APPS))" unfolding registered_apps by code_simp
qed

text \<open>Every form of the admin site offers the columns a new row needs, except two inlines: the price of a cart line, and the prices of
  an order line, are read-only and have no default, so adding such a line always violates a NOT NULL constraint.\<close>

theorem admin_inlines_incomplete:
  "incomplete_forms (registered INSTALLED_APPS) =
     [(''Cart'', ''CartItem'', [''unit_price'']), (''Order'', ''OrderItem'', [''unit_price'', ''total_price''])]"
  by (simp add: registered_apps incomplete_forms_append forms_of_apps)

text \<open>What a shop's owner or manager finds in the admin site, when he is a staff user without model permissions: he may view and
  change exactly the shop, the catalogue, the carts and the orders, add to all of these but the shops and the inventory log, and delete nothing;
  in particular neither staff nor settings, which \<open>create_tenant_admin.py\<close> announces.  Anybody else gets nothing.\<close>

theorem tenant_admin_menu:
  assumes "\<And>m p. \<not> has_perm u m p" and "\<not> u_superuser u" and "admin_site_entry u"
  shows "admin_menu has_perm MayView u (Some tn) t = (if admin_staff_exists u (Some tn) t then [''Shop'', ''Category'', ''ProductAttribute'', ''Product'',
        ''ProductSKU'', ''Specification'', ''SpecificationValue'', ''InventoryLog'', ''Cart'', ''Order'', ''OrderPayment''] else [])
    \<and> admin_menu has_perm MayChange u (Some tn) t = admin_menu has_perm MayView u (Some tn) t
    \<and> admin_menu has_perm MayAdd u (Some tn) t = (if admin_staff_exists u (Some tn) t then [''Category'', ''ProductAttribute'', ''Product'', ''ProductSKU'',
        ''Specification'', ''SpecificationValue'', ''Cart'', ''Order'', ''OrderPayment''] else [])
    \<and> admin_menu has_perm MayDelete u (Some tn) t = []"
proof -
  have view: "admin_allows has_perm c p u (Some tn) t \<longleftrightarrow> admin_staff_exists u (Some tn) t \<and> (ac_gate c = TenantGate \<or> ac_gate c = ShopGate)"
    if "p = MayView \<or> p = MayChange" for c p
    using assms(1-3) that
    by (cases "ac_gate c") (auto simp: admin_allows_def has_view_permission_def has_change_permission_def shop_admin_staff_iff)
  have add: "admin_allows has_perm c MayAdd u (Some tn) t \<longleftrightarrow> admin_staff_exists u (Some tn) t \<and> ac_gate c = TenantGate \<and> \<not> ac_no_add c" for c
    using assms(1-3) by (cases "ac_gate c") (auto simp: admin_allows_def has_add_permission_def)
  have del: "\<not> admin_allows has_perm c MayDelete u (Some tn) t" for c
    using assms(1-3) by (cases "ac_gate c") (auto simp: admin_allows_def has_delete_permission_def)
  show ?thesis
    by (simp add: admin_menu_def view add del gate_menus [unfolded gate_menu_def, simplified])
qed

theorem tenant_admin_menu_witness:
  "let u = demo_user\<lparr>u_is_staff := True\<rparr>; none = (\<lambda>_ _ _. False);
       t = \<lparr>rows = [\<lparr>st_id = 1, st_user = 7, st_shop = 3, st_role = Owner, st_active = True, st_perms = []\<rparr>], seq = 1\<rparr>
   in ''Order'' \<in> set (admin_menu none MayChange u (Some 3) t) \<and> ''ShopStaff'' \<notin> set (admin_menu none MayView u (Some 3) t)
     \<and> admin_menu none MayView u (Some 4) t = []"
proof -
  let ?u = "demo_user\<lparr>u_is_staff := True\<rparr>"
  let ?t = "\<lparr>rows = [\<lparr>st_id = 1, st_user = 7, st_shop = 3, st_role = Owner, st_active = True, st_perms = []\<rparr>], seq = 1\<rparr>"
  have u: "\<not> u_superuser ?u" "admin_site_entry ?u" by (simp_all add: demo_user_def admin_site_entry_def)
  have t: "admin_staff_exists ?u (Some 3) ?t" "\<not> admin_staff_exists ?u (Some 4) ?t"
    by (simp_all add: admin_staff_exists_def qs_exists_def demo_user_def)
  show ?thesis
    using tenant_admin_menu [of "\<lambda>_ _ _. False", OF _ u, of 3 ?t] tenant_admin_menu [of "\<lambda>_ _ _. False", OF _ u, of 4 ?t] t
    by (simp add: Let_def)
qed

text \<open>The list of shops is not restricted to one's own: the owner or manager of a single shop is shown every shop of the system, since
  \<open>ShopAdmin\<close> checks that he works for the shop of the request and then lists the whole table.\<close>

theorem shop_list_unrestricted:
  "changelist has_perm (hd shops_admin) u tenant t shops =
     (if admin_site_entry u \<and> (u_superuser u \<or> shop_admin_staff u tenant t) then OK 200 (rows shops)
      else Reject 403 PermissionDenied)"
  by (simp add: changelist_def admin_allows_def shops_admin_def site_def)

end
