(* ===== verification/Interleavings.thy ===== *)
theory Interleavings
  imports Membership Promotions
begin

text \<open>
  Requests that run at the same time.  None of the services locks the row it changes
  (\<open>select_for_update\<close>) or lets the database compute the new value (\<open>F\<close>): they read a row, compute in
  Python and write the whole row back.  Each request is cut here at its queries: a query is one step, and so is a block
  \<open>with transaction.atomic()\<close>, whose writes the other requests see when it commits.  A schedule is the
  list of the workers in the order in which they take their next step.  The requests are those of \<open>PointsService\<close>
  and \<open>CouponService\<close>, whose definitions in \<open>Membership\<close> and \<open>Promotions\<close> take the rows they read as
  arguments or are cut into parts here.
\<close>

section \<open>Schedules\<close>

fun interleave :: "('r \<Rightarrow> 'w \<Rightarrow> 's \<Rightarrow> 'w \<times> 's) \<Rightarrow> (nat \<Rightarrow> 'r) \<Rightarrow> nat list \<Rightarrow> (nat \<Rightarrow> 'w) \<times> 's \<Rightarrow> (nat \<Rightarrow> 'w) \<times> 's" where
  "interleave step rs [] st = st"
| "interleave step rs (i # sch) (ws, s) =
     (case step (rs i) (ws i) s of (w, s') \<Rightarrow> interleave step rs sch (ws(i := w), s'))"

lemma interleave_append:
  "interleave step rs (sch @ sch') st = interleave step rs sch' (interleave step rs sch st)"
  by (induction step rs sch st rule: interleave.induct) (auto split: prod.split)

text \<open>A round in which workers take one step each that leaves the state alone.\<close>

lemma interleave_round:
  assumes "distinct sch" and "\<And>i. i \<in> set sch \<Longrightarrow> step (rs i) (ws i) s = (f i, s)"
  shows "interleave step rs sch (ws, s) = (\<lambda>i. if i \<in> set sch then f i else ws i, s)"
  using assms
proof (induction sch arbitrary: ws)
  case (Cons i sch)
  have "interleave step rs sch (ws(i := f i), s) = (\<lambda>j. if j \<in> set sch then f j else (ws(i := f i)) j, s)"
    using Cons.prems by (intro Cons.IH) auto
  then show ?case using Cons.prems by (auto simp: fun_eq_iff)
qed simp

text \<open>Workers whose steps follow one another are requests served in turn.\<close>

locale served =
  fixes step :: "'r \<Rightarrow> 'w \<Rightarrow> 's \<Rightarrow> 'w \<times> 's" and start :: 'w and steps :: nat
    and handle :: "'r \<Rightarrow> 's \<Rightarrow> 'a \<times> 's" and answer :: "'a \<Rightarrow> 'w"
  assumes alone: "ws i = start \<Longrightarrow> interleave step rs (replicate steps i) (ws, s)
      = (ws(i := answer (fst (handle (rs i) s))), snd (handle (rs i) s))"
begin

lemma serial:
  assumes "distinct sch" and "\<forall>i \<in> set sch. ws i = start"
  shows "snd (interleave step rs (concat (map (replicate steps) sch)) (ws, s)) = run_requests handle (map rs sch) s"
  using assms
proof (induction sch arbitrary: ws s)
  case (Cons i sch)
  then have "ws i = start" "\<forall>j \<in> set sch. (ws(i := answer (fst (handle (rs i) s)))) j = start" by auto
  with Cons show ?case by (simp add: interleave_append alone)
qed simp

end

text \<open>What holds under every schedule: an invariant of the state, with what a worker knows of it from its
  earlier steps, when no step of another worker takes that knowledge away.\<close>

locale interleaved =
  fixes step :: "'r \<Rightarrow> 'w \<Rightarrow> 's \<Rightarrow> 'w \<times> 's" and start :: 'w
    and inv :: "'s \<Rightarrow> bool" and knows :: "'r \<Rightarrow> 'w \<Rightarrow> 's \<Rightarrow> bool"
  assumes knows_start: "inv s \<Longrightarrow> knows r start s"
    and step_inv: "\<lbrakk> inv s; knows r w s; step r w s = (w', s') \<rbrakk> \<Longrightarrow> inv s'"
    and step_knows: "\<lbrakk> inv s; knows r w s; step r w s = (w', s') \<rbrakk> \<Longrightarrow> knows r w' s'"
    and step_stable: "\<lbrakk> inv s; knows r w s; step r w s = (w', s'); knows q v s \<rbrakk> \<Longrightarrow> knows q v s'"
begin

lemma interleave_keeps:
  assumes "inv s" and "\<And>i. knows (rs i) (ws i) s" and "interleave step rs sch (ws, s) = (ws', s')"
  shows "inv s' \<and> (\<forall>i. knows (rs i) (ws' i) s')"
  using assms
proof (induction sch arbitrary: ws s)
  case (Cons i sch)
  obtain w t where st: "step (rs i) (ws i) s = (w, t)" by fastforce
  note I = Cons.prems(1) Cons.prems(2) [of i] st
  have "knows (rs j) ((ws(i := w)) j) t" for j
    using step_knows [OF I] step_stable [OF I Cons.prems(2)] by simp
  moreover have "interleave step rs sch (ws(i := w), t) = (ws', s')" using Cons.prems(3) st by simp
  ultimately show ?case by (rule Cons.IH [OF step_inv [OF I]])
qed simp

lemma schedule_inv:
  assumes "inv s" and "interleave step rs sch (\<lambda>_. start, s) = (ws, s')"
  shows "inv s'"
  using interleave_keeps [OF assms(1) knows_start [OF assms(1)] assms(2)] by blast

end

section \<open>Earning and spending points\<close>

text \<open>The user is loaded when the request is authenticated; the view runs on that instance.\<close>

datatype points_point = Unauthenticated | Authenticated user_row | PointsAnswer "int reply"

fun serve_points :: "auth_lib \<Rightarrow> nat \<Rightarrow> int \<Rightarrow> int \<Rightarrow> points_request \<Rightarrow> user_row \<Rightarrow> accounts_db \<Rightarrow> int reply \<times> accounts_db" where
  "serve_points lib rnd now shop (EarnReq uid n) u db =
     (case earn_points lib rnd now u shop (int n) EarnOrder [] [] db of
        Inl e \<Rightarrow> (Crash e, db)
      | Inr (u', db') \<Rightarrow> (OK 200 (u_available_points u'), db'))"
| "serve_points lib rnd now shop (ConsumeReq uid p) u db = consume_points_view lib rnd now u shop (Some p) None db"

primrec points_user :: "points_request \<Rightarrow> int" where
  "points_user (EarnReq uid n) = uid"
| "points_user (ConsumeReq uid p) = uid"

primrec points_step ::
  "auth_lib \<Rightarrow> nat \<Rightarrow> int \<Rightarrow> int \<Rightarrow> points_request \<Rightarrow> points_point \<Rightarrow> accounts_db \<Rightarrow> points_point \<times> accounts_db" where
  "points_step lib rnd now shop op Unauthenticated = (\<lambda>db.
     (case user_at db (points_user op) of
        None \<Rightarrow> PointsAnswer (Reject 404 (DoesNotExist ''User'')) | Some u \<Rightarrow> Authenticated u, db))"
| "points_step lib rnd now shop op (Authenticated u) = (\<lambda>db.
     case serve_points lib rnd now shop op u db of (r, db') \<Rightarrow> (PointsAnswer r, db'))"
| "points_step lib rnd now shop op (PointsAnswer r) = Pair (PointsAnswer r)"

lemma handle_points_serve:
  "handle_points lib rnd now shop op db =
     (case user_at db (points_user op) of None \<Rightarrow> (Reject 404 (DoesNotExist ''User''), db)
      | Some u \<Rightarrow> serve_points lib rnd now shop op u db)"
  by (cases op) (auto split: option.split)

interpretation points_served: served "points_step lib rnd now shop" Unauthenticated 2 "handle_points lib rnd now shop" PointsAnswer
  for lib rnd now shop
  by unfold_locales (auto simp: numeral_2_eq_2 handle_points_serve split: option.splits prod.splits)

text \<open>A step on an instance, however old, that obeys the rules of a row.\<close>

lemma serve_points_keeps:
  assumes "points_inv db" and "points_ok u" and "user_at db (u_id u) \<noteq> None"
    and "serve_points lib rnd now shop op u db = (r, db')"
  shows "points_inv db'" and "user_at db i \<noteq> None \<Longrightarrow> user_at db' i \<noteq> None"
proof -
  have wf: "accounts_wf db" using assms(1) by (simp add: points_inv_def)
  have "db' = db \<or> (\<exists>u'. points_ok u' \<and> accounts_wf db' \<and> user_at db' = (user_at db)(u_id u := Some u'))"
  proof (cases op)
    case (EarnReq uid n)
    show ?thesis
    proof (cases "earn_points lib rnd now u shop (int n) EarnOrder [] [] db")
      case (Inr x)
      obtain u' d where x: "x = (u', d)" by (cases x)
      with assms(4) EarnReq Inr have "db' = d" by simp
      with earn_points_InrD(1-3) [OF Inr [unfolded x] wf assms(3)] assms(2) show ?thesis
        by (intro disjI2 exI [of _ u']) (simp add: moved_points_def points_ok_def)
    qed (use assms(4) EarnReq in simp)
  next
    case (ConsumeReq uid p)
    show ?thesis
    proof (cases "1 \<le> p \<and> (\<exists>x. consume_points lib rnd now u shop p ConsumeOrder [] ''consume'' db = Inr x)")
      case True
      then obtain u' d where x: "consume_points lib rnd now u shop p ConsumeOrder [] ''consume'' db = Inr (u', d)" by auto
      with assms(4) ConsumeReq True have "db' = d" by (simp add: consume_points_view_def)
      with consume_points_InrD(1-3,5) [OF x wf assms(3)] assms(2) True show ?thesis
        by (intro disjI2 exI [of _ u']) (simp add: moved_points_def points_ok_def)
    next
      case False
      with assms(4) ConsumeReq show ?thesis
        by (auto simp: consume_points_view_def split: if_splits sum.splits exn.splits prod.splits)
    qed
  qed
  then show "points_inv db'" and "user_at db i \<noteq> None \<Longrightarrow> user_at db' i \<noteq> None"
    using assms(1) by (auto simp: points_inv_def list_all_users)
qed

definition points_knows :: "points_request \<Rightarrow> points_point \<Rightarrow> accounts_db \<Rightarrow> bool" where
  "points_knows op w db \<longleftrightarrow> (\<forall>u. w = Authenticated u \<longrightarrow> points_ok u \<and> user_at db (u_id u) \<noteq> None)"

interpretation points_schedules: interleaved "points_step lib rnd now shop" Unauthenticated points_inv points_knows
  for lib rnd now shop
proof unfold_locales
  fix db op w w' db' assume I: "points_inv db" "points_knows op w db" "points_step lib rnd now shop op w db = (w', db')"
  have at: "points_ok u \<and> u_id u = i" if "user_at db i = Some u" for i u
    using that I(1) by (auto simp: points_inv_def list_all_users user_at_iff)
  have "points_inv db' \<and> points_knows op w' db' \<and> (\<forall>q v. points_knows q v db \<longrightarrow> points_knows q v db')"
  proof (cases w)
    case Unauthenticated
    with I(3) have "db' = db" "w' = PointsAnswer (Reject 404 (DoesNotExist ''User'')) \<or> (\<exists>u. user_at db (points_user op) = Some u \<and> w' = Authenticated u)"
      by (auto split: option.splits)
    with I(1) at show ?thesis by (fastforce simp: points_knows_def)
  next
    case (Authenticated u)
    with I(2) have u: "points_ok u" "user_at db (u_id u) \<noteq> None" by (simp_all add: points_knows_def)
    obtain r where r: "serve_points lib rnd now shop op u db = (r, db')" "w' = PointsAnswer r"
      using I(3) Authenticated by (auto split: prod.splits)
    from serve_points_keeps [OF I(1) u r(1)] r(2) show ?thesis by (auto simp: points_knows_def)
  qed (use I in auto)
  then show "points_inv db'" "points_knows op w' db'" "points_knows q v db \<Longrightarrow> points_knows q v db'" for q v by blast+
qed (simp add: points_knows_def)

section \<open>Lemmas: the same copy written again\<close>

text \<open>Saving an instance of a stored row: the row becomes the instance with its numbers filled in, and whether it is refused
  depends on the other rows only.\<close>

definition numbered :: "auth_lib \<Rightarrow> nat \<Rightarrow> user_row \<Rightarrow> user_row" where
  "numbered lib rnd u =
     u\<lparr>u_number := (if falsy (u_number u) then Some (generate_membership_number (u_id u) rnd) else u_number u),
       u_referral := (if falsy (u_referral u) then Some (generate_referral_code lib (u_id u)) else u_referral u)\<rparr>"

definition others :: "int \<Rightarrow> user_row tbl \<Rightarrow> user_row list" where
  "others i t = filter (\<lambda>r. u_id r \<noteq> i) (rows t)"

lemma user_conflict_others: "others (u_id u) t = others (u_id u) s \<Longrightarrow> user_conflict u t = user_conflict u s"
proof -
  have "user_conflict u x = list_ex (\<lambda>r. u_username r = u_username u
      \<or> (u_number u \<noteq> None \<and> u_number r = u_number u) \<or> (u_referral u \<noteq> None \<and> u_referral r = u_referral u)) (others (u_id u) x)" for x
    by (auto simp: user_conflict_def others_def list_ex_iff)
  then show "others (u_id u) t = others (u_id u) s \<Longrightarrow> user_conflict u t = user_conflict u s" by simp
qed

lemma others_t_upd: "u_id v = i \<Longrightarrow> others i (t_upd (\<lambda>r. u_id r = i) (\<lambda>_. v) t) = others i t"
proof -
  have "u_id v = i \<Longrightarrow> filter (\<lambda>r. u_id r \<noteq> i) (map (\<lambda>r. if u_id r = i then v else r) xs) = filter (\<lambda>r. u_id r \<noteq> i) xs" for xs
    by (induction xs) auto
  then show "u_id v = i \<Longrightarrow> others i (t_upd (\<lambda>r. u_id r = i) (\<lambda>_. v) t) = others i t" by (simp add: others_def t_upd_def)
qed

lemma user_save_closed:
  assumes "t_find u_id (u_id u) t \<noteq> None" and "u_id u \<noteq> 0"
  shows "user_save lib rnd u t = (Inr u', t') \<longleftrightarrow>
     int4_ok (u_points u) \<and> int4_ok (u_total_points u) \<and> int4_ok (u_available_points u) \<and> int4_ok (u_used_points u)
     \<and> \<not> user_conflict u t \<and> \<not> user_conflict (numbered lib rnd u) t
     \<and> u' = numbered lib rnd u \<and> t' = t_upd (\<lambda>r. u_id r = u_id u) (\<lambda>_. numbered lib rnd u) t"
proof -
  let ?s = "t_upd (\<lambda>r. u_id r = u_id u) (\<lambda>_. u) t"
  have id: "u_id (numbered lib rnd u) = u_id u" by (simp add: numbered_def)
  have save: "t_save u_id u t = ?s" using assms(1) by (auto simp: t_save_def)
  have conf: "user_conflict (numbered lib rnd u) ?s = user_conflict (numbered lib rnd u) t"
    by (rule user_conflict_others) (simp add: id others_t_upd)
  have same: "numbered lib rnd u = u" if "\<not> falsy (u_number u)" "\<not> falsy (u_referral u)" using that by (simp add: numbered_def)
  have upd: "t_upd (\<lambda>r. u_id r = u_id u)
      (\<lambda>r. r\<lparr>u_number := u_number (numbered lib rnd u), u_referral := u_referral (numbered lib rnd u)\<rparr>) ?s
      = t_upd (\<lambda>r. u_id r = u_id u) (\<lambda>_. numbered lib rnd u) t"
    by (auto simp: t_upd_def numbered_def)
  have nums: "store_numbers (numbered lib rnd u) ?s = (if user_conflict (numbered lib rnd u) t then Inl (IntegrityError ''users'')
      else Inr (t_upd (\<lambda>r. u_id r = u_id u) (\<lambda>_. numbered lib rnd u) t))"
    unfolding store_numbers_def conf id upd by (rule refl)
  have run: "user_save lib rnd u t =
     (if \<not> (int4_ok (u_points u) \<and> int4_ok (u_total_points u) \<and> int4_ok (u_available_points u) \<and> int4_ok (u_used_points u))
      then (Inl (DataError ''users''), t)
      else if user_conflict u t then (Inl (IntegrityError ''users''), t)
      else if falsy (u_number u) \<or> falsy (u_referral u)
      then (case store_numbers (numbered lib rnd u) ?s of Inl e \<Rightarrow> (Inl e, ?s) | Inr t2 \<Rightarrow> (Inr (numbered lib rnd u), t2))
      else (Inr u, ?s))"
  proof (cases "falsy (u_number u)"; cases "falsy (u_referral u)")
  qed (use assms(2) in \<open>simp_all add: user_save_def store_user_def save numbered_def Let_def cong: sum.case_cong\<close>)
  show ?thesis unfolding run nums using same by auto
qed

lemma t_upd_twice: "pk v = i \<Longrightarrow> t_upd (\<lambda>r. pk r = i) (\<lambda>_. v) (t_upd (\<lambda>r. pk r = i) (\<lambda>_. v) t) = t_upd (\<lambda>r. pk r = i) (\<lambda>_. v) t"
  by (auto simp: t_upd_def)

lemma user_save_again:
  assumes "user_save lib rnd u t = (Inr u', t')" and "t_find u_id (u_id u) t \<noteq> None" and "u_id u \<noteq> 0"
  shows "user_save lib rnd u t' = (Inr u', t')"
proof -
  have id: "u_id (numbered lib rnd u) = u_id u" by (simp add: numbered_def)
  note S = assms(1) [unfolded user_save_closed [OF assms(2,3)]]
  have o: "others (u_id u) t' = others (u_id u) t" using S by (simp add: others_t_upd id)
  have "t_find u_id (u_id u) t' \<noteq> None" using user_save_find [OF assms(1,3,2)] by simp
  with S show ?thesis
    using user_conflict_others [of u t' t] user_conflict_others [of "numbered lib rnd u" t' t] o id
    by (simp add: user_save_closed [OF _ assms(3)] t_upd_twice)
qed

lemma consume_again:
  assumes "consume_points lib rnd now u shop p ptype ref notes db = Inr (u', db1)" and "accounts_wf db"
    and "user_at db (u_id u) \<noteq> None" and "db_users d = db_users db \<or> db_users d = db_users db1"
  obtains d1 where "consume_points lib rnd now u shop p ptype ref notes d = Inr (u', d1)" "db_users d1 = db_users db1"
    "log_sum (u_id u) d1 = log_sum (u_id u) d - p"
proof -
  let ?u = "u\<lparr>u_available_points := u_available_points u - p, u_used_points := u_used_points u + p\<rparr>"
  obtain t where le: "p \<le> u_available_points u" and s: "user_save lib rnd ?u (db_users db) = (Inr u', t)"
    and t: "db_users db1 = t" and ok: "int4_ok (- p)" "int4_ok (u_available_points u')"
    using assms(1) by (auto simp: consume_points_def save_user_def add_points_log_def split: if_splits sum.splits prod.splits)
  have id: "u_id u \<noteq> 0" using assms(2,3) t_wf_find_None_0 by (metis accounts_wf_def user_at_def)
  have "user_save lib rnd ?u (db_users d) = (Inr u', t)"
    using assms(3,4) s t id user_save_again [OF s] by (auto simp: user_at_def)
  moreover have "u_id u' = u_id u" using user_save_same_points [OF s] id by (simp add: same_points_def)
  ultimately show thesis
    using le ok t that by (simp add: consume_points_def save_user_def add_points_log_def log_sum_def t_add_def)
qed

text \<open>Any number of workers spend the same points on copies of the row read before the first of them wrote.\<close>

lemma spend_round:
  assumes "consume_points lib rnd now u shop p ConsumeOrder [] ''consume'' db = Inr (u', db1)" and "1 \<le> p"
    and "accounts_wf db" and "user_at db (u_id u) \<noteq> None"
    and "distinct sch" and "\<And>i. i \<in> set sch \<Longrightarrow> ws i = Authenticated u" and "db_users d = db_users db \<or> db_users d = db_users db1"
  shows "\<exists>d'. interleave (points_step lib rnd now shop) (\<lambda>_. ConsumeReq uid p) sch (ws, d)
        = (\<lambda>i. if i \<in> set sch then PointsAnswer (OK 200 (u_available_points u')) else ws i, d')
     \<and> db_users d' = (if sch = [] then db_users d else db_users db1)
     \<and> log_sum (u_id u) d' = log_sum (u_id u) d - int (length sch) * p"
  using assms(5-7)
proof (induction sch arbitrary: ws d)
  case (Cons i sch)
  obtain d1 where d1: "consume_points lib rnd now u shop p ConsumeOrder [] ''consume'' d = Inr (u', d1)" "db_users d1 = db_users db1"
    "log_sum (u_id u) d1 = log_sum (u_id u) d - p"
    by (rule consume_again [OF assms(1,3,4) Cons.prems(3)])
  let ?ws = "ws(i := PointsAnswer (OK 200 (u_available_points u')))"
  have "points_step lib rnd now shop (ConsumeReq uid p) (ws i) d = (PointsAnswer (OK 200 (u_available_points u')), d1)"
    using Cons.prems(2) d1(1) assms(2) by (simp add: consume_points_view_def)
  moreover have "\<exists>d'. interleave (points_step lib rnd now shop) (\<lambda>_. ConsumeReq uid p) sch (?ws, d1)
        = (\<lambda>i. if i \<in> set sch then PointsAnswer (OK 200 (u_available_points u')) else ?ws i, d')
     \<and> db_users d' = (if sch = [] then db_users d1 else db_users db1)
     \<and> log_sum (u_id u) d' = log_sum (u_id u) d1 - int (length sch) * p"
    using Cons.prems d1(2) by (intro Cons.IH) auto
  ultimately show ?case using d1(2,3) by (auto simp: fun_eq_iff algebra_simps)
qed simp

section \<open>Claiming a coupon\<close>

text \<open>\<open>CouponService.claim_coupon\<close> cut at its queries: the coupon, the count of what the user holds, the
  block that stores the holding and the coupon.\<close>

definition claim_read :: "int \<Rightarrow> int option \<Rightarrow> string \<Rightarrow> promo_db \<Rightarrow> coupon_row res" where
  "claim_read now shop code db =
     (case qs_get ''Coupon'' (\<lambda>c. cp_code c = code \<and> Some (cp_shop c) = shop \<and> cp_active c) (db_coupons db) of
        Inl (DoesNotExist m) \<Rightarrow> Inl (ValueError ''coupon does not exist'')
      | Inl e \<Rightarrow> Inl e
      | Inr c \<Rightarrow> if \<not> is_available now c then Inl (ValueError ''coupon not available'') else Inr c)"

definition claim_limit :: "int \<Rightarrow> coupon_row \<Rightarrow> promo_db \<Rightarrow> unit res" where
  "claim_limit uid c db =
     (if cp_limit c \<le> int (qs_count (\<lambda>h. uc_user h = uid \<and> uc_coupon h = cp_id c) (db_holdings db))
      then Inl (ValueError ''claim limit'') else Inr ())"

definition claim_write :: "int \<Rightarrow> coupon_row \<Rightarrow> promo_db \<Rightarrow> (holding_row \<times> promo_db) res" where
  "claim_write uid c db =
     (case holding_create uid (cp_id c) HoldingAvailable db of
        Inl e \<Rightarrow> Inl e
      | Inr (h, db1) \<Rightarrow>
          (case coupon_save (c\<lparr>cp_used := cp_used c + 1\<rparr>) db1 of
             Inl e \<Rightarrow> Inl e
           | Inr db2 \<Rightarrow> Inr (h, db2)))"

lemma claim_coupon_parts:
  "claim_coupon now uid shop code db =
     (case claim_read now shop code db of Inl e \<Rightarrow> Inl e
      | Inr c \<Rightarrow> (case claim_limit uid c db of Inl e \<Rightarrow> Inl e | Inr _ \<Rightarrow> claim_write uid c db))"
  by (auto simp: claim_coupon_def claim_read_def claim_limit_def claim_write_def split: sum.splits exn.splits)

definition claim_refused :: "exn \<Rightarrow> holding_row reply" where
  "claim_refused e = (case e of ValueError m \<Rightarrow> Reject 400 (ValueError m) | _ \<Rightarrow> Crash e)"

datatype claim_point = ClaimStart | CouponRead int coupon_row | LimitPassed int coupon_row | ClaimAnswer "holding_row reply"

primrec claim_step :: "int \<times> request \<times> string \<Rightarrow> claim_point \<Rightarrow> promo_db \<Rightarrow> claim_point \<times> promo_db" where
  "claim_step op ClaimStart = (\<lambda>db. case op of (now, rq, code) \<Rightarrow>
     (case rq_user rq of
        None \<Rightarrow> ClaimAnswer (Reject 401 PermissionDenied)
      | Some u \<Rightarrow>
          if code = [] \<or> 50 < chars code then ClaimAnswer (Reject 400 (ValidationError ''coupon_code''))
          else (case claim_read now (rq_tenant rq) code db of
                  Inl e \<Rightarrow> ClaimAnswer (claim_refused e)
                | Inr c \<Rightarrow> CouponRead (u_id u) c), db))"
| "claim_step op (CouponRead uid c) = (\<lambda>db.
     (case claim_limit uid c db of Inl e \<Rightarrow> ClaimAnswer (claim_refused e) | Inr _ \<Rightarrow> LimitPassed uid c, db))"
| "claim_step op (LimitPassed uid c) = (\<lambda>db.
     case claim_write uid c db of
       Inl e \<Rightarrow> (ClaimAnswer (claim_refused e), db)
     | Inr (h, db') \<Rightarrow> (ClaimAnswer (OK 200 h), db'))"
| "claim_step op (ClaimAnswer r) = Pair (ClaimAnswer r)"

lemma handle_claim_parts:
  "handle_claim (now, rq, code) db =
     (case rq_user rq of
        None \<Rightarrow> (Reject 401 PermissionDenied, db)
      | Some u \<Rightarrow>
          if code = [] \<or> 50 < chars code then (Reject 400 (ValidationError ''coupon_code''), db)
          else (case claim_read now (rq_tenant rq) code db of
                  Inl e \<Rightarrow> (claim_refused e, db)
                | Inr c \<Rightarrow> (case claim_limit (u_id u) c db of
                     Inl e \<Rightarrow> (claim_refused e, db)
                   | Inr _ \<Rightarrow> (case claim_write (u_id u) c db of
                       Inl e \<Rightarrow> (claim_refused e, db)
                     | Inr (h, db') \<Rightarrow> (OK 200 h, db')))))"
  by (auto simp: handle_claim_def claim_view_def claim_coupon_parts claim_refused_def
      split: option.splits sum.splits exn.splits prod.splits)

interpretation claim_served: served claim_step ClaimStart 3 handle_claim ClaimAnswer
proof unfold_locales
  fix ws :: "nat \<Rightarrow> claim_point" and i db and rs :: "nat \<Rightarrow> int \<times> request \<times> string"
  assume "ws i = ClaimStart"
  moreover obtain now rq code where "rs i = (now, rq, code)" by (cases "rs i")
  ultimately show "interleave claim_step rs (replicate 3 i) (ws, db)
      = (ws(i := ClaimAnswer (fst (handle_claim (rs i) db))), snd (handle_claim (rs i) db))"
    by (simp add: numeral_3_eq_3 handle_claim_parts split: option.split sum.split prod.split)
qed

text \<open>What a copy of a coupon says, compared with the database \<open>base\<close> before the schedule: the count it carries is at most the number of
  holdings made since.\<close>

definition counted :: "promo_db \<Rightarrow> coupon_row \<Rightarrow> promo_db \<Rightarrow> bool" where
  "counted base c db \<longleftrightarrow> (\<exists>c0. t_find cp_id (cp_id c) (db_coupons base) = Some c0 \<and> c = c0\<lparr>cp_used := cp_used c\<rparr>
     \<and> cp_used c0 \<le> cp_used c \<and> cp_used c \<le> max (cp_used c0) (cp_total c0)
     \<and> cp_used c - cp_used c0 \<le> int (holders (cp_id c) db) - int (holders (cp_id c) base))"

definition claims_bounded :: "promo_db \<Rightarrow> promo_db \<Rightarrow> bool" where
  "claims_bounded base db \<longleftrightarrow> promo_wf db \<and> (\<forall>c \<in> set (rows (db_coupons db)). counted base c db)
     \<and> (\<forall>i. t_find cp_id i (db_coupons base) \<noteq> None \<longrightarrow> t_find cp_id i (db_coupons db) \<noteq> None)"

definition claim_knows :: "promo_db \<Rightarrow> claim_point \<Rightarrow> promo_db \<Rightarrow> bool" where
  "claim_knows base w db \<longleftrightarrow> (\<forall>uid c. w = CouponRead uid c \<or> w = LimitPassed uid c \<longrightarrow> counted base c db \<and> cp_used c < cp_total c)"

lemma counted_mono: "counted base c db \<Longrightarrow> holders (cp_id c) db \<le> holders (cp_id c) db' \<Longrightarrow> counted base c db'"
  by (fastforce simp: counted_def)

lemma counted_more:
  assumes "counted base c db" and "cp_used c < cp_total c" and "holders (cp_id c) db' = holders (cp_id c) db + 1"
  shows "counted base (c\<lparr>cp_used := cp_used c + 1\<rparr>) db'"
proof -
  obtain c0 where c0: "t_find cp_id (cp_id c) (db_coupons base) = Some c0" "c = c0\<lparr>cp_used := cp_used c\<rparr>"
    "cp_used c0 \<le> cp_used c" "cp_used c \<le> max (cp_used c0) (cp_total c0)"
    "cp_used c - cp_used c0 \<le> int (holders (cp_id c) db) - int (holders (cp_id c) base)"
    using assms(1) by (auto simp: counted_def)
  have "cp_total c = cp_total c0" "cp_id c = cp_id c0" by (subst c0(2), simp)+
  moreover have "c\<lparr>cp_used := cp_used c + 1\<rparr> = c0\<lparr>cp_used := cp_used c + 1\<rparr>"
    by (rule trans [OF arg_cong [OF c0(2), of "\<lambda>x. x\<lparr>cp_used := cp_used c + 1\<rparr>"]]) simp
  ultimately show ?thesis
    using c0(1,3-5) assms(2,3) unfolding counted_def by (intro exI [of _ c0]) simp
qed

lemma claim_writeD:
  assumes "claim_write uid c db = Inr (h, db')" and "promo_wf db" and "t_find cp_id (cp_id c) (db_coupons db) \<noteq> None"
  shows "promo_wf db'" and "db_coupons db' = t_save cp_id (c\<lparr>cp_used := cp_used c + 1\<rparr>) (db_coupons db)"
    and "uc_user h = uid" and "uc_coupon h = cp_id c" and "rows (db_holdings db') = rows (db_holdings db) @ [h]"
    and "holders i db' = holders i db + (if i = cp_id c then 1 else 0)"
proof -
  have new: "\<forall>r \<in> set (rows (db_holdings db)). \<not> (uc_user r = uid \<and> uc_coupon r = cp_id c)"
    and h: "uc_user h = uid" "uc_coupon h = cp_id c" "uc_id h = seq (db_holdings db) + 1"
    and db': "db_holdings db' = \<lparr>rows = rows (db_holdings db) @ [h], seq = seq (db_holdings db) + 1\<rparr>"
      "db_coupons db' = t_save cp_id (c\<lparr>cp_used := cp_used c + 1\<rparr>) (db_coupons db)"
    using assms(1) by (auto simp: claim_write_def holding_create_def coupon_save_def t_add_def qs_exists_iff Let_def
        split: if_splits sum.splits prod.splits)
  have "t_wf cp_id (db_coupons db')" using assms(2,3) by (simp add: db' promo_wf_def t_wf_t_save)
  moreover have "t_wf uc_id (db_holdings db')" using assms(2) h(3) by (auto simp: db' promo_wf_def t_wf_def)
  moreover have "unique_on (\<lambda>h. (uc_user h, uc_coupon h)) (db_holdings db')"
    using assms(2) new h by (auto simp: db' promo_wf_def unique_on_def)
  ultimately show "promo_wf db'" by (simp add: promo_wf_def)
qed (use assms(1) in \<open>auto simp: claim_write_def holding_create_def coupon_save_def t_add_def Let_def holders_def qs_count_def qs_filter_def
        split: if_splits sum.splits prod.splits\<close>)

lemma claim_write_bounded:
  assumes "claims_bounded base db" and "counted base c db" "cp_used c < cp_total c" and "claim_write uid c db = Inr (h, db')"
  shows "claims_bounded base db'" and "counted base d db \<Longrightarrow> counted base d db'"
proof -
  have wf: "promo_wf db" and at: "t_find cp_id (cp_id c) (db_coupons db) \<noteq> None"
    using assms(1,2) by (auto simp: claims_bounded_def counted_def)
  note W = claim_writeD [OF assms(4) wf at]
  show mono: "counted base d db \<Longrightarrow> counted base d db'" for d by (erule counted_mono) (simp add: W(6))
  have "counted base d db'" if "d \<in> set (rows (db_coupons db'))" for d
  proof (cases "d = c\<lparr>cp_used := cp_used c + 1\<rparr>")
    case True
    then show ?thesis using counted_more [OF assms(2,3)] W(6) by simp
  next
    case False
    with that have "d \<in> set (rows (db_coupons db))" using at by (auto simp: W(2) t_save_def t_upd_def)
    then show ?thesis using assms(1) mono by (auto simp: claims_bounded_def)
  qed
  with assms(1) W(1) show "claims_bounded base db'" by (auto simp: claims_bounded_def W(2) t_find_t_save)
qed

interpretation claim_schedules: interleaved claim_step ClaimStart "claims_bounded base" "\<lambda>op. claim_knows base" for base
proof unfold_locales
  fix db w w' db' and op :: "int \<times> request \<times> string"
  assume I: "claims_bounded base db" "claim_knows base w db" "claim_step op w db = (w', db')"
  have "claims_bounded base db' \<and> claim_knows base w' db' \<and> (\<forall>v. claim_knows base v db \<longrightarrow> claim_knows base v db')"
  proof (cases w)
    case ClaimStart
    obtain now rq code where op: "op = (now, rq, code)" by (cases op)
    have "counted base c db \<and> cp_used c < cp_total c" if "claim_read now (rq_tenant rq) code db = Inr c" for c
      using that I(1) qs_get_InrD
      by (fastforce simp: claim_read_def claims_bounded_def is_available_def split: sum.splits exn.splits if_splits)
    moreover have "db' = db" using I(3) ClaimStart by (simp add: op)
    ultimately show ?thesis
      using I ClaimStart by (auto simp: op claim_knows_def split: option.splits if_splits sum.splits)
  next
    case (CouponRead uid c)
    with I show ?thesis by (auto simp: claim_knows_def split: sum.splits)
  next
    case (LimitPassed uid c)
    show ?thesis
    proof (cases "claim_write uid c db")
      case (Inr x)
      obtain h d where x: "x = (h, d)" by (cases x)
      have k: "counted base c db" "cp_used c < cp_total c" using I(2) LimitPassed by (auto simp: claim_knows_def)
      have "db' = d" "w' = ClaimAnswer (OK 200 h)" using I(3) LimitPassed Inr x by simp_all
      with claim_write_bounded [OF I(1) k Inr [unfolded x]] show ?thesis by (auto simp: claim_knows_def)
    qed (use I LimitPassed in \<open>auto simp: claim_knows_def\<close>)
  qed (use I in auto)
  then show "claims_bounded base db'" "claim_knows base w' db'" "claim_knows base v db \<Longrightarrow> claim_knows base v db'" for v by blast+
qed (simp add: claim_knows_def)

text \<open>Users who have all passed the checks on the same copy.\<close>

lemma claim_round:
  assumes "promo_wf d" and "t_find cp_id (cp_id c) (db_coupons d) = Some c'" and "int4_ok (cp_used c + 1)"
    and "distinct sch" and "inj_on uid (set sch)" and "\<And>i. i \<in> set sch \<Longrightarrow> ws i = LimitPassed (uid i) c"
    and "\<And>i h. i \<in> set sch \<Longrightarrow> h \<in> set (rows (db_holdings d)) \<Longrightarrow> uc_coupon h = cp_id c \<Longrightarrow> uc_user h \<noteq> uid i"
  shows "\<exists>ws' d'. interleave claim_step rs sch (ws, d) = (ws', d') \<and> (\<forall>i. i \<notin> set sch \<longrightarrow> ws' i = ws i)
     \<and> (\<forall>i \<in> set sch. \<exists>h. ws' i = ClaimAnswer (OK 200 h) \<and> uc_user h = uid i \<and> uc_coupon h = cp_id c)
     \<and> holders (cp_id c) d' = holders (cp_id c) d + length sch
     \<and> t_find cp_id (cp_id c) (db_coupons d') = Some (if sch = [] then c' else c\<lparr>cp_used := cp_used c + 1\<rparr>)"
  using assms
proof (induction sch arbitrary: ws d c')
  case (Cons i sch)
  have free: "\<not> qs_exists (\<lambda>h. uc_user h = uid i \<and> uc_coupon h = cp_id c) (db_holdings d)"
    using Cons.prems(7) by (auto simp: qs_exists_iff)
  then obtain h d1 where w: "claim_write (uid i) c d = Inr (h, d1)"
    using Cons.prems(3) by (simp add: claim_write_def holding_create_def coupon_save_def t_add_def)
  have "t_find cp_id (cp_id c) (db_coupons d) \<noteq> None" using Cons.prems(2) by simp
  note W = claim_writeD [OF w Cons.prems(1) this]
  let ?ws = "ws(i := ClaimAnswer (OK 200 h))"
  have f: "t_find cp_id (cp_id c) (db_coupons d1) = Some (c\<lparr>cp_used := cp_used c + 1\<rparr>)" by (simp add: W(2) t_find_t_save)
  have others: "uc_user g \<noteq> uid j" if "j \<in> set sch" "g \<in> set (rows (db_holdings d1))" "uc_coupon g = cp_id c" for j g
  proof -
    have "uid i \<noteq> uid j" using that(1) Cons.prems(4,5) by (auto simp: inj_on_def)
    then show ?thesis using that Cons.prems(7) by (auto simp: W(3,5))
  qed
  have rest: "distinct sch" "inj_on uid (set sch)" and ws: "\<And>j. j \<in> set sch \<Longrightarrow> ?ws j = LimitPassed (uid j) c"
    using Cons.prems(4-6) by (auto simp: inj_on_def)
  obtain ws' d' where IH: "interleave claim_step rs sch (?ws, d1) = (ws', d')" "\<forall>j. j \<notin> set sch \<longrightarrow> ws' j = ?ws j"
    "\<forall>j \<in> set sch. \<exists>h. ws' j = ClaimAnswer (OK 200 h) \<and> uc_user h = uid j \<and> uc_coupon h = cp_id c"
    "holders (cp_id c) d' = holders (cp_id c) d1 + length sch"
    "t_find cp_id (cp_id c) (db_coupons d') = Some (c\<lparr>cp_used := cp_used c + 1\<rparr>)"
    using Cons.IH [OF W(1) f Cons.prems(3) rest ws others, unfolded if_cancel] by blast
  have "interleave claim_step rs (i # sch) (ws, d) = (ws', d')" using Cons.prems(6) w IH(1) by simp
  moreover have "i \<notin> set sch" using Cons.prems(4) by simp
  ultimately show ?case using IH W(3,4,6) by auto
qed simp

section \<open>Taking stock\<close>

text \<open>A line of an order moves the stock of its SKU by a number of pieces: \<open>_create_order_items_from_cart\<close>
  loads the SKU of the line and saves it with the new stock, in the transaction of the order.  One worker is one line; the lines
  of one order save together, when it commits.  The second component of the state records the lines that went through.\<close>

datatype stock_point = StockIdle | SkuRead sku_row | StockMoved "unit res"

primrec stock_step ::
  "int \<times> int \<Rightarrow> stock_point \<Rightarrow> catalog_db \<times> (int \<times> int) list \<Rightarrow> stock_point \<times> catalog_db \<times> (int \<times> int) list" where
  "stock_step op StockIdle = (\<lambda>(db, sold).
     (case t_find k_id (fst op) (db_skus db) of
        None \<Rightarrow> StockMoved (Inl (DoesNotExist ''ProductSKU'')) | Some k \<Rightarrow> SkuRead k, db, sold))"
| "stock_step op (SkuRead k) = (\<lambda>(db, sold).
     case sku_save (k\<lparr>k_stock := k_stock k + snd op\<rparr>) db of
       Inl e \<Rightarrow> (StockMoved (Inl e), db, sold)
     | Inr (_, db') \<Rightarrow> (StockMoved (Inr ()), db', sold @ [op]))"
| "stock_step op (StockMoved r) = Pair (StockMoved r)"

definition handle_stock :: "int \<times> int \<Rightarrow> catalog_db \<times> (int \<times> int) list \<Rightarrow> unit res \<times> catalog_db \<times> (int \<times> int) list" where
  "handle_stock op st =
     (case move_stock (fst op) (snd op) (fst st) of
        Inl e \<Rightarrow> (Inl e, st)
      | Inr db' \<Rightarrow> (Inr (), db', snd st @ [op]))"

interpretation stock_served: served stock_step StockIdle 2 handle_stock StockMoved
  by unfold_locales
    (auto simp: numeral_2_eq_2 handle_stock_def move_stock_def split: option.splits sum.splits prod.splits)

text \<open>What a copy of a SKU says of the stock: at least what the lines that went through have left.\<close>

definition stock_covers :: "catalog_db \<Rightarrow> (int \<times> int) list \<Rightarrow> sku_row \<Rightarrow> bool" where
  "stock_covers base sold k \<longleftrightarrow> (\<exists>v. stock_at base (k_id k) = Some v \<and> v + total_of (k_id k) sold \<le> k_stock k \<and> k_stock k \<le> v)"

definition stock_bounded :: "catalog_db \<Rightarrow> catalog_db \<times> (int \<times> int) list \<Rightarrow> bool" where
  "stock_bounded base st \<longleftrightarrow> catalog_wf (fst st) \<and> list_all (stock_covers base (snd st)) (rows (db_skus (fst st)))
     \<and> (\<forall>s. stock_at base s \<noteq> None \<longrightarrow> t_find k_id s (db_skus (fst st)) \<noteq> None)"

definition stock_knows :: "catalog_db \<Rightarrow> int \<times> int \<Rightarrow> stock_point \<Rightarrow> catalog_db \<times> (int \<times> int) list \<Rightarrow> bool" where
  "stock_knows base op w st \<longleftrightarrow> (\<forall>k. w = SkuRead k \<longrightarrow> k_id k = fst op \<and> stock_covers base (snd st) k)"

definition sale_step :: "int \<times> nat \<Rightarrow> stock_point \<Rightarrow> catalog_db \<times> (int \<times> int) list \<Rightarrow> stock_point \<times> catalog_db \<times> (int \<times> int) list" where
  "sale_step op = stock_step (fst op, - int (snd op))"

lemma sale_write:
  assumes "stock_bounded base (db, sold)" and "k_id k = s" "stock_covers base sold k"
    and "sku_save (k\<lparr>k_stock := k_stock k - int q\<rparr>) db = Inr (k', db')"
  shows "stock_bounded base (db', sold @ [(s, - int q)])"
    and "stock_covers base sold j \<Longrightarrow> stock_covers base (sold @ [(s, - int q)]) j"
proof -
  let ?k = "k\<lparr>k_stock := k_stock k - int q\<rparr>"
  have wf: "catalog_wf db" using assms(1) by (simp add: stock_bounded_def)
  have at: "t_find k_id (k_id ?k) (db_skus db) \<noteq> None" using assms(1,3) by (auto simp: stock_bounded_def stock_covers_def)
  note S = sku_save_InrD [OF assms(4) wf at]
  show mono: "stock_covers base sold j \<Longrightarrow> stock_covers base (sold @ [(s, - int q)]) j" for j by (auto simp: stock_covers_def)
  have "stock_covers base (sold @ [(s, - int q)]) j" if "j \<in> set (rows (db_skus db'))" for j
  proof (cases "j = ?k")
    case True
    then show ?thesis using assms(2,3) by (auto simp: stock_covers_def)
  next
    case False
    with that have "j \<in> set (rows (db_skus db))" using at by (auto simp: S(2) t_save_def t_upd_def)
    then show ?thesis using assms(1) mono by (auto simp: stock_bounded_def list_all_iff)
  qed
  with assms(1) S(3,4) show "stock_bounded base (db', sold @ [(s, - int q)])"
    by (auto simp: stock_bounded_def list_all_iff)
qed

interpretation sale_schedules: interleaved sale_step StockIdle "stock_bounded base" "\<lambda>op. stock_knows base (fst op, - int (snd op))" for base
proof unfold_locales
  fix st st' w w' and op :: "int \<times> nat"
  assume I: "stock_bounded base st" "stock_knows base (fst op, - int (snd op)) w st" "sale_step op w st = (w', st')"
  obtain db sold where st: "st = (db, sold)" by (cases st)
  have "stock_bounded base st' \<and> stock_knows base (fst op, - int (snd op)) w' st' \<and> (\<forall>q v. stock_knows base q v st \<longrightarrow> stock_knows base q v st')"
  proof (cases w)
    case StockIdle
    have "stock_covers base sold k \<and> k_id k = i" if "t_find k_id i (db_skus db) = Some k" for i k
      using I(1) t_find_mem [OF that] t_find_pk [OF that] by (auto simp: st stock_bounded_def list_all_iff)
    with I StockIdle show ?thesis by (auto simp: st sale_step_def stock_knows_def split: option.splits)
  next
    case (SkuRead k)
    with I(2) have k: "k_id k = fst op" "stock_covers base sold k" by (auto simp: st stock_knows_def)
    show ?thesis
    proof (cases "sku_save (k\<lparr>k_stock := k_stock k - int (snd op)\<rparr>) db")
      case (Inr x)
      obtain k' d where x: "x = (k', d)" by (cases x)
      have e: "w' = StockMoved (Inr ())" "st' = (d, sold @ [(fst op, - int (snd op))])"
        using I(3) SkuRead Inr x by (simp_all add: st sale_step_def)
      from sale_write [OF I(1) [unfolded st] k Inr [unfolded x]] show ?thesis by (auto simp: e st stock_knows_def)
    qed (use I SkuRead in \<open>auto simp: st sale_step_def stock_knows_def\<close>)
  qed (use I in \<open>auto simp: sale_step_def\<close>)
  then show "stock_bounded base st'" "stock_knows base (fst op, - int (snd op)) w' st'"
    "stock_knows base (fst q, - int (snd q)) v st \<Longrightarrow> stock_knows base (fst q, - int (snd q)) v st'" for q :: "int \<times> nat" and v by blast+
qed (simp add: stock_knows_def)

text \<open>Lines that have all loaded the same stock.\<close>

lemma sku_save_again:
  assumes "sku_save k db = Inr (k, db1)" and "catalog_wf db" and "t_find k_id (k_id k) (db_skus db) \<noteq> None"
  shows "sku_save k db1 = Inr (k, db1)"
proof -
  note S = sku_save_InrD [OF assms]
  have nz: "k_id k \<noteq> 0" using assms(2,3) t_wf_find_None_0 by (metis catalog_wf_def)
  have "t_save k_id k (db_skus db1) = db_skus db1" using assms(3) by (auto simp: S(2) t_save_def t_upd_def find_map_upd t_find_def)
  moreover have "\<not> sku_conflict k (db_skus db1)"
    using assms(1,3) by (auto simp: S(2) sku_save_def sku_conflict_def list_ex_iff t_save_def t_upd_def split: if_splits)
  ultimately show ?thesis using assms(1) nz by (auto simp: sku_save_def split: if_splits)
qed

lemma sale_round:
  assumes "sku_save (k\<lparr>k_stock := k_stock k - int q\<rparr>) db = Inr (k', db1)" and "catalog_wf db" and "t_find k_id s (db_skus db) = Some k"
    and "distinct sch" and "\<And>i. i \<in> set sch \<Longrightarrow> ws i = SkuRead k" and "d = db \<or> d = db1"
  shows "interleave sale_step (\<lambda>_. (s, q)) sch (ws, (d, sold))
    = (\<lambda>i. if i \<in> set sch then StockMoved (Inr ()) else ws i,
       (if sch = [] then d else db1, sold @ replicate (length sch) (s, - int q)))"
  using assms(4-6)
proof (induction sch arbitrary: ws d sold)
  case (Cons i sch)
  have at: "t_find k_id (k_id (k\<lparr>k_stock := k_stock k - int q\<rparr>)) (db_skus db) \<noteq> None"
    using assms(3) t_find_pk [OF assms(3)] by simp
  have k': "k' = k\<lparr>k_stock := k_stock k - int q\<rparr>" by (rule sku_save_InrD(1) [OF assms(1,2) at])
  have "sku_save (k\<lparr>k_stock := k_stock k - int q\<rparr>) d = Inr (k', db1)"
    using Cons.prems(3) assms(1) sku_save_again [OF assms(1) [unfolded k'] assms(2) at] by (auto simp: k')
  then have "sale_step (s, q) (ws i) (d, sold) = (StockMoved (Inr ()), db1, sold @ [(s, - int q)])"
    using Cons.prems(2) by (simp add: sale_step_def)
  moreover have "interleave sale_step (\<lambda>_. (s, q)) sch (ws(i := StockMoved (Inr ())), (db1, sold @ [(s, - int q)]))
    = (\<lambda>j. if j \<in> set sch then StockMoved (Inr ()) else (ws(i := StockMoved (Inr ()))) j,
       (if sch = [] then db1 else db1, (sold @ [(s, - int q)]) @ replicate (length sch) (s, - int q)))"
    using Cons.prems by (intro Cons.IH) auto
  ultimately show ?case by (auto simp: fun_eq_iff)
qed simp

section \<open>Properties\<close>



text \<open>C19: Points can be spent several times over: if the user was loaded for each of n requests before the first of them wrote, and
  one alone would be accepted, then all n are, and each is told the same rest; the balance falls by the points of one request while
  the log records n.\<close>

theorem points_spent_twice:
  assumes "points_inv db" and "handle_points lib rnd now shop (ConsumeReq uid p) db = (OK 200 left, db1)" and "0 < n"
    and "interleave (points_step lib rnd now shop) (\<lambda>_. ConsumeReq uid p) ([0..<n] @ [0..<n]) (\<lambda>_. Unauthenticated, db) = (ws, db')"
  shows "(\<forall>i < n. ws i = PointsAnswer (OK 200 left))
     \<and> available_at db' uid = Some left \<and> available_at db uid = Some (left + p)
     \<and> log_sum uid db' = log_sum uid db - int n * p"
proof -
  have wf: "accounts_wf db" using assms(1) by (simp add: points_inv_def)
  obtain u u' where at: "user_at db uid = Some u" and p: "1 \<le> p" and left: "left = u_available_points u'"
    and c: "consume_points lib rnd now u shop p ConsumeOrder [] ''consume'' db = Inr (u', db1)"
    using assms(2) by (auto simp: consume_points_view_def split: option.splits if_splits sum.splits exn.splits prod.splits)
  have id: "u_id u = uid" using at user_at_iff [OF wf] by blast
  then have ne: "user_at db (u_id u) \<noteq> None" using at by simp
  let ?loaded = "\<lambda>i. if i \<in> set [0..<n] then Authenticated u else Unauthenticated"
  have "interleave (points_step lib rnd now shop) (\<lambda>_. ConsumeReq uid p) [0..<n] (\<lambda>_. Unauthenticated, db) = (?loaded, db)"
    by (rule interleave_round) (simp_all add: at)
  then have run: "interleave (points_step lib rnd now shop) (\<lambda>_. ConsumeReq uid p) [0..<n] (?loaded, db) = (ws, db')"
    using assms(4) by (simp only: interleave_append)
  obtain d' where d': "interleave (points_step lib rnd now shop) (\<lambda>_. ConsumeReq uid p) [0..<n] (?loaded, db)
        = (\<lambda>i. if i \<in> set [0..<n] then PointsAnswer (OK 200 (u_available_points u')) else ?loaded i, d')"
    "db_users d' = db_users db1" "log_sum (u_id u) d' = log_sum (u_id u) db - int n * p"
    using spend_round [OF c p wf ne, of "[0..<n]" ?loaded db uid] assms(3) by auto
  have "user_at db' uid = Some u'" using consume_points_InrD(3) [OF c wf ne] d'(1,2) run id by (simp add: user_at_def fun_eq_iff)
  with consume_points_InrD(1) [OF c wf ne] d'(1,3) run at id show ?thesis
    by (auto simp: left available_at_def moved_points_def)
qed

theorem points_spent_twice_witness:
  "let db = run_requests (handle_points demo_lib 1234 5 3) [EarnReq 7 60] demo_accounts;
       (ws, db') = interleave (points_step demo_lib 1234 5 3) (\<lambda>_. ConsumeReq 7 50) ([0..<4] @ [0..<4]) (\<lambda>_. Unauthenticated, db)
   in ws 3 = PointsAnswer (OK 200 10) \<and> log_sum 7 db' = log_sum 7 db - 200"
proof -
  let ?db = "run_requests (handle_points demo_lib 1234 5 3) [EarnReq 7 60] demo_accounts"
  let ?h = "handle_points demo_lib 1234 5 3 (ConsumeReq 7 50) ?db"
  have inv: "points_inv ?db" using demo_accounts_inv by (rule points_system.run_inv)
  have "fst ?h = OK 200 10" by code_simp
  then have h: "?h = (OK 200 10, snd ?h)" by (simp add: prod_eq_iff)
  obtain ws db' where r: "interleave (points_step demo_lib 1234 5 3) (\<lambda>_. ConsumeReq 7 50) ([0..<4] @ [0..<4])
      (\<lambda>_. Unauthenticated, ?db) = (ws, db')" by fastforce
  from points_spent_twice [OF inv h _ r] show ?thesis unfolding Let_def r by simp
qed

text \<open>A coupon's count never runs ahead of what is held: however the steps of claims are interleaved, the used quantity of every
  coupon never falls below what it was, never passes the issued total, grows by at most the number of new
  holdings, and no user holds a coupon twice; claims whose steps do not overlap act like the same claims served in
  turn.\<close>

theorem claims_interleaved:
  assumes "promo_wf db" and "t_find cp_id i (db_coupons db) = Some c0"
  shows "(let db' = snd (interleave claim_step rs sch (\<lambda>_. ClaimStart, db)) in
     (\<exists>c. t_find cp_id i (db_coupons db') = Some c \<and> c = c0\<lparr>cp_used := cp_used c\<rparr>
        \<and> cp_used c - cp_used c0 \<le> int (holders i db') - int (holders i db)
        \<and> cp_used c0 \<le> cp_used c \<and> cp_used c \<le> max (cp_used c0) (cp_total c0))
     \<and> distinct (map (\<lambda>h. (uc_user h, uc_coupon h)) (rows (db_holdings db'))))
    \<and> snd (interleave claim_step rs (concat (map (replicate 3) [0..<n])) (\<lambda>_. ClaimStart, db))
       = run_requests handle_claim (map rs [0..<n]) db"
proof -
  have start: "claims_bounded db db"
    using assms(1) by (auto simp: claims_bounded_def counted_def promo_wf_def t_wf_find_unique)
  obtain ws db' where r: "interleave claim_step rs sch (\<lambda>_. ClaimStart, db) = (ws, db')" by fastforce
  have b: "claims_bounded db db'" using claim_schedules.schedule_inv [OF start r] .
  then obtain c where c: "t_find cp_id i (db_coupons db') = Some c" using assms(2) by (auto simp: claims_bounded_def)
  then have "counted db c db'" "cp_id c = i" using b t_find_mem [OF c] t_find_pk [OF c] by (auto simp: claims_bounded_def)
  with assms(2) c b have "(\<exists>c. t_find cp_id i (db_coupons db') = Some c \<and> c = c0\<lparr>cp_used := cp_used c\<rparr>
        \<and> cp_used c - cp_used c0 \<le> int (holders i db') - int (holders i db)
        \<and> cp_used c0 \<le> cp_used c \<and> cp_used c \<le> max (cp_used c0) (cp_total c0))
     \<and> distinct (map (\<lambda>h. (uc_user h, uc_coupon h)) (rows (db_holdings db')))"
    by (auto simp: counted_def claims_bounded_def promo_wf_def unique_on_def)
  moreover have "snd (interleave claim_step rs (concat (map (replicate 3) [0..<n])) (\<lambda>_. ClaimStart, db))
       = run_requests handle_claim (map rs [0..<n]) db"
    by (rule claim_served.serial) simp_all
  ultimately show ?thesis by (simp add: r Let_def)
qed

theorem claims_interleaved_witness:
  "let db' = snd (interleave claim_step (\<lambda>i. (5, demo_request, ''TEN'')) [0, 1, 0, 1, 1, 0] (\<lambda>_. ClaimStart, demo_promos))
   in \<exists>c. t_find cp_id 1 (db_coupons db') = Some c \<and> cp_used c \<le> int (holders 1 db') \<and> cp_used c \<le> 1"
proof -
  have f: "t_find cp_id 1 (db_coupons demo_promos) = Some demo_coupon"
    by (simp add: t_find_def demo_promos_def demo_coupon_def)
  have h: "holders 1 demo_promos = 0" by (simp add: holders_def qs_count_def qs_filter_def demo_promos_def empty_tbl_def)
  show ?thesis
    using claims_interleaved [OF demo_promos_wf f, THEN conjunct1, of "\<lambda>i. (5, demo_request, ''TEN'')" "[0, 1, 0, 1, 1, 0]"]
    unfolding Let_def by (auto simp: h demo_coupon_def simp del: interleave.simps)
qed

text \<open>C11: The issued quantity of a coupon does not limit who gets it: when n users whose claims would each be accepted alone have all
  passed the checks before the first of them writes, all n get the coupon, however few are left, and the used quantity
  grows by one.\<close>

theorem claims_overrun:
  assumes "promo_wf db" and "0 < n" and "inj_on (\<lambda>i. u_id (u i)) {..<n}"
    and "\<forall>i < n. rq_user (rq i) = Some (u i) \<and> rq_tenant (rq i) = shop \<and> accepted (fst (claim_view now (rq i) code db))"
    and "interleave claim_step (\<lambda>i. (now, rq i, code)) ([0..<n] @ [0..<n] @ [0..<n]) (\<lambda>_. ClaimStart, db) = (ws, db')"
  shows "\<exists>c \<in> set (rows (db_coupons db)). cp_code c = code
     \<and> (\<forall>i < n. \<exists>h. ws i = ClaimAnswer (OK 200 h) \<and> uc_user h = u_id (u i) \<and> uc_coupon h = cp_id c)
     \<and> holders (cp_id c) db' = holders (cp_id c) db + n
     \<and> t_find cp_id (cp_id c) (db_coupons db') = Some (c\<lparr>cp_used := cp_used c + 1\<rparr>)"
proof -
  have alone: "\<exists>c h d. claim_read now shop code db = Inr c \<and> claim_limit (u_id (u i)) c db = Inr ()
      \<and> claim_write (u_id (u i)) c db = Inr (h, d) \<and> code \<noteq> [] \<and> chars code \<le> 50" if "i < n" for i
    using that assms(4) by (fastforce simp: claim_view_def claim_coupon_parts split: if_splits sum.splits exn.splits prod.splits)
  then obtain c where c: "claim_read now shop code db = Inr c" and code: "code \<noteq> []" "chars code \<le> 50" using assms(2) by blast
  then have each: "claim_limit (u_id (u i)) c db = Inr () \<and> (\<exists>h d. claim_write (u_id (u i)) c db = Inr (h, d))" if "i < n" for i
    using alone [OF that] by auto
  have mem: "c \<in> set (rows (db_coupons db))" "cp_code c = code"
    using c qs_get_InrD by (fastforce simp: claim_read_def split: sum.splits exn.splits if_splits)+
  then have f: "t_find cp_id (cp_id c) (db_coupons db) = Some c" using t_wf_find_unique assms(1) by (auto simp: promo_wf_def)
  have none: "uc_user h \<noteq> u_id (u i)" if "i < n" "h \<in> set (rows (db_holdings db))" "uc_coupon h = cp_id c" for i h
    using each [OF that(1)] that(2,3) by (auto simp: claim_write_def holding_create_def qs_exists_iff split: if_splits)
  have int4: "int4_ok (cp_used c + 1)"
    using each [of 0] assms(2)
    by (auto simp: claim_write_def holding_create_def coupon_save_def Let_def split: if_splits sum.splits prod.splits)
  let ?step = "interleave claim_step (\<lambda>i. (now, rq i, code)) [0..<n]"
  let ?at = "\<lambda>w i. if i \<in> set [0..<n] then w (u_id (u i)) c else ClaimStart"
  have "?step (\<lambda>_. ClaimStart, db) = (?at CouponRead, db)"
    by (rule interleave_round) (use assms(4) c code in auto)
  moreover have "?step (?at CouponRead, db) = (\<lambda>i. if i \<in> set [0..<n] then LimitPassed (u_id (u i)) c else ?at CouponRead i, db)"
    by (rule interleave_round) (use each in auto)
  moreover have "(\<lambda>i. if i \<in> set [0..<n] then LimitPassed (u_id (u i)) c else ?at CouponRead i) = ?at LimitPassed" by auto
  ultimately have run: "?step (?at LimitPassed, db) = (ws, db')"
    using assms(5) by (simp only: interleave_append)
  have "inj_on (\<lambda>i. u_id (u i)) (set [0..<n])" using assms(3) by (simp add: atLeast0LessThan)
  from claim_round [OF assms(1) f int4 distinct_upt this, of "?at LimitPassed" "\<lambda>i. (now, rq i, code)"] none assms(2) run
  show ?thesis using mem by (intro bexI [of _ c]) auto
qed

theorem claims_overrun_witness:
  "\<exists>ws db'. interleave claim_step (\<lambda>i. (5, \<lparr>rq_user = Some (demo_user\<lparr>u_id := int i + 20\<rparr>), rq_tenant = Some 3\<rparr>, ''TEN''))
       ([0..<3] @ [0..<3] @ [0..<3]) (\<lambda>_. ClaimStart, demo_promos) = (ws, db')
     \<and> holders 1 db' = 3 \<and> t_find cp_id 1 (db_coupons db') = Some (demo_coupon\<lparr>cp_used := 1\<rparr>) \<and> cp_total demo_coupon = 1"
proof -
  let ?rq = "\<lambda>i :: nat. \<lparr>rq_user = Some (demo_user\<lparr>u_id := int i + 20\<rparr>), rq_tenant = Some 3\<rparr>"
  obtain ws db' where r: "interleave claim_step (\<lambda>i. (5, ?rq i, ''TEN'')) ([0..<3] @ [0..<3] @ [0..<3]) (\<lambda>_. ClaimStart, demo_promos) = (ws, db')"
    by fastforce
  have "accepted (fst (claim_view 5 (?rq i) ''TEN'' demo_promos))" for i
    by (simp add: claim_view_def claim_coupon_def chars_def holding_create_def coupon_save_def t_add_def qs_get_def qs_filter_def
        qs_count_def qs_exists_def demo_promos_def demo_coupon_def empty_tbl_def is_available_def int4_ok_def Let_def)
  then have all: "\<forall>i < 3. rq_user (?rq i) = Some (demo_user\<lparr>u_id := int i + 20\<rparr>) \<and> rq_tenant (?rq i) = Some 3
      \<and> accepted (fst (claim_view 5 (?rq i) ''TEN'' demo_promos))" by simp
  have inj: "inj_on (\<lambda>i. u_id (demo_user\<lparr>u_id := int i + 20\<rparr>)) {..<3}" by (simp add: inj_on_def)
  from claims_overrun [OF demo_promos_wf _ inj all r] obtain c where
    c: "c \<in> set (rows (db_coupons demo_promos))" "cp_code c = ''TEN''" "holders (cp_id c) db' = holders (cp_id c) demo_promos + 3"
      "t_find cp_id (cp_id c) (db_coupons db') = Some (c\<lparr>cp_used := cp_used c + 1\<rparr>)" by auto
  have "c = demo_coupon" using c(1,2) by (auto simp: demo_promos_def demo_coupon_def)
  with c(3,4) r show ?thesis
    by (auto simp: demo_coupon_def holders_def qs_count_def qs_filter_def demo_promos_def empty_tbl_def)
qed

text \<open>C3: The stock is never understated: however the lines of orders that run at the same time are interleaved, each SKU keeps at least
  its old stock minus what was sold of it, and never gains.\<close>

theorem stock_interleaved:
  assumes "catalog_wf db" and "stock_at db s = Some v"
    and "interleave sale_step rs sch (\<lambda>_. StockIdle, (db, [])) = (ws, (db', sold))"
  shows "\<exists>v'. stock_at db' s = Some v' \<and> v + total_of s sold \<le> v' \<and> v' \<le> v"
proof -
  have "stock_bounded db (db, [])"
    using assms(1) by (auto simp: stock_bounded_def list_all_iff stock_covers_def stock_at_def catalog_wf_def t_wf_find_unique)
  from sale_schedules.schedule_inv [OF this assms(3)] have b: "stock_bounded db (db', sold)" .
  then obtain k where k: "t_find k_id s (db_skus db') = Some k" using assms(2) by (fastforce simp: stock_bounded_def)
  then have "stock_covers db sold k" using b t_find_mem [OF k] by (auto simp: stock_bounded_def list_all_iff)
  then show ?thesis using k t_find_pk [OF k] assms(2) by (auto simp: stock_covers_def stock_at_def)
qed

theorem stock_interleaved_witness:
  "\<exists>ws db' sold v'. interleave sale_step (\<lambda>i. (1, i)) [0, 2, 3, 2, 0, 3] (\<lambda>_. StockIdle, (demo_catalog, [])) = (ws, (db', sold))
     \<and> stock_at db' 1 = Some v' \<and> the (stock_at demo_catalog 1) + total_of 1 sold \<le> v'"
proof -
  obtain ws db' sold where r: "interleave sale_step (\<lambda>i. (1, i)) [0, 2, 3, 2, 0, 3] (\<lambda>_. StockIdle, (demo_catalog, [])) = (ws, (db', sold))"
    by (cases "interleave sale_step (\<lambda>i. (1, i)) [0, 2, 3, 2, 0, 3] (\<lambda>_. StockIdle, (demo_catalog, []))") auto
  obtain v where v: "stock_at demo_catalog 1 = Some v" by (simp add: stock_at_def t_find_def demo_catalog_def)
  from stock_interleaved [OF demo_catalog_wf v r] r v show ?thesis by auto
qed

text \<open>The same pieces can be sold several times over: when n lines of q pieces of a SKU have all loaded it before the first of them saves, and
  one alone would go through, all n go through, and the stock falls by the pieces of one line only.\<close>

theorem stock_oversold:
  assumes "catalog_wf db" and "stock_at db s = Some v" and "move_stock s (- int q) db = Inr db1" and "0 < n"
    and "interleave sale_step (\<lambda>_. (s, q)) ([0..<n] @ [0..<n]) (\<lambda>_. StockIdle, (db, [])) = (ws, (db', sold))"
  shows "(\<forall>i < n. ws i = StockMoved (Inr ())) \<and> stock_at db' s = Some (v - int q) \<and> total_of s sold = - (int n * int q)"
proof -
  obtain k k' where k: "t_find k_id s (db_skus db) = Some k" and sv: "sku_save (k\<lparr>k_stock := k_stock k - int q\<rparr>) db = Inr (k', db1)"
    using assms(3) by (auto simp: move_stock_def split: option.splits sum.splits prod.splits)
  let ?read = "\<lambda>i. if i \<in> set [0..<n] then SkuRead k else StockIdle"
  have "interleave sale_step (\<lambda>_. (s, q)) [0..<n] (\<lambda>_. StockIdle, (db, [])) = (?read, (db, []))"
    by (rule interleave_round) (simp_all add: sale_step_def k)
  moreover have "interleave sale_step (\<lambda>_. (s, q)) [0..<n] (?read, (db, []))
      = (\<lambda>i. if i \<in> set [0..<n] then StockMoved (Inr ()) else ?read i, (db1, replicate n (s, - int q)))"
    using sale_round [OF sv assms(1) k, of "[0..<n]" ?read db "[]"] assms(4) by simp
  ultimately have "ws = (\<lambda>i. if i \<in> set [0..<n] then StockMoved (Inr ()) else ?read i)" "db' = db1" "sold = replicate n (s, - int q)"
    using assms(5) by (auto simp: interleave_append)
  moreover have "stock_at db1 s = Some (v - int q)"
    using stock_ledger.move_level [OF assms(1,3)] assms(2) by simp
  moreover have "total_of s (replicate n (s, - int q)) = - (int n * int q)" by (induction n) (simp_all add: algebra_simps)
  ultimately show ?thesis by simp
qed

theorem stock_oversold_witness:
  "\<exists>ws db' sold. interleave sale_step (\<lambda>_. (1, 1)) ([0..<20] @ [0..<20]) (\<lambda>_. StockIdle, (demo_catalog, [])) = (ws, (db', sold))
     \<and> stock_at db' 1 = Some (the (stock_at demo_catalog 1) - 1) \<and> total_of 1 sold = - 20"
proof -
  obtain ws db' sold where r: "interleave sale_step (\<lambda>_. (1, 1)) ([0..<20] @ [0..<20]) (\<lambda>_. StockIdle, (demo_catalog, [])) = (ws, (db', sold))"
    by (cases "interleave sale_step (\<lambda>_. (1, 1)) ([0..<20] @ [0..<20]) (\<lambda>_. StockIdle, (demo_catalog, []))") auto
  obtain v where v: "stock_at demo_catalog 1 = Some v" by (simp add: stock_at_def t_find_def demo_catalog_def)
  have "res_is (\<lambda>_. True) (move_stock 1 (- int 1) demo_catalog)" by code_simp
  then obtain db1 where "move_stock 1 (- int 1) demo_catalog = Inr db1" by (auto elim: res_isE)
  from stock_oversold [OF demo_catalog_wf v this _ r] r v show ?thesis by auto
qed

end
