(* ===== verification/Sessions.thy ===== *)
theory Sessions
  imports Accounts Texts
begin

text \<open>
  Who a request comes from: the authentication classes of \<open>settings.py\<close> in their order, what \<open>LoginView\<close>,
  \<open>LogoutView\<close>, \<open>ChangePasswordView\<close> and the token view do to sessions and tokens, and what of a login is
  left after logging out or changing the password.

  Django and \<open>simplejwt\<close> contribute, as they document it: \<open>login\<close> stores the user and a hash of the password
  column under a new session key, \<open>logout\<close> drops the session of the request, a session counts while the hash fits and the user
  is active; a token is signed, names its kind, its user and its end, and is checked by these alone, unless the
  blacklist application is installed, which it is not.
\<close>

section \<open>Credentials\<close>

datatype auth_header = NoHeader | Basic string string | Bearer string

record credentials =
  cd_session :: "string option"
  cd_header :: auth_header

record session_db =
  ss_auth :: auth_db
  ss_sessions :: "string \<Rightarrow> (int \<times> string) option"

record session_lib =
  sl_hash :: "string \<Rightarrow> string"
  sl_access :: "int \<Rightarrow> int \<Rightarrow> string"
  sl_refresh :: "int \<Rightarrow> int \<Rightarrow> string"
  sl_read_access :: "int \<Rightarrow> string \<Rightarrow> int option"
  sl_read_refresh :: "int \<Rightarrow> string \<Rightarrow> int option"

text \<open>\<open>SIMPLE_JWT\<close>, in microseconds.\<close>

definition ACCESS_TOKEN_LIFETIME :: int where
  "ACCESS_TOKEN_LIFETIME = 86400 * 1000000"

definition REFRESH_TOKEN_LIFETIME :: int where
  "REFRESH_TOKEN_LIFETIME = 7 * 86400 * 1000000"

definition token_contract :: "session_lib \<Rightarrow> bool" where
  "token_contract L \<longleftrightarrow>
     (\<forall>i t now. 0 \<le> i \<and> 0 \<le> t \<and> t \<le> now \<longrightarrow> sl_read_access L now (sl_access L i t) = (if now < t + ACCESS_TOKEN_LIFETIME then Some i else None)
        \<and> sl_read_refresh L now (sl_refresh L i t) = (if now < t + REFRESH_TOKEN_LIFETIME then Some i else None))
     \<and> inj (sl_hash L)"

text \<open>\<open>SessionAuthentication\<close>, \<open>BasicAuthentication\<close>, \<open>JWTAuthentication\<close>: a class that finds no credential of its kind
  leaves the request to the next; a wrong one of the header ends it with status 401.\<close>

definition session_user :: "session_lib \<Rightarrow> string \<Rightarrow> session_db \<Rightarrow> user_row option" where
  "session_user L key db =
     (case ss_sessions db key of
        None \<Rightarrow> None
      | Some (i, h) \<Rightarrow>
          (case t_find u_id i (au_users (ss_auth db)) of
             None \<Rightarrow> None
           | Some u \<Rightarrow> if u_active u \<and> map_option (sl_hash L) (au_hash (ss_auth db) i) = Some h then Some u else None))"

definition token_user :: "int option \<Rightarrow> session_db \<Rightarrow> user_row option" where
  "token_user token db =
     (case token of
        None \<Rightarrow> None
      | Some i \<Rightarrow> (case t_find u_id i (au_users (ss_auth db)) of
                   None \<Rightarrow> None | Some u \<Rightarrow> if u_active u then Some u else None))"

definition request_user ::
  "session_lib \<Rightarrow> (auth_db \<Rightarrow> string \<Rightarrow> string \<Rightarrow> user_row option) \<Rightarrow> int \<Rightarrow> credentials \<Rightarrow> session_db \<Rightarrow> user_row option res" where
  "request_user L authenticate now c db =
     (case (case cd_session c of None \<Rightarrow> None | Some key \<Rightarrow> session_user L key db) of
        Some u \<Rightarrow> Inr (Some u)
      | None \<Rightarrow>
          (case cd_header c of
             NoHeader \<Rightarrow> Inr None
           | Basic n p \<Rightarrow> (case authenticate (ss_auth db) n p of None \<Rightarrow> Inl PermissionDenied | Some u \<Rightarrow> Inr (Some u))
           | Bearer tok \<Rightarrow> (case token_user (sl_read_access L now tok) db of None \<Rightarrow> Inl PermissionDenied | Some u \<Rightarrow> Inr (Some u))))"

section \<open>Views\<close>

text \<open>\<open>LoginView\<close> reads no credentials but drops the session the browser had; \<open>key\<close> is the new session key.\<close>

record login_answer =
  la_user :: user_data
  la_refresh :: string
  la_access :: string

definition drop_session :: "string option \<Rightarrow> session_db \<Rightarrow> session_db" where
  "drop_session key db =
     (case key of None \<Rightarrow> db | Some k \<Rightarrow> db\<lparr>ss_sessions := (ss_sessions db)(k := None)\<rparr>)"

definition login_request ::
  "session_lib \<Rightarrow> (auth_db \<Rightarrow> string \<Rightarrow> string \<Rightarrow> user_row option) \<Rightarrow> int \<Rightarrow> string \<Rightarrow> credentials \<Rightarrow> string \<Rightarrow> string \<Rightarrow>
   session_db \<Rightarrow> login_answer reply \<times> session_db" where
  "login_request L authenticate now key c n p db =
     (case login_view authenticate n p (ss_auth db) of
        OK k u \<Rightarrow>
          (OK k \<lparr>la_user = user_data_of u, la_refresh = sl_refresh L (u_id u) now, la_access = sl_access L (u_id u) now\<rparr>,
           let db1 = drop_session (cd_session c) db
           in db1\<lparr>ss_sessions := (ss_sessions db1)(key := map_option (\<lambda>h. (u_id u, sl_hash L h)) (au_hash (ss_auth db) (u_id u)))\<rparr>)
      | Reject k e \<Rightarrow> (Reject k e, db)
      | Crash e \<Rightarrow> (Crash e, db))"

text \<open>\<open>LogoutView\<close> has the default permission, which asks for a user in a POST.\<close>

definition logout_request ::
  "session_lib \<Rightarrow> (auth_db \<Rightarrow> string \<Rightarrow> string \<Rightarrow> user_row option) \<Rightarrow> int \<Rightarrow> credentials \<Rightarrow> session_db \<Rightarrow> unit reply \<times> session_db" where
  "logout_request L authenticate now c db =
     (case request_user L authenticate now c db of
        Inl e \<Rightarrow> (Reject 401 e, db)
      | Inr None \<Rightarrow> (Reject 401 PermissionDenied, db)
      | Inr (Some u) \<Rightarrow> (OK 200 (), drop_session (cd_session c) db))"

definition password_request ::
  "session_lib \<Rightarrow> (auth_db \<Rightarrow> string \<Rightarrow> string \<Rightarrow> user_row option) \<Rightarrow> auth_lib \<Rightarrow> pw_lib \<Rightarrow> int \<Rightarrow> nat \<Rightarrow> string \<Rightarrow> credentials \<Rightarrow>
   pw_change \<Rightarrow> session_db \<Rightarrow> unit reply \<times> session_db" where
  "password_request L authenticate lib P now rnd salt c b db =
     (case request_user L authenticate now c db of
        Inl e \<Rightarrow> (Reject 401 e, db)
      | Inr u \<Rightarrow>
          (case change_password lib P rnd salt \<lparr>rq_user = u, rq_tenant = None\<rparr> b (ss_auth db) of
             (r, a) \<Rightarrow> (r, db\<lparr>ss_auth := a\<rparr>)))"

text \<open>\<open>TokenRefreshView\<close> with \<open>ROTATE_REFRESH_TOKENS\<close>; without the blacklist application the old token stays good.\<close>

definition refresh_request :: "session_lib \<Rightarrow> int \<Rightarrow> string \<Rightarrow> session_db \<Rightarrow> (string \<times> string) reply" where
  "refresh_request L now tok db =
     (case token_user (sl_read_refresh L now tok) db of
        None \<Rightarrow> Reject 401 PermissionDenied
      | Some u \<Rightarrow> OK 200 (sl_access L (u_id u) now, sl_refresh L (u_id u) now))"

section \<open>Runs of requests\<close>

datatype session_op = LoginOp int string credentials string string | LogoutOp int credentials
  | PasswordOp int nat string credentials pw_change

primrec handle_session ::
  "session_lib \<Rightarrow> (auth_db \<Rightarrow> string \<Rightarrow> string \<Rightarrow> user_row option) \<Rightarrow> auth_lib \<Rightarrow> pw_lib \<Rightarrow> session_op \<Rightarrow> session_db \<Rightarrow> bool \<times> session_db" where
  "handle_session L A lib P (LoginOp now key c n p) = (\<lambda>db. apfst accepted (login_request L A now key c n p db))"
| "handle_session L A lib P (LogoutOp now c) = (\<lambda>db. apfst accepted (logout_request L A now c db))"
| "handle_session L A lib P (PasswordOp now rnd salt c b) = (\<lambda>db. apfst accepted (password_request L A lib P now rnd salt c b db))"

primrec opens :: "string \<Rightarrow> session_op \<Rightarrow> bool" where
  "opens key (LoginOp now k c n p) \<longleftrightarrow> k = key"
| "opens key (LogoutOp now c) \<longleftrightarrow> False"
| "opens key (PasswordOp now rnd salt c b) \<longleftrightarrow> False"

section \<open>Lemmas\<close>

text \<open>Saving a stored row as it is rewrites at most its numbers, whether it succeeds or not.\<close>

definition account_keys :: "user_row \<Rightarrow> int \<times> string \<times> bool" where
  "account_keys u = (u_id u, u_username u, u_active u)"

lemma user_save_keys:
  assumes "user_save lib rnd u t = (r, t')" and "t_find u_id (u_id u) t = Some u" and "t_wf u_id t"
  shows "map account_keys (rows t') = map account_keys (rows t)" and "seq t' = seq t"
proof -
  have nz: "u_id u \<noteq> 0" using assms(2,3) t_wf_find_None_0 by (metis option.distinct(1))
  have only: "x = u" if "x \<in> set (rows t)" "u_id x = u_id u" for x
    using t_wf_find_unique [OF assms(3) that(1)] that(2) assms(2) by simp
  have save: "t_save u_id u t = t"
  proof -
    have "map (\<lambda>x. if u_id x = u_id u then u else x) (rows t) = rows t" by (rule map_idI) (use only in auto)
    then show ?thesis using assms(2) by (simp add: t_save_def t_upd_def)
  qed
  have "map account_keys (rows (t_upd P (\<lambda>r. r\<lparr>u_number := n, u_referral := m\<rparr>) t)) = map account_keys (rows t)" for P n m
    by (simp add: t_upd_def account_keys_def)
  then show "map account_keys (rows t') = map account_keys (rows t)" and "seq t' = seq t"
    using assms(1) nz save
    by (auto simp: user_save_def store_user_def store_numbers_def Let_def t_upd_def account_keys_def
        split: sum.splits if_splits prod.splits)
qed

lemma same_keys:
  assumes "map account_keys (rows t') = map account_keys (rows t)" and "seq t' = seq t"
  shows "t_wf u_id t' \<longleftrightarrow> t_wf u_id t" and "unique_on u_username t' \<longleftrightarrow> unique_on u_username t"
    and "map_option account_keys (t_find u_id i t') = map_option account_keys (t_find u_id i t)"
proof -
  have ids: "map u_id (rows t') = map u_id (rows t)"
    using arg_cong [OF assms(1), of "map fst"] by (simp add: account_keys_def comp_def)
  have names: "map u_username (rows t') = map u_username (rows t)"
    using arg_cong [OF assms(1), of "map (fst \<circ> snd)"] by (simp add: account_keys_def comp_def)
  have wf: "t_wf u_id x \<longleftrightarrow> distinct (map u_id (rows x)) \<and> (\<forall>i \<in> set (map u_id (rows x)). 0 < i \<and> i \<le> seq x) \<and> 0 \<le> seq x" for x
    by (auto simp: t_wf_def)
  show "t_wf u_id t' \<longleftrightarrow> t_wf u_id t" unfolding wf ids assms(2) ..
  show "unique_on u_username t' \<longleftrightarrow> unique_on u_username t" unfolding unique_on_def names ..
  have "map_option account_keys (t_find u_id i x) = find (\<lambda>k. fst k = i) (map account_keys (rows x))" for x
  proof -
    have "map_option account_keys (find (\<lambda>r. u_id r = i) xs) = find (\<lambda>k. fst k = i) (map account_keys xs)" for xs
      by (induction xs) (auto simp: account_keys_def)
    then show ?thesis by (simp add: t_find_def)
  qed
  then show "map_option account_keys (t_find u_id i t') = map_option account_keys (t_find u_id i t)" by (simp only: assms(1))
qed

lemma change_password_keeps:
  assumes "change_password lib P rnd salt rq b db = (r, db')" and "auth_wf db"
    and "\<And>u. rq_user rq = Some u \<Longrightarrow> u \<in> set (rows (au_users db))"
  shows "auth_wf db'" and "map_option account_keys (t_find u_id i (au_users db')) = map_option account_keys (t_find u_id i (au_users db))"
proof -
  have "au_users db' = au_users db
    \<or> (\<exists>u r. u \<in> set (rows (au_users db)) \<and> user_save lib rnd u (au_users db) = (r, au_users db'))"
    using assms(1,3) by (auto simp: change_password_def save_with_password_def split: option.splits sum.splits prod.splits if_splits)
  then have "map account_keys (rows (au_users db')) = map account_keys (rows (au_users db)) \<and> seq (au_users db') = seq (au_users db)"
    using user_save_keys t_wf_find_unique assms(2) by (fastforce simp: auth_wf_def)
  from same_keys [OF conjunct1 [OF this] conjunct2 [OF this]] assms(2)
  show "auth_wf db'" and "map_option account_keys (t_find u_id i (au_users db')) = map_option account_keys (t_find u_id i (au_users db))"
    by (simp_all add: auth_wf_def)
qed

lemma request_userD:
  assumes "request_user L A now c db = Inr (Some u)" and "backend_contract P A" and "auth_wf (ss_auth db)"
  shows "u \<in> set (rows (au_users (ss_auth db))) \<and> u_active u"
  using assms t_find_mem
  by (fastforce simp: request_user_def session_user_def token_user_def backend_contract_def auth_wf_def
      split: option.splits auth_header.splits if_splits)

text \<open>What no request takes away: the accounts stay, and a session that is gone stays gone until a login opens its key again.\<close>

definition session_inv :: "string \<Rightarrow> int \<Rightarrow> session_db \<Rightarrow> bool" where
  "session_inv key i db \<longleftrightarrow> auth_wf (ss_auth db) \<and> ss_sessions db key = None
     \<and> (\<exists>u. t_find u_id i (au_users (ss_auth db)) = Some u \<and> u_active u)"

lemma login_request_same: "ss_auth (snd (login_request L A now k c n p db)) = ss_auth db"
  by (auto simp: login_request_def drop_session_def Let_def split: reply.splits option.splits)

lemma handle_session_inv:
  assumes "backend_contract P A" and "session_inv key i db" and "\<not> opens key op"
  shows "session_inv key i (snd (handle_session L A lib P op db))"
proof (cases op)
  case (LoginOp now k c n p)
  then have "k \<noteq> key" using assms(3) by simp
  then have "ss_sessions (snd (login_request L A now k c n p db)) key = None"
    using assms(2) by (auto simp: session_inv_def login_request_def drop_session_def Let_def split: reply.splits option.splits)
  with assms(2) LoginOp show ?thesis by (simp add: session_inv_def login_request_same)
next
  case (LogoutOp now c)
  with assms(2) show ?thesis
    by (auto simp: session_inv_def logout_request_def drop_session_def split: sum.splits option.splits)
next
  case (PasswordOp now rnd salt c b)
  show ?thesis
  proof (cases "request_user L A now c db")
    case (Inl e)
    with assms(2) PasswordOp show ?thesis by (simp add: password_request_def)
  next
    case (Inr x)
    obtain r a where ch: "change_password lib P rnd salt \<lparr>rq_user = x, rq_tenant = None\<rparr> b (ss_auth db) = (r, a)" by fastforce
    have wf: "auth_wf (ss_auth db)" using assms(2) by (simp add: session_inv_def)
    have "u \<in> set (rows (au_users (ss_auth db)))" if "rq_user \<lparr>rq_user = x, rq_tenant = None\<rparr> = Some u" for u
      using that request_userD [OF _ assms(1) wf] Inr by simp
    note K = change_password_keeps [OF ch wf this]
    obtain u where "t_find u_id i (au_users (ss_auth db)) = Some u" "u_active u" using assms(2) by (auto simp: session_inv_def)
    then have "\<exists>v. t_find u_id i (au_users a) = Some v \<and> u_active v" using K(2) [of i] by (auto simp: account_keys_def)
    with assms(2) K(1) ch PasswordOp Inr show ?thesis by (simp add: session_inv_def password_request_def)
  qed
qed

lemma run_session_inv:
  assumes "backend_contract P A" and "session_inv key i db" and "list_all (\<lambda>op. \<not> opens key op) ops"
  shows "session_inv key i (run_requests (handle_session L A lib P) ops db)"
  using assms(2,3) by (induction ops arbitrary: db) (auto intro: handle_session_inv [OF assms(1)])

section \<open>Properties\<close>

text \<open>C29: Logging out ends the session and nothing else.  After a login and a logout of its session, whatever logins, logouts and
  password changes follow, the session stays closed unless a login opens the same key; but the access token of the login
  still identifies the user until its day is over, and so does every token that the refresh token buys in its seven days.\<close>

theorem logout_leaves_tokens:
  assumes L: "token_contract L" and P: "backend_contract P authenticate" and wf: "auth_wf (ss_auth db)"
    and login: "login_request L authenticate now key c n p db = (OK 200 a, db1)"
    and logout: "logout_request L authenticate now' \<lparr>cd_session = Some key, cd_header = NoHeader\<rparr> db1 = (OK 200 (), db2)"
    and ops: "list_all (\<lambda>op. \<not> opens key op) ops" and later: "db3 = run_requests (handle_session L authenticate lib P) ops db2"
    and time: "0 \<le> now" "now \<le> t" "t < now + REFRESH_TOKEN_LIFETIME"
  shows "request_user L authenticate t \<lparr>cd_session = Some key, cd_header = NoHeader\<rparr> db3 = Inr None
     \<and> (\<exists>u. u_id u = ud_id (la_user a)
          \<and> (t < now + ACCESS_TOKEN_LIFETIME \<longrightarrow>
               request_user L authenticate t \<lparr>cd_session = None, cd_header = Bearer (la_access a)\<rparr> db3 = Inr (Some u))
          \<and> (\<exists>access refresh. refresh_request L t (la_refresh a) db3 = OK 200 (access, refresh)
               \<and> request_user L authenticate t \<lparr>cd_session = None, cd_header = Bearer access\<rparr> db3 = Inr (Some u)))"
proof -
  obtain u where u: "login_view authenticate n p (ss_auth db) = OK 200 u"
    and a: "a = \<lparr>la_user = user_data_of u, la_refresh = sl_refresh L (u_id u) now, la_access = sl_access L (u_id u) now\<rparr>"
    using login by (auto simp: login_request_def split: reply.splits)
  have same: "ss_auth db1 = ss_auth db" using login_request_same [of L authenticate now key c n p db] login by simp
  have acc: "u \<in> set (rows (au_users (ss_auth db)))" "u_active u"
    using u login_view_OK [OF P wf] by (auto simp: account_of_def)
  have "t_wf u_id (au_users (ss_auth db))" using wf by (simp add: auth_wf_def)
  then have "t_find u_id (u_id u) (au_users (ss_auth db)) = Some u" using acc(1) by (rule t_wf_find_unique)
  moreover have "db2 = drop_session (Some key) db1"
    using logout by (auto simp: logout_request_def split: sum.splits option.splits)
  ultimately have "session_inv key (u_id u) db2" using wf acc same by (simp add: session_inv_def drop_session_def)
  from run_session_inv [OF P this ops] have inv: "session_inv key (u_id u) db3" by (simp only: later)
  then obtain v where v: "t_find u_id (u_id u) (au_users (ss_auth db3)) = Some v" "u_active v" "ss_sessions db3 key = None"
    by (auto simp: session_inv_def)
  have vid: "u_id v = u_id u" by (rule t_find_pk [OF v(1)])
  have token: "token_user (Some (u_id u)) db3 = Some v" by (simp add: token_user_def v)
  have "0 \<le> u_id u" using acc(1) wf by (fastforce simp: auth_wf_def t_wf_def)
  then have read: "sl_read_refresh L t (sl_refresh L (u_id u) now) = Some (u_id u)"
    "sl_read_access L t (sl_access L (u_id u) t) = Some (u_id u)"
    "t < now + ACCESS_TOKEN_LIFETIME \<Longrightarrow> sl_read_access L t (sl_access L (u_id u) now) = Some (u_id u)"
    using L time by (simp_all add: token_contract_def ACCESS_TOKEN_LIFETIME_def)
  show ?thesis
    by (intro conjI exI [of _ v]) (simp_all add: a user_data_of_def vid request_user_def session_user_def v(3) refresh_request_def read token)
qed

text \<open>Tokens without a signature, for the demonstration.\<close>

definition demo_token :: "char \<Rightarrow> int \<Rightarrow> int \<Rightarrow> string" where
  "demo_token k i t = k # dec_of (nat i) @ ''.'' @ dec_of (nat t)"

definition demo_read :: "char \<Rightarrow> int \<Rightarrow> int \<Rightarrow> string \<Rightarrow> int option" where
  "demo_read k life now tok =
     (if tok = [] \<or> hd tok \<noteq> k then None
      else if now < int (undec (tl (dropWhile (\<lambda>c. c \<noteq> CHR ''.'') tok))) + life
      then Some (int (undec (takeWhile (\<lambda>c. c \<noteq> CHR ''.'') (tl tok)))) else None)"

definition demo_sessions :: session_lib where
  "demo_sessions = \<lparr>sl_hash = (\<lambda>h. h), sl_access = demo_token (CHR ''a''), sl_refresh = demo_token (CHR ''r''),
     sl_read_access = demo_read (CHR ''a'') ACCESS_TOKEN_LIFETIME, sl_read_refresh = demo_read (CHR ''r'') REFRESH_TOKEN_LIFETIME\<rparr>"

lemma demo_read_token:
  assumes "0 \<le> i" "0 \<le> t" "k \<noteq> CHR ''.''"
  shows "demo_read k life now (demo_token k i t) = (if now < t + life then Some i else None)"
proof -
  have "CHR ''.'' \<notin> set (dec_of n)" for n by (rule not_in_dec_of) (rule digit_not, simp_all)
  then have all: "\<And>c n. c \<in> set (dec_of n) \<Longrightarrow> c \<noteq> CHR ''.''" by blast
  have "takeWhile (\<lambda>c. c \<noteq> CHR ''.'') (dec_of (nat i) @ CHR ''.'' # s) = dec_of (nat i)"
    "dropWhile (\<lambda>c. c \<noteq> CHR ''.'') (dec_of (nat i) @ CHR ''.'' # s) = CHR ''.'' # s" for s
    using all by (auto simp: takeWhile_append2 dropWhile_append2)
  then show ?thesis using assms by (simp add: demo_read_def demo_token_def undec_dec_of)
qed

lemma demo_token_contract: "token_contract demo_sessions"
  by (simp add: token_contract_def demo_sessions_def demo_read_token inj_on_def)

theorem logout_leaves_tokens_witness:
  "\<exists>a db1 db2 u. login_request demo_sessions demo_backend 5 ''k1'' \<lparr>cd_session = None, cd_header = NoHeader\<rparr> ''amy'' ''s3cretpw''
         \<lparr>ss_auth = demo_auth, ss_sessions = (\<lambda>_. None)\<rparr> = (OK 200 a, db1)
     \<and> logout_request demo_sessions demo_backend 6 \<lparr>cd_session = Some ''k1'', cd_header = NoHeader\<rparr> db1 = (OK 200 (), db2)
     \<and> request_user demo_sessions demo_backend 7 \<lparr>cd_session = Some ''k1'', cd_header = NoHeader\<rparr> db2 = Inr None
     \<and> request_user demo_sessions demo_backend 7 \<lparr>cd_session = None, cd_header = Bearer (la_access a)\<rparr> db2 = Inr (Some u)"
proof -
  let ?db = "\<lparr>ss_auth = demo_auth, ss_sessions = (\<lambda>_. None)\<rparr>" and ?c = "\<lparr>cd_session = None, cd_header = NoHeader\<rparr>"
  let ?login = "login_request demo_sessions demo_backend 5 ''k1'' ?c ''amy'' ''s3cretpw'' ?db"
  have l: "login_view demo_backend ''amy'' ''s3cretpw'' demo_auth = OK 200 demo_user"
    unfolding login_view_OK [OF demo_contracts(2,3)]
    by (simp add: account_of_def demo_auth_def has_password_def demo_pw_def) (simp add: demo_user_def)
  have h: "au_hash demo_auth 7 = Some ''s3cretpw''" "u_id demo_user = 7" "sl_hash demo_sessions x = x" for x
    by (simp_all add: demo_auth_def demo_user_def demo_sessions_def)
  obtain a db1 where login: "?login = (OK 200 a, db1)" by (simp add: login_request_def l)
  then have db1: "db1 = ?db\<lparr>ss_sessions := [''k1'' \<mapsto> (7, ''s3cretpw'')]\<rparr>"
    by (auto simp: login_request_def l h drop_session_def)
  have "session_user demo_sessions ''k1'' db1 = Some demo_user"
    by (simp add: db1 session_user_def demo_auth_def t_find_def demo_sessions_def) (simp add: demo_user_def)
  then obtain db2 where logout: "logout_request demo_sessions demo_backend 6 \<lparr>cd_session = Some ''k1'', cd_header = NoHeader\<rparr> db1 = (OK 200 (), db2)"
    by (simp add: logout_request_def request_user_def)
  have wf: "auth_wf (ss_auth ?db)" using demo_contracts(3) by simp
  have none: "list_all (\<lambda>op. \<not> opens ''k1'' op) []" "db2 = run_requests (handle_session demo_sessions demo_backend demo_lib demo_pw) [] db2"
    by simp_all
  from logout_leaves_tokens [OF demo_token_contract demo_contracts(2) wf login logout none, of 7] login logout
  show ?thesis by (fastforce simp: ACCESS_TOKEN_LIFETIME_def REFRESH_TOKEN_LIFETIME_def)
qed

text \<open>Changing the password ends every session of the user, the one that asked for it included.\<close>

theorem password_change_ends_sessions:
  assumes L: "token_contract L" and P: "backend_contract P authenticate" and wf: "auth_wf (ss_auth db)"
    and user: "request_user L authenticate now c db = Inr (Some u)"
    and change: "password_request L authenticate lib P now rnd salt c b db = (OK 200 (), db')"
    and new: "pc_new b = Some pw" "au_hash (ss_auth db) (u_id u) \<noteq> Some (lib_pw_make P salt pw)"
    and session: "session_user L key db = Some u"
  shows "session_user L key db' = None"
proof -
  have u: "u \<in> set (rows (au_users (ss_auth db)))" using request_userD [OF user P wf] by blast
  obtain a where ch: "change_password lib P rnd salt \<lparr>rq_user = Some u, rq_tenant = None\<rparr> b (ss_auth db) = (OK 200 (), a)"
    and db': "db' = db\<lparr>ss_auth := a\<rparr>"
    using change user by (auto simp: password_request_def split: prod.splits)
  obtain u' where sv: "save_with_password lib rnd u (lib_pw_make P salt pw) (ss_auth db) = (Inr u', a)"
    using ch new(1)
    by (auto simp: change_password_def change_validate_def split: option.splits if_splits sum.splits prod.splits)
  have uwf: "t_wf u_id (au_users (ss_auth db))" using wf by (simp add: auth_wf_def)
  have find: "t_find u_id (u_id u) (au_users (ss_auth db)) = Some u" by (rule t_wf_find_unique [OF uwf u])
  then have "savable u (au_users (ss_auth db))" by (simp add: savable_def)
  note S = save_with_passwordE [OF sv wf this]
  have "u_id u \<noteq> 0" using find uwf t_wf_find_None_0 by (metis option.distinct(1))
  with S(3,4) have hash: "au_hash a (u_id u) = Some (lib_pw_make P salt pw)" by simp
  obtain h where h: "ss_sessions db key = Some (u_id u, h)" "map_option (sl_hash L) (au_hash (ss_auth db) (u_id u)) = Some h"
    using session t_find_pk by (fastforce simp: session_user_def split: option.splits if_splits prod.splits)
  then have "sl_hash L (lib_pw_make P salt pw) \<noteq> h"
    using L new(2) by (auto simp: token_contract_def dest: injD)
  with h(1) hash show ?thesis by (simp add: session_user_def db' split: option.split)
qed

end
