(* ===== verification/Spec2Isabelle.thy ===== *)
theory Spec2Isabelle
  imports Accounts Catalog_Refs Order_Views Payment_Refs Promotion_Views Pos_Rows Printing_Correct Print_Devices Admin_Site Interleavings Sessions
begin

text \<open>
  Verification of Zdrink, a multi-tenant ordering system for drink shops (Django, under
  \<open>src/backend/apps\<close>).

  The program.  A request is served for one tenant (a shop) by a view, which checks a permission
  class, validates the body with a serializer and reads and writes rows through the ORM.  The apps
  are \<open>users\<close> (accounts, membership, points), \<open>core\<close> (permissions), \<open>shops\<close> (tenants, staff,
  settings), \<open>products\<close> (catalogue, stock and its log), \<open>orders\<close> (carts, checkout, order states,
  statistics), \<open>payments\<close> (transactions, providers, refunds), \<open>promotions\<close> (coupons and promotions), \<open>pos\<close> (the
  till: quick orders, splitting and merging bills, tables) and \<open>printing\<close> (receipts and kitchen slips through a
  cloud service).

  Theories, in the order of their imports.
  \<^item> \<open>Prelude_Z\<close>: the shared layer.  A database table is a record of its rows and its id sequence, with
    the ORM's queries (\<open>qs_filter\<close>, \<open>qs_get\<close>, \<open>qs_first\<close>) and writes (\<open>t_add\<close>, \<open>t_upd\<close>, \<open>t_del\<close>);
    an exception is a value of \<open>exn\<close>, a fallible step returns \<open>exn + 'a\<close>, a view returns a \<open>reply\<close>
    (\<open>OK\<close> with its status, \<open>Reject\<close> for a handled error, \<open>Crash\<close> for an exception that becomes
    status 500) together with the database it leaves.  Money is an integer number of cents, rates are
    exact rationals, \<open>dec_mult\<close> is \<open>Decimal\<close> multiplication with its 28 digits.  A \<open>module_env\<close> says
    which of the names \<open>time\<close>, \<open>timezone\<close> and \<open>Decimal\<close> a module has bound.  The locales \<open>ledger\<close>
    and \<open>guarded_system\<close> hold the laws of logged balances and of invariants over request sequences.
  \<^item> \<open>Keyed\<close>: tables with a unique key beside the id; the locale \<open>keyed_table\<close> shows such a table as a map.
  \<^item> \<open>Pages\<close>: the pages that the framework cuts a list into and the rows it serializes for one of them.
  \<^item> \<open>Identity\<close>: the account row and its save (\<open>users/models.py\<close>), \<open>core/permissions.py\<close>, \<open>core/roles.py\<close>,
    \<open>core/admin_utils.py\<close>.
  \<^item> \<open>Tenant_Views\<close>: the actions of a \<open>ModelViewSet\<close> (create, update, destroy, retrieve) over a lookup, a check and a
    write; the locale \<open>tenant_table\<close> derives that only the staff of a shop change its rows.
  \<^item> \<open>Accounts\<close>: registration, login, password change, both profile updates, levels, points rules and recharge
    rows (\<open>users/serializers.py\<close>, \<open>users/api.py\<close>).
  \<^item> \<open>Sessions\<close>: which user a request belongs to (the session, a bearer token), and what logging in, logging out,
    changing the password and refreshing a token do to the credentials of a client.
  \<^item> \<open>Membership\<close>: \<open>users/services.py\<close> and the point views of \<open>users/api.py\<close>.
  \<^item> \<open>Catalog\<close>: stock, SKUs, the public list and the export of the \<open>products\<close> app; \<open>Catalog_Admin\<close>: its other
    endpoints with the cascades of a deletion; \<open>Catalog_Refs\<close>: the references that all of them keep.
  \<^item> \<open>Shops\<close>: the \<open>shops\<close> app; \<open>Setup\<close>: the four \<open>create_*.py\<close> scripts and the QR codes of tables.
  \<^item> \<open>Orders\<close>, \<open>Orders_Correct\<close>: checkout, status and statistics of the \<open>orders\<close> app, its lemmas and properties;
    \<open>Cart_Views\<close>: the management of carts and whose rows a request touches (locale \<open>owned_rows\<close>); \<open>Order_Views\<close>: the
    filtered and paginated list of orders and its representations.
  \<^item> \<open>Payments\<close>, \<open>Payments_Correct\<close>: the services and views of the \<open>payments\<close> app that move money; \<open>Payment_Views\<close>,
    \<open>Payment_Refs\<close>: the management of methods, transactions, refund requests and provider configurations.
  \<^item> \<open>Promotions\<close>: the \<open>promotions\<close> app over the orders: coupons and who holds them, grant rules, discounts;
    \<open>Promotion_Views\<close>: the management of granting rules and promotions.
  \<^item> \<open>Interleavings\<close>: requests of several processes at the same time, cut into the reads and writes of the database
    that the code makes, under every schedule (locales \<open>interleaved\<close> and \<open>served\<close>): the points of a user, the claims
    of a coupon, the stock of a SKU.
  \<^item> \<open>Pos\<close>, \<open>Pos_Correct\<close>, \<open>Pos_Rows\<close>: the \<open>pos\<close> app over payments, coupons and levels, because deleting a merged
    order reaches its transactions and the coupons used in it.  \<open>Pos_Correct\<close> has the properties of the single
    operations, \<open>Pos_Rows\<close> the well-formedness that every sequence of requests keeps.
  \<^item> \<open>Texts\<close>: what printing uses of strings and dates (join, split, replace, decimals, the civil calendar).
  \<^item> \<open>Printing\<close>, \<open>Printing_Correct\<close>: the \<open>printing\<close> app.  The jobs sent to the cloud service are a list in the
    state that no rollback takes back, so that what was printed and what was recorded can be compared.
    \<open>Print_Devices\<close>: the USB and network services, which drive a device, and the admin action that tests a printer.
  \<^item> \<open>Deployment\<close>: the composition of the applications (\<open>zdrink_core/settings.py\<close>), the middleware that lifts the CSRF
    check, and the URL configuration (\<open>zdrink_core/urls.py\<close> and every \<open>urls.py\<close>) with the router's patterns.
  \<^item> \<open>Admin_Site\<close>: the classes registered in \<open>admin.py\<close>, checked against the columns of the models, and their permissions.

  What is shown.  Amounts: an order charges its lines and the delivery fee, a cart accumulates, discounts
  and points are exact in decimal arithmetic.  Stock: checking out and cancelling are inverse, bulk
  updates are all or nothing, the log shows the stock.  Points: balances never go negative and are
  explained by their log.  Payments: a notification settles its order, direct refunds stay within the
  payment.  Access: staff checks never leave the tenant, the permission classes form a hierarchy.  Coupons:
  claims are counted exactly, discounts stay within the order.  The till: splitting and merging conserve the
  pieces and the amounts, every request keeps the rows well formed.  Rows: whatever requests are served, the catalogue, the
  payments and the carts keep their references, and the rows of a shop or the cart of a user are left alone by the
  requests of others.  Requests at the same time: under every schedule the points stay non-negative and the
  stock is never understated, and schedules exist that spend points twice, claim more coupons than there are and sell more than the stock.  Accounts: a password that was set opens its account and no other, a token
  outlives the logout, the level configuration is a map.
  Deployment: every view but one is reached by its path, the setup scripts yield a working shop administrator,
  and what he finds in the admin site.  Printing: a template is filled as written,
  a kitchen slip reads back, a task is retried until it is printed and then no more.  Other properties state
  exactly what goes wrong where the code does not do what it means to.

  Conventions.  A definition is named as the function, method or class it models; each view is one
  definition from the request to the reply, with the guards in the order of the code.  Rows have the
  columns the modelled code reads or writes.  Strings are byte strings in UTF-8; \<open>chars\<close> counts
  characters.  Times are microseconds since the epoch, the local zone is Asia/Shanghai.  An atomic block
  returns its database only on success.  The properties of the payment and order views that the code
  cannot reach as deployed (an unbound name, a missing relation) take the environment as an argument and
  are stated for every environment; \<open>order_views_deployed\<close>, \<open>payments_deployed\<close>, \<open>promotions_deployed\<close>,
  \<open>pos_deployed\<close> and \<open>printing_deployed\<close> state what the deployed one does.

  Shops and schemas.  A state is the rows that one connection to the database sees.  With \<open>django_tenants\<close> the
  users and the shops are shared and the other tables exist once per tenant; the code does not rely on it but filters by the column
  \<open>shop\<close>, and the properties on isolation are about these filters.  Where a finding needs the rows of two shops in one table, it says so.

  Loops are structural recursions over lists, or recursions with a measure (the calendar, \<open>replace_all\<close>, the
  categories that a deletion reaches in \<open>collect_categories\<close>, \<open>hex_of\<close>), so
  there is no fuel anywhere.  Parameters: the password
  hasher and validators and the random suffixes (\<open>auth_lib\<close>, \<open>pw_lib\<close> with \<open>hash_contract\<close> and \<open>backend_contract\<close>), the WeChat client and QR encoder
  (\<open>wechat_lib\<close>), the HTTP answers and the SHA-1 function of the printing service (\<open>cloud\<close>), the libraries of the printing
  devices (\<open>usb_lib\<close>, \<open>net_lib\<close>), the CSRF check (\<open>csrf_contract\<close>), the model permissions of the admin site, the tokens and the
  session keys (\<open>session_lib\<close> with \<open>token_contract\<close>), the rounded float
  of a success rate, the current time and the random hexadecimal digits.

  Not modelled: names and avatar of an account; image files; the creation of database schemas and
  \<open>TenantMixin.save\<close>; query parameters of the generic lists other than the page, except those of orders and carts,
  whose theories have the filters too; the format suffixes of the router; the documentation pages; the frontend.
  Requests at the same time are modelled for the points, the coupon claims and the stock of order lines; every other
  request runs alone.
\<close>

end
